(* ===== verification/Floati_Prelude.thy ===== *)
theory Floati_Prelude
  imports Main "HOL-Library.List_Lexorder" "HOL-Library.Char_ord" "HOL-Library.AList"
begin

text \<open>
  Vocabulary shared by every component of the development.

  The code signals failure by raising one of the classes of \<open>floati/errors.py\<close>; each
  carries a stable machine-readable code.  A fallible operation returns a value of
  \<open>'a res\<close>: \<open>Inl\<close> the exception with its code, \<open>Inr\<close> the result.  \<open>Uncaught\<close> is any
  other Python exception that leaves the operation, with the name of its class, and
  \<open>NotModelled\<close> an outcome that the model does not compute.  The human
  readable \<open>detail\<close> and \<open>remedy\<close> texts are left out: no code under \<open>src/\<close> branches
  on them.

  Every durable ledger of the program is read by a loop that folds one step function
  over the rows in physical order and stops at the first exception; \<open>replay\<close> is that
  loop and the locale \<open>projection\<close> is what it promises to its clients.
\<close>

text \<open>Definitions that are unfolded to run the model on a concrete input.\<close>

named_theorems evaluate

lemma list_all_replicate [evaluate]: "list_all P (replicate n x) \<longleftrightarrow> n = 0 \<or> P x"
  by (auto simp: list_all_iff)

section \<open>Failures as values\<close>

datatype fault =
    ProtocolRefusal string
  | IntegrityFailure string
  | DurabilityFailure string
  | Uncaught string
  | NotModelled

type_synonym 'a res = "fault + 'a"

text \<open>The \<open>integrity\<close> switch of every validator: the same refusal is an
  \<open>IntegrityFailure\<close> when durable evidence is read back and a \<open>ProtocolRefusal\<close>
  when a new row is proposed.\<close>

definition refusal :: "bool \<Rightarrow> string \<Rightarrow> fault" where
  "refusal integrity code = (if integrity then IntegrityFailure code else ProtocolRefusal code)"

lemma refusal_simps [simp]:
  "refusal True code = IntegrityFailure code"
  "refusal False code = ProtocolRefusal code"
  by (simp_all add: refusal_def)

definition bindR :: "'a res \<Rightarrow> ('a \<Rightarrow> 'b res) \<Rightarrow> 'b res" where
  "bindR m f = (case m of Inl e \<Rightarrow> Inl e | Inr x \<Rightarrow> f x)"

lemma bindR_simps [simp]:
  "bindR (Inl e) f = Inl e"
  "bindR (Inr x) f = f x"
  by (simp_all add: bindR_def)

lemma bindR_Inr_iff: "bindR m f = Inr y \<longleftrightarrow> (\<exists>x. m = Inr x \<and> f x = Inr y)"
  by (cases m) simp_all

lemma bindR_InrE:
  assumes "bindR m f = Inr y"
  obtains x where "m = Inr x" "f x = Inr y"
  using assms by (auto simp: bindR_Inr_iff)

text \<open>A check that either refuses or lets the rest of the body run.\<close>

definition guardR :: "bool \<Rightarrow> fault \<Rightarrow> 'a res \<Rightarrow> 'a res" where
  "guardR bad e k = (if bad then Inl e else k)"

lemma guardR_Inr_iff [simp]: "guardR bad e k = Inr y \<longleftrightarrow> \<not> bad \<and> k = Inr y"
  by (simp add: guardR_def)

lemma guardR_simps [simp]:
  "guardR True e k = Inl e"
  "guardR False e k = k"
  by (simp_all add: guardR_def)

section \<open>Same successes\<close>

text \<open>A validator run with either value of its \<open>integrity\<close> switch differs only in the
  class of what it raises: it succeeds on the same inputs with the same value.  The rules
  below follow the shape of a validator body.\<close>

named_theorems same_ok

definition same_success :: "'a res \<Rightarrow> 'a res \<Rightarrow> bool" where
  "same_success m n \<longleftrightarrow> (\<forall>x. m = Inr x \<longleftrightarrow> n = Inr x)"

lemma same_successD: "same_success m n \<Longrightarrow> m = Inr x \<Longrightarrow> n = Inr x"
  unfolding same_success_def by blast

lemma same_success_refl [same_ok]: "same_success m m"
  by (simp add: same_success_def)

lemma same_success_Inl [same_ok]: "same_success (Inl e) (Inl f)"
  by (simp add: same_success_def)

lemma same_success_bind [same_ok]:
  "same_success m n \<Longrightarrow> (\<And>x. same_success (f x) (g x)) \<Longrightarrow> same_success (bindR m f) (bindR n g)"
  by (simp add: same_success_def bindR_Inr_iff)

lemma same_success_guard [same_ok]:
  "same_success k l \<Longrightarrow> same_success (guardR b e k) (guardR b f l)"
  by (simp add: same_success_def)

lemma same_success_if [same_ok]:
  "same_success m n \<Longrightarrow> same_success k l \<Longrightarrow>
   same_success (if b then m else k) (if b then n else l)"
  by simp

lemma same_success_option [same_ok]:
  "same_success m n \<Longrightarrow> (\<And>x. same_success (f x) (g x)) \<Longrightarrow>
   same_success (case v of None \<Rightarrow> m | Some x \<Rightarrow> f x) (case v of None \<Rightarrow> n | Some x \<Rightarrow> g x)"
  by (cases v) simp_all

lemma same_success_pair [same_ok]:
  "(\<And>x y. same_success (f x y) (g x y)) \<Longrightarrow>
   same_success (case v of (x, y) \<Rightarrow> f x y) (case v of (x, y) \<Rightarrow> g x y)"
  by (cases v) simp

section \<open>What every success satisfies\<close>

named_theorems on_success

definition succeeds_with :: "('a \<Rightarrow> bool) \<Rightarrow> 'a res \<Rightarrow> bool" where
  "succeeds_with P m \<longleftrightarrow> (\<forall>x. m = Inr x \<longrightarrow> P x)"

lemma succeeds_withD: "succeeds_with P m \<Longrightarrow> m = Inr x \<Longrightarrow> P x"
  by (simp add: succeeds_with_def)

lemma succeeds_with_Inl [on_success]: "succeeds_with P (Inl e)"
  by (simp add: succeeds_with_def)

lemma succeeds_with_Inr [on_success]: "P x \<Longrightarrow> succeeds_with P (Inr x)"
  by (simp add: succeeds_with_def)

lemma succeeds_with_bind [on_success]:
  "(\<And>x. m = Inr x \<Longrightarrow> succeeds_with P (f x)) \<Longrightarrow> succeeds_with P (bindR m f)"
  by (auto simp: succeeds_with_def bindR_Inr_iff)

lemma succeeds_with_if [on_success]:
  "(b \<Longrightarrow> succeeds_with P m) \<Longrightarrow> (\<not> b \<Longrightarrow> succeeds_with P n) \<Longrightarrow> succeeds_with P (if b then m else n)"
  by simp

lemma succeeds_with_option [on_success]:
  "(v = None \<Longrightarrow> succeeds_with P m) \<Longrightarrow> (\<And>x. v = Some x \<Longrightarrow> succeeds_with P (f x)) \<Longrightarrow>
   succeeds_with P (case v of None \<Rightarrow> m | Some x \<Rightarrow> f x)"
  by (cases v) simp_all

lemma succeeds_with_pair [on_success]:
  "(\<And>x y. v = (x, y) \<Longrightarrow> succeeds_with P (f x y)) \<Longrightarrow> succeeds_with P (case v of (x, y) \<Rightarrow> f x y)"
  by (cases v) simp

section \<open>Operations on a state\<close>

text \<open>An operation that may have written something before it raises returns the state it leaves
  together with its outcome.\<close>

type_synonym ('s, 'a) act = "'s \<Rightarrow> 'a res \<times> 's"

definition readA :: "('s \<Rightarrow> 'a res) \<Rightarrow> ('s, 'a) act" where
  "readA f s = (f s, s)"

definition bindA :: "('s, 'a) act \<Rightarrow> ('a \<Rightarrow> ('s, 'b) act) \<Rightarrow> ('s, 'b) act" where
  "bindA m f s = (case m s of (Inl e, t) \<Rightarrow> (Inl e, t) | (Inr x, t) \<Rightarrow> f x t)"

lemma bindA_readA [simp]:
  "bindA (readA f) g s = (case f s of Inl e \<Rightarrow> (Inl e, s) | Inr x \<Rightarrow> g x s)"
  by (simp add: bindA_def readA_def split: sum.split)

lemma readA_simps [simp]: "fst (readA f s) = f s" "snd (readA f s) = s"
  by (simp_all add: readA_def)

lemma bindA_Inr_iff:
  "bindA m f s = (Inr y, u) \<longleftrightarrow> (\<exists>x t. m s = (Inr x, t) \<and> f x t = (Inr y, u))"
  by (auto simp: bindA_def split: prod.splits sum.splits)

text \<open>What an operation leaves, whether it raises or not.\<close>

lemma bindA_snd:
  "snd (bindA m f s) = (case fst (m s) of Inl e \<Rightarrow> snd (m s) | Inr x \<Rightarrow> snd (f x (snd (m s))))"
  by (simp add: bindA_def split: prod.split sum.split)

text \<open>A part of the state that an operation never changes, whether it raises or not.\<close>

definition keeps :: "('s \<Rightarrow> 'b) \<Rightarrow> ('s, 'a) act \<Rightarrow> bool" where
  "keeps f m \<longleftrightarrow> (\<forall>s. f (snd (m s)) = f s)"

named_theorems keeps_intros

lemma keepsD: "keeps f m \<Longrightarrow> m s = (r, t) \<Longrightarrow> f t = f s"
  by (metis keeps_def snd_conv)

lemma keeps_readA [keeps_intros]: "keeps f (readA g)"
  by (simp add: keeps_def)

lemma keeps_bindA [keeps_intros]:
  "keeps f m \<Longrightarrow> (\<And>x. keeps f (g x)) \<Longrightarrow> keeps f (bindA m g)"
  by (simp add: keeps_def bindA_snd split: sum.split)

lemma keeps_if [keeps_intros]:
  "keeps f m \<Longrightarrow> keeps f n \<Longrightarrow> keeps f (if b then m else n)"
  by simp

lemma keeps_pair [keeps_intros]: "(\<And>x y. keeps f (g x y)) \<Longrightarrow> keeps f (case p of (x, y) \<Rightarrow> g x y)"
  by (cases p) simp

lemma keeps_option [keeps_intros]:
  "keeps f m \<Longrightarrow> (\<And>x. keeps f (g x)) \<Longrightarrow> keeps f (case v of None \<Rightarrow> m | Some x \<Rightarrow> g x)"
  by (cases v) simp_all

section \<open>Physical-order replay\<close>

fun replay :: "('s \<Rightarrow> 'r \<Rightarrow> 's res) \<Rightarrow> 's \<Rightarrow> 'r list \<Rightarrow> 's res" where
  "replay step s [] = Inr s"
| "replay step s (r # rs) = bindR (step s r) (\<lambda>s'. replay step s' rs)"

lemma replay_append:
  "replay step s (xs @ ys) = bindR (replay step s xs) (\<lambda>s'. replay step s' ys)"
proof (induction xs arbitrary: s)
  case Nil
  then show ?case by simp
next
  case (Cons x xs)
  then show ?case by (cases "step s x") simp_all
qed

lemma replay_snoc:
  "replay step s (xs @ [r]) = bindR (replay step s xs) (\<lambda>s'. step s' r)"
  by (cases "replay step s xs") (simp_all add: replay_append bindR_def split: sum.splits)

lemma replay_prefix:
  assumes "replay step s (xs @ ys) = Inr t"
  obtains u where "replay step s xs = Inr u" "replay step u ys = Inr t"
  using assms by (auto simp: replay_append bindR_Inr_iff)

text \<open>The interface of a projection: \<open>ok\<close> is what the reader has checked of a ledger
  before it is folded, \<open>invar\<close> relates the rows folded so far to the state.\<close>

locale projection =
  fixes step :: "'s \<Rightarrow> 'r \<Rightarrow> 's res"
    and init :: 's
    and ok :: "'r list \<Rightarrow> bool"
    and invar :: "'r list \<Rightarrow> 's \<Rightarrow> bool"
  assumes ok_prefix: "ok (rows @ [r]) \<Longrightarrow> ok rows"
    and invar_init: "invar [] init"
    and invar_step: "ok (rows @ [r]) \<Longrightarrow> invar rows s \<Longrightarrow> step s r = Inr s' \<Longrightarrow>
      invar (rows @ [r]) s'"
begin

lemma replay_invar: "ok rows \<Longrightarrow> replay step init rows = Inr s \<Longrightarrow> invar rows s"
proof (induction rows arbitrary: s rule: rev_induct)
  case Nil
  then show ?case using invar_init by simp
next
  case (snoc r rows)
  from snoc.prems(2) obtain t where t: "replay step init rows = Inr t" "step t r = Inr s"
    by (auto simp: replay_snoc bindR_Inr_iff)
  have "invar rows t" by (rule snoc.IH [OF ok_prefix [OF snoc.prems(1)] t(1)])
  then show ?case by (rule invar_step [OF snoc.prems(1) _ t(2)])
qed

lemma ok_append: "ok (xs @ ys) \<Longrightarrow> ok xs"
proof (induction ys rule: rev_induct)
  case (snoc y ys)
  then show ?case by (metis append_assoc ok_prefix)
qed simp

lemma prefix_replays:
  assumes "ok (xs @ ys)" "replay step init (xs @ ys) = Inr s"
  shows "\<exists>u. replay step init xs = Inr u \<and> invar xs u"
  using assms by (metis ok_append replay_prefix replay_invar)

lemma replay_relates:
  assumes "\<And>rows r s s'. ok (rows @ [r]) \<Longrightarrow> invar rows s \<Longrightarrow> step s r = Inr s' \<Longrightarrow> R s s'"
    and "reflp R" "transp R"
    and "ok (xs @ ys)" "replay step init xs = Inr u" "replay step u ys = Inr s"
  shows "R u s"
  using assms(4-)
proof (induction ys arbitrary: s rule: rev_induct)
  case Nil
  with \<open>reflp R\<close> show ?case by (simp add: reflpD)
next
  case (snoc r ys)
  from snoc.prems(3) obtain t where t: "replay step u ys = Inr t" "step t r = Inr s"
    by (auto simp: replay_snoc bindR_Inr_iff)
  have ok: "ok ((xs @ ys) @ [r])" using snoc.prems(1) by simp
  have "invar (xs @ ys) t"
    by (rule replay_invar [OF ok_prefix [OF ok]]) (simp add: replay_append snoc.prems(2) t(1))
  then have "R t s" by (rule assms(1) [OF ok _ t(2)])
  moreover have "R u t" by (rule snoc.IH [OF ok_prefix [OF ok] snoc.prems(2) t(1)])
  ultimately show ?case using \<open>transp R\<close> by (blast dest: transpD)
qed

end

section \<open>Dictionaries\<close>

text \<open>A Python dictionary is an association list in insertion order and \<open>AList.update\<close> is
  item assignment: an existing key keeps its place, a new key goes last.\<close>

lemma update_fresh: "k \<notin> fst ` set al \<Longrightarrow> AList.update k v al = al @ [(k, v)]"
  by (induction al) auto

lemma keys_update: "map fst (AList.update k v al) =
    (if k \<in> fst ` set al then map fst al else map fst al @ [k])"
  by (induction al) auto

lemma map_of_update [simp]: "map_of (AList.update k v al) = (map_of al)(k \<mapsto> v)"
  by (rule update_conv')

lemma map_of_key: "map_of al k = Some v \<Longrightarrow> k \<in> fst ` set al"
  by (metis domI dom_map_of_conv_image_fst)

text \<open>Every entry survives and changes only as \<open>R\<close> allows.\<close>

definition dict_le :: "('v \<Rightarrow> 'v \<Rightarrow> bool) \<Rightarrow> ('k \<times> 'v) list \<Rightarrow> ('k \<times> 'v) list \<Rightarrow> bool" where
  "dict_le R xs ys \<longleftrightarrow> (\<forall>k x. map_of xs k = Some x \<longrightarrow> (\<exists>y. map_of ys k = Some y \<and> R x y))"

lemma dict_leD: "dict_le R xs ys \<Longrightarrow> map_of xs k = Some x \<Longrightarrow> \<exists>y. map_of ys k = Some y \<and> R x y"
  by (simp add: dict_le_def)

lemma dict_le_refl: "(\<And>x. R x x) \<Longrightarrow> dict_le R xs xs"
  by (simp add: dict_le_def)

lemma dict_le_trans:
  assumes "\<And>x y z. R x y \<Longrightarrow> R y z \<Longrightarrow> R x z" "dict_le R xs ys" "dict_le R ys zs"
  shows "dict_le R xs zs"
  using assms unfolding dict_le_def by meson

lemma dict_le_update:
  assumes "\<And>x. R x x" "map_of xs k = None \<or> (\<exists>x. map_of xs k = Some x \<and> R x v)"
  shows "dict_le R xs (AList.update k v xs)"
  using assms unfolding dict_le_def map_of_update by (metis fun_upd_apply option.distinct(1) option.inject)

section \<open>Lists\<close>

lemma distinct_snoc_map:
  "distinct (map f (xs @ [x])) \<longleftrightarrow> distinct (map f xs) \<and> f x \<notin> f ` set xs"
  by auto

lemma nth_snoc_last [simp]: "(xs @ [x]) ! length xs = x"
  by simp

end
