(* ===== verification/Identifiers.thy ===== *)
theory Identifiers
  imports Floati_Prelude "HOL-Library.Word"
begin

unbundle bit_operations_syntax

text \<open>
  The lexical layer: identifiers, UUIDv7 record ids, digests, repository coordinates and
  bounded text, from \<open>floati/root.py\<close>, \<open>floati/ids.py\<close> and the field validators at
  the end of \<open>floati/records.py\<close>.

  A Python \<open>str\<close> is modelled as a HOL \<open>string\<close> with one \<open>char\<close> per code point, so
  the model ranges over the texts whose code points are below 256: lengths and orders
  agree with Python's, no surrogate occurs, and the Unicode tables the code consults
  (general category, bidirectional class) are written out for that range.
\<close>

section \<open>Character classes\<close>

definition in_range :: "char \<Rightarrow> char \<Rightarrow> char \<Rightarrow> bool" where
  "in_range lo hi c \<longleftrightarrow> of_char lo \<le> (of_char c :: nat) \<and> of_char c \<le> (of_char hi :: nat)"

definition is_digit_char :: "char \<Rightarrow> bool" where
  "is_digit_char c \<longleftrightarrow> in_range CHR ''0'' CHR ''9'' c"

definition is_lower_alnum :: "char \<Rightarrow> bool" where
  "is_lower_alnum c \<longleftrightarrow> in_range CHR ''a'' CHR ''z'' c \<or> is_digit_char c"

definition is_alnum_char :: "char \<Rightarrow> bool" where
  "is_alnum_char c \<longleftrightarrow> in_range CHR ''A'' CHR ''Z'' c \<or> is_lower_alnum c"

definition is_hex_char :: "char \<Rightarrow> bool" where
  "is_hex_char c \<longleftrightarrow> is_digit_char c \<or> in_range CHR ''a'' CHR ''f'' c"

definition hex_of_length :: "nat \<Rightarrow> string \<Rightarrow> bool" where
  "hex_of_length n s \<longleftrightarrow> length s = n \<and> list_all is_hex_char s"

text \<open>\<open>str.split\<close> on a one-character separator: always at least one part.\<close>

fun split_on :: "char \<Rightarrow> string \<Rightarrow> string list" where
  "split_on sep [] = [[]]"
| "split_on sep (c # cs) =
     (if c = sep then [] # split_on sep cs
      else (case split_on sep cs of [] \<Rightarrow> [[c]] | p # ps \<Rightarrow> (c # p) # ps))"

definition starts_with :: "string \<Rightarrow> string \<Rightarrow> bool" where
  "starts_with p s \<longleftrightarrow> take (length p) s = p"

definition ends_with :: "string \<Rightarrow> string \<Rightarrow> bool" where
  "ends_with p s \<longleftrightarrow> starts_with (rev p) (rev s)"

fun contains :: "string \<Rightarrow> string \<Rightarrow> bool" where
  "contains p [] = (p = [])"
| "contains p (c # cs) = (starts_with p (c # cs) \<or> contains p cs)"

lemma split_on_nonempty [simp]: "split_on sep s \<noteq> []"
  by (induction s) (auto split: list.splits)

lemma starts_with_append [simp]: "starts_with p (p @ s)"
  by (simp add: starts_with_def)

lemma starts_with_iff: "starts_with p s \<longleftrightarrow> (\<exists>t. s = p @ t)"
  by (metis append_eq_conv_conj append_take_drop_id starts_with_def)

section \<open>Identifiers (\<open>root.py\<close>)\<close>

text \<open>\<open>IDENTIFIER_PATTERN\<close>: one to 64 characters, lower case letters and digits at both
  ends, with underscores and hyphens allowed in between.\<close>

definition is_identifier :: "string \<Rightarrow> bool" where
  "is_identifier s \<longleftrightarrow>
     s \<noteq> [] \<and> length s \<le> 64 \<and> is_lower_alnum (hd s) \<and> is_lower_alnum (last s) \<and>
     list_all (\<lambda>c. is_lower_alnum c \<or> c = CHR ''_'' \<or> c = CHR ''-'') s"

definition validate_identifier :: "string \<Rightarrow> string \<Rightarrow> string res" where
  "validate_identifier field s =
     (if is_identifier s then Inr s else Inl (ProtocolRefusal (field @ ''_invalid'')))"

lemma validate_identifier_Inr [simp]:
  "validate_identifier field s = Inr t \<longleftrightarrow> is_identifier s \<and> t = s"
  by (auto simp: validate_identifier_def)

section \<open>UUIDv7 (\<open>ids.py\<close>)\<close>

definition MAX_TIMESTAMP_MS :: int where "MAX_TIMESTAMP_MS = 2 ^ 48 - 1"
definition MAX_RANDOM_BITS :: int where "MAX_RANDOM_BITS = 2 ^ 74 - 1"

definition hex_digit :: "int \<Rightarrow> char" where
  "hex_digit d = (if d < 10 then char_of (nat d + 48) else char_of (nat d + 87))"

fun hex_text :: "nat \<Rightarrow> int \<Rightarrow> string" where
  "hex_text 0 v = []"
| "hex_text (Suc n) v = hex_text n (v div 16) @ [hex_digit (v mod 16)]"

definition uuid7_value :: "int \<Rightarrow> int \<Rightarrow> int" where
  "uuid7_value milliseconds randomness =
     (let random_a = drop_bit 62 randomness;
          random_b = randomness AND (push_bit 62 1 - 1)
      in (((push_bit 80 milliseconds OR push_bit 76 7) OR push_bit 64 random_a) OR
         push_bit 62 2) OR random_b)"

text \<open>\<open>None\<close> stands for the \<open>ValueError\<close> of an out-of-range argument.\<close>

definition uuid7_hex :: "int \<Rightarrow> int \<Rightarrow> string option" where
  "uuid7_hex timestamp_ms random_bits =
     (if \<not> (0 \<le> timestamp_ms \<and> timestamp_ms \<le> MAX_TIMESTAMP_MS) then None
      else if \<not> (0 \<le> random_bits \<and> random_bits \<le> MAX_RANDOM_BITS) then None
      else Some (hex_text 32 (uuid7_value timestamp_ms random_bits)))"

text \<open>\<open>_UUID7\<close> of \<open>records.py\<close>: the version nibble is 7, the variant bits are 10.\<close>

definition is_uuid7 :: "string \<Rightarrow> bool" where
  "is_uuid7 s \<longleftrightarrow> hex_of_length 32 s \<and> s ! 12 = CHR ''7'' \<and> s ! 16 \<in> set ''89ab''"

definition is_record_id :: "string \<Rightarrow> string \<Rightarrow> bool" where
  "is_record_id prefix s \<longleftrightarrow> starts_with prefix s \<and> is_uuid7 (drop (length prefix) s)"

section \<open>Coordinates and bounded text (\<open>records.py\<close>)\<close>

definition is_sha256 :: "string \<Rightarrow> bool" where
  "is_sha256 s \<longleftrightarrow> hex_of_length 64 s"

definition is_git_sha :: "string \<Rightarrow> bool" where
  "is_git_sha s \<longleftrightarrow> hex_of_length 40 s \<or> hex_of_length 64 s"

definition is_repo_char :: "char \<Rightarrow> bool" where
  "is_repo_char c \<longleftrightarrow> is_alnum_char c \<or> c \<in> set ''._-''"

definition is_repository :: "string \<Rightarrow> bool" where
  "is_repository s \<longleftrightarrow>
     1 \<le> length s \<and> length s \<le> 128 \<and> length (split_on CHR ''/'' s) \<le> 2 \<and>
     list_all (\<lambda>p. p \<noteq> [] \<and> list_all is_repo_char p) (split_on CHR ''/'' s)"

text \<open>General category \<open>Cc\<close>, and the classes of \<open>_BIDI_CONTROLS\<close>, on code points below
  256: the C0 and C1 controls with \<open>DEL\<close>, and the soft hyphen (class \<open>BN\<close>).\<close>

definition terminal_unsafe_char :: "char \<Rightarrow> bool" where
  "terminal_unsafe_char c \<longleftrightarrow>
     (let n = (of_char c :: nat) in n < 32 \<or> (127 \<le> n \<and> n < 160) \<or> n = 173)"

definition terminal_unsafe :: "string \<Rightarrow> bool" where
  "terminal_unsafe s \<longleftrightarrow> list_ex terminal_unsafe_char s"

definition bounded_string :: "bool \<Rightarrow> nat \<Rightarrow> nat \<Rightarrow> string \<Rightarrow> string \<Rightarrow> unit res" where
  "bounded_string integrity minimum maximum field s =
     (if terminal_unsafe s then Inl (refusal integrity (field @ ''_invalid''))
      else if \<not> (minimum \<le> length s \<and> length s \<le> maximum)
        then Inl (refusal integrity (field @ ''_invalid''))
      else Inr ())"

lemma bounded_string_Inr_iff:
  "bounded_string integrity a b field s = Inr u \<longleftrightarrow>
     \<not> terminal_unsafe s \<and> a \<le> length s \<and> length s \<le> b"
  by (auto simp: bounded_string_def)

definition relative_path_parts :: "string \<Rightarrow> bool" where
  "relative_path_parts s \<longleftrightarrow>
     \<not> starts_with ''/'' s \<and> list_all (\<lambda>p. p \<notin> {'''', ''.'', ''..''}) (split_on CHR ''/'' s)"

definition is_repository_document :: "string \<Rightarrow> bool" where
  "is_repository_document s \<longleftrightarrow>
     \<not> terminal_unsafe s \<and> 1 \<le> length s \<and> length s \<le> 1024 \<and> relative_path_parts s"

section \<open>The generator meets its own pattern\<close>

lemma length_hex_text [simp]: "length (hex_text n v) = n"
  by (induction n arbitrary: v) simp_all

lemma nth_hex_text:
  "i < n \<Longrightarrow> hex_text n v ! i = hex_digit ((v div 16 ^ (n - 1 - i)) mod 16)"
proof (induction n arbitrary: v i)
  case 0
  then show ?case by simp
next
  case (Suc n)
  show ?case
  proof (cases "i = n")
    case True
    then show ?thesis by (simp add: nth_append)
  next
    case False
    with Suc.prems have i: "i < n" by simp
    then have e: "n - i = Suc (n - 1 - i)" by simp
    have "hex_text (Suc n) v ! i = hex_text n (v div 16) ! i"
      using i by (simp add: nth_append)
    also have "\<dots> = hex_digit ((v div 16 div 16 ^ (n - 1 - i)) mod 16)"
      by (rule Suc.IH [OF i])
    also have "v div 16 div 16 ^ (n - 1 - i) = v div 16 ^ (n - i)"
      by (simp add: e zdiv_zmult2_eq)
    finally show ?thesis by simp
  qed
qed

lemma mod16_cases:
  fixes d :: int
  assumes "0 \<le> d" "d < 16"
  shows "d = 0 \<or> d = 1 \<or> d = 2 \<or> d = 3 \<or> d = 4 \<or> d = 5 \<or> d = 6 \<or> d = 7 \<or>
         d = 8 \<or> d = 9 \<or> d = 10 \<or> d = 11 \<or> d = 12 \<or> d = 13 \<or> d = 14 \<or> d = 15"
  using assms by arith

lemma is_hex_char_hex_digit:
  assumes "0 \<le> d" "d < 16"
  shows "is_hex_char (hex_digit d)"
  using mod16_cases [OF assms]
  by (elim disjE) (simp_all add: hex_digit_def is_hex_char_def is_digit_char_def in_range_def)

lemma hex_of_length_hex_text: "hex_of_length n (hex_text n v)"
  by (auto simp: hex_of_length_def list_all_length nth_hex_text intro!: is_hex_char_hex_digit)

lemma or_low_bits:
  fixes a b :: int
  assumes "0 \<le> b" "b < 2 ^ n"
  shows "push_bit n a OR b = a * 2 ^ n + b"
proof -
  have "take_bit n b = b" using assms by (simp add: take_bit_int_eq_self_iff)
  then have "push_bit n a OR b = concat_bit n b a"
    by (simp add: concat_bit_def or.commute)
  also have "\<dots> = a * 2 ^ n + b"
    using \<open>take_bit n b = b\<close> by (simp add: concat_bit_eq push_bit_eq_mult)
  finally show ?thesis .
qed

lemma uuid7_value_eq:
  assumes "0 \<le> rnd" "rnd \<le> MAX_RANDOM_BITS"
  shows "uuid7_value ms rnd =
    (((ms * 2 ^ 4 + 7) * 2 ^ 12 + rnd div 2 ^ 62) * 2 ^ 2 + 2) * 2 ^ 62 + rnd mod 2 ^ 62"
proof -
  let ?a = "drop_bit 62 rnd" and ?b = "rnd AND (push_bit 62 1 - 1)"
  have b: "?b = rnd mod 2 ^ 62"
  proof -
    have "push_bit 62 1 - 1 = (mask 62 :: int)"
      by (simp only: push_bit_eq_mult mask_eq_exp_minus_1 mult_1)
    then show ?thesis by (simp only: take_bit_eq_mask [symmetric] take_bit_eq_mod)
  qed
  have a: "?a = rnd div 2 ^ 62" by (simp add: drop_bit_eq_div)
  have a_lt: "?a < 2 ^ 12" using assms by (simp add: a MAX_RANDOM_BITS_def)
  have a_ge: "0 \<le> ?a" using assms by (simp add: a)
  have s1: "push_bit 80 ms OR push_bit 76 7 = push_bit 76 (push_bit 4 ms OR 7)"
    by (simp add: push_bit_or)
  have s2: "push_bit 76 y OR push_bit 64 ?a = push_bit 64 (push_bit 12 y OR ?a)" for y :: int
    by (simp add: push_bit_or)
  have s3: "push_bit 64 y OR push_bit 62 2 = push_bit 62 (push_bit 2 y OR 2)" for y :: int
    by (simp only: push_bit_or push_bit_push_bit) simp
  have "uuid7_value ms rnd =
      push_bit 62 (push_bit 2 (push_bit 12 (push_bit 4 ms OR 7) OR ?a) OR 2) OR ?b"
    by (simp only: uuid7_value_def Let_def s1 s2 s3)
  also have "push_bit 4 ms OR 7 = ms * 2 ^ 4 + 7" by (rule or_low_bits) simp_all
  also have "push_bit 12 (ms * 2 ^ 4 + 7) OR ?a = (ms * 2 ^ 4 + 7) * 2 ^ 12 + ?a"
    by (rule or_low_bits [OF a_ge a_lt])
  also have "push_bit 2 ((ms * 2 ^ 4 + 7) * 2 ^ 12 + ?a) OR 2
      = ((ms * 2 ^ 4 + 7) * 2 ^ 12 + ?a) * 2 ^ 2 + 2"
    by (rule or_low_bits) simp_all
  also have "push_bit 62 (((ms * 2 ^ 4 + 7) * 2 ^ 12 + ?a) * 2 ^ 2 + 2) OR ?b
      = (((ms * 2 ^ 4 + 7) * 2 ^ 12 + ?a) * 2 ^ 2 + 2) * 2 ^ 62 + ?b"
    by (rule or_low_bits) (simp_all add: b)
  finally show ?thesis by (simp only: a b)
qed

lemma uuid7_version_nibble:
  fixes ms a b :: int
  assumes "0 \<le> a" "a < 2 ^ 12" "0 \<le> b" "b < 2 ^ 62"
  shows "((((ms * 2 ^ 4 + 7) * 2 ^ 12 + a) * 2 ^ 2 + 2) * 2 ^ 62 + b) div 16 ^ 19 mod 16 = 7"
proof -
  let ?r = "(a * 2 ^ 2 + 2) * 2 ^ 62 + b"
  have "(((ms * 2 ^ 4 + 7) * 2 ^ 12 + a) * 2 ^ 2 + 2) * 2 ^ 62 + b
      = ?r + (ms * 16 + 7) * 16 ^ 19" by simp
  moreover have "?r div 16 ^ 19 = 0"
    using assms by (intro div_pos_pos_trivial) simp_all
  ultimately have "((((ms * 2 ^ 4 + 7) * 2 ^ 12 + a) * 2 ^ 2 + 2) * 2 ^ 62 + b) div 16 ^ 19
      = ms * 16 + 7" by (simp only: div_mult_self1 [of "16 ^ 19 :: int"]) simp
  then show ?thesis by simp
qed

lemma uuid7_variant_nibble:
  fixes ms a b :: int
  assumes "0 \<le> b" "b < 2 ^ 62"
  shows "((((ms * 2 ^ 4 + 7) * 2 ^ 12 + a) * 2 ^ 2 + 2) * 2 ^ 62 + b) div 16 ^ 15 mod 16
    = 8 + b div 2 ^ 60"
proof -
  let ?x = "(ms * 2 ^ 4 + 7) * 2 ^ 12 + a"
  have "(?x * 2 ^ 2 + 2) * 2 ^ 62 + b = b + (?x * 16 + 8) * 16 ^ 15" by simp
  then have "((?x * 2 ^ 2 + 2) * 2 ^ 62 + b) div 16 ^ 15 = (?x * 16 + 8) + b div 2 ^ 60"
    by (simp only: div_mult_self1 [of "16 ^ 15 :: int"]) simp
  moreover have "(?x * 16 + 8 + q) mod 16 = 8 + q" if "0 \<le> q" "q < 4" for q :: int
  proof -
    have "(?x * 16 + 8 + q) mod 16 = ((8 + q) + ?x * 16) mod 16" by (simp only: ac_simps)
    also have "\<dots> = 8 + q" using that by (simp only: mod_mult_self1) simp
    finally show ?thesis .
  qed
  moreover have "0 \<le> b div 2 ^ 60" "b div 2 ^ 60 < 4" using assms by simp_all
  ultimately show ?thesis by (simp only:)
qed

lemma hex_digit_variant:
  fixes d :: int
  assumes "0 \<le> d" "d < 4"
  shows "hex_digit (8 + d) \<in> set ''89ab''"
proof -
  from assms have "d = 0 \<or> d = 1 \<or> d = 2 \<or> d = 3" by arith
  then show ?thesis by (elim disjE) (simp_all add: hex_digit_def char_of_def bit_0)
qed

lemma uuid7_hex_is_uuid7:
  assumes "uuid7_hex ms rnd = Some s"
  shows "is_uuid7 s"
proof -
  from assms have rnd: "0 \<le> rnd" "rnd \<le> MAX_RANDOM_BITS"
    and s: "s = hex_text 32 (uuid7_value ms rnd)"
    by (auto simp: uuid7_hex_def split: if_splits)
  define a b where "a = rnd div 2 ^ 62" and "b = rnd mod 2 ^ 62"
  have v: "uuid7_value ms rnd = (((ms * 2 ^ 4 + 7) * 2 ^ 12 + a) * 2 ^ 2 + 2) * 2 ^ 62 + b"
    using uuid7_value_eq [OF rnd, of ms] by (simp only: a_def b_def)
  have a: "0 \<le> a" "a < 2 ^ 12" using rnd by (simp_all add: a_def MAX_RANDOM_BITS_def)
  have b: "0 \<le> b" "b < 2 ^ 62" by (simp_all add: b_def)
  have "s ! 12 = hex_digit (uuid7_value ms rnd div 16 ^ 19 mod 16)"
    by (simp only: s nth_hex_text) simp
  also have "uuid7_value ms rnd div 16 ^ 19 mod 16 = 7"
    by (simp only: v uuid7_version_nibble [OF a b])
  finally have n12: "s ! 12 = CHR ''7''" by (simp add: hex_digit_def char_of_def bit_0)
  have "s ! 16 = hex_digit (uuid7_value ms rnd div 16 ^ 15 mod 16)"
    by (simp only: s nth_hex_text) simp
  also have "uuid7_value ms rnd div 16 ^ 15 mod 16 = 8 + b div 2 ^ 60"
    by (simp only: v uuid7_variant_nibble [OF b])
  finally have "s ! 16 \<in> set ''89ab''"
    using b by (simp only:) (rule hex_digit_variant, simp_all)
  with n12 show ?thesis by (simp only: is_uuid7_def s hex_of_length_hex_text)
qed

text \<open>Ids of later milliseconds sort after ids of earlier ones.\<close>

lemma hex_digit_mono:
  fixes d e :: int
  assumes "0 \<le> d" "d < e" "e < 16"
  shows "hex_digit d < hex_digit e"
  using assms by (auto simp: hex_digit_def less_char_def)

lemma hex_text_mono:
  assumes "0 \<le> v" "v < w" "w < 16 ^ n"
  shows "hex_text n v < hex_text n w"
  using assms
proof (induction n arbitrary: v w)
  case 0
  then show ?case by simp
next
  case (Suc n)
  show ?case
  proof (cases "v div 16 = w div 16")
    case True
    moreover from True Suc.prems have "v mod 16 < w mod 16"
      by (metis mult_div_mod_eq add_less_cancel_left)
    ultimately show ?thesis
      using hex_digit_mono [of "v mod 16" "w mod 16"]
      by (simp add: list_less_def lexord_append_left_rightI)
  next
    case False
    with Suc.prems have "v div 16 < w div 16"
      by (meson order_less_imp_le zdiv_mono1 less_le zero_less_numeral)
    moreover have "0 \<le> v div 16" "w div 16 < 16 ^ n" using Suc.prems by auto
    ultimately have "hex_text n (v div 16) < hex_text n (w div 16)" by (intro Suc.IH)
    then show ?thesis
      by (simp add: list_less_def lexord_sufI)
  qed
qed

lemmas [evaluate] =
  in_range_def is_digit_char_def is_lower_alnum_def is_alnum_char_def is_hex_char_def
  hex_of_length_def starts_with_def ends_with_def is_identifier_def validate_identifier_def
  is_uuid7_def is_record_id_def is_sha256_def is_git_sha_def is_repo_char_def is_repository_def
  terminal_unsafe_char_def terminal_unsafe_def bounded_string_def relative_path_parts_def
  is_repository_document_def

end
