(* ===== verification/Ledger_Store.thy ===== *)
theory Ledger_Store
  imports Floati_Prelude
begin

text \<open>
  The append-only ledger primitives of \<open>floati/jsonl.py\<close>: reading one ledger with all
  its bounds, appending one record, and the read-decide-append transaction.  A ledger is
  the list of its rows in physical order; every operation runs under the exclusive lock of
  the file, so it is one step of the model.

  What a ledger knows of its rows is a \<open>row_contract\<close>: the record validator
  (\<open>validate_record\<close> restricted to the allowed kinds, with its \<open>integrity\<close> switch), the
  row's id, and the length in bytes of its encoded frame (\<open>encode_frame\<close>, left as a
  function because no proof depends on it).  Operating system failures while writing
  (\<open>DurabilityFailure\<close>) and lock time-outs are not modelled: each operation below is one
  whose system calls succeed.
\<close>

definition MAX_RECORD_BYTES :: nat where "MAX_RECORD_BYTES = 65536"
definition MAX_LEDGER_BYTES :: nat where "MAX_LEDGER_BYTES = 64 * 1024 * 1024"
definition MAX_LEDGER_RECORDS :: nat where "MAX_LEDGER_RECORDS = 100000"

record 'r row_contract =
  validate_row :: "bool \<Rightarrow> 'r \<Rightarrow> unit res"
  row_id :: "'r \<Rightarrow> string"
  frame_length :: "'r \<Rightarrow> nat"

definition ledger_bytes :: "'r row_contract \<Rightarrow> 'r list \<Rightarrow> nat" where
  "ledger_bytes c rows = sum_list (map (frame_length c) rows)"

section \<open>Reading\<close>

text \<open>The loop of \<open>_decode_path_records\<close>: line numbers count from one, and the ids seen
  so far are threaded through.\<close>

fun decode_rows :: "'r row_contract \<Rightarrow> nat \<Rightarrow> string set \<Rightarrow> 'r list \<Rightarrow> 'r list res" where
  "decode_rows c line_number seen [] = Inr []"
| "decode_rows c line_number seen (raw # raws) =
     (if line_number > MAX_LEDGER_RECORDS then Inl (IntegrityFailure ''ledger_record_limit'')
      else bindR (validate_row c True raw) (\<lambda>_.
        if row_id c raw \<in> seen then Inl (IntegrityFailure ''duplicate_record_id'')
        else bindR (decode_rows c (Suc line_number) (insert (row_id c raw) seen) raws)
               (\<lambda>rest. Inr (raw # rest))))"

definition decode_path_records :: "'r row_contract \<Rightarrow> 'r list \<Rightarrow> 'r list res" where
  "decode_path_records c rows =
     (if ledger_bytes c rows > MAX_LEDGER_BYTES then Inl (IntegrityFailure ''ledger_too_large'')
      else if list_ex (\<lambda>r. frame_length c r > MAX_RECORD_BYTES) rows
        then Inl (IntegrityFailure ''record_too_large'')
      else decode_rows c 1 {} rows)"

section \<open>Writing\<close>

definition encode_record :: "'r row_contract \<Rightarrow> 'r \<Rightarrow> nat res" where
  "encode_record c r =
     bindR (validate_row c False r) (\<lambda>_.
       if frame_length c r > MAX_RECORD_BYTES then Inl (ProtocolRefusal ''record_too_large'')
       else Inr (frame_length c r))"

definition append_frame :: "'r row_contract \<Rightarrow> 'r list \<Rightarrow> 'r \<Rightarrow> nat \<Rightarrow> 'r list res" where
  "append_frame c rows r encoded =
     (if ledger_bytes c rows + encoded > MAX_LEDGER_BYTES
        then Inl (ProtocolRefusal ''ledger_too_large'')
      else Inr (rows @ [r]))"

definition append_record :: "'r row_contract \<Rightarrow> 'r list \<Rightarrow> 'r \<Rightarrow> 'r list res" where
  "append_record c rows r =
     bindR (encode_record c r) (\<lambda>encoded.
     bindR (decode_path_records c rows) (\<lambda>existing.
       if length existing \<ge> MAX_LEDGER_RECORDS then Inl (ProtocolRefusal ''ledger_record_limit'')
       else if list_ex (\<lambda>item. row_id c item = row_id c r) existing
         then Inl (ProtocolRefusal ''duplicate_record_id'')
       else append_frame c rows r encoded))"

text \<open>\<open>transact\<close>: \<open>decide\<close> sees the validated rows and answers with a result and possibly
  one candidate row; the candidate is appended in the same critical section.\<close>

definition transact ::
    "'r row_contract \<Rightarrow> 'r list \<Rightarrow> ('r list \<Rightarrow> ('a \<times> 'r option) res) \<Rightarrow> ('a \<times> 'r list) res" where
  "transact c rows decide =
     bindR (decode_path_records c rows) (\<lambda>existing.
     bindR (decide existing) (\<lambda>(result, candidate).
       case candidate of
         None \<Rightarrow> Inr (result, rows)
       | Some r \<Rightarrow>
           if length existing \<ge> MAX_LEDGER_RECORDS
             then Inl (ProtocolRefusal ''ledger_record_limit'')
           else bindR (encode_record c r) (\<lambda>encoded.
             if list_ex (\<lambda>item. row_id c item = row_id c r) existing
               then Inl (ProtocolRefusal ''duplicate_record_id'')
             else bindR (append_frame c rows r encoded) (\<lambda>rows'. Inr (result, rows')))))"

section \<open>What a readable ledger is\<close>

definition readable :: "'r row_contract \<Rightarrow> 'r list \<Rightarrow> bool" where
  "readable c rows \<longleftrightarrow>
     ledger_bytes c rows \<le> MAX_LEDGER_BYTES \<and> length rows \<le> MAX_LEDGER_RECORDS \<and>
     (\<forall>r \<in> set rows. frame_length c r \<le> MAX_RECORD_BYTES \<and> validate_row c True r = Inr ()) \<and>
     distinct (map (row_id c) rows)"

lemma decode_rows_Inr_iff:
  "decode_rows c n seen rows = Inr out \<longleftrightarrow>
     out = rows \<and> (rows \<noteq> [] \<longrightarrow> n + length rows \<le> Suc MAX_LEDGER_RECORDS) \<and>
     (\<forall>r \<in> set rows. validate_row c True r = Inr ()) \<and>
     distinct (map (row_id c) rows) \<and> row_id c ` set rows \<inter> seen = {}"
proof (induction rows arbitrary: n seen out)
  case Nil
  then show ?case by auto
next
  case (Cons r rows)
  have "decode_rows c n seen (r # rows) = Inr out \<longleftrightarrow>
      n \<le> MAX_LEDGER_RECORDS \<and> validate_row c True r = Inr () \<and> row_id c r \<notin> seen \<and>
      (\<exists>rest. decode_rows c (Suc n) (insert (row_id c r) seen) rows = Inr rest \<and> out = r # rest)"
    by (auto simp: bindR_Inr_iff)
  then show ?case
    by (simp only: Cons.IH) auto
qed

lemma decode_path_records_Inr_iff:
  "decode_path_records c rows = Inr out \<longleftrightarrow> out = rows \<and> readable c rows"
  by (auto simp: decode_path_records_def readable_def decode_rows_Inr_iff list_ex_iff not_less
      simp flip: not_le)

lemma decode_path_records_readable [simp]:
  "readable c rows \<Longrightarrow> decode_path_records c rows = Inr rows"
  by (simp add: decode_path_records_Inr_iff)

lemma readable_Nil [simp]: "readable c []"
  by (simp add: readable_def ledger_bytes_def)

lemma ledger_bytes_snoc [simp]:
  "ledger_bytes c (rows @ [r]) = ledger_bytes c rows + frame_length c r"
  by (simp add: ledger_bytes_def)

lemma readable_snocD: "readable c (rows @ [r]) \<Longrightarrow> readable c rows"
  by (auto simp: readable_def ledger_bytes_def)

lemma encode_record_Inr_iff:
  "encode_record c r = Inr n \<longleftrightarrow>
     validate_row c False r = Inr () \<and> n = frame_length c r \<and> n \<le> MAX_RECORD_BYTES"
  by (auto simp: encode_record_def bindR_Inr_iff)

lemma same_id_iff [simp]:
  "list_ex (\<lambda>item. row_id c item = row_id c r) rows \<longleftrightarrow> row_id c r \<in> row_id c ` set rows"
  by (auto simp: list_ex_iff image_iff) metis

lemma append_record_Inr_iff:
  "append_record c rows r = Inr rows' \<longleftrightarrow>
     rows' = rows @ [r] \<and> readable c rows \<and> validate_row c False r = Inr () \<and>
     frame_length c r \<le> MAX_RECORD_BYTES \<and> length rows < MAX_LEDGER_RECORDS \<and>
     row_id c r \<notin> row_id c ` set rows \<and>
     ledger_bytes c rows + frame_length c r \<le> MAX_LEDGER_BYTES"
  by (auto simp: append_record_def append_frame_def bindR_Inr_iff encode_record_Inr_iff
      decode_path_records_Inr_iff)

lemma transact_Inr_iff:
  "transact c rows decide = Inr (result, rows') \<longleftrightarrow>
     readable c rows \<and>
     (decide rows = Inr (result, None) \<and> rows' = rows \<or>
      (\<exists>r. decide rows = Inr (result, Some r) \<and> append_record c rows r = Inr rows'))"
proof (cases "decide rows")
  case (Inl e)
  then show ?thesis by (auto simp: transact_def bindR_Inr_iff decode_path_records_Inr_iff)
next
  case (Inr p)
  obtain a candidate where p: "p = (a, candidate)" by (cases p)
  show ?thesis
    by (cases candidate)
       (auto simp: transact_def Inr p append_record_Inr_iff append_frame_def bindR_Inr_iff
         encode_record_Inr_iff decode_path_records_Inr_iff)
qed

lemma transact_decide_fails:
  assumes "readable c rows" "decide rows = Inl e"
  shows "transact c rows decide = Inl e"
  using assms by (simp add: transact_def)

section \<open>The contract between a writer and its own reader\<close>

text \<open>A validator is coherent when whatever it lets a writer append, it accepts again as
  durable evidence.  Every row contract of the development is coherent, and then no
  append can leave a ledger that its reader refuses.\<close>

locale coherent_rows =
  fixes c :: "'r row_contract"
  assumes coherent: "validate_row c False r = Inr () \<Longrightarrow> validate_row c True r = Inr ()"
begin

lemma append_record_readable:
  assumes "append_record c rows r = Inr rows'"
  shows "readable c rows'"
  using assms
  by (auto simp: append_record_Inr_iff readable_def intro: coherent)

lemma append_record_valid:
  assumes "append_record c rows r = Inr rows'"
  shows "validate_row c True r = Inr ()"
  using assms by (auto simp: append_record_Inr_iff intro: coherent)

lemma transact_readable:
  assumes "transact c rows decide = Inr (result, rows')"
  shows "readable c rows'"
  using assms by (auto simp: transact_Inr_iff intro: append_record_readable)

lemma transact_extends:
  assumes "transact c rows decide = Inr (result, rows')"
  shows "\<exists>suffix. rows' = rows @ suffix \<and> length suffix \<le> 1"
  using assms by (fastforce simp: transact_Inr_iff append_record_Inr_iff)

end

lemmas [evaluate] =
  MAX_RECORD_BYTES_def MAX_LEDGER_BYTES_def MAX_LEDGER_RECORDS_def ledger_bytes_def
  decode_path_records_def encode_record_def append_frame_def append_record_def transact_def

end
