(* ===== verification/Planes.thy ===== *)
theory Planes
  imports Identifiers Ledger_Store
begin

text \<open>
  The three record planes of \<open>floati/planes.py\<close>: liveness evidence, expiring acting
  authority and mutual-exclusion holds.  Authority and holds are two instances of one
  compare-and-swap interval store over a ledger per subject; each operation runs under the
  subject's CAS lock and is one step here.

  Times are microseconds since the epoch (\<open>now\<close>, an aware \<open>datetime\<close>); a durable
  timestamp is the millisecond count its text denotes, because \<open>_format_time\<close> truncates
  to milliseconds and \<open>_parse_time\<close> reads that text back.
\<close>

definition MAX_TTL_SECONDS :: int where "MAX_TTL_SECONDS = 86400"

definition format_time :: "int \<Rightarrow> int" where "format_time micros = micros div 1000"
definition parse_time :: "int \<Rightarrow> int" where "parse_time stamp = stamp * 1000"

lemma parse_time_le_iff [simp]: "parse_time s \<le> now \<longleftrightarrow> s \<le> format_time now"
proof -
  have "now = 1000 * (now div 1000) + now mod 1000" by simp
  moreover have "0 \<le> now mod 1000" "now mod 1000 < 1000" by simp_all
  ultimately show ?thesis unfolding parse_time_def format_time_def by linarith
qed

lemma less_parse_time_iff [simp]: "now < parse_time s \<longleftrightarrow> format_time now < s"
  by (simp flip: not_le)

lemma format_parse [simp]: "format_time (parse_time s) = s"
  by (simp add: format_time_def parse_time_def)

lemma format_time_mono: "a \<le> b \<Longrightarrow> format_time a \<le> format_time b"
  by (simp add: format_time_def zdiv_mono1)

definition seconds :: "int \<Rightarrow> int" where "seconds n = n * 1000000"

lemma format_time_plus_seconds [simp]: "format_time (t + seconds n) = format_time t + n * 1000"
proof -
  have "t + n * 1000000 = t + (n * 1000) * 1000" by simp
  then show ?thesis unfolding format_time_def seconds_def by (simp only: div_mult_self1)
qed

definition validate_ttl :: "int \<Rightarrow> unit res" where
  "validate_ttl ttl_seconds =
     (if \<not> (1 \<le> ttl_seconds \<and> ttl_seconds \<le> MAX_TTL_SECONDS)
        then Inl (ProtocolRefusal ''ttl_invalid'') else Inr ())"

definition validate_interval :: "int \<Rightarrow> int \<Rightarrow> unit res" where
  "validate_interval ttl_seconds deadline_seconds =
     bindR (validate_ttl ttl_seconds) (\<lambda>_.
       if deadline_seconds < 1 \<or> deadline_seconds > MAX_TTL_SECONDS
         then Inl (ProtocolRefusal ''deadline_invalid'')
       else if deadline_seconds > ttl_seconds
         then Inl (ProtocolRefusal ''deadline_exceeds_ttl'')
       else Inr ())"

section \<open>Liveness evidence\<close>

record presence_row =
  pr_id :: string
  pr_tenant :: string
  pr_timestamp :: int
  pr_node :: string
  pr_observed_at :: int
  pr_expires_at :: int
  pr_state :: string

definition validate_presence :: "string \<Rightarrow> bool \<Rightarrow> presence_row \<Rightarrow> unit res" where
  "validate_presence tenant integrity r =
     guardR (pr_tenant r \<noteq> tenant) (refusal integrity ''tenant_mismatch'')
    (guardR (\<not> is_identifier (pr_tenant r)) (refusal integrity ''tenant_invalid'')
    (guardR (\<not> is_record_id ''presence-'' (pr_id r)) (refusal integrity ''record_id_invalid'')
    (guardR (\<not> is_identifier (pr_node r)) (refusal integrity ''node_id_invalid'')
    (guardR (pr_expires_at r \<le> pr_observed_at r) (refusal integrity ''time_order_invalid'')
    (guardR (pr_state r \<notin> {''present'', ''silent'', ''expired''}) (refusal integrity ''state_invalid'')
    (Inr ()))))))"

definition presence_contract ::
    "string \<Rightarrow> (presence_row \<Rightarrow> nat) \<Rightarrow> presence_row row_contract" where
  "presence_contract tenant flen =
     \<lparr>validate_row = validate_presence tenant, row_id = pr_id, frame_length = flen\<rparr>"

type_synonym presence_store = "string \<Rightarrow> presence_row list"

text \<open>\<open>LivenessPresenceStore.observe\<close>; \<open>uuid\<close> is the fresh \<open>uuid7_hex()\<close>.\<close>

definition observe ::
    "string \<Rightarrow> (presence_row \<Rightarrow> nat) \<Rightarrow> string \<Rightarrow> string \<Rightarrow> int \<Rightarrow> int \<Rightarrow>
     presence_store \<Rightarrow> (presence_row \<times> presence_store) res" where
  "observe tenant flen uuid node_id ttl_seconds now st =
     bindR (validate_identifier ''node'' node_id) (\<lambda>node.
     bindR (validate_ttl ttl_seconds) (\<lambda>_.
       let r = \<lparr>pr_id = ''presence-'' @ uuid, pr_tenant = tenant,
                pr_timestamp = format_time now, pr_node = node,
                pr_observed_at = format_time now,
                pr_expires_at = format_time (now + seconds ttl_seconds),
                pr_state = ''present''\<rparr>;
           decide = (\<lambda>records.
             if records \<noteq> [] \<and> now < parse_time (pr_observed_at (last records))
               then Inl (ProtocolRefusal ''time_regression'') else Inr (r, Some r))
       in bindR (transact (presence_contract tenant flen) (st node) decide)
            (\<lambda>(result, rows). Inr (result, st(node := rows)))))"

definition liveness_status ::
    "string \<Rightarrow> (presence_row \<Rightarrow> nat) \<Rightarrow> string \<Rightarrow> int \<Rightarrow> presence_store \<Rightarrow> string res" where
  "liveness_status tenant flen node_id now st =
     bindR (validate_identifier ''node'' node_id) (\<lambda>node.
     bindR (decode_path_records (presence_contract tenant flen) (st node)) (\<lambda>records.
       if records = [] then Inl (ProtocolRefusal ''liveness_unknown'')
       else let latest = last records;
                observed = parse_time (pr_observed_at latest);
                expires = parse_time (pr_expires_at latest)
            in if now \<ge> expires then Inr ''expired''
               else if now \<ge> observed + (expires - observed) div 2 then Inr ''silent''
               else Inr ''present''))"

section \<open>The interval store\<close>

datatype interval_state = Active | Released | Expired

record interval_row =
  iv_id :: string
  iv_tenant :: string
  iv_timestamp :: int
  iv_subject :: string
  iv_holder :: string
  iv_epoch :: int
  iv_claimed_at :: int
  iv_renewed_at :: int
  iv_expires_at :: int
  iv_released_at :: "int option"
  iv_ttl_seconds :: int
  iv_deadline_seconds :: int
  iv_state :: interval_state

text \<open>The constructor arguments of \<open>_CasIntervalStore\<close>.\<close>

record interval_config =
  directory :: string
  config_kind :: string
  subject_field :: string
  id_prefix :: string
  claim_time_field :: string
  held_code :: string
  missing_code :: string
  expired_code :: string
  released_code :: string

definition authority_config :: interval_config where
  "authority_config =
     \<lparr>directory = ''authority-grants'', config_kind = ''authority_grant'',
      subject_field = ''subject'', id_prefix = ''authority-'', claim_time_field = ''claimed_at'',
      held_code = ''authority_held'', missing_code = ''authority_missing'',
      expired_code = ''authority_expired'', released_code = ''authority_released''\<rparr>"

definition hold_config :: interval_config where
  "hold_config =
     \<lparr>directory = ''mutual-exclusion-holds'', config_kind = ''mutual_exclusion_hold'',
      subject_field = ''resource'', id_prefix = ''hold-'', claim_time_field = ''acquired_at'',
      held_code = ''exclusion_held'', missing_code = ''exclusion_missing'',
      expired_code = ''exclusion_expired'', released_code = ''exclusion_released''\<rparr>"

lemma config_simps [simp]:
  "subject_field authority_config = ''subject''" "subject_field hold_config = ''resource''"
  "id_prefix authority_config = ''authority-''" "id_prefix hold_config = ''hold-''"
  "held_code authority_config = ''authority_held''" "held_code hold_config = ''exclusion_held''"
  "missing_code authority_config = ''authority_missing''"
  "missing_code hold_config = ''exclusion_missing''"
  "expired_code authority_config = ''authority_expired''"
  "expired_code hold_config = ''exclusion_expired''"
  "released_code authority_config = ''authority_released''"
  "released_code hold_config = ''exclusion_released''"
  by (simp_all add: authority_config_def hold_config_def)

text \<open>The \<open>authority_grant\<close> and \<open>mutual_exclusion_hold\<close> branch of \<open>validate_record\<close>,
  after the tenant and id checks every kind shares.\<close>

definition validate_interval_row ::
    "interval_config \<Rightarrow> string \<Rightarrow> bool \<Rightarrow> interval_row \<Rightarrow> unit res" where
  "validate_interval_row cfg tenant integrity r =
     guardR (iv_tenant r \<noteq> tenant) (refusal integrity ''tenant_mismatch'')
    (guardR (\<not> is_identifier (iv_tenant r)) (refusal integrity ''tenant_invalid'')
    (guardR (\<not> is_record_id (id_prefix cfg) (iv_id r)) (refusal integrity ''record_id_invalid'')
    (guardR (\<not> is_identifier (iv_subject r))
       (refusal integrity (subject_field cfg @ ''_id_invalid''))
    (guardR (\<not> is_identifier (iv_holder r)) (refusal integrity ''holder_invalid'')
    (guardR (\<not> (1 \<le> iv_epoch r \<and> iv_epoch r \<le> 2 ^ 63 - 1)) (refusal integrity ''epoch_invalid'')
    (guardR (\<not> (1 \<le> iv_ttl_seconds r \<and> iv_ttl_seconds r \<le> 86400))
       (refusal integrity ''ttl_seconds_invalid'')
    (guardR (\<not> (1 \<le> iv_deadline_seconds r \<and> iv_deadline_seconds r \<le> 86400))
       (refusal integrity ''deadline_seconds_invalid'')
    (guardR (iv_deadline_seconds r > iv_ttl_seconds r) (refusal integrity ''deadline_exceeds_ttl'')
    (guardR (iv_renewed_at r < iv_claimed_at r \<or> iv_expires_at r < iv_renewed_at r \<or>
        (case iv_released_at r of None \<Rightarrow> False | Some t \<Rightarrow> t < iv_renewed_at r))
       (refusal integrity ''time_order_invalid'')
    (guardR ((iv_state r = Released) \<noteq> (iv_released_at r \<noteq> None))
       (refusal integrity ''release_state_invalid'')
    (Inr ())))))))))))"

definition interval_contract ::
    "interval_config \<Rightarrow> string \<Rightarrow> (interval_row \<Rightarrow> nat) \<Rightarrow> interval_row row_contract" where
  "interval_contract cfg tenant flen =
     \<lparr>validate_row = validate_interval_row cfg tenant, row_id = iv_id, frame_length = flen\<rparr>"

type_synonym interval_store = "string \<Rightarrow> interval_row list"

definition latest_row :: "interval_row row_contract \<Rightarrow> interval_row list \<Rightarrow> interval_row option res" where
  "latest_row c rows =
     bindR (decode_path_records c rows)
       (\<lambda>records. Inr (if records = [] then None else Some (last records)))"

text \<open>\<open>_CasIntervalStore._record\<close>.\<close>

definition interval_record ::
    "interval_config \<Rightarrow> string \<Rightarrow> string \<Rightarrow> string \<Rightarrow> string \<Rightarrow> int \<Rightarrow> int \<Rightarrow> int \<Rightarrow> int \<Rightarrow> int \<Rightarrow>
     interval_state \<Rightarrow> int option \<Rightarrow> interval_row" where
  "interval_record cfg tenant uuid subject holder epoch claimed renewed ttl deadline st released =
     (let expires = (case released of None \<Rightarrow> renewed + seconds ttl | Some t \<Rightarrow> t)
      in \<lparr>iv_id = id_prefix cfg @ uuid, iv_tenant = tenant,
          iv_timestamp = format_time (case released of None \<Rightarrow> renewed | Some t \<Rightarrow> t),
          iv_subject = subject, iv_holder = holder, iv_epoch = epoch,
          iv_claimed_at = format_time claimed, iv_renewed_at = format_time renewed,
          iv_expires_at = format_time expires,
          iv_released_at = map_option format_time released,
          iv_ttl_seconds = ttl, iv_deadline_seconds = deadline, iv_state = st\<rparr>)"

text \<open>\<open>_CasIntervalStore._require_current\<close>.\<close>

definition require_current ::
    "interval_config \<Rightarrow> interval_row row_contract \<Rightarrow> string \<Rightarrow> int \<Rightarrow> int \<Rightarrow> interval_row list \<Rightarrow>
     interval_row res" where
  "require_current cfg c holder epoch now rows =
     bindR (latest_row c rows) (\<lambda>latest.
       case latest of
         None \<Rightarrow> Inl (ProtocolRefusal (missing_code cfg))
       | Some prior \<Rightarrow>
           if epoch < 1 then Inl (ProtocolRefusal ''epoch_invalid'')
           else if iv_epoch prior \<noteq> epoch then Inl (ProtocolRefusal ''epoch_mismatch'')
           else if iv_holder prior \<noteq> holder then Inl (ProtocolRefusal ''holder_mismatch'')
           else if iv_state prior \<noteq> Active then Inl (ProtocolRefusal (released_code cfg))
           else if now < parse_time (iv_renewed_at prior) then Inl (ProtocolRefusal ''time_regression'')
           else if now \<ge> parse_time (iv_expires_at prior) then Inl (ProtocolRefusal (expired_code cfg))
           else Inr prior)"

definition put_row ::
    "interval_row row_contract \<Rightarrow> interval_store \<Rightarrow> string \<Rightarrow> interval_row \<Rightarrow>
     (interval_row \<times> interval_store) res" where
  "put_row c st subject r =
     bindR (append_record c (st subject) r) (\<lambda>rows. Inr (r, st(subject := rows)))"

text \<open>\<open>_CasIntervalStore.claim\<close>.\<close>

definition claim ::
    "interval_config \<Rightarrow> string \<Rightarrow> (interval_row \<Rightarrow> nat) \<Rightarrow> string \<Rightarrow> string \<Rightarrow> string \<Rightarrow> int \<Rightarrow> int \<Rightarrow> int \<Rightarrow>
     interval_store \<Rightarrow> (interval_row \<times> interval_store) res" where
  "claim cfg tenant flen uuid subject_id holder ttl deadline now st =
     bindR (validate_identifier (subject_field cfg) subject_id) (\<lambda>subject.
     bindR (validate_identifier ''holder'' holder) (\<lambda>owner.
     bindR (validate_interval ttl deadline) (\<lambda>_.
     bindR (latest_row (interval_contract cfg tenant flen) (st subject)) (\<lambda>latest.
       case latest of
         None \<Rightarrow> put_row (interval_contract cfg tenant flen) st subject
                   (interval_record cfg tenant uuid subject owner 1 now now ttl deadline Active None)
       | Some prior \<Rightarrow>
           if now < parse_time (iv_timestamp prior) then Inl (ProtocolRefusal ''time_regression'')
           else if iv_state prior = Active \<and> now < parse_time (iv_expires_at prior)
             then Inl (ProtocolRefusal (held_code cfg))
           else put_row (interval_contract cfg tenant flen) st subject
                  (interval_record cfg tenant uuid subject owner (iv_epoch prior + 1) now now
                     ttl deadline Active None)))))"

text \<open>\<open>_CasIntervalStore.renew\<close>.\<close>

definition renew ::
    "interval_config \<Rightarrow> string \<Rightarrow> (interval_row \<Rightarrow> nat) \<Rightarrow> string \<Rightarrow> string \<Rightarrow> string \<Rightarrow> int \<Rightarrow> int \<Rightarrow> int \<Rightarrow> int \<Rightarrow>
     interval_store \<Rightarrow> (interval_row \<times> interval_store) res" where
  "renew cfg tenant flen uuid subject_id holder epoch ttl deadline now st =
     bindR (validate_identifier (subject_field cfg) subject_id) (\<lambda>subject.
     bindR (validate_identifier ''holder'' holder) (\<lambda>owner.
     bindR (validate_interval ttl deadline) (\<lambda>_.
     bindR (require_current cfg (interval_contract cfg tenant flen) owner epoch now (st subject)) (\<lambda>prior.
       put_row (interval_contract cfg tenant flen) st subject
         (interval_record cfg tenant uuid subject owner epoch (parse_time (iv_claimed_at prior)) now
            ttl deadline Active None)))))"

text \<open>\<open>_CasIntervalStore.release\<close>.\<close>

definition release ::
    "interval_config \<Rightarrow> string \<Rightarrow> (interval_row \<Rightarrow> nat) \<Rightarrow> string \<Rightarrow> string \<Rightarrow> string \<Rightarrow> int \<Rightarrow> int \<Rightarrow>
     interval_store \<Rightarrow> (interval_row \<times> interval_store) res" where
  "release cfg tenant flen uuid subject_id holder epoch now st =
     bindR (validate_identifier (subject_field cfg) subject_id) (\<lambda>subject.
     bindR (validate_identifier ''holder'' holder) (\<lambda>owner.
     bindR (require_current cfg (interval_contract cfg tenant flen) owner epoch now (st subject)) (\<lambda>prior.
       put_row (interval_contract cfg tenant flen) st subject
         (interval_record cfg tenant uuid subject owner epoch
            (parse_time (iv_claimed_at prior)) (parse_time (iv_renewed_at prior))
            (iv_ttl_seconds prior) (iv_deadline_seconds prior) Released (Some now)))))"

text \<open>\<open>_CasIntervalStore.expire\<close>.\<close>

definition expire ::
    "interval_config \<Rightarrow> string \<Rightarrow> (interval_row \<Rightarrow> nat) \<Rightarrow> string \<Rightarrow> string \<Rightarrow> string \<Rightarrow> int \<Rightarrow> int \<Rightarrow>
     interval_store \<Rightarrow> (interval_row \<times> interval_store) res" where
  "expire cfg tenant flen uuid subject_id holder epoch now st =
     bindR (validate_identifier (subject_field cfg) subject_id) (\<lambda>subject.
     bindR (validate_identifier ''holder'' holder) (\<lambda>owner.
     bindR (require_current cfg (interval_contract cfg tenant flen) owner epoch now (st subject)) (\<lambda>prior.
       put_row (interval_contract cfg tenant flen) st subject
         \<lparr>iv_id = id_prefix cfg @ uuid, iv_tenant = tenant, iv_timestamp = format_time now,
          iv_subject = subject, iv_holder = owner, iv_epoch = epoch,
          iv_claimed_at = iv_claimed_at prior, iv_renewed_at = iv_renewed_at prior,
          iv_expires_at = format_time now, iv_released_at = None,
          iv_ttl_seconds = iv_ttl_seconds prior, iv_deadline_seconds = iv_deadline_seconds prior,
          iv_state = Expired\<rparr>)))"

section \<open>The authority surface\<close>

text \<open>\<open>AuthorityGrantStore.exact_tail\<close>.  The CAS lock file exists exactly when a claim has
  been attempted; its absence beside an existing ledger is a storage fault outside the
  model, so an absent ledger is the empty one.\<close>

definition exact_tail ::
    "string \<Rightarrow> (interval_row \<Rightarrow> nat) \<Rightarrow> string \<Rightarrow> interval_store \<Rightarrow> interval_row res" where
  "exact_tail tenant flen subject_id st =
     bindR (validate_identifier ''subject'' subject_id) (\<lambda>subject.
     bindR (latest_row (interval_contract authority_config tenant flen) (st subject)) (\<lambda>latest.
       case latest of
         None \<Rightarrow> Inl (ProtocolRefusal ''authority_missing'')
       | Some prior \<Rightarrow> Inr prior))"

text \<open>\<open>AuthorityGrantStore.grant_exact\<close>: append or replay one exact coordinate.\<close>

definition grant_exact ::
    "string \<Rightarrow> (interval_row \<Rightarrow> nat) \<Rightarrow> string \<Rightarrow> string \<Rightarrow> string \<Rightarrow> int \<Rightarrow> int \<Rightarrow> interval_store \<Rightarrow>
     (interval_row \<times> interval_store) res" where
  "grant_exact tenant flen uuid subject_id holder epoch now st =
     (let c = interval_contract authority_config tenant flen in
     bindR (validate_identifier ''subject'' subject_id) (\<lambda>subject.
     bindR (validate_identifier ''holder'' holder) (\<lambda>owner.
       if epoch < 1 then Inl (ProtocolRefusal ''authority_epoch_invalid'')
       else bindR (latest_row c (st subject)) (\<lambda>latest.
         if (case latest of None \<Rightarrow> False | Some prior \<Rightarrow> now < parse_time (iv_timestamp prior))
           then Inl (ProtocolRefusal ''time_regression'')
         else case latest of
           Some prior \<Rightarrow>
             if iv_state prior = Active \<and> iv_holder prior = owner \<and> iv_epoch prior = epoch \<and>
                now < parse_time (iv_expires_at prior)
               then Inr (prior, st)
             else if epoch \<noteq> iv_epoch prior + 1
               then Inl (ProtocolRefusal ''authority_epoch_mismatch'')
             else put_row c st subject
                    (interval_record authority_config tenant uuid subject owner epoch now now
                       MAX_TTL_SECONDS MAX_TTL_SECONDS Active None)
         | None \<Rightarrow>
             if epoch \<noteq> 1 then Inl (ProtocolRefusal ''authority_epoch_mismatch'')
             else put_row c st subject
                    (interval_record authority_config tenant uuid subject owner epoch now now
                       MAX_TTL_SECONDS MAX_TTL_SECONDS Active None)))))"

text \<open>\<open>AuthorityGrantStore.revoke_exact\<close>: a repeated revocation of the same coordinate
  answers with the durable row.\<close>

definition revoke_exact ::
    "string \<Rightarrow> (interval_row \<Rightarrow> nat) \<Rightarrow> string \<Rightarrow> string \<Rightarrow> string \<Rightarrow> int \<Rightarrow> int \<Rightarrow> interval_store \<Rightarrow>
     (interval_row \<times> interval_store) res" where
  "revoke_exact tenant flen uuid subject_id holder epoch now st =
     (case release authority_config tenant flen uuid subject_id holder epoch now st of
        Inr done_row \<Rightarrow> Inr done_row
      | Inl e \<Rightarrow>
          if e \<noteq> ProtocolRefusal ''authority_released'' then Inl e
          else bindR (exact_tail tenant flen subject_id st) (\<lambda>prior.
            if iv_state prior = Released \<and> iv_holder prior = holder \<and> iv_epoch prior = epoch
              then Inr (prior, st)
            else Inl e))"

lemmas [evaluate] =
  MAX_TTL_SECONDS_def format_time_def parse_time_def seconds_def validate_ttl_def
  validate_interval_def validate_presence_def presence_contract_def observe_def
  liveness_status_def validate_interval_row_def latest_row_def interval_record_def
  require_current_def put_row_def claim_def renew_def release_def expire_def exact_tail_def
  grant_exact_def revoke_exact_def

end
