(* ===== verification/Registry.thy ===== *)
theory Registry
  imports Identifiers Ledger_Store Planes
begin

text \<open>
  The node registry of \<open>floati/registry.py\<close>: registration, the active roster and the
  lease of a node, all projected from the physical order of \<open>registry/entries.jsonl\<close>.
  Retirement, which also closes lane workspaces, and fleet governance are not modelled.

  The ledger holds seven kinds; the registry itself reads two of them, and sees of the
  others only whether they carry a \<open>node_id\<close>.
\<close>

datatype lease_state = LeaseActive | LeaseRetired

record registry_entry =
  re_id :: string
  re_tenant :: string
  re_timestamp :: int
  re_node :: string
  re_role :: string
  re_active :: bool

record node_lease =
  nl_id :: string
  nl_tenant :: string
  nl_timestamp :: int
  nl_node :: string
  nl_workspace :: string
  nl_state :: lease_state
  nl_expires_at :: "int option"
  nl_predecessor :: "string option"

datatype registry_row =
    RegistryEntry registry_entry
  | NodeLease node_lease
  | OtherRegistryRow string "string option"

fun registry_row_id :: "registry_row \<Rightarrow> string" where
  "registry_row_id (RegistryEntry r) = re_id r"
| "registry_row_id (NodeLease r) = nl_id r"
| "registry_row_id (OtherRegistryRow i _) = i"

fun registry_row_node :: "registry_row \<Rightarrow> string option" where
  "registry_row_node (RegistryEntry r) = Some (re_node r)"
| "registry_row_node (NodeLease r) = Some (nl_node r)"
| "registry_row_node (OtherRegistryRow _ n) = n"

text \<open>\<open>validate_role\<close> and the \<open>registry_entry\<close> and \<open>node_lease\<close> branches of
  \<open>validate_record\<close>; \<open>other_ok\<close> stands for the branches of the remaining kinds.\<close>

definition validate_role :: "bool \<Rightarrow> string \<Rightarrow> string res" where
  "validate_role integrity role =
     bindR (bounded_string integrity 1 64 ''role'' role) (\<lambda>_. Inr role)"

definition validate_registry_entry :: "string \<Rightarrow> bool \<Rightarrow> registry_entry \<Rightarrow> unit res" where
  "validate_registry_entry tenant integrity r =
     guardR (re_tenant r \<noteq> tenant) (refusal integrity ''tenant_mismatch'')
    (guardR (\<not> is_identifier (re_tenant r)) (refusal integrity ''tenant_invalid'')
    (guardR (\<not> is_record_id ''registry-'' (re_id r)) (refusal integrity ''record_id_invalid'')
    (guardR (\<not> is_identifier (re_node r)) (refusal integrity ''node_id_invalid'')
    (bindR (validate_role integrity (re_role r)) (\<lambda>_. Inr ())))))"

definition validate_node_lease :: "string \<Rightarrow> bool \<Rightarrow> node_lease \<Rightarrow> unit res" where
  "validate_node_lease tenant integrity r =
     guardR (nl_tenant r \<noteq> tenant) (refusal integrity ''tenant_mismatch'')
    (guardR (\<not> is_identifier (nl_tenant r)) (refusal integrity ''tenant_invalid'')
    (guardR (\<not> is_record_id ''lease-'' (nl_id r)) (refusal integrity ''record_id_invalid'')
    (guardR (\<not> is_identifier (nl_node r)) (refusal integrity ''node_id_invalid'')
    (guardR (\<not> starts_with ''/'' (nl_workspace r)) (refusal integrity ''node_workspace_invalid'')
    (case nl_state r of
       LeaseActive \<Rightarrow>
         (case (nl_expires_at r, nl_predecessor r) of
            (Some expires, None) \<Rightarrow>
              guardR (expires \<le> nl_timestamp r) (refusal integrity ''node_lease_time_invalid'') (Inr ())
          | _ \<Rightarrow> Inl (refusal integrity ''node_lease_fields_invalid''))
     | LeaseRetired \<Rightarrow>
         (case (nl_predecessor r, nl_expires_at r) of
            (Some predecessor, None) \<Rightarrow>
              guardR (\<not> is_record_id ''lease-'' predecessor)
                (refusal integrity ''predecessor_lease_id_invalid'') (Inr ())
          | _ \<Rightarrow> Inl (refusal integrity ''node_lease_fields_invalid'')))))))"

fun validate_registry_row ::
    "(bool \<Rightarrow> string \<Rightarrow> unit res) \<Rightarrow> string \<Rightarrow> bool \<Rightarrow> registry_row \<Rightarrow> unit res" where
  "validate_registry_row other_ok tenant integrity (RegistryEntry r) =
     validate_registry_entry tenant integrity r"
| "validate_registry_row other_ok tenant integrity (NodeLease r) =
     validate_node_lease tenant integrity r"
| "validate_registry_row other_ok tenant integrity (OtherRegistryRow i _) = other_ok integrity i"

definition registry_contract ::
    "(bool \<Rightarrow> string \<Rightarrow> unit res) \<Rightarrow> string \<Rightarrow> (registry_row \<Rightarrow> nat) \<Rightarrow> registry_row row_contract" where
  "registry_contract other_ok tenant flen =
     \<lparr>validate_row = validate_registry_row other_ok tenant, row_id = registry_row_id,
      frame_length = flen\<rparr>"

section \<open>Projections\<close>

text \<open>The dictionary \<open>latest\<close> of \<open>active_node_ids\<close>: the last entry of each node wins.\<close>

fun latest_entries :: "registry_row list \<Rightarrow> (string \<rightharpoonup> registry_entry) \<Rightarrow> (string \<rightharpoonup> registry_entry)" where
  "latest_entries [] latest = latest"
| "latest_entries (RegistryEntry r # rows) latest = latest_entries rows (latest(re_node r \<mapsto> r))"
| "latest_entries (_ # rows) latest = latest_entries rows latest"

fun entry_nodes :: "registry_row list \<Rightarrow> string list" where
  "entry_nodes [] = []"
| "entry_nodes (RegistryEntry r # rows) = re_node r # entry_nodes rows"
| "entry_nodes (_ # rows) = entry_nodes rows"

definition active_node_ids :: "registry_row list \<Rightarrow> string list" where
  "active_node_ids rows =
     sort (remdups (filter
       (\<lambda>node. case latest_entries rows Map.empty node of
           None \<Rightarrow> False | Some r \<Rightarrow> re_active r)
       (entry_nodes rows)))"

fun first_entry_for :: "string \<Rightarrow> registry_row list \<Rightarrow> registry_entry option" where
  "first_entry_for node [] = None"
| "first_entry_for node (RegistryEntry r # rows) =
     (if re_node r = node then Some r else first_entry_for node rows)"
| "first_entry_for node (_ # rows) = first_entry_for node rows"

text \<open>\<open>_latest\<close> scans the ledger backwards.\<close>

definition latest_entry :: "registry_row list \<Rightarrow> string \<Rightarrow> registry_entry option" where
  "latest_entry rows node = first_entry_for node (rev rows)"

definition resolve_node_id ::
    "string \<Rightarrow> bool \<Rightarrow> string \<Rightarrow> registry_row list \<Rightarrow> string \<Rightarrow> string res" where
  "resolve_node_id field must_be_active unknown_code rows node_id =
     bindR (validate_identifier field node_id) (\<lambda>node.
       if \<not> must_be_active then Inr node
       else if node \<notin> set (active_node_ids rows) then Inl (ProtocolRefusal unknown_code)
       else Inr node)"

definition require_active :: "registry_row list \<Rightarrow> string \<Rightarrow> registry_entry res" where
  "require_active rows node_id =
     bindR (resolve_node_id ''node'' True ''unknown_node'' rows node_id) (\<lambda>node.
       case latest_entry rows node of
         None \<Rightarrow> Inl (ProtocolRefusal ''unknown_node'')
       | Some r \<Rightarrow> if \<not> re_active r then Inl (ProtocolRefusal ''unknown_node'') else Inr r)"

datatype lease_view = NotLeased | LeaseIs string string "int option"

fun latest_lease :: "registry_row list \<Rightarrow> string \<Rightarrow> node_lease option \<Rightarrow> node_lease option" where
  "latest_lease [] node found = found"
| "latest_lease (NodeLease r # rows) node found =
     latest_lease rows node (if nl_node r = node then Some r else found)"
| "latest_lease (_ # rows) node found = latest_lease rows node found"

definition node_lease_state :: "registry_row list \<Rightarrow> string \<Rightarrow> int \<Rightarrow> lease_view res" where
  "node_lease_state rows node_id now =
     bindR (resolve_node_id ''node'' True ''unknown_node'' rows node_id) (\<lambda>node.
       case latest_lease rows node None of
         None \<Rightarrow> Inr NotLeased
       | Some r \<Rightarrow>
           Inr (LeaseIs (nl_id r)
             (case nl_state r of
                LeaseActive \<Rightarrow>
                  (case nl_expires_at r of
                     Some expires \<Rightarrow> if now \<ge> parse_time expires then ''expired'' else ''active''
                   | None \<Rightarrow> ''active'')
              | LeaseRetired \<Rightarrow> ''retired'')
             (nl_expires_at r)))"

definition require_protocol_lease :: "registry_row list \<Rightarrow> string \<Rightarrow> int \<Rightarrow> lease_view res" where
  "require_protocol_lease rows node_id now =
     bindR (node_lease_state rows node_id now) (\<lambda>lease.
       case lease of
         LeaseIs _ state _ \<Rightarrow>
           if state = ''expired'' then Inl (ProtocolRefusal ''node_lease_expired'') else Inr lease
       | NotLeased \<Rightarrow> Inr lease)"

section \<open>Registration\<close>

definition register ::
    "(bool \<Rightarrow> string \<Rightarrow> unit res) \<Rightarrow> string \<Rightarrow> (registry_row \<Rightarrow> nat) \<Rightarrow> string \<Rightarrow> string \<Rightarrow> string \<Rightarrow>
     int \<Rightarrow> registry_row list \<Rightarrow> (registry_entry \<times> registry_row list) res" where
  "register other_ok tenant flen uuid node_id role now rows =
     bindR (resolve_node_id ''node'' False ''unknown_node'' rows node_id) (\<lambda>node.
     bindR (validate_role False role) (\<lambda>role.
       let r = \<lparr>re_id = ''registry-'' @ uuid, re_tenant = tenant, re_timestamp = format_time now,
                re_node = node, re_role = role, re_active = True\<rparr>;
           decide = (\<lambda>records.
             if list_ex (\<lambda>item. registry_row_node item = Some node) records
               then Inl (ProtocolRefusal ''registry_duplicate'')
             else Inr (r, Some (RegistryEntry r)))
       in transact (registry_contract other_ok tenant flen) rows decide))"

section \<open>The roster and the backward scan agree\<close>

lemma latest_entries_append:
  "latest_entries (xs @ ys) m = latest_entries ys (latest_entries xs m)"
proof (induction xs arbitrary: m)
  case (Cons x xs)
  show ?case by (cases x) (simp_all only: append_Cons latest_entries.simps Cons.IH)
qed simp

lemma latest_entry_snoc:
  "latest_entry (rows @ [row]) node =
     (case row of RegistryEntry r \<Rightarrow> if re_node r = node then Some r else latest_entry rows node
      | _ \<Rightarrow> latest_entry rows node)"
  by (cases row) (simp_all add: latest_entry_def)

lemma latest_entries_eq_latest_entry:
  "latest_entries rows Map.empty node = latest_entry rows node"
proof (induction rows rule: rev_induct)
  case Nil
  then show ?case by (simp add: latest_entry_def)
next
  case (snoc row rows)
  then show ?case
    by (cases row) (auto simp: latest_entries_append latest_entry_snoc)
qed

lemma entry_nodes_append: "entry_nodes (xs @ ys) = entry_nodes xs @ entry_nodes ys"
proof (induction xs)
  case (Cons x xs)
  then show ?case by (cases x) simp_all
qed simp

lemma latest_entry_in_nodes: "latest_entry rows node = Some r \<Longrightarrow> node \<in> set (entry_nodes rows)"
proof (induction rows rule: rev_induct)
  case Nil
  then show ?case by (simp add: latest_entry_def)
next
  case (snoc row rows)
  have "entry_nodes (rows @ [row]) = entry_nodes rows @ entry_nodes [row]"
    by (rule entry_nodes_append)
  with snoc show ?case
    by (cases row) (auto simp: latest_entry_snoc split: if_splits)
qed

lemma active_node_ids_iff:
  "node \<in> set (active_node_ids rows) \<longleftrightarrow> (\<exists>r. latest_entry rows node = Some r \<and> re_active r)"
  by (auto simp: active_node_ids_def latest_entries_eq_latest_entry
      intro: latest_entry_in_nodes split: option.splits)

lemma require_active_Inr_iff:
  "require_active rows node = Inr r \<longleftrightarrow>
     is_identifier node \<and> latest_entry rows node = Some r \<and> re_active r"
  by (auto simp: require_active_def resolve_node_id_def bindR_Inr_iff active_node_ids_iff
      split: option.splits if_splits)

lemma validate_registry_entry_True:
  "validate_registry_entry tenant False r = Inr () \<Longrightarrow> validate_registry_entry tenant True r = Inr ()"
  by (auto simp: validate_registry_entry_def validate_role_def bindR_Inr_iff bounded_string_Inr_iff)

lemma latest_entry_node: "latest_entry rows node = Some r \<Longrightarrow> re_node r = node"
proof (induction rows rule: rev_induct)
  case Nil
  then show ?case by (simp add: latest_entry_def)
next
  case (snoc row rows)
  then show ?case by (cases row) (auto simp: latest_entry_snoc split: if_splits)
qed

lemma registry_contract_simps [simp]:
  "validate_row (registry_contract ok tenant flen) = validate_registry_row ok tenant"
  "row_id (registry_contract ok tenant flen) = registry_row_id"
  "frame_length (registry_contract ok tenant flen) = flen"
  by (simp_all add: registry_contract_def)

lemmas [evaluate] =
  validate_role_def validate_registry_entry_def validate_node_lease_def registry_contract_def
  active_node_ids_def latest_entry_def resolve_node_id_def require_active_def node_lease_state_def
  require_protocol_lease_def register_def

section \<open>Properties\<close>

text \<open>Registration appends exactly one entry; from then on \<open>require_active\<close> admits the
  node with that very entry, the roster lists it, and the same node can never be registered
  a second time, whatever role is asked for.\<close>

theorem registered_node_active:
  assumes "register ok tenant flen uuid node role now rows = Inr (r, rows')"
    and "validate_role False role2 = Inr role2"
  shows "rows' = rows @ [RegistryEntry r] \<and> require_active rows' node = Inr r \<and>
    node \<in> set (active_node_ids rows') \<and>
    register ok tenant flen uuid2 node role2 now2 rows' = Inl (ProtocolRefusal ''registry_duplicate'')"
proof -
  from assms(1) have r: "re_node r = node" "re_active r" "is_identifier node"
    and app: "append_record (registry_contract ok tenant flen) rows (RegistryEntry r) = Inr rows'"
    by (auto simp: register_def resolve_node_id_def bindR_Inr_iff transact_Inr_iff Let_def
        split: if_splits)
  then have rows': "rows' = rows @ [RegistryEntry r]"
    by (simp add: append_record_Inr_iff)
  have "validate_registry_entry tenant True r = Inr ()"
    using app by (simp add: append_record_Inr_iff validate_registry_entry_True)
  then have rd: "readable (registry_contract ok tenant flen) rows'"
    using app by (auto simp: append_record_Inr_iff readable_def)
  have lat: "latest_entry rows' node = Some r"
    by (simp add: rows' latest_entry_snoc r)
  have dup: "list_ex (\<lambda>item. registry_row_node item = Some node) rows'"
    by (simp add: rows' r)
  show ?thesis
    using rows' lat r rd dup assms(2)
    by (auto simp: require_active_Inr_iff active_node_ids_iff register_def resolve_node_id_def
        validate_identifier_def Let_def intro!: transact_decide_fails)
qed

theorem registered_node_active_witness:
  "\<exists>r rows'. register (\<lambda>_ _. Inr ()) ''fleet'' (\<lambda>_. 200) ''0189000000007000800000000000000a'' ''alice'' ''builder'' 5000000
      [] = Inr (r, rows') \<and> require_active rows' ''alice'' = Inr r"
proof -
  let ?r = "\<lparr>re_id = ''registry-'' @ ''0189000000007000800000000000000a'', re_tenant = ''fleet'', re_timestamp = 5000,
      re_node = ''alice'', re_role = ''builder'', re_active = True\<rparr>"
  have reg: "register (\<lambda>_ _. Inr ()) ''fleet'' (\<lambda>_. 200) ''0189000000007000800000000000000a'' ''alice'' ''builder'' 5000000
      [] = Inr (?r, [RegistryEntry ?r])"
    by (simp add: evaluate Let_def)
  have role: "validate_role False ''builder'' = Inr ''builder''"
    by (simp add: evaluate Let_def)
  from registered_node_active [OF reg role] reg show ?thesis by blast
qed

end
