(* ===== verification/Work_Ledger.thy ===== *)
theory Work_Ledger
  imports Registry
begin

text \<open>
  The work log: the rows of \<open>work/items.jsonl\<close> and their validators, the projection of
  \<open>floati/consumption.py\<close> and the operations of \<open>floati/work.py\<close>.

  The projected dictionary is an association list in insertion order, because the order
  decides which item \<open>claim_owned_oldest\<close> takes; \<open>AList.update\<close> is Python's item
  assignment (an existing key keeps its place, a new key goes last).
\<close>

section \<open>Rows\<close>

record binding =
  bd_repo :: string
  bd_sha :: string
  bd_doc :: string

record work_item_row =
  wi_id :: string
  wi_tenant :: string
  wi_timestamp :: int
  wi_title :: string
  wi_owner :: string
  wi_bindings :: "binding list"
  wi_needs :: "string list"
  wi_workspace :: "string option"

datatype work_action = ClaimWork | CompleteWork

record work_transition_row =
  wt_id :: string
  wt_tenant :: string
  wt_timestamp :: int
  wt_item :: string
  wt_action :: work_action
  wt_actor :: string
  wt_subject :: string
  wt_epoch :: int
  wt_bindings :: "binding list"

datatype work_row = WorkItem work_item_row | WorkTransition work_transition_row

fun work_row_id :: "work_row \<Rightarrow> string" where
  "work_row_id (WorkItem r) = wi_id r"
| "work_row_id (WorkTransition r) = wt_id r"

definition is_work_id :: "string \<Rightarrow> bool" where
  "is_work_id s \<longleftrightarrow> is_record_id ''work-'' s"

text \<open>\<open>_artifact_bindings\<close>: at most 32 well-formed, pairwise different bindings.\<close>

fun check_bindings :: "bool \<Rightarrow> binding set \<Rightarrow> binding list \<Rightarrow> unit res" where
  "check_bindings integrity seen [] = Inr ()"
| "check_bindings integrity seen (b # bs) =
     guardR (\<not> is_repository (bd_repo b)) (refusal integrity ''repo_invalid'')
    (guardR (\<not> is_git_sha (bd_sha b)) (refusal integrity ''sha_invalid'')
    (guardR (\<not> is_repository_document (bd_doc b)) (refusal integrity ''doc_invalid'')
    (guardR (b \<in> seen) (refusal integrity ''artifact_binding_duplicate'')
    (check_bindings integrity (insert b seen) bs))))"

definition artifact_bindings :: "bool \<Rightarrow> binding list \<Rightarrow> unit res" where
  "artifact_bindings integrity bs =
     guardR (length bs > 32) (refusal integrity ''artifact_bindings_invalid'')
       (check_bindings integrity {} bs)"

text \<open>\<open>_worker_workspace_shape\<close>.\<close>

definition worker_workspace_shape :: "string \<Rightarrow> bool" where
  "worker_workspace_shape s \<longleftrightarrow>
     \<not> terminal_unsafe s \<and> starts_with ''/'' s \<and>
     (let components = split_on CHR ''/'' s
      in list_all (\<lambda>c. c \<notin> {'''', ''.'', ''..''}) (tl components) \<and> length components \<ge> 3 \<and>
         components ! (length components - 2) = ''floati-work'' \<and> is_work_id (last components))"

definition workspace_ok :: "string \<Rightarrow> string option \<Rightarrow> bool" where
  "workspace_ok item workspace =
     (case workspace of
        None \<Rightarrow> True
      | Some w \<Rightarrow> worker_workspace_shape w \<and> last (split_on CHR ''/'' w) = item)"

definition validate_work_item :: "string \<Rightarrow> bool \<Rightarrow> work_item_row \<Rightarrow> unit res" where
  "validate_work_item tenant integrity r =
     guardR (wi_tenant r \<noteq> tenant) (refusal integrity ''tenant_mismatch'')
    (guardR (\<not> is_identifier (wi_tenant r)) (refusal integrity ''tenant_invalid'')
    (guardR (\<not> is_work_id (wi_id r)) (refusal integrity ''record_id_invalid'')
    (bindR (bounded_string integrity 1 256 ''title'' (wi_title r)) (\<lambda>_.
    (guardR (\<not> is_identifier (wi_owner r)) (refusal integrity ''owner_invalid'')
    (bindR (artifact_bindings integrity (wi_bindings r)) (\<lambda>_.
    (guardR (length (wi_needs r) > 64) (refusal integrity ''needs_invalid'')
    (guardR (\<not> list_all is_work_id (wi_needs r) \<or> \<not> distinct (wi_needs r))
       (refusal integrity ''needs_invalid'')
    (guardR (\<not> workspace_ok (wi_id r) (wi_workspace r)) (refusal integrity ''workspace_invalid'')
    (Inr ())))))))))))"

definition validate_work_transition :: "string \<Rightarrow> bool \<Rightarrow> work_transition_row \<Rightarrow> unit res" where
  "validate_work_transition tenant integrity r =
     guardR (wt_tenant r \<noteq> tenant) (refusal integrity ''tenant_mismatch'')
    (guardR (\<not> is_identifier (wt_tenant r)) (refusal integrity ''tenant_invalid'')
    (guardR (\<not> is_record_id ''transition-'' (wt_id r)) (refusal integrity ''record_id_invalid'')
    (guardR (\<not> is_work_id (wt_item r)) (refusal integrity ''work_item_id_invalid'')
    (guardR (\<not> is_identifier (wt_actor r)) (refusal integrity ''actor_invalid'')
    (guardR (\<not> is_identifier (wt_subject r)) (refusal integrity ''authority_subject_invalid'')
    (guardR (\<not> (1 \<le> wt_epoch r \<and> wt_epoch r \<le> 2 ^ 63 - 1))
       (refusal integrity ''authority_epoch_invalid'')
    (artifact_bindings integrity (wt_bindings r))))))))"

fun validate_work_row :: "string \<Rightarrow> bool \<Rightarrow> work_row \<Rightarrow> unit res" where
  "validate_work_row tenant integrity (WorkItem r) = validate_work_item tenant integrity r"
| "validate_work_row tenant integrity (WorkTransition r) =
     validate_work_transition tenant integrity r"

definition work_contract :: "string \<Rightarrow> (work_row \<Rightarrow> nat) \<Rightarrow> work_row row_contract" where
  "work_contract tenant flen =
     \<lparr>validate_row = validate_work_row tenant, row_id = work_row_id, frame_length = flen\<rparr>"

section \<open>The projection (\<open>consumption.py\<close>)\<close>

datatype work_state = OpenWork | ClaimedWork | CompletedWork

datatype readiness = Ready | Blocked | ClaimedReadiness | DoneReadiness

record item_state =
  st_id :: string
  st_title :: string
  st_owner :: string
  st_state :: work_state
  st_holder :: "string option"
  st_subject :: "string option"
  st_epoch :: "int option"
  st_workspace :: "string option"
  st_needs :: "string list"
  st_bindings :: "binding list"
  st_last_activity :: int
  st_readiness :: "readiness option"

type_synonym work_states = "(string \<times> item_state) list"

definition opened :: "work_item_row \<Rightarrow> item_state" where
  "opened r =
     \<lparr>st_id = wi_id r, st_title = wi_title r, st_owner = wi_owner r, st_state = OpenWork,
      st_holder = None, st_subject = None, st_epoch = None, st_workspace = wi_workspace r,
      st_needs = wi_needs r, st_bindings = wi_bindings r, st_last_activity = wi_timestamp r,
      st_readiness = None\<rparr>"

definition is_completed :: "work_states \<Rightarrow> string \<Rightarrow> bool" where
  "is_completed states item =
     (case map_of states item of None \<Rightarrow> False | Some i \<Rightarrow> st_state i = CompletedWork)"

text \<open>\<open>for binding in record["artifact_bindings"]: if binding not in ...: append\<close>.\<close>

fun add_bindings :: "binding list \<Rightarrow> binding list \<Rightarrow> binding list" where
  "add_bindings have [] = have"
| "add_bindings have (b # bs) = add_bindings (if b \<in> set have then have else have @ [b]) bs"

text \<open>One turn of the loop of \<open>project_tail\<close>.\<close>

fun work_step :: "work_states \<Rightarrow> work_row \<Rightarrow> work_states res" where
  "work_step states (WorkItem r) =
     (if list_ex (\<lambda>d. map_of states d = None) (wi_needs r)
        then Inl (IntegrityFailure ''work_dependency_orphan'')
      else Inr (AList.update (wi_id r) (opened r) states))"
| "work_step states (WorkTransition r) =
     (case map_of states (wt_item r) of
        None \<Rightarrow> Inl (IntegrityFailure ''work_transition_orphan'')
      | Some item \<Rightarrow>
          (case wt_action r of
             ClaimWork \<Rightarrow>
               if st_state item \<noteq> OpenWork then Inl (IntegrityFailure ''work_transition_invalid'')
               else if list_ex (\<lambda>d. \<not> is_completed states d) (st_needs item)
                 then Inl (IntegrityFailure ''work_dependencies_blocked'')
               else Inr (AList.update (wt_item r)
                      (item\<lparr>st_state := ClaimedWork, st_holder := Some (wt_actor r),
                            st_subject := Some (wt_subject r), st_epoch := Some (wt_epoch r),
                            st_last_activity := wt_timestamp r\<rparr>) states)
           | CompleteWork \<Rightarrow>
               if st_state item \<noteq> ClaimedWork \<or> st_holder item \<noteq> Some (wt_actor r)
                 then Inl (IntegrityFailure ''work_transition_invalid'')
               else Inr (AList.update (wt_item r)
                      (item\<lparr>st_state := CompletedWork,
                            st_bindings := add_bindings (st_bindings item) (wt_bindings r),
                            st_last_activity := wt_timestamp r\<rparr>) states)))"

definition readiness_of :: "work_states \<Rightarrow> item_state \<Rightarrow> readiness" where
  "readiness_of states item =
     (case st_state item of
        ClaimedWork \<Rightarrow> ClaimedReadiness
      | CompletedWork \<Rightarrow> DoneReadiness
      | OpenWork \<Rightarrow> if list_all (is_completed states) (st_needs item) then Ready else Blocked)"

definition set_readiness :: "work_states \<Rightarrow> work_states" where
  "set_readiness states =
     map (\<lambda>(k, i). (k, i\<lparr>st_readiness := Some (readiness_of states i)\<rparr>)) states"

definition project_tail :: "work_states \<Rightarrow> work_row list \<Rightarrow> work_states res" where
  "project_tail initial rows =
     (case replay work_step initial rows of
        Inl _ \<Rightarrow> Inl (IntegrityFailure ''consumption_state_unavailable'')
      | Inr states \<Rightarrow> Inr (set_readiness states))"

definition work_project :: "work_row list \<Rightarrow> work_states res" where
  "work_project rows = project_tail [] rows"

text \<open>\<open>ConsumptionLedger.records\<close> and \<open>project()\<close> without argument.\<close>

definition consumption_records :: "string \<Rightarrow> (work_row \<Rightarrow> nat) \<Rightarrow> work_row list \<Rightarrow> work_row list res" where
  "consumption_records tenant flen rows =
     (case decode_path_records (work_contract tenant flen) rows of
        Inl (IntegrityFailure _) \<Rightarrow> Inl (IntegrityFailure ''consumption_state_unavailable'')
      | other \<Rightarrow> other)"

record work_summary =
  ws_work_available :: bool
  ws_open :: nat
  ws_claimed :: nat
  ws_completed :: nat

definition concerns :: "string \<Rightarrow> item_state \<Rightarrow> bool" where
  "concerns node item \<longleftrightarrow>
     st_state item = OpenWork \<and> st_owner item = node \<or>
     st_state item \<noteq> OpenWork \<and> st_holder item = Some node"

definition summary ::
    "string \<Rightarrow> (work_row \<Rightarrow> nat) \<Rightarrow> work_row list \<Rightarrow> string option \<Rightarrow> work_summary res" where
  "summary tenant flen rows node_id =
     bindR (consumption_records tenant flen rows) (\<lambda>records.
     bindR (work_project records) (\<lambda>states.
       let selected = (case node_id of
             None \<Rightarrow> map snd states
           | Some node \<Rightarrow> filter (concerns node) (map snd states));
           count = (\<lambda>st. length (filter (\<lambda>i. st_state i = st) selected))
       in Inr \<lparr>ws_work_available = (count OpenWork \<noteq> 0), ws_open = count OpenWork,
               ws_claimed = count ClaimedWork, ws_completed = count CompletedWork\<rparr>))"

section \<open>Operations (\<open>work.py\<close>)\<close>

text \<open>\<open>WorkLog.add\<close>.  \<open>workspace_root\<close> is \<open>worker_workspace_root()\<close> of the host.\<close>

definition work_add ::
    "string \<Rightarrow> (work_row \<Rightarrow> nat) \<Rightarrow> string \<Rightarrow> registry_row list \<Rightarrow> string \<Rightarrow> string \<Rightarrow> string \<Rightarrow>
     binding list \<Rightarrow> string list \<Rightarrow> bool \<Rightarrow> int \<Rightarrow> work_row list \<Rightarrow>
     (work_item_row \<times> work_row list) res" where
  "work_add tenant flen workspace_root registry uuid title owner bindings needs provision now rows =
     bindR (require_active registry owner) (\<lambda>_.
       let item_id = ''work-'' @ uuid;
           r = \<lparr>wi_id = item_id, wi_tenant = tenant, wi_timestamp = format_time now,
                wi_title = title, wi_owner = owner, wi_bindings = bindings, wi_needs = needs,
                wi_workspace =
                  (if provision then Some (workspace_root @ ''/'' @ item_id) else None)\<rparr>;
           decide = (\<lambda>records.
             bindR (work_project records) (\<lambda>states.
               if list_ex (\<lambda>d. map_of states d = None) needs
                 then Inl (ProtocolRefusal ''work_dependency_unknown'')
               else Inr (r, Some (WorkItem r))))
       in bindR (validate_work_item tenant False r) (\<lambda>_.
            transact (work_contract tenant flen) rows decide))"

text \<open>\<open>_require_authority\<close>: the last row of the subject's grant ledger.\<close>

definition require_authority ::
    "string \<Rightarrow> (interval_row \<Rightarrow> nat) \<Rightarrow> interval_store \<Rightarrow> string \<Rightarrow> string \<Rightarrow> int \<Rightarrow> int \<Rightarrow> unit res" where
  "require_authority tenant gflen grants subject actor epoch now =
     bindR (decode_path_records (interval_contract authority_config tenant gflen) (grants subject))
       (\<lambda>records.
         if records = [] then Inl (ProtocolRefusal ''authority_missing'')
         else let grant = last records in
           if iv_state grant \<noteq> Active then Inl (ProtocolRefusal ''authority_inactive'')
           else if now \<ge> parse_time (iv_expires_at grant)
             then Inl (ProtocolRefusal ''authority_inactive'')
           else if iv_holder grant \<noteq> actor then Inl (ProtocolRefusal ''authority_holder_mismatch'')
           else if iv_epoch grant \<noteq> epoch then Inl (ProtocolRefusal ''authority_epoch_mismatch'')
           else Inr ())"

definition transition_record ::
    "string \<Rightarrow> string \<Rightarrow> string \<Rightarrow> work_action \<Rightarrow> string \<Rightarrow> string \<Rightarrow> int \<Rightarrow> binding list \<Rightarrow> int \<Rightarrow>
     work_transition_row res" where
  "transition_record tenant uuid item_id action actor subject epoch bindings now =
     (let r = \<lparr>wt_id = ''transition-'' @ uuid, wt_tenant = tenant, wt_timestamp = format_time now,
               wt_item = item_id, wt_action = action, wt_actor = actor, wt_subject = subject,
               wt_epoch = epoch, wt_bindings = bindings\<rparr>
      in bindR (validate_work_transition tenant False r) (\<lambda>_. Inr r))"

definition claim_transition ::
    "string \<Rightarrow> (work_row \<Rightarrow> nat) \<Rightarrow> string \<Rightarrow> string \<Rightarrow> work_action \<Rightarrow> string \<Rightarrow> string \<Rightarrow> int \<Rightarrow>
     binding list \<Rightarrow> int \<Rightarrow> work_row list \<Rightarrow> (work_transition_row \<times> work_row list) res" where
  "claim_transition tenant flen uuid item_id action actor subject epoch bindings now rows =
     (let decide = (\<lambda>records.
        bindR (work_project records) (\<lambda>states.
          case map_of states item_id of
            None \<Rightarrow> Inl (ProtocolRefusal ''work_unknown'')
          | Some item \<Rightarrow>
              if st_state item \<noteq> OpenWork then Inl (ProtocolRefusal ''work_not_open'')
              else if st_readiness item \<noteq> Some Ready
                then Inl (ProtocolRefusal ''work_dependencies_blocked'')
              else bindR (transition_record tenant uuid item_id action actor subject epoch
                            bindings now)
                     (\<lambda>r. Inr (r, Some (WorkTransition r)))))
      in transact (work_contract tenant flen) rows decide)"

text \<open>The four things a claimant needs before the work ledger is opened.\<close>

definition admit_claimant ::
    "string \<Rightarrow> (interval_row \<Rightarrow> nat) \<Rightarrow> registry_row list \<Rightarrow> interval_store \<Rightarrow> string \<Rightarrow> string \<Rightarrow>
     int \<Rightarrow> int \<Rightarrow> string res" where
  "admit_claimant tenant gflen registry grants actor subject_id epoch now =
     bindR (require_active registry actor) (\<lambda>_.
     bindR (require_protocol_lease registry actor now) (\<lambda>_.
     bindR (validate_identifier ''authority_subject'' subject_id) (\<lambda>subject.
       if epoch < 1 then Inl (ProtocolRefusal ''authority_epoch_invalid'')
       else bindR (require_authority tenant gflen grants subject actor epoch now)
              (\<lambda>_. Inr subject))))"

definition work_claim ::
    "string \<Rightarrow> (work_row \<Rightarrow> nat) \<Rightarrow> (interval_row \<Rightarrow> nat) \<Rightarrow> registry_row list \<Rightarrow> interval_store \<Rightarrow>
     string \<Rightarrow> string \<Rightarrow> string \<Rightarrow> string \<Rightarrow> int \<Rightarrow> int \<Rightarrow> work_row list \<Rightarrow>
     (work_transition_row \<times> work_row list) res" where
  "work_claim tenant flen gflen registry grants uuid item_id actor subject_id epoch now rows =
     bindR (admit_claimant tenant gflen registry grants actor subject_id epoch now) (\<lambda>subject.
       claim_transition tenant flen uuid item_id ClaimWork actor subject epoch [] now rows)"

fun first_ready :: "string \<Rightarrow> work_states \<Rightarrow> item_state option" where
  "first_ready actor [] = None"
| "first_ready actor ((_, i) # states) =
     (if st_readiness i = Some Ready \<and> st_owner i = actor then Some i
      else first_ready actor states)"

text \<open>\<open>claim_owned_oldest\<close>: an \<open>IntegrityFailure\<close> of the authority read and one of the
  work ledger get a public code each.\<close>

definition integrity_as :: "string \<Rightarrow> 'a res \<Rightarrow> 'a res" where
  "integrity_as public m =
     (case m of Inl (IntegrityFailure _) \<Rightarrow> Inl (IntegrityFailure public) | other \<Rightarrow> other)"

definition owned_oldest_decide ::
    "string \<Rightarrow> string \<Rightarrow> string \<Rightarrow> string \<Rightarrow> int \<Rightarrow> int \<Rightarrow> work_row list \<Rightarrow>
     (item_state \<times> work_row option) res" where
  "owned_oldest_decide tenant uuid actor subject epoch now records =
     bindR (work_project records) (\<lambda>states.
       case first_ready actor states of
         None \<Rightarrow>
           if list_ex (\<lambda>(_, i). st_readiness i = Some Blocked \<and> st_owner i = actor) states
             then Inl (ProtocolRefusal ''work_dependencies_blocked'')
           else Inl (ProtocolRefusal ''work_owned_open_absent'')
       | Some item \<Rightarrow>
           bindR (transition_record tenant uuid (st_id item) ClaimWork actor subject epoch [] now)
             (\<lambda>r. Inr (item\<lparr>st_state := ClaimedWork, st_holder := Some actor,
                             st_subject := Some subject, st_epoch := Some epoch,
                             st_last_activity := wt_timestamp r\<rparr>,
                       Some (WorkTransition r))))"

definition claim_owned_oldest ::
    "string \<Rightarrow> (work_row \<Rightarrow> nat) \<Rightarrow> (interval_row \<Rightarrow> nat) \<Rightarrow> registry_row list \<Rightarrow> interval_store \<Rightarrow>
     string \<Rightarrow> string \<Rightarrow> string \<Rightarrow> int \<Rightarrow> int \<Rightarrow> work_row list \<Rightarrow> (item_state \<times> work_row list) res" where
  "claim_owned_oldest tenant flen gflen registry grants uuid actor subject_id epoch now rows =
     bindR (require_active registry actor) (\<lambda>_.
     bindR (require_protocol_lease registry actor now) (\<lambda>_.
     bindR (validate_identifier ''authority_subject'' subject_id) (\<lambda>subject.
       if epoch < 1 then Inl (ProtocolRefusal ''authority_epoch_invalid'')
       else bindR (integrity_as ''authority_state_unavailable''
                     (require_authority tenant gflen grants subject actor epoch now)) (\<lambda>_.
         integrity_as ''consumption_state_unavailable''
           (transact (work_contract tenant flen) rows
              (owned_oldest_decide tenant uuid actor subject epoch now))))))"

definition work_complete ::
    "string \<Rightarrow> (work_row \<Rightarrow> nat) \<Rightarrow> registry_row list \<Rightarrow> string \<Rightarrow> string \<Rightarrow> string \<Rightarrow> binding list \<Rightarrow>
     int \<Rightarrow> work_row list \<Rightarrow> (work_transition_row \<times> work_row list) res" where
  "work_complete tenant flen registry uuid item_id actor bindings now rows =
     bindR (require_active registry actor) (\<lambda>_.
       let decide = (\<lambda>records.
         bindR (work_project records) (\<lambda>states.
           case map_of states item_id of
             None \<Rightarrow> Inl (ProtocolRefusal ''work_unknown'')
           | Some item \<Rightarrow>
               if st_state item \<noteq> ClaimedWork then Inl (ProtocolRefusal ''work_not_claimed'')
               else if st_holder item \<noteq> Some actor
                 then Inl (ProtocolRefusal ''work_holder_mismatch'')
               else bindR (transition_record tenant uuid item_id CompleteWork actor
                             (case st_subject item of None \<Rightarrow> ''None'' | Some x \<Rightarrow> x)
                             (case st_epoch item of None \<Rightarrow> 0 | Some x \<Rightarrow> x) bindings now)
                      (\<lambda>r. Inr (r, Some (WorkTransition r)))))
       in transact (work_contract tenant flen) rows decide)"

definition work_show ::
    "string \<Rightarrow> (work_row \<Rightarrow> nat) \<Rightarrow> work_row list \<Rightarrow> string option \<Rightarrow> item_state list res" where
  "work_show tenant flen rows item_id =
     bindR (consumption_records tenant flen rows) (\<lambda>records.
     bindR (work_project records) (\<lambda>states.
       case item_id of
         None \<Rightarrow> Inr (map snd states)
       | Some k \<Rightarrow>
           (case map_of states k of
              None \<Rightarrow> Inl (ProtocolRefusal ''work_unknown'')
            | Some item \<Rightarrow> Inr [item])))"

end
