(* ===== verification/Planes_Safety.thy ===== *)
theory Planes_Safety
  imports Planes
begin

text \<open>
  What the interval store of \<open>Planes\<close> guarantees: the invariant of one subject's ledger,
  its preservation by every operation, and the two safety properties built on it, fencing
  by epoch (both stores) and disjoint tenures (stores without exact grants).
\<close>

section \<open>One subject's ledger\<close>

definition wf_interval :: "interval_row \<Rightarrow> bool" where
  "wf_interval r \<longleftrightarrow>
     iv_claimed_at r \<le> iv_renewed_at r \<and> iv_renewed_at r \<le> iv_timestamp r \<and>
     iv_renewed_at r \<le> iv_expires_at r \<and> 1 \<le> iv_epoch r \<and>
     1 \<le> iv_deadline_seconds r \<and> iv_deadline_seconds r \<le> iv_ttl_seconds r \<and>
     iv_ttl_seconds r \<le> 86400 \<and>
     (case iv_state r of
        Active \<Rightarrow> iv_timestamp r = iv_renewed_at r \<and> iv_released_at r = None \<and>
                  iv_expires_at r = iv_renewed_at r + iv_ttl_seconds r * 1000
      | Released \<Rightarrow> iv_released_at r = Some (iv_timestamp r) \<and> iv_expires_at r = iv_timestamp r
      | Expired \<Rightarrow> iv_released_at r = None \<and> iv_expires_at r = iv_timestamp r)"

text \<open>A row may follow an active row of the same tenure before it has run out, or open the
  next epoch; the latter waits for the previous tenure to end unless the store allows an
  exact grant to supersede it (\<open>preempt\<close>).\<close>

definition same_tenure :: "interval_row \<Rightarrow> interval_row \<Rightarrow> bool" where
  "same_tenure r s \<longleftrightarrow>
     iv_state r = Active \<and> iv_epoch s = iv_epoch r \<and> iv_holder s = iv_holder r \<and>
     iv_claimed_at s = iv_claimed_at r \<and> iv_timestamp r \<le> iv_timestamp s \<and>
     iv_timestamp s < iv_expires_at r"

definition opens_tenure :: "bool \<Rightarrow> interval_row \<Rightarrow> interval_row \<Rightarrow> bool" where
  "opens_tenure preempt r s \<longleftrightarrow>
     iv_epoch s = iv_epoch r + 1 \<and> iv_state s = Active \<and> iv_claimed_at s = iv_timestamp s \<and>
     iv_timestamp r \<le> iv_timestamp s \<and> (preempt \<or> iv_expires_at r \<le> iv_claimed_at s)"

definition follows_row :: "bool \<Rightarrow> interval_row \<Rightarrow> interval_row \<Rightarrow> bool" where
  "follows_row preempt r s \<longleftrightarrow> same_tenure r s \<or> opens_tenure preempt r s"

definition interval_inv :: "bool \<Rightarrow> interval_row list \<Rightarrow> bool" where
  "interval_inv preempt rows \<longleftrightarrow>
     list_all wf_interval rows \<and> successively (follows_row preempt) rows \<and>
     (rows \<noteq> [] \<longrightarrow> iv_epoch (hd rows) = 1 \<and> iv_state (hd rows) = Active)"

lemma interval_inv_Nil [simp]: "interval_inv preempt []"
  by (simp add: interval_inv_def)

lemma interval_inv_single [simp]:
  "interval_inv preempt [s] \<longleftrightarrow> wf_interval s \<and> iv_epoch s = 1 \<and> iv_state s = Active"
  by (auto simp: interval_inv_def)

lemma interval_inv_snoc:
  "interval_inv preempt (rows @ [s]) \<longleftrightarrow>
     interval_inv preempt rows \<and> wf_interval s \<and>
     (if rows = [] then iv_epoch s = 1 \<and> iv_state s = Active
      else follows_row preempt (last rows) s)"
  by (cases "rows = []") (auto simp: interval_inv_def successively_append_iff)

lemma interval_inv_last_wf: "interval_inv preempt rows \<Longrightarrow> rows \<noteq> [] \<Longrightarrow> wf_interval (last rows)"
  by (simp add: interval_inv_def list_all_iff)

lemma interval_inv_prefix: "interval_inv preempt (xs @ ys) \<Longrightarrow> interval_inv preempt xs"
  by (cases "xs = []") (auto simp: interval_inv_def successively_append_iff)

lemma follows_row_epoch: "follows_row preempt r s \<Longrightarrow> iv_epoch r \<le> iv_epoch s \<and> iv_epoch s \<le> iv_epoch r + 1"
  by (auto simp: follows_row_def same_tenure_def opens_tenure_def)

lemma follows_row_timestamp: "follows_row preempt r s \<Longrightarrow> iv_timestamp r \<le> iv_timestamp s"
  by (auto simp: follows_row_def same_tenure_def opens_tenure_def)

lemma epoch_le_last:
  "interval_inv preempt rows \<Longrightarrow> r \<in> set rows \<Longrightarrow> iv_epoch r \<le> iv_epoch (last rows)"
proof (induction rows rule: rev_induct)
  case Nil
  then show ?case by simp
next
  case (snoc s rows)
  then show ?case
    by (cases "rows = []")
       (auto simp: interval_inv_snoc dest: follows_row_epoch intro: order_trans)
qed

lemma epoch_bounded_by_length:
  "interval_inv preempt rows \<Longrightarrow> rows \<noteq> [] \<Longrightarrow> iv_epoch (last rows) \<le> int (length rows)"
proof (induction rows rule: rev_induct)
  case Nil
  then show ?case by simp
next
  case (snoc s rows)
  then show ?case
    by (cases "rows = []") (auto simp: interval_inv_snoc dest: follows_row_epoch)
qed

lemma same_epoch_same_holder:
  "interval_inv preempt rows \<Longrightarrow> r \<in> set rows \<Longrightarrow> iv_epoch r = iv_epoch (last rows) \<Longrightarrow>
   iv_holder r = iv_holder (last rows) \<and> iv_claimed_at r = iv_claimed_at (last rows)"
proof (induction rows rule: rev_induct)
  case Nil
  then show ?case by simp
next
  case (snoc s rows)
  show ?case
  proof (cases "r = s \<or> rows = []")
    case True
    with snoc.prems show ?thesis by auto
  next
    case False
    with snoc.prems have inv: "interval_inv preempt rows" and f: "follows_row preempt (last rows) s"
      and r: "r \<in> set rows" by (auto simp: interval_inv_snoc)
    have "iv_epoch r \<le> iv_epoch (last rows)" by (rule epoch_le_last [OF inv r])
    with f snoc.prems(3) have "same_tenure (last rows) s"
      by (auto simp: follows_row_def opens_tenure_def)
    with snoc.IH [OF inv r] snoc.prems(3) show ?thesis by (auto simp: same_tenure_def)
  qed
qed

text \<open>The last row written under an epoch: it fixes when the tenure ended.\<close>

definition final_row :: "interval_row list \<Rightarrow> int \<Rightarrow> interval_row" where
  "final_row rows e = last (filter (\<lambda>r. iv_epoch r = e) rows)"

lemma final_row_snoc_other: "iv_epoch s \<noteq> e \<Longrightarrow> final_row (rows @ [s]) e = final_row rows e"
  by (simp add: final_row_def)

lemma final_row_of_last: "rows \<noteq> [] \<Longrightarrow> final_row rows (iv_epoch (last rows)) = last rows"
  by (induction rows rule: rev_induct) (auto simp: final_row_def)

lemma tenures_disjoint:
  assumes "interval_inv False rows" "r \<in> set rows" "s \<in> set rows" "iv_epoch r < iv_epoch s"
  shows "iv_expires_at (final_row rows (iv_epoch r)) \<le> iv_claimed_at s"
  using assms
proof (induction rows arbitrary: r s rule: rev_induct)
  case Nil
  then show ?case by simp
next
  case (snoc q rows)
  show ?case
  proof (cases "rows = []")
    case True
    with snoc.prems show ?thesis by auto
  next
    case ne: False
    with snoc.prems have inv: "interval_inv False rows" and f: "follows_row False (last rows) q"
      by (auto simp: interval_inv_snoc)
    have top: "iv_epoch (last rows) \<le> iv_epoch q" using follows_row_epoch [OF f] by simp
    have below: "iv_epoch x \<le> iv_epoch q" if "x \<in> set (rows @ [q])" for x
      using epoch_le_last [OF snoc.prems(1) that] by simp
    have r: "r \<in> set rows" and rq: "iv_epoch r \<noteq> iv_epoch q"
      using snoc.prems(2-4) below [of s] by auto
    have final: "final_row (rows @ [q]) (iv_epoch r) = final_row rows (iv_epoch r)"
      by (rule final_row_snoc_other) (use rq in simp)
    show ?thesis
    proof (cases "s \<in> set rows")
      case True
      with snoc.IH [OF inv r True] snoc.prems(4) show ?thesis by (simp add: final)
    next
      case False
      with snoc.prems(3) have s: "s = q" by simp
      have rl: "iv_epoch r \<le> iv_epoch (last rows)" by (rule epoch_le_last [OF inv r])
      show ?thesis
      proof (cases "iv_epoch r = iv_epoch (last rows)")
        case True
        then have "final_row (rows @ [q]) (iv_epoch r) = last rows"
          by (metis final final_row_of_last [OF ne])
        moreover have "iv_expires_at (last rows) \<le> iv_claimed_at q"
          using f rq True by (auto simp: follows_row_def same_tenure_def opens_tenure_def)
        ultimately show ?thesis by (simp add: s)
      next
        case False
        with rl have "iv_epoch r < iv_epoch (last rows)" by simp
        then have "iv_expires_at (final_row rows (iv_epoch r)) \<le> iv_claimed_at (last rows)"
          by (rule snoc.IH [OF inv r last_in_set [OF ne]])
        also have "iv_claimed_at (last rows) \<le> iv_claimed_at q"
          using f interval_inv_last_wf [OF inv ne]
          by (auto simp: follows_row_def same_tenure_def opens_tenure_def wf_interval_def)
        finally show ?thesis by (simp add: final s)
      qed
    qed
  qed
qed


section \<open>Every operation keeps the invariant\<close>

lemma contract_simps [simp]:
  "validate_row (interval_contract cfg tenant flen) = validate_interval_row cfg tenant"
  "row_id (interval_contract cfg tenant flen) = iv_id"
  "frame_length (interval_contract cfg tenant flen) = flen"
  by (simp_all add: interval_contract_def)

interpretation interval_rows: coherent_rows "interval_contract cfg tenant flen"
  for cfg tenant flen
  by unfold_locales (auto simp: validate_interval_row_def)

lemma latest_row_Inr_iff:
  "latest_row c rows = Inr latest \<longleftrightarrow>
     readable c rows \<and> latest = (if rows = [] then None else Some (last rows))"
  by (auto simp: latest_row_def bindR_Inr_iff decode_path_records_Inr_iff)

lemma require_current_Inr_iff:
  "require_current cfg c holder epoch now rows = Inr prior \<longleftrightarrow>
     readable c rows \<and> rows \<noteq> [] \<and> prior = last rows \<and> 1 \<le> epoch \<and> iv_epoch prior = epoch \<and>
     iv_holder prior = holder \<and> iv_state prior = Active \<and>
     iv_renewed_at prior \<le> format_time now \<and> format_time now < iv_expires_at prior"
  by (auto simp: require_current_def bindR_Inr_iff latest_row_Inr_iff not_less not_le
      split: if_splits)

lemma put_row_Inr_iff:
  "put_row c st subject r = Inr (out, st') \<longleftrightarrow>
     out = r \<and> st' = st(subject := st subject @ [r]) \<and>
     append_record c (st subject) r = Inr (st subject @ [r])"
  by (auto simp: put_row_def bindR_Inr_iff append_record_Inr_iff)

text \<open>What each operation does when it succeeds: one row, linked to the latest one.\<close>

definition extends_by ::
    "bool \<Rightarrow> interval_config \<Rightarrow> string \<Rightarrow> (interval_row \<Rightarrow> nat) \<Rightarrow> interval_store \<Rightarrow> interval_row \<Rightarrow>
     interval_store \<Rightarrow> bool" where
  "extends_by preempt cfg tenant flen st r st' \<longleftrightarrow>
     (let subject = iv_subject r; rows = st subject in
      st' = st(subject := rows @ [r]) \<and> wf_interval r \<and>
      append_record (interval_contract cfg tenant flen) rows r = Inr (rows @ [r]) \<and>
      (if rows = [] then iv_epoch r = 1 \<and> iv_state r = Active
       else follows_row preempt (last rows) r))"

lemma validate_interval_Inr [simp]:
  "validate_interval ttl deadline = Inr u \<longleftrightarrow>
     1 \<le> deadline \<and> deadline \<le> ttl \<and> ttl \<le> MAX_TTL_SECONDS"
  by (auto simp: validate_interval_def validate_ttl_def bindR_Inr_iff MAX_TTL_SECONDS_def)

lemma wf_fresh_active:
  assumes "1 \<le> epoch" "1 \<le> deadline" "deadline \<le> ttl" "ttl \<le> MAX_TTL_SECONDS"
    "claimed \<le> renewed"
  shows "wf_interval (interval_record cfg tenant uuid s h epoch claimed renewed ttl deadline Active None)"
  using assms format_time_mono [of claimed renewed]
  by (auto simp: wf_interval_def interval_record_def Let_def MAX_TTL_SECONDS_def)

lemma interval_record_sel [simp]:
  "iv_subject (interval_record cfg tenant uuid s h e cl rn ttl dl st rel) = s"
  "iv_holder (interval_record cfg tenant uuid s h e cl rn ttl dl st rel) = h"
  "iv_epoch (interval_record cfg tenant uuid s h e cl rn ttl dl st rel) = e"
  "iv_state (interval_record cfg tenant uuid s h e cl rn ttl dl st rel) = st"
  "iv_claimed_at (interval_record cfg tenant uuid s h e cl rn ttl dl st rel) = format_time cl"
  "iv_renewed_at (interval_record cfg tenant uuid s h e cl rn ttl dl st rel) = format_time rn"
  "iv_released_at (interval_record cfg tenant uuid s h e cl rn ttl dl st rel) = map_option format_time rel"
  "iv_ttl_seconds (interval_record cfg tenant uuid s h e cl rn ttl dl st rel) = ttl"
  "iv_deadline_seconds (interval_record cfg tenant uuid s h e cl rn ttl dl st rel) = dl"
  "iv_timestamp (interval_record cfg tenant uuid s h e cl rn ttl dl st rel) =
     format_time (case rel of None \<Rightarrow> rn | Some t \<Rightarrow> t)"
  "iv_expires_at (interval_record cfg tenant uuid s h e cl rn ttl dl st rel) =
     format_time (case rel of None \<Rightarrow> rn + seconds ttl | Some t \<Rightarrow> t)"
  by (simp_all add: interval_record_def Let_def)

lemma claim_extends:
  assumes "claim cfg tenant flen uuid subject_id holder ttl deadline now st = Inr (r, st')"
    and inv: "interval_inv preempt (st subject_id)"
  shows "extends_by preempt cfg tenant flen st r st'"
    and "iv_subject r = subject_id" "iv_holder r = holder" "iv_claimed_at r = format_time now"
proof -
  let ?c = "interval_contract cfg tenant flen" and ?rows = "st subject_id"
  let ?r = "\<lambda>epoch. interval_record cfg tenant uuid subject_id holder epoch now now ttl deadline Active None"
  from assms(1) have bounds: "1 \<le> deadline" "deadline \<le> ttl" "ttl \<le> MAX_TTL_SECONDS"
    and cases: "(?rows = [] \<and> put_row ?c st subject_id (?r 1) = Inr (r, st')) \<or>
      (?rows \<noteq> [] \<and> iv_timestamp (last ?rows) \<le> format_time now \<and>
       (iv_state (last ?rows) = Active \<longrightarrow> iv_expires_at (last ?rows) \<le> format_time now) \<and>
       put_row ?c st subject_id (?r (iv_epoch (last ?rows) + 1)) = Inr (r, st'))"
    by (auto simp: claim_def bindR_Inr_iff latest_row_Inr_iff not_less split: if_splits)
  have last_ok: "iv_expires_at (last ?rows) \<le> format_time now \<and> 1 \<le> iv_epoch (last ?rows)"
    if "?rows \<noteq> []" "iv_timestamp (last ?rows) \<le> format_time now"
      "iv_state (last ?rows) = Active \<longrightarrow> iv_expires_at (last ?rows) \<le> format_time now"
    using interval_inv_last_wf [OF inv that(1)] that(2,3)
    by (cases "iv_state (last ?rows)") (auto simp: wf_interval_def)
  from cases last_ok bounds show "extends_by preempt cfg tenant flen st r st'"
    by (auto simp: extends_by_def Let_def put_row_Inr_iff wf_fresh_active follows_row_def
        opens_tenure_def)
  from cases show "iv_subject r = subject_id" "iv_holder r = holder"
    "iv_claimed_at r = format_time now"
    by (auto simp: put_row_Inr_iff)
qed

lemma renew_extends:
  assumes "renew cfg tenant flen uuid subject_id holder epoch ttl deadline now st = Inr (r, st')"
    and inv: "interval_inv preempt (st subject_id)"
  shows "extends_by preempt cfg tenant flen st r st'" and "iv_subject r = subject_id"
proof -
  let ?rows = "st subject_id"
  from assms(1) have "?rows \<noteq> []"
    by (auto simp: renew_def bindR_Inr_iff require_current_Inr_iff)
  from interval_inv_last_wf [OF inv this] assms(1)
  show "extends_by preempt cfg tenant flen st r st'" and "iv_subject r = subject_id"
    by (auto simp: renew_def bindR_Inr_iff require_current_Inr_iff put_row_Inr_iff extends_by_def
        Let_def wf_interval_def follows_row_def same_tenure_def MAX_TTL_SECONDS_def)
qed

lemma release_extends:
  assumes "release cfg tenant flen uuid subject_id holder epoch now st = Inr (r, st')"
    and inv: "interval_inv preempt (st subject_id)"
  shows "extends_by preempt cfg tenant flen st r st'" and "iv_subject r = subject_id"
proof -
  let ?rows = "st subject_id"
  from assms(1) have "?rows \<noteq> []"
    by (auto simp: release_def bindR_Inr_iff require_current_Inr_iff)
  from interval_inv_last_wf [OF inv this] assms(1)
  show "extends_by preempt cfg tenant flen st r st'" and "iv_subject r = subject_id"
    by (auto simp: release_def bindR_Inr_iff require_current_Inr_iff put_row_Inr_iff extends_by_def
        Let_def wf_interval_def follows_row_def same_tenure_def)
qed

lemma expire_extends:
  assumes "expire cfg tenant flen uuid subject_id holder epoch now st = Inr (r, st')"
    and inv: "interval_inv preempt (st subject_id)"
  shows "extends_by preempt cfg tenant flen st r st'" and "iv_subject r = subject_id"
proof -
  let ?rows = "st subject_id"
  from assms(1) have "?rows \<noteq> []"
    by (auto simp: expire_def bindR_Inr_iff require_current_Inr_iff)
  from interval_inv_last_wf [OF inv this] assms(1)
  show "extends_by preempt cfg tenant flen st r st'" and "iv_subject r = subject_id"
    by (auto simp: expire_def bindR_Inr_iff require_current_Inr_iff put_row_Inr_iff extends_by_def
        Let_def wf_interval_def follows_row_def same_tenure_def)
qed

lemma grant_exact_extends:
  assumes "grant_exact tenant flen uuid subject_id holder epoch now st = Inr (r, st')"
    and inv: "interval_inv True (st subject_id)"
  shows "(st' = st \<and> st subject_id \<noteq> [] \<and> r = last (st subject_id) \<and> iv_state r = Active) \<or>
         extends_by True authority_config tenant flen st r st' \<and> iv_subject r = subject_id"
    and "iv_holder r = holder \<and> iv_epoch r = epoch"
proof -
  let ?c = "interval_contract authority_config tenant flen" and ?rows = "st subject_id"
  let ?r = "interval_record authority_config tenant uuid subject_id holder epoch now now
      MAX_TTL_SECONDS MAX_TTL_SECONDS Active None"
  from assms(1) have cases:
    "(?rows = [] \<and> epoch = 1 \<and> put_row ?c st subject_id ?r = Inr (r, st')) \<or>
     (?rows \<noteq> [] \<and> iv_timestamp (last ?rows) \<le> format_time now \<and>
       (st' = st \<and> r = last ?rows \<and> iv_state r = Active \<and> iv_holder r = holder \<and> iv_epoch r = epoch \<or>
        epoch = iv_epoch (last ?rows) + 1 \<and> put_row ?c st subject_id ?r = Inr (r, st')))"
    and "1 \<le> epoch"
    by (auto simp: grant_exact_def Let_def bindR_Inr_iff latest_row_Inr_iff not_less
        split: if_splits)
  then show "(st' = st \<and> ?rows \<noteq> [] \<and> r = last ?rows \<and> iv_state r = Active) \<or>
      extends_by True authority_config tenant flen st r st' \<and> iv_subject r = subject_id"
    by (auto simp: extends_by_def Let_def put_row_Inr_iff wf_fresh_active follows_row_def
        opens_tenure_def MAX_TTL_SECONDS_def)
  from cases show "iv_holder r = holder \<and> iv_epoch r = epoch"
    by (auto simp: put_row_Inr_iff)
qed

section \<open>Runs of the store\<close>

text \<open>Any caller may attempt any operation with any arguments and any clock reading; a
  refused operation leaves the store as it is.  \<open>exact\<close> says whether the store offers
  \<open>grant_exact\<close> and \<open>revoke_exact\<close> (the authority store does, the hold store does not; a
  successful \<open>revoke_exact\<close> either releases or changes nothing).\<close>

inductive interval_step ::
    "bool \<Rightarrow> interval_config \<Rightarrow> string \<Rightarrow> (interval_row \<Rightarrow> nat) \<Rightarrow> interval_store \<Rightarrow> interval_store \<Rightarrow> bool"
  for exact cfg tenant flen where
  step_claim:
    "claim cfg tenant flen uuid s h ttl dl now st = Inr (r, st') \<Longrightarrow>
     interval_step exact cfg tenant flen st st'"
| step_renew:
    "renew cfg tenant flen uuid s h e ttl dl now st = Inr (r, st') \<Longrightarrow>
     interval_step exact cfg tenant flen st st'"
| step_release:
    "release cfg tenant flen uuid s h e now st = Inr (r, st') \<Longrightarrow>
     interval_step exact cfg tenant flen st st'"
| step_expire:
    "expire cfg tenant flen uuid s h e now st = Inr (r, st') \<Longrightarrow>
     interval_step exact cfg tenant flen st st'"
| step_grant_exact:
    "exact \<Longrightarrow> cfg = authority_config \<Longrightarrow>
     grant_exact tenant flen uuid s h e now st = Inr (r, st') \<Longrightarrow>
     interval_step exact cfg tenant flen st st'"

inductive interval_reachable ::
    "bool \<Rightarrow> interval_config \<Rightarrow> string \<Rightarrow> (interval_row \<Rightarrow> nat) \<Rightarrow> interval_store \<Rightarrow> bool"
  for exact cfg tenant flen where
  reach_empty: "interval_reachable exact cfg tenant flen (\<lambda>_. [])"
| reach_step: "interval_reachable exact cfg tenant flen st \<Longrightarrow>
    interval_step exact cfg tenant flen st st' \<Longrightarrow> interval_reachable exact cfg tenant flen st'"

definition store_inv ::
    "bool \<Rightarrow> interval_config \<Rightarrow> string \<Rightarrow> (interval_row \<Rightarrow> nat) \<Rightarrow> interval_store \<Rightarrow> bool" where
  "store_inv exact cfg tenant flen st \<longleftrightarrow>
     (\<forall>s. interval_inv exact (st s) \<and> readable (interval_contract cfg tenant flen) (st s) \<and>
          (\<forall>r \<in> set (st s). iv_subject r = s))"

lemma extends_by_store_inv:
  assumes inv: "store_inv exact cfg tenant flen st"
    and ext: "extends_by exact cfg tenant flen st r st'"
  shows "store_inv exact cfg tenant flen st'"
proof -
  let ?s = "iv_subject r"
  from ext have st': "st' = st(?s := st ?s @ [r])"
    and row: "wf_interval r" "if st ?s = [] then iv_epoch r = 1 \<and> iv_state r = Active
      else follows_row exact (last (st ?s)) r"
    and app: "append_record (interval_contract cfg tenant flen) (st ?s) r = Inr (st ?s @ [r])"
    by (auto simp: extends_by_def Let_def)
  have "interval_inv exact (st ?s @ [r])"
    using inv row by (simp add: interval_inv_snoc store_inv_def)
  moreover have "readable (interval_contract cfg tenant flen) (st ?s @ [r])"
    by (rule interval_rows.append_record_readable [OF app])
  ultimately show ?thesis using inv by (auto simp: store_inv_def st')
qed

lemma interval_step_extends:
  assumes "interval_step exact cfg tenant flen st st'" "store_inv exact cfg tenant flen st"
  shows "st' = st \<or> (\<exists>r. extends_by exact cfg tenant flen st r st')"
  using assms
proof (cases rule: interval_step.cases)
  case (step_claim uuid s h ttl dl now r)
  with assms(2) show ?thesis using claim_extends(1) [OF step_claim] by (auto simp: store_inv_def)
next
  case (step_renew uuid s h e ttl dl now r)
  with assms(2) show ?thesis using renew_extends(1) [OF step_renew] by (auto simp: store_inv_def)
next
  case (step_release uuid s h e now r)
  with assms(2) show ?thesis using release_extends(1) [OF step_release] by (auto simp: store_inv_def)
next
  case (step_expire uuid s h e now r)
  with assms(2) show ?thesis using expire_extends(1) [OF step_expire] by (auto simp: store_inv_def)
next
  case (step_grant_exact uuid s h e now r)
  have "interval_inv True (st s)" using assms(2) step_grant_exact(1) by (simp add: store_inv_def)
  from grant_exact_extends(1) [OF step_grant_exact(3) this] step_grant_exact(1,2)
  show ?thesis by auto
qed

lemma store_inv_step:
  "interval_step exact cfg tenant flen st st' \<Longrightarrow> store_inv exact cfg tenant flen st \<Longrightarrow>
   store_inv exact cfg tenant flen st'"
  using interval_step_extends extends_by_store_inv by blast

lemma store_inv_reachable:
  "interval_reachable exact cfg tenant flen st \<Longrightarrow> store_inv exact cfg tenant flen st"
proof (induction rule: interval_reachable.induct)
  case reach_empty
  then show ?case by (simp add: store_inv_def)
next
  case (reach_step st st')
  then show ?case by (blast intro: store_inv_step)
qed

text \<open>Steps only append, so a later ledger extends an earlier one.\<close>

lemma steps_extend:
  assumes "(interval_step exact cfg tenant flen)\<^sup>*\<^sup>* st st'" "store_inv exact cfg tenant flen st"
  shows "store_inv exact cfg tenant flen st' \<and> (\<exists>suffix. st' s = st s @ suffix)"
  using assms(1)
proof (induction rule: rtranclp_induct)
  case base
  then show ?case using assms(2) by simp
next
  case (step y z)
  then have inv: "store_inv exact cfg tenant flen y" and suf: "\<exists>suffix. y s = st s @ suffix" by auto
  from interval_step_extends [OF step(2) inv] suf
  have "\<exists>suffix. z s = st s @ suffix"
    by (auto simp: extends_by_def Let_def)
  with store_inv_step [OF step(2) inv] show ?case by simp
qed

lemma last_epoch_mono:
  assumes "interval_inv exact (xs @ ys)" "xs \<noteq> []"
  shows "iv_epoch (last xs) \<le> iv_epoch (last (xs @ ys))"
  by (rule epoch_le_last [OF assms(1)]) (simp add: assms(2))

section \<open>The interface other components rely on\<close>

text \<open>A source of exclusive authority: whatever the clock says, one state admits at most
  one holder and one epoch per subject.\<close>

locale exclusive_authority =
  fixes admits :: "'s \<Rightarrow> string \<Rightarrow> string \<Rightarrow> int \<Rightarrow> int \<Rightarrow> bool"
  assumes admits_unique:
    "admits st subject h e t \<Longrightarrow> admits st subject h' e' t' \<Longrightarrow> h = h' \<and> e = e'"
begin

lemma no_second_holder: "admits st subject h e t \<Longrightarrow> h' \<noteq> h \<Longrightarrow> \<not> admits st subject h' e' t'"
  by (blast dest: admits_unique)

lemma no_second_epoch: "admits st subject h e t \<Longrightarrow> e' \<noteq> e \<Longrightarrow> \<not> admits st subject h' e' t'"
  by (blast dest: admits_unique)

end

definition current_holder ::
    "interval_config \<Rightarrow> string \<Rightarrow> (interval_row \<Rightarrow> nat) \<Rightarrow> interval_store \<Rightarrow> string \<Rightarrow> string \<Rightarrow> int \<Rightarrow> int \<Rightarrow> bool"
  where
  "current_holder cfg tenant flen st subject holder epoch now \<longleftrightarrow>
     (case require_current cfg (interval_contract cfg tenant flen) holder epoch now (st subject) of
        Inl _ \<Rightarrow> False | Inr _ \<Rightarrow> True)"

lemma current_holder_iff:
  "current_holder cfg tenant flen st subject holder epoch now \<longleftrightarrow>
     (\<exists>r. require_current cfg (interval_contract cfg tenant flen) holder epoch now (st subject) = Inr r)"
  by (auto simp: current_holder_def split: sum.splits)

interpretation interval_authority:
  exclusive_authority "current_holder cfg tenant flen" for cfg tenant flen
  by unfold_locales (auto simp: current_holder_iff require_current_Inr_iff)

text \<open>A free or lapsed subject can always be claimed: with valid arguments, a fresh id and
  room in the ledger nothing else stands in the way.\<close>

lemma claim_succeeds:
  assumes "readable (interval_contract cfg tenant flen) (st s)"
    and "is_identifier tenant" "is_identifier s" "is_identifier holder"
    and "is_record_id (id_prefix cfg) (id_prefix cfg @ uuid)"
    and "id_prefix cfg @ uuid \<notin> iv_id ` set (st s)"
    and "1 \<le> deadline" "deadline \<le> ttl" "ttl \<le> MAX_TTL_SECONDS"
    and epoch: "epoch = (if st s = [] then 1 else iv_epoch (last (st s)) + 1)"
      "1 \<le> epoch" "epoch \<le> 2 ^ 63 - 1"
    and r: "r = interval_record cfg tenant uuid s holder epoch now now ttl deadline Active None"
    and "flen r \<le> MAX_RECORD_BYTES" "length (st s) < MAX_LEDGER_RECORDS"
    and "ledger_bytes (interval_contract cfg tenant flen) (st s) + flen r \<le> MAX_LEDGER_BYTES"
    and free: "st s \<noteq> [] \<Longrightarrow> iv_timestamp (last (st s)) \<le> format_time now \<and>
      (iv_state (last (st s)) = Active \<longrightarrow> iv_expires_at (last (st s)) \<le> format_time now)"
  shows "claim cfg tenant flen uuid s holder ttl deadline now st = Inr (r, st(s := st s @ [r]))"
proof -
  have id: "iv_id r = id_prefix cfg @ uuid" "iv_tenant r = tenant"
    by (simp_all add: r interval_record_def Let_def)
  have "validate_interval_row cfg tenant False r = Inr ()"
    using assms(2-9) epoch(2,3) id by (auto simp: validate_interval_row_def r MAX_TTL_SECONDS_def)
  then have "append_record (interval_contract cfg tenant flen) (st s) r = Inr (st s @ [r])"
    using assms id by (auto simp: append_record_Inr_iff)
  then have put: "put_row (interval_contract cfg tenant flen) st s r = Inr (r, st(s := st s @ [r]))"
    by (simp add: put_row_Inr_iff)
  have valid: "validate_interval ttl deadline = Inr ()" using assms(7-9) by simp
  show ?thesis
  proof (cases "st s = []")
    case True
    with put have "put_row (interval_contract cfg tenant flen) st s
        (interval_record cfg tenant uuid s holder 1 now now ttl deadline Active None)
        = Inr (r, st(s := st s @ [r]))" by (simp add: r epoch(1))
    with True assms(1,3,4) show ?thesis
      by (simp add: claim_def latest_row_def validate_identifier_def valid
          del: validate_interval_Inr)
  next
    case False
    with put have "put_row (interval_contract cfg tenant flen) st s
        (interval_record cfg tenant uuid s holder (iv_epoch (last (st s)) + 1) now now ttl deadline
           Active None) = Inr (r, st(s := st s @ [r]))" by (simp add: r epoch(1))
    with False assms(1,3,4) free [OF False] show ?thesis
      by (auto simp: claim_def latest_row_def validate_identifier_def valid
          simp del: validate_interval_Inr)
  qed
qed

section \<open>Properties\<close>

text \<open>C9: in every reachable state of a hold store the tenures of two epochs of one resource
  are disjoint: the later epoch was claimed no earlier than the moment the last row of the
  earlier epoch says its tenure ended, whether it lapsed, was released or was expired.\<close>

theorem hold_tenures_disjoint:
  assumes "interval_reachable False cfg tenant flen st"
    and "r \<in> set (st s)" "q \<in> set (st s)" "iv_epoch r < iv_epoch q"
  shows "iv_expires_at (final_row (st s) (iv_epoch r)) \<le> iv_claimed_at q"
  using store_inv_reachable [OF assms(1)] assms(2-4)
  by (auto simp: store_inv_def intro: tenures_disjoint)

text \<open>C17: fencing.  Once a later epoch exists for a subject, no operation of any later state
  is ever admitted under the earlier epoch, whoever asks and whatever the clock says.\<close>

theorem stale_epoch_fenced:
  assumes "interval_reachable exact cfg tenant flen st"
    and "st s \<noteq> []" "epoch < iv_epoch (last (st s))"
    and "(interval_step exact cfg tenant flen)\<^sup>*\<^sup>* st st'"
  shows "require_current cfg (interval_contract cfg tenant flen) holder epoch now (st' s) =
    Inl (ProtocolRefusal (if epoch < 1 then ''epoch_invalid'' else ''epoch_mismatch''))"
proof -
  from steps_extend [OF assms(4) store_inv_reachable [OF assms(1)], of s]
  obtain suffix where inv: "store_inv exact cfg tenant flen st'" and st': "st' s = st s @ suffix"
    by auto
  then have "interval_inv exact (st s @ suffix)" by (metis store_inv_def)
  from last_epoch_mono [OF this assms(2)] assms(3)
  have "epoch < iv_epoch (last (st' s))" by (simp add: st')
  moreover have "readable (interval_contract cfg tenant flen) (st' s)" "st' s \<noteq> []"
    using inv assms(2) by (simp_all only: store_inv_def) (simp add: st')
  ultimately show ?thesis
    by (simp add: require_current_def latest_row_def)
qed

text \<open>A successful claim is usable: the coordinate it returns is admitted exactly from the
  claim's millisecond until the recorded expiry.\<close>

theorem claimed_coordinate_admitted:
  assumes "interval_reachable exact cfg tenant flen st"
    and "claim cfg tenant flen uuid subject holder ttl deadline now st = Inr (r, st')"
  shows "current_holder cfg tenant flen st' subject holder (iv_epoch r) t \<longleftrightarrow>
    format_time now \<le> format_time t \<and> format_time t < format_time now + ttl * 1000"
proof -
  have inv: "store_inv exact cfg tenant flen st" by (rule store_inv_reachable [OF assms(1)])
  then have "interval_inv exact (st subject)" by (simp add: store_inv_def)
  note ext = claim_extends [OF assms(2) this]
  have inv': "store_inv exact cfg tenant flen st'" by (rule extends_by_store_inv [OF inv ext(1)])
  from ext have rows: "st' subject = st subject @ [r]" by (auto simp: extends_by_def Let_def)
  have "iv_state r = Active \<and> iv_renewed_at r = format_time now \<and>
      iv_expires_at r = format_time now + ttl * 1000 \<and> 1 \<le> iv_epoch r"
    using assms(2) ext(1)
    by (auto simp: claim_def bindR_Inr_iff latest_row_Inr_iff put_row_Inr_iff extends_by_def
        wf_interval_def Let_def split: if_splits)
  moreover have "readable (interval_contract cfg tenant flen) (st subject @ [r])"
    using inv' rows by (metis store_inv_def)
  ultimately show ?thesis using ext
    by (auto simp: current_holder_iff require_current_Inr_iff rows)
qed

text \<open>Repeated revocation is a replay: revoking the same coordinate again, at any time,
  returns the same durable row and changes nothing.\<close>

theorem revoke_exact_idempotent:
  assumes "revoke_exact tenant flen uuid subject holder epoch now st = Inr (r, st')"
  shows "revoke_exact tenant flen uuid' subject holder epoch now' st' = Inr (r, st')"
proof -
  let ?c = "interval_contract authority_config tenant flen"
  have revoked: "readable ?c (st' subject) \<and> st' subject \<noteq> [] \<and> r = last (st' subject) \<and>
      iv_state r = Released \<and> iv_holder r = holder \<and> iv_epoch r = epoch \<and> 1 \<le> epoch \<and>
      is_identifier subject \<and> is_identifier holder"
  proof (cases "release authority_config tenant flen uuid subject holder epoch now st")
    case (Inr p)
    then have "release authority_config tenant flen uuid subject holder epoch now st = Inr (r, st')"
      using assms by (simp add: revoke_exact_def)
    then show ?thesis
      by (auto simp: release_def bindR_Inr_iff put_row_Inr_iff require_current_Inr_iff
          intro: interval_rows.append_record_readable)
  next
    case (Inl e)
    then have e: "e = ProtocolRefusal ''authority_released''" and st': "st' = st"
      and tail: "exact_tail tenant flen subject st = Inr r" "iv_state r = Released"
        "iv_holder r = holder" "iv_epoch r = epoch"
      using assms by (auto simp: revoke_exact_def bindR_Inr_iff split: if_splits)
    from tail(1) have "readable ?c (st subject)"
      by (auto simp: exact_tail_def bindR_Inr_iff latest_row_Inr_iff)
    with Inl e have "is_identifier holder \<and> 1 \<le> epoch"
      by (auto simp: release_def validate_identifier_def require_current_def bindR_def
          latest_row_def split: if_splits sum.splits option.splits)
    with tail show ?thesis
      by (auto simp: exact_tail_def bindR_Inr_iff latest_row_Inr_iff st' split: if_splits)
  qed
  then have "release authority_config tenant flen uuid' subject holder epoch now' st'
      = Inl (ProtocolRefusal ''authority_released'')"
    by (auto simp: release_def validate_identifier_def require_current_def latest_row_def)
  with revoked show ?thesis
    by (auto simp: revoke_exact_def exact_tail_def latest_row_def validate_identifier_def)
qed

section \<open>Worked ledgers\<close>

text \<open>A hold on \<open>dock\<close>: claimed by \<open>ann\<close> at second 5, released at second 9, claimed by
  \<open>bob\<close> at second 10.\<close>

definition flen300 :: "interval_row \<Rightarrow> nat" where "flen300 r = 300"

definition dock1 :: interval_row where
  "dock1 = interval_record hold_config ''t'' ''0189000000007000800000000000000a'' ''dock'' ''ann''
     1 5000000 5000000 60 30 Active None"

definition dock2 :: interval_row where
  "dock2 = interval_record hold_config ''t'' ''0189000000007000800000000000000b'' ''dock'' ''ann''
     1 5000000 5000000 60 30 Released (Some 9000000)"

definition dock3 :: interval_row where
  "dock3 = interval_record hold_config ''t'' ''0189000000007000800000000000000c'' ''dock'' ''bob''
     2 10000000 10000000 60 30 Active None"

definition dock_store :: "interval_row list \<Rightarrow> interval_store" where
  "dock_store rows = (\<lambda>_. [])(''dock'' := rows)"

lemma dock_claim1:
  "claim hold_config ''t'' flen300 ''0189000000007000800000000000000a'' ''dock'' ''ann''
     60 30 5000000 (\<lambda>_. []) = Inr (dock1, dock_store [dock1])"
  by (simp add: evaluate dock1_def dock_store_def flen300_def)

lemma dock_release:
  "release hold_config ''t'' flen300 ''0189000000007000800000000000000b'' ''dock'' ''ann''
     1 9000000 (dock_store [dock1]) = Inr (dock2, dock_store [dock1, dock2])"
  by (simp add: evaluate dock1_def dock2_def dock_store_def flen300_def)

lemma dock_claim2:
  "claim hold_config ''t'' flen300 ''0189000000007000800000000000000c'' ''dock'' ''bob''
     60 30 10000000 (dock_store [dock1, dock2]) = Inr (dock3, dock_store [dock1, dock2, dock3])"
  by (simp add: evaluate dock1_def dock2_def dock3_def dock_store_def flen300_def)

lemma dock_reachable1: "interval_reachable False hold_config ''t'' flen300 (dock_store [dock1])"
  by (rule reach_step [OF reach_empty step_claim [OF dock_claim1]])

lemma dock_reachable2: "interval_reachable False hold_config ''t'' flen300 (dock_store [dock1, dock2])"
  by (rule reach_step [OF dock_reachable1 step_release [OF dock_release]])

lemma dock_reachable3:
  "interval_reachable False hold_config ''t'' flen300 (dock_store [dock1, dock2, dock3])"
  by (rule reach_step [OF dock_reachable2 step_claim [OF dock_claim2]])

theorem hold_tenures_disjoint_witness:
  "iv_expires_at (final_row [dock1, dock2, dock3] (iv_epoch dock1)) \<le> iv_claimed_at dock3"
  using hold_tenures_disjoint [OF dock_reachable3, of dock1 "''dock''" dock3]
  by (simp add: dock_store_def dock1_def dock2_def dock3_def)

theorem stale_epoch_fenced_witness:
  "require_current hold_config (interval_contract hold_config ''t'' flen300) ''ann'' 1 11000000
     (dock_store [dock1, dock2, dock3] ''dock'') = Inl (ProtocolRefusal ''epoch_mismatch'')"
  using stale_epoch_fenced [OF dock_reachable3, of "''dock''" 1 _ "''ann''" 11000000, OF _ _ rtranclp.rtrancl_refl]
  by (simp add: dock_store_def dock3_def)

theorem claimed_coordinate_admitted_witness:
  "current_holder hold_config ''t'' flen300 (dock_store [dock1]) ''dock'' ''ann'' 1 64999999 \<and>
   \<not> current_holder hold_config ''t'' flen300 (dock_store [dock1]) ''dock'' ''ann'' 1 65000000"
  using claimed_coordinate_admitted [OF reach_empty dock_claim1, of 64999999]
    claimed_coordinate_admitted [OF reach_empty dock_claim1, of 65000000]
  by (simp add: dock1_def format_time_def)

definition lane_grant :: interval_row where
  "lane_grant = interval_record authority_config ''t'' ''0189000000007000800000000000000a'' ''lane''
     ''ann'' 1 5000000 5000000 MAX_TTL_SECONDS MAX_TTL_SECONDS Active None"

definition lane_revoked :: interval_row where
  "lane_revoked = interval_record authority_config ''t'' ''0189000000007000800000000000000b'' ''lane''
     ''ann'' 1 5000000 5000000 MAX_TTL_SECONDS MAX_TTL_SECONDS Released (Some 9000000)"

lemma lane_revoke:
  "revoke_exact ''t'' flen300 ''0189000000007000800000000000000b'' ''lane'' ''ann'' 1 9000000
     ((\<lambda>_. [])(''lane'' := [lane_grant])) =
   Inr (lane_revoked, (\<lambda>_. [])(''lane'' := [lane_grant, lane_revoked]))"
  by (simp add: evaluate lane_grant_def lane_revoked_def flen300_def)

theorem revoke_exact_idempotent_witness:
  "revoke_exact ''t'' flen300 ''0189000000007000800000000000000c'' ''lane'' ''ann'' 1 8000000
     ((\<lambda>_. [])(''lane'' := [lane_grant, lane_revoked])) =
   Inr (lane_revoked, (\<lambda>_. [])(''lane'' := [lane_grant, lane_revoked]))"
  by (rule revoke_exact_idempotent [OF lane_revoke])

end
