(* ===== verification/Work_Safety.thy ===== *)
theory Work_Safety
  imports Work_Ledger Planes_Safety
begin

text \<open>
  What the work log guarantees: every write leaves a ledger that its own projection
  accepts, items only move from open through claimed to completed under one holder, no
  item is claimed before everything it needs is completed, and a projection may be resumed
  from any prefix.
\<close>

lemma map_of_none_key [simp]: "map_of al k = None \<longleftrightarrow> k \<notin> fst ` set al"
  by (rule map_of_eq_None_iff)

section \<open>The invariant of the projection\<close>

fun item_ids :: "work_row list \<Rightarrow> string list" where
  "item_ids [] = []"
| "item_ids (WorkItem r # rows) = wi_id r # item_ids rows"
| "item_ids (WorkTransition _ # rows) = item_ids rows"

lemma item_ids_append [simp]: "item_ids (xs @ ys) = item_ids xs @ item_ids ys"
  by (induction xs rule: item_ids.induct) simp_all

lemma item_ids_subset: "set (item_ids rows) \<subseteq> work_row_id ` set rows"
  by (induction rows rule: item_ids.induct) auto

lemma distinct_item_ids: "distinct (map work_row_id rows) \<Longrightarrow> distinct (item_ids rows)"
  using item_ids_subset by (induction rows rule: item_ids.induct) fastforce+

definition ids_distinct :: "work_row list \<Rightarrow> bool" where
  "ids_distinct rows \<longleftrightarrow> distinct (map work_row_id rows)"

definition before :: "'a \<Rightarrow> 'a list \<Rightarrow> 'a set" where
  "before k ks = set (takeWhile (\<lambda>x. x \<noteq> k) ks)"

definition item_inv :: "work_states \<Rightarrow> string \<Rightarrow> item_state \<Rightarrow> bool" where
  "item_inv states k i \<longleftrightarrow>
     st_id i = k \<and> set (st_needs i) \<subseteq> before k (map fst states) \<and>
     (st_state i = OpenWork \<longrightarrow> st_holder i = None) \<and>
     (st_state i \<noteq> OpenWork \<longrightarrow>
        st_holder i \<noteq> None \<and> st_subject i \<noteq> None \<and> st_epoch i \<noteq> None \<and>
        (\<forall>d \<in> set (st_needs i). is_completed states d))"

definition work_inv :: "work_row list \<Rightarrow> work_states \<Rightarrow> bool" where
  "work_inv rows states \<longleftrightarrow>
     map fst states = item_ids rows \<and>
     (\<forall>k i. map_of states k = Some i \<longrightarrow> item_inv states k i)"

lemma before_snoc: "k \<in> set ks \<Longrightarrow> before k (ks @ [x]) = before k ks"
  by (simp add: before_def takeWhile_append1 [of k])

lemma before_new: "x \<notin> set ks \<Longrightarrow> before x (ks @ [x]) = set ks"
  by (auto simp: before_def takeWhile_append takeWhile_eq_all_conv [THEN iffD2])

lemma is_completed_update:
  "is_completed (AList.update k v states) d =
     (if d = k then st_state v = CompletedWork else is_completed states d)"
  by (simp add: is_completed_def)

lemma item_inv_mono:
  assumes "item_inv s k i" "map fst s' = map fst s" "\<And>d. is_completed s d \<Longrightarrow> is_completed s' d"
  shows "item_inv s' k i"
  using assms(1,3) by (auto simp: item_inv_def assms(2))

text \<open>What one row does to the states, read off \<open>work_step\<close> once.\<close>

lemma work_step_cases:
  assumes "work_step s row = Inr s'"
  obtains
    (item) r where "row = WorkItem r" "\<forall>d \<in> set (wi_needs r). d \<in> fst ` set s"
      "s' = AList.update (wi_id r) (opened r) s"
  | (claim) r i where "row = WorkTransition r" "wt_action r = ClaimWork"
      "map_of s (wt_item r) = Some i" "st_state i = OpenWork"
      "\<forall>d \<in> set (st_needs i). is_completed s d"
      "s' = AList.update (wt_item r)
         (i\<lparr>st_state := ClaimedWork, st_holder := Some (wt_actor r),
            st_subject := Some (wt_subject r), st_epoch := Some (wt_epoch r),
            st_last_activity := wt_timestamp r\<rparr>) s"
  | (complete) r i where "row = WorkTransition r" "wt_action r = CompleteWork"
      "map_of s (wt_item r) = Some i" "st_state i = ClaimedWork" "st_holder i = Some (wt_actor r)"
      "s' = AList.update (wt_item r)
         (i\<lparr>st_state := CompletedWork, st_bindings := add_bindings (st_bindings i) (wt_bindings r),
            st_last_activity := wt_timestamp r\<rparr>) s"
proof (cases row)
  case (WorkItem r)
  with assms show ?thesis
    by (intro item [of r]) (auto simp: list_ex_iff split: if_splits)
next
  case (WorkTransition r)
  with assms obtain i where i: "map_of s (wt_item r) = Some i"
    by (auto simp del: map_of_none_key split: option.splits)
  show ?thesis
  proof (cases "wt_action r")
    case ClaimWork
    with assms WorkTransition i show ?thesis
      by (intro claim [of r i]) (auto simp: list_ex_iff split: if_splits)
  next
    case CompleteWork
    with assms WorkTransition i show ?thesis
      by (intro complete [of r i]) (auto split: if_splits)
  qed
qed

lemma work_inv_step:
  assumes ok: "ids_distinct (rows @ [row])" and inv: "work_inv rows s"
    and step: "work_step s row = Inr s'"
  shows "work_inv (rows @ [row]) s'"
  using step
proof (cases rule: work_step_cases)
  case (item r)
  have keys: "map fst s = item_ids rows" using inv by (simp add: work_inv_def)
  have "wi_id r \<notin> set (item_ids rows)"
    using ok item_ids_subset [of rows] by (auto simp: ids_distinct_def item(1))
  then have fresh: "wi_id r \<notin> fst ` set s" by (simp flip: keys)
  have "item_inv s' k i" if "map_of s' k = Some i" for k i
  proof (cases "k = wi_id r")
    case True
    with that have "i = opened r" by (simp add: item(3))
    with True fresh item(2) show ?thesis
      by (auto simp: item_inv_def opened_def item(3) update_fresh before_new)
  next
    case False
    with that have i: "map_of s k = Some i" by (simp add: item(3))
    then have "item_inv s k i" using inv by (simp add: work_inv_def)
    moreover have "k \<in> set (map fst s)" using map_of_key [OF i] by simp
    moreover have "is_completed s d \<Longrightarrow> is_completed s' d" for d
      using fresh by (auto simp: item(3) is_completed_update)
        (auto simp: is_completed_def split: option.splits dest: map_of_key)
    ultimately show ?thesis
      using fresh by (auto simp: item_inv_def item(3) update_fresh before_snoc)
  qed
  moreover have "map fst s' = item_ids (rows @ [row])"
    using fresh keys by (simp add: item(1,3) update_fresh)
  ultimately show ?thesis by (simp add: work_inv_def)
next
  case (claim r i)
  have keys: "map fst s' = map fst s"
    using map_of_key [OF claim(3)] by (simp add: claim(6) keys_update)
  have kept: "is_completed s d \<Longrightarrow> is_completed s' d" for d
    using claim(3,4) by (auto simp: claim(6) is_completed_update) (simp add: is_completed_def)
  have "item_inv s' k j" if j: "map_of s' k = Some j" for k j
  proof (cases "k = wt_item r")
    case True
    have "item_inv s k i" using inv claim(3) True by (simp add: work_inv_def)
    from item_inv_mono [OF this keys kept] have "item_inv s' k i" .
    with True j kept claim(4,5) show ?thesis
      by (auto simp: claim(6) item_inv_def simp del: fun_upd_apply) (auto simp: claim(6))
  next
    case False
    with j inv have "item_inv s k j" by (simp add: claim(6) work_inv_def)
    from item_inv_mono [OF this keys kept] show ?thesis .
  qed
  with keys inv show ?thesis by (simp add: work_inv_def claim(1))
next
  case (complete r i)
  have keys: "map fst s' = map fst s"
    using map_of_key [OF complete(3)] by (simp add: complete(6) keys_update)
  have kept: "is_completed s d \<Longrightarrow> is_completed s' d" for d
    by (auto simp: complete(6) is_completed_update)
  have "item_inv s' k j" if j: "map_of s' k = Some j" for k j
  proof (cases "k = wt_item r")
    case True
    have "item_inv s k i" using inv complete(3) True by (simp add: work_inv_def)
    from item_inv_mono [OF this keys kept] have "item_inv s' k i" .
    with True j kept complete(4) show ?thesis
      by (auto simp: complete(6) item_inv_def simp del: fun_upd_apply) (auto simp: complete(6))
  next
    case False
    with j inv have "item_inv s k j" by (simp add: complete(6) work_inv_def)
    from item_inv_mono [OF this keys kept] show ?thesis .
  qed
  with keys inv show ?thesis by (simp add: work_inv_def complete(1))
qed

lemma ids_distinct_prefix: "ids_distinct (rows @ [r]) \<Longrightarrow> ids_distinct rows"
  by (simp add: ids_distinct_def)

interpretation work: projection work_step "[]" ids_distinct work_inv
proof unfold_locales
  show "work_inv [] []" by (simp add: work_inv_def)
qed (fact ids_distinct_prefix, fact work_inv_step)

section \<open>Items only move forward\<close>

fun rank :: "work_state \<Rightarrow> nat" where
  "rank OpenWork = 0"
| "rank ClaimedWork = 1"
| "rank CompletedWork = 2"

definition item_le :: "item_state \<Rightarrow> item_state \<Rightarrow> bool" where
  "item_le i j \<longleftrightarrow>
     st_id j = st_id i \<and> st_owner j = st_owner i \<and> st_title j = st_title i \<and>
     st_needs j = st_needs i \<and> rank (st_state i) \<le> rank (st_state j) \<and>
     set (st_bindings i) \<subseteq> set (st_bindings j) \<and>
     (st_state i \<noteq> OpenWork \<longrightarrow>
        st_holder j = st_holder i \<and> st_subject j = st_subject i \<and> st_epoch j = st_epoch i)"

definition states_le :: "work_states \<Rightarrow> work_states \<Rightarrow> bool" where
  "states_le s t \<longleftrightarrow> (\<forall>k i. map_of s k = Some i \<longrightarrow> (\<exists>j. map_of t k = Some j \<and> item_le i j))"

lemma item_le_refl [simp]: "item_le i i"
  by (simp add: item_le_def)

lemma item_le_trans: "item_le i j \<Longrightarrow> item_le j k \<Longrightarrow> item_le i k"
  by (cases "st_state i"; cases "st_state j") (auto simp: item_le_def)

lemma states_le_refl: "reflp states_le"
  by (auto intro!: reflpI simp: states_le_def)

lemma states_le_trans: "transp states_le"
  by (rule transpI) (unfold states_le_def, blast intro: item_le_trans)

lemma set_add_bindings: "set (add_bindings have bs) = set have \<union> set bs"
  by (induction "have" bs rule: add_bindings.induct) auto

lemma work_step_le:
  assumes ok: "ids_distinct (rows @ [row])" and inv: "work_inv rows s"
    and step: "work_step s row = Inr s'"
  shows "states_le s s'"
  using step
proof (cases rule: work_step_cases)
  case (item r)
  have "wi_id r \<notin> set (map fst s)"
    using ok inv item_ids_subset [of rows] by (auto simp: ids_distinct_def item(1) work_inv_def)
  then show ?thesis
    by (auto simp: states_le_def item(3) dest: map_of_key)
next
  case (claim r i)
  then show ?thesis by (auto simp: states_le_def item_le_def)
next
  case (complete r i)
  then show ?thesis by (auto simp: states_le_def item_le_def set_add_bindings)
qed

section \<open>Projecting a ledger\<close>

definition projectable :: "work_row list \<Rightarrow> bool" where
  "projectable rows \<longleftrightarrow> (\<exists>s. replay work_step [] rows = Inr s)"

lemma work_project_Inr_iff:
  "work_project rows = Inr t \<longleftrightarrow> (\<exists>s. replay work_step [] rows = Inr s \<and> t = set_readiness s)"
  by (auto simp: work_project_def project_tail_def split: sum.splits)

lemma map_of_set_readiness:
  "map_of (set_readiness s) k =
     map_option (\<lambda>i. i\<lparr>st_readiness := Some (readiness_of s i)\<rparr>) (map_of s k)"
  by (simp add: set_readiness_def map_of_map)

lemma keys_set_readiness [simp]: "map fst (set_readiness s) = map fst s"
  by (simp add: set_readiness_def comp_def case_prod_beta)

lemma key_image_set_readiness [simp]: "fst ` set (set_readiness s) = fst ` set s"
  by (metis keys_set_readiness list.set_map)

lemma readiness_of_Ready_iff:
  "readiness_of s i = Ready \<longleftrightarrow>
     st_state i = OpenWork \<and> (\<forall>d \<in> set (st_needs i). is_completed s d)"
  by (auto simp: readiness_of_def list_all_iff split: work_state.splits)

section \<open>Coherence of the validators\<close>

lemma check_bindings_Inr_iff:
  "check_bindings integrity seen bs = Inr u \<longleftrightarrow>
     (\<forall>b \<in> set bs. is_repository (bd_repo b) \<and> is_git_sha (bd_sha b) \<and> is_repository_document (bd_doc b)) \<and>
     distinct bs \<and> set bs \<inter> seen = {}"
  by (induction bs arbitrary: seen) auto

lemma artifact_bindings_Inr_iff:
  "artifact_bindings integrity bs = Inr u \<longleftrightarrow>
     length bs \<le> 32 \<and> distinct bs \<and>
     (\<forall>b \<in> set bs. is_repository (bd_repo b) \<and> is_git_sha (bd_sha b) \<and> is_repository_document (bd_doc b))"
  by (auto simp: artifact_bindings_def check_bindings_Inr_iff)

lemma work_contract_simps [simp]:
  "validate_row (work_contract tenant flen) = validate_work_row tenant"
  "row_id (work_contract tenant flen) = work_row_id"
  "frame_length (work_contract tenant flen) = flen"
  by (simp_all add: work_contract_def)

interpretation work_rows: coherent_rows "work_contract tenant flen" for tenant flen
proof unfold_locales
  fix r :: work_row
  assume "validate_row (work_contract tenant flen) False r = Inr ()"
  then show "validate_row (work_contract tenant flen) True r = Inr ()"
    by (cases r)
       (auto simp: validate_work_item_def validate_work_transition_def bindR_Inr_iff
         bounded_string_Inr_iff artifact_bindings_Inr_iff)
qed

lemma readable_ids_distinct: "readable (work_contract tenant flen) rows \<Longrightarrow> ids_distinct rows"
  by (simp add: readable_def ids_distinct_def)

section \<open>Every operation commits a step of the projection\<close>

definition commits ::
    "string \<Rightarrow> (work_row \<Rightarrow> nat) \<Rightarrow> work_row list \<Rightarrow> work_row \<Rightarrow> work_states \<Rightarrow> work_states \<Rightarrow>
     work_row list \<Rightarrow> bool" where
  "commits tenant flen rows row s s' rows' \<longleftrightarrow>
     append_record (work_contract tenant flen) rows row = Inr rows' \<and>
     replay work_step [] rows = Inr s \<and> work_step s row = Inr s'"

lemma commits_readable:
  assumes "commits tenant flen rows row s s' rows'"
  shows "rows' = rows @ [row]" "readable (work_contract tenant flen) rows"
    "readable (work_contract tenant flen) rows'" "replay work_step [] rows' = Inr s'"
    "work_inv rows s" "work_inv rows' s'" "states_le s s'"
proof -
  from assms have app: "append_record (work_contract tenant flen) rows row = Inr rows'"
    and rep: "replay work_step [] rows = Inr s" and step: "work_step s row = Inr s'"
    by (simp_all add: commits_def)
  show rows': "rows' = rows @ [row]" and rd: "readable (work_contract tenant flen) rows"
    using app by (simp_all add: append_record_Inr_iff)
  show rd': "readable (work_contract tenant flen) rows'"
    by (rule work_rows.append_record_readable [OF app])
  show rep': "replay work_step [] rows' = Inr s'"
    by (simp add: rows' replay_snoc rep step)
  show inv: "work_inv rows s" by (rule work.replay_invar [OF readable_ids_distinct [OF rd] rep])
  show "work_inv rows' s'" by (rule work.replay_invar [OF readable_ids_distinct [OF rd'] rep'])
  show "states_le s s'"
    using work_step_le [OF _ inv step] readable_ids_distinct [OF rd'] by (simp add: rows')
qed

lemma transition_record_Inr_iff:
  "transition_record tenant uuid item action actor subject epoch bindings now = Inr r \<longleftrightarrow>
     r = \<lparr>wt_id = ''transition-'' @ uuid, wt_tenant = tenant, wt_timestamp = format_time now,
          wt_item = item, wt_action = action, wt_actor = actor, wt_subject = subject,
          wt_epoch = epoch, wt_bindings = bindings\<rparr> \<and>
     validate_work_transition tenant False r = Inr ()"
  by (auto simp: transition_record_def Let_def bindR_Inr_iff)

lemma work_add_commits:
  assumes "work_add tenant flen root registry uuid title owner bindings needs provision now rows
    = Inr (r, rows')"
  obtains s s' where "commits tenant flen rows (WorkItem r) s s' rows'"
    "wi_id r = ''work-'' @ uuid" "wi_owner r = owner" "wi_needs r = needs"
    "s' = AList.update (wi_id r) (opened r) s"
proof -
  from assms obtain s where app: "append_record (work_contract tenant flen) rows (WorkItem r) = Inr rows'"
    and s: "replay work_step [] rows = Inr s" "\<forall>d \<in> set needs. d \<in> fst ` set s"
    and r: "wi_id r = ''work-'' @ uuid" "wi_owner r = owner" "wi_needs r = needs"
    by (auto simp: work_add_def Let_def bindR_Inr_iff transact_Inr_iff work_project_Inr_iff
        list_ex_iff split: if_splits)
  moreover have "work_step s (WorkItem r) = Inr (AList.update (wi_id r) (opened r) s)"
    using s(2) by (auto simp: r list_ex_iff)
  ultimately show thesis by (intro that) (auto simp: commits_def)
qed

lemma claim_step:
  assumes "map_of s k = Some i" "readiness_of s i = Ready" "wt_item r = k" "wt_action r = ClaimWork"
  shows "work_step s (WorkTransition r) = Inr (AList.update k
         (i\<lparr>st_state := ClaimedWork, st_holder := Some (wt_actor r),
            st_subject := Some (wt_subject r), st_epoch := Some (wt_epoch r),
            st_last_activity := wt_timestamp r\<rparr>) s)"
  using assms by (auto simp: readiness_of_Ready_iff list_ex_iff)

lemma work_claim_commits:
  assumes "work_claim tenant flen gflen registry grants uuid item actor subject epoch now rows
    = Inr (r, rows')"
  obtains s i s' where "commits tenant flen rows (WorkTransition r) s s' rows'"
    "admit_claimant tenant gflen registry grants actor subject epoch now = Inr subject"
    "map_of s item = Some i" "readiness_of s i = Ready"
    "wt_item r = item" "wt_action r = ClaimWork" "wt_actor r = actor" "wt_subject r = subject"
    "wt_epoch r = epoch"
proof -
  from assms obtain s i where
    app: "append_record (work_contract tenant flen) rows (WorkTransition r) = Inr rows'"
    and adm: "admit_claimant tenant gflen registry grants actor subject epoch now = Inr subject"
    and s: "replay work_step [] rows = Inr s" "map_of s item = Some i" "readiness_of s i = Ready"
    and r: "wt_item r = item" "wt_action r = ClaimWork" "wt_actor r = actor" "wt_subject r = subject"
      "wt_epoch r = epoch"
    by (auto simp: work_claim_def claim_transition_def Let_def bindR_Inr_iff transact_Inr_iff
        work_project_Inr_iff map_of_set_readiness transition_record_Inr_iff admit_claimant_def
        simp del: map_of_none_key split: if_splits option.splits)
  obtain s' where "work_step s (WorkTransition r) = Inr s'"
    using claim_step [OF s(2,3) r(1,2)] by blast
  then have "commits tenant flen rows (WorkTransition r) s s' rows'"
    by (simp only: commits_def app s(1) simp_thms)
  then show thesis by (rule that [OF _ adm s(2,3) r])
qed

lemma work_complete_commits:
  assumes "work_complete tenant flen registry uuid item actor bindings now rows = Inr (r, rows')"
  obtains s i s' where "commits tenant flen rows (WorkTransition r) s s' rows'"
    "map_of s item = Some i" "st_state i = ClaimedWork" "st_holder i = Some actor"
    "wt_item r = item" "wt_action r = CompleteWork" "wt_actor r = actor"
proof -
  from assms obtain s i where
    app: "append_record (work_contract tenant flen) rows (WorkTransition r) = Inr rows'"
    and s: "replay work_step [] rows = Inr s" "map_of s item = Some i"
      "st_state i = ClaimedWork" "st_holder i = Some actor"
    and r: "wt_item r = item" "wt_action r = CompleteWork" "wt_actor r = actor"
    by (auto simp: work_complete_def Let_def bindR_Inr_iff transact_Inr_iff
        work_project_Inr_iff map_of_set_readiness transition_record_Inr_iff
        simp del: map_of_none_key split: if_splits option.splits)
  obtain s' where "work_step s (WorkTransition r) = Inr s'"
    using s r by simp
  then have "commits tenant flen rows (WorkTransition r) s s' rows'"
    by (simp add: commits_def app s(1))
  then show thesis by (rule that [OF _ s(2-4) r])
qed

lemma first_ready_Some:
  assumes "first_ready actor states = Some i"
  obtains pre k post where "states = pre @ (k, i) # post" "st_readiness i = Some Ready"
    "st_owner i = actor"
    "\<forall>(_, j) \<in> set pre. \<not> (st_readiness j = Some Ready \<and> st_owner j = actor)"
  using assms
proof (induction states arbitrary: thesis)
  case Nil
  then show ?case by simp
next
  case (Cons kv states)
  obtain k j where kv: "kv = (k, j)" by (cases kv)
  show ?case
  proof (cases "st_readiness j = Some Ready \<and> st_owner j = actor")
    case True
    with Cons.prems(2) show ?thesis by (intro Cons.prems(1) [of "[]"]) (auto simp: kv)
  next
    case False
    with Cons.prems(2) have "first_ready actor states = Some i" by (auto simp: kv split: if_splits)
    then obtain pre k' post where "states = pre @ (k', i) # post" "st_readiness i = Some Ready"
      "st_owner i = actor" "\<forall>(_, j) \<in> set pre. \<not> (st_readiness j = Some Ready \<and> st_owner j = actor)"
      using Cons.IH by blast
    with False show ?thesis by (intro Cons.prems(1) [of "kv # pre"]) (auto simp: kv)
  qed
qed

lemma integrity_as_Inr [simp]: "integrity_as c m = Inr x \<longleftrightarrow> m = Inr x"
  by (auto simp: integrity_as_def split: sum.splits fault.splits)

lemma claim_owned_oldest_commits:
  assumes "claim_owned_oldest tenant flen gflen registry grants uuid actor subject epoch now rows
    = Inr (item, rows')"
  obtains s i pre post r s' where "commits tenant flen rows (WorkTransition r) s s' rows'"
    "set_readiness s = pre @ (st_id i, i\<lparr>st_readiness := Some Ready\<rparr>) # post"
    "map_of s (st_id i) = Some i" "readiness_of s i = Ready" "st_owner i = actor"
    "\<forall>(_, j) \<in> set pre. \<not> (st_readiness j = Some Ready \<and> st_owner j = actor)"
    "s' = AList.update (st_id i)
       (i\<lparr>st_state := ClaimedWork, st_holder := Some actor, st_subject := Some subject,
          st_epoch := Some epoch, st_last_activity := format_time now\<rparr>) s"
    "item = i\<lparr>st_state := ClaimedWork, st_holder := Some actor, st_subject := Some subject,
          st_epoch := Some epoch, st_last_activity := format_time now, st_readiness := Some Ready\<rparr>"
proof -
  from assms obtain s j r where
    app: "append_record (work_contract tenant flen) rows (WorkTransition r) = Inr rows'"
    and s: "replay work_step [] rows = Inr s" and fr: "first_ready actor (set_readiness s) = Some j"
    and r: "wt_item r = st_id j" "wt_action r = ClaimWork" "wt_actor r = actor"
      "wt_subject r = subject" "wt_epoch r = epoch" "wt_timestamp r = format_time now"
    and item: "item = j\<lparr>st_state := ClaimedWork, st_holder := Some actor, st_subject := Some subject,
          st_epoch := Some epoch, st_last_activity := format_time now\<rparr>"
    by (auto simp: claim_owned_oldest_def owned_oldest_decide_def bindR_Inr_iff transact_Inr_iff
        work_project_Inr_iff transition_record_Inr_iff split: if_splits option.splits)
  have rd: "readable (work_contract tenant flen) rows" using app by (simp add: append_record_Inr_iff)
  have inv: "work_inv rows s" by (rule work.replay_invar [OF readable_ids_distinct [OF rd] s])
  from fr obtain pre k post where split: "set_readiness s = pre @ (k, j) # post"
    and j: "st_readiness j = Some Ready" "st_owner j = actor"
    and pre: "\<forall>(_, x) \<in> set pre. \<not> (st_readiness x = Some Ready \<and> st_owner x = actor)"
    by (rule first_ready_Some)
  have "(k, j) \<in> set (set_readiness s)" by (simp add: split)
  then obtain i where i: "(k, i) \<in> set s" "j = i\<lparr>st_readiness := Some (readiness_of s i)\<rparr>"
    by (auto simp: set_readiness_def)
  have "distinct (map fst s)"
    using inv readable_ids_distinct [OF rd] by (simp add: work_inv_def ids_distinct_def distinct_item_ids)
  with i(1) have map: "map_of s k = Some i" by simp
  then have k: "st_id i = k" using inv by (simp add: work_inv_def item_inv_def)
  have ready: "readiness_of s i = Ready" using i(2) j(1) by simp
  let ?s' = "AList.update (st_id i)
       (i\<lparr>st_state := ClaimedWork, st_holder := Some actor, st_subject := Some subject,
          st_epoch := Some epoch, st_last_activity := format_time now\<rparr>) s"
  have "work_step s (WorkTransition r) = Inr ?s'"
    using claim_step [of s k i r] map ready r i(2) k by simp
  then have "commits tenant flen rows (WorkTransition r) s ?s' rows'"
    by (simp only: commits_def app s simp_thms)
  then show thesis
    by (rule that [OF _ _ _ ready _ pre]) (use split i(2) ready map k j item in simp_all)
qed

section \<open>Histories of the work log\<close>

inductive work_op :: "string \<Rightarrow> (work_row \<Rightarrow> nat) \<Rightarrow> work_row list \<Rightarrow> work_row list \<Rightarrow> bool"
  for tenant flen where
  op_add: "work_add tenant flen root registry uuid title owner bindings needs provision now rows
      = Inr (r, rows') \<Longrightarrow> work_op tenant flen rows rows'"
| op_claim: "work_claim tenant flen gflen registry grants uuid item actor subject epoch now rows
      = Inr (t, rows') \<Longrightarrow> work_op tenant flen rows rows'"
| op_claim_owned: "claim_owned_oldest tenant flen gflen registry grants uuid actor subject epoch now rows
      = Inr (i, rows') \<Longrightarrow> work_op tenant flen rows rows'"
| op_complete: "work_complete tenant flen registry uuid item actor bindings now rows
      = Inr (t, rows') \<Longrightarrow> work_op tenant flen rows rows'"

definition work_history :: "string \<Rightarrow> (work_row \<Rightarrow> nat) \<Rightarrow> work_row list \<Rightarrow> work_row list \<Rightarrow> bool" where
  "work_history tenant flen = (work_op tenant flen)\<^sup>*\<^sup>*"

lemma work_op_commits:
  assumes "work_op tenant flen rows rows'"
  obtains row s s' where "commits tenant flen rows row s s' rows'"
  using assms
  by cases (blast elim: work_add_commits work_claim_commits claim_owned_oldest_commits
      work_complete_commits)+

lemma work_history_extends:
  assumes "work_history tenant flen rows rows'"
  shows "\<exists>suffix. rows' = rows @ suffix"
  using assms unfolding work_history_def
proof (induction rule: rtranclp_induct)
  case (step y z)
  then show ?case by (metis append_assoc work_op_commits commits_readable(1))
qed simp

lemma work_history_readable:
  assumes "work_history tenant flen rows rows'" "readable (work_contract tenant flen) rows"
    "replay work_step [] rows = Inr s"
  shows "readable (work_contract tenant flen) rows' \<and>
    (\<exists>s'. replay work_step [] rows' = Inr s' \<and> work_inv rows' s')"
  using assms(1) unfolding work_history_def
proof (induction rule: rtranclp_induct)
  case base
  with assms show ?case by (blast intro: work.replay_invar readable_ids_distinct)
next
  case (step y z)
  then show ?case by (metis work_op_commits commits_readable(3,4,6))
qed

section \<open>Authority\<close>

lemma require_authority_Inr_iff:
  "require_authority tenant gflen grants subject actor epoch now = Inr u \<longleftrightarrow>
     readable (interval_contract authority_config tenant gflen) (grants subject) \<and>
     grants subject \<noteq> [] \<and> iv_state (last (grants subject)) = Active \<and>
     now < parse_time (iv_expires_at (last (grants subject))) \<and>
     iv_holder (last (grants subject)) = actor \<and> iv_epoch (last (grants subject)) = epoch"
  by (auto simp: require_authority_def bindR_Inr_iff decode_path_records_Inr_iff Let_def not_le)

interpretation work_authority: exclusive_authority
  "\<lambda>grants subject actor epoch now.
     require_authority tenant gflen grants subject actor epoch now = Inr ()" for tenant gflen
  by unfold_locales (auto simp: require_authority_Inr_iff)

lemma admit_claimant_Inr_iff:
  "admit_claimant tenant gflen registry grants actor subject epoch now = Inr s \<longleftrightarrow>
     (\<exists>e l. require_active registry actor = Inr e \<and> require_protocol_lease registry actor now = Inr l) \<and>
     is_identifier subject \<and> s = subject \<and> 1 \<le> epoch \<and>
     require_authority tenant gflen grants subject actor epoch now = Inr ()"
  by (auto simp: admit_claimant_def bindR_Inr_iff not_less)

section \<open>Resuming a projection\<close>

text \<open>The stale readiness of a resumed state is never looked at.\<close>

definition unready :: "work_states \<Rightarrow> work_states" where
  "unready s = map (\<lambda>(k, i). (k, i\<lparr>st_readiness := None\<rparr>)) s"

lemma map_of_unready: "map_of (unready s) k = map_option (\<lambda>i. i\<lparr>st_readiness := None\<rparr>) (map_of s k)"
  by (simp add: unready_def map_of_map)

lemma unready_keys [simp]: "fst ` set (unready s) = fst ` set s"
  by (force simp: unready_def)

lemma unready_update [simp]:
  "unready (AList.update k i s) = AList.update k (i\<lparr>st_readiness := None\<rparr>) (unready s)"
  by (induction s) (auto simp: unready_def)

lemma is_completed_unready [simp]: "is_completed (unready s) = is_completed s"
  by (rule ext) (simp add: is_completed_def map_of_unready option.case_eq_if option.map_sel)

lemma unready_set_readiness [simp]: "unready (set_readiness s) = unready s"
  by (simp add: unready_def set_readiness_def comp_def case_prod_beta)

lemma set_readiness_unready [simp]: "set_readiness (unready s) = set_readiness s"
proof -
  have "readiness_of (unready s) (i\<lparr>st_readiness := None\<rparr>) = readiness_of s i" for i
    by (simp add: readiness_of_def)
  then show ?thesis by (simp add: set_readiness_def unready_def [of s] comp_def case_prod_beta)
qed

lemma opened_unready [simp]: "(opened r)\<lparr>st_readiness := None\<rparr> = opened r"
  by (simp add: opened_def)

lemma work_step_unready:
  "work_step (unready s) row = map_sum id unready (work_step s row)"
proof (cases row)
  case (WorkItem r)
  then show ?thesis by simp
next
  case (WorkTransition r)
  show ?thesis
  proof (cases "map_of s (wt_item r)")
    case None
    then show ?thesis by (simp add: WorkTransition map_of_unready del: map_of_none_key)
  next
    case (Some i)
    then show ?thesis
      by (cases i; cases "wt_action r") (simp_all add: WorkTransition map_of_unready)
  qed
qed

lemma replay_unready:
  "replay work_step (unready s) rows = map_sum id unready (replay work_step s rows)"
proof (induction rows arbitrary: s)
  case (Cons row rows)
  then show ?case by (cases "work_step s row") (simp_all add: work_step_unready)
qed simp

lemma project_tail_unready: "project_tail (unready s) rows = project_tail s rows"
  by (simp add: project_tail_def replay_unready split: sum.split)

end
