(* ===== verification/Work_Properties.thy ===== *)
theory Work_Properties
  imports Work_Safety
begin

text \<open>
  The properties of the work log, over the histories of its operations, with worked
  ledgers at the end of the theory.
\<close>

lemma history_from_empty:
  assumes "work_history tenant flen [] rows"
  obtains s where "readable (work_contract tenant flen) rows" "replay work_step [] rows = Inr s"
    "work_inv rows s"
  using work_history_readable [OF assms] by auto

lemma claimed_row_prefix:
  assumes ok: "ids_distinct rows" and rep: "replay work_step [] rows = Inr s"
    and i: "map_of s k = Some i" "st_state i \<noteq> OpenWork"
  shows "\<exists>pre c post u. rows = pre @ WorkTransition c # post \<and> wt_item c = k \<and>
    wt_action c = ClaimWork \<and> st_holder i = Some (wt_actor c) \<and>
    replay work_step [] pre = Inr u \<and> (\<forall>d \<in> set (st_needs i). is_completed u d)"
  using assms
proof (induction rows arbitrary: s i rule: rev_induct)
  case Nil
  then show ?case by simp
next
  case (snoc row rows)
  from snoc.prems(2) obtain t where t: "replay work_step [] rows = Inr t" "work_step t row = Inr s"
    by (auto simp: replay_snoc bindR_Inr_iff)
  have old: ?case if "map_of t k = Some j" "st_state j \<noteq> OpenWork"
      "st_holder j = st_holder i" "st_needs j = st_needs i" for j
    using snoc.IH [OF ids_distinct_prefix [OF snoc.prems(1)] t(1) that(1,2)] that(3,4) by fastforce
  from t(2) show ?case
  proof (cases rule: work_step_cases)
    case (item r)
    with snoc.prems(3,4) show ?thesis by (intro old [of i]) (auto simp: opened_def split: if_splits)
  next
    case (claim r j)
    show ?thesis
    proof (cases "wt_item r = k")
      case True
      with claim snoc.prems(3) t(1) show ?thesis
        by (intro exI [of _ rows] exI [of _ r] exI [of _ "[]"] exI [of _ t]) auto
    next
      case False
      with claim snoc.prems(3,4) show ?thesis by (intro old [of i]) auto
    qed
  next
    case (complete r j)
    show ?thesis
    proof (cases "wt_item r = k")
      case True
      with complete snoc.prems(3) show ?thesis by (intro old [of j]) auto
    next
      case False
      with complete snoc.prems(3,4) show ?thesis by (intro old [of i]) auto
    qed
  qed
qed

lemma completed_row_prefix:
  assumes ok: "ids_distinct rows" and rep: "replay work_step [] rows = Inr s"
    and i: "map_of s k = Some i" "st_state i = CompletedWork"
  shows "\<exists>pre d post u j. rows = pre @ WorkTransition d # post \<and> wt_item d = k \<and>
    wt_action d = CompleteWork \<and> st_holder i = Some (wt_actor d) \<and>
    replay work_step [] pre = Inr u \<and> map_of u k = Some j \<and> st_state j = ClaimedWork \<and>
    st_holder j = st_holder i \<and> st_needs j = st_needs i"
  using assms
proof (induction rows arbitrary: s i rule: rev_induct)
  case Nil
  then show ?case by simp
next
  case (snoc row rows)
  from snoc.prems(2) obtain t where t: "replay work_step [] rows = Inr t" "work_step t row = Inr s"
    by (auto simp: replay_snoc bindR_Inr_iff)
  have old: ?case if "map_of t k = Some i"
    using snoc.IH [OF ids_distinct_prefix [OF snoc.prems(1)] t(1) that snoc.prems(4)] by fastforce
  from t(2) show ?case
  proof (cases rule: work_step_cases)
    case (item r)
    with snoc.prems(3,4) show ?thesis by (intro old) (auto simp: opened_def split: if_splits)
  next
    case (claim r j)
    with snoc.prems(3,4) show ?thesis by (intro old) (auto split: if_splits)
  next
    case (complete r j)
    show ?thesis
    proof (cases "wt_item r = k")
      case True
      with complete snoc.prems(3) t(1) show ?thesis
        by (intro exI [of _ rows] exI [of _ r] exI [of _ "[]"] exI [of _ t] exI [of _ j]) auto
    next
      case False
      with complete snoc.prems(3) show ?thesis by (intro old) auto
    qed
  qed
qed

definition completes :: "string \<Rightarrow> work_row \<Rightarrow> bool" where
  "completes k row \<longleftrightarrow>
     (case row of WorkTransition d \<Rightarrow> wt_item d = k \<and> wt_action d = CompleteWork | _ \<Rightarrow> False)"

lemma completed_in_rows:
  assumes "ids_distinct rows" "replay work_step [] rows = Inr s" "is_completed s k"
  shows "list_ex (completes k) rows"
  using assms completed_row_prefix [OF assms(1,2)]
  by (fastforce simp: is_completed_def completes_def split: option.splits)

lemma work_moves_forward_core:
  assumes "work_history tenant flen [] rows" "work_history tenant flen rows rows'"
    and "work_project rows = Inr states" "work_project rows' = Inr states'"
  shows "states_le states states'"
proof -
  from assms(1) obtain s where s: "readable (work_contract tenant flen) rows"
    "replay work_step [] rows = Inr s" "work_inv rows s" by (rule history_from_empty)
  have "work_history tenant flen [] rows'" using assms(1,2) by (auto simp: work_history_def)
  then obtain s' where s': "readable (work_contract tenant flen) rows'"
    "replay work_step [] rows' = Inr s'" by (rule history_from_empty)
  from work_history_extends [OF assms(2)] obtain suffix where suffix: "rows' = rows @ suffix" ..
  have "states_le s s'"
    by (rule work.replay_relates [of states_le rows suffix])
       (use s s' suffix in \<open>simp_all add: work_step_le states_le_refl states_le_trans
         readable_ids_distinct replay_append\<close>)
  then show ?thesis
    using assms(3,4) s(2) s'(2)
    by (fastforce simp: work_project_Inr_iff states_le_def map_of_set_readiness item_le_def)
qed

section \<open>Properties\<close>

text \<open>C3: every ledger that add, claim, claim-oldest and complete can produce from the empty
  one, with any registry and any grants, is accepted by the reader and by the projection;
  in the projected states an item has a holder exactly when it has left the open state, and
  then everything it needs is completed; dependencies only point to earlier items.\<close>

theorem work_log_sound:
  assumes "work_history tenant flen [] rows"
  shows "readable (work_contract tenant flen) rows \<and>
    (\<exists>states. work_project rows = Inr states \<and>
      (\<forall>k i. map_of states k = Some i \<longrightarrow>
         st_id i = k \<and> set (st_needs i) \<subseteq> before k (map fst states) \<and>
         (st_holder i \<noteq> None \<longleftrightarrow> st_state i \<noteq> OpenWork) \<and>
         (st_state i \<noteq> OpenWork \<longrightarrow> (\<forall>d \<in> set (st_needs i). is_completed states d))))"
proof -
  from assms obtain s where s: "readable (work_contract tenant flen) rows"
    "replay work_step [] rows = Inr s" "work_inv rows s" by (rule history_from_empty)
  have same: "is_completed (set_readiness s) = is_completed s"
    by (metis is_completed_unready unready_set_readiness)
  from s(3) have inv: "item_inv s k i" if "map_of s k = Some i" for k i
    using that by (simp add: work_inv_def)
  show ?thesis
    using s(1,2) by (auto simp: work_project_Inr_iff map_of_set_readiness same
        dest!: inv simp: item_inv_def)
qed

text \<open>C18: along any history no item disappears, its owner, title and needs never change, its
  state only moves from open through claimed to completed, and once it is claimed its
  holder, authority subject and epoch are fixed for ever.\<close>

theorem work_moves_forward:
  assumes "work_history tenant flen [] rows" "work_history tenant flen rows rows'"
    and "work_project rows = Inr states" "work_project rows' = Inr states'"
  shows "states_le states states'"
  by (rule work_moves_forward_core [OF assms])

text \<open>C19: behind every completed item the ledger holds, in this order, the completion of each
  of its dependencies, its claim by one actor, and its completion by the same actor.\<close>

theorem completed_work_history:
  assumes "work_history tenant flen [] rows" "work_project rows = Inr states"
    and "map_of states k = Some i" "st_state i = CompletedWork"
  shows "\<exists>pre c mid d post. rows = pre @ WorkTransition c # mid @ WorkTransition d # post \<and>
    wt_item c = k \<and> wt_action c = ClaimWork \<and> wt_item d = k \<and> wt_action d = CompleteWork \<and>
    st_holder i = Some (wt_actor c) \<and> wt_actor d = wt_actor c \<and>
    (\<forall>n \<in> set (st_needs i). list_ex (completes n) pre)"
proof -
  from assms(1) obtain s where s: "readable (work_contract tenant flen) rows"
    "replay work_step [] rows = Inr s" "work_inv rows s" by (rule history_from_empty)
  have ok: "ids_distinct rows" by (rule readable_ids_distinct [OF s(1)])
  from assms(2,3) s(2) obtain x where x: "map_of s k = Some x" "st_state x = st_state i"
    "st_holder x = st_holder i" "st_needs x = st_needs i"
    by (auto simp: work_project_Inr_iff map_of_set_readiness)
  from completed_row_prefix [OF ok s(2) x(1)] assms(4) x obtain pre d post u j where
    d: "rows = pre @ WorkTransition d # post" "wt_item d = k" "wt_action d = CompleteWork"
      "st_holder i = Some (wt_actor d)" "replay work_step [] pre = Inr u"
      "map_of u k = Some j" "st_state j = ClaimedWork" "st_holder j = st_holder i"
      "st_needs j = st_needs i" by auto
  have okp: "ids_distinct pre" using ok by (simp add: d(1) ids_distinct_def)
  from claimed_row_prefix [OF okp d(5,6)] d(7-9) obtain pre2 c mid v where
    c: "pre = pre2 @ WorkTransition c # mid" "wt_item c = k" "wt_action c = ClaimWork"
      "st_holder i = Some (wt_actor c)" "replay work_step [] pre2 = Inr v"
      "\<forall>n \<in> set (st_needs i). is_completed v n" by auto
  have okc: "ids_distinct pre2" using okp by (simp add: c(1) ids_distinct_def)
  from c d completed_in_rows [OF okc c(5)] show ?thesis
    by (intro exI [of _ pre2] exI [of _ c] exI [of _ mid] exI [of _ d] exI [of _ post]) auto
qed

text \<open>C14: an accepted claim excludes everybody else: in every later ledger a further claim of
  the item by any admitted claimant is refused as \<open>work_not_open\<close>, and a completion by any
  other active node is refused for its state or its holder.\<close>

theorem claim_excludes_others:
  assumes "work_history tenant flen [] rows"
    and "work_claim tenant flen gflen registry grants uuid item actor subject epoch now rows
      = Inr (r, rows')"
    and "work_history tenant flen rows' later"
  shows "(admit_claimant tenant gflen registry2 grants2 actor2 subject2 epoch2 now2 = Inr subject2 \<longrightarrow>
      work_claim tenant flen gflen registry2 grants2 uuid2 item actor2 subject2 epoch2 now2 later
        = Inl (ProtocolRefusal ''work_not_open'')) \<and>
    (require_active registry2 actor2 = Inr entry \<and> actor2 \<noteq> actor \<longrightarrow>
      work_complete tenant flen registry2 uuid2 item actor2 bindings now2 later
        \<in> {Inl (ProtocolRefusal ''work_not_claimed''), Inl (ProtocolRefusal ''work_holder_mismatch'')})"
proof -
  have h': "work_history tenant flen [] rows'"
    using assms(1) op_claim [OF assms(2)] by (auto simp: work_history_def)
  from assms(2) obtain s i s' where com: "commits tenant flen rows (WorkTransition r) s s' rows'"
    and i: "map_of s item = Some i" "readiness_of s i = Ready"
    and r: "wt_item r = item" "wt_action r = ClaimWork" "wt_actor r = actor"
    by (rule work_claim_commits)
  then have s': "map_of s' item = Some (i\<lparr>st_state := ClaimedWork, st_holder := Some actor,
      st_subject := Some (wt_subject r), st_epoch := Some (wt_epoch r),
      st_last_activity := wt_timestamp r\<rparr>)"
    using claim_step [OF i r(1,2)] by (simp add: commits_def)
  have hl: "work_history tenant flen [] later" using h' assms(3) by (auto simp: work_history_def)
  then obtain t where t: "readable (work_contract tenant flen) later" "replay work_step [] later = Inr t"
    by (rule history_from_empty)
  have "states_le (set_readiness s') (set_readiness t)"
    by (rule work_moves_forward_core [OF h' assms(3)]) (use commits_readable(4) [OF com] t in
      \<open>auto simp: work_project_Inr_iff\<close>)
  then obtain j where j: "map_of t item = Some j" "st_state j \<noteq> OpenWork" "st_holder j = Some actor"
    using s' by (fastforce simp: states_le_def map_of_set_readiness item_le_def)
  have "transact (work_contract tenant flen) later decide = Inl e" if "decide later = Inl e"
    for decide :: "work_row list \<Rightarrow> (work_transition_row \<times> work_row option) res" and e
    using t(1) that by (simp add: transact_decide_fails)
  note fails = this
  have p: "work_project later = Inr (set_readiness t)" using t(2) by (auto simp: work_project_Inr_iff)
  show ?thesis
    using j by (auto simp: work_claim_def claim_transition_def work_complete_def Let_def p
        map_of_set_readiness intro!: fails)
qed

text \<open>C20: \<open>claim_owned_oldest\<close> takes the first item of the projection that is ready and owned
  by the actor, and the ledger it leaves shows that item claimed by the actor.  The returned
  dictionary is that durable item except for its readiness, which still says \<open>ready\<close>
  where the projection now says \<open>claimed\<close>.\<close>

theorem claim_owned_oldest_selects:
  assumes "claim_owned_oldest tenant flen gflen registry grants uuid actor subject epoch now rows
    = Inr (item, rows')"
  shows "\<exists>states pre i post states' j.
    work_project rows = Inr states \<and> states = pre @ (st_id item, i) # post \<and>
    st_readiness i = Some Ready \<and> st_owner i = actor \<and>
    (\<forall>(_, x) \<in> set pre. \<not> (st_readiness x = Some Ready \<and> st_owner x = actor)) \<and>
    work_project rows' = Inr states' \<and> map_of states' (st_id item) = Some j \<and>
    st_state j = ClaimedWork \<and> st_holder j = Some actor \<and>
    st_readiness j = Some ClaimedReadiness \<and> item = j\<lparr>st_readiness := Some Ready\<rparr>"
  using assms
proof (rule claim_owned_oldest_commits)
  fix s i pre post r s'
  assume com: "commits tenant flen rows (WorkTransition r) s s' rows'"
    and split: "set_readiness s = pre @ (st_id i, i\<lparr>st_readiness := Some Ready\<rparr>) # post"
    and own: "st_owner i = actor"
    and pre: "\<forall>(_, j) \<in> set pre. \<not> (st_readiness j = Some Ready \<and> st_owner j = actor)"
    and s': "s' = AList.update (st_id i)
       (i\<lparr>st_state := ClaimedWork, st_holder := Some actor, st_subject := Some subject,
          st_epoch := Some epoch, st_last_activity := format_time now\<rparr>) s"
    and item: "item = i\<lparr>st_state := ClaimedWork, st_holder := Some actor, st_subject := Some subject,
          st_epoch := Some epoch, st_last_activity := format_time now, st_readiness := Some Ready\<rparr>"
  let ?j = "item\<lparr>st_readiness := Some ClaimedReadiness\<rparr>"
  have id: "st_id item = st_id i" by (simp add: item)
  have p: "work_project rows = Inr (set_readiness s)"
    using com by (auto simp: work_project_Inr_iff commits_def)
  have p': "work_project rows' = Inr (set_readiness s')"
    using commits_readable(4) [OF com] by (auto simp: work_project_Inr_iff)
  have j: "map_of (set_readiness s') (st_id item) = Some ?j"
    by (cases i) (simp add: map_of_set_readiness s' item readiness_of_def)
  show ?thesis
    by (rule exI [of _ "set_readiness s"], rule exI [of _ pre],
        rule exI [of _ "i\<lparr>st_readiness := Some Ready\<rparr>"], rule exI [of _ post],
        rule exI [of _ "set_readiness s'"], rule exI [of _ ?j])
       (use p p' j pre own split id in \<open>simp add: item\<close>)
qed

text \<open>C21: projecting a ledger in two instalments, the second starting from the projected states
  of the first with their readiness, is projecting it at once, failures included.\<close>

theorem projection_resumes:
  "bindR (project_tail initial xs) (\<lambda>states. project_tail states ys) = project_tail initial (xs @ ys)"
proof (cases "replay work_step initial xs")
  case (Inl e)
  then show ?thesis by (simp add: project_tail_def replay_append)
next
  case (Inr s)
  have "project_tail (set_readiness s) ys = project_tail s ys"
    by (metis project_tail_unready unready_set_readiness)
  with Inr show ?thesis by (simp add: project_tail_def replay_append)
qed

text \<open>Two claimants admitted under one grant ledger hold the very same coordinate, and
  after an exact revocation of the subject nobody is admitted.\<close>

theorem authority_gates_claims:
  assumes "admit_claimant tenant gflen registry grants actor subject epoch now = Inr s"
  shows "(admit_claimant tenant gflen registry2 grants actor2 subject epoch2 now2 = Inr s2 \<longrightarrow>
      actor2 = actor \<and> epoch2 = epoch) \<and>
    (revoke_exact tenant gflen uuid subject actor epoch now3 grants = Inr (row, grants') \<longrightarrow>
      admit_claimant tenant gflen registry2 grants' actor2 subject epoch2 now2 \<noteq> Inr s2)"
proof -
  from assms have auth: "require_authority tenant gflen grants subject actor epoch now = Inr ()"
    by (simp add: admit_claimant_Inr_iff)
  have "actor2 = actor \<and> epoch2 = epoch"
    if "admit_claimant tenant gflen registry2 grants actor2 subject epoch2 now2 = Inr s2"
    using work_authority.admits_unique [OF auth, of actor2 epoch2 now2] that
    by (auto simp: admit_claimant_Inr_iff)
  moreover have "iv_state (last (grants' subject)) = Released"
    if "revoke_exact tenant gflen uuid subject actor epoch now3 grants = Inr (row, grants')"
    using that auth
    by (auto simp: revoke_exact_def release_def put_row_def bindR_Inr_iff append_record_Inr_iff
        exact_tail_def latest_row_Inr_iff interval_record_def require_authority_Inr_iff
        split: sum.splits if_splits)
  ultimately show ?thesis
    by (auto simp: admit_claimant_Inr_iff require_authority_Inr_iff)
qed

section \<open>A worked ledger\<close>

definition ann_entry :: registry_row where
  "ann_entry = RegistryEntry \<lparr>re_id = ''registry-0189000000007000800000000000000a'', re_tenant = ''t'',
     re_timestamp = 1000, re_node = ''ann'', re_role = ''builder'', re_active = True\<rparr>"

definition item1 :: work_item_row where
  "item1 = \<lparr>wi_id = ''work-01890000000070008000000000000001'', wi_tenant = ''t'', wi_timestamp = 6000,
     wi_title = ''build'', wi_owner = ''ann'', wi_bindings = [], wi_needs = [], wi_workspace = None\<rparr>"

definition claim1 :: work_transition_row where
  "claim1 = \<lparr>wt_id = ''transition-01890000000070008000000000000002'', wt_tenant = ''t'',
     wt_timestamp = 7000, wt_item = wi_id item1, wt_action = ClaimWork, wt_actor = ''ann'',
     wt_subject = ''lane'', wt_epoch = 1, wt_bindings = []\<rparr>"

definition complete1 :: work_transition_row where
  "complete1 = \<lparr>wt_id = ''transition-01890000000070008000000000000003'', wt_tenant = ''t'',
     wt_timestamp = 8000, wt_item = wi_id item1, wt_action = CompleteWork, wt_actor = ''ann'',
     wt_subject = ''lane'', wt_epoch = 1,
     wt_bindings = [\<lparr>bd_repo = ''acme/app'', bd_sha = ''0123456789012345678901234567890123456789'', bd_doc = ''docs/a.md''\<rparr>]\<rparr>"

definition wlen :: "work_row \<Rightarrow> nat" where "wlen _ = 400"

lemmas [evaluate] =
  validate_work_item_def validate_work_transition_def artifact_bindings_def is_work_id_def
  workspace_ok_def work_contract_def opened_def is_completed_def readiness_of_def
  set_readiness_def project_tail_def work_project_def work_add_def require_authority_def
  transition_record_def claim_transition_def admit_claimant_def work_claim_def
  owned_oldest_decide_def claim_owned_oldest_def work_complete_def integrity_as_def

lemma ann_active: "require_active [ann_entry] ''ann'' = Inr \<lparr>re_id = ''registry-0189000000007000800000000000000a'',
     re_tenant = ''t'', re_timestamp = 1000, re_node = ''ann'', re_role = ''builder'', re_active = True\<rparr>"
  by (simp add: ann_entry_def evaluate)

lemma ann_admitted:
  "admit_claimant ''t'' flen300 [ann_entry] ((\<lambda>_. [])(''lane'' := [lane_grant])) ''ann'' ''lane'' 1 7000000
    = Inr ''lane''"
  by (simp add: admit_claimant_def ann_active) (simp add: ann_entry_def lane_grant_def evaluate flen300_def
      config_simps)

abbreviation lane_store :: interval_store where
  "lane_store \<equiv> (\<lambda>_. [])(''lane'' := [lane_grant])"

lemma add1: "work_add ''t'' wlen ''/tmp/floati-work'' [ann_entry] ''01890000000070008000000000000001'' ''build''
    ''ann'' [] [] False 6000000 [] = Inr (item1, [WorkItem item1])"
  by (simp add: work_add_def ann_active) (simp add: evaluate item1_def wlen_def Let_def)

lemma claim1_ok: "work_claim ''t'' wlen flen300 [ann_entry] lane_store ''01890000000070008000000000000002''
    (wi_id item1) ''ann'' ''lane'' 1 7000000 [WorkItem item1]
  = Inr (claim1, [WorkItem item1, WorkTransition claim1])"
  by (simp add: work_claim_def ann_admitted) (simp add: evaluate item1_def claim1_def wlen_def)

lemma claim_oldest1: "claim_owned_oldest ''t'' wlen flen300 [ann_entry] lane_store
    ''01890000000070008000000000000002'' ''ann'' ''lane'' 1 7000000 [WorkItem item1]
  = Inr ((opened item1)\<lparr>st_state := ClaimedWork, st_holder := Some ''ann'', st_subject := Some ''lane'',
      st_epoch := Some 1, st_last_activity := 7000, st_readiness := Some Ready\<rparr>,
      [WorkItem item1, WorkTransition claim1])"
proof -
  have adm: "is_identifier ''lane''" "\<exists>l. require_protocol_lease [ann_entry] ''ann'' 7000000 = Inr l"
    "require_authority ''t'' flen300 lane_store ''lane'' ''ann'' 1 7000000 = Inr ()"
    using ann_admitted by (auto simp: admit_claimant_Inr_iff)
  from adm(2) obtain l where "require_protocol_lease [ann_entry] ''ann'' 7000000 = Inr l" ..
  then show ?thesis
    by (simp add: claim_owned_oldest_def ann_active adm validate_identifier_def)
       (simp add: evaluate item1_def claim1_def wlen_def)
qed

lemma complete1_ok: "work_complete ''t'' wlen [ann_entry] ''01890000000070008000000000000003'' (wi_id item1) ''ann''
    (wt_bindings complete1) 8000000 [WorkItem item1, WorkTransition claim1]
  = Inr (complete1, [WorkItem item1, WorkTransition claim1, WorkTransition complete1])"
  by (simp add: work_complete_def ann_active) (simp add: evaluate item1_def claim1_def complete1_def wlen_def)

lemma history1: "work_history ''t'' wlen [] [WorkItem item1]"
  unfolding work_history_def by (rule r_into_rtranclp, rule op_add [OF add1])

lemma history2: "work_history ''t'' wlen [WorkItem item1] [WorkItem item1, WorkTransition claim1]"
  unfolding work_history_def by (rule r_into_rtranclp, rule op_claim [OF claim1_ok])

lemma history3: "work_history ''t'' wlen [WorkItem item1, WorkTransition claim1]
    [WorkItem item1, WorkTransition claim1, WorkTransition complete1]"
  unfolding work_history_def by (rule r_into_rtranclp, rule op_complete [OF complete1_ok])

lemma history123: "work_history ''t'' wlen [] [WorkItem item1, WorkTransition claim1, WorkTransition complete1]"
  using history1 history2 history3 unfolding work_history_def by (blast intro: rtranclp_trans)

lemma project1: "work_project [WorkItem item1] = Inr [(wi_id item1, (opened item1)\<lparr>st_readiness := Some Ready\<rparr>)]"
  by (simp add: evaluate item1_def)

lemma project3: "work_project [WorkItem item1, WorkTransition claim1, WorkTransition complete1] =
    Inr [(wi_id item1, (opened item1)\<lparr>st_state := CompletedWork, st_holder := Some ''ann'',
      st_subject := Some ''lane'', st_epoch := Some 1, st_bindings := wt_bindings complete1,
      st_last_activity := 8000, st_readiness := Some DoneReadiness\<rparr>)]"
  by (simp add: evaluate item1_def claim1_def complete1_def)

theorem work_log_sound_witness:
  "readable (work_contract ''t'' wlen) [WorkItem item1, WorkTransition claim1, WorkTransition complete1]"
  using work_log_sound [OF history123] by blast

theorem work_moves_forward_witness:
  "states_le [(wi_id item1, (opened item1)\<lparr>st_readiness := Some Ready\<rparr>)]
    [(wi_id item1, (opened item1)\<lparr>st_state := CompletedWork, st_holder := Some ''ann'',
      st_subject := Some ''lane'', st_epoch := Some 1, st_bindings := wt_bindings complete1,
      st_last_activity := 8000, st_readiness := Some DoneReadiness\<rparr>)]"
  by (rule work_moves_forward [OF history1 _ project1 project3])
     (use history2 history3 in \<open>auto simp: work_history_def intro: rtranclp_trans\<close>)

theorem completed_work_history_witness:
  "\<exists>pre c mid d post. [WorkItem item1, WorkTransition claim1, WorkTransition complete1] =
      pre @ WorkTransition c # mid @ WorkTransition d # post \<and> wt_actor d = wt_actor c"
  using completed_work_history [OF history123 project3, of "wi_id item1"] by (simp, blast)

theorem claim_excludes_others_witness:
  "work_complete ''t'' wlen [RegistryEntry \<lparr>re_id = ''registry-0189000000007000800000000000000b'',
      re_tenant = ''t'', re_timestamp = 1000, re_node = ''bob'', re_role = ''builder'', re_active = True\<rparr>]
      ''01890000000070008000000000000004'' (wi_id item1) ''bob'' [] 9000000
      [WorkItem item1, WorkTransition claim1]
    \<in> {Inl (ProtocolRefusal ''work_not_claimed''), Inl (ProtocolRefusal ''work_holder_mismatch'')}"
  by (rule claim_excludes_others [OF history1 claim1_ok, THEN conjunct2, rule_format])
     (simp_all add: work_history_def evaluate)

theorem claim_owned_oldest_selects_witness:
  "\<exists>states' j. work_project [WorkItem item1, WorkTransition claim1] = Inr states' \<and>
     map_of states' (wi_id item1) = Some j \<and> st_readiness j = Some ClaimedReadiness"
  using claim_owned_oldest_selects [OF claim_oldest1] by (auto simp: opened_def)

theorem authority_gates_claims_witness:
  "admit_claimant ''t'' flen300 [ann_entry] ((\<lambda>_. [])(''lane'' := [lane_grant, lane_revoked]))
     ''ann'' ''lane'' 1 9000000 \<noteq> Inr ''lane''"
  by (rule authority_gates_claims [OF ann_admitted, THEN conjunct2, rule_format, OF lane_revoke])

end
