(* ===== verification/Json_Values.thy ===== *)
theory Json_Values
  imports Identifiers
begin

text \<open>
  Decoded JSON values and RFC 3339 instants, as the private ledgers and the task contracts
  read them.  A JSON object is the list of its members; the frame decoder has already
  refused repeated names (\<open>_exact_object\<close> of \<open>floati/framing.py\<close>).  A number with a
  fraction or an exponent keeps its text: the code only asks whether it is an \<open>int\<close>.
\<close>

datatype json =
    JNull
  | JBool bool
  | JInt int
  | JFloat string
  | JStr string
  | JArr "json list"
  | JObj "(string \<times> json) list"

type_synonym members = "(string \<times> json) list"

text \<open>\<open>dict.get\<close>: an absent member reads as \<open>None\<close>, like a null one.\<close>

definition get_member :: "members \<Rightarrow> string \<Rightarrow> json" where
  "get_member obj k = (case map_of obj k of None \<Rightarrow> JNull | Some v \<Rightarrow> v)"

definition member_names :: "members \<Rightarrow> string set" where
  "member_names obj = fst ` set obj"

definition same_names :: "members \<Rightarrow> string list \<Rightarrow> bool" where
  "same_names obj names \<longleftrightarrow> member_names obj = set names"

lemma same_names_eval [evaluate]:
  "same_names obj names \<longleftrightarrow>
     list_all (\<lambda>n. n \<in> set names) (map fst obj) \<and> list_all (\<lambda>n. n \<in> set (map fst obj)) names"
  by (auto simp: same_names_def member_names_def list_all_iff)

text \<open>Hashing a list or a dictionary raises \<open>TypeError\<close>; \<open>value in {...}\<close> hashes.\<close>

fun hashable :: "json \<Rightarrow> bool" where
  "hashable (JArr _) = False"
| "hashable (JObj _) = False"
| "hashable _ = True"

definition utf8_length :: "string \<Rightarrow> nat" where
  "utf8_length s = sum_list (map (\<lambda>c. if (of_char c :: nat) < 128 then 1 else 2) s)"

section \<open>Instants\<close>

text \<open>\<open>datetime.fromisoformat\<close> on the texts the code gives it, in the documented grammar of
  Python 3.9: \<open>YYYY-MM-DD*HH[:MM[:SS[.fff[fff]]]]+00:00\<close> with any character for \<open>*\<close>.  The
  value counts microseconds from the first day of year 1.\<close>

definition digit_value :: "char \<Rightarrow> int" where
  "digit_value c = of_char c - 48"

definition digits_value :: "string \<Rightarrow> int" where
  "digits_value s = foldl (\<lambda>v c. 10 * v + digit_value c) 0 s"

definition number_of_width :: "nat \<Rightarrow> string \<Rightarrow> int option" where
  "number_of_width n s =
     (if length s = n \<and> list_all is_digit_char s then Some (digits_value s) else None)"

definition is_leap :: "int \<Rightarrow> bool" where
  "is_leap y \<longleftrightarrow> 4 dvd y \<and> (\<not> 100 dvd y \<or> 400 dvd y)"

definition month_lengths :: "int \<Rightarrow> int list" where
  "month_lengths y = [31, if is_leap y then 29 else 28, 31, 30, 31, 30, 31, 31, 30, 31, 30, 31]"

definition ordinal_day :: "int \<Rightarrow> int \<Rightarrow> int \<Rightarrow> int" where
  "ordinal_day y m d =
     (y - 1) * 365 + (y - 1) div 4 - (y - 1) div 100 + (y - 1) div 400 +
     sum_list (take (nat (m - 1)) (month_lengths y)) + d - 1"

definition iso_date :: "string \<Rightarrow> int option" where
  "iso_date s =
     (if length s = 10 \<and> s ! 4 = CHR ''-'' \<and> s ! 7 = CHR ''-'' then
        (case (number_of_width 4 (take 4 s), number_of_width 2 (take 2 (drop 5 s)),
               number_of_width 2 (drop 8 s)) of
           (Some y, Some m, Some d) \<Rightarrow>
             if 1 \<le> y \<and> 1 \<le> m \<and> m \<le> 12 \<and> 1 \<le> d \<and> d \<le> month_lengths y ! nat (m - 1)
               then Some (ordinal_day y m d) else None
         | _ \<Rightarrow> None)
      else None)"

definition bounded_number :: "int \<Rightarrow> string \<Rightarrow> int option" where
  "bounded_number limit s =
     (case number_of_width 2 s of None \<Rightarrow> None | Some v \<Rightarrow> if v < limit then Some v else None)"

definition iso_fraction :: "string \<Rightarrow> int option" where
  "iso_fraction s =
     (if length s = 3 then map_option (\<lambda>v. 1000 * v) (number_of_width 3 s)
      else number_of_width 6 s)"

definition iso_seconds :: "string \<Rightarrow> int option" where
  "iso_seconds s =
     (if length s = 2 then map_option (\<lambda>v. 1000000 * v) (bounded_number 60 s)
      else if length s > 3 \<and> s ! 2 = CHR ''.'' then
        (case (bounded_number 60 (take 2 s), iso_fraction (drop 3 s)) of
           (Some v, Some f) \<Rightarrow> Some (1000000 * v + f)
         | _ \<Rightarrow> None)
      else None)"

definition iso_time :: "string \<Rightarrow> int option" where
  "iso_time s =
     (case split_on CHR '':'' s of
        [h] \<Rightarrow> map_option (\<lambda>v. 3600000000 * v) (bounded_number 24 h)
      | [h, m] \<Rightarrow>
          (case (bounded_number 24 h, bounded_number 60 m) of
             (Some hv, Some mv) \<Rightarrow> Some (3600000000 * hv + 60000000 * mv)
           | _ \<Rightarrow> None)
      | [h, m, r] \<Rightarrow>
          (case (bounded_number 24 h, bounded_number 60 m, iso_seconds r) of
             (Some hv, Some mv, Some u) \<Rightarrow> Some (3600000000 * hv + 60000000 * mv + u)
           | _ \<Rightarrow> None)
      | _ \<Rightarrow> None)"

text \<open>The text before the final \<open>Z\<close>.\<close>

definition iso_instant :: "string \<Rightarrow> int option" where
  "iso_instant s =
     (if length s \<le> 11 then None
      else (case (iso_date (take 10 s), iso_time (drop 11 s)) of
              (Some day, Some micros) \<Rightarrow> Some (86400000000 * day + micros)
            | _ \<Rightarrow> None))"

definition timestamp_value :: "string \<Rightarrow> int" where
  "timestamp_value s = (case iso_instant (butlast s) of None \<Rightarrow> 0 | Some v \<Rightarrow> v)"

lemmas [evaluate] =
  get_member_def utf8_length_def digit_value_def digits_value_def number_of_width_def
  is_leap_def month_lengths_def ordinal_day_def iso_date_def bounded_number_def
  iso_fraction_def iso_seconds_def iso_time_def iso_instant_def timestamp_value_def

lemma iso_instant_example:
  "iso_instant ''2026-02-28T23:59:59.500'' = Some (86400000000 * 739674 + 86399500000)"
  by (simp add: evaluate)

end
