(* ===== verification/Lock_Contracts.thy ===== *)
theory Lock_Contracts
  imports Json_Values
begin

text \<open>
  The closed record contract of the private Locks ledger (\<open>floati/locks/contracts.py\<close>):
  every row kind with its exact field set, and the content witnesses.  A validated row is a
  value of \<open>lock_row\<close>; the code keeps the validated dictionary, whose members are the
  fields of that value.
\<close>

datatype witness =
    PathPresent string
  | PathAbsent string
  | BlobSha256 string string
  | FileContains string string

fun witness_path :: "witness \<Rightarrow> string" where
  "witness_path (PathPresent p) = p"
| "witness_path (PathAbsent p) = p"
| "witness_path (BlobSha256 p _) = p"
| "witness_path (FileContains p _) = p"

datatype verdict = Approved | VerdictBlocked

datatype landing_method = CherryPick | Rebase

record lock_acquired =
  la_lock :: string
  la_holder :: string
  la_expires :: string
  la_escalation :: string

record lock_escalated =
  le_lock :: string
  le_prior_holder :: string
  le_prior_expires :: string
  le_requested_by :: string
  le_holder :: string
  le_expires :: string
  le_escalation :: string
  le_announcement :: string
  le_recipient :: string
  le_rearm_event :: string

record measurement =
  me_ref :: string
  me_tree :: string
  me_tests :: int
  me_failures :: int
  me_digest :: string

record review =
  rv_verdict :: verdict
  rv_rank :: int
  rv_base_ref :: string
  rv_base_oid :: string
  rv_base_tree :: string
  rv_witness_holds :: bool

text \<open>The binding a review handoff carries through all its transitions.\<close>

record handoff_binding =
  hb_id :: string
  hb_recipient :: string
  hb_car :: string
  hb_ref :: string
  hb_base_ref :: string
  hb_witness :: witness
  hb_rearm_event :: string

datatype lock_body =
    Acquired lock_acquired
  | Escalated lock_escalated
  | AnnouncementStopped string string int string string
      \<comment> \<open>lock, announcement, attempts, stopped at, re-arm event\<close>
  | AnnouncementRearmed string string string \<comment> \<open>lock, announcement, observed event\<close>
  | AnnouncementDelivered string string string string
      \<comment> \<open>lock, announcement, receipt id, receipt digest\<close>
  | CarSubmitted string string string witness \<comment> \<open>car, ref, object id, witness\<close>
  | CarMeasured string measurement
  | CarReviewed string review
  | CarLanded string string string string landing_method \<comment> \<open>car, target ref, oid, tree, method\<close>
  | CarDissolved string string string string \<comment> \<open>car, product ref, oid, tree\<close>
  | SeatProvisioned string "string list" string
  | HandoffQueued handoff_binding
  | HandoffStopped handoff_binding int string \<comment> \<open>attempts, stopped at\<close>
  | HandoffRearmed handoff_binding string \<comment> \<open>observed event\<close>
  | HandoffDelivered handoff_binding string string \<comment> \<open>receipt id, receipt digest\<close>

record lock_row =
  lr_id :: string
  lr_timestamp :: string
  lr_body :: lock_body

section \<open>Field validators\<close>

definition safe_text :: "bool \<Rightarrow> nat \<Rightarrow> string \<Rightarrow> json \<Rightarrow> string res" where
  "safe_text integrity maximum field v =
     (case v of
        JStr s \<Rightarrow>
          if s = [] \<or> utf8_length s > maximum \<or> terminal_unsafe s
            then Inl (refusal integrity (field @ ''_invalid''))
          else Inr s
      | _ \<Rightarrow> Inl (refusal integrity (field @ ''_invalid'')))"

definition identifier_field :: "bool \<Rightarrow> string \<Rightarrow> json \<Rightarrow> string res" where
  "identifier_field integrity field v =
     (case v of
        JStr s \<Rightarrow> if is_identifier s then Inr s else Inl (refusal integrity (field @ ''_invalid''))
      | _ \<Rightarrow> Inl (refusal integrity (field @ ''_invalid'')))"

definition validate_timestamp :: "bool \<Rightarrow> string \<Rightarrow> json \<Rightarrow> string res" where
  "validate_timestamp integrity field v =
     bindR (safe_text integrity 32 field v) (\<lambda>text.
       if \<not> ends_with ''Z'' text then Inl (refusal integrity (field @ ''_invalid''))
       else case iso_instant (butlast text) of
         None \<Rightarrow> Inl (refusal integrity (field @ ''_invalid''))
       | Some _ \<Rightarrow> Inr text)"

text \<open>\<open>FULL_REF_PATTERN\<close>: the class excludes control characters, space and \<open>~^:?*\[\\<close>.\<close>

definition ref_char :: "char \<Rightarrow> bool" where
  "ref_char c \<longleftrightarrow>
     (of_char c :: nat) > 32 \<and>
     c \<notin> {CHR ''~'', CHR ''^'', CHR '':'', CHR ''?'', CHR ''*'', CHR ''['', CHR 0x5C}"

definition full_ref_pattern :: "string \<Rightarrow> bool" where
  "full_ref_pattern s \<longleftrightarrow>
     (\<exists>p \<in> {''refs/heads/'', ''refs/remotes/''}.
        starts_with p s \<and> drop (length p) s \<noteq> [] \<and> list_all ref_char (drop (length p) s))"

definition ref_text_ok :: "string \<Rightarrow> bool" where
  "ref_text_ok s \<longleftrightarrow>
     full_ref_pattern s \<and> \<not> ends_with ''/'' s \<and> \<not> ends_with ''.'' s \<and>
     \<not> contains ''//'' s \<and> \<not> contains ''..'' s \<and> \<not> contains [CHR ''@'', CHR 0x7B] s \<and>
     list_all (\<lambda>p. \<not> starts_with ''.'' p \<and> \<not> ends_with ''.lock'' p) (split_on CHR ''/'' s)"

definition validate_full_ref :: "bool \<Rightarrow> string \<Rightarrow> string \<Rightarrow> json \<Rightarrow> string res" where
  "validate_full_ref integrity code field v =
     (case v of
        JStr s \<Rightarrow>
          if s = [] then Inl (refusal integrity code)
          else bindR (safe_text integrity 1024 field v) (\<lambda>text.
            if \<not> ref_text_ok text then Inl (refusal integrity code) else Inr text)
      | _ \<Rightarrow> Inl (refusal integrity code))"

definition hex_field :: "bool \<Rightarrow> string \<Rightarrow> nat \<Rightarrow> json \<Rightarrow> string res" where
  "hex_field integrity field n v =
     bindR (safe_text integrity 64 field v) (\<lambda>text.
       if \<not> hex_of_length n text then Inl (refusal integrity (field @ ''_invalid''))
       else Inr text)"

definition validate_witness :: "bool \<Rightarrow> json \<Rightarrow> witness res" where
  "validate_witness integrity v =
     (let bad = Inl (refusal integrity ''content_witness_invalid'') in
      case v of
        JObj obj \<Rightarrow>
          bindR (safe_text integrity 64 ''witness_kind'' (get_member obj ''kind'')) (\<lambda>kind.
            if kind \<notin> {''path_present'', ''path_absent'', ''blob_sha256'', ''file_contains_utf8''}
              then bad
            else
              let expected = [''kind'', ''path''] @
                (if kind = ''blob_sha256'' then [''sha256'']
                 else if kind = ''file_contains_utf8'' then [''needle''] else [])
              in if \<not> same_names obj expected then bad
              else bindR (safe_text integrity 4096 ''witness_path'' (get_member obj ''path'')) (\<lambda>path.
                if starts_with ''/'' path \<or> starts_with ''-'' path \<or>
                   list_ex (\<lambda>p. p \<in> {'''', ''.'', ''..''}) (split_on CHR ''/'' path)
                  then bad
                else if kind = ''blob_sha256'' then
                  bindR (hex_field integrity ''witness_sha256'' 64 (get_member obj ''sha256''))
                    (\<lambda>digest. Inr (BlobSha256 path digest))
                else if kind = ''file_contains_utf8'' then
                  bindR (safe_text integrity 4096 ''witness_needle'' (get_member obj ''needle''))
                    (\<lambda>needle. Inr (FileContains path needle))
                else if kind = ''path_present'' then Inr (PathPresent path)
                else Inr (PathAbsent path)))
      | _ \<Rightarrow> bad)"

definition positive_int :: "bool \<Rightarrow> string \<Rightarrow> json \<Rightarrow> int res" where
  "positive_int integrity code v =
     (case v of JInt n \<Rightarrow> if n \<le> 0 then Inl (refusal integrity code) else Inr n
      | _ \<Rightarrow> Inl (refusal integrity code))"

definition count_int :: "bool \<Rightarrow> string \<Rightarrow> json \<Rightarrow> int res" where
  "count_int integrity code v =
     (case v of JInt n \<Rightarrow> if n < 0 then Inl (refusal integrity code) else Inr n
      | _ \<Rightarrow> Inl (refusal integrity code))"

definition expect :: "bool \<Rightarrow> string \<Rightarrow> json \<Rightarrow> json \<Rightarrow> unit res" where
  "expect integrity code wanted v =
     (if v \<noteq> wanted then Inl (refusal integrity code) else Inr ())"

definition prefixed_text :: "bool \<Rightarrow> nat \<Rightarrow> string \<Rightarrow> string \<Rightarrow> string \<Rightarrow> json \<Rightarrow> string res" where
  "prefixed_text integrity maximum field code prefix v =
     bindR (safe_text integrity maximum field v) (\<lambda>text.
       if \<not> starts_with prefix text then Inl (refusal integrity code) else Inr text)"

section \<open>Rows\<close>

text \<open>\<open>KIND_ID_PREFIX\<close> and \<open>KIND_FIELDS\<close>.\<close>

definition kind_table :: "(string \<times> string \<times> string list) list" where
  "kind_table =
    [(''lock_acquired'', ''lock-acquired-'',
       [''lock_id'', ''holder'', ''expires_at'', ''escalation_holder'']),
     (''lock_escalated'', ''lock-escalated-'',
       [''lock_id'', ''prior_holder'', ''prior_expires_at'', ''requested_by'', ''holder'', ''expires_at'', ''escalation_holder'', ''announcement_id'', ''announcement_recipient'', ''announcement_status'', ''announcement_rearm_event'', ''copy_key'']),
     (''lock_announcement_stopped'', ''lock-announcement-stopped-'',
       [''lock_id'', ''announcement_id'', ''attempts'', ''stopped_at'', ''rearm_event'']),
     (''lock_announcement_rearmed'', ''lock-announcement-rearmed-'',
       [''lock_id'', ''announcement_id'', ''observed_event'']),
     (''lock_announcement_delivered'', ''lock-announcement-delivered-'',
       [''lock_id'', ''announcement_id'', ''receipt_id'', ''receipt_digest'']),
     (''car_submitted'', ''car-submitted-'',
       [''car_id'', ''ref'', ''ref_oid'', ''witness'']),
     (''car_measurement_recorded'', ''car-measurement-'',
       [''car_id'', ''measured_ref'', ''measured_tree'', ''test_count'', ''failure_count'', ''evidence_digest'']),
     (''car_reviewed'', ''car-reviewed-'',
       [''car_id'', ''verdict'', ''rank'', ''base_ref'', ''base_oid'', ''base_tree'', ''witness_holds'']),
     (''car_landed'', ''car-landed-'',
       [''car_id'', ''target_ref'', ''target_oid'', ''target_tree'', ''method'', ''witness_holds'']),
     (''car_dissolved'', ''car-dissolved-'',
       [''car_id'', ''product_ref'', ''product_oid'', ''product_tree'', ''witness_holds'']),
     (''seat_provisioned'', ''seat-provisioned-'',
       [''seat_id'', ''hook_names'', ''manifest_digest'']),
     (''review_handoff_queued'', ''review-handoff-queued-'',
       [''handoff_id'', ''recipient'', ''car_id'', ''ref'', ''base_ref'', ''witness'', ''rearm_event'', ''status'', ''copy_key'']),
     (''review_handoff_stopped'', ''review-handoff-stopped-'',
       [''handoff_id'', ''recipient'', ''car_id'', ''ref'', ''base_ref'', ''witness'', ''rearm_event'', ''status'', ''copy_key'', ''attempts'', ''stopped_at'']),
     (''review_handoff_rearmed'', ''review-handoff-rearmed-'',
       [''handoff_id'', ''recipient'', ''car_id'', ''ref'', ''base_ref'', ''witness'', ''rearm_event'', ''status'', ''copy_key'', ''observed_event'']),
     (''review_handoff_delivered'', ''review-handoff-delivered-'',
       [''handoff_id'', ''recipient'', ''car_id'', ''ref'', ''base_ref'', ''witness'', ''rearm_event'', ''status'', ''receipt_id'', ''receipt_digest''])]"

definition COMMON_FIELDS :: "string list" where
  "COMMON_FIELDS = [''schema_version'', ''id'', ''tenant_id'', ''timestamp'', ''kind'']"

definition validate_acquired :: "bool \<Rightarrow> string \<Rightarrow> members \<Rightarrow> lock_body res" where
  "validate_acquired integrity stamp row =
     bindR (identifier_field integrity ''lock_id'' (get_member row ''lock_id'')) (\<lambda>lock.
     bindR (identifier_field integrity ''holder'' (get_member row ''holder'')) (\<lambda>holder.
     bindR (identifier_field integrity ''escalation_holder'' (get_member row ''escalation_holder'')) (\<lambda>esc.
     bindR (validate_timestamp integrity ''expires_at'' (get_member row ''expires_at'')) (\<lambda>expires.
       if timestamp_value expires \<le> timestamp_value stamp
         then Inl (refusal integrity ''lock_expiry_invalid'')
       else Inr (Acquired \<lparr>la_lock = lock, la_holder = holder, la_expires = expires,
                           la_escalation = esc\<rparr>)))))"

definition validate_escalated :: "bool \<Rightarrow> string \<Rightarrow> members \<Rightarrow> lock_body res" where
  "validate_escalated integrity stamp row =
     bindR (identifier_field integrity ''lock_id'' (get_member row ''lock_id'')) (\<lambda>lock.
     bindR (identifier_field integrity ''prior_holder'' (get_member row ''prior_holder'')) (\<lambda>prior.
     bindR (identifier_field integrity ''requested_by'' (get_member row ''requested_by'')) (\<lambda>requested.
     bindR (identifier_field integrity ''holder'' (get_member row ''holder'')) (\<lambda>holder.
     bindR (identifier_field integrity ''escalation_holder'' (get_member row ''escalation_holder'')) (\<lambda>esc.
     bindR (identifier_field integrity ''announcement_recipient''
              (get_member row ''announcement_recipient'')) (\<lambda>recipient.
     bindR (identifier_field integrity ''announcement_rearm_event''
              (get_member row ''announcement_rearm_event'')) (\<lambda>rearm.
     bindR (validate_timestamp integrity ''prior_expires_at'' (get_member row ''prior_expires_at'')) (\<lambda>prior_expires.
     bindR (validate_timestamp integrity ''expires_at'' (get_member row ''expires_at'')) (\<lambda>expires.
       if timestamp_value expires \<le> timestamp_value stamp
         then Inl (refusal integrity ''lock_expiry_invalid'')
       else
     bindR (safe_text integrity 96 ''announcement_id'' (get_member row ''announcement_id'')) (\<lambda>announcement.
       if \<not> starts_with ''lock-announcement-'' announcement \<or> length announcement \<noteq> 18 + 32
         then Inl (refusal integrity ''announcement_id_invalid'')
       else
     bindR (hex_field integrity ''announcement_uuid'' 32 (JStr (drop 18 announcement))) (\<lambda>_.
     bindR (expect integrity ''announcement_status_invalid'' (JStr ''pending'')
              (get_member row ''announcement_status'')) (\<lambda>_.
     bindR (expect integrity ''copy_key_invalid'' (JStr ''[[locks.escalation.action_taken_not_role]]'')
              (get_member row ''copy_key'')) (\<lambda>_.
       Inr (Escalated \<lparr>le_lock = lock, le_prior_holder = prior, le_prior_expires = prior_expires,
              le_requested_by = requested, le_holder = holder, le_expires = expires,
              le_escalation = esc, le_announcement = announcement, le_recipient = recipient,
              le_rearm_event = rearm\<rparr>))))))))))))))"

definition validate_announcement_stopped :: "bool \<Rightarrow> members \<Rightarrow> lock_body res" where
  "validate_announcement_stopped integrity row =
     bindR (identifier_field integrity ''lock_id'' (get_member row ''lock_id'')) (\<lambda>lock.
     bindR (safe_text integrity 96 ''announcement_id'' (get_member row ''announcement_id'')) (\<lambda>announcement.
     bindR (positive_int integrity ''announcement_attempts_invalid'' (get_member row ''attempts'')) (\<lambda>attempts.
     bindR (validate_timestamp integrity ''stopped_at'' (get_member row ''stopped_at'')) (\<lambda>stopped.
     bindR (identifier_field integrity ''rearm_event'' (get_member row ''rearm_event'')) (\<lambda>rearm.
       Inr (AnnouncementStopped lock announcement attempts stopped rearm))))))"

definition validate_announcement_rearmed :: "bool \<Rightarrow> members \<Rightarrow> lock_body res" where
  "validate_announcement_rearmed integrity row =
     bindR (identifier_field integrity ''lock_id'' (get_member row ''lock_id'')) (\<lambda>lock.
     bindR (safe_text integrity 96 ''announcement_id'' (get_member row ''announcement_id'')) (\<lambda>announcement.
     bindR (identifier_field integrity ''observed_event'' (get_member row ''observed_event'')) (\<lambda>event.
       Inr (AnnouncementRearmed lock announcement event))))"

definition validate_announcement_delivered :: "bool \<Rightarrow> members \<Rightarrow> lock_body res" where
  "validate_announcement_delivered integrity row =
     bindR (identifier_field integrity ''lock_id'' (get_member row ''lock_id'')) (\<lambda>lock.
     bindR (safe_text integrity 96 ''announcement_id'' (get_member row ''announcement_id'')) (\<lambda>announcement.
     bindR (prefixed_text integrity 128 ''receipt_id'' ''delivery_receipt_required'' ''delivery-''
              (get_member row ''receipt_id'')) (\<lambda>receipt.
     bindR (hex_field integrity ''receipt_digest'' 64 (get_member row ''receipt_digest'')) (\<lambda>digest.
       Inr (AnnouncementDelivered lock announcement receipt digest)))))"

definition validate_car_submitted :: "bool \<Rightarrow> members \<Rightarrow> lock_body res" where
  "validate_car_submitted integrity row =
     bindR (identifier_field integrity ''car_id'' (get_member row ''car_id'')) (\<lambda>car.
     bindR (validate_full_ref integrity ''car_ref_required'' ''ref'' (get_member row ''ref'')) (\<lambda>ref.
     bindR (hex_field integrity ''ref_oid'' 40 (get_member row ''ref_oid'')) (\<lambda>oid.
     bindR (validate_witness integrity (get_member row ''witness'')) (\<lambda>w.
       Inr (CarSubmitted car ref oid w)))))"

definition validate_measurement :: "bool \<Rightarrow> members \<Rightarrow> lock_body res" where
  "validate_measurement integrity row =
     bindR (identifier_field integrity ''car_id'' (get_member row ''car_id'')) (\<lambda>car.
     bindR (validate_full_ref integrity ''measurement_ref_required'' ''measured_ref''
              (get_member row ''measured_ref'')) (\<lambda>ref.
     bindR (hex_field integrity ''measured_tree'' 40 (get_member row ''measured_tree'')) (\<lambda>tree.
     bindR (count_int integrity ''test_count_invalid'' (get_member row ''test_count'')) (\<lambda>tests.
     bindR (count_int integrity ''failure_count_invalid'' (get_member row ''failure_count'')) (\<lambda>failures.
       if failures > tests then Inl (refusal integrity ''failure_count_invalid'')
       else
     bindR (hex_field integrity ''evidence_digest'' 64 (get_member row ''evidence_digest'')) (\<lambda>digest.
       Inr (CarMeasured car \<lparr>me_ref = ref, me_tree = tree, me_tests = tests,
              me_failures = failures, me_digest = digest\<rparr>)))))))"

definition verdict_field :: "bool \<Rightarrow> json \<Rightarrow> verdict res" where
  "verdict_field integrity v =
     (if \<not> hashable v then Inl (Uncaught ''TypeError'')
      else if v = JStr ''approved'' then Inr Approved
      else if v = JStr ''blocked'' then Inr VerdictBlocked
      else Inl (refusal integrity ''review_verdict_invalid''))"

definition rank_field :: "bool \<Rightarrow> json \<Rightarrow> int res" where
  "rank_field integrity v =
     (case v of JInt n \<Rightarrow> if \<not> (0 \<le> n \<and> n \<le> 100) then Inl (refusal integrity ''review_rank_invalid'') else Inr n
      | _ \<Rightarrow> Inl (refusal integrity ''review_rank_invalid''))"

definition bool_field :: "bool \<Rightarrow> string \<Rightarrow> json \<Rightarrow> bool res" where
  "bool_field integrity code v = (case v of JBool b \<Rightarrow> Inr b | _ \<Rightarrow> Inl (refusal integrity code))"

definition validate_car_reviewed :: "bool \<Rightarrow> members \<Rightarrow> lock_body res" where
  "validate_car_reviewed integrity row =
     bindR (identifier_field integrity ''car_id'' (get_member row ''car_id'')) (\<lambda>car.
     bindR (verdict_field integrity (get_member row ''verdict'')) (\<lambda>verd.
     bindR (rank_field integrity (get_member row ''rank'')) (\<lambda>rank.
     bindR (validate_full_ref integrity ''car_ref_required'' ''base_ref'' (get_member row ''base_ref'')) (\<lambda>ref.
     bindR (hex_field integrity ''base_oid'' 40 (get_member row ''base_oid'')) (\<lambda>oid.
     bindR (hex_field integrity ''base_tree'' 40 (get_member row ''base_tree'')) (\<lambda>tree.
     bindR (bool_field integrity ''witness_result_invalid'' (get_member row ''witness_holds'')) (\<lambda>holds.
       Inr (CarReviewed car \<lparr>rv_verdict = verd, rv_rank = rank, rv_base_ref = ref,
              rv_base_oid = oid, rv_base_tree = tree, rv_witness_holds = holds\<rparr>))))))))"

definition method_field :: "bool \<Rightarrow> json \<Rightarrow> landing_method res" where
  "method_field integrity v =
     (if \<not> hashable v then Inl (Uncaught ''TypeError'')
      else if v = JStr ''cherry_pick'' then Inr CherryPick
      else if v = JStr ''rebase'' then Inr Rebase
      else Inl (refusal integrity ''landing_method_invalid''))"

definition validate_car_landed :: "bool \<Rightarrow> members \<Rightarrow> lock_body res" where
  "validate_car_landed integrity row =
     bindR (identifier_field integrity ''car_id'' (get_member row ''car_id'')) (\<lambda>car.
     bindR (validate_full_ref integrity ''car_ref_required'' ''target_ref'' (get_member row ''target_ref'')) (\<lambda>ref.
     bindR (hex_field integrity ''target_oid'' 40 (get_member row ''target_oid'')) (\<lambda>oid.
     bindR (hex_field integrity ''target_tree'' 40 (get_member row ''target_tree'')) (\<lambda>tree.
     bindR (method_field integrity (get_member row ''method'')) (\<lambda>method.
     bindR (expect integrity ''witness_result_invalid'' (JBool True) (get_member row ''witness_holds'')) (\<lambda>_.
       Inr (CarLanded car ref oid tree method)))))))"

definition validate_car_dissolved :: "bool \<Rightarrow> members \<Rightarrow> lock_body res" where
  "validate_car_dissolved integrity row =
     bindR (identifier_field integrity ''car_id'' (get_member row ''car_id'')) (\<lambda>car.
     bindR (validate_full_ref integrity ''car_ref_required'' ''product_ref'' (get_member row ''product_ref'')) (\<lambda>ref.
     bindR (hex_field integrity ''product_oid'' 40 (get_member row ''product_oid'')) (\<lambda>oid.
     bindR (hex_field integrity ''product_tree'' 40 (get_member row ''product_tree'')) (\<lambda>tree.
     bindR (expect integrity ''witness_result_invalid'' (JBool True) (get_member row ''witness_holds'')) (\<lambda>_.
       Inr (CarDissolved car ref oid tree))))))"

fun hook_list :: "bool \<Rightarrow> json list \<Rightarrow> string list res" where
  "hook_list integrity [] = Inr []"
| "hook_list integrity (v # vs) =
     bindR (identifier_field integrity ''hook_name'' v) (\<lambda>name.
     bindR (hook_list integrity vs) (\<lambda>names. Inr (name # names)))"

definition validate_seat :: "bool \<Rightarrow> members \<Rightarrow> lock_body res" where
  "validate_seat integrity row =
     bindR (identifier_field integrity ''seat_id'' (get_member row ''seat_id'')) (\<lambda>seat.
       case get_member row ''hook_names'' of
         JArr hooks \<Rightarrow>
           if hooks = [] \<or> length hooks > 64
             then Inl (refusal integrity ''provisioning_hooks_invalid'')
           else
             bindR (hook_list integrity hooks) (\<lambda>names.
               if \<not> distinct names then Inl (refusal integrity ''provisioning_hooks_invalid'')
               else bindR (hex_field integrity ''manifest_digest'' 64 (get_member row ''manifest_digest''))
                      (\<lambda>digest. Inr (SeatProvisioned seat names digest)))
       | _ \<Rightarrow> Inl (refusal integrity ''provisioning_hooks_invalid''))"

definition validate_handoff_binding :: "bool \<Rightarrow> members \<Rightarrow> handoff_binding res" where
  "validate_handoff_binding integrity row =
     bindR (identifier_field integrity ''handoff_id'' (get_member row ''handoff_id'')) (\<lambda>handoff.
     bindR (identifier_field integrity ''recipient'' (get_member row ''recipient'')) (\<lambda>recipient.
     bindR (identifier_field integrity ''car_id'' (get_member row ''car_id'')) (\<lambda>car.
     bindR (identifier_field integrity ''rearm_event'' (get_member row ''rearm_event'')) (\<lambda>rearm.
     bindR (validate_full_ref integrity ''car_ref_required'' ''ref'' (get_member row ''ref'')) (\<lambda>ref.
     bindR (validate_full_ref integrity ''car_ref_required'' ''base_ref'' (get_member row ''base_ref'')) (\<lambda>base_ref.
     bindR (validate_witness integrity (get_member row ''witness'')) (\<lambda>w.
       Inr \<lparr>hb_id = handoff, hb_recipient = recipient, hb_car = car, hb_ref = ref,
            hb_base_ref = base_ref, hb_witness = w, hb_rearm_event = rearm\<rparr>)))))))"

definition handoff_status :: "bool \<Rightarrow> string \<Rightarrow> members \<Rightarrow> unit res" where
  "handoff_status integrity status row =
     expect integrity ''handoff_status_invalid'' (JStr status) (get_member row ''status'')"

definition handoff_copy_key :: "bool \<Rightarrow> string \<Rightarrow> members \<Rightarrow> unit res" where
  "handoff_copy_key integrity key row =
     expect integrity ''copy_key_invalid'' (JStr key) (get_member row ''copy_key'')"

definition validate_handoff :: "bool \<Rightarrow> string \<Rightarrow> members \<Rightarrow> lock_body res" where
  "validate_handoff integrity kind row =
     bindR (validate_handoff_binding integrity row) (\<lambda>b.
       if kind = ''review_handoff_queued'' then
         bindR (handoff_status integrity ''pending'' row) (\<lambda>_.
         bindR (handoff_copy_key integrity ''[[locks.handoff.pending]]'' row) (\<lambda>_.
           Inr (HandoffQueued b)))
       else if kind = ''review_handoff_stopped'' then
         bindR (handoff_status integrity ''stopped'' row) (\<lambda>_.
         bindR (handoff_copy_key integrity ''[[locks.handoff.stopped]]'' row) (\<lambda>_.
         bindR (positive_int integrity ''handoff_attempts_invalid'' (get_member row ''attempts'')) (\<lambda>attempts.
         bindR (validate_timestamp integrity ''stopped_at'' (get_member row ''stopped_at'')) (\<lambda>stopped.
           Inr (HandoffStopped b attempts stopped)))))
       else if kind = ''review_handoff_rearmed'' then
         bindR (handoff_status integrity ''pending'' row) (\<lambda>_.
         bindR (handoff_copy_key integrity ''[[locks.handoff.pending]]'' row) (\<lambda>_.
         bindR (identifier_field integrity ''observed_event'' (get_member row ''observed_event'')) (\<lambda>event.
           Inr (HandoffRearmed b event))))
       else
         bindR (handoff_status integrity ''delivered'' row) (\<lambda>_.
         bindR (prefixed_text integrity 128 ''receipt_id'' ''delivery_receipt_required'' ''delivery-''
                  (get_member row ''receipt_id'')) (\<lambda>receipt.
         bindR (hex_field integrity ''receipt_digest'' 64 (get_member row ''receipt_digest'')) (\<lambda>digest.
           Inr (HandoffDelivered b receipt digest)))))"

definition validate_body :: "bool \<Rightarrow> string \<Rightarrow> string \<Rightarrow> members \<Rightarrow> lock_body res" where
  "validate_body integrity kind stamp row =
     (if kind = ''lock_acquired'' then validate_acquired integrity stamp row
      else if kind = ''lock_escalated'' then validate_escalated integrity stamp row
      else if kind = ''lock_announcement_stopped'' then validate_announcement_stopped integrity row
      else if kind = ''lock_announcement_rearmed'' then validate_announcement_rearmed integrity row
      else if kind = ''lock_announcement_delivered'' then validate_announcement_delivered integrity row
      else if kind = ''car_submitted'' then validate_car_submitted integrity row
      else if kind = ''car_measurement_recorded'' then validate_measurement integrity row
      else if kind = ''car_reviewed'' then validate_car_reviewed integrity row
      else if kind = ''car_landed'' then validate_car_landed integrity row
      else if kind = ''car_dissolved'' then validate_car_dissolved integrity row
      else if kind = ''seat_provisioned'' then validate_seat integrity row
      else validate_handoff integrity kind row)"

definition validate_lock_record :: "string \<Rightarrow> bool \<Rightarrow> json \<Rightarrow> lock_row res" where
  "validate_lock_record tenant integrity raw =
     (case raw of
        JObj row \<Rightarrow>
          if get_member row ''schema_version'' \<noteq> JInt 0
            then Inl (refusal integrity ''schema_version_invalid'')
          else if get_member row ''tenant_id'' \<noteq> JStr tenant
            then Inl (refusal integrity ''tenant_mismatch'')
          else bindR (safe_text integrity 64 ''kind'' (get_member row ''kind'')) (\<lambda>kind.
            case map_of kind_table kind of
              None \<Rightarrow> Inl (refusal integrity ''lock_kind_invalid'')
            | Some (prefix, names) \<Rightarrow>
                if \<not> same_names row (COMMON_FIELDS @ names)
                  then Inl (refusal integrity ''lock_record_fields_invalid'')
                else bindR (safe_text integrity 96 ''id'' (get_member row ''id'')) (\<lambda>record_id.
                  if \<not> starts_with prefix record_id \<or> length record_id \<noteq> length prefix + 32
                    then Inl (refusal integrity ''record_id_invalid'')
                  else bindR (hex_field integrity ''record_uuid'' 32 (JStr (drop (length prefix) record_id))) (\<lambda>_.
                  bindR (validate_timestamp integrity ''timestamp'' (get_member row ''timestamp'')) (\<lambda>stamp.
                  bindR (validate_body integrity kind stamp row) (\<lambda>body.
                    Inr \<lparr>lr_id = record_id, lr_timestamp = stamp, lr_body = body\<rparr>)))))
      | _ \<Rightarrow> Inl (refusal integrity ''lock_record_invalid''))"

section \<open>Both readings of a row agree\<close>

lemma same_success_json [same_ok]:
  "same_success m0 n0 \<Longrightarrow> (\<And>x. same_success (m1 x) (n1 x)) \<Longrightarrow> (\<And>x. same_success (m2 x) (n2 x)) \<Longrightarrow>
   (\<And>x. same_success (m3 x) (n3 x)) \<Longrightarrow> (\<And>x. same_success (m4 x) (n4 x)) \<Longrightarrow>
   (\<And>x. same_success (m5 x) (n5 x)) \<Longrightarrow> (\<And>x. same_success (m6 x) (n6 x)) \<Longrightarrow>
   same_success
     (case v of JNull \<Rightarrow> m0 | JBool x \<Rightarrow> m1 x | JInt x \<Rightarrow> m2 x | JFloat x \<Rightarrow> m3 x | JStr x \<Rightarrow> m4 x
        | JArr x \<Rightarrow> m5 x | JObj x \<Rightarrow> m6 x)
     (case v of JNull \<Rightarrow> n0 | JBool x \<Rightarrow> n1 x | JInt x \<Rightarrow> n2 x | JFloat x \<Rightarrow> n3 x | JStr x \<Rightarrow> n4 x
        | JArr x \<Rightarrow> n5 x | JObj x \<Rightarrow> n6 x)"
  by (cases v) simp_all

lemma field_validators_agree [same_ok]:
  "same_success (safe_text i n field v) (safe_text j n field v)"
  "same_success (identifier_field i field v) (identifier_field j field v)"
  "same_success (positive_int i code v) (positive_int j code v)"
  "same_success (count_int i code v) (count_int j code v)"
  "same_success (expect i code w v) (expect j code w v)"
  "same_success (bool_field i code v) (bool_field j code v)"
  "same_success (rank_field i v) (rank_field j v)"
  "same_success (verdict_field i v) (verdict_field j v)"
  "same_success (method_field i v) (method_field j v)"
  unfolding safe_text_def identifier_field_def positive_int_def count_int_def expect_def
    bool_field_def rank_field_def verdict_field_def method_field_def
  by (intro same_ok)+

lemma text_validators_agree [same_ok]:
  "same_success (validate_timestamp i field v) (validate_timestamp j field v)"
  "same_success (hex_field i field n v) (hex_field j field n v)"
  "same_success (prefixed_text i n field code p v) (prefixed_text j n field code p v)"
  "same_success (validate_full_ref i code field v) (validate_full_ref j code field v)"
  unfolding validate_timestamp_def hex_field_def prefixed_text_def validate_full_ref_def
  by (intro same_ok)+

lemma witness_agrees [same_ok]: "same_success (validate_witness i v) (validate_witness j v)"
  unfolding validate_witness_def Let_def by (intro same_ok)

lemma hook_list_agrees [same_ok]: "same_success (hook_list i vs) (hook_list j vs)"
  by (induction vs) (simp_all, (intro same_ok | assumption)+)

lemma handoff_fields_agree [same_ok]:
  "same_success (validate_handoff_binding i row) (validate_handoff_binding j row)"
  "same_success (handoff_status i s row) (handoff_status j s row)"
  "same_success (handoff_copy_key i s row) (handoff_copy_key j s row)"
  unfolding validate_handoff_binding_def handoff_status_def handoff_copy_key_def
  by (intro same_ok)+

lemma bodies_agree [same_ok]:
  "same_success (validate_body i kind stamp row) (validate_body j kind stamp row)"
  unfolding validate_body_def validate_acquired_def validate_escalated_def
    validate_announcement_stopped_def validate_announcement_rearmed_def
    validate_announcement_delivered_def validate_car_submitted_def validate_measurement_def
    validate_car_reviewed_def validate_car_landed_def validate_car_dissolved_def
    validate_seat_def validate_handoff_def
  by (intro same_ok)

lemma lock_record_agrees:
  "same_success (validate_lock_record tenant i raw) (validate_lock_record tenant j raw)"
  unfolding validate_lock_record_def by (intro same_ok)

lemma lock_record_coherent:
  "validate_lock_record tenant False raw = Inr row \<Longrightarrow> validate_lock_record tenant True raw = Inr row"
  by (rule same_successD [OF lock_record_agrees])

lemmas [evaluate] =
  safe_text_def identifier_field_def validate_timestamp_def ref_char_def full_ref_pattern_def
  ref_text_ok_def validate_full_ref_def hex_field_def validate_witness_def positive_int_def
  count_int_def expect_def prefixed_text_def kind_table_def COMMON_FIELDS_def
  validate_acquired_def validate_escalated_def validate_announcement_stopped_def
  validate_announcement_rearmed_def validate_announcement_delivered_def
  validate_car_submitted_def validate_measurement_def verdict_field_def rank_field_def
  bool_field_def validate_car_reviewed_def method_field_def validate_car_landed_def
  validate_car_dissolved_def validate_seat_def validate_handoff_binding_def handoff_status_def
  handoff_copy_key_def validate_handoff_def validate_body_def validate_lock_record_def

end
