(* ===== verification/Lock_Projection.thy ===== *)
theory Lock_Projection
  imports Lock_Contracts
begin

text \<open>
  The physical-order replay of the private Locks ledger (\<open>floati/locks/projection.py\<close>):
  locks with their escalation announcements, cars of the patch queue, provisioned seats and
  review handoffs.  The dictionaries are association lists in insertion order.
\<close>

datatype delivery_status = Pending | Stopped | Delivered

record announcement_view =
  av_id :: string
  av_recipient :: string
  av_status :: delivery_status
  av_rearm_event :: string
  av_copy_key :: string
  av_attempts :: int
  av_stopped_at :: "string option"
  av_receipt :: "(string \<times> string) option"

record lock_view =
  lv_id :: string
  lv_holder :: string
  lv_expires :: string
  lv_escalation :: string
  lv_announcement :: "announcement_view option"

datatype car_state = Queued | Landed | Dissolved

record car_view =
  cv_id :: string
  cv_ref :: string
  cv_ref_oid :: string
  cv_witness :: witness
  cv_measurement :: "measurement option"
  cv_review :: "review option"
  cv_position :: nat
  cv_state :: car_state
  cv_product_ref :: "string option"

record seat_view =
  sv_id :: string
  sv_hooks :: "string list"
  sv_digest :: string

record handoff_view =
  hv_binding :: handoff_binding
  hv_status :: delivery_status
  hv_attempts :: int
  hv_stopped_at :: "string option"
  hv_receipt :: "(string \<times> string) option"

record lock_state =
  ls_seen :: "string list"
  ls_locks :: "(string \<times> lock_view) list"
  ls_cars :: "(string \<times> car_view) list"
  ls_announcements :: "(string \<times> announcement_view) list"
  ls_seats :: "(string \<times> seat_view) list"
  ls_handoffs :: "(string \<times> handoff_view) list"
  ls_records :: "lock_row list"

definition empty_locks :: lock_state where
  "empty_locks = \<lparr>ls_seen = [], ls_locks = [], ls_cars = [], ls_announcements = [], ls_seats = [],
     ls_handoffs = [], ls_records = []\<rparr>"

definition escalation_copy_key :: string where
  "escalation_copy_key = ''[[locks.escalation.action_taken_not_role]]''"

definition apply_acquired :: "bool \<Rightarrow> lock_acquired \<Rightarrow> lock_state \<Rightarrow> lock_state res" where
  "apply_acquired integrity r s =
     (if map_of (ls_locks s) (la_lock r) \<noteq> None
        then Inl (refusal integrity ''lock_already_active'')
      else Inr (s\<lparr>ls_locks := AList.update (la_lock r)
             \<lparr>lv_id = la_lock r, lv_holder = la_holder r, lv_expires = la_expires r,
              lv_escalation = la_escalation r, lv_announcement = None\<rparr> (ls_locks s)\<rparr>))"

definition apply_escalated :: "bool \<Rightarrow> string \<Rightarrow> lock_escalated \<Rightarrow> lock_state \<Rightarrow> lock_state res" where
  "apply_escalated integrity stamp r s =
     (case map_of (ls_locks s) (le_lock r) of
        None \<Rightarrow> Inl (refusal integrity ''lock_missing'')
      | Some current \<Rightarrow>
          if le_prior_holder r \<noteq> lv_holder current \<or> le_prior_expires r \<noteq> lv_expires current \<or>
             le_requested_by r \<noteq> lv_escalation current \<or> le_holder r \<noteq> le_requested_by r
            then Inl (refusal integrity ''lock_escalation_binding_invalid'')
          else if timestamp_value stamp < timestamp_value (lv_expires current)
            then Inl (refusal integrity ''lock_not_expired'')
          else
            let a = \<lparr>av_id = le_announcement r, av_recipient = le_recipient r, av_status = Pending,
                     av_rearm_event = le_rearm_event r, av_copy_key = escalation_copy_key,
                     av_attempts = 0, av_stopped_at = None, av_receipt = None\<rparr>
            in if map_of (ls_announcements s) (av_id a) \<noteq> None
                 then Inl (refusal integrity ''announcement_already_exists'')
               else Inr (s\<lparr>ls_announcements := AList.update (av_id a) a (ls_announcements s),
                      ls_locks := AList.update (le_lock r)
                        \<lparr>lv_id = le_lock r, lv_holder = le_holder r, lv_expires = le_expires r,
                         lv_escalation = le_escalation r, lv_announcement = Some a\<rparr> (ls_locks s)\<rparr>))"

definition current_announcement :: "lock_state \<Rightarrow> string \<Rightarrow> announcement_view option" where
  "current_announcement s lock =
     (case map_of (ls_locks s) lock of None \<Rightarrow> None | Some current \<Rightarrow> lv_announcement current)"

definition put_announcement :: "string \<Rightarrow> announcement_view \<Rightarrow> lock_state \<Rightarrow> lock_state" where
  "put_announcement lock a s =
     s\<lparr>ls_announcements := AList.update (av_id a) a (ls_announcements s),
       ls_locks := (case map_of (ls_locks s) lock of None \<Rightarrow> ls_locks s
         | Some current \<Rightarrow> AList.update lock (current\<lparr>lv_announcement := Some a\<rparr>) (ls_locks s))\<rparr>"

definition apply_announcement_stopped ::
    "bool \<Rightarrow> string \<Rightarrow> string \<Rightarrow> int \<Rightarrow> string \<Rightarrow> string \<Rightarrow> lock_state \<Rightarrow> lock_state res" where
  "apply_announcement_stopped integrity lock ann attempts stopped rearm s =
     (case current_announcement s lock of
        None \<Rightarrow> Inl (refusal integrity ''announcement_transition_invalid'')
      | Some a \<Rightarrow>
          if av_id a \<noteq> ann \<or> av_status a \<noteq> Pending \<or> av_rearm_event a \<noteq> rearm
            then Inl (refusal integrity ''announcement_transition_invalid'')
          else Inr (put_announcement lock
                 (a\<lparr>av_status := Stopped, av_attempts := attempts, av_stopped_at := Some stopped\<rparr>) s))"

definition apply_announcement_rearmed ::
    "bool \<Rightarrow> string \<Rightarrow> string \<Rightarrow> string \<Rightarrow> lock_state \<Rightarrow> lock_state res" where
  "apply_announcement_rearmed integrity lock ann event s =
     (case current_announcement s lock of
        None \<Rightarrow> Inl (refusal integrity ''announcement_transition_invalid'')
      | Some a \<Rightarrow>
          if av_id a \<noteq> ann \<or> av_status a \<noteq> Stopped
            then Inl (refusal integrity ''announcement_transition_invalid'')
          else if av_rearm_event a \<noteq> event
            then Inl (refusal integrity ''announcement_rearm_event_mismatch'')
          else Inr (put_announcement lock (a\<lparr>av_status := Pending\<rparr>) s))"

definition apply_announcement_delivered ::
    "bool \<Rightarrow> string \<Rightarrow> string \<Rightarrow> string \<Rightarrow> string \<Rightarrow> lock_state \<Rightarrow> lock_state res" where
  "apply_announcement_delivered integrity lock ann receipt digest s =
     (case current_announcement s lock of
        None \<Rightarrow> Inl (refusal integrity ''announcement_transition_invalid'')
      | Some a \<Rightarrow>
          if av_id a \<noteq> ann \<or> av_status a \<noteq> Pending
            then Inl (refusal integrity ''announcement_transition_invalid'')
          else Inr (put_announcement lock
                 (a\<lparr>av_status := Delivered, av_receipt := Some (receipt, digest)\<rparr>) s))"

definition apply_car_submitted ::
    "bool \<Rightarrow> string \<Rightarrow> string \<Rightarrow> string \<Rightarrow> witness \<Rightarrow> lock_state \<Rightarrow> lock_state res" where
  "apply_car_submitted integrity car ref oid w s =
     (if map_of (ls_cars s) car \<noteq> None then Inl (refusal integrity ''car_already_submitted'')
      else Inr (s\<lparr>ls_cars := AList.update car
             \<lparr>cv_id = car, cv_ref = ref, cv_ref_oid = oid, cv_witness = w, cv_measurement = None,
              cv_review = None, cv_position = length (ls_cars s), cv_state = Queued,
              cv_product_ref = None\<rparr> (ls_cars s)\<rparr>))"

text \<open>The four rows that change one existing car; \<open>f\<close> is the \<open>replace\<close> of the branch.\<close>

definition change_car ::
    "bool \<Rightarrow> string \<Rightarrow> (car_view \<Rightarrow> car_view res) \<Rightarrow> lock_state \<Rightarrow> lock_state res" where
  "change_car integrity car f s =
     (case map_of (ls_cars s) car of
        None \<Rightarrow> Inl (refusal integrity ''car_missing'')
      | Some c \<Rightarrow> bindR (f c) (\<lambda>c'. Inr (s\<lparr>ls_cars := AList.update car c' (ls_cars s)\<rparr>)))"

definition land_car :: "bool \<Rightarrow> string \<Rightarrow> car_view \<Rightarrow> car_view res" where
  "land_car integrity target c =
     (if cv_state c = Dissolved then Inl (refusal integrity ''car_transition_invalid'')
      else Inr (c\<lparr>cv_state := Landed, cv_product_ref := Some target\<rparr>))"

definition apply_seat :: "bool \<Rightarrow> string \<Rightarrow> string list \<Rightarrow> string \<Rightarrow> lock_state \<Rightarrow> lock_state res" where
  "apply_seat integrity seat hooks digest s =
     (if map_of (ls_seats s) seat \<noteq> None then Inl (refusal integrity ''seat_already_provisioned'')
      else Inr (s\<lparr>ls_seats := AList.update seat \<lparr>sv_id = seat, sv_hooks = hooks, sv_digest = digest\<rparr>
             (ls_seats s)\<rparr>))"

definition apply_handoff_queued :: "bool \<Rightarrow> handoff_binding \<Rightarrow> lock_state \<Rightarrow> lock_state res" where
  "apply_handoff_queued integrity b s =
     (if map_of (ls_handoffs s) (hb_id b) \<noteq> None
        then Inl (refusal integrity ''handoff_already_queued'')
      else Inr (s\<lparr>ls_handoffs := AList.update (hb_id b)
             \<lparr>hv_binding = b, hv_status = Pending, hv_attempts = 0, hv_stopped_at = None,
              hv_receipt = None\<rparr> (ls_handoffs s)\<rparr>))"

definition change_handoff ::
    "bool \<Rightarrow> handoff_binding \<Rightarrow> (handoff_view \<Rightarrow> handoff_view res) \<Rightarrow> lock_state \<Rightarrow> lock_state res" where
  "change_handoff integrity b f s =
     (case map_of (ls_handoffs s) (hb_id b) of
        None \<Rightarrow> Inl (refusal integrity ''handoff_missing'')
      | Some h \<Rightarrow>
          if hv_binding h \<noteq> b then Inl (refusal integrity ''handoff_binding_invalid'')
          else bindR (f h) (\<lambda>h'. Inr (s\<lparr>ls_handoffs := AList.update (hb_id b) h' (ls_handoffs s)\<rparr>)))"

definition stop_handoff :: "bool \<Rightarrow> int \<Rightarrow> string \<Rightarrow> handoff_view \<Rightarrow> handoff_view res" where
  "stop_handoff integrity attempts stopped h =
     (if hv_status h \<noteq> Pending then Inl (refusal integrity ''handoff_transition_invalid'')
      else Inr (h\<lparr>hv_status := Stopped, hv_attempts := attempts, hv_stopped_at := Some stopped\<rparr>))"

definition rearm_handoff :: "bool \<Rightarrow> string \<Rightarrow> handoff_view \<Rightarrow> handoff_view res" where
  "rearm_handoff integrity event h =
     (if hv_status h \<noteq> Stopped then Inl (refusal integrity ''handoff_transition_invalid'')
      else if event \<noteq> hb_rearm_event (hv_binding h)
        then Inl (refusal integrity ''handoff_rearm_event_mismatch'')
      else Inr (h\<lparr>hv_status := Pending\<rparr>))"

definition deliver_handoff :: "bool \<Rightarrow> string \<Rightarrow> string \<Rightarrow> handoff_view \<Rightarrow> handoff_view res" where
  "deliver_handoff integrity receipt digest h =
     (if hv_status h \<noteq> Pending then Inl (refusal integrity ''handoff_transition_invalid'')
      else Inr (h\<lparr>hv_status := Delivered, hv_receipt := Some (receipt, digest)\<rparr>))"

fun apply_body :: "bool \<Rightarrow> string \<Rightarrow> lock_body \<Rightarrow> lock_state \<Rightarrow> lock_state res" where
  "apply_body i stamp (Acquired r) s = apply_acquired i r s"
| "apply_body i stamp (Escalated r) s = apply_escalated i stamp r s"
| "apply_body i stamp (AnnouncementStopped lock ann attempts stopped rearm) s =
     apply_announcement_stopped i lock ann attempts stopped rearm s"
| "apply_body i stamp (AnnouncementRearmed lock ann event) s =
     apply_announcement_rearmed i lock ann event s"
| "apply_body i stamp (AnnouncementDelivered lock ann receipt digest) s =
     apply_announcement_delivered i lock ann receipt digest s"
| "apply_body i stamp (CarSubmitted car ref oid w) s = apply_car_submitted i car ref oid w s"
| "apply_body i stamp (CarMeasured car m) s =
     change_car i car (\<lambda>c. Inr (c\<lparr>cv_measurement := Some m\<rparr>)) s"
| "apply_body i stamp (CarReviewed car r) s =
     change_car i car (\<lambda>c. Inr (c\<lparr>cv_review := Some r\<rparr>)) s"
| "apply_body i stamp (CarLanded car ref oid tree method) s = change_car i car (land_car i ref) s"
| "apply_body i stamp (CarDissolved car ref oid tree) s =
     change_car i car (\<lambda>c. Inr (c\<lparr>cv_state := Dissolved, cv_product_ref := Some ref\<rparr>)) s"
| "apply_body i stamp (SeatProvisioned seat hooks digest) s = apply_seat i seat hooks digest s"
| "apply_body i stamp (HandoffQueued b) s = apply_handoff_queued i b s"
| "apply_body i stamp (HandoffStopped b attempts stopped) s =
     change_handoff i b (stop_handoff i attempts stopped) s"
| "apply_body i stamp (HandoffRearmed b event) s = change_handoff i b (rearm_handoff i event) s"
| "apply_body i stamp (HandoffDelivered b receipt digest) s =
     change_handoff i b (deliver_handoff i receipt digest) s"

text \<open>\<open>LockProjection.apply\<close>.\<close>

definition apply_row :: "string \<Rightarrow> bool \<Rightarrow> lock_state \<Rightarrow> json \<Rightarrow> lock_state res" where
  "apply_row tenant integrity s raw =
     bindR (validate_lock_record tenant integrity raw) (\<lambda>row.
       if lr_id row \<in> set (ls_seen s) then Inl (refusal integrity ''duplicate_record_id'')
       else bindR (apply_body integrity (lr_timestamp row) (lr_body row) s) (\<lambda>s'.
         Inr (s'\<lparr>ls_seen := lr_id row # ls_seen s', ls_records := ls_records s' @ [row]\<rparr>)))"

definition from_records :: "string \<Rightarrow> bool \<Rightarrow> json list \<Rightarrow> lock_state res" where
  "from_records tenant integrity records = replay (apply_row tenant integrity) empty_locks records"

section \<open>Both readings of a row agree\<close>

lemma apply_body_agrees [same_ok]: "same_success (apply_body i stamp body s) (apply_body j stamp body s)"
  by (cases body; simp only: apply_body.simps apply_acquired_def apply_escalated_def
    apply_announcement_stopped_def apply_announcement_rearmed_def apply_announcement_delivered_def
    apply_car_submitted_def change_car_def land_car_def apply_seat_def apply_handoff_queued_def
    change_handoff_def stop_handoff_def rearm_handoff_def deliver_handoff_def Let_def;
    intro same_ok)

lemma apply_row_agrees [same_ok]:
  "same_success (apply_row tenant i s raw) (apply_row tenant j s raw)"
  unfolding apply_row_def by (intro same_ok lock_record_agrees)

lemma apply_row_coherent: "apply_row tenant False s raw = Inr s' \<Longrightarrow> apply_row tenant True s raw = Inr s'"
  by (rule same_successD [OF apply_row_agrees])

lemmas [evaluate] =
  empty_locks_def escalation_copy_key_def apply_acquired_def apply_escalated_def
  current_announcement_def put_announcement_def apply_announcement_stopped_def
  apply_announcement_rearmed_def apply_announcement_delivered_def apply_car_submitted_def
  change_car_def land_car_def apply_seat_def apply_handoff_queued_def change_handoff_def
  stop_handoff_def rearm_handoff_def deliver_handoff_def apply_row_def from_records_def

end
