(* ===== verification/Lock_Ledger.thy ===== *)
theory Lock_Ledger
  imports Lock_Projection Ledger_Store
begin

text \<open>
  The append surface of the private Locks ledger (\<open>floati/locks/ledger.py\<close>).  A ledger is
  the list of its decoded frames; \<open>flen\<close> is the byte length of a frame.  Every operation
  runs under the exclusive lock of \<open>locks/records.lock\<close> and is one step.  The arguments the
  code types as \<open>object\<close> are JSON values, except the ids it looks up by \<open>str(...)\<close>.
\<close>

fun validated_rows :: "string \<Rightarrow> string set \<Rightarrow> json list \<Rightarrow> lock_row list res" where
  "validated_rows tenant seen [] = Inr []"
| "validated_rows tenant seen (raw # raws) =
     bindR (validate_lock_record tenant True raw) (\<lambda>row.
       if lr_id row \<in> seen then Inl (IntegrityFailure ''duplicate_record_id'')
       else bindR (validated_rows tenant (insert (lr_id row) seen) raws) (\<lambda>rows. Inr (row # rows)))"

definition locks_bytes :: "(json \<Rightarrow> nat) \<Rightarrow> json list \<Rightarrow> nat" where
  "locks_bytes flen records = sum_list (map flen records)"

definition read_unlocked :: "string \<Rightarrow> (json \<Rightarrow> nat) \<Rightarrow> json list \<Rightarrow> json list res" where
  "read_unlocked tenant flen records =
     (if locks_bytes flen records > MAX_LEDGER_BYTES then Inl (IntegrityFailure ''ledger_too_large'')
      else if length records > MAX_LEDGER_RECORDS then Inl (IntegrityFailure ''ledger_record_limit'')
      else bindR (validated_rows tenant {} records) (\<lambda>_.
           bindR (from_records tenant True records) (\<lambda>_. Inr records)))"

definition locks_snapshot :: "string \<Rightarrow> (json \<Rightarrow> nat) \<Rightarrow> json list \<Rightarrow> lock_state res" where
  "locks_snapshot tenant flen records =
     bindR (read_unlocked tenant flen records) (\<lambda>existing. from_records tenant True existing)"

text \<open>\<open>_append\<close>; \<open>before_append\<close> is the outcome of the optional crash hook.\<close>

definition append_lock ::
    "string \<Rightarrow> (json \<Rightarrow> nat) \<Rightarrow> unit res \<Rightarrow> (lock_state \<Rightarrow> json res) \<Rightarrow> json list \<Rightarrow>
     (json \<times> json list) res" where
  "append_lock tenant flen before_append build records =
     bindR (read_unlocked tenant flen records) (\<lambda>existing.
       if length existing \<ge> MAX_LEDGER_RECORDS then Inl (ProtocolRefusal ''ledger_record_limit'')
       else bindR (from_records tenant True existing) (\<lambda>proj.
            bindR (build proj) (\<lambda>raw.
            bindR (validate_lock_record tenant False raw) (\<lambda>_.
            bindR (from_records tenant True existing) (\<lambda>prospective.
            bindR (apply_row tenant False prospective raw) (\<lambda>_.
              if flen raw > MAX_RECORD_BYTES then Inl (ProtocolRefusal ''record_too_large'')
              else bindR before_append (\<lambda>_.
                if locks_bytes flen records + flen raw > MAX_LEDGER_BYTES
                  then Inl (ProtocolRefusal ''ledger_too_large'')
                else Inr (raw, records @ [raw]))))))))"

text \<open>\<open>_row\<close>.\<close>

definition lock_json :: "string \<Rightarrow> string \<Rightarrow> string \<Rightarrow> json \<Rightarrow> members \<Rightarrow> json" where
  "lock_json tenant uuid kind now own =
     JObj ([(''schema_version'', JInt 0),
            (''id'', JStr ((case map_of kind_table kind of None \<Rightarrow> [] | Some (p, _) \<Rightarrow> p) @ uuid)),
            (''tenant_id'', JStr tenant), (''timestamp'', now), (''kind'', JStr kind)] @ own)"

section \<open>Locks and announcements\<close>

definition acquire ::
    "string \<Rightarrow> (json \<Rightarrow> nat) \<Rightarrow> string \<Rightarrow> json \<Rightarrow> json \<Rightarrow> json \<Rightarrow> json \<Rightarrow> json \<Rightarrow> json list \<Rightarrow>
     (json \<times> json list) res" where
  "acquire tenant flen uuid lock_id holder expires_at escalation_holder now =
     append_lock tenant flen (Inr ()) (\<lambda>_. Inr (lock_json tenant uuid ''lock_acquired'' now
       [(''lock_id'', lock_id), (''holder'', holder), (''expires_at'', expires_at),
        (''escalation_holder'', escalation_holder)]))"

definition escalate ::
    "string \<Rightarrow> (json \<Rightarrow> nat) \<Rightarrow> string \<Rightarrow> string \<Rightarrow> unit res \<Rightarrow> string \<Rightarrow> json \<Rightarrow> json \<Rightarrow> json \<Rightarrow>
     json \<Rightarrow> json \<Rightarrow> json list \<Rightarrow> (json \<times> json list) res" where
  "escalate tenant flen uuid uuid2 hook lock_id requested_by now expires_at escalation_holder
     rearm_event =
     append_lock tenant flen hook (\<lambda>proj.
       case map_of (ls_locks proj) lock_id of
         None \<Rightarrow> Inl (ProtocolRefusal ''lock_missing'')
       | Some current \<Rightarrow> Inr (lock_json tenant uuid ''lock_escalated'' now
           [(''lock_id'', JStr lock_id), (''prior_holder'', JStr (lv_holder current)),
            (''prior_expires_at'', JStr (lv_expires current)), (''requested_by'', requested_by),
            (''holder'', requested_by), (''expires_at'', expires_at),
            (''escalation_holder'', escalation_holder),
            (''announcement_id'', JStr (''lock-announcement-'' @ uuid2)),
            (''announcement_recipient'', JStr (lv_holder current)),
            (''announcement_status'', JStr ''pending''), (''announcement_rearm_event'', rearm_event),
            (''copy_key'', JStr ''[[locks.escalation.action_taken_not_role]]'')]))"

text \<open>The three announcement operations start from the lock's current announcement.\<close>

definition with_announcement ::
    "string \<Rightarrow> (announcement_view \<Rightarrow> json res) \<Rightarrow> lock_state \<Rightarrow> json res" where
  "with_announcement lock_id f proj =
     (case current_announcement proj lock_id of
        None \<Rightarrow> Inl (ProtocolRefusal ''announcement_missing'')
      | Some a \<Rightarrow> f a)"

definition stop_announcement ::
    "string \<Rightarrow> (json \<Rightarrow> nat) \<Rightarrow> string \<Rightarrow> string \<Rightarrow> json \<Rightarrow> json \<Rightarrow> json \<Rightarrow> json list \<Rightarrow>
     (json \<times> json list) res" where
  "stop_announcement tenant flen uuid lock_id attempts stopped_at rearm_event =
     append_lock tenant flen (Inr ()) (with_announcement lock_id (\<lambda>a.
       Inr (lock_json tenant uuid ''lock_announcement_stopped'' stopped_at
         [(''lock_id'', JStr lock_id), (''announcement_id'', JStr (av_id a)),
          (''attempts'', attempts), (''stopped_at'', stopped_at), (''rearm_event'', rearm_event)])))"

definition rearm_announcement ::
    "string \<Rightarrow> (json \<Rightarrow> nat) \<Rightarrow> string \<Rightarrow> string \<Rightarrow> json \<Rightarrow> json \<Rightarrow> json list \<Rightarrow> (json \<times> json list) res" where
  "rearm_announcement tenant flen uuid lock_id observed_event now =
     append_lock tenant flen (Inr ()) (with_announcement lock_id (\<lambda>a.
       if observed_event \<noteq> JStr (av_rearm_event a)
         then Inl (ProtocolRefusal ''announcement_rearm_event_mismatch'')
       else Inr (lock_json tenant uuid ''lock_announcement_rearmed'' now
         [(''lock_id'', JStr lock_id), (''announcement_id'', JStr (av_id a)),
          (''observed_event'', observed_event)])))"

definition delivery_receipt :: "json \<Rightarrow> unit res" where
  "delivery_receipt receipt_id =
     (case receipt_id of
        JStr s \<Rightarrow> if starts_with ''delivery-'' s then Inr ()
                  else Inl (ProtocolRefusal ''delivery_receipt_required'')
      | _ \<Rightarrow> Inl (ProtocolRefusal ''delivery_receipt_required''))"

definition record_announcement_delivery ::
    "string \<Rightarrow> (json \<Rightarrow> nat) \<Rightarrow> string \<Rightarrow> string \<Rightarrow> json \<Rightarrow> json \<Rightarrow> json \<Rightarrow> json list \<Rightarrow>
     (json \<times> json list) res" where
  "record_announcement_delivery tenant flen uuid lock_id receipt_id receipt_digest now records =
     bindR (delivery_receipt receipt_id) (\<lambda>_.
       append_lock tenant flen (Inr ()) (with_announcement lock_id (\<lambda>a.
         Inr (lock_json tenant uuid ''lock_announcement_delivered'' now
           [(''lock_id'', JStr lock_id), (''announcement_id'', JStr (av_id a)),
            (''receipt_id'', receipt_id), (''receipt_digest'', receipt_digest)]))) records)"

section \<open>Cars and seats\<close>

definition submit_car ::
    "string \<Rightarrow> (json \<Rightarrow> nat) \<Rightarrow> string \<Rightarrow> json \<Rightarrow> json \<Rightarrow> json \<Rightarrow> json \<Rightarrow> json \<Rightarrow> json list \<Rightarrow>
     (json \<times> json list) res" where
  "submit_car tenant flen uuid car_id ref ref_oid w now records =
     bindR (validate_full_ref False ''car_ref_required'' ''ref'' ref) (\<lambda>_.
     bindR (validate_witness False w) (\<lambda>_.
       append_lock tenant flen (Inr ()) (\<lambda>_. Inr (lock_json tenant uuid ''car_submitted'' now
         [(''car_id'', car_id), (''ref'', ref), (''ref_oid'', ref_oid), (''witness'', w)])) records))"

definition record_measurement ::
    "string \<Rightarrow> (json \<Rightarrow> nat) \<Rightarrow> string \<Rightarrow> json \<Rightarrow> json \<Rightarrow> json \<Rightarrow> json \<Rightarrow> json \<Rightarrow> json \<Rightarrow> json \<Rightarrow>
     json list \<Rightarrow> (json \<times> json list) res" where
  "record_measurement tenant flen uuid car_id measured_ref measured_tree test_count failure_count
     evidence_digest now records =
     bindR (validate_full_ref False ''measurement_ref_required'' ''measured_ref'' measured_ref) (\<lambda>_.
       append_lock tenant flen (Inr ()) (\<lambda>_. Inr (lock_json tenant uuid ''car_measurement_recorded'' now
         [(''car_id'', car_id), (''measured_ref'', measured_ref), (''measured_tree'', measured_tree),
          (''test_count'', test_count), (''failure_count'', failure_count),
          (''evidence_digest'', evidence_digest)])) records)"

definition ledger_record_review ::
    "string \<Rightarrow> (json \<Rightarrow> nat) \<Rightarrow> string \<Rightarrow> json \<Rightarrow> json \<Rightarrow> json \<Rightarrow> json \<Rightarrow> json \<Rightarrow> json \<Rightarrow> json \<Rightarrow>
     json \<Rightarrow> json list \<Rightarrow> (json \<times> json list) res" where
  "ledger_record_review tenant flen uuid car_id verd rank base_ref base_oid base_tree holds now =
     append_lock tenant flen (Inr ()) (\<lambda>_. Inr (lock_json tenant uuid ''car_reviewed'' now
       [(''car_id'', car_id), (''verdict'', verd), (''rank'', rank), (''base_ref'', base_ref),
        (''base_oid'', base_oid), (''base_tree'', base_tree), (''witness_holds'', holds)]))"

definition record_landed ::
    "string \<Rightarrow> (json \<Rightarrow> nat) \<Rightarrow> string \<Rightarrow> json \<Rightarrow> json \<Rightarrow> json \<Rightarrow> json \<Rightarrow> json \<Rightarrow> json \<Rightarrow> json \<Rightarrow>
     json list \<Rightarrow> (json \<times> json list) res" where
  "record_landed tenant flen uuid car_id target_ref target_oid target_tree method holds now =
     append_lock tenant flen (Inr ()) (\<lambda>_. Inr (lock_json tenant uuid ''car_landed'' now
       [(''car_id'', car_id), (''target_ref'', target_ref), (''target_oid'', target_oid),
        (''target_tree'', target_tree), (''method'', method), (''witness_holds'', holds)]))"

definition record_dissolved ::
    "string \<Rightarrow> (json \<Rightarrow> nat) \<Rightarrow> string \<Rightarrow> json \<Rightarrow> json \<Rightarrow> json \<Rightarrow> json \<Rightarrow> json \<Rightarrow> json \<Rightarrow>
     json list \<Rightarrow> (json \<times> json list) res" where
  "record_dissolved tenant flen uuid car_id product_ref product_oid product_tree holds now =
     append_lock tenant flen (Inr ()) (\<lambda>_. Inr (lock_json tenant uuid ''car_dissolved'' now
       [(''car_id'', car_id), (''product_ref'', product_ref), (''product_oid'', product_oid),
        (''product_tree'', product_tree), (''witness_holds'', holds)]))"

definition record_seat_provisioned ::
    "string \<Rightarrow> (json \<Rightarrow> nat) \<Rightarrow> string \<Rightarrow> json \<Rightarrow> json \<Rightarrow> json \<Rightarrow> json \<Rightarrow> json list \<Rightarrow>
     (json \<times> json list) res" where
  "record_seat_provisioned tenant flen uuid seat_id hook_names manifest_digest now =
     append_lock tenant flen (Inr ()) (\<lambda>_. Inr (lock_json tenant uuid ''seat_provisioned'' now
       [(''seat_id'', seat_id), (''hook_names'', hook_names), (''manifest_digest'', manifest_digest)]))"

section \<open>Review handoffs\<close>

fun witness_members :: "witness \<Rightarrow> members" where
  "witness_members (PathPresent p) = [(''kind'', JStr ''path_present''), (''path'', JStr p)]"
| "witness_members (PathAbsent p) = [(''kind'', JStr ''path_absent''), (''path'', JStr p)]"
| "witness_members (BlobSha256 p d) =
     [(''kind'', JStr ''blob_sha256''), (''path'', JStr p), (''sha256'', JStr d)]"
| "witness_members (FileContains p n) =
     [(''kind'', JStr ''file_contains_utf8''), (''path'', JStr p), (''needle'', JStr n)]"

definition handoff_fields :: "handoff_binding \<Rightarrow> members" where
  "handoff_fields b =
     [(''handoff_id'', JStr (hb_id b)), (''recipient'', JStr (hb_recipient b)),
      (''car_id'', JStr (hb_car b)), (''ref'', JStr (hb_ref b)),
      (''base_ref'', JStr (hb_base_ref b)), (''witness'', JObj (witness_members (hb_witness b))),
      (''rearm_event'', JStr (hb_rearm_event b))]"

definition queue_review_handoff ::
    "string \<Rightarrow> (json \<Rightarrow> nat) \<Rightarrow> string \<Rightarrow> json \<Rightarrow> json \<Rightarrow> json \<Rightarrow> json \<Rightarrow> json \<Rightarrow> json \<Rightarrow> json \<Rightarrow>
     json \<Rightarrow> json list \<Rightarrow> (json \<times> json list) res" where
  "queue_review_handoff tenant flen uuid handoff_id recipient car_id ref base_ref w rearm_event now =
     append_lock tenant flen (Inr ()) (\<lambda>_. Inr (lock_json tenant uuid ''review_handoff_queued'' now
       [(''handoff_id'', handoff_id), (''recipient'', recipient), (''car_id'', car_id),
        (''ref'', ref), (''base_ref'', base_ref), (''witness'', w), (''rearm_event'', rearm_event),
        (''status'', JStr ''pending''), (''copy_key'', JStr ''[[locks.handoff.pending]]'')]))"

definition with_handoff ::
    "string \<Rightarrow> (handoff_view \<Rightarrow> json res) \<Rightarrow> lock_state \<Rightarrow> json res" where
  "with_handoff handoff_id f proj =
     (case map_of (ls_handoffs proj) handoff_id of
        None \<Rightarrow> Inl (ProtocolRefusal ''handoff_missing'')
      | Some h \<Rightarrow> f h)"

definition stop_review_handoff ::
    "string \<Rightarrow> (json \<Rightarrow> nat) \<Rightarrow> string \<Rightarrow> string \<Rightarrow> json \<Rightarrow> json \<Rightarrow> json \<Rightarrow> json list \<Rightarrow>
     (json \<times> json list) res" where
  "stop_review_handoff tenant flen uuid handoff_id attempts stopped_at rearm_event =
     append_lock tenant flen (Inr ()) (with_handoff handoff_id (\<lambda>h.
       if rearm_event \<noteq> JStr (hb_rearm_event (hv_binding h))
         then Inl (ProtocolRefusal ''handoff_rearm_event_mismatch'')
       else Inr (lock_json tenant uuid ''review_handoff_stopped'' stopped_at
         (handoff_fields (hv_binding h) @
          [(''status'', JStr ''stopped''), (''copy_key'', JStr ''[[locks.handoff.stopped]]''),
           (''attempts'', attempts), (''stopped_at'', stopped_at)]))))"

definition rearm_review_handoff ::
    "string \<Rightarrow> (json \<Rightarrow> nat) \<Rightarrow> string \<Rightarrow> string \<Rightarrow> json \<Rightarrow> json \<Rightarrow> json list \<Rightarrow> (json \<times> json list) res" where
  "rearm_review_handoff tenant flen uuid handoff_id observed_event now =
     append_lock tenant flen (Inr ()) (with_handoff handoff_id (\<lambda>h.
       if observed_event \<noteq> JStr (hb_rearm_event (hv_binding h))
         then Inl (ProtocolRefusal ''handoff_rearm_event_mismatch'')
       else Inr (lock_json tenant uuid ''review_handoff_rearmed'' now
         (handoff_fields (hv_binding h) @
          [(''status'', JStr ''pending''), (''copy_key'', JStr ''[[locks.handoff.pending]]''),
           (''observed_event'', observed_event)]))))"

definition record_review_handoff_delivery ::
    "string \<Rightarrow> (json \<Rightarrow> nat) \<Rightarrow> string \<Rightarrow> string \<Rightarrow> json \<Rightarrow> json \<Rightarrow> json \<Rightarrow> json list \<Rightarrow>
     (json \<times> json list) res" where
  "record_review_handoff_delivery tenant flen uuid handoff_id receipt_id receipt_digest now records =
     bindR (delivery_receipt receipt_id) (\<lambda>_.
       append_lock tenant flen (Inr ()) (with_handoff handoff_id (\<lambda>h.
         Inr (lock_json tenant uuid ''review_handoff_delivered'' now
           (handoff_fields (hv_binding h) @
            [(''status'', JStr ''delivered''), (''receipt_id'', receipt_id),
             (''receipt_digest'', receipt_digest)])))) records)"

lemmas [evaluate] =
  locks_bytes_def read_unlocked_def locks_snapshot_def append_lock_def lock_json_def
  acquire_def escalate_def with_announcement_def stop_announcement_def rearm_announcement_def
  delivery_receipt_def record_announcement_delivery_def submit_car_def record_measurement_def
  ledger_record_review_def record_landed_def record_dissolved_def record_seat_provisioned_def
  handoff_fields_def queue_review_handoff_def with_handoff_def stop_review_handoff_def
  rearm_review_handoff_def record_review_handoff_delivery_def

end
