(* ===== verification/Utf8.thy ===== *)
theory Utf8
  imports Floati_Prelude
begin

text \<open>
  UTF-8 as Python encodes and decodes it.  A byte and a character are both a \<open>char\<close>; the
  characters of the model are the code points below 256, so a character takes one or two bytes.
\<close>

definition continuation :: "char \<Rightarrow> bool" where
  "continuation c \<longleftrightarrow> 128 \<le> (of_char c :: nat) \<and> of_char c < (192 :: nat)"

fun valid_utf8 :: "bool \<Rightarrow> string \<Rightarrow> bool" where
  "valid_utf8 surrogates [] = True"
| "valid_utf8 surrogates (a # s) =
     (let n = (of_char a :: nat) in
      if n < 128 then valid_utf8 surrogates s
      else if 194 \<le> n \<and> n < 224 then
        (case s of b # t \<Rightarrow> continuation b \<and> valid_utf8 surrogates t | _ \<Rightarrow> False)
      else if 224 \<le> n \<and> n < 240 then
        (case s of b # c # t \<Rightarrow>
           continuation b \<and> continuation c \<and> (n = 224 \<longrightarrow> 160 \<le> (of_char b :: nat)) \<and>
           (n = 237 \<longrightarrow> surrogates \<or> of_char b < (160 :: nat)) \<and> valid_utf8 surrogates t
         | _ \<Rightarrow> False)
      else if 240 \<le> n \<and> n < 245 then
        (case s of b # c # d # t \<Rightarrow>
           continuation b \<and> continuation c \<and> continuation d \<and>
           (n = 240 \<longrightarrow> 144 \<le> (of_char b :: nat)) \<and> (n = 244 \<longrightarrow> of_char b < (144 :: nat)) \<and>
           valid_utf8 surrogates t
         | _ \<Rightarrow> False)
      else False)"

definition encode_utf8_char :: "char \<Rightarrow> string" where
  "encode_utf8_char c =
     (let n = (of_char c :: nat) in
      if n < 128 then [c] else [char_of (192 + n div 64), char_of (128 + n mod 64)])"

definition encode_utf8 :: "string \<Rightarrow> string" where
  "encode_utf8 s = concat (map encode_utf8_char s)"

text \<open>Bytes of code points below 256 only: no lead byte from \<open>0xC4\<close> on.\<close>

definition narrow :: "string \<Rightarrow> bool" where
  "narrow s \<longleftrightarrow> list_all (\<lambda>b. (of_char b :: nat) < 196) s"

fun narrow_chars :: "string \<Rightarrow> string" where
  "narrow_chars [] = []"
| "narrow_chars (a # s) =
     (if (of_char a :: nat) < 128 then a # narrow_chars s
      else (case s of
              b # t \<Rightarrow> char_of ((of_char a - 192) * 64 + (of_char b - 128) :: nat) # narrow_chars t
            | [] \<Rightarrow> []))"

section \<open>The round trip\<close>

lemma encode_utf8_simps [simp]:
  "encode_utf8 [] = []"
  "encode_utf8 (c # s) = encode_utf8_char c @ encode_utf8 s"
  by (simp_all add: encode_utf8_def)

lemma encode_utf8_append: "encode_utf8 (s @ t) = encode_utf8 s @ encode_utf8 t"
  by (simp add: encode_utf8_def)

lemma encode_utf8_cases:
  obtains "encode_utf8_char c = [c]" "(of_char c :: nat) < 128"
  | a b where "encode_utf8_char c = [a, b]" "(of_char a :: nat) = 192 + of_char c div 64"
      "(of_char b :: nat) = 128 + of_char c mod 64" "128 \<le> (of_char c :: nat)"
      "(of_char c :: nat) div 64 \<in> {2, 3}"
proof (cases "(of_char c :: nat) < 128")
  case True
  then show ?thesis by (intro that(1)) (simp_all add: encode_utf8_char_def)
next
  case False
  have "(of_char c :: nat) div 64 < 4" by (rule less_mult_imp_div_less) simp
  moreover have "2 \<le> (of_char c :: nat) div 64" using False by simp
  ultimately have "(of_char c :: nat) div 64 \<in> {2, 3}" by auto
  moreover have "(of_char c :: nat) mod 64 < 64" by simp
  ultimately show ?thesis
    using False by (intro that(2)) (auto simp: encode_utf8_char_def Let_def)
qed

lemma decodes_encode_utf8 [simp]:
  "valid_utf8 b (encode_utf8 s) \<and> narrow (encode_utf8 s) \<and> narrow_chars (encode_utf8 s) = s"
proof (induction s)
  case Nil
  then show ?case by (simp add: narrow_def)
next
  case (Cons c s)
  show ?case
  proof (cases c rule: encode_utf8_cases)
    case 1
    with Cons show ?thesis by (simp add: narrow_def)
  next
    case (2 x y)
    have "(of_char c :: nat) mod 64 < 64" by simp
    moreover have "char_of ((of_char x - 192) * 64 + (of_char y - 128) :: nat) = c"
      by (simp add: 2)
    ultimately show ?thesis
      using Cons 2 by (auto simp: narrow_def continuation_def Let_def)
  qed
qed

lemma encode_utf8_bytes:
  assumes "b \<in> set (encode_utf8 s)"
  shows "(of_char b :: nat) < 196 \<and> (b \<in> set s \<or> 128 \<le> (of_char b :: nat))"
proof -
  have "b \<in> set (encode_utf8_char c) \<Longrightarrow> (of_char b :: nat) < 196 \<and> (b = c \<or> 128 \<le> (of_char b :: nat))" for c
    by (cases c rule: encode_utf8_cases) auto
  with assms show ?thesis by (fastforce simp: encode_utf8_def)
qed

lemma encode_utf8_Nil_iff [simp]: "encode_utf8 s = [] \<longleftrightarrow> s = []"
  by (cases s) (auto simp: encode_utf8_char_def Let_def)

end
