(* ===== verification/Lock_Queue.thy ===== *)
theory Lock_Queue
  imports Lock_Ledger Utf8 "HOL-Library.Product_Lexorder"
begin

text \<open>
  The patch queue (\<open>floati/locks/queue.py\<close>) over the content observations of
  \<open>floati/locks/git_observer.py\<close>, and the review handoff controller
  (\<open>floati/locks/handoffs.py\<close>).

  The Git process itself is a parameter: a \<open>git_port\<close> answers the three invocations the
  observer makes, each of which may refuse (time-out, output bound, unexpected status).
  \<open>sha256\<close> is the digest function of the standard library's \<open>hashlib\<close>.
\<close>

record git_port =
  rev_parse :: "string \<Rightarrow> string res" \<comment> \<open>stripped output of \<open>rev-parse --verify\<close>\<close>
  cat_exists :: "string \<Rightarrow> bool res" \<comment> \<open>whether \<open>cat-file -e\<close> returned 0\<close>
  cat_blob :: "string \<Rightarrow> string option res" \<comment> \<open>bytes of \<open>cat-file blob\<close>, if any\<close>

record git_ref =
  gr_ref :: string
  gr_oid :: string
  gr_tree :: string

record witness_result =
  wr_ref :: git_ref
  wr_holds :: bool

definition require_sha :: "string \<Rightarrow> string res" where
  "require_sha s =
     (if \<not> hex_of_length 40 s then Inl (ProtocolRefusal ''git_observation_malformed'') else Inr s)"

definition resolve_ref :: "git_port \<Rightarrow> json \<Rightarrow> git_ref res" where
  "resolve_ref git full_ref =
     bindR (validate_full_ref False ''car_ref_required'' ''ref'' full_ref) (\<lambda>ref.
     bindR (rev_parse git (ref @ ''^{commit}'')) (\<lambda>oid_text.
     bindR (rev_parse git (ref @ ''^{tree}'')) (\<lambda>tree_text.
     bindR (require_sha oid_text) (\<lambda>oid.
     bindR (require_sha tree_text) (\<lambda>tree.
       Inr \<lparr>gr_ref = ref, gr_oid = oid, gr_tree = tree\<rparr>)))))"

definition verify_witness ::
    "(string \<Rightarrow> string) \<Rightarrow> git_port \<Rightarrow> json \<Rightarrow> json \<Rightarrow> witness_result res" where
  "verify_witness sha256 git full_ref w =
     bindR (resolve_ref git full_ref) (\<lambda>ref.
     bindR (validate_witness False w) (\<lambda>normalized.
       let coordinate = gr_ref ref @ '':'' @ witness_path normalized;
           holding = (\<lambda>b. Inr \<lparr>wr_ref = ref, wr_holds = b\<rparr>)
       in case normalized of
            PathPresent _ \<Rightarrow> bindR (cat_exists git coordinate) holding
          | PathAbsent _ \<Rightarrow> bindR (cat_exists git coordinate) (\<lambda>present. holding (\<not> present))
          | BlobSha256 _ digest \<Rightarrow>
              bindR (cat_blob git coordinate) (\<lambda>blob.
                case blob of None \<Rightarrow> holding False | Some bytes \<Rightarrow> holding (sha256 bytes = digest))
          | FileContains _ needle \<Rightarrow>
              bindR (cat_blob git coordinate) (\<lambda>blob.
                case blob of
                  None \<Rightarrow> holding False
                | Some bytes \<Rightarrow>
                    if \<not> valid_utf8 False bytes
                      then Inl (ProtocolRefusal ''content_witness_unreadable'')
                    else holding (contains (encode_utf8 needle) bytes))))"

section \<open>The queue\<close>

text \<open>What the queue owns: the ledger's tenant and frame length, and the observer.\<close>

record queue_env =
  qe_tenant :: string
  qe_flen :: "json \<Rightarrow> nat"
  qe_sha256 :: "string \<Rightarrow> string"

definition observe_witness :: "queue_env \<Rightarrow> git_port \<Rightarrow> json \<Rightarrow> car_view \<Rightarrow> witness_result res" where
  "observe_witness env git ref car =
     verify_witness (qe_sha256 env) git ref (JObj (witness_members (cv_witness car)))"

definition find_car :: "queue_env \<Rightarrow> json list \<Rightarrow> string \<Rightarrow> car_view res" where
  "find_car env records car_id =
     bindR (locks_snapshot (qe_tenant env) (qe_flen env) records) (\<lambda>snapshot.
       case map_of (ls_cars snapshot) car_id of
         None \<Rightarrow> Inl (ProtocolRefusal ''car_missing'')
       | Some car \<Rightarrow> Inr car)"

definition queue_submit ::
    "queue_env \<Rightarrow> git_port \<Rightarrow> string \<Rightarrow> json \<Rightarrow> json \<Rightarrow> json \<Rightarrow> json \<Rightarrow> json list \<Rightarrow>
     (json \<times> json list) res" where
  "queue_submit env git uuid car_id ref w now records =
     bindR (validate_full_ref False ''car_ref_required'' ''ref'' ref) (\<lambda>full_ref.
     bindR (validate_witness False w) (\<lambda>normalized.
     bindR (resolve_ref git (JStr full_ref)) (\<lambda>observed.
       submit_car (qe_tenant env) (qe_flen env) uuid car_id (JStr full_ref) (JStr (gr_oid observed))
         (JObj (witness_members normalized)) now records)))"

definition landing_status :: "queue_env \<Rightarrow> git_port \<Rightarrow> json list \<Rightarrow> string \<Rightarrow> json \<Rightarrow> string res" where
  "landing_status env git records car_id target_ref =
     bindR (find_car env records car_id) (\<lambda>car.
     bindR (observe_witness env git target_ref car) (\<lambda>result.
       Inr (if wr_holds result then ''landed'' else ''not_landed'')))"

definition queue_record_review ::
    "queue_env \<Rightarrow> git_port \<Rightarrow> string \<Rightarrow> string \<Rightarrow> json \<Rightarrow> json \<Rightarrow> json \<Rightarrow> json \<Rightarrow> json list \<Rightarrow>
     (json \<times> json list) res" where
  "queue_record_review env git uuid car_id verd rank base_ref now records =
     bindR (find_car env records car_id) (\<lambda>car.
     bindR (resolve_ref git base_ref) (\<lambda>base.
     bindR (observe_witness env git (JStr (gr_ref base)) car) (\<lambda>result.
       ledger_record_review (qe_tenant env) (qe_flen env) uuid (JStr car_id) verd rank
         (JStr (gr_ref base)) (JStr (gr_oid base)) (JStr (gr_tree base))
         (JBool (wr_holds result)) now records)))"

datatype review_status = ReviewRequired | Reviewed verdict | Rederived verdict

definition review_status :: "queue_env \<Rightarrow> git_port \<Rightarrow> json list \<Rightarrow> string \<Rightarrow> json \<Rightarrow> review_status res" where
  "review_status env git records car_id base_ref =
     bindR (find_car env records car_id) (\<lambda>car.
       case cv_review car of
         None \<Rightarrow> Inr ReviewRequired
       | Some rv \<Rightarrow>
           bindR (resolve_ref git base_ref) (\<lambda>base.
             if gr_ref base = rv_base_ref rv \<and> gr_oid base = rv_base_oid rv \<and>
                gr_tree base = rv_base_tree rv
               then Inr (Reviewed (rv_verdict rv))
             else bindR (observe_witness env git (JStr (gr_ref base)) car) (\<lambda>observed.
               if wr_holds observed \<noteq> rv_witness_holds rv then Inr ReviewRequired
               else Inr (Rederived (rv_verdict rv)))))"

record car_selection =
  cs_car :: string
  cs_ref :: string
  cs_rank :: int
  cs_status :: review_status

definition car_rank :: "car_view \<Rightarrow> int" where
  "car_rank car = (case cv_review car of None \<Rightarrow> 0 | Some rv \<Rightarrow> rv_rank rv)"

definition ranked_cars :: "lock_state \<Rightarrow> car_view list" where
  "ranked_cars snapshot =
     sort_key (\<lambda>car. (- car_rank car, int (cv_position car)))
       (filter (\<lambda>car. cv_review car \<noteq> None \<and> cv_state car = Queued) (map snd (ls_cars snapshot)))"

definition mergeable :: "review_status \<Rightarrow> bool" where
  "mergeable status \<longleftrightarrow> status = Reviewed Approved \<or> status = Rederived Approved"

fun first_mergeable ::
    "queue_env \<Rightarrow> git_port \<Rightarrow> json list \<Rightarrow> json \<Rightarrow> car_view list \<Rightarrow> car_selection res" where
  "first_mergeable env git records target_ref [] = Inl (ProtocolRefusal ''merge_queue_empty'')"
| "first_mergeable env git records target_ref (car # cars) =
     bindR (review_status env git records (cv_id car) target_ref) (\<lambda>status.
       if mergeable status
         then Inr \<lparr>cs_car = cv_id car, cs_ref = cv_ref car, cs_rank = car_rank car, cs_status = status\<rparr>
       else first_mergeable env git records target_ref cars)"

definition select_next :: "queue_env \<Rightarrow> git_port \<Rightarrow> json list \<Rightarrow> json \<Rightarrow> car_selection res" where
  "select_next env git records target_ref =
     bindR (locks_snapshot (qe_tenant env) (qe_flen env) records) (\<lambda>snapshot.
       first_mergeable env git records target_ref (ranked_cars snapshot))"

record landing_plan =
  lp_car :: string
  lp_car_ref :: string
  lp_target :: string
  lp_method :: string

text \<open>\<open>land_next\<close>.  The executor is the caller's callback: it may refuse, and afterwards the
  repository and the ledger are what it left behind.\<close>

definition land_next ::
    "queue_env \<Rightarrow> git_port \<Rightarrow> string \<Rightarrow> json \<Rightarrow> (landing_plan \<Rightarrow> (git_port \<times> json list) res) \<Rightarrow>
     string \<Rightarrow> json \<Rightarrow> json list \<Rightarrow> (json \<times> json list) res" where
  "land_next env git uuid target_ref executor method now records =
     (if method \<notin> {''cherry_pick'', ''rebase''}
        then Inl (ProtocolRefusal ''landing_method_invalid'')
      else bindR (validate_full_ref False ''car_ref_required'' ''target_ref'' target_ref) (\<lambda>target.
      bindR (select_next env git records (JStr target)) (\<lambda>selection.
      bindR (executor \<lparr>lp_car = cs_car selection, lp_car_ref = cs_ref selection,
                       lp_target = target, lp_method = method\<rparr>) (\<lambda>(git', records').
      bindR (locks_snapshot (qe_tenant env) (qe_flen env) records') (\<lambda>snapshot.
        case map_of (ls_cars snapshot) (cs_car selection) of
          None \<Rightarrow> Inl (Uncaught ''KeyError'')
        | Some car \<Rightarrow>
            bindR (observe_witness env git' (JStr target) car) (\<lambda>observed.
              if \<not> wr_holds observed then Inl (ProtocolRefusal ''car_content_not_landed'')
              else record_landed (qe_tenant env) (qe_flen env) uuid (JStr (cs_car selection))
                     (JStr (gr_ref (wr_ref observed))) (JStr (gr_oid (wr_ref observed)))
                     (JStr (gr_tree (wr_ref observed))) (JStr method) (JBool True) now
                     records'))))))"

definition dissolve ::
    "queue_env \<Rightarrow> git_port \<Rightarrow> string \<Rightarrow> string \<Rightarrow> json \<Rightarrow> json \<Rightarrow> json list \<Rightarrow> (json \<times> json list) res" where
  "dissolve env git uuid car_id product_ref now records =
     bindR (find_car env records car_id) (\<lambda>car.
     bindR (observe_witness env git product_ref car) (\<lambda>product.
       if \<not> wr_holds product then Inl (ProtocolRefusal ''car_not_landed_on_product'')
       else record_dissolved (qe_tenant env) (qe_flen env) uuid (JStr car_id)
              (JStr (gr_ref (wr_ref product))) (JStr (gr_oid (wr_ref product)))
              (JStr (gr_tree (wr_ref product))) (JBool True) now records))"

section \<open>The handoff controller\<close>

definition lower_char :: "char \<Rightarrow> char" where
  "lower_char c = (if in_range CHR ''A'' CHR ''Z'' c then char_of ((of_char c :: nat) + 32) else c)"

text \<open>\<open>ReviewHandoffController.queue\<close>.  \<open>resolver\<close> is the injected identity resolver: whether
  it returned exactly \<open>True\<close>, or raised.  Case folding matters on the letters of
  \<open>unknown\<close> and \<open>default\<close> only, and no other character below 256 folds into them.\<close>

definition controller_queue ::
    "string \<Rightarrow> (json \<Rightarrow> nat) \<Rightarrow> (string \<Rightarrow> bool res) \<Rightarrow> string \<Rightarrow> json \<Rightarrow> json \<Rightarrow> json \<Rightarrow> json \<Rightarrow> json \<Rightarrow>
     json \<Rightarrow> json \<Rightarrow> json \<Rightarrow> json list \<Rightarrow> (json \<times> json list) res" where
  "controller_queue tenant flen resolver uuid handoff_id recipient car_id ref base_ref w rearm_event
     now records =
     (case recipient of
        JStr name \<Rightarrow>
          if name = [] \<or> map lower_char name \<in> {''unknown'', ''default''}
            then Inl (ProtocolRefusal ''handoff_recipient_unresolved'')
          else (case resolver name of
            Inr True \<Rightarrow>
              queue_review_handoff tenant flen uuid handoff_id recipient car_id ref base_ref w
                rearm_event now records
          | _ \<Rightarrow> Inl (ProtocolRefusal ''handoff_recipient_unresolved''))
      | _ \<Rightarrow> Inl (ProtocolRefusal ''handoff_recipient_unresolved''))"

end
