(* ===== verification/Lock_Safety.thy ===== *)
theory Lock_Safety
  imports Lock_Ledger
begin

text \<open>
  The invariant of the lock projection, the order in which its entries may change, and the
  lemma that every append leaves a ledger which its own reader and projection accept.
\<close>

section \<open>The append\<close>

lemma locks_bytes_snoc [simp]: "locks_bytes flen (rs @ [r]) = locks_bytes flen rs + flen r"
  by (simp add: locks_bytes_def)

text \<open>The replay already refuses whatever the row loop refuses.\<close>

lemma apply_row_Inr:
  assumes "apply_row tenant i s raw = Inr s'"
  obtains row t where "validate_lock_record tenant i raw = Inr row" "lr_id row \<notin> set (ls_seen s)"
    "apply_body i (lr_timestamp row) (lr_body row) s = Inr t"
    "s' = t\<lparr>ls_seen := lr_id row # ls_seen t, ls_records := ls_records t @ [row]\<rparr>"
  using assms by (auto simp: apply_row_def bindR_Inr_iff split: if_splits)

lemma apply_body_frame:
  assumes "apply_body i stamp body s = Inr t"
  shows "ls_seen t = ls_seen s" "ls_records t = ls_records s"
  using assms
  by (cases body; auto simp: apply_acquired_def apply_escalated_def apply_announcement_stopped_def
      apply_announcement_rearmed_def apply_announcement_delivered_def put_announcement_def
      apply_car_submitted_def change_car_def land_car_def apply_seat_def apply_handoff_queued_def
      change_handoff_def stop_handoff_def rearm_handoff_def deliver_handoff_def Let_def bindR_Inr_iff
      simp del: map_of_eq_None_iff split: option.splits if_splits)+

lemma replay_validates:
  assumes "replay (apply_row tenant True) s records = Inr s'"
  shows "\<exists>rows. validated_rows tenant (set (ls_seen s)) records = Inr rows"
  using assms
proof (induction records arbitrary: s)
  case Nil
  then show ?case by simp
next
  case (Cons raw records)
  then obtain u where u: "apply_row tenant True s raw = Inr u"
    "replay (apply_row tenant True) u records = Inr s'" by (auto simp: bindR_Inr_iff)
  from u(1) obtain row t where row: "validate_lock_record tenant True raw = Inr row"
    "lr_id row \<notin> set (ls_seen s)" "apply_body True (lr_timestamp row) (lr_body row) s = Inr t"
    "u = t\<lparr>ls_seen := lr_id row # ls_seen t, ls_records := ls_records t @ [row]\<rparr>"
    by (rule apply_row_Inr)
  have "set (ls_seen u) = insert (lr_id row) (set (ls_seen s))"
    using apply_body_frame [OF row(3)] by (simp add: row(4))
  with Cons.IH [OF u(2)] row(1,2) show ?case by auto
qed

lemma read_unlocked_Inr_iff:
  "read_unlocked tenant flen records = Inr out \<longleftrightarrow>
     out = records \<and> locks_bytes flen records \<le> MAX_LEDGER_BYTES \<and>
     length records \<le> MAX_LEDGER_RECORDS \<and> (\<exists>s. from_records tenant True records = Inr s)"
  using replay_validates [of tenant empty_locks records]
  by (auto simp: read_unlocked_def bindR_Inr_iff from_records_def empty_locks_def)

lemma locks_snapshot_Inr_iff:
  "locks_snapshot tenant flen records = Inr s \<longleftrightarrow>
     read_unlocked tenant flen records = Inr records \<and> from_records tenant True records = Inr s"
  by (auto simp: locks_snapshot_def bindR_Inr_iff read_unlocked_Inr_iff)

lemma append_lock_Inr:
  assumes "append_lock tenant flen hook build records = Inr (raw, records')"
  obtains s s' where "records' = records @ [raw]" "locks_snapshot tenant flen records = Inr s"
    "build s = Inr raw" "apply_row tenant True s raw = Inr s'"
    "locks_snapshot tenant flen records' = Inr s'"
proof -
  from assms obtain s s' where s: "records' = records @ [raw]" "from_records tenant True records = Inr s"
    "build s = Inr raw" "apply_row tenant False s raw = Inr s'" "read_unlocked tenant flen records = Inr records"
    "length records < MAX_LEDGER_RECORDS" "locks_bytes flen records + flen raw \<le> MAX_LEDGER_BYTES"
    by (auto simp: append_lock_def bindR_Inr_iff read_unlocked_Inr_iff split: if_splits)
  have step: "apply_row tenant True s raw = Inr s'" by (rule apply_row_coherent [OF s(4)])
  then have "from_records tenant True records' = Inr s'"
    using s(2) by (simp add: s(1) from_records_def replay_snoc)
  with s step show thesis
    by (intro that [of s s']) (auto simp: locks_snapshot_Inr_iff read_unlocked_Inr_iff)
qed

text \<open>The converse: what an append needs to succeed.\<close>

lemma append_lock_succeeds:
  assumes "locks_snapshot tenant flen records = Inr s" "build s = Inr raw"
    and "validate_lock_record tenant True raw = Inr row" "apply_row tenant True s raw = Inr s'"
    and "flen raw \<le> MAX_RECORD_BYTES" "length records < MAX_LEDGER_RECORDS"
    and "locks_bytes flen records + flen raw \<le> MAX_LEDGER_BYTES"
  shows "append_lock tenant flen (Inr ()) build records = Inr (raw, records @ [raw])"
    "locks_snapshot tenant flen (records @ [raw]) = Inr s'"
proof -
  have v: "validate_lock_record tenant False raw = Inr row"
    by (rule same_successD [OF lock_record_agrees assms(3)])
  have a: "apply_row tenant False s raw = Inr s'"
    by (rule same_successD [OF apply_row_agrees assms(4)])
  show app: "append_lock tenant flen (Inr ()) build records = Inr (raw, records @ [raw])"
    using assms v a by (simp add: append_lock_def locks_snapshot_Inr_iff)
  show "locks_snapshot tenant flen (records @ [raw]) = Inr s'"
    using append_lock_Inr [OF app] assms(1,4) by (metis sum.inject(2))
qed

section \<open>Reading a row back\<close>

lemma safe_text_Inr: "safe_text i n f v = Inr t \<Longrightarrow> v = JStr t"
  by (auto simp: safe_text_def split: json.splits if_splits)

lemma identifier_field_Inr: "identifier_field i f v = Inr t \<Longrightarrow> v = JStr t"
  by (auto simp: identifier_field_def split: json.splits if_splits)

lemma validate_timestamp_Inr: "validate_timestamp i f v = Inr t \<Longrightarrow> v = JStr t"
  by (auto simp: validate_timestamp_def bindR_Inr_iff dest: safe_text_Inr split: option.splits if_splits)

lemma validate_escalated_Inr:
  "validate_escalated i stamp row = Inr body \<Longrightarrow>
   \<exists>e. body = Escalated e \<and> get_member row ''lock_id'' = JStr (le_lock e) \<and>
     get_member row ''requested_by'' = JStr (le_requested_by e) \<and>
     get_member row ''announcement_recipient'' = JStr (le_recipient e) \<and>
     get_member row ''announcement_rearm_event'' = JStr (le_rearm_event e)"
  unfolding validate_escalated_def
  by (auto simp: bindR_Inr_iff dest!: identifier_field_Inr split: if_splits)

lemma validate_lock_record_Inr:
  assumes "validate_lock_record tenant i (JObj row) = Inr r" "get_member row ''kind'' = JStr kind"
  shows "validate_body i kind (lr_timestamp r) row = Inr (lr_body r)"
proof -
  from assms obtain k where k: "safe_text i 64 ''kind'' (JStr kind) = Inr k"
    by (auto simp: validate_lock_record_def bindR_Inr_iff split: if_splits)
  then have "k = kind" by (auto dest: safe_text_Inr)
  then show ?thesis
    using assms k
    by (cases "map_of kind_table kind")
       (auto simp: validate_lock_record_def bindR_Inr_iff split: if_splits)
qed

lemma validate_handoff_Inr:
  assumes "validate_handoff i kind row = Inr body"
  shows "\<exists>b. get_member row ''handoff_id'' = JStr (hb_id b) \<and>
    (if kind = ''review_handoff_queued'' then body = HandoffQueued b
     else if kind = ''review_handoff_stopped'' then \<exists>n x. body = HandoffStopped b n x
     else if kind = ''review_handoff_rearmed'' then \<exists>x. body = HandoffRearmed b x
     else \<exists>x y. body = HandoffDelivered b x y)"
proof -
  from assms obtain b where b: "validate_handoff_binding i row = Inr b"
    by (auto simp: validate_handoff_def bindR_Inr_iff)
  then have "get_member row ''handoff_id'' = JStr (hb_id b)"
    by (auto simp: validate_handoff_binding_def bindR_Inr_iff dest!: identifier_field_Inr)
  then show ?thesis
    using assms b by (intro exI [of _ b]) (auto simp: validate_handoff_def bindR_Inr_iff)
qed

section \<open>The invariant\<close>

definition ann_ok :: "announcement_view \<Rightarrow> bool" where
  "ann_ok a \<longleftrightarrow>
     (av_status a = Delivered \<longleftrightarrow> av_receipt a \<noteq> None) \<and>
     (av_status a = Stopped \<longrightarrow> av_stopped_at a \<noteq> None \<and> 0 < av_attempts a)"

definition handoff_ok :: "handoff_view \<Rightarrow> bool" where
  "handoff_ok h \<longleftrightarrow>
     (hv_status h = Delivered \<longleftrightarrow> hv_receipt h \<noteq> None) \<and>
     (hv_status h = Stopped \<longrightarrow> hv_stopped_at h \<noteq> None \<and> 0 < hv_attempts h)"

fun body_ok :: "lock_body \<Rightarrow> bool" where
  "body_ok (AnnouncementStopped _ _ n _ _) = (0 < n)"
| "body_ok (HandoffStopped _ n _) = (0 < n)"
| "body_ok _ = True"

definition current_ann :: "lock_state \<Rightarrow> string \<Rightarrow> announcement_view option" where
  "current_ann s k = Option.bind (map_of (ls_locks s) k) lv_announcement"

lemma current_announcement_eq: "current_announcement s k = current_ann s k"
  by (simp add: current_announcement_def current_ann_def Option.bind_def split: option.splits)

definition links_inv :: "(string \<rightharpoonup> announcement_view) \<Rightarrow> (string \<times> announcement_view) list \<Rightarrow> bool" where
  "links_inv cur anns \<longleftrightarrow>
     (\<forall>k a. cur k = Some a \<longrightarrow> map_of anns (av_id a) = Some a) \<and>
     (\<forall>k l a b. cur k = Some a \<longrightarrow> cur l = Some b \<longrightarrow> av_id a = av_id b \<longrightarrow> k = l) \<and>
     (\<forall>k a. map_of anns k = Some a \<longrightarrow> av_id a = k \<and> ann_ok a)"

definition cars_inv :: "(string \<times> car_view) list \<Rightarrow> bool" where
  "cars_inv cars \<longleftrightarrow>
     distinct (map fst cars) \<and>
     (\<forall>n < length cars. cv_position (snd (cars ! n)) = n) \<and>
     (\<forall>(k, c) \<in> set cars. cv_id c = k \<and> (cv_state c = Queued \<longleftrightarrow> cv_product_ref c = None))"

definition handoffs_inv :: "(string \<times> handoff_view) list \<Rightarrow> bool" where
  "handoffs_inv hs \<longleftrightarrow>
     (\<forall>k h. map_of hs k = Some h \<longrightarrow> hb_id (hv_binding h) = k \<and> handoff_ok h)"

definition lock_inv :: "lock_state \<Rightarrow> bool" where
  "lock_inv s \<longleftrightarrow>
     (\<forall>k v. map_of (ls_locks s) k = Some v \<longrightarrow> lv_id v = k) \<and>
     links_inv (current_ann s) (ls_announcements s) \<and> cars_inv (ls_cars s) \<and>
     handoffs_inv (ls_handoffs s)"

definition car_le :: "car_view \<Rightarrow> car_view \<Rightarrow> bool" where
  "car_le c d \<longleftrightarrow>
     cv_id d = cv_id c \<and> cv_ref d = cv_ref c \<and> cv_ref_oid d = cv_ref_oid c \<and>
     cv_witness d = cv_witness c \<and> cv_position d = cv_position c \<and>
     (cv_state c \<noteq> Queued \<longrightarrow> cv_state d \<noteq> Queued) \<and>
     (cv_state c = Dissolved \<longrightarrow> cv_state d = Dissolved)"

definition ann_le :: "announcement_view \<Rightarrow> announcement_view \<Rightarrow> bool" where
  "ann_le a b \<longleftrightarrow>
     av_id b = av_id a \<and> av_recipient b = av_recipient a \<and> av_rearm_event b = av_rearm_event a \<and>
     (av_status a = Delivered \<longrightarrow> b = a)"

definition handoff_le :: "handoff_view \<Rightarrow> handoff_view \<Rightarrow> bool" where
  "handoff_le h k \<longleftrightarrow> hv_binding k = hv_binding h \<and> (hv_status h = Delivered \<longrightarrow> k = h)"

text \<open>The eight shapes of a successful row.\<close>

lemma apply_body_shape:
  assumes "apply_body i stamp body s = Inr t"
  obtains
    (acquired) k v where "map_of (ls_locks s) k = None" "lv_id v = k" "lv_announcement v = None"
      "t = s\<lparr>ls_locks := AList.update k v (ls_locks s)\<rparr>"
  | (escalated) k u a v where "map_of (ls_locks s) k = Some u" "lv_id v = k"
      "lv_announcement v = Some a" "map_of (ls_announcements s) (av_id a) = None"
      "av_status a = Pending" "av_receipt a = None"
      "lv_holder v = lv_escalation u"
      "timestamp_value (lv_expires u) \<le> timestamp_value stamp"
      "t = s\<lparr>ls_announcements := AList.update (av_id a) a (ls_announcements s),
             ls_locks := AList.update k v (ls_locks s)\<rparr>"
  | (announced) k u a b where "map_of (ls_locks s) k = Some u" "lv_announcement u = Some a"
      "av_status a \<noteq> Delivered" "av_id b = av_id a" "av_recipient b = av_recipient a"
      "av_rearm_event b = av_rearm_event a" "body_ok body \<longrightarrow> ann_ok a \<longrightarrow> ann_ok b"
      "t = put_announcement k b s"
  | (submitted) k c where "map_of (ls_cars s) k = None" "cv_id c = k" "cv_state c = Queued"
      "cv_product_ref c = None" "cv_position c = length (ls_cars s)"
      "t = s\<lparr>ls_cars := AList.update k c (ls_cars s)\<rparr>"
  | (car) k c d where "map_of (ls_cars s) k = Some c" "car_le c d"
      "(cv_state c = Queued \<longleftrightarrow> cv_product_ref c = None) \<longrightarrow>
       (cv_state d = Queued \<longleftrightarrow> cv_product_ref d = None)"
      "t = s\<lparr>ls_cars := AList.update k d (ls_cars s)\<rparr>"
  | (seat) k v where "map_of (ls_seats s) k = None"
      "t = s\<lparr>ls_seats := AList.update k v (ls_seats s)\<rparr>"
  | (queued) k h where "map_of (ls_handoffs s) k = None" "hb_id (hv_binding h) = k"
      "hv_status h = Pending" "hv_receipt h = None"
      "t = s\<lparr>ls_handoffs := AList.update k h (ls_handoffs s)\<rparr>"
  | (handoff) k h g where "map_of (ls_handoffs s) k = Some h" "hv_status h \<noteq> Delivered"
      "hv_binding g = hv_binding h" "body_ok body \<longrightarrow> handoff_ok h \<longrightarrow> handoff_ok g"
      "t = s\<lparr>ls_handoffs := AList.update k g (ls_handoffs s)\<rparr>"
proof (cases body)
  case (Acquired r)
  with assms show ?thesis
    by (intro acquired [of "la_lock r" "\<lparr>lv_id = la_lock r, lv_holder = la_holder r,
        lv_expires = la_expires r, lv_escalation = la_escalation r, lv_announcement = None\<rparr>"])
      (auto simp: apply_acquired_def simp del: map_of_eq_None_iff split: if_splits)
next
  case (Escalated r)
  let ?a = "\<lparr>av_id = le_announcement r, av_recipient = le_recipient r, av_status = Pending,
    av_rearm_event = le_rearm_event r, av_copy_key = escalation_copy_key, av_attempts = 0,
    av_stopped_at = None, av_receipt = None\<rparr>"
  let ?v = "\<lparr>lv_id = le_lock r, lv_holder = le_holder r, lv_expires = le_expires r,
    lv_escalation = le_escalation r, lv_announcement = Some ?a\<rparr>"
  from Escalated assms obtain u where "map_of (ls_locks s) (le_lock r) = Some u"
    "le_holder r = lv_escalation u" "timestamp_value (lv_expires u) \<le> timestamp_value stamp"
    "map_of (ls_announcements s) (le_announcement r) = None"
    "t = s\<lparr>ls_announcements := AList.update (le_announcement r) ?a (ls_announcements s),
           ls_locks := AList.update (le_lock r) ?v (ls_locks s)\<rparr>"
    by (auto simp: apply_escalated_def Let_def simp del: map_of_eq_None_iff
        split: option.splits if_splits)
  then show ?thesis by (intro escalated [of "le_lock r" u ?v ?a]) simp_all
next
  case (AnnouncementStopped k x n z y)
  with assms obtain a where "current_announcement s k = Some a" "av_status a = Pending"
    "t = put_announcement k (a\<lparr>av_status := Stopped, av_attempts := n, av_stopped_at := Some z\<rparr>) s"
    by (auto simp: apply_announcement_stopped_def split: option.splits if_splits)
  then obtain u where "map_of (ls_locks s) k = Some u" "lv_announcement u = Some a"
    "t = put_announcement k (a\<lparr>av_status := Stopped, av_attempts := n, av_stopped_at := Some z\<rparr>) s" "av_status a \<noteq> Delivered"
    by (auto simp: current_announcement_def split: option.splits)
  then show ?thesis
    by (intro announced [of k u a "a\<lparr>av_status := Stopped, av_attempts := n, av_stopped_at := Some z\<rparr>"]) (auto simp: AnnouncementStopped ann_ok_def)
next
  case (AnnouncementRearmed k x y)
  with assms obtain a where "current_announcement s k = Some a" "av_status a = Stopped"
    "t = put_announcement k (a\<lparr>av_status := Pending\<rparr>) s"
    by (auto simp: apply_announcement_rearmed_def split: option.splits if_splits)
  then obtain u where "map_of (ls_locks s) k = Some u" "lv_announcement u = Some a"
    "t = put_announcement k (a\<lparr>av_status := Pending\<rparr>) s" "av_status a \<noteq> Delivered"
    by (auto simp: current_announcement_def split: option.splits)
  then show ?thesis
    by (intro announced [of k u a "a\<lparr>av_status := Pending\<rparr>"]) (auto simp: AnnouncementRearmed ann_ok_def)
next
  case (AnnouncementDelivered k x y z)
  with assms obtain a where "current_announcement s k = Some a" "av_status a = Pending"
    "t = put_announcement k (a\<lparr>av_status := Delivered, av_receipt := Some (y, z)\<rparr>) s"
    by (auto simp: apply_announcement_delivered_def split: option.splits if_splits)
  then obtain u where "map_of (ls_locks s) k = Some u" "lv_announcement u = Some a"
    "t = put_announcement k (a\<lparr>av_status := Delivered, av_receipt := Some (y, z)\<rparr>) s" "av_status a \<noteq> Delivered"
    by (auto simp: current_announcement_def split: option.splits)
  then show ?thesis
    by (intro announced [of k u a "a\<lparr>av_status := Delivered, av_receipt := Some (y, z)\<rparr>"]) (auto simp: AnnouncementDelivered ann_ok_def)
next
  case (CarSubmitted k ref oid w)
  with assms show ?thesis
    by (intro submitted [of k "\<lparr>cv_id = k, cv_ref = ref, cv_ref_oid = oid, cv_witness = w,
        cv_measurement = None, cv_review = None, cv_position = length (ls_cars s),
        cv_state = Queued, cv_product_ref = None\<rparr>"]) (auto simp: apply_car_submitted_def simp del: map_of_eq_None_iff split: if_splits)
next
  case (CarMeasured k m)
  with assms obtain c where "map_of (ls_cars s) k = Some c"
    "t = s\<lparr>ls_cars := AList.update k (c\<lparr>cv_measurement := Some m\<rparr>) (ls_cars s)\<rparr>"
    by (auto simp: change_car_def split: option.splits if_splits)
  then show ?thesis by (intro car [of k c "c\<lparr>cv_measurement := Some m\<rparr>"]) (auto simp: car_le_def)
next
  case (CarReviewed k r)
  with assms obtain c where "map_of (ls_cars s) k = Some c"
    "t = s\<lparr>ls_cars := AList.update k (c\<lparr>cv_review := Some r\<rparr>) (ls_cars s)\<rparr>"
    by (auto simp: change_car_def split: option.splits if_splits)
  then show ?thesis by (intro car [of k c "c\<lparr>cv_review := Some r\<rparr>"]) (auto simp: car_le_def)
next
  case (CarLanded k ref oid tree m)
  with assms obtain c where "map_of (ls_cars s) k = Some c" "cv_state c \<noteq> Dissolved"
    "t = s\<lparr>ls_cars := AList.update k (c\<lparr>cv_state := Landed, cv_product_ref := Some ref\<rparr>) (ls_cars s)\<rparr>"
    by (auto simp: change_car_def land_car_def bindR_Inr_iff split: option.splits if_splits)
  then show ?thesis by (intro car [of k c "c\<lparr>cv_state := Landed, cv_product_ref := Some ref\<rparr>"]) (auto simp: car_le_def)
next
  case (CarDissolved k ref oid tree)
  with assms obtain c where "map_of (ls_cars s) k = Some c"
    "t = s\<lparr>ls_cars := AList.update k (c\<lparr>cv_state := Dissolved, cv_product_ref := Some ref\<rparr>) (ls_cars s)\<rparr>"
    by (auto simp: change_car_def split: option.splits if_splits)
  then show ?thesis by (intro car [of k c "c\<lparr>cv_state := Dissolved, cv_product_ref := Some ref\<rparr>"]) (auto simp: car_le_def)
next
  case (SeatProvisioned k hooks digest)
  with assms show ?thesis
    by (intro seat [of k "\<lparr>sv_id = k, sv_hooks = hooks, sv_digest = digest\<rparr>"]) (auto simp: apply_seat_def simp del: map_of_eq_None_iff split: if_splits)
next
  case (HandoffQueued b)
  with assms show ?thesis
    by (intro queued [of "hb_id b" "\<lparr>hv_binding = b, hv_status = Pending, hv_attempts = 0,
        hv_stopped_at = None, hv_receipt = None\<rparr>"]) (auto simp: apply_handoff_queued_def simp del: map_of_eq_None_iff split: if_splits)
next
  case (HandoffStopped b n x)
  with assms obtain h where "map_of (ls_handoffs s) (hb_id b) = Some h" "hv_status h \<noteq> Delivered"
    "hv_status h = Pending \<or> hv_status h = Stopped"
    "t = s\<lparr>ls_handoffs := AList.update (hb_id b) (h\<lparr>hv_status := Stopped, hv_attempts := n, hv_stopped_at := Some x\<rparr>) (ls_handoffs s)\<rparr>"
    by (auto simp: change_handoff_def stop_handoff_def bindR_Inr_iff split: option.splits if_splits)
  then show ?thesis
    by (intro handoff [of "hb_id b" h "h\<lparr>hv_status := Stopped, hv_attempts := n, hv_stopped_at := Some x\<rparr>"]) (auto simp: HandoffStopped handoff_ok_def)
next
  case (HandoffRearmed b x)
  with assms obtain h where "map_of (ls_handoffs s) (hb_id b) = Some h" "hv_status h \<noteq> Delivered"
    "hv_status h = Pending \<or> hv_status h = Stopped"
    "t = s\<lparr>ls_handoffs := AList.update (hb_id b) (h\<lparr>hv_status := Pending\<rparr>) (ls_handoffs s)\<rparr>"
    by (auto simp: change_handoff_def rearm_handoff_def bindR_Inr_iff split: option.splits if_splits)
  then show ?thesis
    by (intro handoff [of "hb_id b" h "h\<lparr>hv_status := Pending\<rparr>"]) (auto simp: HandoffRearmed handoff_ok_def)
next
  case (HandoffDelivered b x y)
  with assms obtain h where "map_of (ls_handoffs s) (hb_id b) = Some h" "hv_status h \<noteq> Delivered"
    "hv_status h = Pending \<or> hv_status h = Stopped"
    "t = s\<lparr>ls_handoffs := AList.update (hb_id b) (h\<lparr>hv_status := Delivered, hv_receipt := Some (x, y)\<rparr>) (ls_handoffs s)\<rparr>"
    by (auto simp: change_handoff_def deliver_handoff_def bindR_Inr_iff split: option.splits if_splits)
  then show ?thesis
    by (intro handoff [of "hb_id b" h "h\<lparr>hv_status := Delivered, hv_receipt := Some (x, y)\<rparr>"]) (auto simp: HandoffDelivered handoff_ok_def)
qed

text \<open>What the validator guarantees of a row's body beyond its type.\<close>

lemma succeeds_with_json [on_success]:
  "succeeds_with P m0 \<Longrightarrow> (\<And>x. succeeds_with P (m1 x)) \<Longrightarrow> (\<And>x. succeeds_with P (m2 x)) \<Longrightarrow>
   (\<And>x. succeeds_with P (m3 x)) \<Longrightarrow> (\<And>x. succeeds_with P (m4 x)) \<Longrightarrow> (\<And>x. succeeds_with P (m5 x)) \<Longrightarrow>
   (\<And>x. succeeds_with P (m6 x)) \<Longrightarrow>
   succeeds_with P (case v of JNull \<Rightarrow> m0 | JBool x \<Rightarrow> m1 x | JInt x \<Rightarrow> m2 x | JFloat x \<Rightarrow> m3 x
     | JStr x \<Rightarrow> m4 x | JArr x \<Rightarrow> m5 x | JObj x \<Rightarrow> m6 x)"
  by (cases v) simp_all

lemma positive_int_pos: "positive_int i code v = Inr n \<Longrightarrow> 0 < n"
  by (auto simp: positive_int_def split: json.splits if_splits)

lemma validate_body_ok: "succeeds_with body_ok (validate_body i kind stamp row)"
  unfolding validate_body_def validate_acquired_def validate_escalated_def
    validate_announcement_stopped_def validate_announcement_rearmed_def
    validate_announcement_delivered_def validate_car_submitted_def validate_measurement_def
    validate_car_reviewed_def validate_car_landed_def validate_car_dissolved_def
    validate_seat_def validate_handoff_def
  by (intro on_success; simp add: positive_int_pos)

lemma validate_lock_record_ok:
  "succeeds_with (\<lambda>row. body_ok (lr_body row)) (validate_lock_record tenant i raw)"
  unfolding validate_lock_record_def
  by (intro on_success) (simp add: succeeds_withD [OF validate_body_ok])

lemma put_announcement_simps:
  assumes "map_of (ls_locks s) k = Some u"
  shows "ls_locks (put_announcement k a s) = AList.update k (u\<lparr>lv_announcement := Some a\<rparr>) (ls_locks s)"
    "ls_announcements (put_announcement k a s) = AList.update (av_id a) a (ls_announcements s)"
    "ls_cars (put_announcement k a s) = ls_cars s"
    "ls_seats (put_announcement k a s) = ls_seats s"
    "ls_handoffs (put_announcement k a s) = ls_handoffs s"
  using assms by (simp_all add: put_announcement_def)

lemma nth_update_alist:
  assumes "map_of al k = Some v" "distinct (map fst al)" "n < length al"
  shows "AList.update k w al ! n = (if fst (al ! n) = k then (k, w) else al ! n)"
  using assms
proof (induction al arbitrary: n)
  case (Cons p al)
  obtain a b where p: "p = (a, b)" by (cases p)
  show ?case
  proof (cases n)
    case (Suc m)
    with Cons p show ?thesis by (auto split: if_splits dest: map_of_key simp: nth_mem)
  qed (simp add: p)
qed simp

lemma length_update: "length (AList.update k w al) = (if k \<in> fst ` set al then length al else Suc (length al))"
  by (induction al) auto

lemma links_invD:
  assumes "links_inv cur anns"
  shows "cur k = Some a \<Longrightarrow> map_of anns (av_id a) = Some a"
    "cur k = Some a \<Longrightarrow> cur l = Some b \<Longrightarrow> av_id a = av_id b \<Longrightarrow> k = l"
    "map_of anns k = Some a \<Longrightarrow> av_id a = k" "map_of anns k = Some a \<Longrightarrow> ann_ok a"
    "cur k = Some a \<Longrightarrow> ann_ok a"
  using assms unfolding links_inv_def by blast+

lemma links_escalate:
  assumes "links_inv cur anns" "map_of anns (av_id a) = None" "ann_ok a"
  shows "links_inv (cur(k \<mapsto> a)) (AList.update (av_id a) a anns)"
proof -
  have ne: "av_id b \<noteq> av_id a" if "cur l = Some b" for l b
    using links_invD(1) [OF assms(1) that] assms(2) by (metis option.distinct(1))
  show ?thesis
    unfolding links_inv_def map_of_update
  proof (intro conjI allI impI)
    fix l m c d
    assume "(cur(k \<mapsto> a)) l = Some c" "(cur(k \<mapsto> a)) m = Some d" "av_id c = av_id d"
    then show "l = m" using ne links_invD(2) [OF assms(1), of l c m d] by (auto split: if_splits)
  next
    fix l c assume "(cur(k \<mapsto> a)) l = Some c"
    then show "((map_of anns)(av_id a \<mapsto> a)) (av_id c) = Some c"
      using ne [of l c] links_invD(1) [OF assms(1), of l c] by (auto split: if_splits)
  next
    fix l c assume "((map_of anns)(av_id a \<mapsto> a)) l = Some c"
    then show "av_id c = l" "ann_ok c"
      using links_invD(3,4) [OF assms(1), of l c] assms(3) by (auto split: if_splits)
  qed
qed

lemma links_change:
  assumes "links_inv cur anns" "cur k = Some a" "av_id b = av_id a" "ann_ok b"
  shows "links_inv (cur(k \<mapsto> b)) (AList.update (av_id b) b anns)"
proof -
  have ne: "av_id c \<noteq> av_id b" if "cur l = Some c" "l \<noteq> k" for l c
    using links_invD(2) [OF assms(1,2) that(1)] that(2) assms(3) by metis
  show ?thesis
    unfolding links_inv_def map_of_update
  proof (intro conjI allI impI)
    fix l m c d
    assume "(cur(k \<mapsto> b)) l = Some c" "(cur(k \<mapsto> b)) m = Some d" "av_id c = av_id d"
    then show "l = m" using ne links_invD(2) [OF assms(1), of l c m d]
      by (cases "l = k"; cases "m = k") auto
  next
    fix l c assume "(cur(k \<mapsto> b)) l = Some c"
    then show "((map_of anns)(av_id b \<mapsto> b)) (av_id c) = Some c"
      using ne [of l c] links_invD(1) [OF assms(1), of l c] by (auto split: if_splits)
  next
    fix l c assume "((map_of anns)(av_id b \<mapsto> b)) l = Some c"
    then show "av_id c = l" "ann_ok c"
      using links_invD(3,4) [OF assms(1), of l c] assms(4) by (auto split: if_splits)
  qed
qed

lemma cars_add:
  assumes "cars_inv cars" "map_of cars k = None" "cv_id c = k" "cv_state c = Queued"
    "cv_product_ref c = None" "cv_position c = length cars"
  shows "cars_inv (AList.update k c cars)"
proof -
  have fresh: "k \<notin> fst ` set cars" using assms(2) by (simp add: map_of_eq_None_iff)
  then show ?thesis
    using assms by (auto simp: cars_inv_def update_fresh nth_append less_Suc_eq)
qed

lemma in_update: "p \<in> set (AList.update k v al) \<Longrightarrow> p = (k, v) \<or> p \<in> set al"
  by (induction al) (auto split: if_splits)

lemma cars_change:
  assumes inv: "cars_inv cars" and c: "map_of cars k = Some c" "car_le c d"
    "(cv_state c = Queued \<longleftrightarrow> cv_product_ref c = None) \<longrightarrow>
     (cv_state d = Queued \<longleftrightarrow> cv_product_ref d = None)"
  shows "cars_inv (AList.update k d cars)"
proof -
  have dist: "distinct (map fst cars)" using inv by (simp add: cars_inv_def)
  have key: "k \<in> fst ` set cars" using map_of_key [OF c(1)] .
  have mem: "(k, c) \<in> set cars" using c(1) by (rule map_of_SomeD)
  have "cv_position (snd (AList.update k d cars ! n)) = n" if n: "n < length (AList.update k d cars)" for n
  proof -
    have len: "n < length cars" using n key by (simp add: length_update)
    have e: "AList.update k d cars ! n = (if fst (cars ! n) = k then (k, d) else cars ! n)"
      by (rule nth_update_alist [OF c(1) dist len])
    have "snd (cars ! n) = c" if "fst (cars ! n) = k"
      using dist len c(1) that by (metis map_of_is_SomeI nth_mem option.inject prod.collapse)
    then show ?thesis
      using inv len c(2) by (auto simp: e cars_inv_def car_le_def)
  qed
  moreover have "\<forall>(k, c) \<in> set (AList.update k d cars).
      cv_id c = k \<and> (cv_state c = Queued \<longleftrightarrow> cv_product_ref c = None)"
    using inv mem c(2,3) by (fastforce simp: cars_inv_def car_le_def dest!: in_update)
  ultimately show ?thesis
    using dist key by (simp add: cars_inv_def keys_update)
qed

lemma lock_inv_body:
  assumes inv: "lock_inv s" and ok: "body_ok body" and step: "apply_body i stamp body s = Inr t"
  shows "lock_inv t"
  using step
proof (cases rule: apply_body_shape)
  case (acquired k v)
  have "current_ann t = current_ann s"
    using acquired by (auto simp: current_ann_def fun_eq_iff)
  then show ?thesis using inv acquired by (simp add: lock_inv_def)
next
  case (escalated k u a v)
  have "current_ann t = (current_ann s)(k \<mapsto> a)"
    using escalated by (auto simp: current_ann_def fun_eq_iff)
  moreover have "ann_ok a" using escalated by (simp add: ann_ok_def)
  ultimately show ?thesis using inv escalated by (simp add: lock_inv_def links_escalate)
next
  case (announced k u a b)
  have old: "current_ann s k = Some a" using announced by (simp add: current_ann_def)
  have cur: "current_ann t = (current_ann s)(k \<mapsto> b)"
    using announced by (auto simp: current_ann_def put_announcement_simps fun_eq_iff)
  have links: "links_inv (current_ann s) (ls_announcements s)" using inv by (simp add: lock_inv_def)
  have "ann_ok b" using announced(7) ok links_invD(5) [OF links old] by simp
  with links_change [OF links old announced(4)] inv cur announced show ?thesis
    by (simp add: lock_inv_def put_announcement_simps)
next
  case (submitted k c)
  have "current_ann t = current_ann s" using submitted by (simp add: current_ann_def fun_eq_iff)
  with submitted inv show ?thesis by (simp add: lock_inv_def cars_add)
next
  case (car k c d)
  have "current_ann t = current_ann s" using car by (simp add: current_ann_def fun_eq_iff)
  moreover have "cars_inv (AList.update k d (ls_cars s))"
    by (rule cars_change [OF _ car(1-3)]) (use inv in \<open>simp add: lock_inv_def\<close>)
  ultimately show ?thesis using car(4) inv by (simp add: lock_inv_def)
next
  case (seat k v)
  have "current_ann t = current_ann s" using seat by (simp add: current_ann_def fun_eq_iff)
  then show ?thesis using inv seat by (simp add: lock_inv_def)
next
  case (queued k h)
  have "current_ann t = current_ann s" using queued by (simp add: current_ann_def fun_eq_iff)
  then show ?thesis using inv queued by (auto simp: lock_inv_def handoffs_inv_def handoff_ok_def)
next
  case (handoff k h g)
  have "current_ann t = current_ann s" using handoff by (simp add: current_ann_def fun_eq_iff)
  then show ?thesis using inv ok handoff by (auto simp: lock_inv_def handoffs_inv_def)
qed

definition state_le :: "lock_state \<Rightarrow> lock_state \<Rightarrow> bool" where
  "state_le s t \<longleftrightarrow>
     dict_le (\<lambda>_ _. True) (ls_locks s) (ls_locks t) \<and>
     dict_le car_le (ls_cars s) (ls_cars t) \<and>
     dict_le ann_le (ls_announcements s) (ls_announcements t) \<and>
     dict_le (=) (ls_seats s) (ls_seats t) \<and>
     dict_le handoff_le (ls_handoffs s) (ls_handoffs t)"

lemma item_orders_refl [simp]: "car_le c c" "ann_le a a" "handoff_le h h"
  by (simp_all add: car_le_def ann_le_def handoff_le_def)

lemma car_le_trans: "car_le a b \<Longrightarrow> car_le b c \<Longrightarrow> car_le a c"
  by (auto simp: car_le_def)

lemma ann_le_trans: "ann_le a b \<Longrightarrow> ann_le b c \<Longrightarrow> ann_le a c"
  by (auto simp: ann_le_def)

lemma handoff_le_trans: "handoff_le a b \<Longrightarrow> handoff_le b c \<Longrightarrow> handoff_le a c"
  by (auto simp: handoff_le_def)

lemmas state_le_intros = dict_le_refl dict_le_update item_orders_refl

lemma state_le_refl: "reflp state_le"
  by (auto intro!: reflpI dict_le_refl simp: state_le_def)

lemma state_le_trans: "transp state_le"
  by (rule transpI)
     (auto simp: state_le_def elim: dict_le_trans [rotated 1] intro: car_le_trans ann_le_trans
       handoff_le_trans)

lemma state_le_body:
  assumes inv: "lock_inv s" and step: "apply_body i stamp body s = Inr t"
  shows "state_le s t"
  using step
proof (cases rule: apply_body_shape)
  case (announced k u a b)
  have "map_of (ls_announcements s) (av_id a) = Some a"
    by (rule links_invD(1) [of "current_ann s" _ k])
       (use inv announced(1,2) in \<open>simp_all add: lock_inv_def current_ann_def\<close>)
  with announced show ?thesis
    by (auto simp: state_le_def put_announcement_simps ann_le_def intro!: state_le_intros)
qed (auto simp: state_le_def handoff_le_def intro!: state_le_intros)

lemma lock_inv_row:
  assumes "lock_inv s" "apply_row tenant i s raw = Inr t"
  shows "lock_inv t" "state_le s t"
proof -
  from assms(2) obtain row u where u: "validate_lock_record tenant i raw = Inr row"
    "apply_body i (lr_timestamp row) (lr_body row) s = Inr u"
    "t = u\<lparr>ls_seen := lr_id row # ls_seen u, ls_records := ls_records u @ [row]\<rparr>"
    by (rule apply_row_Inr)
  have "lock_inv u"
    by (rule lock_inv_body [OF assms(1) _ u(2)]) (rule succeeds_withD [OF validate_lock_record_ok u(1)])
  moreover have "current_ann t = current_ann u" by (simp add: u(3) current_ann_def fun_eq_iff)
  ultimately show "lock_inv t" by (simp add: u(3) lock_inv_def)
  show "state_le s t"
    using state_le_body [OF assms(1) u(2)] by (simp add: u(3) state_le_def)
qed

interpretation locks: projection "apply_row tenant True" empty_locks "\<lambda>_. True" "\<lambda>_. lock_inv"
  for tenant
proof unfold_locales
  show "lock_inv empty_locks" by (simp add: lock_inv_def links_inv_def cars_inv_def handoffs_inv_def empty_locks_def current_ann_def)
qed (auto intro: lock_inv_row)

end
