(* ===== verification/Lock_Properties.thy ===== *)
theory Lock_Properties
  imports Lock_Queue Lock_Safety
begin

text \<open>
  The properties of the Locks ledger over the histories of its operations, of the patch
  queue built on it, and of the review handoffs; worked ledgers at the end.
\<close>

section \<open>Histories\<close>

text \<open>Every public operation of \<open>LockLedger\<close> that appends.  The queue and the handoff
  controller append through these.\<close>

inductive lock_op :: "string \<Rightarrow> (json \<Rightarrow> nat) \<Rightarrow> json list \<Rightarrow> json list \<Rightarrow> bool"
  for tenant flen where
  "acquire tenant flen uuid lock holder expires esc now rs = Inr (raw, rs') \<Longrightarrow> lock_op tenant flen rs rs'"
| "escalate tenant flen uuid uuid2 hook lock_id req now expires esc ev rs = Inr (raw, rs') \<Longrightarrow>
     lock_op tenant flen rs rs'"
| "stop_announcement tenant flen uuid lock_id n stopped ev rs = Inr (raw, rs') \<Longrightarrow> lock_op tenant flen rs rs'"
| "rearm_announcement tenant flen uuid lock_id ev now rs = Inr (raw, rs') \<Longrightarrow> lock_op tenant flen rs rs'"
| "record_announcement_delivery tenant flen uuid lock_id rid rd now rs = Inr (raw, rs') \<Longrightarrow>
     lock_op tenant flen rs rs'"
| "submit_car tenant flen uuid car ref oid w now rs = Inr (raw, rs') \<Longrightarrow> lock_op tenant flen rs rs'"
| "record_measurement tenant flen uuid car ref tree n f d now rs = Inr (raw, rs') \<Longrightarrow>
     lock_op tenant flen rs rs'"
| "ledger_record_review tenant flen uuid car v rank ref oid tree holds now rs = Inr (raw, rs') \<Longrightarrow>
     lock_op tenant flen rs rs'"
| "record_landed tenant flen uuid car ref oid tree method holds now rs = Inr (raw, rs') \<Longrightarrow>
     lock_op tenant flen rs rs'"
| "record_dissolved tenant flen uuid car ref oid tree holds now rs = Inr (raw, rs') \<Longrightarrow>
     lock_op tenant flen rs rs'"
| "record_seat_provisioned tenant flen uuid seat hooks d now rs = Inr (raw, rs') \<Longrightarrow>
     lock_op tenant flen rs rs'"
| "queue_review_handoff tenant flen uuid hid recipient car ref bref w ev now rs = Inr (raw, rs') \<Longrightarrow>
     lock_op tenant flen rs rs'"
| "stop_review_handoff tenant flen uuid handoff_id n stopped ev rs = Inr (raw, rs') \<Longrightarrow>
     lock_op tenant flen rs rs'"
| "rearm_review_handoff tenant flen uuid handoff_id ev now rs = Inr (raw, rs') \<Longrightarrow>
     lock_op tenant flen rs rs'"
| "record_review_handoff_delivery tenant flen uuid handoff_id rid rd now rs = Inr (raw, rs') \<Longrightarrow>
     lock_op tenant flen rs rs'"

definition lock_history :: "string \<Rightarrow> (json \<Rightarrow> nat) \<Rightarrow> json list \<Rightarrow> json list \<Rightarrow> bool" where
  "lock_history tenant flen = (lock_op tenant flen)\<^sup>*\<^sup>*"

lemma lock_op_appends:
  assumes "lock_op tenant flen rs rs'"
  shows "\<exists>hook build raw. append_lock tenant flen hook build rs = Inr (raw, rs')"
  using assms
  by cases (auto simp: acquire_def escalate_def stop_announcement_def rearm_announcement_def
      record_announcement_delivery_def submit_car_def record_measurement_def
      ledger_record_review_def record_landed_def record_dissolved_def record_seat_provisioned_def
      queue_review_handoff_def stop_review_handoff_def rearm_review_handoff_def
      record_review_handoff_delivery_def bindR_Inr_iff)

lemma lock_op_step:
  assumes "lock_op tenant flen rs rs'"
  obtains raw s s' where "rs' = rs @ [raw]" "locks_snapshot tenant flen rs = Inr s"
    "apply_row tenant True s raw = Inr s'" "locks_snapshot tenant flen rs' = Inr s'"
  using lock_op_appends [OF assms] by (metis append_lock_Inr)

lemma snapshot_inv: "locks_snapshot tenant flen rs = Inr s \<Longrightarrow> lock_inv s"
  using locks.replay_invar by (auto simp: locks_snapshot_Inr_iff from_records_def)

lemma lock_history_snapshot:
  assumes "lock_history tenant flen rs rs'" "locks_snapshot tenant flen rs = Inr s"
  shows "\<exists>s' suffix. locks_snapshot tenant flen rs' = Inr s' \<and> rs' = rs @ suffix"
  using assms(1) unfolding lock_history_def
proof (induction rule: rtranclp_induct)
  case base
  then show ?case using assms(2) by simp
next
  case (step y z)
  then show ?case by (metis append_assoc lock_op_step)
qed

lemma empty_snapshot: "locks_snapshot tenant flen [] = Inr empty_locks"
  by (simp add: locks_snapshot_Inr_iff read_unlocked_Inr_iff from_records_def locks_bytes_def)

lemma escalate_row:
  assumes "escalate tenant flen uuid uuid2 hook k req now expires esc ev rs = Inr (raw, rs')"
    and "locks_snapshot tenant flen rs = Inr s"
  obtains u v a s' where "map_of (ls_locks s) k = Some u" "req = JStr (lv_escalation u)"
    "timestamp_value (lv_expires u) \<le> timestamp_value (lr_timestamp (last (ls_records s')))"
    "locks_snapshot tenant flen rs' = Inr s'" "map_of (ls_locks s') k = Some v"
    "lv_holder v = lv_escalation u" "lv_announcement v = Some a"
    "av_recipient a = lv_holder u" "av_status a = Pending" "ev = JStr (av_rearm_event a)"
proof -
  from assms obtain s' where raw: "apply_row tenant True s raw = Inr s'"
    and s': "locks_snapshot tenant flen rs' = Inr s'"
    and b: "(case map_of (ls_locks s) k of
         None \<Rightarrow> Inl (ProtocolRefusal ''lock_missing'')
       | Some current \<Rightarrow> Inr (lock_json tenant uuid ''lock_escalated'' now
           [(''lock_id'', JStr k), (''prior_holder'', JStr (lv_holder current)),
            (''prior_expires_at'', JStr (lv_expires current)), (''requested_by'', req),
            (''holder'', req), (''expires_at'', expires),
            (''escalation_holder'', esc),
            (''announcement_id'', JStr (''lock-announcement-'' @ uuid2)),
            (''announcement_recipient'', JStr (lv_holder current)),
            (''announcement_status'', JStr ''pending''), (''announcement_rearm_event'', ev),
            (''copy_key'', JStr ''[[locks.escalation.action_taken_not_role]]'')])) = Inr raw"
    unfolding escalate_def by (elim append_lock_Inr) auto
  from b obtain u where u: "map_of (ls_locks s) k = Some u" by (auto split: option.splits)
  from raw obtain row t where row: "validate_lock_record tenant True raw = Inr row"
    "apply_body True (lr_timestamp row) (lr_body row) s = Inr t"
    "s' = t\<lparr>ls_seen := lr_id row # ls_seen t, ls_records := ls_records t @ [row]\<rparr>"
    by (rule apply_row_Inr)
  have "\<exists>own. raw = JObj own \<and> get_member own ''kind'' = JStr ''lock_escalated'' \<and>
    get_member own ''lock_id'' = JStr k \<and> get_member own ''requested_by'' = req \<and>
    get_member own ''announcement_recipient'' = JStr (lv_holder u) \<and>
    get_member own ''announcement_rearm_event'' = ev"
    using b u by (auto simp: lock_json_def get_member_def)
  then obtain own where own: "raw = JObj own" "get_member own ''kind'' = JStr ''lock_escalated''"
    "get_member own ''lock_id'' = JStr k" "get_member own ''requested_by'' = req"
    "get_member own ''announcement_recipient'' = JStr (lv_holder u)"
    "get_member own ''announcement_rearm_event'' = ev" by blast
  have "validate_escalated True (lr_timestamp row) own = Inr (lr_body row)"
    using validate_lock_record_Inr [of tenant True own row] row(1) own(1,2)
    by (simp add: validate_body_def)
  from validate_escalated_Inr [OF this] obtain e where e: "lr_body row = Escalated e"
    "le_lock e = k" "req = JStr (le_requested_by e)" "le_recipient e = lv_holder u"
    "ev = JStr (le_rearm_event e)" using own by auto
  from row(2) u show thesis
    by (intro that [OF u _ _ s'])
       (auto simp: e apply_escalated_def Let_def row(3) split: if_splits)
qed

section \<open>Properties of the ledger\<close>

text \<open>C22: every ledger the fifteen append operations can produce is accepted by the reader and
  replays; in the replayed state submission positions are the order of submission, a car
  has a product ref exactly when it has left the queue, the announcement a lock shows is
  the one on record, and announcements and handoffs are delivered exactly when they carry a
  receipt.\<close>

theorem locks_ledger_sound:
  assumes "lock_history tenant flen [] rs"
  shows "\<exists>s. locks_snapshot tenant flen rs = Inr s \<and>
    distinct (map fst (ls_cars s)) \<and> map (cv_position \<circ> snd) (ls_cars s) = [0..<length (ls_cars s)] \<and>
    (\<forall>(k, c) \<in> set (ls_cars s). cv_id c = k \<and> (cv_state c = Queued \<longleftrightarrow> cv_product_ref c = None)) \<and>
    (\<forall>k a. current_announcement s k = Some a \<longrightarrow> map_of (ls_announcements s) (av_id a) = Some a) \<and>
    (\<forall>k a. map_of (ls_announcements s) k = Some a \<longrightarrow> (av_status a = Delivered \<longleftrightarrow> av_receipt a \<noteq> None)) \<and>
    (\<forall>k h. map_of (ls_handoffs s) k = Some h \<longrightarrow> (hv_status h = Delivered \<longleftrightarrow> hv_receipt h \<noteq> None))"
proof -
  from lock_history_snapshot [OF assms empty_snapshot] obtain s where
    s: "locks_snapshot tenant flen rs = Inr s" by blast
  then have inv: "lock_inv s" by (rule snapshot_inv)
  then have links: "links_inv (current_ann s) (ls_announcements s)" and cars: "cars_inv (ls_cars s)"
    and hs: "handoffs_inv (ls_handoffs s)" by (simp_all add: lock_inv_def)
  have "map (cv_position \<circ> snd) (ls_cars s) = [0..<length (ls_cars s)]"
    using cars by (auto simp: cars_inv_def intro: nth_equalityI)
  moreover have "av_status a = Delivered \<longleftrightarrow> av_receipt a \<noteq> None"
    if "map_of (ls_announcements s) k = Some a" for k a
    using links_invD(4) [OF links that] by (simp add: ann_ok_def)
  ultimately show ?thesis
    using s cars hs links_invD(1) [OF links]
    by (intro exI [of _ s]) (auto simp: cars_inv_def handoffs_inv_def handoff_ok_def
        current_announcement_eq)
qed

text \<open>C23: along any history entries never disappear: a car keeps its ref, object id, witness
  and queue position, never returns to the queue and stays dissolved once dissolved (its product
  ref, review and measurement may still change); an announcement keeps its recipient and re-arm
  event and a handoff its whole binding, and once delivered neither changes again; a seat never
  changes.\<close>

theorem locks_history_monotone:
  assumes "lock_history tenant flen [] rs" "lock_history tenant flen rs rs'"
    and "locks_snapshot tenant flen rs = Inr s" "locks_snapshot tenant flen rs' = Inr s'"
  shows "state_le s s'"
proof -
  from lock_history_snapshot [OF assms(2,3)] obtain suffix where suffix: "rs' = rs @ suffix" by blast
  have "replay (apply_row tenant True) empty_locks rs = Inr s"
    "replay (apply_row tenant True) empty_locks rs' = Inr s'"
    using assms(3,4) by (simp_all add: locks_snapshot_Inr_iff from_records_def)
  then have "replay (apply_row tenant True) s suffix = Inr s'"
    "replay (apply_row tenant True) empty_locks rs = Inr s"
    by (simp_all add: suffix replay_append)
  moreover have "state_le x y" if "lock_inv x" "apply_row tenant True x r = Inr y" for x y r
    by (rule lock_inv_row(2) [OF that])
  ultimately show ?thesis
    using locks.replay_relates [where R = state_le and tenant = tenant and xs = rs and ys = suffix
        and u = s and s = s'] state_le_refl state_le_trans by blast
qed

text \<open>C4: one operation changes the holder or the expiry of an existing lock only as an
  escalation: the new holder is the escalation holder the lock named, the row is dated at
  or after the old expiry, and a fresh pending announcement is left behind.\<close>

theorem lock_taken_over_only_by_escalation:
  assumes "lock_op tenant flen rs rs'"
    and "locks_snapshot tenant flen rs = Inr s" "locks_snapshot tenant flen rs' = Inr s'"
    and "map_of (ls_locks s) k = Some u" "map_of (ls_locks s') k = Some v"
    and "lv_holder v \<noteq> lv_holder u \<or> lv_expires v \<noteq> lv_expires u"
  shows "lv_holder v = lv_escalation u \<and>
    timestamp_value (lv_expires u) \<le> timestamp_value (lr_timestamp (last (ls_records s'))) \<and>
    (\<exists>a. lv_announcement v = Some a \<and> av_status a = Pending \<and>
       map_of (ls_announcements s) (av_id a) = None)"
proof -
  from assms(1) obtain raw x y where "locks_snapshot tenant flen rs = Inr x"
    "apply_row tenant True x raw = Inr y" "locks_snapshot tenant flen rs' = Inr y"
    by (rule lock_op_step)
  with assms(2,3) have "apply_row tenant True s raw = Inr s'" by simp
  then obtain row t where t: "apply_body True (lr_timestamp row) (lr_body row) s = Inr t"
    "s' = t\<lparr>ls_seen := lr_id row # ls_seen t, ls_records := ls_records t @ [row]\<rparr>"
    by (rule apply_row_Inr)
  from t(1) show ?thesis
  proof (cases rule: apply_body_shape)
    case (acquired l w)
    with assms(4-6) t(2) show ?thesis by (auto split: if_splits)
  next
    case (escalated l w a x)
    with assms(4-6) t(2) show ?thesis by (auto split: if_splits)
  next
    case (announced l w a b)
    with assms(4-6) t(2) show ?thesis by (auto simp: put_announcement_simps split: if_splits)
  qed (use assms(4-6) t(2) in auto)
qed

text \<open>What a successful escalation does: the requester is the escalation holder named by
  the lock, the lock is expired by the row's own date, the requester becomes the holder, and
  the announcement left pending is addressed to the holder it displaced and can only be
  re-armed by the event given.\<close>

theorem escalation_effect:
  assumes "escalate tenant flen uuid uuid2 hook k req now expires esc ev rs = Inr (raw, rs')"
    and "locks_snapshot tenant flen rs = Inr s"
  shows "\<exists>u v a s'. map_of (ls_locks s) k = Some u \<and> req = JStr (lv_escalation u) \<and>
    timestamp_value (lv_expires u) \<le> timestamp_value (lr_timestamp (last (ls_records s'))) \<and>
    locks_snapshot tenant flen rs' = Inr s' \<and> map_of (ls_locks s') k = Some v \<and>
    lv_holder v = lv_escalation u \<and> lv_announcement v = Some a \<and>
    av_recipient a = lv_holder u \<and> av_status a = Pending \<and> ev = JStr (av_rearm_event a)"
  using escalate_row [OF assms] by metis

lemma handoff_row_blocked:
  assumes "append_lock tenant flen hook (with_handoff h build) rs = Inr r"
    and build: "\<And>v raw. build v = Inr raw \<Longrightarrow>
      \<exists>own kind. raw = JObj own \<and> get_member own ''kind'' = JStr kind \<and>
        kind \<in> {''review_handoff_stopped'', ''review_handoff_rearmed'', ''review_handoff_delivered''} \<and>
        get_member own ''handoff_id'' = JStr (hb_id (hv_binding v))"
    and "locks_snapshot tenant flen rs = Inr s" "map_of (ls_handoffs s) h = Some v"
  shows "hv_status v \<noteq> Delivered"
proof -
  obtain raw rs' where r: "r = (raw, rs')" by (cases r)
  from assms(1,3,4) r obtain s' where raw: "apply_row tenant True s raw = Inr s'" "build v = Inr raw"
    by (auto elim!: append_lock_Inr simp: with_handoff_def)
  have h: "hb_id (hv_binding v) = h"
    using snapshot_inv [OF assms(3)] assms(4) by (auto simp: lock_inv_def handoffs_inv_def)
  from build [OF raw(2)] obtain own kind where own: "raw = JObj own" "get_member own ''kind'' = JStr kind"
    "kind \<in> {''review_handoff_stopped'', ''review_handoff_rearmed'', ''review_handoff_delivered''}"
    "get_member own ''handoff_id'' = JStr h" using h by metis
  from raw(1) obtain row t where row: "validate_lock_record tenant True raw = Inr row"
    "apply_body True (lr_timestamp row) (lr_body row) s = Inr t" by (rule apply_row_Inr)
  have "validate_handoff True kind own = Inr (lr_body row)"
    using validate_lock_record_Inr [OF row(1) [unfolded own(1)] own(2)] own(3)
    by (auto simp: validate_body_def)
  from validate_handoff_Inr [OF this] own(3,4) obtain b where "hb_id b = h"
    "(\<exists>n x. lr_body row = HandoffStopped b n x) \<or> (\<exists>x. lr_body row = HandoffRearmed b x) \<or>
     (\<exists>x y. lr_body row = HandoffDelivered b x y)" by auto
  with row(2) assms(4) show ?thesis
    by (auto simp: change_handoff_def stop_handoff_def rearm_handoff_def deliver_handoff_def
        bindR_Inr_iff split: if_splits)
qed

text \<open>A delivered review handoff is final: whatever the arguments, stopping it, re-arming it
  and delivering it again all fail.\<close>

theorem delivered_handoff_final:
  assumes "locks_snapshot tenant flen rs = Inr s" "map_of (ls_handoffs s) h = Some v"
    and "hv_status v = Delivered"
  shows "stop_review_handoff tenant flen uuid h n stopped ev rs \<noteq> Inr r \<and>
    rearm_review_handoff tenant flen uuid h ev now rs \<noteq> Inr r \<and>
    record_review_handoff_delivery tenant flen uuid h rid rd now rs \<noteq> Inr r"
proof (intro conjI notI)
  assume "stop_review_handoff tenant flen uuid h n stopped ev rs = Inr r"
  then show False
    unfolding stop_review_handoff_def
    by (rule handoff_row_blocked [OF _ _ assms(1,2), THEN notE, OF _ _ assms(3)])
       (auto simp: lock_json_def get_member_def handoff_fields_def split: if_splits)
next
  assume "rearm_review_handoff tenant flen uuid h ev now rs = Inr r"
  then show False
    unfolding rearm_review_handoff_def
    by (rule handoff_row_blocked [OF _ _ assms(1,2), THEN notE, OF _ _ assms(3)])
       (auto simp: lock_json_def get_member_def handoff_fields_def split: if_splits)
next
  assume "record_review_handoff_delivery tenant flen uuid h rid rd now rs = Inr r"
  then have "append_lock tenant flen (Inr ()) (with_handoff h (\<lambda>h.
         Inr (lock_json tenant uuid ''review_handoff_delivered'' now
           (handoff_fields (hv_binding h) @
            [(''status'', JStr ''delivered''), (''receipt_id'', rid),
             (''receipt_digest'', rd)])))) rs = Inr r"
    by (auto simp: record_review_handoff_delivery_def bindR_Inr_iff)
  then show False
    by (rule handoff_row_blocked [OF _ _ assms(1,2), THEN notE, OF _ _ assms(3)])
       (auto simp: lock_json_def get_member_def handoff_fields_def)
qed

section \<open>Properties of the patch queue\<close>

lemma first_mergeable_Inr:
  assumes "first_mergeable env git rs target cars = Inr sel"
  obtains pre car post where "cars = pre @ car # post" "cs_car sel = cv_id car"
    "cs_ref sel = cv_ref car" "cs_rank sel = car_rank car"
    "review_status env git rs (cv_id car) target = Inr (cs_status sel)" "mergeable (cs_status sel)"
    "\<forall>c \<in> set pre. \<exists>st. review_status env git rs (cv_id c) target = Inr st \<and> \<not> mergeable st"
  using assms
proof (induction cars arbitrary: thesis)
  case Nil
  then show ?case by simp
next
  case (Cons c cars)
  from Cons.prems(2) obtain st where st: "review_status env git rs (cv_id c) target = Inr st"
    by (auto simp: bindR_Inr_iff)
  show ?case
  proof (cases "mergeable st")
    case True
    with Cons.prems(2) st show ?thesis by (intro Cons.prems(1) [of "[]"]) auto
  next
    case False
    with Cons.prems(2) st have "first_mergeable env git rs target cars = Inr sel" by simp
    from Cons.IH [OF _ this] obtain pre car post where "cars = pre @ car # post" "cs_car sel = cv_id car"
      "cs_ref sel = cv_ref car" "cs_rank sel = car_rank car"
      "review_status env git rs (cv_id car) target = Inr (cs_status sel)" "mergeable (cs_status sel)"
      "\<forall>c \<in> set pre. \<exists>st. review_status env git rs (cv_id c) target = Inr st \<and> \<not> mergeable st" by metis
    with False st show ?thesis by (intro Cons.prems(1) [of "c # pre"]) auto
  qed
qed

lemma sort_key_before:
  assumes "sort_key f xs = pre @ x # post" "y \<in> set xs" "f y < f x"
  shows "y \<in> set pre"
proof -
  have "sorted (map f (pre @ x # post))" by (metis assms(1) sorted_sort_key)
  then have "\<forall>z \<in> set (x # post). f x \<le> f z" by (auto simp: sorted_append)
  moreover have "y \<in> set (pre @ x # post)" by (metis assms(1,2) set_sort)
  ultimately show ?thesis using assms(3) by (auto simp: not_le)
qed

lemma select_next_Inr:
  assumes "select_next env git rs target = Inr sel"
  obtains s car where "locks_snapshot (qe_tenant env) (qe_flen env) rs = Inr s"
    "map_of (ls_cars s) (cs_car sel) = Some car" "cv_state car = Queued" "cv_review car \<noteq> None"
    "cs_ref sel = cv_ref car" "cs_rank sel = car_rank car"
    "review_status env git rs (cs_car sel) target = Inr (cs_status sel)" "mergeable (cs_status sel)"
    "\<forall>k c. map_of (ls_cars s) k = Some c \<and> cv_state c = Queued \<and> cv_review c \<noteq> None \<and>
       (car_rank car < car_rank c \<or> car_rank c = car_rank car \<and> cv_position c < cv_position car) \<longrightarrow>
       (\<exists>st. review_status env git rs k target = Inr st \<and> \<not> mergeable st)"
proof -
  let ?key = "\<lambda>car. (- car_rank car, int (cv_position car))"
  from assms obtain s where s: "locks_snapshot (qe_tenant env) (qe_flen env) rs = Inr s"
    and fm: "first_mergeable env git rs target (ranked_cars s) = Inr sel"
    by (auto simp: select_next_def bindR_Inr_iff)
  have cars: "cars_inv (ls_cars s)" using snapshot_inv [OF s] by (simp add: lock_inv_def)
  from fm obtain pre car post where split: "ranked_cars s = pre @ car # post"
    and sel: "cs_car sel = cv_id car" "cs_ref sel = cv_ref car" "cs_rank sel = car_rank car"
      "review_status env git rs (cv_id car) target = Inr (cs_status sel)" "mergeable (cs_status sel)"
    and pre: "\<forall>c \<in> set pre. \<exists>st. review_status env git rs (cv_id c) target = Inr st \<and> \<not> mergeable st"
    by (rule first_mergeable_Inr)
  have "car \<in> set (ranked_cars s)" by (simp add: split)
  then obtain k where k: "(k, car) \<in> set (ls_cars s)" "cv_review car \<noteq> None" "cv_state car = Queued"
    by (auto simp: ranked_cars_def)
  with cars have id: "cv_id car = k" "map_of (ls_cars s) k = Some car"
    by (auto simp: cars_inv_def)
  have better: "\<exists>st. review_status env git rs l target = Inr st \<and> \<not> mergeable st"
    if "map_of (ls_cars s) l = Some c" "cv_state c = Queued" "cv_review c \<noteq> None"
      "car_rank car < car_rank c \<or> car_rank c = car_rank car \<and> cv_position c < cv_position car" for l c
  proof -
    have mem: "(l, c) \<in> set (ls_cars s)" using that(1) by (rule map_of_SomeD)
    have "c \<in> set pre"
      by (rule sort_key_before [where f = ?key, OF split [unfolded ranked_cars_def]])
         (use mem that in force, use that(4) in auto)
    moreover have "cv_id c = l" using cars mem by (auto simp: cars_inv_def)
    ultimately show ?thesis using pre by auto
  qed
  show thesis
    by (rule that [OF s]) (use sel id k better in auto)
qed

text \<open>C24: \<open>select_next\<close> answers with a queued, reviewed car whose review still stands on the
  target; every queued, reviewed car of higher rank, or of the same rank submitted earlier,
  was looked at and found not mergeable.\<close>

theorem select_next_best:
  assumes "select_next env git rs target = Inr sel"
  shows "\<exists>s car. locks_snapshot (qe_tenant env) (qe_flen env) rs = Inr s \<and>
    map_of (ls_cars s) (cs_car sel) = Some car \<and> cv_state car = Queued \<and>
    cs_ref sel = cv_ref car \<and> cs_rank sel = car_rank car \<and>
    review_status env git rs (cs_car sel) target = Inr (cs_status sel) \<and> mergeable (cs_status sel) \<and>
    (\<forall>k c. map_of (ls_cars s) k = Some c \<and> cv_state c = Queued \<and> cv_review c \<noteq> None \<and>
       (car_rank car < car_rank c \<or> car_rank c = car_rank car \<and> cv_position c < cv_position car) \<longrightarrow>
       (\<exists>st. review_status env git rs k target = Inr st \<and> \<not> mergeable st))"
  by (rule select_next_Inr [OF assms]) blast

lemma validate_car_landed_Inr:
  "validate_car_landed i row = Inr body \<Longrightarrow>
   \<exists>car ref oid tree m. body = CarLanded car ref oid tree m \<and> get_member row ''car_id'' = JStr car \<and>
     get_member row ''target_ref'' = JStr ref"
  unfolding validate_car_landed_def validate_full_ref_def
  by (auto simp: bindR_Inr_iff dest!: identifier_field_Inr safe_text_Inr split: json.splits if_splits)

lemma record_landed_effect:
  assumes "record_landed tenant flen uuid (JStr car) (JStr ref) oid tree method holds now rs = Inr (raw, rs')"
    and "locks_snapshot tenant flen rs = Inr s"
  obtains c s' where "map_of (ls_cars s) car = Some c" "cv_state c \<noteq> Dissolved"
    "locks_snapshot tenant flen rs' = Inr s'"
    "map_of (ls_cars s') car = Some (c\<lparr>cv_state := Landed, cv_product_ref := Some ref\<rparr>)"
proof -
  from assms obtain s' where s': "locks_snapshot tenant flen rs' = Inr s'"
    and raw: "apply_row tenant True s raw = Inr s'"
      "lock_json tenant uuid ''car_landed'' now
       [(''car_id'', JStr car), (''target_ref'', JStr ref), (''target_oid'', oid),
        (''target_tree'', tree), (''method'', method), (''witness_holds'', holds)] = raw"
    unfolding record_landed_def by (elim append_lock_Inr) auto
  from raw(1) obtain row t where row: "validate_lock_record tenant True raw = Inr row"
    "apply_body True (lr_timestamp row) (lr_body row) s = Inr t"
    "s' = t\<lparr>ls_seen := lr_id row # ls_seen t, ls_records := ls_records t @ [row]\<rparr>"
    by (rule apply_row_Inr)
  have "\<exists>own. raw = JObj own \<and> get_member own ''kind'' = JStr ''car_landed'' \<and>
    get_member own ''car_id'' = JStr car \<and> get_member own ''target_ref'' = JStr ref"
    using raw(2) by (auto simp: lock_json_def get_member_def)
  then obtain own where own: "raw = JObj own" "get_member own ''kind'' = JStr ''car_landed''"
    "get_member own ''car_id'' = JStr car" "get_member own ''target_ref'' = JStr ref" by blast
  have "validate_car_landed True own = Inr (lr_body row)"
    using validate_lock_record_Inr [OF row(1) [unfolded own(1)] own(2)] by (simp add: validate_body_def)
  from validate_car_landed_Inr [OF this] own obtain o2 t2 m2 where
    "lr_body row = CarLanded car ref o2 t2 m2" by auto
  with row(2) obtain c where c: "map_of (ls_cars s) car = Some c" "cv_state c \<noteq> Dissolved"
    "t = s\<lparr>ls_cars := AList.update car (c\<lparr>cv_state := Landed, cv_product_ref := Some ref\<rparr>) (ls_cars s)\<rparr>"
    by (auto simp: change_car_def land_car_def bindR_Inr_iff split: option.splits if_splits)
  show thesis by (rule that [OF c(1,2) s']) (simp add: row(3) c(3))
qed

text \<open>C25: \<open>land_next\<close> records a landing only after the executor ran on the plan for the car
  \<open>select_next\<close> had chosen, and only if that car's content witness then holds on the target in
  the repository the executor left; afterwards the car is landed on the target's ref, and a
  dissolved car can never be landed.\<close>

theorem land_next_verified:
  assumes "land_next env git uuid target_ref executor method now rs = Inr (raw, rs')"
  shows "\<exists>target sel git' rs1 s car obs s'.
    target_ref = JStr target \<and> select_next env git rs target_ref = Inr sel \<and>
    executor \<lparr>lp_car = cs_car sel, lp_car_ref = cs_ref sel, lp_target = target, lp_method = method\<rparr>
      = Inr (git', rs1) \<and>
    locks_snapshot (qe_tenant env) (qe_flen env) rs1 = Inr s \<and>
    map_of (ls_cars s) (cs_car sel) = Some car \<and> cv_state car \<noteq> Dissolved \<and>
    observe_witness env git' target_ref car = Inr obs \<and> wr_holds obs \<and>
    locks_snapshot (qe_tenant env) (qe_flen env) rs' = Inr s' \<and>
    map_of (ls_cars s') (cs_car sel)
      = Some (car\<lparr>cv_state := Landed, cv_product_ref := Some (gr_ref (wr_ref obs))\<rparr>)"
proof -
  from assms obtain target sel git' rs1 s where
    t: "validate_full_ref False ''car_ref_required'' ''target_ref'' target_ref = Inr target"
    and sel: "select_next env git rs (JStr target) = Inr sel"
    and ex: "executor \<lparr>lp_car = cs_car sel, lp_car_ref = cs_ref sel, lp_target = target,
        lp_method = method\<rparr> = Inr (git', rs1)"
    and s: "locks_snapshot (qe_tenant env) (qe_flen env) rs1 = Inr s"
    by (auto simp: land_next_def bindR_Inr_iff split: if_splits)
  have target: "target_ref = JStr target"
    using t by (auto simp: validate_full_ref_def bindR_Inr_iff dest!: safe_text_Inr
        split: json.splits if_splits)
  from assms t sel ex s obtain car obs where
    car: "map_of (ls_cars s) (cs_car sel) = Some car"
    and obs: "observe_witness env git' (JStr target) car = Inr obs" "wr_holds obs"
    and rec: "record_landed (qe_tenant env) (qe_flen env) uuid (JStr (cs_car sel))
       (JStr (gr_ref (wr_ref obs))) (JStr (gr_oid (wr_ref obs))) (JStr (gr_tree (wr_ref obs)))
       (JStr method) (JBool True) now rs1 = Inr (raw, rs')"
    by (auto simp: land_next_def bindR_Inr_iff split: if_splits option.splits)
  from record_landed_effect [OF rec s] car obtain s' where "cv_state car \<noteq> Dissolved"
    "locks_snapshot (qe_tenant env) (qe_flen env) rs' = Inr s'"
    "map_of (ls_cars s') (cs_car sel)
      = Some (car\<lparr>cv_state := Landed, cv_product_ref := Some (gr_ref (wr_ref obs))\<rparr>)" by auto
  with target sel ex s car obs show ?thesis by auto
qed

end
