(* ===== verification/Lock_Examples.thy ===== *)
theory Lock_Examples
  imports Lock_Properties
begin

text \<open>
  Worked Locks ledgers on which the properties of the Locks components are applied: a lock
  that is acquired and taken over, a handoff that is queued and delivered, and a car that
  is submitted, reviewed and landed.
\<close>

definition jlen :: "json \<Rightarrow> nat" where "jlen _ = 500"

lemma small_ledger:
  assumes "length records \<le> 3"
  shows "jlen raw \<le> MAX_RECORD_BYTES" "length records < MAX_LEDGER_RECORDS"
    "locks_bytes jlen records + jlen raw \<le> MAX_LEDGER_BYTES"
proof -
  have "locks_bytes jlen records = 500 * length records"
    by (induction records) (simp_all add: locks_bytes_def jlen_def)
  with assms show "jlen raw \<le> MAX_RECORD_BYTES" "length records < MAX_LEDGER_RECORDS"
    "locks_bytes jlen records + jlen raw \<le> MAX_LEDGER_BYTES"
    by (simp_all add: jlen_def MAX_RECORD_BYTES_def MAX_LEDGER_RECORDS_def MAX_LEDGER_BYTES_def)
qed

section \<open>A lock taken over\<close>

definition lock_row1 :: json where
  "lock_row1 = lock_json ''t'' ''01890000000070008000000000000001'' ''lock_acquired''
     (JStr ''2026-01-01T12:00:00Z'')
     [(''lock_id'', JStr ''main''), (''holder'', JStr ''ann''),
      (''expires_at'', JStr ''2026-01-01T12:00:10Z''), (''escalation_holder'', JStr ''bob'')]"

definition lock_row2 :: json where
  "lock_row2 = lock_json ''t'' ''01890000000070008000000000000002'' ''lock_escalated''
     (JStr ''2026-01-01T12:00:20Z'')
     [(''lock_id'', JStr ''main''), (''prior_holder'', JStr ''ann''),
      (''prior_expires_at'', JStr ''2026-01-01T12:00:10Z''), (''requested_by'', JStr ''bob''),
      (''holder'', JStr ''bob''), (''expires_at'', JStr ''2026-01-01T13:00:00Z''),
      (''escalation_holder'', JStr ''ann''),
      (''announcement_id'', JStr ''lock-announcement-01890000000070008000000000000003''),
      (''announcement_recipient'', JStr ''ann''), (''announcement_status'', JStr ''pending''),
      (''announcement_rearm_event'', JStr ''wake''),
      (''copy_key'', JStr ''[[locks.escalation.action_taken_not_role]]'')]"

definition body1 :: lock_acquired where
  "body1 = \<lparr>la_lock = ''main'', la_holder = ''ann'', la_expires = ''2026-01-01T12:00:10Z'',
     la_escalation = ''bob''\<rparr>"

definition body2 :: lock_escalated where
  "body2 = \<lparr>le_lock = ''main'', le_prior_holder = ''ann'', le_prior_expires = ''2026-01-01T12:00:10Z'',
     le_requested_by = ''bob'', le_holder = ''bob'', le_expires = ''2026-01-01T13:00:00Z'',
     le_escalation = ''ann'', le_announcement = ''lock-announcement-01890000000070008000000000000003'',
     le_recipient = ''ann'', le_rearm_event = ''wake''\<rparr>"

lemma valid1: "validate_lock_record ''t'' True lock_row1 =
    Inr \<lparr>lr_id = ''lock-acquired-01890000000070008000000000000001'', lr_timestamp = ''2026-01-01T12:00:00Z'',
         lr_body = Acquired body1\<rparr>"
  by (simp add: lock_row1_def body1_def lock_json_def evaluate)

lemma valid2: "validate_lock_record ''t'' True lock_row2 =
    Inr \<lparr>lr_id = ''lock-escalated-01890000000070008000000000000002'', lr_timestamp = ''2026-01-01T12:00:20Z'',
         lr_body = Escalated body2\<rparr>"
  by (simp add: lock_row2_def body2_def lock_json_def evaluate)

definition view1 :: lock_view where
  "view1 = \<lparr>lv_id = ''main'', lv_holder = ''ann'', lv_expires = ''2026-01-01T12:00:10Z'',
     lv_escalation = ''bob'', lv_announcement = None\<rparr>"

definition ann2 :: announcement_view where
  "ann2 = \<lparr>av_id = ''lock-announcement-01890000000070008000000000000003'', av_recipient = ''ann'',
     av_status = Pending, av_rearm_event = ''wake'', av_copy_key = escalation_copy_key,
     av_attempts = 0, av_stopped_at = None, av_receipt = None\<rparr>"

definition view2 :: lock_view where
  "view2 = \<lparr>lv_id = ''main'', lv_holder = ''bob'', lv_expires = ''2026-01-01T13:00:00Z'',
     lv_escalation = ''ann'', lv_announcement = Some ann2\<rparr>"

definition state1 :: lock_state where
  "state1 = empty_locks\<lparr>ls_locks := [(''main'', view1)],
     ls_seen := [''lock-acquired-01890000000070008000000000000001''],
     ls_records := [\<lparr>lr_id = ''lock-acquired-01890000000070008000000000000001'',
       lr_timestamp = ''2026-01-01T12:00:00Z'', lr_body = Acquired body1\<rparr>]\<rparr>"

definition state2 :: lock_state where
  "state2 = state1\<lparr>ls_locks := [(''main'', view2)],
     ls_announcements := [(''lock-announcement-01890000000070008000000000000003'', ann2)],
     ls_seen := ''lock-escalated-01890000000070008000000000000002'' # ls_seen state1,
     ls_records := ls_records state1 @ [\<lparr>lr_id = ''lock-escalated-01890000000070008000000000000002'',
       lr_timestamp = ''2026-01-01T12:00:20Z'', lr_body = Escalated body2\<rparr>]\<rparr>"

lemma apply1: "apply_row ''t'' True empty_locks lock_row1 = Inr state1"
  by (simp add: apply_row_def valid1 body1_def view1_def state1_def apply_acquired_def empty_locks_def)

lemma apply2: "apply_row ''t'' True state1 lock_row2 = Inr state2"
proof -
  have "\<not> timestamp_value ''2026-01-01T12:00:20Z'' < timestamp_value ''2026-01-01T12:00:10Z''"
    by (simp add: evaluate)
  then show ?thesis
    by (simp add: apply_row_def valid2 body2_def view1_def view2_def ann2_def state1_def state2_def
        apply_escalated_def empty_locks_def Let_def)
qed

lemma acquired1: "acquire ''t'' jlen ''01890000000070008000000000000001'' (JStr ''main'') (JStr ''ann'')
    (JStr ''2026-01-01T12:00:10Z'') (JStr ''bob'') (JStr ''2026-01-01T12:00:00Z'') []
    = Inr (lock_row1, [lock_row1])"
  and snapshot1: "locks_snapshot ''t'' jlen [lock_row1] = Inr state1"
  using append_lock_succeeds [OF empty_snapshot _ valid1 apply1 small_ledger [of "[]"],
      of "\<lambda>_. Inr lock_row1"]
  by (simp_all add: acquire_def lock_row1_def)

lemma escalated2: "escalate ''t'' jlen ''01890000000070008000000000000002''
    ''01890000000070008000000000000003'' (Inr ()) ''main'' (JStr ''bob'') (JStr ''2026-01-01T12:00:20Z'')
    (JStr ''2026-01-01T13:00:00Z'') (JStr ''ann'') (JStr ''wake'') [lock_row1]
    = Inr (lock_row2, [lock_row1, lock_row2])"
  and snapshot2: "locks_snapshot ''t'' jlen [lock_row1, lock_row2] = Inr state2"
  unfolding escalate_def
  by (rule append_lock_succeeds [OF snapshot1 _ valid2 apply2 small_ledger [of "[lock_row1]"], simplified];
      simp add: state1_def view1_def lock_row2_def)+

lemma taken_history: "lock_history ''t'' jlen [] [lock_row1]"
  "lock_history ''t'' jlen [lock_row1] [lock_row1, lock_row2]"
  unfolding lock_history_def
  by (rule r_into_rtranclp, rule lock_op.intros(1) [OF acquired1],
      rule r_into_rtranclp, rule lock_op.intros(2) [OF escalated2])

theorem locks_ledger_sound_witness:
  "\<exists>s. locks_snapshot ''t'' jlen [lock_row1] = Inr s \<and> distinct (map fst (ls_cars s))"
  using locks_ledger_sound [OF taken_history(1)] by blast

theorem locks_history_monotone_witness: "state_le state1 state2"
  by (rule locks_history_monotone [OF taken_history snapshot1 snapshot2])

theorem lock_taken_over_only_by_escalation_witness:
  "lv_holder view2 = lv_escalation view1 \<and>
   timestamp_value (lv_expires view1) \<le> timestamp_value (lr_timestamp (last (ls_records state2)))"
  using lock_taken_over_only_by_escalation [OF lock_op.intros(2) [OF escalated2] snapshot1 snapshot2,
      of "''main''" view1 view2]
  by (simp add: state1_def state2_def view1_def view2_def)

theorem escalation_effect_witness:
  "\<exists>u v a s'. map_of (ls_locks state1) ''main'' = Some u \<and>
     locks_snapshot ''t'' jlen [lock_row1, lock_row2] = Inr s' \<and>
     map_of (ls_locks s') ''main'' = Some v \<and> lv_holder v = lv_escalation u \<and>
     lv_announcement v = Some a \<and> av_recipient a = lv_holder u"
  using escalation_effect [OF escalated2 snapshot1] by blast

section \<open>A handoff delivered\<close>

definition the_binding :: handoff_binding where
  "the_binding = \<lparr>hb_id = ''h1'', hb_recipient = ''ann'', hb_car = ''car1'', hb_ref = ''refs/heads/topic'',
     hb_base_ref = ''refs/heads/main'', hb_witness = PathPresent ''docs/a.md'', hb_rearm_event = ''wake''\<rparr>"

definition hand_row1 :: json where
  "hand_row1 = lock_json ''t'' ''01890000000070008000000000000001'' ''review_handoff_queued''
     (JStr ''2026-01-01T12:00:00Z'')
     (handoff_fields the_binding @ [(''status'', JStr ''pending''), (''copy_key'', JStr ''[[locks.handoff.pending]]'')])"

definition hand_row2 :: json where
  "hand_row2 = lock_json ''t'' ''01890000000070008000000000000002'' ''review_handoff_delivered''
     (JStr ''2026-01-01T12:00:05Z'')
     (handoff_fields the_binding @ [(''status'', JStr ''delivered''), (''receipt_id'', JStr ''delivery-1''),
        (''receipt_digest'', JStr ''0123456789012345678901234567890123456789012345678901234567890123'')])"

lemma valid_hand1: "validate_lock_record ''t'' True hand_row1 =
    Inr \<lparr>lr_id = ''review-handoff-queued-01890000000070008000000000000001'',
         lr_timestamp = ''2026-01-01T12:00:00Z'', lr_body = HandoffQueued the_binding\<rparr>"
  by (simp add: hand_row1_def lock_json_def the_binding_def handoff_fields_def evaluate Let_def)

lemma valid_hand2: "validate_lock_record ''t'' True hand_row2 =
    Inr \<lparr>lr_id = ''review-handoff-delivered-01890000000070008000000000000002'',
         lr_timestamp = ''2026-01-01T12:00:05Z'',
         lr_body = HandoffDelivered the_binding ''delivery-1''
           ''0123456789012345678901234567890123456789012345678901234567890123''\<rparr>"
  by (simp add: hand_row2_def lock_json_def the_binding_def handoff_fields_def evaluate Let_def)

definition delivered_view :: handoff_view where
  "delivered_view = \<lparr>hv_binding = the_binding, hv_status = Delivered, hv_attempts = 0,
     hv_stopped_at = None, hv_receipt = Some (''delivery-1'',
       ''0123456789012345678901234567890123456789012345678901234567890123'')\<rparr>"

lemma handoff_snapshot:
  "\<exists>s. locks_snapshot ''t'' jlen [hand_row1, hand_row2] = Inr s \<and>
     map_of (ls_handoffs s) ''h1'' = Some delivered_view"
proof -
  have "\<exists>s. replay (apply_row ''t'' True) empty_locks [hand_row1, hand_row2] = Inr s \<and>
      map_of (ls_handoffs s) ''h1'' = Some delivered_view"
    by (simp add: apply_row_def valid_hand1 valid_hand2 apply_handoff_queued_def change_handoff_def
        deliver_handoff_def empty_locks_def the_binding_def delivered_view_def)
  then obtain s where s: "from_records ''t'' True [hand_row1, hand_row2] = Inr s"
    "map_of (ls_handoffs s) ''h1'' = Some delivered_view" unfolding from_records_def by blast
  have "read_unlocked ''t'' jlen [hand_row1, hand_row2] = Inr [hand_row1, hand_row2]"
    using s(1) by (simp add: read_unlocked_Inr_iff locks_bytes_def jlen_def MAX_LEDGER_BYTES_def
        MAX_LEDGER_RECORDS_def)
  with s show ?thesis by (auto simp: locks_snapshot_Inr_iff)
qed

theorem delivered_handoff_final_witness:
  "\<forall>r. rearm_review_handoff ''t'' jlen ''01890000000070008000000000000003'' ''h1'' (JStr ''wake'')
     (JStr ''2026-01-01T12:00:09Z'') [hand_row1, hand_row2] \<noteq> Inr r"
proof -
  obtain s where s: "locks_snapshot ''t'' jlen [hand_row1, hand_row2] = Inr s"
    "map_of (ls_handoffs s) ''h1'' = Some delivered_view"
    using handoff_snapshot by blast
  show ?thesis
    using delivered_handoff_final [OF s] by (simp add: delivered_view_def)
qed

section \<open>A car landed\<close>

abbreviation sha_a :: string where "sha_a \<equiv> ''0123456789012345678901234567890123456789''"

definition steady_git :: git_port where
  "steady_git = \<lparr>rev_parse = (\<lambda>_. Inr sha_a), cat_exists = (\<lambda>_. Inr True), cat_blob = (\<lambda>_. Inr None)\<rparr>"

definition lane_env :: queue_env where
  "lane_env = \<lparr>qe_tenant = ''t'', qe_flen = jlen, qe_sha256 = (\<lambda>_. [])\<rparr>"

definition car_row1 :: json where
  "car_row1 = lock_json ''t'' ''01890000000070008000000000000001'' ''car_submitted''
     (JStr ''2026-01-01T12:00:00Z'')
     [(''car_id'', JStr ''car1''), (''ref'', JStr ''refs/heads/topic''), (''ref_oid'', JStr sha_a),
      (''witness'', JObj (witness_members (PathPresent ''docs/a.md'')))]"

definition car_row2 :: json where
  "car_row2 = lock_json ''t'' ''01890000000070008000000000000002'' ''car_reviewed''
     (JStr ''2026-01-01T12:00:01Z'')
     [(''car_id'', JStr ''car1''), (''verdict'', JStr ''approved''), (''rank'', JInt 10),
      (''base_ref'', JStr ''refs/heads/main''), (''base_oid'', JStr sha_a), (''base_tree'', JStr sha_a),
      (''witness_holds'', JBool False)]"

definition car_row3 :: json where
  "car_row3 = lock_json ''t'' ''01890000000070008000000000000003'' ''car_landed''
     (JStr ''2026-01-01T12:00:02Z'')
     [(''car_id'', JStr ''car1''), (''target_ref'', JStr ''refs/heads/main''),
      (''target_oid'', JStr sha_a), (''target_tree'', JStr sha_a), (''method'', JStr ''rebase''),
      (''witness_holds'', JBool True)]"

definition review1 :: review where
  "review1 = \<lparr>rv_verdict = Approved, rv_rank = 10, rv_base_ref = ''refs/heads/main'',
     rv_base_oid = sha_a, rv_base_tree = sha_a, rv_witness_holds = False\<rparr>"

definition car1 :: car_view where
  "car1 = \<lparr>cv_id = ''car1'', cv_ref = ''refs/heads/topic'', cv_ref_oid = sha_a,
     cv_witness = PathPresent ''docs/a.md'', cv_measurement = None, cv_review = Some review1,
     cv_position = 0, cv_state = Queued, cv_product_ref = None\<rparr>"

lemma valid_car1: "validate_lock_record ''t'' True car_row1 =
    Inr \<lparr>lr_id = ''car-submitted-01890000000070008000000000000001'', lr_timestamp = ''2026-01-01T12:00:00Z'',
         lr_body = CarSubmitted ''car1'' ''refs/heads/topic'' sha_a (PathPresent ''docs/a.md'')\<rparr>"
  by (simp add: car_row1_def lock_json_def evaluate Let_def)

lemma valid_car2: "validate_lock_record ''t'' True car_row2 =
    Inr \<lparr>lr_id = ''car-reviewed-01890000000070008000000000000002'', lr_timestamp = ''2026-01-01T12:00:01Z'',
         lr_body = CarReviewed ''car1'' review1\<rparr>"
  by (simp add: car_row2_def review1_def lock_json_def evaluate)

lemma valid_car3: "validate_lock_record ''t'' True car_row3 =
    Inr \<lparr>lr_id = ''car-landed-01890000000070008000000000000003'', lr_timestamp = ''2026-01-01T12:00:02Z'',
         lr_body = CarLanded ''car1'' ''refs/heads/main'' sha_a sha_a Rebase\<rparr>"
  by (simp add: car_row3_def lock_json_def evaluate)

definition queue_state :: lock_state where
  "queue_state = empty_locks\<lparr>ls_cars := [(''car1'', car1)],
     ls_seen := [''car-reviewed-01890000000070008000000000000002'',
       ''car-submitted-01890000000070008000000000000001''],
     ls_records := [\<lparr>lr_id = ''car-submitted-01890000000070008000000000000001'',
         lr_timestamp = ''2026-01-01T12:00:00Z'',
         lr_body = CarSubmitted ''car1'' ''refs/heads/topic'' sha_a (PathPresent ''docs/a.md'')\<rparr>,
       \<lparr>lr_id = ''car-reviewed-01890000000070008000000000000002'',
         lr_timestamp = ''2026-01-01T12:00:01Z'', lr_body = CarReviewed ''car1'' review1\<rparr>]\<rparr>"

lemma queue_snapshot: "locks_snapshot ''t'' jlen [car_row1, car_row2] = Inr queue_state"
proof -
  have "replay (apply_row ''t'' True) empty_locks [car_row1, car_row2] = Inr queue_state"
    by (simp add: apply_row_def valid_car1 valid_car2 apply_car_submitted_def change_car_def
        empty_locks_def car1_def queue_state_def)
  then show ?thesis
    by (simp add: locks_snapshot_Inr_iff read_unlocked_Inr_iff from_records_def locks_bytes_def
        jlen_def MAX_LEDGER_BYTES_def MAX_LEDGER_RECORDS_def)
qed

lemma main_resolves: "resolve_ref steady_git (JStr ''refs/heads/main'') =
    Inr \<lparr>gr_ref = ''refs/heads/main'', gr_oid = sha_a, gr_tree = sha_a\<rparr>"
  by (simp add: resolve_ref_def steady_git_def require_sha_def evaluate)

lemma car1_observed: "observe_witness lane_env steady_git (JStr ''refs/heads/main'') car1 =
    Inr \<lparr>wr_ref = \<lparr>gr_ref = ''refs/heads/main'', gr_oid = sha_a, gr_tree = sha_a\<rparr>, wr_holds = True\<rparr>"
proof -
  have "validate_witness False (JObj (witness_members (PathPresent ''docs/a.md''))) =
      Inr (PathPresent ''docs/a.md'')"
    by (simp add: evaluate Let_def)
  then show ?thesis
    by (simp add: observe_witness_def verify_witness_def main_resolves car1_def)
       (simp add: steady_git_def)
qed

definition car1_selected :: car_selection where
  "car1_selected = \<lparr>cs_car = ''car1'', cs_ref = ''refs/heads/topic'', cs_rank = 10,
     cs_status = Reviewed Approved\<rparr>"

lemma car1_selects:
  "select_next lane_env steady_git [car_row1, car_row2] (JStr ''refs/heads/main'') = Inr car1_selected"
  by (simp add: select_next_def lane_env_def queue_snapshot ranked_cars_def queue_state_def
      empty_locks_def car1_def review_status_def find_car_def main_resolves review1_def
      mergeable_def car_rank_def car1_selected_def)

theorem select_next_best_witness:
  "\<exists>s car. locks_snapshot (qe_tenant lane_env) (qe_flen lane_env) [car_row1, car_row2] = Inr s \<and>
     map_of (ls_cars s) ''car1'' = Some car \<and> cv_state car = Queued \<and> car_rank car = 10"
  using select_next_best [OF car1_selects] by (auto simp: car1_selected_def)

lemma car1_lands: "land_next lane_env steady_git ''01890000000070008000000000000003''
    (JStr ''refs/heads/main'') (\<lambda>_. Inr (steady_git, [car_row1, car_row2])) ''rebase''
    (JStr ''2026-01-01T12:00:02Z'') [car_row1, car_row2]
  = Inr (car_row3, [car_row1, car_row2, car_row3])"
proof -
  have "\<exists>s'. apply_row ''t'' True queue_state car_row3 = Inr s'"
    by (simp add: apply_row_def valid_car3 change_car_def land_car_def queue_state_def empty_locks_def
        car1_def)
  then obtain s' where "apply_row ''t'' True queue_state car_row3 = Inr s'" ..
  from append_lock_succeeds(1) [OF queue_snapshot _ valid_car3 this small_ledger [of "[car_row1, car_row2]"],
      of "\<lambda>_. Inr car_row3"]
  have app: "append_lock ''t'' jlen (Inr ()) (\<lambda>_. Inr car_row3) [car_row1, car_row2]
      = Inr (car_row3, [car_row1, car_row2, car_row3])" by simp
  have ref: "validate_full_ref False ''car_ref_required'' ''target_ref'' (JStr ''refs/heads/main'')
      = Inr ''refs/heads/main''" by (simp add: evaluate)
  have car: "map_of (ls_cars queue_state) ''car1'' = Some car1"
    by (simp add: queue_state_def empty_locks_def)
  have "locks_snapshot (qe_tenant lane_env) (qe_flen lane_env) [car_row1, car_row2] = Inr queue_state"
    by (simp add: lane_env_def queue_snapshot)
  then show ?thesis
    using app
    by (simp add: land_next_def ref car1_selects car1_observed car car1_selected_def)
       (simp add: record_landed_def lane_env_def car_row3_def)
qed

theorem land_next_verified_witness:
  "\<exists>sel s'. select_next lane_env steady_git [car_row1, car_row2] (JStr ''refs/heads/main'') = Inr sel \<and>
     locks_snapshot (qe_tenant lane_env) (qe_flen lane_env) [car_row1, car_row2, car_row3] = Inr s' \<and>
     (\<exists>car. map_of (ls_cars s') (cs_car sel) = Some car \<and> cv_state car = Landed)"
  using land_next_verified [OF car1_lands] by fastforce

end
