(* ===== verification/Json_Text.thy ===== *)
theory Json_Text
  imports Json_Values
begin

text \<open>
  The one wire form of every durable record: the compact, key-sorted text that
  \<open>encode_frame\<close> of \<open>floati/framing.py\<close> (and \<open>_compact_ijson\<close> of \<open>floati/contracts.py\<close>) obtains
  from \<open>json.dumps\<close>, and the reader \<open>json.loads\<close> with the duplicate-key hook.  The text is
  over code points; \<open>Framing\<close> adds UTF-8 and lines.

  A number with a fraction or an exponent keeps its token.  The model has no character from
  256 on: an escape of one gives \<open>Unmodelled\<close>, an outcome about which nothing is said.  Python's
  recursion limit is not modelled.
\<close>

section \<open>Printing\<close>

definition char_nat :: "char \<Rightarrow> nat" where "char_nat c = of_char c"

definition quote :: char where "quote = CHR 0x22"
definition backslash :: char where "backslash = CHR 0x5C"

definition digit_char :: "nat \<Rightarrow> char" where
  "digit_char d = char_of (48 + d)"

fun nat_text :: "nat \<Rightarrow> string" where
  "nat_text n = (if n < 10 then [digit_char n] else nat_text (n div 10) @ [digit_char (n mod 10)])"

declare nat_text.simps [simp del]

definition int_text :: "int \<Rightarrow> string" where
  "int_text i = (if i < 0 then CHR ''-'' # nat_text (nat (- i)) else nat_text (nat i))"

definition hex_char_of :: "nat \<Rightarrow> char" where
  "hex_char_of d = (if d < 10 then char_of (48 + d) else char_of (87 + d))"

text \<open>The escapes of \<open>json.encoder\<close> with \<open>ensure_ascii=False\<close>.\<close>

definition escape_char :: "char \<Rightarrow> string" where
  "escape_char c =
     (if c = quote then [backslash, quote]
      else if c = backslash then [backslash, backslash]
      else if c = CHR 0x08 then [backslash, CHR ''b'']
      else if c = CHR 0x09 then [backslash, CHR ''t'']
      else if c = CHR 0x0A then [backslash, CHR ''n'']
      else if c = CHR 0x0C then [backslash, CHR ''f'']
      else if c = CHR 0x0D then [backslash, CHR ''r'']
      else if char_nat c < 32 then
        [backslash, CHR ''u'', CHR ''0'', CHR ''0'', hex_char_of (char_nat c div 16),
         hex_char_of (char_nat c mod 16)]
      else [c])"

definition string_text :: "string \<Rightarrow> string" where
  "string_text s = quote # concat (map escape_char s) @ [quote]"

fun comma_join :: "string list \<Rightarrow> string" where
  "comma_join [] = []"
| "comma_join [x] = x"
| "comma_join (x # y # ys) = x @ CHR '','' # comma_join (y # ys)"

text \<open>\<open>sort_keys=True\<close> at every level.\<close>

primrec canon :: "json \<Rightarrow> json" where
  "canon JNull = JNull"
| "canon (JBool b) = JBool b"
| "canon (JInt i) = JInt i"
| "canon (JFloat t) = JFloat t"
| "canon (JStr s) = JStr s"
| "canon (JArr vs) = JArr (map canon vs)"
| "canon (JObj ms) = JObj (sort_key fst (map (map_prod id canon) ms))"

primrec json_text :: "json \<Rightarrow> string" where
  "json_text JNull = ''null''"
| "json_text (JBool b) = (if b then ''true'' else ''false'')"
| "json_text (JInt i) = int_text i"
| "json_text (JFloat t) = t"
| "json_text (JStr s) = string_text s"
| "json_text (JArr vs) = CHR ''['' # comma_join (map json_text vs) @ '']''"
| "json_text (JObj ms) =
     CHR 0x7B # comma_join (map (\<lambda>(k, v). string_text k @ CHR '':'' # v) (map (map_prod id json_text) ms))
       @ [CHR 0x7D]"

definition dumps :: "json \<Rightarrow> string" where
  "dumps j = json_text (canon j)"

section \<open>Reading\<close>

datatype json_error = MalformedJson | DuplicateKey | Unmodelled

type_synonym 'a parse = "json_error + 'a \<times> string"

definition bindP :: "'a parse \<Rightarrow> ('a \<Rightarrow> string \<Rightarrow> 'b parse) \<Rightarrow> 'b parse" where
  "bindP m f = (case m of Inl e \<Rightarrow> Inl e | Inr (x, s) \<Rightarrow> f x s)"

lemma bindP_simps [simp]:
  "bindP (Inl e) f = Inl e"
  "bindP (Inr (x, s)) f = f x s"
  by (simp_all add: bindP_def)

definition is_space :: "char \<Rightarrow> bool" where
  "is_space c \<longleftrightarrow> c = CHR '' '' \<or> c = CHR 0x09 \<or> c = CHR 0x0A \<or> c = CHR 0x0D"

definition skip_space :: "string \<Rightarrow> string" where
  "skip_space s = dropWhile is_space s"

definition hex_value :: "char \<Rightarrow> nat option" where
  "hex_value c =
     (let n = char_nat c in
      if 48 \<le> n \<and> n \<le> 57 then Some (n - 48)
      else if 97 \<le> n \<and> n \<le> 102 then Some (n - 87)
      else if 65 \<le> n \<and> n \<le> 70 then Some (n - 55)
      else None)"

definition hex4 :: "char \<Rightarrow> char \<Rightarrow> char \<Rightarrow> char \<Rightarrow> nat option" where
  "hex4 a b c d =
     (case (hex_value a, hex_value b, hex_value c, hex_value d) of
        (Some p, Some q, Some r, Some t) \<Rightarrow> Some (((p * 16 + q) * 16 + r) * 16 + t)
      | _ \<Rightarrow> None)"

definition simple_escape :: "char \<Rightarrow> char option" where
  "simple_escape e =
     (if e = quote \<or> e = backslash \<or> e = CHR ''/'' then Some e
      else if e = CHR ''b'' then Some (CHR 0x08)
      else if e = CHR ''f'' then Some (CHR 0x0C)
      else if e = CHR ''n'' then Some (CHR 0x0A)
      else if e = CHR ''r'' then Some (CHR 0x0D)
      else if e = CHR ''t'' then Some (CHR 0x09)
      else None)"

text \<open>The characters after the opening quote.\<close>

fun parse_string :: "string \<Rightarrow> string parse" where
  "parse_string [] = Inl MalformedJson"
| "parse_string (c # s) =
     (if c = quote then Inr ([], s)
      else if c = backslash then
        (case s of
           [] \<Rightarrow> Inl MalformedJson
         | e # t \<Rightarrow>
             if e = CHR ''u'' then
               (case t of
                  a # b # x # y # u \<Rightarrow>
                    (case hex4 a b x y of
                       None \<Rightarrow> Inl MalformedJson
                     | Some n \<Rightarrow>
                         if n \<ge> 256 then Inl Unmodelled
                         else bindP (parse_string u) (\<lambda>r v. Inr (char_of n # r, v)))
                | _ \<Rightarrow> Inl MalformedJson)
             else
               (case simple_escape e of
                  None \<Rightarrow> Inl MalformedJson
                | Some d \<Rightarrow> bindP (parse_string t) (\<lambda>r v. Inr (d # r, v))))
      else if char_nat c < 32 then Inl MalformedJson
      else bindP (parse_string s) (\<lambda>r v. Inr (c # r, v)))"

definition is_digit :: "char \<Rightarrow> bool" where
  "is_digit c \<longleftrightarrow> 48 \<le> char_nat c \<and> char_nat c \<le> 57"

definition nat_of_digits :: "string \<Rightarrow> nat" where
  "nat_of_digits s = foldl (\<lambda>v c. 10 * v + (char_nat c - 48)) 0 s"

text \<open>\<open>(-?(?:0|[1-9]\d*))(\.\d+)?([eE][-+]?\d+)?\<close>: the optional parts are taken only when
  complete.\<close>

definition integer_part :: "string \<Rightarrow> (string \<times> string) option" where
  "integer_part s =
     (case s of
        [] \<Rightarrow> None
      | c # t \<Rightarrow>
          if c = CHR ''0'' then Some ([c], t)
          else if is_digit c then Some (c # takeWhile is_digit t, dropWhile is_digit t)
          else None)"

definition fraction_part :: "string \<Rightarrow> string \<times> string" where
  "fraction_part s =
     (case s of
        c # t \<Rightarrow>
          if c = CHR ''.'' \<and> takeWhile is_digit t \<noteq> []
            then (c # takeWhile is_digit t, dropWhile is_digit t) else ([], s)
      | [] \<Rightarrow> ([], s))"

definition exponent_part :: "string \<Rightarrow> string \<times> string" where
  "exponent_part s =
     (case s of
        c # t \<Rightarrow>
          if c = CHR ''e'' \<or> c = CHR ''E'' then
            (case t of
               g # u \<Rightarrow>
                 if (g = CHR ''-'' \<or> g = CHR ''+'') \<and> takeWhile is_digit u \<noteq> []
                   then (c # g # takeWhile is_digit u, dropWhile is_digit u)
                 else if takeWhile is_digit t \<noteq> []
                   then (c # takeWhile is_digit t, dropWhile is_digit t)
                 else ([], s)
             | [] \<Rightarrow> ([], s))
          else ([], s)
      | [] \<Rightarrow> ([], s))"

definition parse_unsigned :: "bool \<Rightarrow> string \<Rightarrow> json parse" where
  "parse_unsigned negative s =
     (case integer_part s of
        None \<Rightarrow> Inl MalformedJson
      | Some (digits, t) \<Rightarrow>
          let (frac, u) = fraction_part t; (ex, v) = exponent_part u
          in if frac = [] \<and> ex = []
               then Inr (JInt ((if negative then -1 else 1) * int (nat_of_digits digits)), v)
             else Inr (JFloat ((if negative then ''-'' else []) @ digits @ frac @ ex), v))"

definition parse_number :: "string \<Rightarrow> json parse" where
  "parse_number s =
     (case s of
        c # t \<Rightarrow>
          if c = CHR ''-'' then
            (if starts_with ''Infinity'' t then Inr (JFloat ''-Infinity'', drop 8 t)
             else parse_unsigned True t)
          else parse_unsigned False s
      | [] \<Rightarrow> Inl MalformedJson)"

text \<open>\<open>_exact_object\<close>, the hook that \<open>decode_frames\<close> passes as \<open>object_pairs_hook\<close>.\<close>

definition exact_object :: "members \<Rightarrow> json_error + members" where
  "exact_object pairs = (if \<not> distinct (map fst pairs) then Inl DuplicateKey else Inr pairs)"

lemma exact_object_distinct [simp]: "distinct (map fst pairs) \<Longrightarrow> exact_object pairs = Inr pairs"
  by (simp add: exact_object_def)

text \<open>\<open>scan_once\<close> and the loops of \<open>JSONObject\<close> and \<open>JSONArray\<close>; the first argument is fuel.
  Both loops start after the opening bracket, or after a comma.\<close>

fun parse_value :: "nat \<Rightarrow> string \<Rightarrow> json parse"
and parse_items :: "nat \<Rightarrow> string \<Rightarrow> json list parse"
and parse_members :: "nat \<Rightarrow> string \<Rightarrow> members parse" where
  "parse_value 0 s = Inl MalformedJson"
| "parse_value (Suc n) s =
     (case s of
        [] \<Rightarrow> Inl MalformedJson
      | c # t \<Rightarrow>
          if c = quote then bindP (parse_string t) (\<lambda>x u. Inr (JStr x, u))
          else if c = CHR 0x7B then
            (case skip_space t of
               d # u \<Rightarrow>
                 if d = CHR 0x7D then Inr (JObj [], u)
                 else bindP (parse_members n (d # u)) (\<lambda>ms v.
                   case exact_object ms of Inl e \<Rightarrow> Inl e | Inr members \<Rightarrow> Inr (JObj members, v))
             | [] \<Rightarrow> Inl MalformedJson)
          else if c = CHR ''['' then
            (case skip_space t of
               d # u \<Rightarrow>
                 if d = CHR '']'' then Inr (JArr [], u)
                 else bindP (parse_items n (d # u)) (\<lambda>vs v. Inr (JArr vs, v))
             | [] \<Rightarrow> Inl MalformedJson)
          else if starts_with ''null'' s then Inr (JNull, drop 4 s)
          else if starts_with ''true'' s then Inr (JBool True, drop 4 s)
          else if starts_with ''false'' s then Inr (JBool False, drop 5 s)
          else if starts_with ''NaN'' s then Inr (JFloat ''NaN'', drop 3 s)
          else if starts_with ''Infinity'' s then Inr (JFloat ''Infinity'', drop 8 s)
          else parse_number s)"
| "parse_items 0 s = Inl MalformedJson"
| "parse_items (Suc n) s =
     bindP (parse_value n s) (\<lambda>v t.
       case skip_space t of
         d # u \<Rightarrow>
           if d = CHR '']'' then Inr ([v], u)
           else if d = CHR '','' then
             bindP (parse_items n (skip_space u)) (\<lambda>vs w. Inr (v # vs, w))
           else Inl MalformedJson
       | [] \<Rightarrow> Inl MalformedJson)"
| "parse_members 0 s = Inl MalformedJson"
| "parse_members (Suc n) s =
     (case s of
        [] \<Rightarrow> Inl MalformedJson
      | c # r \<Rightarrow>
          if c \<noteq> quote then Inl MalformedJson
          else bindP (parse_string r) (\<lambda>k t.
            case skip_space t of
              d # u \<Rightarrow>
                if d \<noteq> CHR '':'' then Inl MalformedJson
                else bindP (parse_value n (skip_space u)) (\<lambda>v w.
                  case skip_space w of
                    e # x \<Rightarrow>
                      if e = CHR 0x7D then Inr ([(k, v)], x)
                      else if e = CHR '','' then
                        bindP (parse_members n (skip_space x)) (\<lambda>ms y. Inr ((k, v) # ms, y))
                      else Inl MalformedJson
                  | [] \<Rightarrow> Inl MalformedJson)
            | [] \<Rightarrow> Inl MalformedJson))"

definition loads :: "string \<Rightarrow> json_error + json" where
  "loads s =
     (case parse_value (2 * length s + 2) (skip_space s) of
        Inl e \<Rightarrow> Inl e
      | Inr (j, t) \<Rightarrow> if skip_space t = [] then Inr j else Inl MalformedJson)"

section \<open>Characters\<close>

lemma char_nat_char_of [simp]: "n < 256 \<Longrightarrow> char_nat (char_of n) = n"
  by (simp add: char_nat_def)

lemma char_of_char_nat [simp]: "char_of (char_nat c) = c"
  by (simp add: char_nat_def)

lemma char_nat_less [simp]: "char_nat c < 256"
  by (simp add: char_nat_def)

lemma char_nat_inject: "char_nat c = char_nat d \<longleftrightarrow> c = d"
  by (metis char_of_char_nat)

lemma hex_value_hex_char [simp]: "d < 16 \<Longrightarrow> hex_value (hex_char_of d) = Some d"
  by (simp add: hex_value_def hex_char_of_def Let_def)

lemma hex4_of_byte:
  assumes "n < 256"
  shows "hex4 (CHR ''0'') (CHR ''0'') (hex_char_of (n div 16)) (hex_char_of (n mod 16)) = Some n"
proof -
  have z: "hex_value (CHR ''0'') = Some 0" by (simp add: hex_value_def char_nat_def)
  have "n div 16 < 16" "n mod 16 < 16" using assms by simp_all
  then show ?thesis by (simp add: hex4_def z)
qed

section \<open>Strings\<close>

lemma special_chars [simp]:
  "quote \<noteq> backslash" "backslash \<noteq> quote" "char_nat quote = 34" "char_nat backslash = 92"
  by (simp_all add: quote_def backslash_def char_nat_def)

lemma parse_escape:
  "parse_string (escape_char c @ s) = bindP (parse_string s) (\<lambda>r v. Inr (c # r, v))"
proof -
  have u: "CHR ''u'' \<noteq> quote" by (simp add: quote_def)
  consider "c = quote" | "c = backslash" | "c \<in> {CHR 0x08, CHR 0x09, CHR 0x0A, CHR 0x0C, CHR 0x0D}"
    | "char_nat c < 32" "c \<notin> {CHR 0x08, CHR 0x09, CHR 0x0A, CHR 0x0C, CHR 0x0D}"
    | "c \<noteq> quote" "c \<noteq> backslash" "\<not> char_nat c < 32"
    by auto
  then show ?thesis
  proof cases
    case 3
    then show ?thesis
      by (auto simp: escape_char_def simple_escape_def quote_def backslash_def)
  next
    case 4
    then have "c \<noteq> quote" "c \<noteq> backslash" by auto
    with 4 have "escape_char c = [backslash, CHR ''u'', CHR ''0'', CHR ''0'',
        hex_char_of (char_nat c div 16), hex_char_of (char_nat c mod 16)]"
      by (auto simp: escape_char_def)
    then show ?thesis
      using hex4_of_byte [of "char_nat c"] char_nat_less [of c] by (simp add: not_le del: char_nat_less)
  next
    case 5
    then have "escape_char c = [c]" by (auto simp: escape_char_def char_nat_def)
    with 5 show ?thesis by simp
  qed (simp_all add: escape_char_def simple_escape_def quote_def backslash_def)
qed

lemma parse_string_text: "parse_string (concat (map escape_char s) @ quote # rest) = Inr (s, rest)"
proof (induction s)
  case (Cons c s)
  then show ?case by (simp add: parse_escape del: parse_string.simps)
qed simp

section \<open>Numbers\<close>

lemma is_digit_digit_char [simp]: "d < 10 \<Longrightarrow> is_digit (digit_char d)"
  by (simp add: is_digit_def digit_char_def)

lemma digit_char_0: "digit_char 0 = CHR ''0''"
  by (simp add: digit_char_def char_of_def bit_0)

lemma nat_text_digits: "list_all is_digit (nat_text n)"
proof (induction n rule: nat_text.induct)
  case (1 n)
  then show ?case by (subst nat_text.simps) simp
qed

lemma nat_text_nonempty [simp]: "nat_text n \<noteq> []"
  by (subst nat_text.simps) simp

lemma foldl_digits_append:
  "nat_of_digits (s @ [c]) = 10 * nat_of_digits s + (char_nat c - 48)"
  by (simp add: nat_of_digits_def)

lemma nat_of_digits_text: "nat_of_digits (nat_text n) = n"
proof (induction n rule: nat_text.induct)
  case (1 n)
  show ?case
  proof (cases "n < 10")
    case True
    then show ?thesis by (subst nat_text.simps) (simp add: nat_of_digits_def digit_char_def)
  next
    case False
    with 1 have "nat_of_digits (nat_text (n div 10)) = n div 10" by blast
    with False show ?thesis
      by (subst nat_text.simps) (simp add: foldl_digits_append digit_char_def)
  qed
qed

lemma nat_text_zero_first: "hd (nat_text n) = CHR ''0'' \<longleftrightarrow> n = 0"
proof (induction n rule: nat_text.induct)
  case (1 n)
  show ?case
  proof (cases "n < 10")
    case True
    have "digit_char n = CHR ''0'' \<longleftrightarrow> n = 0"
    proof
      assume "digit_char n = CHR ''0''"
      then have "char_nat (digit_char n) = char_nat (CHR ''0'')" by simp
      with True show "n = 0" by (simp add: digit_char_def) (simp add: char_nat_def)
    qed (simp add: digit_char_0)
    with True show ?thesis by (subst nat_text.simps) simp
  next
    case False
    with 1 have "hd (nat_text (n div 10)) = CHR ''0'' \<longleftrightarrow> n div 10 = 0" by blast
    with False show ?thesis by (subst nat_text.simps) simp
  qed
qed

lemma nat_text_0: "nat_text 0 = ''0''"
  by (subst nat_text.simps) (simp add: digit_char_0)

definition token_end :: "string \<Rightarrow> bool" where
  "token_end rest \<longleftrightarrow> rest = [] \<or> hd rest \<in> {CHR '','', CHR '']'', CHR 0x7D}"

lemma token_end_cases: "token_end (c # s) \<longleftrightarrow> c \<in> {CHR '','', CHR '']'', CHR 0x7D}"
  by (simp add: token_end_def)

lemma token_end_parts:
  assumes "token_end rest"
  shows "fraction_part rest = ([], rest)" "exponent_part rest = ([], rest)"
    "takeWhile is_digit rest = []" "dropWhile is_digit rest = rest"
  using assms
  by (cases rest; auto simp: token_end_cases fraction_part_def exponent_part_def is_digit_def char_nat_def)+

lemma integer_part_nat_text:
  assumes "token_end rest"
  shows "integer_part (nat_text n @ rest) = Some (nat_text n, rest)"
proof (cases "n = 0")
  case True
  then show ?thesis by (simp add: nat_text_0 integer_part_def)
next
  case False
  obtain c t where ct: "nat_text n = c # t" by (cases "nat_text n") auto
  with False nat_text_zero_first [of n] have "c \<noteq> CHR ''0''" by simp
  moreover have "is_digit c" "list_all is_digit t" using nat_text_digits [of n] by (simp_all add: ct)
  moreover have "takeWhile is_digit (t @ rest) = t" "dropWhile is_digit (t @ rest) = rest"
    using \<open>list_all is_digit t\<close> token_end_parts(3,4) [OF assms]
    by (simp_all add: list_all_iff takeWhile_append2 dropWhile_append2)
  ultimately show ?thesis by (simp add: ct integer_part_def)
qed

lemma parse_unsigned_nat_text:
  assumes "token_end rest"
  shows "parse_unsigned neg (nat_text n @ rest) = Inr (JInt ((if neg then -1 else 1) * int n), rest)"
  by (simp add: parse_unsigned_def integer_part_nat_text [OF assms] token_end_parts [OF assms]
      nat_of_digits_text)

section \<open>Values\<close>

text \<open>What a durable row consists of: no number but integers, no repeated member name.\<close>

primrec plain :: "json \<Rightarrow> bool" where
  "plain JNull = True"
| "plain (JBool b) = True"
| "plain (JInt i) = True"
| "plain (JFloat t) = False"
| "plain (JStr s) = True"
| "plain (JArr vs) = list_all id (map plain vs)"
| "plain (JObj ms) = (distinct (map fst ms) \<and> list_all snd (map (map_prod id plain) ms))"

primrec need :: "json \<Rightarrow> nat" where
  "need JNull = 1"
| "need (JBool b) = 1"
| "need (JInt i) = 1"
| "need (JFloat t) = 1"
| "need (JStr s) = 1"
| "need (JArr vs) = Suc (sum_list (map Suc (map need vs)))"
| "need (JObj ms) = Suc (sum_list (map (Suc \<circ> snd) (map (map_prod id need) ms)))"

lemma skip_space_head [simp]: "\<not> is_space c \<Longrightarrow> skip_space (c # s) = c # s"
  by (simp add: skip_space_def)

lemma not_space [simp]:
  "\<not> is_space quote" "\<not> is_space (CHR '','')" "\<not> is_space (CHR '']'')" "\<not> is_space (CHR 0x7D)"
  "\<not> is_space (CHR '':'')" "\<not> is_space (CHR ''['')" "\<not> is_space (CHR 0x7B)"
  by (simp_all add: is_space_def quote_def)

lemma digit_not_special:
  assumes "is_digit c"
  shows "c \<noteq> quote" "c \<noteq> CHR 0x7B" "c \<noteq> CHR ''[''" "c \<noteq> CHR '']''" "c \<noteq> CHR ''-''" "\<not> is_space c"
    "c \<noteq> CHR ''n''" "c \<noteq> CHR ''t''" "c \<noteq> CHR ''f''" "c \<noteq> CHR ''N''" "c \<noteq> CHR ''I''"
  using assms by (auto simp: is_digit_def quote_def is_space_def char_nat_def)

lemma int_text_parse:
  assumes "token_end rest" "0 < n"
  shows "parse_value n (int_text i @ rest) = Inr (JInt i, rest)"
proof -
  obtain m where n: "n = Suc m" using assms(2) by (cases n) auto
  show ?thesis
  proof (cases "i < 0")
    case True
    obtain c t where ct: "nat_text (nat (- i)) = c # t" by (cases "nat_text (nat (- i))") auto
    have c: "is_digit c" using nat_text_digits [of "nat (- i)"] by (simp add: ct)
    have "\<not> starts_with ''Infinity'' ((c # t) @ rest)"
      using digit_not_special(11) [OF c] by (simp add: starts_with_def)
    then have "parse_number (CHR ''-'' # (c # t) @ rest) = Inr (JInt i, rest)"
      using parse_unsigned_nat_text [OF assms(1), of True "nat (- i)"] True
      by (simp add: parse_number_def ct)
    with True show ?thesis by (simp add: n int_text_def ct starts_with_def quote_def)
  next
    case False
    obtain c t where ct: "nat_text (nat i) = c # t" by (cases "nat_text (nat i)") auto
    have c: "is_digit c" using nat_text_digits [of "nat i"] by (simp add: ct)
    have "parse_number ((c # t) @ rest) = Inr (JInt i, rest)"
      using parse_unsigned_nat_text [OF assms(1), of False "nat i"] False digit_not_special(5) [OF c]
      by (simp add: parse_number_def ct)
    with False show ?thesis
      using digit_not_special [OF c] by (simp add: n int_text_def ct starts_with_def)
  qed
qed

lemma json_text_head:
  assumes "plain j"
  obtains c t where "json_text j = c # t" "\<not> is_space c" "c \<noteq> CHR '']''"
proof (cases j)
  case (JInt i)
  obtain d u where "nat_text (nat i) = d # u" by (cases "nat_text (nat i)") auto
  moreover have "list_all is_digit (nat_text (nat i))" by (rule nat_text_digits)
  ultimately show ?thesis
    using JInt digit_not_special(4,6) [of d]
    by (cases "i < 0") (auto simp: int_text_def is_space_def intro!: that)
next
  case (JStr x)
  then show ?thesis by (intro that [of quote]) (simp_all add: string_text_def, simp add: quote_def)
next
  case JNull
  then show ?thesis by (intro that [of "CHR ''n''"]) (simp_all add: is_space_def)
next
  case (JBool b)
  then show ?thesis
    by (cases b) (intro that [of "CHR ''t''"] that [of "CHR ''f''"]; simp add: is_space_def)+
next
  case (JFloat t)
  with assms show ?thesis by simp
next
  case (JArr vs)
  then show ?thesis by (intro that [of "CHR ''[''"]) simp_all
next
  case (JObj ms)
  then show ?thesis by (intro that [of "CHR 0x7B"]) simp_all
qed

lemma parse_items_text:
  assumes "\<forall>v \<in> set vs. plain v \<and> (\<forall>n rest. need v \<le> n \<longrightarrow> token_end rest \<longrightarrow>
      parse_value n (json_text v @ rest) = Inr (v, rest))"
    and "vs \<noteq> []" "sum_list (map Suc (map need vs)) \<le> n"
  shows "parse_items n (comma_join (map json_text vs) @ CHR '']'' # rest) = Inr (vs, rest)"
  using assms
proof (induction vs arbitrary: n)
  case Nil
  then show ?case by simp
next
  case (Cons v vs)
  then obtain m where n: "n = Suc m" "need v \<le> m" "sum_list (map Suc (map need vs)) \<le> m"
    by (cases n) auto
  have v: "token_end r \<Longrightarrow> parse_value m (json_text v @ r) = Inr (v, r)" for r
    using Cons.prems(1) n(2) by simp
  show ?case
  proof (cases vs)
    case Nil
    then show ?thesis using v [of "CHR '']'' # rest"] by (simp add: n(1) token_end_cases)
  next
    case (Cons w ws)
    then obtain c t where ct: "comma_join (map json_text vs) = c # t" "\<not> is_space c"
    proof -
      have "plain w" using Cons.prems(1) Cons by simp
      then obtain c t where "json_text w = c # t" "\<not> is_space c" by (rule json_text_head)
      with Cons show thesis by (cases ws) (auto intro!: that)
    qed
    have "parse_items m (comma_join (map json_text vs) @ CHR '']'' # rest) = Inr (vs, rest)"
      using Cons.IH [of m] Cons.prems(1) n(3) Cons by simp
    then have "parse_items m (skip_space (comma_join (map json_text vs) @ CHR '']'' # rest)) = Inr (vs, rest)"
      by (simp add: ct)
    moreover have "comma_join (map json_text (v # vs)) = json_text v @ CHR '','' # comma_join (map json_text vs)"
      by (simp add: Cons)
    ultimately show ?thesis
      using v [of "CHR '','' # comma_join (map json_text vs) @ CHR '']'' # rest"]
      by (simp add: n(1) token_end_cases)
  qed
qed

abbreviation member_text :: "string \<times> json \<Rightarrow> string" where
  "member_text m \<equiv> string_text (fst m) @ CHR '':'' # json_text (snd m)"

lemma json_text_obj:
  "json_text (JObj ms) = CHR 0x7B # comma_join (map member_text ms) @ [CHR 0x7D]"
  by (simp add: comp_def case_prod_beta)

lemma need_obj: "need (JObj ms) = Suc (sum_list (map (Suc \<circ> need \<circ> snd) ms))"
  by (simp add: comp_def)

lemma parse_members_text:
  assumes "\<forall>m \<in> set ms. plain (snd m) \<and> (\<forall>n rest. need (snd m) \<le> n \<longrightarrow> token_end rest \<longrightarrow>
      parse_value n (json_text (snd m) @ rest) = Inr (snd m, rest))"
    and "ms \<noteq> []" "sum_list (map (Suc \<circ> need \<circ> snd) ms) \<le> n"
  shows "parse_members n (comma_join (map member_text ms) @ CHR 0x7D # rest) = Inr (ms, rest)"
  using assms
proof (induction ms arbitrary: n)
  case Nil
  then show ?case by simp
next
  case (Cons p ms)
  obtain k v where p: "p = (k, v)" by (cases p)
  from Cons.prems obtain m where n: "n = Suc m" "need v \<le> m" "sum_list (map (Suc \<circ> need \<circ> snd) ms) \<le> m"
    by (cases n) (auto simp: p comp_def)
  have v: "token_end r \<Longrightarrow> parse_value m (json_text v @ r) = Inr (v, r)" for r
    using Cons.prems(1) n(2) by (simp add: p)
  have "plain v" using Cons.prems(1) by (simp add: p)
  then obtain c t where ct: "json_text v = c # t" "\<not> is_space c" by (rule json_text_head)
  have sp: "skip_space (json_text v @ r) = json_text v @ r" for r by (simp add: ct)
  have head: "parse_members (Suc m) (member_text p @ r) =
      bindP (parse_value m (json_text v @ r)) (\<lambda>v w.
                  case skip_space w of
                    e # x \<Rightarrow>
                      if e = CHR 0x7D then Inr ([(k, v)], x)
                      else if e = CHR '','' then
                        bindP (parse_members m (skip_space x)) (\<lambda>ms y. Inr ((k, v) # ms, y))
                      else Inl MalformedJson
                  | [] \<Rightarrow> Inl MalformedJson)" for r
    by (simp add: p string_text_def parse_string_text sp)
  show ?case
  proof (cases ms)
    case Nil
    then show ?thesis
      using head [of "CHR 0x7D # rest"] v [of "CHR 0x7D # rest"]
      by (simp add: n(1) p token_end_cases del: parse_members.simps)
  next
    case (Cons q qs)
    have "\<exists>u. comma_join (map member_text ms) = quote # u"
      by (cases qs) (simp_all add: Cons string_text_def)
    then obtain u where u: "comma_join (map member_text ms) = quote # u" ..
    have sp2: "skip_space (comma_join (map member_text ms) @ r) = comma_join (map member_text ms) @ r" for r
      by (simp add: u)
    have "parse_members m (comma_join (map member_text ms) @ CHR 0x7D # rest) = Inr (ms, rest)"
      by (rule Cons.IH [OF _ _ n(3)]) (use Cons.prems(1) Cons in simp_all)
    moreover have "comma_join (map member_text (p # ms)) =
        member_text p @ CHR '','' # comma_join (map member_text ms)"
      by (simp add: Cons)
    ultimately show ?thesis
      using head [of "CHR '','' # comma_join (map member_text ms) @ CHR 0x7D # rest"]
        v [of "CHR '','' # comma_join (map member_text ms) @ CHR 0x7D # rest"]
      by (simp add: n(1) p token_end_cases sp2 del: parse_members.simps)
  qed
qed

theorem parse_json_text:
  "plain j \<Longrightarrow> need j \<le> n \<Longrightarrow> token_end rest \<Longrightarrow> parse_value n (json_text j @ rest) = Inr (j, rest)"
proof (induction j arbitrary: n rest)
  case (JBool b)
  then obtain m where "n = Suc m" by (cases n) auto
  then show ?case by (cases b) (simp_all add: starts_with_def quote_def)
next
  case JNull
  then obtain m where "n = Suc m" by (cases n) auto
  then show ?case by (simp add: starts_with_def quote_def)
next
  case (JInt i)
  then show ?case by (simp add: int_text_parse)
next
  case (JStr x)
  then obtain m where "n = Suc m" by (cases n) auto
  then show ?case by (simp add: string_text_def parse_string_text)
next
  case (JArr vs)
  then obtain m where n: "n = Suc m" "sum_list (map Suc (map need vs)) \<le> m" by (cases n) auto
  have IH: "\<forall>v \<in> set vs. plain v \<and> (\<forall>n rest. need v \<le> n \<longrightarrow> token_end rest \<longrightarrow>
      parse_value n (json_text v @ rest) = Inr (v, rest))"
    using JArr.prems(1) by (intro ballI conjI allI impI JArr.IH) (simp_all add: list_all_iff)
  show ?case
  proof (cases vs)
    case Nil
    then show ?thesis by (simp add: n quote_def)
  next
    case (Cons w ws)
    have "plain w" using IH Cons by simp
    then obtain c t where ct: "json_text w = c # t" "\<not> is_space c" "c \<noteq> CHR '']''" by (rule json_text_head)
    have "\<exists>u. comma_join (map json_text vs) = c # u" using ct(1) Cons by (cases ws) auto
    then obtain u where u: "comma_join (map json_text vs) = c # u" ..
    have "parse_items m (comma_join (map json_text vs) @ CHR '']'' # rest) = Inr (vs, rest)"
      by (rule parse_items_text [OF IH _ n(2)]) (simp add: Cons)
    then show ?thesis using ct by (simp add: n(1) u quote_def)
  qed
next
  case (JObj ms)
  from JObj.prems(2) obtain m where n: "n = Suc m" "sum_list (map (Suc \<circ> need \<circ> snd) ms) \<le> m"
    by (cases n) (simp_all add: need_obj del: need.simps)
  have IH: "\<forall>p \<in> set ms. plain (snd p) \<and> (\<forall>n rest. need (snd p) \<le> n \<longrightarrow> token_end rest \<longrightarrow>
      parse_value n (json_text (snd p) @ rest) = Inr (snd p, rest))"
  proof
    fix p assume p: "p \<in> set ms"
    have pv: "plain (snd p)" using JObj.prems(1) p by (cases p) (simp add: list_all_iff, fastforce)
    moreover have "snd p \<in> Basic_BNFs.snds p" by (cases p) simp
    ultimately show "plain (snd p) \<and> (\<forall>n rest. need (snd p) \<le> n \<longrightarrow> token_end rest \<longrightarrow>
        parse_value n (json_text (snd p) @ rest) = Inr (snd p, rest))"
      using JObj.IH [OF p] by blast
  qed
  show ?case
  proof (cases ms)
    case Nil
    then show ?thesis by (simp add: n quote_def)
  next
    case (Cons q qs)
    have "\<exists>u. comma_join (map member_text ms) = quote # u"
      by (cases qs) (simp_all add: Cons string_text_def)
    then obtain u where u: "comma_join (map member_text ms) = quote # u" ..
    have "parse_members m (comma_join (map member_text ms) @ CHR 0x7D # rest) = Inr (ms, rest)"
      by (rule parse_members_text [OF IH _ n(2)]) (simp add: Cons)
    then show ?thesis
      using JObj.prems(1)
      by (simp add: n(1) json_text_obj u del: json_text.simps) (simp add: quote_def)
  qed
qed simp

lemma comma_join_length:
  "xs \<noteq> [] \<Longrightarrow> length (comma_join xs) = sum_list (map length xs) + (length xs - 1)"
  by (induction xs rule: comma_join.induct) auto

lemma sum_list_le:
  fixes f g :: "'a \<Rightarrow> nat"
  assumes "\<And>x. x \<in> set xs \<Longrightarrow> f x \<le> g x"
  shows "sum_list (map f xs) \<le> sum_list (map g xs)"
  using assms by (induction xs) (auto intro: add_mono)

lemma need_bound: "plain j \<Longrightarrow> need j \<le> 2 * length (json_text j)"
proof (induction j)
  case (JInt i)
  then show ?case by (cases "nat_text (nat (abs i))") (auto simp: int_text_def Suc_le_eq)
next
  case (JArr vs)
  have "sum_list (map (\<lambda>v. Suc (need v)) vs) \<le> sum_list (map (\<lambda>v. 2 * length (json_text v) + 1) vs)"
    by (rule sum_list_le) (use JArr in \<open>auto simp: list_all_iff\<close>)
  also have "\<dots> = 2 * sum_list (map length (map json_text vs)) + length vs"
    by (induction vs) auto
  finally show ?case
    by (cases "vs = []") (auto simp: comma_join_length comp_def)
next
  case (JObj ms)
  have "sum_list (map (\<lambda>m. Suc (need (snd m))) ms) \<le> sum_list (map (\<lambda>m. 2 * length (member_text m) + 1) ms)"
    by (rule sum_list_le) (use JObj in \<open>fastforce simp: list_all_iff\<close>)
  also have "\<dots> = 2 * sum_list (map length (map member_text ms)) + length ms"
    by (induction ms) auto
  finally show ?case
    unfolding need_obj json_text_obj by (cases "ms = []") (auto simp: comma_join_length comp_def)
qed (auto simp: string_text_def)

section \<open>The round trip\<close>

lemma plain_canon [simp]: "plain (canon j) = plain j"
proof (induction j)
  case (JArr vs)
  then show ?case by (auto simp: list_all_iff)
next
  case (JObj ms)
  have "distinct (map fst (sort_key fst xs)) = distinct (map fst xs)" for xs :: members
    by (simp add: distinct_map)
  then have "distinct (map fst (sort_key fst (map (map_prod id canon) ms))) = distinct (map fst ms)"
    by (simp add: comp_def)
  with JObj show ?case by (fastforce simp: list_all_iff)
qed simp_all

lemma loads_text: "plain j \<Longrightarrow> loads (json_text j) = Inr j"
proof -
  assume p: "plain j"
  obtain c t where ct: "json_text j = c # t" "\<not> is_space c" using p by (rule json_text_head)
  have "parse_value (2 * length (json_text j) + 2) (json_text j @ []) = Inr (j, [])"
    by (rule parse_json_text [OF p]) (use need_bound [OF p] in \<open>simp_all add: token_end_def\<close>)
  then show ?thesis using ct by (simp add: loads_def skip_space_def del: parse_value.simps)
qed

lemma loads_dumps: "plain j \<Longrightarrow> loads (dumps j) = Inr (canon j)"
  unfolding dumps_def by (rule loads_text) simp

lemma dumps_injective: "plain j \<Longrightarrow> plain k \<Longrightarrow> dumps j = dumps k \<Longrightarrow> canon j = canon k"
  by (metis loads_dumps sum.inject(2))

end
