(* ===== verification/Framing.thy ===== *)
theory Framing
  imports Json_Text Utf8 "HOL-Library.Sublist"
begin

text \<open>
  The canonical frame of \<open>floati/framing.py\<close>: one record is one line of UTF-8 compact JSON and
  every durable ledger is a concatenation of frames.  \<open>encode_frame\<close> and \<open>decode_frames\<close> are
  the two functions of that file; \<open>split_lines\<close> is \<open>bytes.splitlines\<close> and \<open>loads_bytes\<close> is
  \<open>json.loads\<close> on bytes with its detection of the encoding.

  \<open>OutsideModel\<close> stands for the outcomes the model does not compute: text with a code point
  from 256 on or in UTF-16 or UTF-32, and the shortest decimal form of a float.  The length limit
  of Python on decimal integers and its recursion limit are not modelled.
\<close>

datatype frame_error = FrameError string nat | OutsideModel

definition FRAME_TERMINATOR :: char where "FRAME_TERMINATOR = CHR 0x0A"

primrec float_tokens :: "json \<Rightarrow> string list" where
  "float_tokens JNull = []"
| "float_tokens (JBool b) = []"
| "float_tokens (JInt i) = []"
| "float_tokens (JFloat t) = [t]"
| "float_tokens (JStr s) = []"
| "float_tokens (JArr vs) = concat (map float_tokens vs)"
| "float_tokens (JObj ms) = concat (map snd (map (map_prod id float_tokens) ms))"

definition encode_frame :: "json \<Rightarrow> frame_error + string" where
  "encode_frame record =
     (if list_ex (\<lambda>t. t \<in> {''NaN'', ''Infinity'', ''-Infinity''}) (float_tokens record)
        then Inl (FrameError ''record_not_ijson'' 0)
      else if float_tokens record \<noteq> [] then Inl OutsideModel
      else Inr (encode_utf8 (dumps record) @ [FRAME_TERMINATOR]))"

section \<open>Decoding\<close>

fun split_lines :: "string \<Rightarrow> string list" where
  "split_lines [] = []"
| "split_lines (c # s) =
     (if c = CHR 0x0A then [] # split_lines s
      else if c = CHR 0x0D then
        [] # (case s of
                d # t \<Rightarrow> if d = CHR 0x0A then split_lines t else split_lines s
              | [] \<Rightarrow> [])
      else (case split_lines s of [] \<Rightarrow> [[c]] | l # ls \<Rightarrow> (c # l) # ls))"

definition wide_encoding :: "string \<Rightarrow> bool" where
  "wide_encoding b \<longleftrightarrow>
     starts_with [CHR 0xFE, CHR 0xFF] b \<or> starts_with [CHR 0xFF, CHR 0xFE] b \<or>
     (length b \<ge> 4 \<or> length b = 2) \<and> (b ! 0 = CHR 0x00 \<or> b ! 1 = CHR 0x00)"

definition loads_bytes :: "string \<Rightarrow> json_error + json" where
  "loads_bytes b =
     (if wide_encoding b then Inl Unmodelled
      else let t = if starts_with [CHR 0xEF, CHR 0xBB, CHR 0xBF] b then drop 3 b else b
           in if \<not> valid_utf8 True t then Inl MalformedJson
              else if \<not> narrow t then Inl Unmodelled
              else loads (narrow_chars t))"

fun decode_lines :: "nat \<Rightarrow> string list \<Rightarrow> frame_error + json list" where
  "decode_lines line_number [] = Inr []"
| "decode_lines line_number (raw # raws) =
     (if raw = [] then Inl (FrameError ''blank_frame'' line_number)
      else (case loads_bytes raw of
              Inl DuplicateKey \<Rightarrow> Inl (FrameError ''duplicate_json_key'' line_number)
            | Inl MalformedJson \<Rightarrow> Inl (FrameError ''malformed_json'' line_number)
            | Inl Unmodelled \<Rightarrow> Inl OutsideModel
            | Inr j \<Rightarrow>
                (case decode_lines (Suc line_number) raws of
                   Inl e \<Rightarrow> Inl e
                 | Inr js \<Rightarrow> Inr (j # js))))"

definition decode_frames :: "string \<Rightarrow> frame_error + json list" where
  "decode_frames data =
     (if data \<noteq> [] \<and> last data \<noteq> FRAME_TERMINATOR then Inl (FrameError ''incomplete_frame'' 0)
      else decode_lines 1 (split_lines data))"

section \<open>The characters of a frame\<close>

definition printable :: "string \<Rightarrow> bool" where
  "printable s \<longleftrightarrow> list_all (\<lambda>c. 32 \<le> char_nat c) s"

lemma printable_simps [simp]:
  "printable []"
  "printable (c # s) \<longleftrightarrow> 32 \<le> char_nat c \<and> printable s"
  "printable (s @ t) \<longleftrightarrow> printable s \<and> printable t"
  by (simp_all add: printable_def)

lemma printable_concat: "printable (concat ss) \<longleftrightarrow> list_all printable ss"
  by (induction ss) simp_all

lemma printable_char [simp]:
  "32 \<le> char_nat (CHR ''['')" "32 \<le> char_nat (CHR '']'')" "32 \<le> char_nat (CHR 0x7B)"
  "32 \<le> char_nat (CHR 0x7D)" "32 \<le> char_nat (CHR '','')" "32 \<le> char_nat (CHR '':'')"
  "32 \<le> char_nat (CHR ''-'')" "32 \<le> char_nat (CHR ''u'')" "32 \<le> char_nat (CHR ''0'')"
  "32 \<le> char_nat (CHR ''b'')" "32 \<le> char_nat (CHR ''t'')" "32 \<le> char_nat (CHR ''n'')"
  "32 \<le> char_nat (CHR ''f'')" "32 \<le> char_nat (CHR ''r'')"
  by (simp_all add: char_nat_def)

lemma printable_escape: "printable (escape_char c)"
proof -
  have "32 \<le> char_nat (hex_char_of d)" if "d < 16" for d
    using that by (simp add: hex_char_of_def)
  moreover have "char_nat c div 16 < 16" by (rule less_mult_imp_div_less) simp
  ultimately show ?thesis by (simp add: escape_char_def)
qed

lemma printable_nat_text: "printable (nat_text n)"
  using nat_text_digits [of n] by (auto simp: printable_def list_all_iff is_digit_def)

lemma printable_comma_join: "list_all printable ss \<Longrightarrow> printable (comma_join ss)"
  by (induction ss rule: comma_join.induct) simp_all

lemma printable_string_text: "printable (string_text s)"
  by (simp add: string_text_def printable_concat list_all_iff printable_escape)

lemma printable_json_text: "plain j \<Longrightarrow> printable (json_text j)"
proof (induction j)
  case (JBool b)
  then show ?case by (simp add: char_nat_def)
next
  case JNull
  then show ?case by (simp add: char_nat_def)
next
  case (JInt i)
  then show ?case by (simp add: int_text_def printable_nat_text)
next
  case (JArr vs)
  then have "list_all printable (map json_text vs)" by (simp add: list_all_iff)
  then show ?case by (simp add: printable_comma_join)
next
  case (JObj ms)
  have "printable (member_text m)" if "m \<in> set ms" for m
  proof -
    have "plain (snd m)" using JObj.prems that by (cases m) (simp add: list_all_iff, fastforce)
    moreover have "snd m \<in> Basic_BNFs.snds m" by (cases m) simp
    ultimately show ?thesis using JObj.IH [OF that] by (simp add: printable_string_text)
  qed
  then have "list_all printable (map member_text ms)" by (simp add: list_all_iff)
  then show ?case by (simp add: json_text_obj printable_comma_join del: json_text.simps)
qed (simp_all add: printable_string_text)

section \<open>Frames of plain rows\<close>

definition payload :: "json \<Rightarrow> string" where
  "payload j = encode_utf8 (dumps j)"

definition frame :: "json \<Rightarrow> string" where
  "frame j = payload j @ [FRAME_TERMINATOR]"

lemma plain_float_tokens: "plain j \<Longrightarrow> float_tokens j = []"
proof (induction j)
  case (JObj ms)
  have "float_tokens (snd m) = []" if "m \<in> set ms" for m
  proof -
    have "plain (snd m)" using JObj.prems that by (cases m) (simp add: list_all_iff, fastforce)
    moreover have "snd m \<in> Basic_BNFs.snds m" by (cases m) simp
    ultimately show ?thesis using JObj.IH [OF that] by simp
  qed
  then show ?case by auto
qed (auto simp: list_all_iff)

lemma encode_frame_plain [simp]: "plain j \<Longrightarrow> encode_frame j = Inr (frame j)"
  by (simp add: encode_frame_def plain_float_tokens frame_def payload_def)

lemma payload_bytes:
  assumes "plain j" "b \<in> set (payload j)"
  shows "32 \<le> (of_char b :: nat)" "(of_char b :: nat) < 196"
proof -
  have "printable (dumps j)" using assms(1) by (simp add: dumps_def printable_json_text)
  then have "32 \<le> (of_char c :: nat)" if "c \<in> set (dumps j)" for c
    using that by (simp add: printable_def list_all_iff char_nat_def)
  then show "32 \<le> (of_char b :: nat)" "(of_char b :: nat) < 196"
    using encode_utf8_bytes [of b "dumps j"] assms(2) by (auto simp: payload_def)
qed

lemma payload_nonempty [simp]: "plain j \<Longrightarrow> payload j \<noteq> []"
  by (metis dumps_def encode_utf8_Nil_iff json_text_head list.distinct(1) payload_def plain_canon)

lemma payload_no_break:
  assumes "plain j" "b \<in> set (payload j)"
  shows "b \<noteq> CHR 0x0A" "b \<noteq> CHR 0x0D" "b \<noteq> CHR 0x00" "b \<noteq> CHR 0xFE" "b \<noteq> CHR 0xFF" "b \<noteq> CHR 0xEF"
  using payload_bytes [OF assms] by auto

lemma wide_payload [simp]:
  assumes "plain j"
  shows "\<not> wide_encoding (payload j)" "\<not> starts_with [CHR 0xEF, CHR 0xBB, CHR 0xBF] (payload j)"
proof -
  have z: "b \<in> set (payload j) \<Longrightarrow> b \<noteq> CHR 0x00 \<and> b \<noteq> CHR 0xFE \<and> b \<noteq> CHR 0xFF \<and> b \<noteq> CHR 0xEF" for b
    using payload_no_break [OF assms] by blast
  show "\<not> starts_with [CHR 0xEF, CHR 0xBB, CHR 0xBF] (payload j)"
    using z by (cases "payload j") (auto simp: starts_with_def)
  have "\<not> starts_with [CHR 0xFE, CHR 0xFF] (payload j)" "\<not> starts_with [CHR 0xFF, CHR 0xFE] (payload j)"
    using z by (cases "payload j"; force simp: starts_with_def)+
  moreover have "n < length (payload j) \<Longrightarrow> payload j ! n \<noteq> CHR 0x00" for n
    using z nth_mem by blast
  from this [of 0] this [of 1]
  have "length (payload j) \<ge> 2 \<Longrightarrow> payload j ! 0 \<noteq> CHR 0x00 \<and> payload j ! 1 \<noteq> CHR 0x00"
    by (cases "payload j"; cases "tl (payload j)") auto
  ultimately show "\<not> wide_encoding (payload j)" by (auto simp: wide_encoding_def)
qed

lemma loads_bytes_payload [simp]:
  assumes "plain j"
  shows "loads_bytes (payload j) = Inr (canon j)"
  using assms by (simp add: loads_bytes_def) (simp add: payload_def loads_dumps)

lemma split_lines_frame:
  assumes "plain j"
  shows "split_lines (frame j @ rest) = payload j # split_lines rest"
proof -
  have "list_all (\<lambda>b. b \<noteq> CHR 0x0A \<and> b \<noteq> CHR 0x0D) u \<Longrightarrow>
      split_lines (u @ CHR 0x0A # rest) = u # split_lines rest" for u
    by (induction u) auto
  moreover have "list_all (\<lambda>b. b \<noteq> CHR 0x0A \<and> b \<noteq> CHR 0x0D) (payload j)"
    using payload_no_break [OF assms] by (auto simp: list_all_iff)
  ultimately show ?thesis by (simp add: frame_def FRAME_TERMINATOR_def)
qed

lemma split_lines_frames:
  "list_all plain js \<Longrightarrow> split_lines (concat (map frame js)) = map payload js"
  by (induction js) (simp_all add: split_lines_frame)

lemma decode_lines_payloads:
  "list_all plain js \<Longrightarrow> decode_lines n (map payload js) = Inr (map canon js)"
  by (induction js arbitrary: n) simp_all

lemma last_frames:
  "js \<noteq> [] \<Longrightarrow> last (concat (map frame js)) = FRAME_TERMINATOR"
  by (induction js) (auto simp: frame_def)

lemma decode_frames_concat:
  assumes "list_all plain js"
  shows "decode_frames (concat (map frame js)) = Inr (map canon js)"
  using assms last_frames [of js]
  by (cases "js = []") (simp_all add: decode_frames_def split_lines_frames decode_lines_payloads)

lemma frames_prefix:
  "prefix p (concat (map frame js)) \<Longrightarrow>
   \<exists>k q. k \<le> length js \<and> p = concat (map frame (take k js)) @ q \<and>
     (q = [] \<or> k < length js \<and> prefix q (payload (js ! k)))"
proof (induction js arbitrary: p)
  case Nil
  then show ?case by simp
next
  case (Cons j js)
  show ?case
  proof (cases "prefix (frame j) p")
    case True
    then obtain r where r: "p = frame j @ r" by (auto simp: prefix_def)
    with Cons.prems have "prefix r (concat (map frame js))" by simp
    from Cons.IH [OF this] obtain k q where "k \<le> length js" "r = concat (map frame (take k js)) @ q"
        "q = [] \<or> k < length js \<and> prefix q (payload (js ! k))"
      by blast
    then show ?thesis by (intro exI [of _ "Suc k"] exI [of _ q]) (simp add: r)
  next
    case False
    with Cons.prems have "strict_prefix p (frame j)"
      by (metis append_eq_conv_conj concat.simps(2) list.simps(9) prefixI prefix_same_cases strict_prefixI)
    then have "prefix p (payload j)" by (auto simp: frame_def strict_prefix_def)
    then show ?thesis by (intro exI [of _ 0] exI [of _ p]) simp
  qed
qed

lemma torn_tail:
  assumes "plain j" "q \<noteq> []" "prefix q (payload j)"
  shows "decode_frames (p @ q) = Inl (FrameError ''incomplete_frame'' 0)"
proof -
  have "last q \<in> set (payload j)" using assms(2,3) last_in_set set_mono_prefix by blast
  then have "last q \<noteq> FRAME_TERMINATOR"
    using payload_no_break(1) [OF assms(1)] unfolding FRAME_TERMINATOR_def by blast
  then show ?thesis using assms(2) by (simp add: decode_frames_def)
qed

section \<open>Growing a file by one frame\<close>

lemma split_lines_complete:
  "s = [] \<or> last s = CHR 0x0A \<Longrightarrow> split_lines (s @ t) = split_lines s @ split_lines t"
proof (induction s rule: split_lines.induct)
  case (2 c s)
  show ?case
  proof (cases "s = []")
    case True
    with "2.prems" show ?thesis by simp
  next
    case False
    with "2.prems" have last: "last s = CHR 0x0A" by simp
    obtain d u where du: "s = d # u" using False by (cases s) auto
    have u: "u = [] \<or> last u = CHR 0x0A" using last by (simp add: du split: if_splits)
    consider "c = CHR 0x0A" | "c = CHR 0x0D" "d = CHR 0x0A" | "c = CHR 0x0D" "d \<noteq> CHR 0x0A"
      | "c \<noteq> CHR 0x0A" "c \<noteq> CHR 0x0D"
      by blast
    then show ?thesis
    proof cases
      case 1
      with "2.IH"(1) last show ?thesis by simp
    next
      case 2
      with "2.IH"(2) u show ?thesis by (simp add: du)
    next
      case 3
      with "2.IH"(3) last show ?thesis by (simp add: du)
    next
      case 4
      have "split_lines s \<noteq> []" using du by (auto split: list.splits)
      then show ?thesis using 4 "2.IH"(4) last by (auto split: list.splits)
    qed
  qed
qed simp

lemma decode_lines_append:
  "decode_lines n (xs @ ys) =
     (case decode_lines n xs of
        Inl e \<Rightarrow> Inl e
      | Inr js \<Rightarrow> (case decode_lines (n + length xs) ys of Inl e \<Rightarrow> Inl e | Inr ks \<Rightarrow> Inr (js @ ks)))"
  by (induction xs arbitrary: n) (auto split: sum.splits json_error.splits)

lemma decode_frames_complete: "decode_frames data = Inr js \<Longrightarrow> data = [] \<or> last data = CHR 0x0A"
  by (auto simp: decode_frames_def FRAME_TERMINATOR_def split: if_splits)

lemma split_lines_add_frame:
  assumes "decode_frames data = Inr js" "plain j"
  shows "split_lines (data @ frame j) = split_lines data @ [payload j]"
  using split_lines_complete [OF decode_frames_complete [OF assms(1)]] split_lines_frame [OF assms(2), of "[]"]
  by simp

lemma decode_frames_add_frame:
  assumes "decode_frames data = Inr js" "plain j"
  shows "decode_frames (data @ frame j) = Inr (js @ [canon j])"
proof -
  have "decode_lines 1 (split_lines data) = Inr js"
    using assms(1) by (simp add: decode_frames_def split: if_splits)
  then show ?thesis
    unfolding decode_frames_def split_lines_add_frame [OF assms]
    by (simp add: decode_lines_append assms(2)) (simp add: frame_def)
qed

lemma decode_lines_nth:
  "decode_lines n xs = Inr js \<Longrightarrow> length js = length xs \<and> (\<forall>i < length xs. loads_bytes (xs ! i) = Inr (js ! i))"
proof (induction xs arbitrary: n js)
  case (Cons x xs)
  then obtain j ks where jk: "loads_bytes x = Inr j" "decode_lines (Suc n) xs = Inr ks" "js = j # ks"
    by (auto split: if_splits sum.splits json_error.splits)
  with Cons.IH [OF jk(2)] show ?case by (auto simp: nth_Cons split: nat.splits)
qed simp

section \<open>The length of a frame\<close>

text \<open>An upper bound on the length of a frame.\<close>

primrec text_bound :: "json \<Rightarrow> nat" where
  "text_bound JNull = 4"
| "text_bound (JBool b) = 5"
| "text_bound (JInt i) = nat \<bar>i\<bar> + 2"
| "text_bound (JFloat t) = length t"
| "text_bound (JStr s) = 6 * length s + 2"
| "text_bound (JArr vs) = 2 + sum_list (map (\<lambda>v. v + 1) (map text_bound vs))"
| "text_bound (JObj ms) = 2 + sum_list (map (\<lambda>(k, v). 6 * length k + 4 + v) (map (map_prod id text_bound) ms))"

lemma length_nat_text: "length (nat_text n) \<le> n + 1"
proof (induction n rule: nat_text.induct)
  case (1 n)
  show ?case
  proof (cases "n < 10")
    case False
    with 1 have "length (nat_text (n div 10)) \<le> n div 10 + 1" by simp
    with False show ?thesis by (subst nat_text.simps) simp
  qed (subst nat_text.simps, simp)
qed

lemma length_string_text: "length (string_text s) \<le> 6 * length s + 2"
proof -
  have "length (escape_char c) \<le> 6" for c by (simp add: escape_char_def)
  then have "length (concat (map escape_char s)) \<le> 6 * length s"
    by (induction s) (simp_all add: add_le_mono)
  then show ?thesis by (simp add: string_text_def)
qed

lemma length_comma_join: "length (comma_join ss) \<le> sum_list (map (\<lambda>s. length s + 1) ss)"
  by (induction ss rule: comma_join.induct) simp_all

lemma length_json_text: "length (json_text j) \<le> text_bound j"
proof (induction j)
  case (JInt i)
  show ?case using length_nat_text [of "nat i"] length_nat_text [of "nat (- i)"] by (simp add: int_text_def)
next
  case (JArr vs)
  then have "sum_list (map (\<lambda>s. length s + 1) (map json_text vs)) \<le>
      sum_list (map (\<lambda>v. v + 1) (map text_bound vs))"
    by (induction vs) (simp_all add: add_le_mono)
  with length_comma_join [of "map json_text vs"] show ?case by simp
next
  case (JObj ms)
  have "length (string_text k @ CHR '':'' # json_text v) + 1 \<le> 6 * length k + 4 + text_bound v"
    if "(k, v) \<in> set ms" for k v
  proof -
    have "length (json_text v) \<le> text_bound v" by (rule JObj.IH [OF that]) simp
    with length_string_text [of k] show ?thesis by simp
  qed
  then have "sum_list (map (\<lambda>(k, v). length (string_text k @ CHR '':'' # json_text v) + 1) ms) \<le>
      sum_list (map (\<lambda>(k, v). 6 * length k + 4 + text_bound v) ms)"
    by (intro sum_list_mono) auto
  then have "sum_list (map (\<lambda>s. length s + 1) (map (\<lambda>(k, v). string_text k @ CHR '':'' # v) (map (map_prod id json_text) ms)))
      \<le> sum_list (map (\<lambda>(k, v). 6 * length k + 4 + v) (map (map_prod id text_bound) ms))"
    by (simp add: comp_def case_prod_unfold)
  with length_comma_join [of "map (\<lambda>(k, v). string_text k @ CHR '':'' # v) (map (map_prod id json_text) ms)"]
  show ?case by simp
next
  case (JStr s)
  show ?case using length_string_text [of s] by simp
qed simp_all

lemma length_frame: "length (frame j) \<le> 2 * text_bound (canon j) + 1"
proof -
  have "length (encode_utf8_char c) \<le> 2" for c by (simp add: encode_utf8_char_def Let_def)
  then have "sum_list (map (\<lambda>c. length (encode_utf8_char c)) s) \<le> sum_list (map (\<lambda>c. 2) s)" for s
    by (intro sum_list_mono)
  then have "length (encode_utf8 s) \<le> 2 * length s" for s
    by (simp add: encode_utf8_def length_concat comp_def sum_list_triv mult.commute)
  from this [of "dumps j"] length_json_text [of "canon j"] show ?thesis
    by (simp add: frame_def payload_def dumps_def)
qed

section \<open>What the ledgers rely on\<close>

lemma encoded_frames:
  "list_all plain js \<Longrightarrow> map encode_frame js = map Inr fs \<Longrightarrow> fs = map frame js"
  by (induction js arbitrary: fs) (auto simp: map_eq_Cons_conv Cons_eq_map_conv)

text \<open>C26: frames written one after the other read back, in order, as the rows themselves with
  their members sorted: no row is lost, split or merged, whatever text it carries.\<close>

theorem frames_roundtrip:
  assumes "list_all plain js"
  shows "\<exists>fs. map encode_frame js = map Inr fs \<and> decode_frames (concat fs) = Inr (map canon js)"
proof (intro exI conjI)
  show "map encode_frame js = map Inr (map frame js)" using assms by (simp add: list_all_iff)
  show "decode_frames (concat (map frame js)) = Inr (map canon js)"
    by (rule decode_frames_concat [OF assms])
qed

text \<open>C27: a file that was cut short at any byte either reads as the rows whose frames are
  complete, when the cut falls between two frames, or is refused as incomplete; a torn append is
  never read as a row.\<close>

theorem torn_file_detected:
  assumes "list_all plain js" "map encode_frame js = map Inr fs" "prefix p (concat fs)"
  shows "(\<exists>k \<le> length js. p = concat (take k fs) \<and> decode_frames p = Inr (map canon (take k js))) \<or>
    decode_frames p = Inl (FrameError ''incomplete_frame'' 0)"
proof -
  have fs: "fs = map frame js" using assms(1,2) by (rule encoded_frames)
  obtain k q where k: "k \<le> length js" "p = concat (map frame (take k js)) @ q"
      "q = [] \<or> k < length js \<and> prefix q (payload (js ! k))"
    using frames_prefix assms(3) unfolding fs by blast
  show ?thesis
  proof (cases "q = []")
    case True
    have "list_all plain (take k js)" using assms(1) by (auto simp: list_all_iff dest: in_set_takeD)
    then have "decode_frames p = Inr (map canon (take k js))"
      using k(2) True decode_frames_concat by simp
    with k True show ?thesis by (auto simp: fs take_map)
  next
    case False
    then have "plain (js ! k)" "prefix q (payload (js ! k))"
      using k(3) assms(1) by (auto simp: list_all_iff)
    then show ?thesis using torn_tail [OF _ False] k(2) by simp
  qed
qed

lemma example_rows_plain:
  "list_all plain [JObj [(''z'', JStr [CHR 0x0A, CHR 0xE9]), (''a'', JArr [JNull, JInt (- 12)])], JObj []]"
  by simp

lemma frames_roundtrip_witness:
  "\<exists>fs. map encode_frame [JObj [(''z'', JStr [CHR 0x0A, CHR 0xE9]), (''a'', JArr [JNull, JInt (- 12)])],
      JObj []] = map Inr fs \<and>
    decode_frames (concat fs) =
      Inr [JObj [(''a'', JArr [JNull, JInt (- 12)]), (''z'', JStr [CHR 0x0A, CHR 0xE9])], JObj []]"
  using frames_roundtrip [OF example_rows_plain] by simp

lemma torn_file_detected_witness:
  "(\<exists>k \<le> 1. take 2 (frame (JObj [])) = concat (take k [frame (JObj [])]) \<and>
      decode_frames (take 2 (frame (JObj []))) = Inr (map canon (take k [JObj []]))) \<or>
    decode_frames (take 2 (frame (JObj []))) = Inl (FrameError ''incomplete_frame'' 0)"
  using torn_file_detected [of "[JObj []]" "[frame (JObj [])]" "take 2 (frame (JObj []))"]
  by (simp add: take_is_prefix)

end
