(* ===== verification/Task_Contracts.thy ===== *)
theory Task_Contracts
  imports Framing "HOL-Library.Product_Lexorder"
begin

text \<open>
  \<open>floati/contracts.py\<close>: the digest-bound task contract, its amendments, the acceptance receipt
  and the append-only contract history.  The arguments of the constructors are decoded JSON
  values; a Python tuple or list is a \<open>JArr\<close> and a mapping a \<open>JObj\<close>.  SHA-256 (\<open>hashlib\<close>,
  outside \<open>src/\<close>) is the argument \<open>sha256\<close> from bytes to the hexadecimal text.
\<close>

section \<open>Bounded values\<close>

definition invalid :: "string \<Rightarrow> fault" where
  "invalid name = ProtocolRefusal (name @ ''_invalid'')"

definition bounded_text :: "string \<Rightarrow> nat \<Rightarrow> json \<Rightarrow> string res" where
  "bounded_text name maximum v =
     (case v of
        JStr s \<Rightarrow>
          if s = [] \<or> length s > maximum \<or> CHR 0x00 \<in> set s then Inl (invalid name) else Inr s
      | _ \<Rightarrow> Inl (invalid name))"

fun map_res :: "('a \<Rightarrow> 'b res) \<Rightarrow> 'a list \<Rightarrow> 'b list res" where
  "map_res f [] = Inr []"
| "map_res f (x # xs) = bindR (f x) (\<lambda>y. bindR (map_res f xs) (\<lambda>ys. Inr (y # ys)))"

definition string_list :: "string \<Rightarrow> nat \<Rightarrow> nat \<Rightarrow> json \<Rightarrow> string list res" where
  "string_list name minimum maximum v =
     (case v of
        JArr items \<Rightarrow>
          if length items < minimum \<or> length items > maximum then Inl (invalid name)
          else bindR (map_res (bounded_text name 4096) items) (\<lambda>values.
            if \<not> distinct values then Inl (invalid name) else Inr values)
      | _ \<Rightarrow> Inl (invalid name))"

definition map_entry :: "string \<Rightarrow> bool \<Rightarrow> string \<times> json \<Rightarrow> (string \<times> string) res" where
  "map_entry name hashes entry =
     bindR (bounded_text name 128 (JStr (fst entry))) (\<lambda>key.
     bindR (bounded_text name 4096 (snd entry)) (\<lambda>rendered.
       if hashes \<and> \<not> is_sha256 rendered then Inl (invalid name) else Inr (key, rendered)))"

definition string_map :: "string \<Rightarrow> bool \<Rightarrow> json \<Rightarrow> (string \<times> string) list res" where
  "string_map name hashes v =
     (case v of
        JObj entries \<Rightarrow>
          if entries = [] \<or> length entries > 64 then Inl (invalid name)
          else bindR (map_res (map_entry name hashes) entries) (\<lambda>values. Inr (sort values))
      | _ \<Rightarrow> Inl (invalid name))"

section \<open>Task contracts\<close>

record task_contract =
  tc_objective :: string
  tc_non_goals :: "string list"
  tc_areas_to_avoid :: "(string \<times> string) list"
  tc_input_hashes :: "(string \<times> string) list"
  tc_acceptance_checks :: "(string \<times> string) list"
  tc_constraints :: "(string \<times> string) list"
  tc_risk_class :: string
  tc_retry_policy :: "int \<times> int \<times> int \<times> string"
  tc_dependencies :: "string list"

definition avoid_area :: "json \<Rightarrow> (string \<times> string) res" where
  "avoid_area v =
     (case v of
        JObj area \<Rightarrow>
          if \<not> same_names area [''path'', ''region''] then Inl (invalid ''areas_to_avoid'')
          else bindR (bounded_text ''area_path'' 1024 (get_member area ''path'')) (\<lambda>path.
            if starts_with ''/'' path \<or>
               list_ex (\<lambda>part. part \<in> {[], ''.'', ''..''}) (split_on CHR ''/'' path)
              then Inl (invalid ''areas_to_avoid'')
            else bindR (bounded_text ''area_region'' 1024 (get_member area ''region'')) (\<lambda>region.
              Inr (path, region)))
      | _ \<Rightarrow> Inl (invalid ''areas_to_avoid''))"

definition avoid_areas :: "json \<Rightarrow> (string \<times> string) list res" where
  "avoid_areas v =
     (case v of
        JArr items \<Rightarrow>
          if items = [] \<or> length items > 64 then Inl (invalid ''areas_to_avoid'')
          else bindR (map_res avoid_area items) (\<lambda>areas.
            if \<not> distinct areas then Inl (invalid ''areas_to_avoid'') else Inr areas)
      | _ \<Rightarrow> Inl (invalid ''areas_to_avoid''))"

definition risk_class :: "json \<Rightarrow> string res" where
  "risk_class v =
     (case v of
        JStr s \<Rightarrow>
          if s \<in> {''low'', ''medium'', ''high'', ''critical''} then Inr s
          else Inl (invalid ''risk_class'')
      | _ \<Rightarrow> Inl (invalid ''risk_class''))"

definition backoff_policy :: "json \<Rightarrow> (int \<times> int \<times> string) res" where
  "backoff_policy v =
     (case v of
        JObj backoff \<Rightarrow>
          if \<not> same_names backoff [''base_delay_ms'', ''cap_delay_ms'', ''strategy'']
            then Inl (invalid ''retry_policy'')
          else (case (get_member backoff ''base_delay_ms'', get_member backoff ''cap_delay_ms'') of
                  (JInt base, JInt cap) \<Rightarrow>
                    if \<not> (0 \<le> base \<and> base \<le> cap \<and> cap \<le> 86400000)
                      then Inl (invalid ''retry_policy'')
                    else (case get_member backoff ''strategy'' of
                            JStr strategy \<Rightarrow>
                              if strategy \<in> {''fixed'', ''exponential''}
                                then Inr (base, cap, strategy)
                              else Inl (invalid ''retry_policy'')
                          | _ \<Rightarrow> Inl (invalid ''retry_policy''))
                | _ \<Rightarrow> Inl (invalid ''retry_policy''))
      | _ \<Rightarrow> Inl (invalid ''retry_policy''))"

definition retry_policy :: "json \<Rightarrow> (int \<times> int \<times> int \<times> string) res" where
  "retry_policy v =
     (case v of
        JObj policy \<Rightarrow>
          if \<not> same_names policy [''max_attempts'', ''backoff''] then Inl (invalid ''retry_policy'')
          else (case get_member policy ''max_attempts'' of
                  JInt max_attempts \<Rightarrow>
                    if max_attempts < 1 \<or> max_attempts > 32 then Inl (invalid ''retry_policy'')
                    else bindR (backoff_policy (get_member policy ''backoff'')) (\<lambda>(base, cap, strategy).
                      Inr (max_attempts, base, cap, strategy))
                | _ \<Rightarrow> Inl (invalid ''retry_policy''))
      | _ \<Rightarrow> Inl (invalid ''retry_policy''))"

text \<open>\<open>TaskContract.create\<close>, with its keyword arguments as the members of one object.\<close>

definition create_contract :: "members \<Rightarrow> task_contract res" where
  "create_contract args =
     bindR (avoid_areas (get_member args ''areas_to_avoid'')) (\<lambda>areas.
     bindR (risk_class (get_member args ''risk_class'')) (\<lambda>risk.
     bindR (retry_policy (get_member args ''retry_policy'')) (\<lambda>retry.
     bindR (bounded_text ''objective'' 4096 (get_member args ''objective'')) (\<lambda>objective.
     bindR (string_list ''non_goals'' 1 64 (get_member args ''non_goals'')) (\<lambda>non_goals.
     bindR (string_map ''input_hashes'' True (get_member args ''input_hashes'')) (\<lambda>input_hashes.
     bindR (string_map ''acceptance_checks'' False (get_member args ''acceptance_checks'')) (\<lambda>checks.
     bindR (string_map ''constraints'' False (get_member args ''constraints'')) (\<lambda>constraints.
     bindR (string_list ''dependencies'' 0 64 (get_member args ''dependencies'')) (\<lambda>dependencies.
       Inr \<lparr>tc_objective = objective, tc_non_goals = non_goals, tc_areas_to_avoid = sort areas,
            tc_input_hashes = input_hashes, tc_acceptance_checks = checks,
            tc_constraints = constraints, tc_risk_class = risk, tc_retry_policy = retry,
            tc_dependencies = dependencies\<rparr>)))))))))"

text \<open>\<open>dict(pairs)\<close>.\<close>

definition dict_json :: "(string \<times> string) list \<Rightarrow> json" where
  "dict_json pairs = JObj (foldl (\<lambda>d (k, v). AList.update k (JStr v) d) [] pairs)"

definition contract_canonical :: "task_contract \<Rightarrow> members" where
  "contract_canonical c =
     (case tc_retry_policy c of
        (max_attempts, base, cap, strategy) \<Rightarrow>
          [(''objective'', JStr (tc_objective c)),
           (''non_goals'', JArr (map JStr (tc_non_goals c))),
           (''areas_to_avoid'', JArr (map (\<lambda>(path, region).
              JObj [(''path'', JStr path), (''region'', JStr region)]) (tc_areas_to_avoid c))),
           (''input_hashes'', dict_json (tc_input_hashes c)),
           (''acceptance_checks'', dict_json (tc_acceptance_checks c)),
           (''constraints'', dict_json (tc_constraints c)),
           (''risk_class'', JStr (tc_risk_class c)),
           (''retry_policy'', JObj
              [(''max_attempts'', JInt max_attempts),
               (''backoff'', JObj [(''base_delay_ms'', JInt base), (''cap_delay_ms'', JInt cap),
                                   (''strategy'', JStr strategy)])]),
           (''dependencies'', JArr (map JStr (tc_dependencies c)))])"

definition replaced :: "task_contract \<Rightarrow> members \<Rightarrow> task_contract res" where
  "replaced c changes =
     (if changes = [] \<or> \<not> member_names changes \<subseteq> member_names (contract_canonical c)
        then Inl (ProtocolRefusal ''amendment_fields_invalid'')
      else create_contract (foldl (\<lambda>d (k, v). AList.update k v d) (contract_canonical c) changes))"

text \<open>\<open>_compact_ijson\<close> where \<open>json.dumps\<close> cannot fail: on values without floats.\<close>

definition compact_ijson :: "json \<Rightarrow> string" where
  "compact_ijson v = encode_utf8 (dumps v)"

definition contract_digest :: "(string \<Rightarrow> string) \<Rightarrow> task_contract \<Rightarrow> string" where
  "contract_digest sha256 c = sha256 (compact_ijson (JObj (contract_canonical c)))"

section \<open>Amendments, receipts, history\<close>

record plan_amendment =
  pa_previous_digest :: string
  pa_replacement_fields :: members
  pa_contract_digest :: string

text \<open>Python equality of decoded values ignores the order of the members of a dictionary, and \<open>True\<close>
  and \<open>False\<close> equal 1 and 0; a float is kept as its text and equals that text only.\<close>

primrec as_number :: "json \<Rightarrow> json" where
  "as_number JNull = JNull"
| "as_number (JBool b) = JInt (if b then 1 else 0)"
| "as_number (JInt i) = JInt i"
| "as_number (JFloat t) = JFloat t"
| "as_number (JStr s) = JStr s"
| "as_number (JArr vs) = JArr (map as_number vs)"
| "as_number (JObj ms) = JObj (map (map_prod id as_number) ms)"

definition same_value :: "json \<Rightarrow> json \<Rightarrow> bool" where
  "same_value v w \<longleftrightarrow> canon (as_number v) = canon (as_number w)"

definition changed_fields :: "members \<Rightarrow> members \<Rightarrow> members" where
  "changed_fields before after =
     map (\<lambda>key. (key, get_member after key))
       (filter (\<lambda>key. \<not> same_value (get_member before key) (get_member after key))
          (sort (map fst after)))"

definition amendment_between ::
    "(string \<Rightarrow> string) \<Rightarrow> task_contract \<Rightarrow> task_contract \<Rightarrow> plan_amendment res" where
  "amendment_between sha256 previous replacement =
     (let changes = changed_fields (contract_canonical previous) (contract_canonical replacement)
      in if changes = [] then Inl (ProtocolRefusal ''amendment_empty'')
         else Inr \<lparr>pa_previous_digest = contract_digest sha256 previous,
                   pa_replacement_fields = changes,
                   pa_contract_digest = contract_digest sha256 replacement\<rparr>)"

definition same_amendment :: "plan_amendment \<Rightarrow> plan_amendment \<Rightarrow> bool" where
  "same_amendment a b \<longleftrightarrow>
     pa_previous_digest a = pa_previous_digest b \<and>
     list_all2 (\<lambda>(k, v) (k', w). k = k' \<and> same_value v w) (pa_replacement_fields a) (pa_replacement_fields b) \<and>
     pa_contract_digest a = pa_contract_digest b"

record acceptance_receipt =
  ar_contract_digest :: string
  ar_check_ids :: "string list"
  ar_reviewer :: string
  ar_evidence_bindings :: "string list"
  ar_deviations :: "string list"
  ar_result :: string

definition create_receipt :: "members \<Rightarrow> acceptance_receipt res" where
  "create_receipt args =
     (case get_member args ''contract_digest'' of
        JStr digest \<Rightarrow>
          if \<not> is_sha256 digest then Inl (invalid ''contract_digest'')
          else (case get_member args ''result'' of
                  JStr result \<Rightarrow>
                    if result \<notin> {''accepted'', ''rejected''} then Inl (invalid ''receipt_result'')
                    else
                      bindR (string_list ''check_ids'' 1 64 (get_member args ''check_ids'')) (\<lambda>checks.
                      bindR (bounded_text ''reviewer'' 64 (get_member args ''reviewer'')) (\<lambda>reviewer.
                      bindR (string_list ''evidence_bindings'' 1 32
                               (get_member args ''evidence_bindings'')) (\<lambda>evidence.
                      bindR (string_list ''deviations'' 0 64 (get_member args ''deviations'')) (\<lambda>deviations.
                        Inr \<lparr>ar_contract_digest = digest, ar_check_ids = checks,
                             ar_reviewer = reviewer, ar_evidence_bindings = evidence,
                             ar_deviations = deviations, ar_result = result\<rparr>))))
                | _ \<Rightarrow> Inl (invalid ''receipt_result''))
      | _ \<Rightarrow> Inl (invalid ''contract_digest''))"

definition receipt_canonical :: "acceptance_receipt \<Rightarrow> members" where
  "receipt_canonical r =
     [(''contract_digest'', JStr (ar_contract_digest r)),
      (''check_ids'', JArr (map JStr (ar_check_ids r))),
      (''reviewer'', JStr (ar_reviewer r)),
      (''evidence_bindings'', JArr (map JStr (ar_evidence_bindings r))),
      (''deviations'', JArr (map JStr (ar_deviations r))),
      (''result'', JStr (ar_result r))]"

text \<open>A history is its contracts, oldest first; it starts with one.\<close>

definition history_append ::
    "(string \<Rightarrow> string) \<Rightarrow> task_contract list \<Rightarrow> plan_amendment \<Rightarrow> task_contract \<Rightarrow> task_contract list res" where
  "history_append sha256 contracts amendment replacement =
     (if pa_previous_digest amendment \<noteq> contract_digest sha256 (last contracts)
        then Inl (ProtocolRefusal ''amendment_previous_digest_invalid'')
      else if pa_contract_digest amendment \<noteq> contract_digest sha256 replacement
        then Inl (ProtocolRefusal ''amendment_digest_invalid'')
      else bindR (amendment_between sha256 (last contracts) replacement) (\<lambda>exact.
        if \<not> same_amendment exact amendment
          then Inl (ProtocolRefusal ''amendment_replacement_invalid'')
        else Inr (contracts @ [replacement])))"

end
