(* ===== verification/Contract_Properties.thy ===== *)
theory Contract_Properties
  imports Task_Contracts
begin

text \<open>
  What a validated task contract is (\<open>contract_ok\<close>), and the promises of
  \<open>floati/contracts.py\<close>: the canonical form loses nothing, the digest binds every field, an
  amendment replaces the named fields only, and the history is append-only.
\<close>

section \<open>Validated parts\<close>

definition text_ok :: "nat \<Rightarrow> string \<Rightarrow> bool" where
  "text_ok n s \<longleftrightarrow> s \<noteq> [] \<and> length s \<le> n \<and> CHR 0x00 \<notin> set s"

lemma bounded_text_Inr_iff [simp]: "bounded_text name n v = Inr s \<longleftrightarrow> v = JStr s \<and> text_ok n s"
  by (cases v) (auto simp: bounded_text_def text_ok_def)

lemma bounded_text_JStr [simp]: "text_ok n s \<Longrightarrow> bounded_text name n (JStr s) = Inr s"
  by simp

lemma sort_Nil_iff [simp]: "sort xs = [] \<longleftrightarrow> xs = []"
  by (metis length_0_conv length_sort)

lemma map_res_Inr_iff: "map_res f xs = Inr ys \<longleftrightarrow> list_all2 (\<lambda>x y. f x = Inr y) xs ys"
  by (induction xs arbitrary: ys) (auto simp: bindR_Inr_iff list_all2_Cons1)

lemma list_all2_embed:
  assumes "\<And>x y. R x y \<longleftrightarrow> x = g y \<and> P y"
  shows "list_all2 R xs ys \<longleftrightarrow> xs = map g ys \<and> list_all P ys"
  by (induction ys arbitrary: xs) (auto simp: assms list_all2_Cons2)

lemma string_list_Inr_iff [simp]:
  "string_list name lo hi v = Inr ss \<longleftrightarrow>
     v = JArr (map JStr ss) \<and> lo \<le> length ss \<and> length ss \<le> hi \<and> list_all (text_ok 4096) ss \<and> distinct ss"
proof (cases v)
  case (JArr items)
  have "map_res (bounded_text name 4096) items = Inr xs \<longleftrightarrow>
      items = map JStr xs \<and> list_all (text_ok 4096) xs" for xs
    unfolding map_res_Inr_iff by (rule list_all2_embed) simp
  then show ?thesis by (auto simp: JArr string_list_def bindR_Inr_iff)
qed (auto simp: string_list_def)

text \<open>A sorted dictionary of bounded texts.\<close>

definition entry_ok :: "bool \<Rightarrow> string \<times> string \<Rightarrow> bool" where
  "entry_ok hashes p \<longleftrightarrow>
     text_ok 128 (fst p) \<and> text_ok 4096 (snd p) \<and> (hashes \<longrightarrow> is_sha256 (snd p))"

definition map_ok :: "bool \<Rightarrow> (string \<times> string) list \<Rightarrow> bool" where
  "map_ok hashes ps \<longleftrightarrow>
     sorted ps \<and> distinct (map fst ps) \<and> ps \<noteq> [] \<and> length ps \<le> 64 \<and> list_all (entry_ok hashes) ps"

abbreviation text_member :: "string \<times> string \<Rightarrow> string \<times> json" where
  "text_member p \<equiv> (fst p, JStr (snd p))"

lemma map_entry_Inr_iff: "map_entry name hashes e = Inr p \<longleftrightarrow> e = text_member p \<and> entry_ok hashes p"
  by (cases e; cases p) (auto simp: map_entry_def bindR_Inr_iff entry_ok_def)

lemma string_map_Inr_iff:
  "string_map name hashes v = Inr ps \<longleftrightarrow>
     (\<exists>vs. v = JObj (map text_member vs) \<and> vs \<noteq> [] \<and> length vs \<le> 64 \<and>
        list_all (entry_ok hashes) vs \<and> ps = sort vs)"
proof (cases v)
  case (JObj es)
  have "map_res (map_entry name hashes) es = Inr xs \<longleftrightarrow>
      es = map text_member xs \<and> list_all (entry_ok hashes) xs" for xs
    unfolding map_res_Inr_iff by (rule list_all2_embed) (rule map_entry_Inr_iff)
  then show ?thesis by (auto simp: JObj string_map_def bindR_Inr_iff)
qed (auto simp: string_map_def)

lemma string_map_ok:
  assumes "string_map name hashes v = Inr ps" "plain v"
  shows "map_ok hashes ps"
proof -
  obtain vs where vs: "v = JObj (map text_member vs)" "vs \<noteq> []" "length vs \<le> 64"
      "list_all (entry_ok hashes) vs" "ps = sort vs"
    using assms(1) by (auto simp: string_map_Inr_iff)
  have "distinct (map fst vs)" using assms(2) by (simp add: vs(1) comp_def)
  then have "distinct (map fst (sort vs))" by (simp add: distinct_map)
  with vs show ?thesis by (auto simp: map_ok_def list_all_iff)
qed

lemma foldl_update_fresh:
  assumes "distinct (map fst (d @ map g ps))"
  shows "foldl (\<lambda>d p. AList.update (fst (g p)) (snd (g p)) d) d ps = d @ map g ps"
  using assms
proof (induction ps arbitrary: d)
  case (Cons p ps)
  then have "AList.update (fst (g p)) (snd (g p)) d = d @ [g p]"
    by (simp add: update_fresh)
  moreover have "distinct (map fst ((d @ [g p]) @ map g ps))" using Cons.prems by simp
  ultimately show ?case using Cons.IH [of "d @ [g p]"] by simp
qed simp

lemma dict_json_distinct: "distinct (map fst ps) \<Longrightarrow> dict_json ps = JObj (map text_member ps)"
  using foldl_update_fresh [of "[]" text_member ps]
  by (simp add: dict_json_def split_def comp_def)

lemma map_ok_dict:
  assumes "map_ok hashes ps"
  shows "string_map name hashes (dict_json ps) = Inr ps"
  using assms by (auto simp: map_ok_def dict_json_distinct string_map_Inr_iff sorted_sort_id)

definition area_ok :: "string \<times> string \<Rightarrow> bool" where
  "area_ok a \<longleftrightarrow>
     text_ok 1024 (fst a) \<and> text_ok 1024 (snd a) \<and> \<not> starts_with ''/'' (fst a) \<and>
     \<not> list_ex (\<lambda>part. part \<in> {[], ''.'', ''..''}) (split_on CHR ''/'' (fst a))"

abbreviation area_json :: "string \<times> string \<Rightarrow> json" where
  "area_json a \<equiv> JObj [(''path'', JStr (fst a)), (''region'', JStr (snd a))]"

lemma avoid_area_ok: "avoid_area v = Inr a \<Longrightarrow> area_ok a"
  by (cases v) (auto simp: avoid_area_def bindR_Inr_iff area_ok_def split: if_splits)

lemma avoid_area_json: "area_ok a \<Longrightarrow> avoid_area (area_json a) = Inr a"
proof -
  assume a: "area_ok a"
  have "same_names [(''path'', JStr (fst a)), (''region'', JStr (snd a))] [''path'', ''region'']"
    by (simp add: same_names_eval)
  then show ?thesis
    using a by (simp add: avoid_area_def area_ok_def get_member_def)
qed

definition areas_ok :: "(string \<times> string) list \<Rightarrow> bool" where
  "areas_ok areas \<longleftrightarrow> areas \<noteq> [] \<and> length areas \<le> 64 \<and> distinct areas \<and> list_all area_ok areas"

lemma avoid_areas_ok:
  assumes "avoid_areas v = Inr areas"
  shows "areas_ok areas"
proof -
  from assms obtain items where items: "items \<noteq> []" "length items \<le> 64" "distinct areas"
      "map_res avoid_area items = Inr areas"
    by (cases v) (auto simp: avoid_areas_def bindR_Inr_iff split: if_splits)
  then have "list_all2 (\<lambda>x y. avoid_area x = Inr y) items areas" by (simp add: map_res_Inr_iff)
  then have "length items = length areas" "list_all area_ok areas"
    by (auto simp: list_all2_conv_all_nth list_all_length intro: avoid_area_ok)
  with items show ?thesis by (auto simp: areas_ok_def)
qed

lemma avoid_areas_json:
  assumes "areas_ok areas"
  shows "avoid_areas (JArr (map area_json areas)) = Inr areas"
proof -
  have "map_res avoid_area (map area_json areas) = Inr areas"
    using assms by (auto simp: map_res_Inr_iff list_all2_conv_all_nth areas_ok_def list_all_length
        intro!: avoid_area_json)
  with assms show ?thesis by (simp add: avoid_areas_def areas_ok_def)
qed

definition retry_ok :: "int \<times> int \<times> int \<times> string \<Rightarrow> bool" where
  "retry_ok r \<longleftrightarrow>
     (case r of (m, base, cap, strategy) \<Rightarrow>
        1 \<le> m \<and> m \<le> 32 \<and> 0 \<le> base \<and> base \<le> cap \<and> cap \<le> 86400000 \<and>
        strategy \<in> {''fixed'', ''exponential''})"

abbreviation backoff_json :: "int \<Rightarrow> int \<Rightarrow> string \<Rightarrow> json" where
  "backoff_json base cap strategy \<equiv>
     JObj [(''base_delay_ms'', JInt base), (''cap_delay_ms'', JInt cap), (''strategy'', JStr strategy)]"

abbreviation retry_json :: "int \<Rightarrow> int \<Rightarrow> int \<Rightarrow> string \<Rightarrow> json" where
  "retry_json m base cap strategy \<equiv>
     JObj [(''max_attempts'', JInt m), (''backoff'', backoff_json base cap strategy)]"

lemma backoff_policy_ok:
  "backoff_policy v = Inr (base, cap, strategy) \<Longrightarrow>
     0 \<le> base \<and> base \<le> cap \<and> cap \<le> 86400000 \<and> strategy \<in> {''fixed'', ''exponential''}"
  by (cases v) (auto simp: backoff_policy_def split: if_splits json.splits)

lemma retry_policy_ok: "retry_policy v = Inr r \<Longrightarrow> retry_ok r"
  by (cases v)
     (auto simp: retry_policy_def retry_ok_def bindR_Inr_iff split: if_splits json.splits
       dest!: backoff_policy_ok)

lemma retry_policy_json:
  "retry_ok (m, base, cap, strategy) \<Longrightarrow>
     retry_policy (retry_json m base cap strategy) = Inr (m, base, cap, strategy)"
  by (simp add: retry_policy_def backoff_policy_def retry_ok_def same_names_eval get_member_def)

lemma risk_class_Inr_iff [simp]:
  "risk_class v = Inr s \<longleftrightarrow> v = JStr s \<and> s \<in> {''low'', ''medium'', ''high'', ''critical''}"
  by (cases v) (auto simp: risk_class_def)

section \<open>Validated contracts\<close>

definition contract_ok :: "task_contract \<Rightarrow> bool" where
  "contract_ok c \<longleftrightarrow>
     text_ok 4096 (tc_objective c) \<and>
     tc_non_goals c \<noteq> [] \<and> length (tc_non_goals c) \<le> 64 \<and> list_all (text_ok 4096) (tc_non_goals c) \<and>
     distinct (tc_non_goals c) \<and>
     areas_ok (tc_areas_to_avoid c) \<and> sorted (tc_areas_to_avoid c) \<and>
     map_ok True (tc_input_hashes c) \<and> map_ok False (tc_acceptance_checks c) \<and>
     map_ok False (tc_constraints c) \<and>
     tc_risk_class c \<in> {''low'', ''medium'', ''high'', ''critical''} \<and>
     retry_ok (tc_retry_policy c) \<and>
     length (tc_dependencies c) \<le> 64 \<and> list_all (text_ok 4096) (tc_dependencies c) \<and>
     distinct (tc_dependencies c)"

lemma plain_member: "plain (JObj ms) \<Longrightarrow> plain (get_member ms k)"
  by (auto simp: get_member_def list_all_iff dest!: map_of_SomeD split: option.split)

lemma sort_areas_ok [simp]: "areas_ok (sort areas) = areas_ok areas"
  by (auto simp: areas_ok_def list_all_iff)

text \<open>What the constructor read for each field.\<close>

lemma create_contract_all:
  assumes "create_contract args = Inr c"
  shows "(\<exists>areas. avoid_areas (get_member args ''areas_to_avoid'') = Inr areas \<and>
      tc_areas_to_avoid c = sort areas) \<and>
    risk_class (get_member args ''risk_class'') = Inr (tc_risk_class c) \<and>
    retry_policy (get_member args ''retry_policy'') = Inr (tc_retry_policy c) \<and>
    bounded_text ''objective'' 4096 (get_member args ''objective'') = Inr (tc_objective c) \<and>
    string_list ''non_goals'' 1 64 (get_member args ''non_goals'') = Inr (tc_non_goals c) \<and>
    string_map ''input_hashes'' True (get_member args ''input_hashes'') = Inr (tc_input_hashes c) \<and>
    string_map ''acceptance_checks'' False (get_member args ''acceptance_checks'') =
      Inr (tc_acceptance_checks c) \<and>
    string_map ''constraints'' False (get_member args ''constraints'') = Inr (tc_constraints c) \<and>
    string_list ''dependencies'' 0 64 (get_member args ''dependencies'') = Inr (tc_dependencies c)"
  using assms unfolding create_contract_def
  by - (elim bindR_InrE, drule sum.inject(2) [THEN iffD1], hypsubst,
      simp del: string_list_Inr_iff bounded_text_Inr_iff risk_class_Inr_iff)

lemma create_contract_parts:
  assumes "create_contract args = Inr c"
  shows "\<exists>areas. avoid_areas (get_member args ''areas_to_avoid'') = Inr areas \<and> tc_areas_to_avoid c = sort areas"
    "risk_class (get_member args ''risk_class'') = Inr (tc_risk_class c)"
    "retry_policy (get_member args ''retry_policy'') = Inr (tc_retry_policy c)"
    "bounded_text ''objective'' 4096 (get_member args ''objective'') = Inr (tc_objective c)"
    "string_list ''non_goals'' 1 64 (get_member args ''non_goals'') = Inr (tc_non_goals c)"
    "string_map ''input_hashes'' True (get_member args ''input_hashes'') = Inr (tc_input_hashes c)"
    "string_map ''acceptance_checks'' False (get_member args ''acceptance_checks'') =
       Inr (tc_acceptance_checks c)"
    "string_map ''constraints'' False (get_member args ''constraints'') = Inr (tc_constraints c)"
    "string_list ''dependencies'' 0 64 (get_member args ''dependencies'') = Inr (tc_dependencies c)"
  using create_contract_all [OF assms] by blast+

lemma create_contract_ok:
  assumes "create_contract args = Inr c" "\<And>k. plain (get_member args k)"
  shows "contract_ok c"
proof -
  note p = create_contract_parts [OF assms(1)]
  have "areas_ok (tc_areas_to_avoid c)" "sorted (tc_areas_to_avoid c)"
    using p(1) avoid_areas_ok by auto
  moreover have "map_ok True (tc_input_hashes c)" "map_ok False (tc_acceptance_checks c)"
    "map_ok False (tc_constraints c)"
    using string_map_ok [OF p(6) assms(2)] string_map_ok [OF p(7) assms(2)]
      string_map_ok [OF p(8) assms(2)] by blast+
  moreover have "retry_ok (tc_retry_policy c)" by (rule retry_policy_ok [OF p(3)])
  ultimately show ?thesis
    using p(2,4,5,9) by (simp add: contract_ok_def Suc_le_eq)
qed

text \<open>The canonical form of a validated contract, and what the constructor reads from it.\<close>

definition canonical_members :: "task_contract \<Rightarrow> members" where
  "canonical_members c =
     (case tc_retry_policy c of
        (m, base, cap, strategy) \<Rightarrow>
          [(''objective'', JStr (tc_objective c)),
           (''non_goals'', JArr (map JStr (tc_non_goals c))),
           (''areas_to_avoid'', JArr (map area_json (tc_areas_to_avoid c))),
           (''input_hashes'', JObj (map text_member (tc_input_hashes c))),
           (''acceptance_checks'', JObj (map text_member (tc_acceptance_checks c))),
           (''constraints'', JObj (map text_member (tc_constraints c))),
           (''risk_class'', JStr (tc_risk_class c)),
           (''retry_policy'', retry_json m base cap strategy),
           (''dependencies'', JArr (map JStr (tc_dependencies c)))])"

lemma contract_canonical_ok: "contract_ok c \<Longrightarrow> contract_canonical c = canonical_members c"
  by (simp add: contract_canonical_def canonical_members_def contract_ok_def map_ok_def
      dict_json_distinct split_def)

lemma create_canonical:
  assumes "contract_ok c"
  shows "create_contract (contract_canonical c) = Inr c"
proof -
  obtain m base cap strategy where r: "tc_retry_policy c = (m, base, cap, strategy)"
    by (cases "tc_retry_policy c")
  have d: "contract_canonical c = canonical_members c" by (rule contract_canonical_ok [OF assms])
  have maps: "string_map name True (JObj (map text_member (tc_input_hashes c))) = Inr (tc_input_hashes c)"
    "string_map name False (JObj (map text_member (tc_acceptance_checks c))) = Inr (tc_acceptance_checks c)"
    "string_map name False (JObj (map text_member (tc_constraints c))) = Inr (tc_constraints c)" for name
    using assms map_ok_dict by (force simp: contract_ok_def map_ok_def dict_json_distinct)+
  have parts: "avoid_areas (JArr (map area_json (tc_areas_to_avoid c))) = Inr (tc_areas_to_avoid c)"
    "risk_class (JStr (tc_risk_class c)) = Inr (tc_risk_class c)"
    "retry_policy (retry_json m base cap strategy) = Inr (tc_retry_policy c)"
    "string_list name (Suc 0) 64 (JArr (map JStr (tc_non_goals c))) = Inr (tc_non_goals c)"
    "string_list name 0 64 (JArr (map JStr (tc_dependencies c))) = Inr (tc_dependencies c)"
    "text_ok 4096 (tc_objective c)" "sort (tc_areas_to_avoid c) = tc_areas_to_avoid c" for name
    using assms avoid_areas_json retry_policy_json
    by (auto simp: contract_ok_def r Suc_le_eq sorted_sort_id)
  show ?thesis
    by (simp add: create_contract_def d canonical_members_def r get_member_def maps parts
        del: string_list_Inr_iff risk_class_Inr_iff)
qed

text \<open>The canonical form with its members sorted, and how much of the contract it shows.\<close>

lemma canon_area [simp]: "canon (area_json a) = area_json a"
  by simp

lemma sort_key_strict:
  "sorted ps \<Longrightarrow> sort_key fst (map text_member ps) = map text_member ps"
  for ps :: "(string \<times> string) list"
proof -
  assume "sorted ps"
  then have "sorted (map fst ps)"
    by (induction ps) (auto simp: less_eq_prod_def intro: less_imp_le)
  then show ?thesis by (simp add: sorted_sort_id sort_key_id_if_sorted comp_def)
qed

lemma plain_canonical:
  assumes "contract_ok c"
  shows "plain (JObj (contract_canonical c))"
  unfolding contract_canonical_ok [OF assms]
  using assms
  by (cases "tc_retry_policy c")
     (simp add: canonical_members_def contract_ok_def map_ok_def comp_def list_all_iff)

lemma canon_canonical:
  assumes "contract_ok c" "tc_retry_policy c = (m, base, cap, strategy)"
  shows "canon (JObj (contract_canonical c)) = JObj
    [(''acceptance_checks'', JObj (map text_member (tc_acceptance_checks c))),
     (''areas_to_avoid'', JArr (map area_json (tc_areas_to_avoid c))),
     (''constraints'', JObj (map text_member (tc_constraints c))),
     (''dependencies'', JArr (map JStr (tc_dependencies c))),
     (''input_hashes'', JObj (map text_member (tc_input_hashes c))),
     (''non_goals'', JArr (map JStr (tc_non_goals c))),
     (''objective'', JStr (tc_objective c)),
     (''retry_policy'', JObj
        [(''backoff'', backoff_json base cap strategy), (''max_attempts'', JInt m)]),
     (''risk_class'', JStr (tc_risk_class c))]"
proof -
  have s: "sorted (tc_acceptance_checks c)" "sorted (tc_constraints c)" "sorted (tc_input_hashes c)"
    using assms(1) by (simp_all add: contract_ok_def map_ok_def)
  have j: "map (canon \<circ> JStr) xs = map JStr xs" "map (canon \<circ> area_json) ys = map area_json ys"
    "map (map_prod id canon \<circ> text_member) zs = map text_member zs" for xs ys zs
    by (simp_all add: comp_def)
  show ?thesis
    unfolding contract_canonical_ok [OF assms(1)]
    by (simp add: canonical_members_def assms(2) j s [THEN sort_key_strict] del: list.map_comp)
qed

lemma injective_members:
  "map text_member ps = map text_member qs \<longleftrightarrow> ps = qs"
  "map area_json as = map area_json bs \<longleftrightarrow> as = bs"
  "map JStr ss = map JStr ts \<longleftrightarrow> ss = ts"
  by (rule inj_map_eq_map; simp add: inj_def)+

lemma canonical_injective:
  assumes "contract_ok c" "contract_ok d"
    and "compact_ijson (JObj (contract_canonical c)) = compact_ijson (JObj (contract_canonical d))"
  shows "c = d"
proof -
  obtain m base cap strategy where c: "tc_retry_policy c = (m, base, cap, strategy)"
    by (cases "tc_retry_policy c")
  obtain n base' cap' strategy' where d: "tc_retry_policy d = (n, base', cap', strategy')"
    by (cases "tc_retry_policy d")
  have "dumps (JObj (contract_canonical c)) = dumps (JObj (contract_canonical d))"
    using assms(3) decodes_encode_utf8 unfolding compact_ijson_def by metis
  then have "canon (JObj (contract_canonical c)) = canon (JObj (contract_canonical d))"
    by (rule dumps_injective [OF plain_canonical [OF assms(1)] plain_canonical [OF assms(2)]])
  then show ?thesis
    unfolding canon_canonical [OF assms(1) c] canon_canonical [OF assms(2) d]
    by (intro task_contract.equality) (simp_all add: injective_members c d)
qed

section \<open>Replacing fields\<close>

abbreviation updated :: "members \<Rightarrow> members \<Rightarrow> members" where
  "updated al changes \<equiv> foldl (\<lambda>d (k, v). AList.update k v d) al changes"

lemma map_of_updated: "map_of (updated al changes) = map_of al ++ map_of (rev changes)"
proof (induction changes arbitrary: al)
  case (Cons p changes)
  then show ?case by (cases p) (simp add: map_add_upd_left map_add_def fun_eq_iff split: option.split)
qed simp

lemma updated_other: "k \<notin> member_names changes \<Longrightarrow> get_member (updated al changes) k = get_member al k"
  by (auto simp: get_member_def map_of_updated member_names_def map_add_def map_of_eq_None_iff
      split: option.split dest!: map_of_key)

lemma plain_updated:
  assumes "plain (JObj al)" "plain (JObj changes)"
  shows "plain (get_member (updated al changes) k)"
  using assms
  by (auto simp: get_member_def map_of_updated map_add_def list_all_iff dest!: map_of_SomeD
      split: option.split) fastforce

lemma same_arguments_same_members:
  assumes "create_contract args = Inr c" "create_contract args' = Inr d"
    and "get_member args key = get_member args' key"
  shows "get_member (contract_canonical c) key = get_member (contract_canonical d) key"
proof -
  note c = create_contract_parts [OF assms(1)] and d = create_contract_parts [OF assms(2)]
  note canonical = contract_canonical_def split_def get_member_def
  show ?thesis
  proof (cases "key \<in> {''areas_to_avoid'', ''risk_class'', ''retry_policy'', ''objective'', ''non_goals'',
      ''input_hashes'', ''acceptance_checks'', ''constraints'', ''dependencies''}")
    case False
    then show ?thesis by (simp add: canonical)
  next
    case True
    then show ?thesis
    proof (elim insertE emptyE)
      assume key: "key = ''areas_to_avoid''"
      then have "tc_areas_to_avoid c = tc_areas_to_avoid d" using c(1) d(1) assms(3) by auto
      with key show ?thesis by (simp add: canonical)
    next
      assume key: "key = ''risk_class''"
      then have "tc_risk_class c = tc_risk_class d" using c(2) d(2) assms(3) by (metis sum.inject(2))
      with key show ?thesis by (simp add: canonical)
    next
      assume key: "key = ''retry_policy''"
      then have "tc_retry_policy c = tc_retry_policy d" using c(3) d(3) assms(3) by (metis sum.inject(2))
      with key show ?thesis by (simp add: canonical)
    next
      assume key: "key = ''objective''"
      then have "tc_objective c = tc_objective d" using c(4) d(4) assms(3) by (metis sum.inject(2))
      with key show ?thesis by (simp add: canonical)
    next
      assume key: "key = ''non_goals''"
      then have "tc_non_goals c = tc_non_goals d" using c(5) d(5) assms(3) by (metis sum.inject(2))
      with key show ?thesis by (simp add: canonical)
    next
      assume key: "key = ''input_hashes''"
      then have "tc_input_hashes c = tc_input_hashes d" using c(6) d(6) assms(3) by (metis sum.inject(2))
      with key show ?thesis by (simp add: canonical)
    next
      assume key: "key = ''acceptance_checks''"
      then have "tc_acceptance_checks c = tc_acceptance_checks d" using c(7) d(7) assms(3) by (metis sum.inject(2))
      with key show ?thesis by (simp add: canonical)
    next
      assume key: "key = ''constraints''"
      then have "tc_constraints c = tc_constraints d" using c(8) d(8) assms(3) by (metis sum.inject(2))
      with key show ?thesis by (simp add: canonical)
    next
      assume key: "key = ''dependencies''"
      then have "tc_dependencies c = tc_dependencies d" using c(9) d(9) assms(3) by (metis sum.inject(2))
      with key show ?thesis by (simp add: canonical)
    qed
  qed
qed

section \<open>Properties\<close>

text \<open>C28: a contract that the constructor accepted is bounded and normalised, and building it
  again from its canonical form gives the same contract: the durable form loses nothing.\<close>

theorem contract_roundtrip:
  assumes "create_contract args = Inr c" "plain (JObj args)"
  shows "contract_ok c \<and> create_contract (contract_canonical c) = Inr c"
  using create_contract_ok [OF assms(1) plain_member [OF assms(2)]] create_canonical by blast

text \<open>Two accepted contracts with one digest are the same contract, or their canonical
  bytes are a collision of SHA-256.\<close>

theorem contract_digest_binds:
  assumes "create_contract args = Inr c" "plain (JObj args)"
    and "create_contract args' = Inr d" "plain (JObj args')"
    and "contract_digest sha256 c = contract_digest sha256 d"
  shows "c = d \<or>
    (let x = compact_ijson (JObj (contract_canonical c)); y = compact_ijson (JObj (contract_canonical d))
     in x \<noteq> y \<and> sha256 x = sha256 y)"
  using assms(5) canonical_injective [OF create_contract_ok [OF assms(1) plain_member [OF assms(2)]]
      create_contract_ok [OF assms(3) plain_member [OF assms(4)]]]
  by (auto simp: contract_digest_def Let_def)

text \<open>An amendment made by \<open>replaced\<close> changes only the fields it names, and what it makes
  is again a validated contract.\<close>

theorem replaced_changes_only_named:
  assumes "contract_ok c" "replaced c changes = Inr d" "plain (JObj changes)"
  shows "contract_ok d \<and> create_contract (contract_canonical d) = Inr d \<and>
    (\<forall>key. key \<notin> member_names changes \<longrightarrow>
       get_member (contract_canonical d) key = get_member (contract_canonical c) key)"
proof (intro conjI allI impI)
  have create: "create_contract (updated (contract_canonical c) changes) = Inr d"
    using assms(2) by (simp add: replaced_def split: if_splits)
  show ok: "contract_ok d"
    by (rule create_contract_ok [OF create plain_updated [OF plain_canonical [OF assms(1)] assms(3)]])
  show "create_contract (contract_canonical d) = Inr d" by (rule create_canonical [OF ok])
  show "get_member (contract_canonical d) key = get_member (contract_canonical c) key"
    if "key \<notin> member_names changes" for key
    by (rule same_arguments_same_members [OF create create_canonical [OF assms(1)] updated_other [OF that]])
qed

text \<open>The history accepts an amendment exactly when it is, up to the order of dictionary
  members, the amendment between the current contract and the replacement; it then gains that
  replacement at its end and nothing else.\<close>

theorem history_append_exact:
  "history_append sha256 h a r = Inr h' \<longleftrightarrow>
     h' = h @ [r] \<and> (\<exists>e. amendment_between sha256 (last h) r = Inr e \<and> same_amendment e a)"
  by (auto simp: history_append_def bindR_Inr_iff same_amendment_def amendment_between_def Let_def
      split: if_splits)

text \<open>Appending one amendment after another.\<close>

definition amend_all ::
    "(string \<Rightarrow> string) \<Rightarrow> task_contract list \<Rightarrow> (plan_amendment \<times> task_contract) list \<Rightarrow> task_contract list res" where
  "amend_all sha256 = replay (\<lambda>h (a, r). history_append sha256 h a r)"

lemma amendment_between_chain:
  assumes "amendment_between sha256 c r = Inr e" "same_amendment e a"
  shows "pa_previous_digest a = contract_digest sha256 c \<and>
    pa_contract_digest a = contract_digest sha256 r \<and>
    (\<exists>key. \<not> same_value (get_member (contract_canonical c) key) (get_member (contract_canonical r) key))"
proof -
  have "changed_fields (contract_canonical c) (contract_canonical r) \<noteq> []"
    using assms(1) by (auto simp: amendment_between_def Let_def split: if_splits)
  then have "\<exists>key. \<not> same_value (get_member (contract_canonical c) key) (get_member (contract_canonical r) key)"
    by (auto simp: changed_fields_def filter_empty_conv)
  with assms show ?thesis
    by (auto simp: amendment_between_def Let_def same_amendment_def split: if_splits)
qed

text \<open>C29: however many amendments a history takes, it lists every contract it ever held, each
  amendment names the digest of the contract before it and of the one it made, and consecutive
  contracts differ in a field.\<close>

theorem history_chain:
  assumes "amend_all sha256 [c] steps = Inr h"
  shows "h = c # map snd steps \<and>
    (\<forall>i < length steps.
       pa_previous_digest (fst (steps ! i)) = contract_digest sha256 (h ! i) \<and>
       pa_contract_digest (fst (steps ! i)) = contract_digest sha256 (h ! Suc i) \<and>
       (\<exists>key. \<not> same_value (get_member (contract_canonical (h ! i)) key)
                 (get_member (contract_canonical (h ! Suc i)) key)))"
  using assms
proof (induction steps arbitrary: h rule: rev_induct)
  case Nil
  then show ?case by (simp add: amend_all_def)
next
  case (snoc s steps)
  obtain a r where s: "s = (a, r)" by (cases s)
  from snoc.prems obtain g where g: "amend_all sha256 [c] steps = Inr g"
      "history_append sha256 g a r = Inr h"
    by (auto simp: amend_all_def replay_snoc bindR_Inr_iff s)
  note IH = snoc.IH [OF g(1)]
  from g(2) obtain e where e: "h = g @ [r]" "amendment_between sha256 (last g) r = Inr e"
      "same_amendment e a"
    by (auto simp: history_append_def bindR_Inr_iff split: if_splits)
  have len: "length g = Suc (length steps)" using IH by simp
  then have "last g = g ! length steps" by (cases g rule: rev_cases) (auto simp: nth_append)
  note step = amendment_between_chain [OF e(2,3), unfolded this]
  have old: "h ! i = g ! i" if "i \<le> length steps" for i
    using that by (simp add: e(1) nth_append len)
  have new: "h ! Suc (length steps) = r" by (simp add: e(1) nth_append len)
  show ?case
  proof (intro conjI [OF _ allI] impI)
    show "h = c # map snd (steps @ [s])" using IH by (simp add: e(1) s)
    fix i assume i: "i < length (steps @ [s])"
    show "pa_previous_digest (fst ((steps @ [s]) ! i)) = contract_digest sha256 (h ! i) \<and>
       pa_contract_digest (fst ((steps @ [s]) ! i)) = contract_digest sha256 (h ! Suc i) \<and>
       (\<exists>key. \<not> same_value (get_member (contract_canonical (h ! i)) key)
                 (get_member (contract_canonical (h ! Suc i)) key))"
    proof (cases "i = length steps")
      case True
      with step show ?thesis by (simp add: old new s)
    next
      case False
      with i have lt: "i < length steps" by simp
      then have same: "h ! i = g ! i" "h ! Suc i = g ! Suc i" "(steps @ [s]) ! i = steps ! i"
        by (simp_all add: old nth_append)
      show ?thesis unfolding same using lt conjunct2 [OF IH] by blast
    qed
  qed
qed

section \<open>Worked examples\<close>

lemmas [evaluate] =
  bounded_text_def string_list_def map_entry_def string_map_def avoid_area_def avoid_areas_def
  risk_class_def backoff_policy_def retry_policy_def create_contract_def invalid_def

abbreviation example_args :: members where
  "example_args \<equiv>
     [(''objective'', JStr ''ship''), (''non_goals'', JArr [JStr ''rewrite'']),
      (''areas_to_avoid'', JArr [JObj [(''region'', JStr ''all''), (''path'', JStr ''docs/b'')],
                                JObj [(''path'', JStr ''docs/a''), (''region'', JStr ''all'')]]),
      (''input_hashes'', JObj [(''seed'', JStr (replicate 64 CHR ''a''))]),
      (''acceptance_checks'', JObj [(''unit'', JStr ''make test''), (''lint'', JStr ''make lint'')]),
      (''constraints'', JObj [(''scope'', JStr ''core'')]),
      (''risk_class'', JStr ''low''),
      (''retry_policy'', JObj [(''max_attempts'', JInt 3),
         (''backoff'', JObj [(''base_delay_ms'', JInt 10), (''cap_delay_ms'', JInt 100),
                            (''strategy'', JStr ''fixed'')])]),
      (''dependencies'', JArr [])]"

abbreviation example_contract :: task_contract where
  "example_contract \<equiv>
     \<lparr>tc_objective = ''ship'', tc_non_goals = [''rewrite''],
      tc_areas_to_avoid = [(''docs/a'', ''all''), (''docs/b'', ''all'')],
      tc_input_hashes = [(''seed'', replicate 64 CHR ''a'')],
      tc_acceptance_checks = [(''lint'', ''make lint''), (''unit'', ''make test'')],
      tc_constraints = [(''scope'', ''core'')], tc_risk_class = ''low'',
      tc_retry_policy = (3, 10, 100, ''fixed''), tc_dependencies = []\<rparr>"

lemma example_created: "create_contract example_args = Inr example_contract"
  by (simp add: evaluate less_eq_prod_def)

lemma example_plain: "plain (JObj example_args)"
  by simp

lemma contract_roundtrip_witness:
  "contract_ok example_contract \<and>
   create_contract (contract_canonical example_contract) = Inr example_contract"
  by (rule contract_roundtrip [OF example_created example_plain])

lemma contract_digest_binds_witness:
  "example_contract = example_contract \<or>
    (let x = compact_ijson (JObj (contract_canonical example_contract));
         y = compact_ijson (JObj (contract_canonical example_contract))
     in x \<noteq> y \<and> rev x = rev y)"
  by (rule contract_digest_binds [where ?sha256.0 = rev, OF example_created example_plain example_created
        example_plain]) simp

abbreviation example_changes :: members where
  "example_changes \<equiv> [(''risk_class'', JStr ''high''), (''dependencies'', JArr [JStr ''t-2''])]"

abbreviation example_successor :: task_contract where
  "example_successor \<equiv>
     \<lparr>tc_objective = ''ship'', tc_non_goals = [''rewrite''],
      tc_areas_to_avoid = [(''docs/a'', ''all''), (''docs/b'', ''all'')],
      tc_input_hashes = [(''seed'', replicate 64 CHR ''a'')],
      tc_acceptance_checks = [(''lint'', ''make lint''), (''unit'', ''make test'')],
      tc_constraints = [(''scope'', ''core'')], tc_risk_class = ''high'',
      tc_retry_policy = (3, 10, 100, ''fixed''), tc_dependencies = [''t-2'']\<rparr>"

lemma example_contract_ok: "contract_ok example_contract"
  using create_contract_ok [OF example_created plain_member [OF example_plain]] .

lemma example_replaced: "replaced example_contract example_changes = Inr example_successor"
  by (simp add: evaluate replaced_def contract_canonical_ok [OF example_contract_ok] canonical_members_def
      member_names_def less_eq_prod_def)

lemma replaced_changes_only_named_witness:
  "contract_ok example_successor \<and>
   create_contract (contract_canonical example_successor) = Inr example_successor \<and>
   get_member (contract_canonical example_successor) ''objective'' =
     get_member (contract_canonical example_contract) ''objective''"
  using replaced_changes_only_named [OF example_contract_ok example_replaced]
  by (simp add: member_names_def)

abbreviation example_amendment :: plan_amendment where
  "example_amendment \<equiv>
     \<lparr>pa_previous_digest = contract_digest rev example_contract,
      pa_replacement_fields = [(''dependencies'', JArr [JStr ''t-2'']), (''risk_class'', JStr ''high'')],
      pa_contract_digest = contract_digest rev example_successor\<rparr>"

lemma example_between: "amendment_between rev example_contract example_successor = Inr example_amendment"
  by (simp add: amendment_between_def changed_fields_def contract_canonical_def dict_json_def
      same_value_def get_member_def)

lemma example_amended:
  "amend_all rev [example_contract] [(example_amendment, example_successor)] =
     Inr [example_contract, example_successor]"
  by (simp add: amend_all_def history_append_def example_between same_amendment_def same_value_def)

lemma history_chain_witness:
  "pa_previous_digest example_amendment = contract_digest rev example_contract \<and>
   (\<exists>key. \<not> same_value (get_member (contract_canonical example_contract) key)
             (get_member (contract_canonical example_successor) key))"
  using history_chain [OF example_amended] by simp

end
