(* ===== verification/Record_Schema.thy ===== *)
theory Record_Schema
  imports Framing
begin

text \<open>
  The common envelope of \<open>validate_record\<close> (\<open>floati/records.py\<close>): the optional chain members
  \<open>seq\<close> and \<open>prev\<close>, the kind, the exact fields, the version, the tenant, the prefixed id and
  the timestamp, then the checks of the kind itself.  A kind is a \<open>kind_spec\<close>: its row of
  \<open>_SPECS\<close> (with \<open>_V1_FIELDS\<close> and the exceptions \<open>validate_record\<close> makes to the exact
  fields) and its branch of the body.  The table is an argument of the envelope; the theories
  \<open>Fleet_Kinds\<close> and \<open>Run_Kinds\<close> hold the kinds and \<open>Governed_Kinds\<close> the table.
\<close>

section \<open>Field validators\<close>

definition field_invalid :: "bool \<Rightarrow> string \<Rightarrow> fault" where
  "field_invalid integrity name = refusal integrity (name @ ''_invalid'')"

text \<open>A text member with a pattern; most validators are one.  The code names the refusal after
  the field or after what the field holds.\<close>

definition text_field :: "string \<Rightarrow> (string \<Rightarrow> bool) \<Rightarrow> string \<Rightarrow> bool \<Rightarrow> members \<Rightarrow> unit res" where
  "text_field code P name integrity row =
     (case get_member row name of
        JStr s \<Rightarrow> guardR (\<not> P s) (field_invalid integrity code) (Inr ())
      | _ \<Rightarrow> Inl (field_invalid integrity code))"

definition check_ident :: "string \<Rightarrow> bool \<Rightarrow> members \<Rightarrow> unit res" where
  "check_ident name = text_field name is_identifier name"

definition check_sha256 :: "string \<Rightarrow> bool \<Rightarrow> members \<Rightarrow> unit res" where
  "check_sha256 name = text_field name is_sha256 name"

text \<open>\<open>_TIMESTAMP\<close> and \<open>datetime.fromisoformat\<close>.\<close>

definition timestamp_shape :: "string \<Rightarrow> bool" where
  "timestamp_shape s \<longleftrightarrow>
     (length s = 20 \<or> length s = 24 \<and> s ! 19 = CHR ''.'' \<and> list_all is_digit_char (take 3 (drop 20 s))) \<and>
     last s = CHR ''Z'' \<and> s ! 10 = CHR ''T'' \<and> s ! 4 = CHR ''-'' \<and> s ! 7 = CHR ''-'' \<and>
     s ! 13 = CHR '':'' \<and> s ! 16 = CHR '':'' \<and>
     list_all (\<lambda>i. is_digit_char (s ! i)) [0, 1, 2, 3, 5, 6, 8, 9, 11, 12, 14, 15, 17, 18]"

definition is_timestamp :: "string \<Rightarrow> bool" where
  "is_timestamp s \<longleftrightarrow> timestamp_shape s \<and> iso_instant (butlast s) \<noteq> None"

definition check_timestamp :: "string \<Rightarrow> bool \<Rightarrow> members \<Rightarrow> unit res" where
  "check_timestamp name = text_field name is_timestamp name"

definition check_integer :: "string \<Rightarrow> int \<Rightarrow> int \<Rightarrow> bool \<Rightarrow> members \<Rightarrow> unit res" where
  "check_integer name minimum maximum integrity row =
     (case get_member row name of
        JInt i \<Rightarrow> guardR (\<not> (minimum \<le> i \<and> i \<le> maximum)) (field_invalid integrity name) (Inr ())
      | _ \<Rightarrow> Inl (field_invalid integrity name))"

section \<open>The envelope\<close>

record kind_spec =
  ks_prefix :: string
  ks_fields :: "string list"
  ks_extras :: "json \<Rightarrow> string list list"
  ks_versions :: "int list"
  ks_body :: "bool \<Rightarrow> members \<Rightarrow> unit res"

type_synonym schema = "string \<Rightarrow> kind_spec option"

definition COMMON :: "string list" where
  "COMMON = [''schema_version'', ''id'', ''tenant_id'', ''timestamp'', ''kind'']"

definition chain_fields :: "string list" where
  "chain_fields = [''seq'', ''prev'']"

definition split_chain :: "bool \<Rightarrow> members \<Rightarrow> (members \<times> members) res" where
  "split_chain integrity record =
     (let present = filter (\<lambda>f. f \<in> member_names record) chain_fields in
      if present = [] then Inr (record, [])
      else if present \<noteq> chain_fields
        then Inl (refusal integrity ''journal_chain_fields_invalid'')
      else (case get_member record ''seq'' of
              JInt seq \<Rightarrow>
                if \<not> (1 \<le> seq \<and> seq \<le> 2 ^ 63 - 1) then Inl (refusal integrity ''journal_seq_invalid'')
                else (case get_member record ''prev'' of
                        JStr prev \<Rightarrow>
                          if \<not> is_sha256 prev then Inl (refusal integrity ''journal_prev_invalid'')
                          else Inr (filter (\<lambda>(k, v). k \<notin> set chain_fields) record,
                                    [(''seq'', JInt seq), (''prev'', JStr prev)])
                      | _ \<Rightarrow> Inl (refusal integrity ''journal_prev_invalid''))
            | _ \<Rightarrow> Inl (refusal integrity ''journal_seq_invalid'')))"

text \<open>The exact fields: those of \<open>_SPECS\<close> and one of the alternatives \<open>ks_extras\<close> lists for
  the version of the row.\<close>

definition fields_ok :: "kind_spec \<Rightarrow> members \<Rightarrow> bool" where
  "fields_ok spec row \<longleftrightarrow>
     list_ex (\<lambda>extra. same_names row (ks_fields spec @ extra))
       (ks_extras spec (get_member row ''schema_version''))"

text \<open>A version-one kind has integral floats rewritten as integers first (\<open>_json_integer\<close>), and
  version zero is compared by value; rows with floats there are outside the model.\<close>

definition float_row :: "kind_spec \<Rightarrow> members \<Rightarrow> bool" where
  "float_row spec row \<longleftrightarrow>
     float_tokens (if 1 \<in> set (ks_versions spec) then JObj row else get_member row ''schema_version'') \<noteq> []"

definition check_envelope ::
    "schema \<Rightarrow> string \<Rightarrow> string list \<Rightarrow> bool \<Rightarrow> members \<Rightarrow> unit res" where
  "check_envelope specs tenant allowed integrity row =
     (case get_member row ''kind'' of
        JStr kind \<Rightarrow>
          (case specs kind of
             None \<Rightarrow> Inl (refusal integrity ''record_kind_invalid'')
           | Some spec \<Rightarrow>
               if kind \<notin> set allowed then Inl (refusal integrity ''record_kind_invalid'')
               else if float_row spec row then Inl NotModelled
               else if \<not> fields_ok spec row
                 then Inl (refusal integrity ''record_fields_invalid'')
               else if get_member row ''schema_version'' \<notin> JInt ` set (ks_versions spec)
                 then Inl (refusal integrity ''schema_version_invalid'')
               else if get_member row ''tenant_id'' \<noteq> JStr tenant
                 then Inl (refusal integrity ''tenant_mismatch'')
               else if \<not> is_identifier tenant then Inl (refusal integrity ''tenant_invalid'')
               else (case get_member row ''id'' of
                       JStr i \<Rightarrow>
                         if \<not> is_record_id (ks_prefix spec) i
                           then Inl (refusal integrity ''record_id_invalid'')
                         else bindR (check_timestamp ''timestamp'' integrity row)
                                (\<lambda>_. ks_body spec integrity row)
                     | _ \<Rightarrow> Inl (refusal integrity ''record_id_invalid'')))
      | _ \<Rightarrow> Inl (refusal integrity ''record_kind_invalid''))"

definition validate_record ::
    "schema \<Rightarrow> string \<Rightarrow> string list \<Rightarrow> bool \<Rightarrow> json \<Rightarrow> json res" where
  "validate_record specs tenant allowed integrity record =
     (case record of
        JObj members \<Rightarrow>
          bindR (split_chain integrity members) (\<lambda>(row, chain).
          bindR (check_envelope specs tenant allowed integrity row) (\<lambda>_.
            Inr (JObj (row @ chain))))
      | _ \<Rightarrow> Inl (refusal integrity ''record_not_object''))"

section \<open>What a validated record is\<close>

lemma text_field_Inr_iff:
  "text_field code P name integrity row = Inr () \<longleftrightarrow> (\<exists>s. get_member row name = JStr s \<and> P s)"
  by (auto simp: text_field_def guardR_def split: json.splits)

lemma check_integer_Inr_iff:
  "check_integer name lo hi integrity row = Inr () \<longleftrightarrow>
     (\<exists>i. get_member row name = JInt i \<and> lo \<le> i \<and> i \<le> hi)"
  by (auto simp: check_integer_def guardR_def split: json.splits)

lemma check_timestamp_Inr_iff:
  "check_timestamp name integrity row = Inr () \<longleftrightarrow>
     (\<exists>s. get_member row name = JStr s \<and> is_timestamp s)"
  by (simp add: check_timestamp_def text_field_Inr_iff)

section \<open>Writing a record and reading it back\<close>

text \<open>\<open>ns\<close> is a dictionary with the members of \<open>ms\<close>, each in its canonical form.\<close>

definition canonical_of :: "members \<Rightarrow> members \<Rightarrow> bool" where
  "canonical_of ms ns \<longleftrightarrow>
     member_names ns = member_names ms \<and> (\<forall>k. get_member ns k = canon (get_member ms k))"

lemma canonical_ofD:
  assumes "canonical_of ms ns"
  shows "member_names ns = member_names ms" "get_member ns k = canon (get_member ms k)"
    "same_names ns names = same_names ms names"
  using assms by (simp_all add: canonical_of_def same_names_def)

lemma canon_eq_iff [simp]:
  "canon v = JInt i \<longleftrightarrow> v = JInt i" "canon v = JStr s \<longleftrightarrow> v = JStr s"
  "canon v = JFloat t \<longleftrightarrow> v = JFloat t" "canon v = JNull \<longleftrightarrow> v = JNull"
  by (cases v; auto)+

lemma get_member_append:
  "get_member (ms @ ns) k = (if k \<in> member_names ms then get_member ms k else get_member ns k)"
  by (auto simp: get_member_def member_names_def map_add_def map_of_eq_None_iff split: option.split
      dest: map_of_key)

lemma map_of_filter_keys:
  "map_of (filter (\<lambda>(k, v). P k) ms) k = (if P k then map_of ms k else None)"
  by (induction ms) auto

lemma get_member_filter:
  "get_member (filter (\<lambda>(k, v). P k) ms) k = (if P k then get_member ms k else JNull)"
  by (simp add: get_member_def map_of_filter_keys)

lemma member_names_filter: "member_names (filter (\<lambda>(k, v). P k) ms) = {k \<in> member_names ms. P k}"
  by (auto simp: member_names_def image_iff)

lemma get_member_absent: "k \<notin> member_names ms \<Longrightarrow> get_member ms k = JNull"
  by (auto simp: get_member_def member_names_def split: option.split dest: map_of_key)

lemma canonical_of_canon:
  assumes "distinct (map fst ms)"
  obtains ns where "canon (JObj ms) = JObj ns" "canonical_of ms ns" "distinct (map fst ns)"
proof
  let ?ns = "sort_key fst (map (map_prod id canon) ms)"
  show "canon (JObj ms) = JObj ?ns" by simp
  have "map fst (map (map_prod id canon) ms) = map fst ms" by simp
  with assms have d: "distinct (map fst (map (map_prod id canon) ms))" by (simp only:)
  then show dn: "distinct (map fst ?ns)"
    by (simp only: distinct_map distinct_sort set_sort)
  have "map_of ?ns = map_of (map (map_prod id canon) ms)"
    by (rule map_of_inject_set [THEN iffD2]) (use d dn in simp_all)
  moreover have "map_of (map (map_prod id canon) ms) k = map_option canon (map_of ms k)" for k
    by (induction ms) auto
  ultimately show "canonical_of ms ?ns"
    by (auto simp: canonical_of_def get_member_def member_names_def image_image split: option.split)
qed

lemma split_chain_canonical:
  assumes "split_chain b ms = Inr (row, chain)" "canonical_of ms ns"
  obtains row' where "split_chain b' ns = Inr (row', chain)" "canonical_of row row'"
proof (cases "filter (\<lambda>f. f \<in> member_names ms) chain_fields = []")
  case True
  then have "split_chain b' ns = Inr (ns, [])" "row = ms" "chain = []"
    using assms by (simp_all add: split_chain_def canonical_ofD(1) [OF assms(2)])
  with assms(2) show ?thesis by (intro that) simp_all
next
  case False
  then obtain seq prev where v: "get_member ms ''seq'' = JInt seq" "get_member ms ''prev'' = JStr prev"
      "1 \<le> seq" "seq \<le> 2 ^ 63 - 1" "is_sha256 prev"
      "filter (\<lambda>f. f \<in> member_names ms) chain_fields = chain_fields"
      "row = filter (\<lambda>(k, v). k \<notin> set chain_fields) ms" "chain = [(''seq'', JInt seq), (''prev'', JStr prev)]"
    using assms(1) by (auto simp: split_chain_def Let_def split: if_splits json.splits)
  have "canonical_of row (filter (\<lambda>(k, v). k \<notin> set chain_fields) ns)"
    using canonical_ofD [OF assms(2)]
    by (auto simp: canonical_of_def v(7) get_member_filter member_names_filter)
  moreover have "split_chain b' ns = Inr (filter (\<lambda>(k, v). k \<notin> set chain_fields) ns, chain)"
    using v canonical_ofD [OF assms(2)] by (simp add: split_chain_def chain_fields_def)
  ultimately show ?thesis by (rule that [rotated])
qed

lemma split_chain_members:
  assumes "split_chain b ms = Inr (row, chain)"
  shows "get_member (row @ chain) k = get_member ms k" "member_names (row @ chain) = member_names ms"
    "distinct (map fst ms) \<Longrightarrow> distinct (map fst (row @ chain))"
    "set row \<subseteq> set ms" "snd ` set chain \<subseteq> range JInt \<union> range JStr"
proof -
  have "(row = ms \<and> chain = []) \<or>
    (row = filter (\<lambda>(k, v). k \<notin> set chain_fields) ms \<and>
     chain = [(''seq'', get_member ms ''seq''), (''prev'', get_member ms ''prev'')] \<and>
     {''seq'', ''prev''} \<subseteq> member_names ms \<and> get_member ms ''seq'' \<in> range JInt \<and>
     get_member ms ''prev'' \<in> range JStr)"
    using assms by (auto simp: split_chain_def chain_fields_def Let_def split: if_splits json.splits)
  then show "get_member (row @ chain) k = get_member ms k" "member_names (row @ chain) = member_names ms"
    "distinct (map fst ms) \<Longrightarrow> distinct (map fst (row @ chain))" "set row \<subseteq> set ms"
    "snd ` set chain \<subseteq> range JInt \<union> range JStr"
    by (auto simp: get_member_append get_member_filter member_names_filter chain_fields_def
        get_member_absent distinct_map_filter)
       (auto simp: get_member_def member_names_def)
qed

definition record_id :: "json \<Rightarrow> json" where
  "record_id r = (case r of JObj ms \<Rightarrow> get_member ms ''id'' | _ \<Rightarrow> JNull)"

text \<open>What the ledgers need of a record validator: a valid record is an object with a
  text id, and validation keeps its members.  A journal also needs that what a writer may append, its reader accepts back
  from the canonical frame.\<close>

locale record_reader =
  fixes validate :: "bool \<Rightarrow> json \<Rightarrow> json res"
  assumes object: "validate b v = Inr r \<Longrightarrow> \<exists>ms. v = JObj ms"
    and written: "validate b (JObj ms) = Inr r \<Longrightarrow> plain (JObj ms) \<Longrightarrow>
      \<exists>rs. r = JObj rs \<and> plain r \<and> member_names rs = member_names ms \<and>
        (\<forall>k. get_member rs k = get_member ms k)"
    and identified: "validate b v = Inr r \<Longrightarrow> \<exists>s. record_id v = JStr s"

locale journal_records = record_reader +
  assumes reread: "validate False (JObj ms) = Inr r \<Longrightarrow> plain (JObj ms) \<Longrightarrow>
      \<exists>rs. validate True (canon r) = Inr (JObj rs) \<and> canonical_of ms rs"
    and paired: "validate b (JObj ms) = Inr r \<Longrightarrow>
      ''seq'' \<in> member_names ms \<longleftrightarrow> ''prev'' \<in> member_names ms"

text \<open>The checks of a kind agree for a writer and its reader, and depend on the members as a
  dictionary of canonical values: their order does not matter.\<close>

definition lawful :: "(bool \<Rightarrow> members \<Rightarrow> unit res) \<Rightarrow> bool" where
  "lawful body \<longleftrightarrow>
     (\<forall>b b' row row'. canonical_of row row' \<longrightarrow> body b row = Inr () \<longrightarrow> body b' row' = Inr ())"

locale kind_table =
  fixes specs :: schema
  assumes body_lawful: "specs kind = Some spec \<Longrightarrow> lawful (ks_body spec)"

lemma validate_record_object: "validate_record specs tenant allowed b v = Inr r \<Longrightarrow> \<exists>ms. v = JObj ms"
  by (cases v) (auto simp: validate_record_def)

lemma validate_record_members:
  assumes "validate_record specs tenant allowed b (JObj ms) = Inr r" "plain (JObj ms)"
  shows "\<exists>rs. r = JObj rs \<and> plain r \<and> member_names rs = member_names ms \<and>
    (\<forall>k. get_member rs k = get_member ms k)"
proof -
  obtain row chain where rc: "split_chain b ms = Inr (row, chain)" "r = JObj (row @ chain)"
    using assms(1) by (auto simp: validate_record_def bindR_Inr_iff)
  note mem = split_chain_members [OF rc(1)]
  have "plain (snd m)" if "m \<in> set (row @ chain)" for m
  proof (cases "m \<in> set row")
    case True
    with mem(4) have "m \<in> set ms" by blast
    with assms(2) show ?thesis by (cases m) (simp add: list_all_iff, fastforce)
  next
    case False
    with that have "snd m \<in> range JInt \<union> range JStr" using mem(5) by auto
    then show ?thesis by auto
  qed
  then have "\<forall>m \<in> set (row @ chain). plain (snd m)" by blast
  moreover have "distinct (map fst (row @ chain))" using mem(3) assms(2) by simp
  ultimately have "plain r" unfolding rc(2) plain.simps
    by (simp add: list_all_iff) (simp add: ball_Un)
  with mem(1,2) show ?thesis by (simp add: rc(2))
qed

lemma validate_record_id:
  assumes "validate_record specs tenant allowed b v = Inr r"
  shows "\<exists>s. record_id v = JStr s"
proof -
  obtain ms row chain where rc: "v = JObj ms" "split_chain b ms = Inr (row, chain)"
      "check_envelope specs tenant allowed b row = Inr ()"
    using assms by (auto simp: validate_record_def bindR_Inr_iff split: json.splits)
  have "\<exists>s. get_member row ''id'' = JStr s"
    using rc(3) by (auto simp: check_envelope_def split: json.splits option.splits if_splits)
  moreover have "get_member row ''id'' = get_member ms ''id'' \<or> get_member row ''id'' = JNull"
    using split_chain_members(1) [OF rc(2), of "''id''"] get_member_absent [of "''id''" row]
    by (auto simp: get_member_append split: if_splits)
  ultimately show ?thesis by (auto simp: record_id_def rc(1))
qed

lemma validate_record_paired:
  "validate_record specs tenant allowed b (JObj ms) = Inr r \<Longrightarrow>
     ''seq'' \<in> member_names ms \<longleftrightarrow> ''prev'' \<in> member_names ms"
  by (auto simp: validate_record_def split_chain_def chain_fields_def Let_def split: if_splits)

context kind_table
begin

lemma check_envelope_canonical:
  assumes "check_envelope specs tenant allowed False row = Inr ()" "canonical_of row row'"
    and "float_tokens (JObj row') = []"
  shows "check_envelope specs tenant allowed b row' = Inr ()"
proof -
  note same = canonical_ofD [OF assms(2)]
  from assms(1) obtain kind spec i where k: "get_member row ''kind'' = JStr kind"
      "specs kind = Some spec" "kind \<in> set allowed" "fields_ok spec row"
      "get_member row ''schema_version'' \<in> JInt ` set (ks_versions spec)"
      "get_member row ''tenant_id'' = JStr tenant"
      "is_identifier tenant" "get_member row ''id'' = JStr i" "is_record_id (ks_prefix spec) i"
      "check_timestamp ''timestamp'' False row = Inr ()" "ks_body spec False row = Inr ()"
    by (auto simp: check_envelope_def bindR_Inr_iff split: json.splits option.splits if_splits)
  have "ks_body spec b row' = Inr ()"
    using body_lawful [OF k(2)] k(11) assms(2) unfolding lawful_def by blast
  moreover have "check_timestamp ''timestamp'' b row' = Inr ()"
    using k(10) by (simp add: check_timestamp_Inr_iff same(2))
  moreover have "get_member row' ''schema_version'' = get_member row ''schema_version''"
    using k(5) by (auto simp: same(2))
  then have "fields_ok spec row'" using k(4) by (simp add: fields_ok_def same(3))
  moreover have "\<not> float_row spec row'"
    using k(5) assms(3) by (auto simp: float_row_def same(2))
  ultimately show ?thesis
    using k by (auto simp: check_envelope_def same(2))
qed

lemma validate_reread:
  assumes "validate_record specs tenant allowed False (JObj ms) = Inr r" "plain (JObj ms)"
  shows "\<exists>rs. validate_record specs tenant allowed b (canon r) = Inr (JObj rs) \<and> canonical_of ms rs"
proof -
  obtain row chain where rc: "split_chain False ms = Inr (row, chain)"
      "check_envelope specs tenant allowed False row = Inr ()" "r = JObj (row @ chain)"
    using assms(1) by (auto simp: validate_record_def bindR_Inr_iff)
  note mem = split_chain_members [OF rc(1)]
  have d: "distinct (map fst (row @ chain))" using mem(3) assms(2) by simp
  obtain ns where ns: "canon r = JObj ns" "canonical_of (row @ chain) ns"
    using canonical_of_canon [OF d] rc(3) by blast
  have ms: "canonical_of ms ns" using ns(2) mem(1,2) by (simp add: canonical_of_def)
  obtain row' where row': "split_chain b ns = Inr (row', chain)" "canonical_of row row'"
    by (rule split_chain_canonical [OF rc(1) ms])
  have "plain r" using validate_record_members [OF assms] by blast
  then have "plain (JObj ns)" using ns(1) plain_canon [of r] by simp
  then have "\<forall>m \<in> set ns. plain (snd m)" by (auto simp: list_all_iff)
  then have "float_tokens (JObj row') = []"
    using split_chain_members(4) [OF row'(1)] plain_float_tokens by auto
  then have "validate_record specs tenant allowed b (canon r) = Inr (JObj (row' @ chain))"
    using row'(1) check_envelope_canonical [OF rc(2) row'(2)] by (simp add: validate_record_def ns(1))
  moreover have "canonical_of ms (row' @ chain)"
    using ms split_chain_members(1,2) [OF row'(1)] by (simp add: canonical_of_def)
  ultimately show ?thesis by blast
qed

end

interpretation schema_records: record_reader "validate_record specs tenant allowed"
  for specs tenant allowed
  by unfold_locales (fact validate_record_object, fact validate_record_members, fact validate_record_id)

lemmas [evaluate] =
  field_invalid_def text_field_def is_timestamp_def check_ident_def check_integer_def check_sha256_def timestamp_shape_def
  check_timestamp_def COMMON_def chain_fields_def split_chain_def check_envelope_def
  validate_record_def float_row_def fields_ok_def

end
