(* ===== verification/Record_Kinds.thy ===== *)
theory Record_Kinds
  imports Record_Schema
begin

text \<open>
  The checks from which the branches of \<open>validate_record\<close> (\<open>floati/records.py\<close>) are made: the
  field validators at the end of that file and the conditions between fields.  A branch is a list
  of checks in the order of the code.  Every check agrees for the writer and the reader and does
  not depend on the order of members (\<open>lawful\<close>), which is what makes a record that was appended
  readable.
\<close>

section \<open>Checks\<close>

type_synonym check = "bool \<Rightarrow> members \<Rightarrow> unit res"

fun checks :: "check list \<Rightarrow> check" where
  "checks [] integrity row = Inr ()"
| "checks (f # fs) integrity row = bindR (f integrity row) (\<lambda>_. checks fs integrity row)"

definition require :: "string \<Rightarrow> (members \<Rightarrow> bool) \<Rightarrow> check" where
  "require code P integrity row = guardR (\<not> P row) (refusal integrity code) (Inr ())"

definition only_if :: "(members \<Rightarrow> bool) \<Rightarrow> check \<Rightarrow> check" where
  "only_if P f integrity row = (if P row then f integrity row else Inr ())"

definition absent_value :: "string \<Rightarrow> members \<Rightarrow> bool" where
  "absent_value name row \<longleftrightarrow> get_member row name = JNull"

definition present_field :: "string \<Rightarrow> members \<Rightarrow> bool" where
  "present_field name row \<longleftrightarrow> name \<in> member_names row"

definition text_of :: "members \<Rightarrow> string \<Rightarrow> string" where
  "text_of row name = (case get_member row name of JStr s \<Rightarrow> s | _ \<Rightarrow> [])"

definition time_of :: "members \<Rightarrow> string \<Rightarrow> int" where
  "time_of row name = timestamp_value (text_of row name)"

definition member_is :: "string \<Rightarrow> string \<Rightarrow> members \<Rightarrow> bool" where
  "member_is name v row \<longleftrightarrow> get_member row name = JStr v"

definition later :: "string \<Rightarrow> string \<Rightarrow> members \<Rightarrow> bool" where
  "later a b row \<longleftrightarrow> time_of row b < time_of row a"

definition integer_in :: "string \<Rightarrow> int \<Rightarrow> int \<Rightarrow> members \<Rightarrow> bool" where
  "integer_in name lo hi row \<longleftrightarrow> (case get_member row name of JInt i \<Rightarrow> lo \<le> i \<and> i \<le> hi | _ \<Rightarrow> False)"

definition version_one :: "members \<Rightarrow> bool" where
  "version_one row \<longleftrightarrow> get_member row ''schema_version'' = JInt 1"

definition integer_of :: "members \<Rightarrow> string \<Rightarrow> int" where
  "integer_of row name = (case get_member row name of JInt i \<Rightarrow> i | _ \<Rightarrow> 0)"

definition is_capability :: "string \<Rightarrow> bool" where
  "is_capability s \<longleftrightarrow>
     1 \<le> length s \<and> length s \<le> 128 \<and> is_lower_alnum (hd s) \<and> is_lower_alnum (last s) \<and>
     list_all (\<lambda>c. is_lower_alnum c \<or> c \<in> set ''._-'') s"

definition bounded_ok :: "nat \<Rightarrow> nat \<Rightarrow> string \<Rightarrow> bool" where
  "bounded_ok lo hi s \<longleftrightarrow> \<not> terminal_unsafe s \<and> lo \<le> length s \<and> length s \<le> hi"

definition scope_ok :: "string \<Rightarrow> bool" where
  "scope_ok s \<longleftrightarrow>
     1 \<le> length s \<and> length s \<le> 512 \<and>
     list_all (\<lambda>c. let n = (of_char c :: nat) in 32 \<le> n \<and> n \<noteq> 127) s"

definition check_record_ref :: "string \<Rightarrow> string \<Rightarrow> check" where
  "check_record_ref pre name = text_field name (is_record_id pre) name"

definition check_attempt_id :: "string \<Rightarrow> check" where
  "check_attempt_id name = text_field name (is_record_id ''attempt-'') name"

definition check_run_id :: "string \<Rightarrow> check" where
  "check_run_id name = text_field name (is_record_id ''run-'') name"

definition check_run_item_id :: "string \<Rightarrow> check" where
  "check_run_item_id name = text_field name (is_record_id ''work-'') name"

definition check_enum :: "string list \<Rightarrow> string \<Rightarrow> string \<Rightarrow> check" where
  "check_enum values code name = text_field code (\<lambda>s. s \<in> set values) name"

definition check_capability :: "string \<Rightarrow> check" where
  "check_capability name = text_field ''capability'' is_capability name"

definition check_bounded :: "string \<Rightarrow> nat \<Rightarrow> nat \<Rightarrow> check" where
  "check_bounded name lo hi = text_field name (bounded_ok lo hi) name"

definition check_role :: "string \<Rightarrow> check" where
  "check_role name = text_field ''role'' (bounded_ok 1 64) name"

definition check_opaque :: "string \<Rightarrow> check" where
  "check_opaque name = check_bounded name 1 512"

definition check_scope :: "string \<Rightarrow> check" where
  "check_scope name = text_field name scope_ok name"

definition check_repository :: "string \<Rightarrow> check" where
  "check_repository name = text_field ''repo'' is_repository name"

definition check_git_sha :: "string \<Rightarrow> check" where
  "check_git_sha name = text_field ''sha'' is_git_sha name"

definition check_document :: "string \<Rightarrow> check" where
  "check_document name = text_field ''doc'' is_repository_document name"

definition check_note :: "string \<Rightarrow> check" where
  "check_note name = text_field ''note'' (bounded_ok 0 1024) name"

definition check_bool :: "string \<Rightarrow> check" where
  "check_bool name = require (name @ ''_invalid'')
     (\<lambda>row. get_member row name = JBool True \<or> get_member row name = JBool False)"

definition check_nullable :: "(string \<Rightarrow> check) \<Rightarrow> string \<Rightarrow> check" where
  "check_nullable f name = only_if (\<lambda>row. \<not> absent_value name row) (f name)"

text \<open>\<open>_bounded_string\<close> followed by the check for terminal-unsafe characters that several
  branches repeat after it.\<close>

definition check_safe :: "string \<Rightarrow> nat \<Rightarrow> nat \<Rightarrow> check" where
  "check_safe name lo hi = checks
     [check_bounded name lo hi,
      require (name @ ''_invalid'') (\<lambda>row. \<not> terminal_unsafe (text_of row name))]"

definition check_idempotency :: check where
  "check_idempotency = check_safe ''idempotency_key'' 1 128"

definition check_absolute :: "string \<Rightarrow> check" where
  "check_absolute name = checks
     [check_bounded name 1 4096,
      require (name @ ''_invalid'')
        (\<lambda>row. \<not> terminal_unsafe (text_of row name) \<and> starts_with ''/'' (text_of row name))]"

text \<open>A bounded list of texts without repetition, sorted where the code asks for it.\<close>

fun all_texts :: "json list \<Rightarrow> string list option" where
  "all_texts [] = Some []"
| "all_texts (v # vs) =
     (case v of JStr s \<Rightarrow> map_option (\<lambda>ss. s # ss) (all_texts vs) | _ \<Rightarrow> None)"

definition check_texts :: "string \<Rightarrow> nat \<Rightarrow> nat \<Rightarrow> (string \<Rightarrow> bool) \<Rightarrow> bool \<Rightarrow> check" where
  "check_texts name lo hi P ordered integrity row =
     (case get_member row name of
        JArr vs \<Rightarrow>
          (case all_texts vs of
             Some ss \<Rightarrow>
               guardR (length ss < lo \<or> length ss > hi \<or> \<not> list_all P ss \<or> \<not> distinct ss \<or>
                       (ordered \<and> \<not> sorted ss))
                 (field_invalid integrity name) (Inr ())
           | None \<Rightarrow> Inl (field_invalid integrity name))
      | _ \<Rightarrow> Inl (field_invalid integrity name))"

definition check_run_item_ids :: "string \<Rightarrow> nat \<Rightarrow> nat \<Rightarrow> check" where
  "check_run_item_ids name lo hi = check_texts name lo hi (is_record_id ''work-'') True"

definition check_identifier_set :: "string \<Rightarrow> nat \<Rightarrow> nat \<Rightarrow> check" where
  "check_identifier_set name lo hi = check_texts name lo hi is_identifier True"

definition check_ref_set :: "string \<Rightarrow> string \<Rightarrow> nat \<Rightarrow> nat \<Rightarrow> check" where
  "check_ref_set pre name lo hi = check_texts name lo hi (is_record_id pre) True"

definition check_message_ids :: "nat \<Rightarrow> check" where
  "check_message_ids lo = check_texts ''item_ids'' lo 1000 (is_record_id ''msg-'') False"

definition check_string_list :: "string \<Rightarrow> nat \<Rightarrow> nat \<Rightarrow> check" where
  "check_string_list name lo hi = check_texts name lo hi (bounded_ok 1 4096) False"

text \<open>\<open>_attempt_ids\<close> sorts a set of the values before it looks at them, so a value that cannot
  be hashed or compared raises \<open>TypeError\<close> instead of being refused.  \<open>bool\<close> is a number.\<close>

definition sortable :: "json list \<Rightarrow> bool" where
  "sortable vs \<longleftrightarrow>
     list_all hashable vs \<and>
     (list_all (\<lambda>v. case v of JStr _ \<Rightarrow> True | _ \<Rightarrow> False) vs \<or>
      list_all (\<lambda>v. case v of JInt _ \<Rightarrow> True | JFloat _ \<Rightarrow> True | JBool _ \<Rightarrow> True | _ \<Rightarrow> False) vs \<or>
      list_all (\<lambda>v. v = JNull) vs)"

definition check_attempt_ids :: "string \<Rightarrow> nat \<Rightarrow> nat \<Rightarrow> check" where
  "check_attempt_ids name lo hi integrity row =
     (case get_member row name of
        JArr vs \<Rightarrow>
          if length vs < lo \<or> length vs > hi then Inl (field_invalid integrity name)
          else if \<not> sortable vs then Inl (Uncaught ''TypeError'')
          else check_texts name lo hi (is_record_id ''attempt-'') True integrity row
      | _ \<Rightarrow> Inl (field_invalid integrity name))"

text \<open>\<open>_artifact_bindings\<close>: each row is checked, then compared with the ones before.\<close>

fun bindings_ok :: "bool \<Rightarrow> (string \<times> string \<times> string) list \<Rightarrow> json list \<Rightarrow> unit res" where
  "bindings_ok integrity seen [] = Inr ()"
| "bindings_ok integrity seen (v # vs) =
     (case v of
        JObj b \<Rightarrow>
          if \<not> same_names b [''repo'', ''sha'', ''doc''] then Inl (refusal integrity ''artifact_binding_invalid'')
          else bindR (checks [check_repository ''repo'', check_git_sha ''sha'', check_document ''doc''] integrity b)
            (\<lambda>_. let key = (text_of b ''repo'', text_of b ''sha'', text_of b ''doc'') in
              if key \<in> set seen then Inl (refusal integrity ''artifact_binding_duplicate'')
              else bindings_ok integrity (key # seen) vs)
      | _ \<Rightarrow> Inl (refusal integrity ''artifact_binding_invalid''))"

definition check_artifact_bindings :: "string \<Rightarrow> check" where
  "check_artifact_bindings name integrity row =
     (case get_member row name of
        JArr vs \<Rightarrow>
          if length vs > 32 then Inl (field_invalid integrity ''artifact_bindings'')
          else bindings_ok integrity [] vs
      | _ \<Rightarrow> Inl (field_invalid integrity ''artifact_bindings''))"

text \<open>\<open>_backoff\<close>.\<close>

definition check_backoff :: "string \<Rightarrow> check" where
  "check_backoff name integrity row =
     (case get_member row name of
        JObj b \<Rightarrow>
          if \<not> same_names b [''strategy'', ''base_delay_ms'', ''cap_delay_ms'', ''jitter'']
            then Inl (field_invalid integrity ''backoff'')
          else checks
            [check_enum [''fixed'', ''exponential''] ''backoff_strategy'' ''strategy'',
             require ''backoff_invalid'' (integer_in ''base_delay_ms'' 0 86400000),
             require ''backoff_invalid'' (integer_in ''cap_delay_ms'' 0 86400000),
             require ''backoff_invalid'' (\<lambda>b. integer_of b ''base_delay_ms'' \<le> integer_of b ''cap_delay_ms''),
             check_enum [''sha256_25pct''] ''backoff_jitter'' ''jitter''] integrity b
      | _ \<Rightarrow> Inl (field_invalid integrity ''backoff''))"

section \<open>Lawful checks\<close>

named_theorems lawful_intros

lemma lawful_text_field [lawful_intros]: "lawful (text_field code P name)"
  by (auto simp: lawful_def text_field_Inr_iff canonical_ofD(2))

lemma lawful_check_integer [lawful_intros]: "lawful (check_integer name lo hi)"
  by (auto simp: lawful_def check_integer_Inr_iff canonical_ofD(2))

lemma checks_Inr_iff: "checks fs b row = Inr () \<longleftrightarrow> list_all (\<lambda>f. f b row = Inr ()) fs"
  by (induction fs) (auto simp: bindR_Inr_iff)

lemma lawful_checks [lawful_intros]: "list_all lawful fs \<Longrightarrow> lawful (checks fs)"
  by (auto simp: lawful_def checks_Inr_iff list_all_iff)

definition stable :: "(members \<Rightarrow> bool) \<Rightarrow> bool" where
  "stable P \<longleftrightarrow> (\<forall>row row'. canonical_of row row' \<longrightarrow> P row' = P row)"

lemma lawful_require [lawful_intros]: "stable P \<Longrightarrow> lawful (require code P)"
  by (auto simp: lawful_def require_def stable_def)

lemma lawful_only_if [lawful_intros]: "stable P \<Longrightarrow> lawful f \<Longrightarrow> lawful (only_if P f)"
  by (auto simp: lawful_def only_if_def stable_def)

lemma text_of_canonical: "canonical_of row row' \<Longrightarrow> text_of row' name = text_of row name"
proof -
  have "(case canon v of JStr s \<Rightarrow> s | _ \<Rightarrow> []) = (case v of JStr s \<Rightarrow> s | _ \<Rightarrow> [])" for v by (cases v) auto
  then show "canonical_of row row' \<Longrightarrow> ?thesis" by (simp add: text_of_def canonical_ofD(2))
qed

lemma integer_of_canonical: "canonical_of row row' \<Longrightarrow> integer_of row' name = integer_of row name"
proof -
  have "(case canon v of JInt i \<Rightarrow> i | _ \<Rightarrow> 0) = (case v of JInt i \<Rightarrow> i | _ \<Rightarrow> 0)" for v by (cases v) auto
  then show "canonical_of row row' \<Longrightarrow> ?thesis" by (simp add: integer_of_def canonical_ofD(2))
qed

lemma integer_in_canonical:
  "canonical_of row row' \<Longrightarrow> integer_in name lo hi row' = integer_in name lo hi row"
proof -
  have "(case canon v of JInt i \<Rightarrow> P i | _ \<Rightarrow> False) = (case v of JInt i \<Rightarrow> P i | _ \<Rightarrow> False)"
    for v and P :: "int \<Rightarrow> bool" by (cases v) auto
  then show "canonical_of row row' \<Longrightarrow> ?thesis" by (simp add: integer_in_def canonical_ofD(2))
qed

lemma canon_eq_JBool [simp]:
  "canon v = JBool b \<longleftrightarrow> v = JBool b" "canon v = JArr [] \<longleftrightarrow> v = JArr []"
  by (cases v; auto)+

lemmas stable_simps =
  stable_def canonical_ofD(1,2) text_of_canonical integer_of_canonical integer_in_canonical
  time_of_def absent_value_def present_field_def member_is_def later_def version_one_def

lemma stable_predicates [lawful_intros]:
  "stable (member_is name v)" "stable (absent_value name)" "stable (present_field name)"
  "stable (later a b)" "stable (integer_in name lo hi)" "stable version_one"
  by (simp_all add: stable_simps)

lemma all_texts_Some_iff: "all_texts vs = Some ss \<longleftrightarrow> vs = map JStr ss"
  by (induction vs arbitrary: ss) (auto split: json.splits)

lemma all_texts_map [simp]: "all_texts (map JStr ss) = Some ss"
  by (simp add: all_texts_Some_iff)

lemma map_JStr_eq_iff [simp]: "map JStr xs = map JStr ys \<longleftrightarrow> xs = ys"
  by (simp add: inj_map_eq_map inj_def)

lemma canon_texts [simp]: "map (canon \<circ> JStr) ss = map JStr ss"
  by simp

lemma check_texts_Inr_iff:
  "check_texts name lo hi P ordered b row = Inr () \<longleftrightarrow>
     (\<exists>ss. get_member row name = JArr (map JStr ss) \<and> lo \<le> length ss \<and> length ss \<le> hi \<and>
        list_all P ss \<and> distinct ss \<and> (ordered \<longrightarrow> sorted ss))"
  by (auto simp: check_texts_def all_texts_Some_iff guardR_def split: json.splits option.splits)

lemma lawful_check_texts [lawful_intros]: "lawful (check_texts name lo hi P ordered)"
  by (auto simp: lawful_def check_texts_Inr_iff canonical_ofD(2))

lemma lawful_attempt_ids [lawful_intros]: "lawful (check_attempt_ids name lo hi)"
  unfolding lawful_def
proof (intro allI impI)
  fix b b' row row'
  assume c: "canonical_of row row'" and ok: "check_attempt_ids name lo hi b row = Inr ()"
  have texts: "check_texts name lo hi (is_record_id ''attempt-'') True b row = Inr ()"
    using ok by (auto simp: check_attempt_ids_def split: json.splits if_splits)
  then obtain ss where ss: "get_member row' name = JArr (map JStr ss)"
      "lo \<le> length ss" "length ss \<le> hi"
    by (auto simp: check_texts_Inr_iff canonical_ofD(2) [OF c])
  have "check_texts name lo hi (is_record_id ''attempt-'') True b' row' = Inr ()"
    using lawful_check_texts texts c unfolding lawful_def by blast
  then show "check_attempt_ids name lo hi b' row' = Inr ()"
    using ss by (simp add: check_attempt_ids_def sortable_def list_all_iff)
qed

text \<open>The members of an object inside a row, once the row is canonical.\<close>

lemma map_of_sort_key: "map_of (sort_key fst xs) k = map_of xs k"
proof -
  have f: "map_of ys k = map_of (filter (\<lambda>x. fst x = k) ys) k" for ys
    by (induction ys) auto
  show ?thesis by (subst f, subst (2) f) (simp only: sort_key_stable)
qed

lemma canonical_of_object: "canonical_of ms (sort_key fst (map (map_prod id canon) ms))"
proof -
  have "map_of (map (map_prod id canon) ms) k = map_option canon (map_of ms k)" for k
    by (induction ms) auto
  then show ?thesis
    by (auto simp: canonical_of_def get_member_def map_of_sort_key member_names_def image_image
        split: option.split)
qed

lemma lawful_object:
  assumes "lawful f"
  shows "lawful (\<lambda>b row. case get_member row name of
      JObj ms \<Rightarrow> if \<not> same_names ms names then Inl (e b) else f b ms
    | _ \<Rightarrow> Inl (e b))"
  unfolding lawful_def
proof (intro allI impI)
  fix b b' row row'
  assume c: "canonical_of row row'"
    and ok: "(case get_member row name of
      JObj ms \<Rightarrow> if \<not> same_names ms names then Inl (e b) else f b ms | _ \<Rightarrow> Inl (e b)) = Inr ()"
  from ok obtain ms where ms: "get_member row name = JObj ms" "same_names ms names" "f b ms = Inr ()"
    by (auto split: json.splits if_splits)
  let ?ns = "sort_key fst (map (map_prod id canon) ms)"
  have "get_member row' name = JObj ?ns" using canonical_ofD(2) [OF c, of name] by (simp add: ms(1))
  moreover have "same_names ?ns names"
    using canonical_ofD(3) [OF canonical_of_object [of ms]] ms(2) by simp
  moreover have "f b' ?ns = Inr ()"
    using assms ms(3) canonical_of_object unfolding lawful_def by blast
  ultimately show "(case get_member row' name of
      JObj ms \<Rightarrow> if \<not> same_names ms names then Inl (e b') else f b' ms | _ \<Rightarrow> Inl (e b')) = Inr ()"
    by simp
qed

lemma bindings_ok_canon:
  "bindings_ok b seen vs = Inr () \<Longrightarrow> bindings_ok b' seen (map canon vs) = Inr ()"
proof (induction vs arbitrary: seen)
  case (Cons v vs)
  let ?f = "checks [check_repository ''repo'', check_git_sha ''sha'', check_document ''doc'']"
  from Cons.prems obtain ms where ms: "v = JObj ms" "same_names ms [''repo'', ''sha'', ''doc'']"
      "?f b ms = Inr ()"
      "(text_of ms ''repo'', text_of ms ''sha'', text_of ms ''doc'') \<notin> set seen"
      "bindings_ok b ((text_of ms ''repo'', text_of ms ''sha'', text_of ms ''doc'') # seen) vs = Inr ()"
    by (cases v) (auto simp: bindR_Inr_iff Let_def simp del: checks.simps split: if_splits)
  let ?ns = "sort_key fst (map (map_prod id canon) ms)"
  note c = canonical_of_object [of ms]
  have "lawful ?f"
    by (intro lawful_checks)
       (simp add: check_repository_def check_git_sha_def check_document_def lawful_text_field)
  then have "?f b' ?ns = Inr ()" using c ms(3) unfolding lawful_def by blast
  then show ?case
    using ms Cons.IH [OF ms(5)] canonical_ofD(3) [OF c]
    by (simp add: text_of_canonical [OF c] Let_def del: checks.simps)
qed simp

lemma lawful_artifact_bindings [lawful_intros]: "lawful (check_artifact_bindings name)"
  unfolding lawful_def
proof (intro allI impI)
  fix b b' row row'
  assume c: "canonical_of row row'" and ok: "check_artifact_bindings name b row = Inr ()"
  from ok obtain vs where vs: "get_member row name = JArr vs" "length vs \<le> 32" "bindings_ok b [] vs = Inr ()"
    by (auto simp: check_artifact_bindings_def not_less split: json.splits if_splits)
  then show "check_artifact_bindings name b' row' = Inr ()"
    using bindings_ok_canon by (simp add: check_artifact_bindings_def canonical_ofD(2) [OF c])
qed

lemma lawful_check_backoff [lawful_intros]: "lawful (check_backoff name)"
  unfolding check_backoff_def
  by (rule lawful_object, intro lawful_checks)
     (simp add: check_enum_def lawful_intros stable_simps)

lemma lawful_check_bool [lawful_intros]: "lawful (check_bool name)"
  unfolding check_bool_def by (rule lawful_require) (simp add: stable_simps)

lemma lawful_nullable [lawful_intros]: "lawful (f name) \<Longrightarrow> lawful (check_nullable f name)"
  unfolding check_nullable_def by (rule lawful_only_if) (simp_all add: stable_simps)

lemma lawful_check_safe [lawful_intros]: "lawful (check_safe name lo hi)"
  unfolding check_safe_def
  by (intro lawful_checks) (simp add: check_bounded_def lawful_intros stable_simps)

lemma lawful_check_absolute [lawful_intros]: "lawful (check_absolute name)"
  unfolding check_absolute_def
  by (intro lawful_checks) (simp add: check_bounded_def lawful_intros stable_simps)

lemmas lawful_checks_defs =
  check_idempotency_def check_message_ids_def check_string_list_def
  check_ident_def check_sha256_def check_timestamp_def check_record_ref_def check_attempt_id_def
  check_run_id_def check_run_item_id_def check_enum_def check_capability_def check_bounded_def
  check_role_def check_opaque_def check_scope_def check_repository_def check_git_sha_def
  check_document_def check_note_def check_run_item_ids_def check_identifier_set_def
  check_ref_set_def

end
