(* ===== verification/Fleet_Kinds.thy ===== *)
theory Fleet_Kinds
  imports Record_Kinds
begin

text \<open>
  The record kinds of the fleet ledgers (\<open>floati/records.py\<close>): registry, messages and their
  receipts, waking, leases and holds, work, capabilities and approvals, workers, sessions and
  bridges.  For a kind \<open>k\<close>, \<open>k_spec\<close> is its row of \<open>_SPECS\<close> and \<open>k_body\<close> its branch of
  \<open>validate_record\<close>, one check per statement in the order of the code; where a branch continues
  only under a condition, the checks under it are an \<open>only_if\<close>.
\<close>

named_theorems lawful_kinds

definition registry_entry_body :: check where
  "registry_entry_body = checks
    [check_ident ''node_id'', check_role ''role'',
     check_enum [''active'', ''retired''] ''state'' ''state'']"

definition registry_entry_spec :: kind_spec where
  "registry_entry_spec = \<lparr>
     ks_prefix = ''registry-'',
     ks_fields = COMMON @
       [''node_id'', ''role'', ''state''],
     ks_extras = (\<lambda>_. [[]]),
     ks_versions = [0],
     ks_body = registry_entry_body\<rparr>"

lemma lawful_registry_entry [lawful_kinds]: "lawful registry_entry_body"
  unfolding registry_entry_body_def
  by (rule lawful_checks) (simp add: lawful_checks_defs lawful_intros stable_simps)

definition node_lease_body :: check where
  "node_lease_body = checks
    [check_ident ''node_id'',
     require ''node_workspace_invalid''
       (\<lambda>row. get_member row ''workspace'' = JStr (text_of row ''workspace'')
           \<and> starts_with ''/'' (text_of row ''workspace'')),
     check_enum [''active'', ''retired''] ''state'' ''state'',
     only_if (\<lambda>row. member_is ''state'' ''active'' row)
       (checks
         [require ''node_lease_fields_invalid''
            (\<lambda>row. present_field ''expires_at'' row
                \<and> \<not> present_field ''predecessor_lease_id'' row),
          check_timestamp ''expires_at'', check_timestamp ''timestamp'',
          require ''node_lease_time_invalid''
            (\<lambda>row. later ''expires_at'' ''timestamp'' row)]),
     only_if (\<lambda>row. \<not> member_is ''state'' ''active'' row)
       (checks
         [require ''node_lease_fields_invalid''
            (\<lambda>row. present_field ''predecessor_lease_id'' row
                \<and> \<not> present_field ''expires_at'' row),
          check_record_ref ''lease-'' ''predecessor_lease_id''])]"

definition node_lease_spec :: kind_spec where
  "node_lease_spec = \<lparr>
     ks_prefix = ''lease-'',
     ks_fields = COMMON @
       [''node_id'', ''workspace'', ''state''],
     ks_extras = (\<lambda>_. [[''expires_at''], [''predecessor_lease_id'']]),
     ks_versions = [0],
     ks_body = node_lease_body\<rparr>"

lemma lawful_node_lease [lawful_kinds]: "lawful node_lease_body"
  unfolding node_lease_body_def
  by (rule lawful_checks) (simp add: lawful_checks_defs lawful_intros stable_simps)

text \<open>The model pattern of a provider switch.\<close>

definition is_model :: "string \<Rightarrow> bool" where
  "is_model s \<longleftrightarrow>
     1 \<le> length s \<and> length s \<le> 128 \<and> is_alnum_char (hd s) \<and> is_alnum_char (last s) \<and>
     list_all (\<lambda>c. is_alnum_char c \<or> c \<in> set ''._:/-'') s"

definition check_model :: "string \<Rightarrow> check" where
  "check_model name = text_field ''model'' is_model name"

lemma lawful_check_model [lawful_intros]: "lawful (check_model name)"
  by (simp add: check_model_def lawful_text_field)

definition provider_switch_receipt_body :: check where
  "provider_switch_receipt_body = checks
    [check_ident ''node_id'', check_record_ref ''registry-'' ''previous_registry_entry_id'',
     check_record_ref ''registry-'' ''registry_entry_id'', check_role ''previous_harness'',
     check_role ''harness'', check_nullable check_model ''previous_model'', check_model ''model'']"

definition provider_switch_receipt_spec :: kind_spec where
  "provider_switch_receipt_spec = \<lparr>
     ks_prefix = ''provider-switch-receipt-'',
     ks_fields = COMMON @
       [''node_id'', ''previous_registry_entry_id'', ''previous_harness'', ''previous_model'',
        ''harness'', ''model'', ''registry_entry_id''],
     ks_extras = (\<lambda>_. [[]]),
     ks_versions = [0],
     ks_body = provider_switch_receipt_body\<rparr>"

lemma lawful_provider_switch_receipt [lawful_kinds]: "lawful provider_switch_receipt_body"
  unfolding provider_switch_receipt_body_def
  by (rule lawful_checks) (simp add: lawful_checks_defs lawful_intros stable_simps)

definition role_template_write_receipt_body :: check where
  "role_template_write_receipt_body = checks
    [check_ident ''role'', check_enum [''new'', ''import'', ''edit''] ''operation'' ''operation'',
     check_enum [''prepared'', ''applied''] ''state'' ''state'',
     require ''role_template_path_invalid''
       (\<lambda>row. get_member row ''path'' = JStr (''roles/custom/'' @ text_of row ''role'' @ ''.json'')),
     check_sha256 ''request_sha256'', check_sha256 ''after_sha256'',
     check_sha256 ''template_sha256'',
     only_if (\<lambda>row. member_is ''operation'' ''edit'' row) (check_sha256 ''before_sha256''),
     only_if (\<lambda>row. \<not> member_is ''operation'' ''edit'' row)
       (require ''role_template_before_invalid''
          (\<lambda>row. absent_value ''before_sha256'' row)),
     check_idempotency,
     only_if (\<lambda>row. member_is ''state'' ''prepared'' row)
       (require ''role_template_predecessor_invalid''
          (\<lambda>row. absent_value ''predecessor_receipt_id'' row)),
     only_if (\<lambda>row. \<not> member_is ''state'' ''prepared'' row)
       (check_record_ref ''role-template-write-'' ''predecessor_receipt_id'')]"

definition role_template_write_receipt_spec :: kind_spec where
  "role_template_write_receipt_spec = \<lparr>
     ks_prefix = ''role-template-write-'',
     ks_fields = COMMON @
       [''operation'', ''role'', ''path'', ''state'', ''request_sha256'', ''before_sha256'',
        ''after_sha256'', ''template_sha256'', ''idempotency_key'', ''predecessor_receipt_id''],
     ks_extras = (\<lambda>_. [[]]),
     ks_versions = [1],
     ks_body = role_template_write_receipt_body\<rparr>"

lemma lawful_role_template_write_receipt [lawful_kinds]: "lawful role_template_write_receipt_body"
  unfolding role_template_write_receipt_body_def
  by (rule lawful_checks) (simp add: lawful_checks_defs lawful_intros stable_simps)

definition registry_role_transfer_body :: check where
  "registry_role_transfer_body = checks
    [check_bounded ''idempotency_key'' 1 128, check_ident ''from_node'', check_ident ''to_node'',
     check_ident ''from_role_before'', check_ident ''from_role_after'',
     check_ident ''to_role_after'', check_nullable check_ident ''to_role_before'',
     check_record_ref ''registry-role-'' ''target_role_record_id'',
     check_record_ref ''registry-role-'' ''vacated_role_record_id'',
     check_enum [''complete''] ''state'' ''state'']"

definition registry_role_transfer_spec :: kind_spec where
  "registry_role_transfer_spec = \<lparr>
     ks_prefix = ''registry-role-transfer-'',
     ks_fields = COMMON @
       [''idempotency_key'', ''from_node'', ''to_node'', ''from_role_before'',
        ''from_role_after'', ''to_role_before'', ''to_role_after'', ''target_role_record_id'',
        ''vacated_role_record_id'', ''state''],
     ks_extras = (\<lambda>_. [[]]),
     ks_versions = [0],
     ks_body = registry_role_transfer_body\<rparr>"

lemma lawful_registry_role_transfer [lawful_kinds]: "lawful registry_role_transfer_body"
  unfolding registry_role_transfer_body_def
  by (rule lawful_checks) (simp add: lawful_checks_defs lawful_intros stable_simps)

text \<open>\<open>_attempt_binding\<close>: the legacy literal, or an object that names the session of the
  envelope.\<close>

definition check_attempt_binding :: check where
  "check_attempt_binding integrity row =
     (case get_member row ''attempt_binding'' of
        JStr s \<Rightarrow>
          if s = ''absent_legacy'' then Inr ()
          else Inl (field_invalid integrity ''attempt_binding'')
      | JObj b \<Rightarrow>
          if \<not> same_names b [''attempt_id'', ''claim_id'', ''lease_id'', ''worker_session_id'']
            then Inl (field_invalid integrity ''attempt_binding'')
          else bindR (checks [check_opaque ''attempt_id'', check_opaque ''claim_id'',
                              check_opaque ''lease_id'', check_opaque ''worker_session_id''] integrity b)
            (\<lambda>_. if get_member row ''worker_session_id'' \<noteq> get_member b ''worker_session_id''
                 then Inl (refusal integrity ''attempt_binding_session_mismatch'') else Inr ())
      | _ \<Rightarrow> Inl (field_invalid integrity ''attempt_binding''))"

lemma lawful_attempt_binding [lawful_intros]: "lawful check_attempt_binding"
  unfolding lawful_def
proof (intro allI impI)
  fix b b' row row'
  let ?f = "checks [check_opaque ''attempt_id'', check_opaque ''claim_id'',
    check_opaque ''lease_id'', check_opaque ''worker_session_id'']"
  let ?ns = "[''attempt_id'', ''claim_id'', ''lease_id'', ''worker_session_id'']"
  assume c: "canonical_of row row'" and ok: "check_attempt_binding b row = Inr ()"
  note c' = canonical_ofD(2) [OF c]
  consider "get_member row ''attempt_binding'' = JStr ''absent_legacy''"
    | ms where "get_member row ''attempt_binding'' = JObj ms" "same_names ms ?ns" "?f b ms = Inr ()"
        "get_member row ''worker_session_id'' = get_member ms ''worker_session_id''"
    using ok by (auto simp: check_attempt_binding_def bindR_Inr_iff simp del: checks.simps
        split: json.splits if_splits)
  then show "check_attempt_binding b' row' = Inr ()"
  proof cases
    case 1
    then show ?thesis by (simp add: check_attempt_binding_def c')
  next
    case (2 ms)
    let ?m = "sort_key fst (map (map_prod id canon) ms)"
    note d = canonical_of_object [of ms]
    have "lawful ?f"
      by (rule lawful_checks) (simp add: check_opaque_def check_bounded_def lawful_text_field)
    then have "?f b' ?m = Inr ()" using 2(3) d unfolding lawful_def by blast
    then show ?thesis
      using 2 canonical_ofD(2,3) [OF d]
      by (simp add: check_attempt_binding_def c' del: checks.simps)
  qed
qed

definition message_envelope_body :: check where
  "message_envelope_body = checks
    [check_ident ''sender'', check_ident ''recipient'', check_repository ''repo'',
     check_git_sha ''sha'', check_document ''doc'', check_note ''note'',
     check_bounded ''idempotency_key'' 1 128,
     only_if (\<lambda>row. present_field ''reply_to'' row)
       (check_record_ref ''msg-'' ''reply_to''),
     only_if (\<lambda>row. present_field ''worker_session_id'' row)
       (check_opaque ''worker_session_id''),
     only_if (\<lambda>row. present_field ''attempt_binding'' row) (check_attempt_binding)]"

definition message_envelope_spec :: kind_spec where
  "message_envelope_spec = \<lparr>
     ks_prefix = ''msg-'',
     ks_fields = COMMON @
       [''sender'', ''recipient'', ''repo'', ''sha'', ''doc'', ''note'', ''idempotency_key''],
     ks_extras = (\<lambda>_. subseqs [''reply_to'', ''attempt_binding'', ''worker_session_id'']),
     ks_versions = [0],
     ks_body = message_envelope_body\<rparr>"

lemma lawful_message_envelope [lawful_kinds]: "lawful message_envelope_body"
  unfolding message_envelope_body_def
  by (rule lawful_checks) (simp add: lawful_checks_defs lawful_intros stable_simps)

definition journal_checkpoint_state_body :: check where
  "journal_checkpoint_state_body = checks
    [check_ident ''journal_id'', check_integer ''through_seq'' 1 (2 ^ 63 - 1),
     check_integer ''byte_length'' 1 67108864, check_sha256 ''head_sha256'',
     check_sha256 ''checkpoint_sha256'']"

definition journal_checkpoint_state_spec :: kind_spec where
  "journal_checkpoint_state_spec = \<lparr>
     ks_prefix = ''journal-checkpoint-state-'',
     ks_fields = COMMON @
       [''journal_id'', ''through_seq'', ''head_sha256'', ''byte_length'', ''checkpoint_sha256''],
     ks_extras = (\<lambda>_. [[]]),
     ks_versions = [0],
     ks_body = journal_checkpoint_state_body\<rparr>"

lemma lawful_journal_checkpoint_state [lawful_kinds]: "lawful journal_checkpoint_state_body"
  unfolding journal_checkpoint_state_body_def
  by (rule lawful_checks) (simp add: lawful_checks_defs lawful_intros stable_simps)

definition message_retracted_body :: check where
  "message_retracted_body = checks
    [check_record_ref ''msg-'' ''retracted_message_id'', check_opaque ''worker_session_id'',
     check_enum [''sent_in_error'', ''superseded_by_correction'', ''stale_recipient'',
       ''security_scrub''] ''reason'' ''reason'',
     check_opaque ''author'']"

definition message_retracted_spec :: kind_spec where
  "message_retracted_spec = \<lparr>
     ks_prefix = ''ret-'',
     ks_fields = COMMON @
       [''retracted_message_id'', ''worker_session_id'', ''reason'', ''author''],
     ks_extras = (\<lambda>_. [[]]),
     ks_versions = [0],
     ks_body = message_retracted_body\<rparr>"

lemma lawful_message_retracted [lawful_kinds]: "lawful message_retracted_body"
  unfolding message_retracted_body_def
  by (rule lawful_checks) (simp add: lawful_checks_defs lawful_intros stable_simps)

definition denial_receipt_body :: check where
  "denial_receipt_body = checks
    [check_attempt_id ''attempt_id'', check_bounded ''claimed_sender'' 1 64,
     check_bounded ''claimed_recipient'' 1 64,
     check_enum [''unknown_sender'', ''unknown_recipient'', ''idempotency_conflict'',
       ''reply_to_unknown'', ''reply_to_parties_mismatch''] ''reason_code'' ''reason_code'']"

definition denial_receipt_spec :: kind_spec where
  "denial_receipt_spec = \<lparr>
     ks_prefix = ''denial-'',
     ks_fields = COMMON @
       [''attempt_id'', ''claimed_sender'', ''claimed_recipient'', ''reason_code''],
     ks_extras = (\<lambda>_. [[]]),
     ks_versions = [0],
     ks_body = denial_receipt_body\<rparr>"

lemma lawful_denial_receipt [lawful_kinds]: "lawful denial_receipt_body"
  unfolding denial_receipt_body_def
  by (rule lawful_checks) (simp add: lawful_checks_defs lawful_intros stable_simps)

definition ack_receipt_body :: check where
  "ack_receipt_body = checks
    [check_ident ''recipient'',
     only_if (\<lambda>row. version_one row)
       (checks
         [check_safe ''acting_session_id'' 1 512,
          only_if (\<lambda>row. present_field ''node_lease_state_at_ack'' row)
            (checks
              [check_enum [''not_leased'', ''active'', ''expired'', ''retired'']
                 ''node_lease_state_at_ack'' ''node_lease_state_at_ack'',
               only_if (\<lambda>row. member_is ''node_lease_state_at_ack'' ''not_leased'' row)
                 (require ''ack_lease_state_invalid''
                    (\<lambda>row. absent_value ''node_lease_id'' row
                        \<and> absent_value ''node_lease_expires_at'' row)),
               only_if (\<lambda>row. \<not> member_is ''node_lease_state_at_ack'' ''not_leased'' row)
                 (checks
                   [check_record_ref ''lease-'' ''node_lease_id'',
                    only_if (\<lambda>row. (member_is ''node_lease_state_at_ack'' ''active'' row
                                \<or> member_is ''node_lease_state_at_ack'' ''expired'' row))
                      (check_timestamp ''node_lease_expires_at''),
                    only_if (\<lambda>row. \<not> (member_is ''node_lease_state_at_ack'' ''active'' row
                                \<or> member_is ''node_lease_state_at_ack'' ''expired'' row))
                      (require ''ack_lease_state_invalid''
                         (\<lambda>row. absent_value ''node_lease_expires_at'' row))])])]),
     check_message_ids 1]"

definition ack_receipt_spec :: kind_spec where
  "ack_receipt_spec = \<lparr>
     ks_prefix = ''ack-'',
     ks_fields = COMMON @
       [''recipient'', ''item_ids''],
     ks_extras = (\<lambda>v. if v = JInt 1
       then [[''acting_session_id''],
             [''acting_session_id'', ''node_lease_id'', ''node_lease_state_at_ack'', ''node_lease_expires_at'']]
       else [[]]),
     ks_versions = [0, 1],
     ks_body = ack_receipt_body\<rparr>"

lemma lawful_ack_receipt [lawful_kinds]: "lawful ack_receipt_body"
  unfolding ack_receipt_body_def
  by (rule lawful_checks) (simp add: lawful_checks_defs lawful_intros stable_simps)

definition delivery_receipt_body :: check where
  "delivery_receipt_body = checks
    [check_ident ''recipient'', check_message_ids 0,
     check_integer ''presentation_count'' 1 (2 ^ 63 - 1)]"

definition delivery_receipt_spec :: kind_spec where
  "delivery_receipt_spec = \<lparr>
     ks_prefix = ''delivery-'',
     ks_fields = COMMON @
       [''recipient'', ''item_ids'', ''presentation_count''],
     ks_extras = (\<lambda>_. [[]]),
     ks_versions = [0],
     ks_body = delivery_receipt_body\<rparr>"

lemma lawful_delivery_receipt [lawful_kinds]: "lawful delivery_receipt_body"
  unfolding delivery_receipt_body_def
  by (rule lawful_checks) (simp add: lawful_checks_defs lawful_intros stable_simps)

text \<open>Any bounded list of distinct texts, refused under its own code.\<close>

definition text_list :: "string \<Rightarrow> string \<Rightarrow> nat \<Rightarrow> check" where
  "text_list code name hi integrity row =
     (case get_member row name of
        JArr vs \<Rightarrow>
          (case all_texts vs of
             Some ss \<Rightarrow> guardR (length ss > hi \<or> \<not> distinct ss) (field_invalid integrity code) (Inr ())
           | None \<Rightarrow> Inl (field_invalid integrity code))
      | _ \<Rightarrow> Inl (field_invalid integrity code))"

lemma text_list_Inr_iff:
  "text_list code name hi b row = Inr () \<longleftrightarrow>
     (\<exists>ss. get_member row name = JArr (map JStr ss) \<and> length ss \<le> hi \<and> distinct ss)"
  by (auto simp: text_list_def all_texts_Some_iff guardR_def split: json.splits option.splits)

lemma lawful_text_list [lawful_intros]: "lawful (text_list code name hi)"
  by (auto simp: lawful_def text_list_Inr_iff canonical_ofD(2))

definition seat_board_receipt_body :: check where
  "seat_board_receipt_body = checks
    [require ''schema_version_invalid'' (\<lambda>row. version_one row),
     check_ident ''node_id'', check_bounded ''acting_session_id'' 1 512,
     check_bounded ''idempotency_key'' 1 128,
     require ''seat_board_coordinate_invalid''
       (\<lambda>row. \<not> terminal_unsafe (text_of row ''acting_session_id'')
           \<and> \<not> terminal_unsafe (text_of row ''idempotency_key'')),
     text_field ''seat_board_coordinate'' is_sha256 ''coordinate_digest'',
     check_enum [''started'', ''armed'', ''resumed'', ''drain_started'', ''completed''] ''step''
       ''step'',
     check_nullable (check_enum [''resumed'', ''already_active''] ''resume_outcome'')
       ''resume_outcome'',
     check_nullable (check_record_ref ''codex-wait-session-'') ''arm_receipt_id'',
     check_nullable (check_record_ref ''codex-wait-session-'') ''predecessor_receipt_id'',
     check_nullable (check_record_ref ''wake-control-'') ''resume_receipt_id'',
     check_nullable (check_record_ref ''delivery-'') ''delivery_receipt_id'',
     check_nullable (check_record_ref ''ack-'') ''ack_receipt_id'',
     text_list ''seat_board_items'' ''item_ids'' 1000,
     check_texts ''item_ids'' 0 1000 (is_record_id ''msg-'') False,
     require ''seat_board_step_invalid''
       (\<lambda>row. \<not> (member_is ''resume_outcome'' ''resumed'' row
           \<and> absent_value ''resume_receipt_id'' row)
           \<and> \<not> (member_is ''resume_outcome'' ''already_active'' row
           \<and> \<not> absent_value ''resume_receipt_id'' row)),
     require ''seat_board_step_invalid''
       (\<lambda>row. member_is ''step'' ''started'' row \<or> \<not> absent_value ''arm_receipt_id'' row),
     require ''seat_board_step_invalid''
       (\<lambda>row. \<not> (member_is ''step'' ''resumed'' row
           \<or> member_is ''step'' ''drain_started'' row
           \<or> member_is ''step'' ''completed'' row)
           \<or> \<not> absent_value ''resume_outcome'' row),
     require ''seat_board_step_invalid''
       (\<lambda>row. \<not> (member_is ''step'' ''completed'' row
           \<and> get_member row ''item_ids'' \<noteq> JArr []
           \<and> (absent_value ''delivery_receipt_id'' row
           \<or> absent_value ''ack_receipt_id'' row)))]"

definition seat_board_receipt_spec :: kind_spec where
  "seat_board_receipt_spec = \<lparr>
     ks_prefix = ''seat-board-'',
     ks_fields = COMMON @
       [''node_id'', ''acting_session_id'', ''coordinate_digest'', ''idempotency_key'', ''step'',
        ''arm_receipt_id'', ''predecessor_receipt_id'', ''resume_receipt_id'', ''resume_outcome'',
        ''delivery_receipt_id'', ''ack_receipt_id'', ''item_ids''],
     ks_extras = (\<lambda>_. [[]]),
     ks_versions = [0, 1],
     ks_body = seat_board_receipt_body\<rparr>"

lemma lawful_seat_board_receipt [lawful_kinds]: "lawful seat_board_receipt_body"
  unfolding seat_board_receipt_body_def
  by (rule lawful_checks) (simp add: lawful_checks_defs lawful_intros stable_simps)

definition WAKE_ATTEMPT_REFUSED_REASONS :: "string list" where
  "WAKE_ATTEMPT_REFUSED_REASONS =
    [''wake_envelope_not_owned'', ''wake_decision_missing'', ''wake_decision_mismatch'',
     ''wake_prompt_failed'', ''wake_hook_untrusted'', ''wake_hook_modified'',
     ''wake_hook_disabled'', ''wake_daemon_adapter_timeout'', ''wake_daemon_adapter_unavailable'',
     ''wake_daemon_adapter_nonzero'', ''wake_daemon_adapter_unknown'',
     ''wake_target_thread_dead'', ''wake_daemon_cursor_output_empty'',
     ''wake_daemon_cursor_output_invalid'', ''wake_daemon_cursor_result_invalid'',
     ''wake_daemon_grok_output_empty'', ''wake_daemon_grok_output_invalid'',
     ''wake_daemon_grok_result_invalid'', ''wake_daemon_zcode_output_empty'',
     ''wake_daemon_zcode_output_invalid'', ''wake_daemon_zcode_result_invalid'']"

definition wake_attempt_receipt_body :: check where
  "wake_attempt_receipt_body = checks
    [check_ident ''node_id'', check_safe ''acting_session_id'' 1 512,
     check_nullable (\<lambda>name. check_safe name 1 512) ''message_worker_session_id'',
     check_idempotency, check_message_ids 1,
     check_enum [''woke'', ''queued'', ''refused''] ''outcome'' ''outcome'',
     only_if (\<lambda>row. (member_is ''outcome'' ''woke'' row \<or> member_is ''outcome'' ''queued'' row))
       (checks
         [check_record_ref ''wake-hold-'' ''decision_receipt_id'',
          require ''reason_code_invalid'' (\<lambda>row. absent_value ''reason_code'' row)]),
     only_if (\<lambda>row. \<not> (member_is ''outcome'' ''woke'' row
                 \<or> member_is ''outcome'' ''queued'' row))
       (checks
         [check_nullable (check_record_ref ''wake-hold-'') ''decision_receipt_id'',
          check_enum WAKE_ATTEMPT_REFUSED_REASONS ''reason_code'' ''reason_code''])]"

definition wake_attempt_receipt_spec :: kind_spec where
  "wake_attempt_receipt_spec = \<lparr>
     ks_prefix = ''wake-attempt-'',
     ks_fields = COMMON @
       [''node_id'', ''acting_session_id'', ''message_worker_session_id'', ''idempotency_key'',
        ''item_ids'', ''decision_receipt_id'', ''outcome'', ''reason_code''],
     ks_extras = (\<lambda>_. [[]]),
     ks_versions = [1],
     ks_body = wake_attempt_receipt_body\<rparr>"

lemma lawful_wake_attempt_receipt [lawful_kinds]: "lawful wake_attempt_receipt_body"
  unfolding wake_attempt_receipt_body_def
  by (rule lawful_checks) (simp add: lawful_checks_defs lawful_intros stable_simps)

definition codex_wait_consent_receipt_body :: check where
  "codex_wait_consent_receipt_body = checks
    [check_ident ''node_id'', check_absolute ''workspace'', check_sha256 ''workspace_map_digest'',
     check_integer ''hook_timeout_seconds'' 2 86400,
     check_integer ''wait_deadline_seconds'' 1 86399,
     require ''wait_deadline_invalid''
       (\<lambda>row. integer_of row ''wait_deadline_seconds'' < integer_of row ''hook_timeout_seconds''),
     check_enum [''armed'', ''disarmed''] ''state'' ''state'', check_idempotency]"

definition codex_wait_consent_receipt_spec :: kind_spec where
  "codex_wait_consent_receipt_spec = \<lparr>
     ks_prefix = ''codex-wait-consent-'',
     ks_fields = COMMON @
       [''node_id'', ''workspace'', ''workspace_map_digest'', ''hook_timeout_seconds'',
        ''wait_deadline_seconds'', ''state'', ''idempotency_key''],
     ks_extras = (\<lambda>_. [[]]),
     ks_versions = [1],
     ks_body = codex_wait_consent_receipt_body\<rparr>"

lemma lawful_codex_wait_consent_receipt [lawful_kinds]: "lawful codex_wait_consent_receipt_body"
  unfolding codex_wait_consent_receipt_body_def
  by (rule lawful_checks) (simp add: lawful_checks_defs lawful_intros stable_simps)

definition prep_clear_receipt_body :: check where
  "prep_clear_receipt_body = checks
    [check_ident ''node_id'', check_ident ''envelope_recipient'', check_absolute ''workspace'',
     check_sha256 ''workspace_map_digest'', check_safe ''acting_session_id'' 1 512,
     check_git_sha ''pushed_tip'', check_bool ''workspace_dirty'',
     require ''unpushed_commit_count_invalid''
       (\<lambda>row. get_member row ''unpushed_commit_count'' = JInt (integer_of row ''unpushed_commit_count'')
           \<and> 0 \<le> integer_of row ''unpushed_commit_count''),
     only_if (\<lambda>row. \<not> absent_value ''complement'' row)
       (check_bounded ''complement'' 1 1024),
     require ''complement_invalid''
       (\<lambda>row. \<not> terminal_unsafe (text_of row ''complement'')
           \<and> CHR 0x0A \<notin> set (text_of row ''complement'')),
     require ''prep_clear_complement_missing''
       (\<lambda>row. \<not> ((get_member row ''workspace_dirty'' = JBool True
           \<or> integer_of row ''unpushed_commit_count'' \<noteq> 0)
           \<and> absent_value ''complement'' row)),
     check_record_ref ''msg-'' ''envelope_id'',
     check_record_ref ''codex-wait-session-'' ''released_claim_receipt_id'',
     check_enum [''released'', ''already_released''] ''wake_release_outcome''
       ''wake_release_outcome'',
     only_if (\<lambda>row. member_is ''wake_release_outcome'' ''released'' row)
       (check_record_ref ''wake-control-'' ''wake_release_receipt_id''),
     only_if (\<lambda>row. \<not> member_is ''wake_release_outcome'' ''released'' row)
       (require ''wake_release_receipt_id_invalid''
          (\<lambda>row. absent_value ''wake_release_receipt_id'' row)),
     check_idempotency]"

definition prep_clear_receipt_spec :: kind_spec where
  "prep_clear_receipt_spec = \<lparr>
     ks_prefix = ''prep-clear-'',
     ks_fields = COMMON @
       [''node_id'', ''workspace'', ''workspace_map_digest'', ''acting_session_id'',
        ''pushed_tip'', ''workspace_dirty'', ''unpushed_commit_count'', ''complement'',
        ''envelope_id'', ''envelope_recipient'', ''released_claim_receipt_id'',
        ''wake_release_outcome'', ''wake_release_receipt_id'', ''idempotency_key''],
     ks_extras = (\<lambda>_. [[]]),
     ks_versions = [1],
     ks_body = prep_clear_receipt_body\<rparr>"

lemma lawful_prep_clear_receipt [lawful_kinds]: "lawful prep_clear_receipt_body"
  unfolding prep_clear_receipt_body_def
  by (rule lawful_checks) (simp add: lawful_checks_defs lawful_intros stable_simps)

definition codex_wait_session_receipt_body :: check where
  "codex_wait_session_receipt_body = checks
    [check_ident ''node_id'', check_absolute ''workspace'', check_sha256 ''workspace_map_digest'',
     check_safe ''acting_session_id'' 1 512,
     check_enum [''claim'', ''arm'', ''takeover''] ''operation'' ''operation'',
     check_enum [''armed''] ''state'' ''state'',
     check_nullable (check_record_ref ''codex-wait-session-'') ''predecessor_receipt_id'',
     require ''codex_wait_session_predecessor_invalid''
       (\<lambda>row. \<not> (member_is ''operation'' ''takeover'' row
           \<and> absent_value ''predecessor_receipt_id'' row)),
     require ''codex_wait_session_predecessor_invalid''
       (\<lambda>row. member_is ''operation'' ''takeover'' row
           \<or> absent_value ''predecessor_receipt_id'' row),
     check_record_ref ''codex-wait-consent-'' ''consent_receipt_id'', check_idempotency]"

definition codex_wait_session_receipt_spec :: kind_spec where
  "codex_wait_session_receipt_spec = \<lparr>
     ks_prefix = ''codex-wait-session-'',
     ks_fields = COMMON @
       [''node_id'', ''workspace'', ''workspace_map_digest'', ''acting_session_id'',
        ''operation'', ''state'', ''predecessor_receipt_id'', ''consent_receipt_id'',
        ''idempotency_key''],
     ks_extras = (\<lambda>_. [[]]),
     ks_versions = [1],
     ks_body = codex_wait_session_receipt_body\<rparr>"

lemma lawful_codex_wait_session_receipt [lawful_kinds]: "lawful codex_wait_session_receipt_body"
  unfolding codex_wait_session_receipt_body_def
  by (rule lawful_checks) (simp add: lawful_checks_defs lawful_intros stable_simps)

definition codex_wait_exhaustion_receipt_body :: check where
  "codex_wait_exhaustion_receipt_body = checks
    [check_ident ''node_id'', check_sha256 ''session_digest'',
     check_integer ''waited_seconds'' 0 86399,
     check_enum [''consent_reopened'', ''rearmed''] ''outcome'' ''outcome'', check_idempotency]"

definition codex_wait_exhaustion_receipt_spec :: kind_spec where
  "codex_wait_exhaustion_receipt_spec = \<lparr>
     ks_prefix = ''codex-wait-exhaustion-'',
     ks_fields = COMMON @
       [''node_id'', ''session_digest'', ''waited_seconds'', ''outcome'', ''idempotency_key''],
     ks_extras = (\<lambda>_. [[]]),
     ks_versions = [1],
     ks_body = codex_wait_exhaustion_receipt_body\<rparr>"

lemma lawful_codex_wait_exhaustion_receipt [lawful_kinds]: "lawful codex_wait_exhaustion_receipt_body"
  unfolding codex_wait_exhaustion_receipt_body_def
  by (rule lawful_checks) (simp add: lawful_checks_defs lawful_intros stable_simps)

definition wake_waiter_exit_receipt_body :: check where
  "wake_waiter_exit_receipt_body = checks
    [check_ident ''node_id'', check_sha256 ''session_digest'',
     check_enum [''exhausted'', ''paused'', ''not_claimant'', ''consent_withdrawn'', ''breaker'',
       ''integrity_failure''] ''reason_code'' ''reason_code'',
     check_integer ''waited_seconds'' 0 86399, check_idempotency]"

definition wake_waiter_exit_receipt_spec :: kind_spec where
  "wake_waiter_exit_receipt_spec = \<lparr>
     ks_prefix = ''wake-waiter-exit-'',
     ks_fields = COMMON @
       [''node_id'', ''session_digest'', ''reason_code'', ''waited_seconds'', ''idempotency_key''],
     ks_extras = (\<lambda>_. [[]]),
     ks_versions = [1],
     ks_body = wake_waiter_exit_receipt_body\<rparr>"

lemma lawful_wake_waiter_exit_receipt [lawful_kinds]: "lawful wake_waiter_exit_receipt_body"
  unfolding wake_waiter_exit_receipt_body_def
  by (rule lawful_checks) (simp add: lawful_checks_defs lawful_intros stable_simps)

definition confluence_grant_body :: check where
  "confluence_grant_body = checks
    [check_bounded ''consumer'' 1 64, check_enum [''granted'', ''revoked''] ''state'' ''state'',
     only_if (\<lambda>row. member_is ''state'' ''granted'' row)
       (require ''confluence_grant_predecessor_invalid''
          (\<lambda>row. absent_value ''predecessor_receipt_id'' row)),
     only_if (\<lambda>row. \<not> member_is ''state'' ''granted'' row)
       (check_record_ref ''confluence-grant-'' ''predecessor_receipt_id''),
     check_idempotency]"

definition confluence_grant_spec :: kind_spec where
  "confluence_grant_spec = \<lparr>
     ks_prefix = ''confluence-grant-'',
     ks_fields = COMMON @
       [''consumer'', ''state'', ''predecessor_receipt_id'', ''idempotency_key''],
     ks_extras = (\<lambda>_. [[]]),
     ks_versions = [0, 1],
     ks_body = confluence_grant_body\<rparr>"

lemma lawful_confluence_grant [lawful_kinds]: "lawful confluence_grant_body"
  unfolding confluence_grant_body_def
  by (rule lawful_checks) (simp add: lawful_checks_defs lawful_intros stable_simps)

definition wake_control_receipt_body :: check where
  "wake_control_receipt_body = checks
    [check_ident ''node_id'', check_sha256 ''session_digest'',
     check_enum [''pause'', ''resume''] ''operation'' ''operation'',
     check_enum [''paused'', ''resume_requested''] ''state'' ''state'',
     require ''wake_control_state_invalid''
       (\<lambda>row. (member_is ''operation'' ''pause'' row \<and> member_is ''state'' ''paused'' row)
           \<or> (member_is ''operation'' ''resume'' row
           \<and> member_is ''state'' ''resume_requested'' row)),
     only_if (\<lambda>row. member_is ''operation'' ''pause'' row)
       (require ''wake_control_predecessor_invalid''
          (\<lambda>row. absent_value ''predecessor_receipt_id'' row)),
     only_if (\<lambda>row. \<not> member_is ''operation'' ''pause'' row)
       (check_record_ref ''wake-control-'' ''predecessor_receipt_id''),
     check_idempotency]"

definition wake_control_receipt_spec :: kind_spec where
  "wake_control_receipt_spec = \<lparr>
     ks_prefix = ''wake-control-'',
     ks_fields = COMMON @
       [''node_id'', ''session_digest'', ''operation'', ''state'', ''predecessor_receipt_id'',
        ''idempotency_key''],
     ks_extras = (\<lambda>_. [[]]),
     ks_versions = [0],
     ks_body = wake_control_receipt_body\<rparr>"

lemma lawful_wake_control_receipt [lawful_kinds]: "lawful wake_control_receipt_body"
  unfolding wake_control_receipt_body_def
  by (rule lawful_checks) (simp add: lawful_checks_defs lawful_intros stable_simps)

definition wake_daemon_consent_receipt_body :: check where
  "wake_daemon_consent_receipt_body = checks
    [check_ident ''node_id'',
     only_if (\<lambda>row. version_one row)
       (check_enum [''codex'', ''cursor'', ''grok-build'', ''zcode''] ''harness'' ''harness''),
     only_if (\<lambda>row. \<not> version_one row)
       (check_enum [''codex'', ''cursor''] ''harness'' ''harness''),
     check_sha256 ''coordinate_digest'', check_bounded ''adapter_version'' 1 64,
     check_sha256 ''adapter_digest'', check_integer ''min_poll_seconds'' 1 86400,
     check_integer ''max_poll_seconds'' 1 86400, check_integer ''max_backoff_seconds'' 1 86400,
     check_integer ''activation_epoch'' 1 (2 ^ 63 - 1),
     require ''wake_daemon_poll_bounds_invalid''
       (\<lambda>row. integer_of row ''min_poll_seconds'' \<le> integer_of row ''max_poll_seconds''),
     require ''wake_daemon_backoff_bounds_invalid''
       (\<lambda>row. integer_of row ''max_poll_seconds'' \<le> integer_of row ''max_backoff_seconds''),
     check_enum [''consent'', ''revoke''] ''operation'' ''operation'',
     check_enum [''active'', ''revoked''] ''state'' ''state'',
     require ''wake_daemon_consent_state_invalid''
       (\<lambda>row. (member_is ''operation'' ''consent'' row \<and> member_is ''state'' ''active'' row)
           \<or> (member_is ''operation'' ''revoke'' row
           \<and> member_is ''state'' ''revoked'' row)),
     check_nullable (check_record_ref ''wake-daemon-consent-'') ''predecessor_receipt_id'',
     require ''wake_daemon_consent_predecessor_invalid''
       (\<lambda>row. \<not> (member_is ''operation'' ''revoke'' row
           \<and> absent_value ''predecessor_receipt_id'' row)),
     check_bounded ''idempotency_key'' 1 128]"

definition wake_daemon_consent_receipt_spec :: kind_spec where
  "wake_daemon_consent_receipt_spec = \<lparr>
     ks_prefix = ''wake-daemon-consent-'',
     ks_fields = COMMON @
       [''node_id'', ''harness'', ''coordinate_digest'', ''adapter_version'', ''adapter_digest'',
        ''min_poll_seconds'', ''max_poll_seconds'', ''max_backoff_seconds'', ''activation_epoch'',
        ''operation'', ''state'', ''predecessor_receipt_id'', ''idempotency_key''],
     ks_extras = (\<lambda>_. [[]]),
     ks_versions = [0, 1],
     ks_body = wake_daemon_consent_receipt_body\<rparr>"

lemma lawful_wake_daemon_consent_receipt [lawful_kinds]: "lawful wake_daemon_consent_receipt_body"
  unfolding wake_daemon_consent_receipt_body_def
  by (rule lawful_checks) (simp add: lawful_checks_defs lawful_intros stable_simps)

definition check_short :: "string \<Rightarrow> check" where
  "check_short name = check_bounded name 1 128"

lemma lawful_check_short [lawful_intros]: "lawful (check_short name)"
  by (simp add: check_short_def check_bounded_def lawful_text_field)

definition wake_daemon_lifecycle_receipt_body :: check where
  "wake_daemon_lifecycle_receipt_body = checks
    [check_ident ''node_id'',
     only_if (\<lambda>row. version_one row)
       (check_enum [''codex'', ''cursor'', ''grok-build'', ''zcode''] ''harness'' ''harness''),
     only_if (\<lambda>row. \<not> version_one row)
       (check_enum [''codex'', ''cursor''] ''harness'' ''harness''),
     check_sha256 ''coordinate_digest'', check_bounded ''daemon_instance_id'' 1 64,
     check_integer ''activation_epoch'' 1 (2 ^ 63 - 1),
     check_enum [''installed'', ''started'', ''stopped'', ''removed'', ''revoked'', ''idle'',
       ''paused'', ''pause_unknown'', ''wake_attempt'', ''backpressure'', ''exhausted'',
       ''owner_unknown'', ''adapter_unknown'', ''wake_evidence_unknown'', ''relaunch_required'',
       ''refused'', ''cycle_exception''] ''event'' ''event'',
     check_enum [''inactive'', ''installed'', ''running'', ''stopped'', ''removed'', ''revoked'',
       ''idle'', ''paused'', ''pause_unknown'', ''backpressure'', ''exhausted'', ''unknown'',
       ''refused'', ''relaunch_required''] ''state'' ''state'',
     check_nullable check_short ''reason_code'', check_nullable check_short ''exception_type'',
     check_nullable check_short ''exception_message'', check_sha256 ''adapter_digest'',
     check_nullable check_sha256 ''plist_digest'', check_nullable check_sha256 ''session_digest'',
     check_nullable (check_record_ref ''wake-daemon-lifecycle-'') ''predecessor_receipt_id'',
     check_bounded ''idempotency_key'' 1 128]"

definition wake_daemon_lifecycle_receipt_spec :: kind_spec where
  "wake_daemon_lifecycle_receipt_spec = \<lparr>
     ks_prefix = ''wake-daemon-lifecycle-'',
     ks_fields = COMMON @
       [''node_id'', ''harness'', ''coordinate_digest'', ''daemon_instance_id'',
        ''activation_epoch'', ''event'', ''state'', ''reason_code'', ''adapter_digest'',
        ''plist_digest'', ''session_digest'', ''predecessor_receipt_id'', ''idempotency_key''],
     ks_extras = (\<lambda>_. [[], [''exception_type'', ''exception_message'']]),
     ks_versions = [0, 1],
     ks_body = wake_daemon_lifecycle_receipt_body\<rparr>"

lemma lawful_wake_daemon_lifecycle_receipt [lawful_kinds]: "lawful wake_daemon_lifecycle_receipt_body"
  unfolding wake_daemon_lifecycle_receipt_body_def
  by (rule lawful_checks) (simp add: lawful_checks_defs lawful_intros stable_simps)

definition liveness_presence_body :: check where
  "liveness_presence_body = checks
    [check_ident ''node_id'', check_timestamp ''observed_at'', check_timestamp ''expires_at'',
     require ''time_order_invalid'' (\<lambda>row. later ''expires_at'' ''observed_at'' row),
     check_enum [''present'', ''silent'', ''expired''] ''state'' ''state'']"

definition liveness_presence_spec :: kind_spec where
  "liveness_presence_spec = \<lparr>
     ks_prefix = ''presence-'',
     ks_fields = COMMON @
       [''node_id'', ''observed_at'', ''expires_at'', ''state''],
     ks_extras = (\<lambda>_. [[]]),
     ks_versions = [0],
     ks_body = liveness_presence_body\<rparr>"

lemma lawful_liveness_presence [lawful_kinds]: "lawful liveness_presence_body"
  unfolding liveness_presence_body_def
  by (rule lawful_checks) (simp add: lawful_checks_defs lawful_intros stable_simps)

text \<open>The shared branch of \<open>authority_grant\<close> and \<open>mutual_exclusion_hold\<close>.\<close>

definition interval_body :: "string \<Rightarrow> string \<Rightarrow> check" where
  "interval_body subject first = checks
    [check_ident subject, check_ident ''holder'', check_integer ''epoch'' 1 (2 ^ 63 - 1),
     check_integer ''ttl_seconds'' 1 86400, check_integer ''deadline_seconds'' 1 86400,
     require ''deadline_exceeds_ttl''
       (\<lambda>row. integer_of row ''deadline_seconds'' \<le> integer_of row ''ttl_seconds''),
     check_timestamp first, check_timestamp ''renewed_at'', check_timestamp ''expires_at'',
     check_nullable check_timestamp ''released_at'',
     require ''time_order_invalid''
       (\<lambda>row. \<not> later first ''renewed_at'' row \<and> \<not> later ''renewed_at'' ''expires_at'' row \<and>
          \<not> (\<not> absent_value ''released_at'' row \<and> later ''renewed_at'' ''released_at'' row)),
     check_enum [''active'', ''released'', ''expired''] ''state'' ''state'',
     require ''release_state_invalid''
       (\<lambda>row. member_is ''state'' ''released'' row \<longleftrightarrow> \<not> absent_value ''released_at'' row)]"

lemma lawful_interval_body [lawful_kinds]: "lawful (interval_body subject first)"
  unfolding interval_body_def
  by (rule lawful_checks) (simp add: lawful_checks_defs lawful_intros stable_simps)

definition authority_grant_spec :: kind_spec where
  "authority_grant_spec = \<lparr>
     ks_prefix = ''authority-'',
     ks_fields = COMMON @
       [''subject_id'', ''holder'', ''epoch'', ''claimed_at'', ''renewed_at'', ''expires_at'',
        ''released_at'', ''ttl_seconds'', ''deadline_seconds'', ''state''],
     ks_extras = (\<lambda>_. [[]]),
     ks_versions = [0],
     ks_body = interval_body ''subject_id'' ''claimed_at''\<rparr>"

definition mutual_exclusion_hold_spec :: kind_spec where
  "mutual_exclusion_hold_spec = \<lparr>
     ks_prefix = ''hold-'',
     ks_fields = COMMON @
       [''resource_id'', ''holder'', ''epoch'', ''acquired_at'', ''renewed_at'', ''expires_at'',
        ''released_at'', ''ttl_seconds'', ''deadline_seconds'', ''state''],
     ks_extras = (\<lambda>_. [[]]),
     ks_versions = [0],
     ks_body = interval_body ''resource_id'' ''acquired_at''\<rparr>"

definition wake_cause_body :: check where
  "wake_cause_body = checks
    [check_ident ''node_id'',
     check_enum [''self_wake'', ''external_injection'', ''resurrection''] ''cause'' ''cause'',
     check_integer ''context_bytes'' 0 65536, check_integer ''wake_count'' 1 1000000]"

definition wake_cause_spec :: kind_spec where
  "wake_cause_spec = \<lparr>
     ks_prefix = ''wake-'',
     ks_fields = COMMON @
       [''node_id'', ''cause'', ''context_bytes'', ''wake_count''],
     ks_extras = (\<lambda>_. [[]]),
     ks_versions = [0],
     ks_body = wake_cause_body\<rparr>"

lemma lawful_wake_cause [lawful_kinds]: "lawful wake_cause_body"
  unfolding wake_cause_body_def
  by (rule lawful_checks) (simp add: lawful_checks_defs lawful_intros stable_simps)

text \<open>\<open>_worker_workspace_shape\<close>.\<close>

definition workspace_shape :: "string \<Rightarrow> bool" where
  "workspace_shape s \<longleftrightarrow>
     \<not> terminal_unsafe s \<and> starts_with ''/'' s \<and>
     (let components = split_on CHR ''/'' s in
        list_all (\<lambda>c. c \<notin> {'''', ''.'', ''..''}) (tl components) \<and>
        3 \<le> length components \<and> components ! (length components - 2) = ''floati-work'' \<and>
        is_record_id ''work-'' (last components))"

definition work_item_body :: check where
  "work_item_body = checks
    [check_bounded ''title'' 1 256, check_ident ''owner'',
     check_artifact_bindings ''artifact_bindings'',
     only_if (\<lambda>row. present_field ''needs'' row)
       (check_texts ''needs'' 0 64 (is_record_id ''work-'') False),
     only_if (\<lambda>row. present_field ''workspace'' row \<and> \<not> absent_value ''workspace'' row)
       (require ''workspace_invalid''
          (\<lambda>row. get_member row ''workspace'' = JStr (text_of row ''workspace'')
              \<and> workspace_shape (text_of row ''workspace'')
              \<and> get_member row ''id'' = JStr (last (split_on CHR ''/'' (text_of row ''workspace'')))))]"

definition work_item_spec :: kind_spec where
  "work_item_spec = \<lparr>
     ks_prefix = ''work-'',
     ks_fields = COMMON @
       [''title'', ''owner'', ''artifact_bindings''],
     ks_extras = (\<lambda>_. subseqs [''workspace'', ''needs'']),
     ks_versions = [0],
     ks_body = work_item_body\<rparr>"

lemma lawful_work_item [lawful_kinds]: "lawful work_item_body"
  unfolding work_item_body_def
  by (rule lawful_checks) (simp add: lawful_checks_defs lawful_intros stable_simps)

definition work_transition_body :: check where
  "work_transition_body = checks
    [check_run_item_id ''work_item_id'',
     check_enum [''claim'', ''complete''] ''action'' ''action'', check_ident ''actor'',
     check_ident ''authority_subject'', check_integer ''authority_epoch'' 1 (2 ^ 63 - 1),
     check_artifact_bindings ''artifact_bindings'']"

definition work_transition_spec :: kind_spec where
  "work_transition_spec = \<lparr>
     ks_prefix = ''transition-'',
     ks_fields = COMMON @
       [''work_item_id'', ''action'', ''actor'', ''authority_subject'', ''authority_epoch'',
        ''artifact_bindings''],
     ks_extras = (\<lambda>_. [[]]),
     ks_versions = [0],
     ks_body = work_transition_body\<rparr>"

lemma lawful_work_transition [lawful_kinds]: "lawful work_transition_body"
  unfolding work_transition_body_def
  by (rule lawful_checks) (simp add: lawful_checks_defs lawful_intros stable_simps)

definition capability_body :: check where
  "capability_body = checks
    [check_ident ''node_id'', check_capability ''capability'',
     check_enum [''unavailable'', ''read_only'', ''read_write''] ''capability_mode'' ''mode'',
     check_scope ''scope'', check_timestamp ''observed_at'', check_timestamp ''expires_at'',
     require ''time_order_invalid'' (\<lambda>row. later ''expires_at'' ''observed_at'' row)]"

definition capability_spec :: kind_spec where
  "capability_spec = \<lparr>
     ks_prefix = ''capability-'',
     ks_fields = COMMON @
       [''node_id'', ''capability'', ''mode'', ''scope'', ''observed_at'', ''expires_at''],
     ks_extras = (\<lambda>_. [[]]),
     ks_versions = [0],
     ks_body = capability_body\<rparr>"

lemma lawful_capability [lawful_kinds]: "lawful capability_body"
  unfolding capability_body_def
  by (rule lawful_checks) (simp add: lawful_checks_defs lawful_intros stable_simps)

definition capability_revoked_body :: check where
  "capability_revoked_body = checks
    [check_record_ref ''capability-grant-'' ''grant_id'',
     check_enum [''operator_revoked'', ''authority_revoked'', ''worker_unregistered'',
       ''policy_replaced''] ''reason_code'' ''reason_code'',
     only_if (\<lambda>row. member_is ''reason_code'' ''policy_replaced'' row)
       (check_sha256 ''replacement_policy_digest''),
     only_if (\<lambda>row. \<not> member_is ''reason_code'' ''policy_replaced'' row)
       (require ''replacement_policy_digest_invalid''
          (\<lambda>row. absent_value ''replacement_policy_digest'' row))]"

definition capability_revoked_spec :: kind_spec where
  "capability_revoked_spec = \<lparr>
     ks_prefix = ''capability-revoked-'',
     ks_fields = COMMON @
       [''grant_id'', ''reason_code'', ''replacement_policy_digest''],
     ks_extras = (\<lambda>_. [[]]),
     ks_versions = [0, 1],
     ks_body = capability_revoked_body\<rparr>"

lemma lawful_capability_revoked [lawful_kinds]: "lawful capability_revoked_body"
  unfolding capability_revoked_body_def
  by (rule lawful_checks) (simp add: lawful_checks_defs lawful_intros stable_simps)

definition approval_request_body :: check where
  "approval_request_body = checks
    [check_ident ''requester'', check_ident ''authority_subject'',
     check_capability ''capability'', check_scope ''scope'',
     check_integer ''requested_ttl_seconds'' 1 86400,
     check_integer ''authority_epoch'' 1 (2 ^ 63 - 1), check_timestamp ''requested_at'',
     check_timestamp ''expires_at'',
     require ''time_order_invalid'' (\<lambda>row. later ''expires_at'' ''requested_at'' row),
     only_if (\<lambda>row. version_one row) (check_sha256 ''exact_action_digest'')]"

definition approval_request_spec :: kind_spec where
  "approval_request_spec = \<lparr>
     ks_prefix = ''approval-request-'',
     ks_fields = COMMON @
       [''requester'', ''capability'', ''scope'', ''requested_ttl_seconds'', ''requested_at'',
        ''expires_at'', ''authority_subject'', ''authority_epoch''],
     ks_extras = (\<lambda>v. if v = JInt 1 then [[''exact_action_digest'']] else [[]]),
     ks_versions = [0, 1],
     ks_body = approval_request_body\<rparr>"

lemma lawful_approval_request [lawful_kinds]: "lawful approval_request_body"
  unfolding approval_request_body_def
  by (rule lawful_checks) (simp add: lawful_checks_defs lawful_intros stable_simps)

definition approval_decision_body :: check where
  "approval_decision_body = checks
    [check_record_ref ''approval-request-'' ''request_id'', check_ident ''decider'',
     check_ident ''authority_subject'', check_integer ''authority_epoch'' 1 (2 ^ 63 - 1),
     check_enum [''approved'', ''denied''] ''decision'' ''decision'',
     check_timestamp ''decided_at'',
     only_if (\<lambda>row. member_is ''decision'' ''approved'' row)
       (checks
         [check_scope ''granted_scope'', check_integer ''granted_ttl_seconds'' 1 86400,
          require ''reason_code_invalid'' (\<lambda>row. absent_value ''reason_code'' row),
          check_timestamp ''expires_at'',
          require ''time_order_invalid'' (\<lambda>row. later ''expires_at'' ''decided_at'' row)]),
     only_if (\<lambda>row. \<not> member_is ''decision'' ''approved'' row)
       (checks
         [require ''denial_grant_invalid''
            (\<lambda>row. absent_value ''granted_scope'' row \<and> absent_value ''granted_ttl_seconds'' row
                \<and> absent_value ''expires_at'' row),
          check_bounded ''reason_code'' 1 128]),
     only_if (\<lambda>row. version_one row) (check_sha256 ''exact_action_digest'')]"

definition approval_decision_spec :: kind_spec where
  "approval_decision_spec = \<lparr>
     ks_prefix = ''approval-decision-'',
     ks_fields = COMMON @
       [''request_id'', ''decider'', ''decision'', ''granted_scope'', ''granted_ttl_seconds'',
        ''reason_code'', ''decided_at'', ''expires_at'', ''authority_subject'',
        ''authority_epoch''],
     ks_extras = (\<lambda>v. if v = JInt 1 then [[''exact_action_digest'']] else [[]]),
     ks_versions = [0, 1],
     ks_body = approval_decision_body\<rparr>"

lemma lawful_approval_decision [lawful_kinds]: "lawful approval_decision_body"
  unfolding approval_decision_body_def
  by (rule lawful_checks) (simp add: lawful_checks_defs lawful_intros stable_simps)

definition WORKER_OUTCOME_CODES :: "string list" where
  "WORKER_OUTCOME_CODES =
    [''adapter_error'', ''adapter_malformed_output'', ''approval_required_unattended'',
     ''artifact_ambiguous'', ''artifact_missing'', ''authority_expired_mid_claim'',
     ''authority_deadline_unavailable'', ''authority_state_unavailable'',
     ''credential_network_boundary_unruled'', ''effect_context_hook_missing'',
     ''effect_worker_isolation_unavailable'', ''git_finalize_failed'', ''process_cancelled'',
     ''process_died'', ''process_start_failed'', ''process_timeout'',
     ''spawn_context_hook_missing'', ''spawn_observation_controller_missing'', ''protocol_error'',
     ''turn_failed'', ''worker_authority_changed'', ''workspace_invalid'',
     ''workspace_mapping_missing'']"

definition worker_receipt_body :: check where
  "worker_receipt_body = checks
    [check_record_ref ''worker-'' ''session_id'', check_run_item_id ''work_item_id'',
     check_ident ''node_id'', check_ident ''authority_subject'', check_capability ''adapter'',
     check_enum [''claim'', ''spawn'', ''drive'', ''bind_artifact'', ''complete'', ''degrade'']
       ''transition'' ''transition'',
     check_integer ''authority_epoch'' 1 (2 ^ 63 - 1),
     only_if (\<lambda>row. member_is ''transition'' ''degrade'' row)
       (check_enum WORKER_OUTCOME_CODES ''outcome_code'' ''outcome_code''),
     only_if (\<lambda>row. \<not> member_is ''transition'' ''degrade'' row)
       (require ''outcome_code_invalid'' (\<lambda>row. absent_value ''outcome_code'' row)),
     check_artifact_bindings ''artifact_bindings'']"

definition worker_receipt_spec :: kind_spec where
  "worker_receipt_spec = \<lparr>
     ks_prefix = ''worker-receipt-'',
     ks_fields = COMMON @
       [''session_id'', ''work_item_id'', ''node_id'', ''adapter'', ''transition'',
        ''outcome_code'', ''authority_subject'', ''authority_epoch'', ''artifact_bindings''],
     ks_extras = (\<lambda>_. [[]]),
     ks_versions = [0],
     ks_body = worker_receipt_body\<rparr>"

lemma lawful_worker_receipt [lawful_kinds]: "lawful worker_receipt_body"
  unfolding worker_receipt_body_def
  by (rule lawful_checks) (simp add: lawful_checks_defs lawful_intros stable_simps)

definition WORKER_REFUSAL_CODES :: "string list" where
  "WORKER_REFUSAL_CODES =
    [''authority_state_unavailable'', ''consumption_state_unavailable'',
     ''worker_adapter_absent'', ''worker_authority_changed'', ''worker_authority_ambiguous'',
     ''worker_authority_missing'', ''worker_claim_lost'', ''worker_node_inactive'',
     ''worker_work_blocked'', ''worker_work_absent'', ''worker_workspace_missing'']"

definition worker_refusal_body :: check where
  "worker_refusal_body = checks
    [check_ident ''node_id'', check_capability ''adapter'',
     check_nullable check_run_item_id ''work_item_id'',
     check_enum WORKER_REFUSAL_CODES ''reason_code'' ''reason_code'']"

definition worker_refusal_spec :: kind_spec where
  "worker_refusal_spec = \<lparr>
     ks_prefix = ''worker-refusal-'',
     ks_fields = COMMON @
       [''node_id'', ''adapter'', ''work_item_id'', ''reason_code''],
     ks_extras = (\<lambda>_. [[]]),
     ks_versions = [0],
     ks_body = worker_refusal_body\<rparr>"

lemma lawful_worker_refusal [lawful_kinds]: "lawful worker_refusal_body"
  unfolding worker_refusal_body_def
  by (rule lawful_checks) (simp add: lawful_checks_defs lawful_intros stable_simps)

definition session_adoption_body :: check where
  "session_adoption_body = checks
    [check_ident ''session_id'', check_ident ''manager_node_id'', check_ident ''lease_subject'',
     check_enum [''MANAGED''] ''mode'' ''mode'', check_integer ''lease_epoch'' 1 (2 ^ 63 - 1),
     check_timestamp ''lease_expires_at'', check_timestamp ''timestamp'',
     require ''time_order_invalid'' (\<lambda>row. later ''lease_expires_at'' ''timestamp'' row)]"

definition session_adoption_spec :: kind_spec where
  "session_adoption_spec = \<lparr>
     ks_prefix = ''adoption-'',
     ks_fields = COMMON @
       [''session_id'', ''mode'', ''manager_node_id'', ''lease_subject'', ''lease_epoch'',
        ''lease_expires_at''],
     ks_extras = (\<lambda>_. [[]]),
     ks_versions = [0],
     ks_body = session_adoption_body\<rparr>"

lemma lawful_session_adoption [lawful_kinds]: "lawful session_adoption_body"
  unfolding session_adoption_body_def
  by (rule lawful_checks) (simp add: lawful_checks_defs lawful_intros stable_simps)

definition session_release_body :: check where
  "session_release_body = checks
    [check_ident ''session_id'', check_ident ''manager_node_id'', check_ident ''lease_subject'',
     check_integer ''lease_epoch'' 1 (2 ^ 63 - 1), check_record_ref ''adoption-'' ''adoption_id'']"

definition session_release_spec :: kind_spec where
  "session_release_spec = \<lparr>
     ks_prefix = ''release-'',
     ks_fields = COMMON @
       [''session_id'', ''adoption_id'', ''manager_node_id'', ''lease_subject'', ''lease_epoch''],
     ks_extras = (\<lambda>_. [[]]),
     ks_versions = [0],
     ks_body = session_release_body\<rparr>"

lemma lawful_session_release [lawful_kinds]: "lawful session_release_body"
  unfolding session_release_body_def
  by (rule lawful_checks) (simp add: lawful_checks_defs lawful_intros stable_simps)

definition bridge_consent_body :: check where
  "bridge_consent_body = checks
    [check_ident ''peer_tenant_id'', check_ident ''actor'',
     require ''bridge_same_root''
       (\<lambda>row. text_of row ''peer_tenant_id'' \<noteq> text_of row ''tenant_id''),
     check_record_ref ''bridge-'' ''bridge_id'',
     check_enum [''bidirectional''] ''direction'' ''direction'',
     check_enum [''granted'', ''revoked''] ''state'' ''state'',
     check_enum [''advisory_not_consumption''] ''scope'' ''scope'']"

definition bridge_consent_spec :: kind_spec where
  "bridge_consent_spec = \<lparr>
     ks_prefix = ''bridge-consent-'',
     ks_fields = COMMON @
       [''bridge_id'', ''peer_tenant_id'', ''actor'', ''direction'', ''state'', ''scope''],
     ks_extras = (\<lambda>_. [[]]),
     ks_versions = [0],
     ks_body = bridge_consent_body\<rparr>"

lemma lawful_bridge_consent [lawful_kinds]: "lawful bridge_consent_body"
  unfolding bridge_consent_body_def
  by (rule lawful_checks) (simp add: lawful_checks_defs lawful_intros stable_simps)

definition bridge_record_body :: check where
  "bridge_record_body = checks
    [check_ident ''left_tenant_id'', check_ident ''right_tenant_id'',
     require ''bridge_same_root''
       (\<lambda>row. text_of row ''left_tenant_id'' \<noteq> text_of row ''right_tenant_id''),
     require ''bridge_tenant_mismatch''
       (\<lambda>row. text_of row ''tenant_id'' = text_of row ''left_tenant_id''
           \<or> text_of row ''tenant_id'' = text_of row ''right_tenant_id''),
     check_record_ref ''bridge-'' ''bridge_id'',
     check_record_ref ''bridge-consent-'' ''left_consent_id'',
     check_record_ref ''bridge-consent-'' ''right_consent_id'',
     check_enum [''local_filesystem''] ''transport'' ''transport'',
     check_enum [''advisory_not_consumption''] ''scope'' ''scope'',
     check_enum [''active'', ''revoked''] ''state'' ''state'']"

definition bridge_record_spec :: kind_spec where
  "bridge_record_spec = \<lparr>
     ks_prefix = ''bridge-record-'',
     ks_fields = COMMON @
       [''bridge_id'', ''left_tenant_id'', ''right_tenant_id'', ''left_consent_id'',
        ''right_consent_id'', ''transport'', ''scope'', ''state''],
     ks_extras = (\<lambda>_. [[]]),
     ks_versions = [0],
     ks_body = bridge_record_body\<rparr>"

lemma lawful_bridge_record [lawful_kinds]: "lawful bridge_record_body"
  unfolding bridge_record_body_def
  by (rule lawful_checks) (simp add: lawful_checks_defs lawful_intros stable_simps)

definition bridge_forward_body :: check where
  "bridge_forward_body = checks
    [check_ident ''source_tenant_id'', check_ident ''destination_tenant_id'',
     check_ident ''sender'', check_ident ''recipient'',
     require ''bridge_same_root''
       (\<lambda>row. text_of row ''source_tenant_id'' \<noteq> text_of row ''destination_tenant_id''),
     require ''bridge_tenant_mismatch''
       (\<lambda>row. text_of row ''tenant_id'' = text_of row ''source_tenant_id''
           \<or> text_of row ''tenant_id'' = text_of row ''destination_tenant_id''),
     check_record_ref ''bridge-'' ''bridge_id'', check_record_ref ''forward-'' ''forward_id'',
     check_record_ref ''bridge-consent-'' ''source_consent_id'',
     check_record_ref ''bridge-consent-'' ''destination_consent_id'',
     check_enum [''outbound'', ''inbound''] ''direction'' ''direction'',
     check_repository ''repo'', check_git_sha ''sha'', check_document ''doc'',
     check_note ''note'', check_enum [''advisory_not_consumption''] ''stamp'' ''stamp'']"

definition bridge_forward_spec :: kind_spec where
  "bridge_forward_spec = \<lparr>
     ks_prefix = ''bridge-forward-'',
     ks_fields = COMMON @
       [''bridge_id'', ''forward_id'', ''direction'', ''source_tenant_id'',
        ''destination_tenant_id'', ''sender'', ''recipient'', ''repo'', ''sha'', ''doc'',
        ''note'', ''source_consent_id'', ''destination_consent_id'', ''stamp''],
     ks_extras = (\<lambda>_. [[]]),
     ks_versions = [0],
     ks_body = bridge_forward_body\<rparr>"

lemma lawful_bridge_forward [lawful_kinds]: "lawful bridge_forward_body"
  unfolding bridge_forward_body_def
  by (rule lawful_checks) (simp add: lawful_checks_defs lawful_intros stable_simps)

definition bridge_denial_body :: check where
  "bridge_denial_body = checks
    [check_ident ''source_tenant_id'', check_ident ''destination_tenant_id'',
     check_record_ref ''bridge-'' ''bridge_id'',
     check_enum [''left_to_right'', ''right_to_left'', ''invalid''] ''direction'' ''direction'',
     check_enum [''bridge_same_root'', ''bridge_consent_missing'', ''bridge_consent_revoked'',
       ''bridge_consent_mismatch'', ''bridge_not_active'', ''bridge_direction_invalid'',
       ''bridge_sender_inactive'', ''bridge_recipient_inactive'', ''bridge_transport_forbidden'',
       ''bridge_root_unknown''] ''reason_code'' ''reason_code'',
     check_enum [''advisory_not_consumption''] ''stamp'' ''stamp'']"

definition bridge_denial_spec :: kind_spec where
  "bridge_denial_spec = \<lparr>
     ks_prefix = ''bridge-denial-'',
     ks_fields = COMMON @
       [''bridge_id'', ''source_tenant_id'', ''destination_tenant_id'', ''direction'',
        ''reason_code'', ''stamp''],
     ks_extras = (\<lambda>_. [[]]),
     ks_versions = [0],
     ks_body = bridge_denial_body\<rparr>"

lemma lawful_bridge_denial [lawful_kinds]: "lawful bridge_denial_body"
  unfolding bridge_denial_body_def
  by (rule lawful_checks) (simp add: lawful_checks_defs lawful_intros stable_simps)

end
