(* ===== verification/Run_Kinds.thy ===== *)
theory Run_Kinds
  imports Fleet_Kinds
begin

text \<open>
  The record kinds of the Run ledgers (\<open>floati/records.py\<close>): sequencer epochs and segments,
  credential leases, spawn groups, the life of an attempt with its results, retries and
  cancellations, and effects.  The conventions are those of \<open>Fleet_Kinds\<close>.
\<close>

section \<open>Tables inside a record\<close>

fun budget_keys :: "int \<Rightarrow> json list \<Rightarrow> string list option" where
  "budget_keys lo [] = Some []"
| "budget_keys lo (v # vs) =
     (case v of
        JObj b \<Rightarrow>
          if same_names b [''budget_id'', ''amount''] \<and>
             get_member b ''budget_id'' = JStr (text_of b ''budget_id'') \<and>
             is_identifier (text_of b ''budget_id'') \<and> integer_in ''amount'' lo 1000000000 b
          then map_option (\<lambda>keys. text_of b ''budget_id'' # keys) (budget_keys lo vs)
          else None
      | _ \<Rightarrow> None)"

text \<open>\<open>_budget_rows\<close> with least amount one, \<open>_effect_budget_rows\<close> with zero.\<close>

definition check_budget_rows :: "string \<Rightarrow> int \<Rightarrow> check" where
  "check_budget_rows name lo integrity row =
     (case get_member row name of
        JArr vs \<Rightarrow>
          if length vs > 64 then Inl (field_invalid integrity name)
          else (case budget_keys lo vs of
                  Some keys \<Rightarrow>
                    if sorted keys \<and> distinct keys then Inr () else Inl (field_invalid integrity name)
                | None \<Rightarrow> Inl (field_invalid integrity name))
      | _ \<Rightarrow> Inl (field_invalid integrity name))"

definition check_capability_set :: "string \<Rightarrow> check" where
  "check_capability_set name integrity row =
     (case get_member row name of
        JArr vs \<Rightarrow>
          if length vs > 64 then Inl (field_invalid integrity name)
          else (case all_texts vs of
                  Some ss \<Rightarrow>
                    if \<not> list_all is_capability ss then Inl (field_invalid integrity ''capability'')
                    else if sorted ss \<and> distinct ss then Inr ()
                    else Inl (field_invalid integrity name)
                | None \<Rightarrow> Inl (field_invalid integrity ''capability''))
      | _ \<Rightarrow> Inl (field_invalid integrity name))"

lemma budget_keys_canon: "budget_keys lo (map canon vs) = budget_keys lo vs"
proof (induction vs)
  case (Cons v vs)
  show ?case
  proof (cases v)
    case (JObj b)
    note c = canonical_of_object [of b]
    show ?thesis
      using Cons canonical_ofD(2,3) [OF c] JObj
      by (simp add: text_of_canonical [OF c] integer_in_canonical [OF c])
  qed simp_all
qed simp

lemma lawful_budget_rows [lawful_intros]: "lawful (check_budget_rows name lo)"
  unfolding lawful_def
proof (intro allI impI)
  fix b b' row row'
  assume c: "canonical_of row row'" and "check_budget_rows name lo b row = Inr ()"
  then show "check_budget_rows name lo b' row' = Inr ()"
    by (auto simp: check_budget_rows_def budget_keys_canon canonical_ofD(2) [OF c] not_less
        split: json.splits option.splits if_splits)
qed

lemma capability_set_Inr_iff:
  "check_capability_set name b row = Inr () \<longleftrightarrow>
     (\<exists>ss. get_member row name = JArr (map JStr ss) \<and> length ss \<le> 64 \<and>
        list_all is_capability ss \<and> sorted ss \<and> distinct ss)"
  by (auto simp: check_capability_set_def all_texts_Some_iff split: json.splits option.splits)

lemma lawful_capability_set [lawful_intros]: "lawful (check_capability_set name)"
  by (auto simp: lawful_def capability_set_Inr_iff canonical_ofD(2))

text \<open>The texts of a list that has been checked.\<close>

definition texts_of :: "string \<Rightarrow> members \<Rightarrow> string list" where
  "texts_of name row =
     (case get_member row name of
        JArr vs \<Rightarrow> (case all_texts vs of Some ss \<Rightarrow> ss | None \<Rightarrow> [])
      | _ \<Rightarrow> [])"

definition subset_texts :: "string \<Rightarrow> string \<Rightarrow> members \<Rightarrow> bool" where
  "subset_texts a b row \<longleftrightarrow> set (texts_of a row) \<subseteq> set (texts_of b row)"

lemma texts_of_canonical: "canonical_of row row' \<Longrightarrow> texts_of name row' = texts_of name row"
proof -
  have "all_texts (map canon vs) = all_texts vs" for vs
  proof (induction vs)
    case (Cons v vs)
    then show ?case by (cases v) auto
  qed simp
  then have "(case canon v of JArr vs \<Rightarrow> (case all_texts vs of Some ss \<Rightarrow> ss | None \<Rightarrow> []) | _ \<Rightarrow> []) =
      (case v of JArr vs \<Rightarrow> (case all_texts vs of Some ss \<Rightarrow> ss | None \<Rightarrow> []) | _ \<Rightarrow> [])" for v
    by (cases v) auto
  then show "canonical_of row row' \<Longrightarrow> ?thesis"
    by (simp add: texts_of_def canonical_ofD(2))
qed

lemmas run_stable_simps = stable_simps texts_of_canonical subset_texts_def

section \<open>Kinds\<close>

definition sequencer_epoch_body :: check where
  "sequencer_epoch_body = checks
    [check_integer ''epoch'' 1 (2 ^ 63 - 1), check_ident ''sequencer_id'',
     check_enum [''entered'', ''released'', ''takeover''] ''operation'' ''operation'',
     check_enum [''initial'', ''graceful_release'', ''host_local_owner_absent'']
       ''absence_reason'' ''absence_reason'',
     check_nullable (check_record_ref ''sequencer-epoch-'') ''previous_epoch_record_id'']"

definition sequencer_epoch_spec :: kind_spec where
  "sequencer_epoch_spec = \<lparr>
     ks_prefix = ''sequencer-epoch-'',
     ks_fields = COMMON @
       [''epoch'', ''operation'', ''sequencer_id'', ''previous_epoch_record_id'',
        ''absence_reason''],
     ks_extras = (\<lambda>_. [[]]),
     ks_versions = [1],
     ks_body = sequencer_epoch_body\<rparr>"

lemma lawful_sequencer_epoch [lawful_kinds]: "lawful sequencer_epoch_body"
  unfolding sequencer_epoch_body_def
  by (rule lawful_checks) (simp add: lawful_checks_defs lawful_intros run_stable_simps)

definition credential_lease_granted_body :: check where
  "credential_lease_granted_body = checks
    [check_attempt_id ''attempt_id'', check_ident ''principal'', check_capability ''capability'',
     check_ident ''secret_alias'', check_integer ''ttl_seconds'' 1 (2 ^ 31 - 1),
     check_timestamp ''expires_at'', check_timestamp ''timestamp'',
     require ''credential_lease_time_invalid''
       (\<lambda>row. later ''expires_at'' ''timestamp'' row),
     check_integer ''authority_epoch'' 1 (2 ^ 63 - 1),
     check_record_ref ''authority-'' ''authority_record_id'',
     check_record_ref ''capability-set-bound-'' ''capability_set_bound_id'']"

definition credential_lease_granted_spec :: kind_spec where
  "credential_lease_granted_spec = \<lparr>
     ks_prefix = ''credential-lease-'',
     ks_fields = COMMON @
       [''attempt_id'', ''principal'', ''capability'', ''secret_alias'', ''ttl_seconds'',
        ''expires_at'', ''authority_epoch'', ''authority_record_id'', ''capability_set_bound_id''],
     ks_extras = (\<lambda>_. [[]]),
     ks_versions = [1],
     ks_body = credential_lease_granted_body\<rparr>"

lemma lawful_credential_lease_granted [lawful_kinds]: "lawful credential_lease_granted_body"
  unfolding credential_lease_granted_body_def
  by (rule lawful_checks) (simp add: lawful_checks_defs lawful_intros run_stable_simps)

definition credential_lease_consumed_body :: check where
  "credential_lease_consumed_body = checks
    [check_record_ref ''credential-lease-'' ''lease_id'',
     check_enum [''inherited_fd'', ''helper_response''] ''delivery_mode'' ''delivery_mode'',
     check_timestamp ''consumed_at_testimony'']"

definition credential_lease_consumed_spec :: kind_spec where
  "credential_lease_consumed_spec = \<lparr>
     ks_prefix = ''credential-lease-consumed-'',
     ks_fields = COMMON @
       [''lease_id'', ''delivery_mode'', ''consumed_at_testimony''],
     ks_extras = (\<lambda>_. [[]]),
     ks_versions = [1],
     ks_body = credential_lease_consumed_body\<rparr>"

lemma lawful_credential_lease_consumed [lawful_kinds]: "lawful credential_lease_consumed_body"
  unfolding credential_lease_consumed_body_def
  by (rule lawful_checks) (simp add: lawful_checks_defs lawful_intros run_stable_simps)

definition credential_lease_revoked_body :: check where
  "credential_lease_revoked_body = checks
    [check_record_ref ''credential-lease-'' ''lease_id'',
     check_integer ''authority_epoch'' 1 (2 ^ 63 - 1), check_timestamp ''revoked_at_testimony'']"

definition credential_lease_revoked_spec :: kind_spec where
  "credential_lease_revoked_spec = \<lparr>
     ks_prefix = ''credential-lease-revoked-'',
     ks_fields = COMMON @
       [''lease_id'', ''authority_epoch'', ''revoked_at_testimony''],
     ks_extras = (\<lambda>_. [[]]),
     ks_versions = [1],
     ks_body = credential_lease_revoked_body\<rparr>"

lemma lawful_credential_lease_revoked [lawful_kinds]: "lawful credential_lease_revoked_body"
  unfolding credential_lease_revoked_body_def
  by (rule lawful_checks) (simp add: lawful_checks_defs lawful_intros run_stable_simps)

definition segment_opened_body :: check where
  "segment_opened_body = checks
    [check_integer ''segment_number'' 0 (2 ^ 63 - 1),
     check_integer ''first_global_ordinal'' 1 (2 ^ 63 - 1),
     check_integer ''max_records'' 1 100000, check_integer ''max_bytes'' 65536 67108864,
     only_if (\<lambda>row. get_member row ''segment_number'' = JInt 0)
       (require ''previous_seal_digest_invalid''
          (\<lambda>row. absent_value ''previous_seal_digest'' row)),
     only_if (\<lambda>row. \<not> get_member row ''segment_number'' = JInt 0)
       (checks
         [require ''previous_seal_digest_invalid''
            (\<lambda>row. \<not> absent_value ''previous_seal_digest'' row),
          check_sha256 ''previous_seal_digest''])]"

definition segment_opened_spec :: kind_spec where
  "segment_opened_spec = \<lparr>
     ks_prefix = ''run-segment-opened-'',
     ks_fields = COMMON @
       [''segment_number'', ''first_global_ordinal'', ''previous_seal_digest'', ''max_records'',
        ''max_bytes''],
     ks_extras = (\<lambda>_. [[]]),
     ks_versions = [1],
     ks_body = segment_opened_body\<rparr>"

lemma lawful_segment_opened [lawful_kinds]: "lawful segment_opened_body"
  unfolding segment_opened_body_def
  by (rule lawful_checks) (simp add: lawful_checks_defs lawful_intros run_stable_simps)

definition attempt_spawn_policy_bound_body :: check where
  "attempt_spawn_policy_bound_body = checks
    [check_run_id ''run_id'', check_run_item_id ''parent_item_id'',
     check_attempt_id ''parent_attempt_id'', check_sha256 ''parent_fence_token'',
     check_record_ref ''capability-set-bound-'' ''parent_capability_set_bound_id'',
     check_capability ''adapter'',
     check_enum [''disabled'', ''observed_only'', ''managed''] ''subagents_mode''
       ''subagents_mode'',
     check_integer ''max_children'' 0 8, check_integer ''max_depth'' 0 16,
     check_capability_set ''child_capability_ceiling'',
     check_budget_rows ''spawn_budget_ceiling'' 1,
     check_texts ''workspace_policies'' 0 2 (\<lambda>s. s \<in> {''patch_only'',
       ''isolated_worktree''}) True,
     require ''spawn_policy_limits_invalid''
       (\<lambda>row. member_is ''subagents_mode'' ''managed'' row \<or> integer_of row ''max_children'' = 0
           \<and> integer_of row ''max_depth'' = 0
           \<and> get_member row ''child_capability_ceiling'' = JArr []
           \<and> get_member row ''spawn_budget_ceiling'' = JArr []
           \<and> get_member row ''workspace_policies'' = JArr []),
     check_timestamp ''bound_at_testimony'']"

definition attempt_spawn_policy_bound_spec :: kind_spec where
  "attempt_spawn_policy_bound_spec = \<lparr>
     ks_prefix = ''attempt-spawn-policy-bound-'',
     ks_fields = COMMON @
       [''run_id'', ''parent_item_id'', ''parent_attempt_id'', ''parent_fence_token'',
        ''parent_capability_set_bound_id'', ''adapter'', ''subagents_mode'', ''max_children'',
        ''max_depth'', ''child_capability_ceiling'', ''spawn_budget_ceiling'',
        ''workspace_policies'', ''bound_at_testimony''],
     ks_extras = (\<lambda>_. [[]]),
     ks_versions = [1],
     ks_body = attempt_spawn_policy_bound_body\<rparr>"

lemma lawful_attempt_spawn_policy_bound [lawful_kinds]: "lawful attempt_spawn_policy_bound_body"
  unfolding attempt_spawn_policy_bound_body_def
  by (rule lawful_checks) (simp add: lawful_checks_defs lawful_intros run_stable_simps)

definition spawn_group_created_body :: check where
  "spawn_group_created_body = checks
    [check_run_id ''run_id'', check_run_item_id ''parent_item_id'',
     check_attempt_id ''parent_attempt_id'', check_sha256 ''parent_fence_token'',
     check_record_ref ''attempt-spawn-policy-bound-'' ''parent_spawn_policy_id'',
     check_ident ''group_key'', check_integer ''max_children'' 1 8,
     check_integer ''max_depth'' 1 16, check_capability_set ''child_capability_ceiling'',
     check_budget_rows ''aggregate_budget'' 1,
     check_enum [''patch_only'', ''isolated_worktree''] ''workspace_policy'' ''workspace_policy'',
     check_timestamp ''deadline'',
     check_enum [''all_accepted'', ''all_terminal'', ''quorum'', ''first_accepted''] ''join_mode''
       ''join_mode'',
     only_if (\<lambda>row. (member_is ''join_mode'' ''all_accepted'' row
                 \<or> member_is ''join_mode'' ''all_terminal'' row))
       (require ''required_count_invalid'' (\<lambda>row. absent_value ''required_count'' row)),
     only_if (\<lambda>row. \<not> (member_is ''join_mode'' ''all_accepted'' row
                 \<or> member_is ''join_mode'' ''all_terminal'' row))
       (checks
         [require ''required_count_invalid''
            (\<lambda>row. integer_in ''required_count'' 1 (integer_of row ''max_children'') row),
          require ''required_count_invalid''
            (\<lambda>row. \<not> (member_is ''join_mode'' ''first_accepted'' row
                \<and> get_member row ''required_count'' \<noteq> JInt 1))]),
     check_enum [''quarantine'', ''operator_decision''] ''on_late_result'' ''on_late_result'',
     check_enum [''fail_group'', ''continue_until_join_impossible''] ''on_child_failure''
       ''on_child_failure'',
     check_bool ''cancel_remaining_after_success'']"

definition spawn_group_created_spec :: kind_spec where
  "spawn_group_created_spec = \<lparr>
     ks_prefix = ''spawn-group-created-'',
     ks_fields = COMMON @
       [''run_id'', ''parent_item_id'', ''parent_attempt_id'', ''parent_fence_token'',
        ''parent_spawn_policy_id'', ''group_key'', ''max_children'', ''max_depth'',
        ''child_capability_ceiling'', ''aggregate_budget'', ''workspace_policy'', ''deadline'',
        ''join_mode'', ''required_count'', ''on_late_result'', ''on_child_failure'',
        ''cancel_remaining_after_success''],
     ks_extras = (\<lambda>_. [[]]),
     ks_versions = [1],
     ks_body = spawn_group_created_body\<rparr>"

lemma lawful_spawn_group_created [lawful_kinds]: "lawful spawn_group_created_body"
  unfolding spawn_group_created_body_def
  by (rule lawful_checks) (simp add: lawful_checks_defs lawful_intros run_stable_simps)

definition spawn_group_aborted_body :: check where
  "spawn_group_aborted_body = checks
    [check_run_id ''run_id'', check_record_ref ''spawn-group-created-'' ''spawn_group_id'',
     check_attempt_id ''parent_attempt_id'', check_sha256 ''parent_fence_token'',
     check_enum [''cancellation'', ''operator_abandonment''] ''reason_code'' ''reason_code'',
     only_if (\<lambda>row. member_is ''reason_code'' ''cancellation'' row)
       (checks
         [check_record_ref ''cancel-scope-resolved-'' ''cancel_scope_resolved_id'',
          require ''spawn_abort_authority_invalid''
            (\<lambda>row. absent_value ''operator_id'' row \<and> absent_value ''authority_subject'' row
                \<and> absent_value ''authority_epoch'' row
                \<and> absent_value ''capability_record_id'' row)]),
     only_if (\<lambda>row. \<not> member_is ''reason_code'' ''cancellation'' row)
       (checks
         [require ''spawn_abort_authority_invalid''
            (\<lambda>row. absent_value ''cancel_scope_resolved_id'' row),
          check_ident ''operator_id'', check_ident ''authority_subject'',
          check_integer ''authority_epoch'' 1 (2 ^ 63 - 1),
          check_record_ref ''capability-'' ''capability_record_id'']),
     check_timestamp ''aborted_at_testimony'']"

definition spawn_group_aborted_spec :: kind_spec where
  "spawn_group_aborted_spec = \<lparr>
     ks_prefix = ''spawn-group-aborted-'',
     ks_fields = COMMON @
       [''run_id'', ''spawn_group_id'', ''parent_attempt_id'', ''parent_fence_token'',
        ''reason_code'', ''cancel_scope_resolved_id'', ''operator_id'', ''authority_subject'',
        ''authority_epoch'', ''capability_record_id'', ''aborted_at_testimony''],
     ks_extras = (\<lambda>_. [[]]),
     ks_versions = [1],
     ks_body = spawn_group_aborted_body\<rparr>"

lemma lawful_spawn_group_aborted [lawful_kinds]: "lawful spawn_group_aborted_body"
  unfolding spawn_group_aborted_body_def
  by (rule lawful_checks) (simp add: lawful_checks_defs lawful_intros run_stable_simps)

definition child_admitted_body :: check where
  "child_admitted_body = checks
    [check_run_id ''run_id'', check_record_ref ''spawn-group-created-'' ''spawn_group_id'',
     check_record_ref ''plan-amendment-'' ''plan_amendment_id'',
     check_attempt_id ''parent_attempt_id'', check_run_item_id ''child_item_id'',
     check_integer ''child_depth'' 1 16, check_record_ref ''task-contract-'' ''task_contract_id'',
     check_sha256 ''task_contract_digest'', check_sha256 ''admission_digest'',
     check_capability_set ''capability_ceiling'', check_budget_rows ''budget_allocation'' 1,
     check_enum [''patch_only'', ''isolated_worktree''] ''workspace_policy'' ''workspace_policy'',
     text_field ''workspace'' workspace_shape ''workspace'',
     check_timestamp ''admitted_at_testimony'']"

definition child_admitted_spec :: kind_spec where
  "child_admitted_spec = \<lparr>
     ks_prefix = ''child-admitted-'',
     ks_fields = COMMON @
       [''run_id'', ''spawn_group_id'', ''plan_amendment_id'', ''parent_attempt_id'',
        ''child_item_id'', ''child_depth'', ''task_contract_id'', ''task_contract_digest'',
        ''admission_digest'', ''capability_ceiling'', ''budget_allocation'', ''workspace_policy'',
        ''workspace'', ''admitted_at_testimony''],
     ks_extras = (\<lambda>_. [[]]),
     ks_versions = [1],
     ks_body = child_admitted_body\<rparr>"

lemma lawful_child_admitted [lawful_kinds]: "lawful child_admitted_body"
  unfolding child_admitted_body_def
  by (rule lawful_checks) (simp add: lawful_checks_defs lawful_intros run_stable_simps)

definition child_rejected_body :: check where
  "child_rejected_body = checks
    [check_run_id ''run_id'', check_record_ref ''spawn-group-created-'' ''spawn_group_id'',
     check_record_ref ''plan-amendment-'' ''plan_amendment_id'',
     check_attempt_id ''parent_attempt_id'', check_run_item_id ''child_item_id'',
     check_enum [''item_limit'', ''fanout_limit'', ''depth_limit'', ''budget_refusal'',
       ''capability_refusal'', ''workspace_refusal'', ''deadline_expired'', ''policy_refusal'',
       ''admission_binding_refusal''] ''reason_code'' ''reason_code'',
     check_timestamp ''evaluated_at_testimony'']"

definition child_rejected_spec :: kind_spec where
  "child_rejected_spec = \<lparr>
     ks_prefix = ''child-rejected-'',
     ks_fields = COMMON @
       [''run_id'', ''spawn_group_id'', ''plan_amendment_id'', ''parent_attempt_id'',
        ''child_item_id'', ''reason_code'', ''evaluated_at_testimony''],
     ks_extras = (\<lambda>_. [[]]),
     ks_versions = [1],
     ks_body = child_rejected_body\<rparr>"

lemma lawful_child_rejected [lawful_kinds]: "lawful child_rejected_body"
  unfolding child_rejected_body_def
  by (rule lawful_checks) (simp add: lawful_checks_defs lawful_intros run_stable_simps)

definition spawn_group_closed_body :: check where
  "spawn_group_closed_body = checks
    [check_run_id ''run_id'', check_record_ref ''spawn-group-created-'' ''spawn_group_id'',
     check_record_ref ''plan-amendment-'' ''plan_amendment_id'',
     check_attempt_id ''parent_attempt_id'', check_run_item_ids ''member_item_ids'' 0 8,
     check_run_item_ids ''accepted_item_ids'' 0 8, check_run_item_ids ''terminal_item_ids'' 0 8,
     check_run_item_ids ''rejected_item_ids'' 0 8,
     require ''spawn_group_close_sets_invalid''
       (\<lambda>row. subset_texts ''accepted_item_ids'' ''member_item_ids'' row
           \<and> subset_texts ''terminal_item_ids'' ''member_item_ids'' row
           \<and> subset_texts ''rejected_item_ids'' ''member_item_ids'' row),
     check_enum [''all_accepted'', ''all_terminal'', ''quorum'', ''first_accepted''] ''join_mode''
       ''join_mode'',
     only_if (\<lambda>row. \<not> absent_value ''required_count'' row)
       (require ''required_count_invalid'' (\<lambda>row. integer_in ''required_count'' 1 8 row)),
     check_enum [''satisfied'', ''failed'', ''cancelled'', ''deadline'', ''needs_operator'']
       ''outcome'' ''outcome'',
     check_enum [''all_members_accepted'', ''all_members_terminal'', ''quorum_reached'',
       ''first_accepted'', ''join_impossible'', ''deadline_expired'',
       ''untracked_descendant_unknown'', ''member_needs_operator'', ''child_failure'',
       ''parent_cancelled''] ''close_reason'' ''close_reason'',
     require ''spawn_group_close_invalid''
       (\<lambda>row. (member_is ''outcome'' ''satisfied'' row
           \<and> (member_is ''close_reason'' ''all_members_accepted'' row
           \<or> member_is ''close_reason'' ''all_members_terminal'' row
           \<or> member_is ''close_reason'' ''quorum_reached'' row
           \<or> member_is ''close_reason'' ''first_accepted'' row))
           \<or> (member_is ''outcome'' ''failed'' row
           \<and> (member_is ''close_reason'' ''child_failure'' row
           \<or> member_is ''close_reason'' ''join_impossible'' row))
           \<or> (member_is ''outcome'' ''cancelled'' row
           \<and> (member_is ''close_reason'' ''parent_cancelled'' row))
           \<or> (member_is ''outcome'' ''deadline'' row
           \<and> (member_is ''close_reason'' ''deadline_expired'' row))
           \<or> (member_is ''outcome'' ''needs_operator'' row
           \<and> (member_is ''close_reason'' ''untracked_descendant_unknown'' row
           \<or> member_is ''close_reason'' ''member_needs_operator'' row))),
     check_nullable (check_record_ref ''cancel-scope-resolved-'') ''cancel_scope_resolved_id'',
     require ''spawn_group_close_invalid''
       (\<lambda>row. \<not> (member_is ''outcome'' ''cancelled'' row
           \<and> absent_value ''cancel_scope_resolved_id'' row)),
     require ''spawn_group_close_invalid''
       (\<lambda>row. (member_is ''outcome'' ''cancelled'' row \<or> member_is ''outcome'' ''satisfied'' row)
           \<or> absent_value ''cancel_scope_resolved_id'' row),
     check_timestamp ''closed_at_testimony'']"

definition spawn_group_closed_spec :: kind_spec where
  "spawn_group_closed_spec = \<lparr>
     ks_prefix = ''spawn-group-closed-'',
     ks_fields = COMMON @
       [''run_id'', ''spawn_group_id'', ''plan_amendment_id'', ''parent_attempt_id'',
        ''member_item_ids'', ''accepted_item_ids'', ''terminal_item_ids'', ''rejected_item_ids'',
        ''join_mode'', ''required_count'', ''outcome'', ''close_reason'',
        ''cancel_scope_resolved_id'', ''closed_at_testimony''],
     ks_extras = (\<lambda>_. [[]]),
     ks_versions = [1],
     ks_body = spawn_group_closed_body\<rparr>"

lemma lawful_spawn_group_closed [lawful_kinds]: "lawful spawn_group_closed_body"
  unfolding spawn_group_closed_body_def
  by (rule lawful_checks) (simp add: lawful_checks_defs lawful_intros run_stable_simps)

definition untracked_descendant_body :: check where
  "untracked_descendant_body = checks
    [check_run_id ''run_id'', check_run_item_id ''parent_item_id'',
     check_attempt_id ''parent_attempt_id'', check_capability ''adapter'',
     check_bounded ''provider_descendant_id'' 1 512,
     check_enum [''observed'', ''terminated'', ''adopted'', ''unknown''] ''descendant_state''
       ''state'',
     check_nullable check_run_item_id ''adopted_item_id'',
     require ''adopted_item_id_invalid''
       (\<lambda>row. member_is ''state'' ''adopted'' row \<longleftrightarrow> \<not> absent_value ''adopted_item_id'' row),
     check_enum [''native_descendant_observed'', ''adapter_terminated'', ''adopted_managed'',
       ''observation_uncertain''] ''reason_code'' ''reason_code'',
     check_timestamp ''observed_at_testimony'']"

definition untracked_descendant_spec :: kind_spec where
  "untracked_descendant_spec = \<lparr>
     ks_prefix = ''untracked-descendant-'',
     ks_fields = COMMON @
       [''run_id'', ''parent_item_id'', ''parent_attempt_id'', ''adapter'',
        ''provider_descendant_id'', ''state'', ''adopted_item_id'', ''reason_code'',
        ''observed_at_testimony''],
     ks_extras = (\<lambda>_. [[]]),
     ks_versions = [1],
     ks_body = untracked_descendant_body\<rparr>"

lemma lawful_untracked_descendant [lawful_kinds]: "lawful untracked_descendant_body"
  unfolding untracked_descendant_body_def
  by (rule lawful_checks) (simp add: lawful_checks_defs lawful_intros run_stable_simps)

text \<open>Each id is checked under a code of its own before the order of the list.\<close>

definition coded_texts :: "string \<Rightarrow> string \<Rightarrow> nat \<Rightarrow> (string \<Rightarrow> bool) \<Rightarrow> check" where
  "coded_texts item_code name hi P integrity row =
     (case get_member row name of
        JArr vs \<Rightarrow>
          if length vs > hi then Inl (field_invalid integrity name)
          else (case all_texts vs of
                  Some ss \<Rightarrow>
                    if \<not> list_all P ss then Inl (field_invalid integrity item_code)
                    else if \<not> (sorted ss \<and> distinct ss) then Inl (field_invalid integrity name)
                    else Inr ()
                | None \<Rightarrow> Inl (field_invalid integrity item_code))
      | _ \<Rightarrow> Inl (field_invalid integrity name))"

lemma coded_texts_Inr_iff:
  "coded_texts item_code name hi P b row = Inr () \<longleftrightarrow>
     (\<exists>ss. get_member row name = JArr (map JStr ss) \<and> length ss \<le> hi \<and> list_all P ss \<and>
        sorted ss \<and> distinct ss)"
  by (auto simp: coded_texts_def all_texts_Some_iff split: json.splits option.splits)

lemma lawful_coded_texts [lawful_intros]: "lawful (coded_texts item_code name hi P)"
  by (auto simp: lawful_def coded_texts_Inr_iff canonical_ofD(2))

definition check_observed_descendants :: check where
  "check_observed_descendants =
     coded_texts ''provider_descendant_id'' ''observed_descendant_ids'' 64 (bounded_ok 1 512)"

lemma lawful_observed_descendants [lawful_intros]: "lawful check_observed_descendants"
  by (simp add: check_observed_descendants_def lawful_coded_texts)

definition descendant_observation_closed_body :: check where
  "descendant_observation_closed_body = checks
    [check_run_id ''run_id'', check_run_item_id ''parent_item_id'',
     check_attempt_id ''parent_attempt_id'', check_sha256 ''parent_fence_token'',
     check_record_ref ''attempt-spawn-policy-bound-'' ''attempt_spawn_policy_id'',
     check_capability ''adapter'', check_observed_descendants,
     check_timestamp ''closed_at_testimony'']"

definition descendant_observation_closed_spec :: kind_spec where
  "descendant_observation_closed_spec = \<lparr>
     ks_prefix = ''descendant-observation-closed-'',
     ks_fields = COMMON @
       [''run_id'', ''parent_item_id'', ''parent_attempt_id'', ''parent_fence_token'',
        ''attempt_spawn_policy_id'', ''adapter'', ''observed_descendant_ids'',
        ''closed_at_testimony''],
     ks_extras = (\<lambda>_. [[]]),
     ks_versions = [1],
     ks_body = descendant_observation_closed_body\<rparr>"

lemma lawful_descendant_observation_closed [lawful_kinds]: "lawful descendant_observation_closed_body"
  unfolding descendant_observation_closed_body_def
  by (rule lawful_checks) (simp add: lawful_checks_defs lawful_intros run_stable_simps)

definition spawn_late_result_disposition_body :: check where
  "spawn_late_result_disposition_body = checks
    [check_run_id ''run_id'', check_record_ref ''spawn-group-created-'' ''spawn_group_id'',
     check_run_item_id ''child_item_id'',
     text_field ''result_record_id'' (\<lambda>s. is_record_id ''run-result-produced-'' s \<or>
       is_record_id ''run-result-verified-'' s \<or> is_record_id ''run-result-accepted-'' s)
       ''result_record_id'',
     check_enum [''quarantine'', ''retain_as_non_join_evidence''] ''disposition'' ''disposition'',
     check_ident ''operator_id'', check_ident ''authority_subject'',
     check_integer ''authority_epoch'' 1 (2 ^ 63 - 1),
     check_record_ref ''capability-'' ''capability_record_id'',
     check_timestamp ''decided_at_testimony'']"

definition spawn_late_result_disposition_spec :: kind_spec where
  "spawn_late_result_disposition_spec = \<lparr>
     ks_prefix = ''spawn-late-result-disposition-'',
     ks_fields = COMMON @
       [''run_id'', ''spawn_group_id'', ''child_item_id'', ''result_record_id'', ''disposition'',
        ''operator_id'', ''authority_subject'', ''authority_epoch'', ''capability_record_id'',
        ''decided_at_testimony''],
     ks_extras = (\<lambda>_. [[]]),
     ks_versions = [1],
     ks_body = spawn_late_result_disposition_body\<rparr>"

lemma lawful_spawn_late_result_disposition [lawful_kinds]: "lawful spawn_late_result_disposition_body"
  unfolding spawn_late_result_disposition_body_def
  by (rule lawful_checks) (simp add: lawful_checks_defs lawful_intros run_stable_simps)

text \<open>\<open>_artifact_bindings\<close> of the singleton list with a member.\<close>

definition check_checkpoint :: "string \<Rightarrow> check" where
  "check_checkpoint name integrity row = bindings_ok integrity [] [get_member row name]"

lemma lawful_checkpoint [lawful_intros]: "lawful (check_checkpoint name)"
  unfolding lawful_def
proof (intro allI impI)
  fix b b' row row'
  assume c: "canonical_of row row'" and ok: "check_checkpoint name b row = Inr ()"
  have "bindings_ok b [] [get_member row name] = Inr ()" using ok by (simp only: check_checkpoint_def)
  then have "bindings_ok b' [] (map canon [get_member row name]) = Inr ()" by (rule bindings_ok_canon)
  then show "check_checkpoint name b' row' = Inr ()"
    by (simp add: check_checkpoint_def canonical_ofD(2) [OF c] del: bindings_ok.simps)
qed

definition attempt_suspended_for_approval_body :: check where
  "attempt_suspended_for_approval_body = checks
    [check_run_id ''run_id'', check_run_item_id ''item_id'', check_attempt_id ''attempt_id'',
     check_record_ref ''attempt-started-'' ''attempt_started_id'', check_sha256 ''fence_token'',
     check_capability ''adapter'', check_record_ref ''approval-request-'' ''approval_request_id'',
     check_sha256 ''exact_action_digest'', check_scope ''requested_scope'',
     check_enum [''native'', ''checkpoint_restart'', ''unsupported''] ''resume_mode''
       ''resume_mode'',
     require ''provider_session_or_thread_id_invalid''
       (\<lambda>row. absent_value ''provider_session_or_thread_id'' row),
     require ''resume_mode_invalid''
       (\<lambda>row. if member_is ''adapter'' ''codex'' row then member_is ''resume_mode'' ''checkpoint_restart'' row else member_is ''resume_mode'' ''unsupported'' row),
     text_field ''workspace'' workspace_shape ''workspace'',
     check_checkpoint ''workspace_checkpoint'', check_ident ''execution_authority_subject'',
     check_ident ''execution_authority_holder'',
     check_integer ''authority_epoch_at_request'' 1 (2 ^ 63 - 1),
     check_timestamp ''approval_expiry'']"

definition attempt_suspended_for_approval_spec :: kind_spec where
  "attempt_suspended_for_approval_spec = \<lparr>
     ks_prefix = ''attempt-suspended-approval-'',
     ks_fields = COMMON @
       [''run_id'', ''item_id'', ''attempt_id'', ''attempt_started_id'', ''fence_token'',
        ''adapter'', ''approval_request_id'', ''exact_action_digest'', ''requested_scope'',
        ''resume_mode'', ''provider_session_or_thread_id'', ''workspace'',
        ''workspace_checkpoint'', ''execution_authority_subject'', ''execution_authority_holder'',
        ''authority_epoch_at_request'', ''approval_expiry''],
     ks_extras = (\<lambda>_. [[]]),
     ks_versions = [1],
     ks_body = attempt_suspended_for_approval_body\<rparr>"

lemma lawful_attempt_suspended_for_approval [lawful_kinds]: "lawful attempt_suspended_for_approval_body"
  unfolding attempt_suspended_for_approval_body_def
  by (rule lawful_checks) (simp add: lawful_checks_defs lawful_intros run_stable_simps)

definition approval_consumed_for_resume_body :: check where
  "approval_consumed_for_resume_body = checks
    [check_run_id ''run_id'', check_run_item_id ''item_id'', check_attempt_id ''attempt_id'',
     check_sha256 ''fence_token'',
     check_record_ref ''attempt-suspended-approval-'' ''attempt_suspended_id'',
     check_record_ref ''approval-request-'' ''approval_request_id'',
     check_record_ref ''approval-decision-'' ''approval_decision_id'',
     check_sha256 ''exact_action_digest'', check_scope ''requested_scope'',
     check_enum [''native'', ''checkpoint_restart'', ''unsupported''] ''resume_mode''
       ''resume_mode'',
     require ''provider_session_or_thread_id_invalid''
       (\<lambda>row. absent_value ''provider_session_or_thread_id'' row),
     require ''resume_mode_invalid''
       (\<lambda>row. \<not> member_is ''resume_mode'' ''native'' row),
     text_field ''workspace'' workspace_shape ''workspace'',
     check_checkpoint ''workspace_checkpoint'', check_ident ''resume_authority_subject'',
     check_ident ''resume_authority_holder'',
     check_integer ''resume_authority_epoch'' 1 (2 ^ 63 - 1),
     check_timestamp ''consumed_at_testimony'']"

definition approval_consumed_for_resume_spec :: kind_spec where
  "approval_consumed_for_resume_spec = \<lparr>
     ks_prefix = ''approval-consumed-resume-'',
     ks_fields = COMMON @
       [''run_id'', ''item_id'', ''attempt_id'', ''fence_token'', ''attempt_suspended_id'',
        ''approval_request_id'', ''approval_decision_id'', ''exact_action_digest'',
        ''requested_scope'', ''resume_mode'', ''provider_session_or_thread_id'', ''workspace'',
        ''workspace_checkpoint'', ''resume_authority_subject'', ''resume_authority_holder'',
        ''resume_authority_epoch'', ''consumed_at_testimony''],
     ks_extras = (\<lambda>_. [[]]),
     ks_versions = [1],
     ks_body = approval_consumed_for_resume_body\<rparr>"

lemma lawful_approval_consumed_for_resume [lawful_kinds]: "lawful approval_consumed_for_resume_body"
  unfolding approval_consumed_for_resume_body_def
  by (rule lawful_checks) (simp add: lawful_checks_defs lawful_intros run_stable_simps)

definition acceptance_receipt_body :: check where
  "acceptance_receipt_body = checks
    [check_run_id ''run_id'', check_run_item_id ''item_id'', check_attempt_id ''attempt_id'',
     check_sha256 ''contract_digest'', check_string_list ''check_ids'' 1 64,
     check_ident ''reviewer'', check_ref_set ''worker-receipt-'' ''evidence_bindings'' 1 32,
     check_string_list ''deviations'' 0 64,
     check_enum [''accepted'', ''rejected''] ''receipt_result'' ''result'']"

definition acceptance_receipt_spec :: kind_spec where
  "acceptance_receipt_spec = \<lparr>
     ks_prefix = ''acceptance-receipt-'',
     ks_fields = COMMON @
       [''run_id'', ''item_id'', ''attempt_id'', ''contract_digest'', ''check_ids'', ''reviewer'',
        ''evidence_bindings'', ''deviations'', ''result''],
     ks_extras = (\<lambda>_. [[]]),
     ks_versions = [0],
     ks_body = acceptance_receipt_body\<rparr>"

lemma lawful_acceptance_receipt [lawful_kinds]: "lawful acceptance_receipt_body"
  unfolding acceptance_receipt_body_def
  by (rule lawful_checks) (simp add: lawful_checks_defs lawful_intros run_stable_simps)

text \<open>\<open>_dependency_edges\<close>: the endpoints name earlier and later run items, and the edges
  are sorted without repetition.\<close>

definition position :: "string list \<Rightarrow> string \<Rightarrow> nat option" where
  "position items s =
     (let n = length (takeWhile (\<lambda>x. x \<noteq> s) items) in if n < length items then Some n else None)"

definition defaulted :: "members \<Rightarrow> string \<Rightarrow> string \<Rightarrow> json" where
  "defaulted edge name v = (if name \<in> member_names edge then get_member edge name else JStr v)"

definition check_defaulted :: "string \<Rightarrow> string \<Rightarrow> string list \<Rightarrow> check" where
  "check_defaulted name v values integrity edge =
     (case defaulted edge name v of
        JStr s \<Rightarrow> if s \<in> set values then Inr () else Inl (field_invalid integrity name)
      | _ \<Rightarrow> Inl (field_invalid integrity name))"

definition edge_checks :: check where
  "edge_checks = checks
     [text_field ''dependency_source'' (is_record_id ''work-'') ''source'',
      text_field ''dependency_target'' (is_record_id ''work-'') ''target'',
      check_defaulted ''requires'' ''accepted'' [''produced'', ''verified'', ''accepted''],
      check_defaulted ''failure_policy'' ''fail_run'' [''fail_run'', ''skip_dependent'', ''continue'']]"

definition default_text :: "members \<Rightarrow> string \<Rightarrow> string \<Rightarrow> string" where
  "default_text edge name v = (case defaulted edge name v of JStr s \<Rightarrow> s | _ \<Rightarrow> [])"

definition edge_key :: "members \<Rightarrow> string list" where
  "edge_key edge =
     [text_of edge ''source'', text_of edge ''target'',
      default_text edge ''requires'' ''accepted'', default_text edge ''failure_policy'' ''fail_run'']"

definition edge_ordered :: "string list \<Rightarrow> string list \<Rightarrow> bool" where
  "edge_ordered items key \<longleftrightarrow>
     (case (position items (key ! 0), position items (key ! 1)) of
        (Some i, Some j) \<Rightarrow> i < j
      | _ \<Rightarrow> False)"

fun edge_keys :: "bool \<Rightarrow> string list \<Rightarrow> json list \<Rightarrow> string list list res" where
  "edge_keys integrity items [] = Inr []"
| "edge_keys integrity items (v # vs) =
     (case v of
        JObj edge \<Rightarrow>
          if \<not> (member_names edge \<subseteq> set [''source'', ''target'', ''requires'', ''failure_policy''] \<and>
                 set [''source'', ''target''] \<subseteq> member_names edge)
            then Inl (field_invalid integrity ''dependency_edges'')
          else bindR (edge_checks integrity edge) (\<lambda>_.
            if \<not> edge_ordered items (edge_key edge)
              then Inl (field_invalid integrity ''dependency_edges'')
            else bindR (edge_keys integrity items vs) (\<lambda>keys. Inr (edge_key edge # keys)))
      | _ \<Rightarrow> Inl (field_invalid integrity ''dependency_edges''))"

definition check_dependency_edges :: check where
  "check_dependency_edges integrity row =
     (case get_member row ''dependency_edges'' of
        JArr vs \<Rightarrow>
          if length vs > 8192 then Inl (field_invalid integrity ''dependency_edges'')
          else bindR (edge_keys integrity (texts_of ''item_ids'' row) vs) (\<lambda>keys.
            if sorted keys \<and> distinct keys then Inr ()
            else Inl (field_invalid integrity ''dependency_edges''))
      | _ \<Rightarrow> Inl (field_invalid integrity ''dependency_edges''))"

lemma default_canonical:
  assumes "canonical_of e e'"
  shows "check_defaulted name v values b e = Inr () \<Longrightarrow> check_defaulted name v values b' e' = Inr ()"
    "default_text e' name v = default_text e name v"
proof -
  have d: "defaulted e' name v = canon (defaulted e name v)"
    using canonical_ofD(1,2) [OF assms] by (simp add: defaulted_def)
  show "check_defaulted name v values b e = Inr () \<Longrightarrow> check_defaulted name v values b' e' = Inr ()"
    by (auto simp: check_defaulted_def d split: json.splits if_splits)
  show "default_text e' name v = default_text e name v"
    by (cases "defaulted e name v") (simp_all add: default_text_def d)
qed

lemma lawful_check_defaulted [lawful_intros]: "lawful (check_defaulted name v values)"
  unfolding lawful_def using default_canonical(1) by blast

lemma edge_keys_canon:
  "edge_keys b items vs = Inr keys \<Longrightarrow> edge_keys b' items (map canon vs) = Inr keys"
proof (induction vs arbitrary: keys)
  case (Cons v vs)
  from Cons.prems obtain e ks where e: "v = JObj e"
      "member_names e \<subseteq> set [''source'', ''target'', ''requires'', ''failure_policy'']"
      "set [''source'', ''target''] \<subseteq> member_names e" "edge_checks b e = Inr ()"
      "edge_ordered items (edge_key e)" "edge_keys b items vs = Inr ks" "keys = edge_key e # ks"
    by (cases v) (auto simp: bindR_Inr_iff split: if_splits)
  let ?e = "sort_key fst (map (map_prod id canon) e)"
  note c = canonical_of_object [of e]
  have "lawful edge_checks"
    unfolding edge_checks_def by (rule lawful_checks) (simp add: lawful_intros)
  then have "edge_checks b' ?e = Inr ()" using c e(4) unfolding lawful_def by blast
  moreover have "edge_key ?e = edge_key e"
    by (simp only: edge_key_def text_of_canonical [OF c] default_canonical(2) [OF c])
  moreover have "member_names ?e = member_names e" by (rule canonical_ofD(1) [OF c])
  ultimately show ?case using e Cons.IH [OF e(6)] by simp
qed simp

lemma lawful_dependency_edges [lawful_intros]: "lawful check_dependency_edges"
  unfolding lawful_def
proof (intro allI impI)
  fix b b' row row'
  assume c: "canonical_of row row'" and ok: "check_dependency_edges b row = Inr ()"
  from ok obtain vs keys where vs: "get_member row ''dependency_edges'' = JArr vs" "length vs \<le> 8192"
      "edge_keys b (texts_of ''item_ids'' row) vs = Inr keys" "sorted keys" "distinct keys"
    by (auto simp: check_dependency_edges_def bindR_Inr_iff not_less split: json.splits if_splits)
  then show "check_dependency_edges b' row' = Inr ()"
    using edge_keys_canon [OF vs(3), of b']
    by (simp add: check_dependency_edges_def canonical_ofD(2) [OF c] texts_of_canonical [OF c])
qed

definition run_created_body :: check where
  "run_created_body = checks
    [check_run_id ''run_id'', check_sha256 ''plan_digest'',
     only_if (\<lambda>row. present_field ''policy_digest'' row) (check_sha256 ''policy_digest''),
     check_run_item_ids ''item_ids'' 1 128, check_dependency_edges]"

definition run_created_spec :: kind_spec where
  "run_created_spec = \<lparr>
     ks_prefix = ''run-created-'',
     ks_fields = COMMON @
       [''run_id'', ''plan_digest'', ''item_ids'', ''dependency_edges''],
     ks_extras = (\<lambda>_. [[], [''policy_digest'']]),
     ks_versions = [0],
     ks_body = run_created_body\<rparr>"

lemma lawful_run_created [lawful_kinds]: "lawful run_created_body"
  unfolding run_created_body_def
  by (rule lawful_checks) (simp add: lawful_checks_defs lawful_intros run_stable_simps)

definition run_policy_bound_body :: check where
  "run_policy_bound_body = checks
    [check_run_id ''run_id'', check_sha256 ''policy_digest'']"

definition run_policy_bound_spec :: kind_spec where
  "run_policy_bound_spec = \<lparr>
     ks_prefix = ''run-policy-bound-'',
     ks_fields = COMMON @
       [''run_id'', ''policy_digest''],
     ks_extras = (\<lambda>_. [[]]),
     ks_versions = [0],
     ks_body = run_policy_bound_body\<rparr>"

lemma lawful_run_policy_bound [lawful_kinds]: "lawful run_policy_bound_body"
  unfolding run_policy_bound_body_def
  by (rule lawful_checks) (simp add: lawful_checks_defs lawful_intros run_stable_simps)

definition worker_pool_bound_body :: check where
  "worker_pool_bound_body = checks
    [check_run_id ''run_id'', check_identifier_set ''worker_ids'' 1 16]"

definition worker_pool_bound_spec :: kind_spec where
  "worker_pool_bound_spec = \<lparr>
     ks_prefix = ''run-worker-pool-bound-'',
     ks_fields = COMMON @
       [''run_id'', ''worker_ids''],
     ks_extras = (\<lambda>_. [[]]),
     ks_versions = [0],
     ks_body = worker_pool_bound_body\<rparr>"

lemma lawful_worker_pool_bound [lawful_kinds]: "lawful worker_pool_bound_body"
  unfolding worker_pool_bound_body_def
  by (rule lawful_checks) (simp add: lawful_checks_defs lawful_intros run_stable_simps)

definition dispatch_decision_body :: check where
  "dispatch_decision_body = checks
    [check_run_id ''run_id'', check_run_item_id ''item_id'', check_attempt_id ''attempt_id'',
     check_identifier_set ''eligible_workers'' 1 16, check_ident ''chosen_worker'',
     check_sha256 ''capability_digest'', check_capability ''reason_code'',
     check_sha256 ''policy_digest'', check_integer ''routing_rank'' 0 (2 ^ 31 - 1),
     check_integer ''scheduler_epoch'' 1 (2 ^ 63 - 1),
     only_if (\<lambda>row. version_one row)
       (checks
         [check_record_ref ''capability-set-bound-'' ''capability_set_bound_id'',
          only_if (\<lambda>row. present_field ''adapter'' row)
            (checks
              [check_capability ''adapter'',
               check_record_ref ''attempt-spawn-policy-bound-'' ''attempt_spawn_policy_id''])])]"

definition dispatch_decision_spec :: kind_spec where
  "dispatch_decision_spec = \<lparr>
     ks_prefix = ''run-dispatch-decision-'',
     ks_fields = COMMON @
       [''run_id'', ''item_id'', ''attempt_id'', ''eligible_workers'', ''chosen_worker'',
        ''capability_digest'', ''reason_code'', ''policy_digest'', ''routing_rank'',
        ''scheduler_epoch''],
     ks_extras = (\<lambda>v. if v = JInt 1 \<or> v = JBool True
       then [[''capability_set_bound_id''], [''capability_set_bound_id'', ''adapter'', ''attempt_spawn_policy_id'']]
       else [[]]),
     ks_versions = [0, 1],
     ks_body = dispatch_decision_body\<rparr>"

lemma lawful_dispatch_decision [lawful_kinds]: "lawful dispatch_decision_body"
  unfolding dispatch_decision_body_def
  by (rule lawful_checks) (simp add: lawful_checks_defs lawful_intros run_stable_simps)

text \<open>The reference of a result record to the record it rests on.\<close>

definition check_result_ref :: "string \<Rightarrow> check" where
  "check_result_ref name = text_field name
     (\<lambda>s. is_record_id ''run-dispatch-decision-'' s \<or> is_record_id ''run-result-produced-'' s \<or>
          is_record_id ''run-result-verified-'' s) name"

lemma lawful_result_ref [lawful_intros]: "lawful (check_result_ref name)"
  by (simp add: check_result_ref_def lawful_text_field)

definition result_produced_body :: check where
  "result_produced_body = checks
    [check_run_id ''run_id'', check_run_item_id ''item_id'', check_attempt_id ''attempt_id'',
     check_ref_set ''worker-receipt-'' ''worker_receipt_ids'' 1 32,
     check_result_ref ''dispatch_decision_id'']"

definition result_produced_spec :: kind_spec where
  "result_produced_spec = \<lparr>
     ks_prefix = ''run-result-produced-'',
     ks_fields = COMMON @
       [''run_id'', ''item_id'', ''attempt_id'', ''dispatch_decision_id'', ''worker_receipt_ids''],
     ks_extras = (\<lambda>_. [[]]),
     ks_versions = [0],
     ks_body = result_produced_body\<rparr>"

lemma lawful_result_produced [lawful_kinds]: "lawful result_produced_body"
  unfolding result_produced_body_def
  by (rule lawful_checks) (simp add: lawful_checks_defs lawful_intros run_stable_simps)

definition result_verified_body :: check where
  "result_verified_body = checks
    [check_run_id ''run_id'', check_run_item_id ''item_id'', check_attempt_id ''attempt_id'',
     check_ref_set ''worker-receipt-'' ''worker_receipt_ids'' 1 32,
     check_result_ref ''result_produced_id'']"

definition result_verified_spec :: kind_spec where
  "result_verified_spec = \<lparr>
     ks_prefix = ''run-result-verified-'',
     ks_fields = COMMON @
       [''run_id'', ''item_id'', ''attempt_id'', ''result_produced_id'', ''worker_receipt_ids''],
     ks_extras = (\<lambda>_. [[]]),
     ks_versions = [0],
     ks_body = result_verified_body\<rparr>"

lemma lawful_result_verified [lawful_kinds]: "lawful result_verified_body"
  unfolding result_verified_body_def
  by (rule lawful_checks) (simp add: lawful_checks_defs lawful_intros run_stable_simps)

definition result_accepted_body :: check where
  "result_accepted_body = checks
    [check_run_id ''run_id'', check_run_item_id ''item_id'', check_attempt_id ''attempt_id'',
     check_ref_set ''worker-receipt-'' ''worker_receipt_ids'' 1 32,
     check_result_ref ''predecessor_result_id'',
     check_enum [''verified'', ''accepted_unverified''] ''acceptance_mode'' ''acceptance_mode'',
     only_if (\<lambda>row. member_is ''acceptance_mode'' ''verified'' row)
       (check_record_ref ''acceptance-receipt-'' ''acceptance_receipt_id''),
     only_if (\<lambda>row. \<not> member_is ''acceptance_mode'' ''verified'' row)
       (require ''acceptance_receipt_invalid''
          (\<lambda>row. absent_value ''acceptance_receipt_id'' row)),
     only_if (\<lambda>row. version_one row)
       (checks
         [check_texts ''effect_operation_ids'' 1 1024 (is_record_id ''effect-op-'') True,
          check_integer ''effect_ledger_high_watermark'' 1 (2 ^ 63 - 1),
          check_sha256 ''effect_evidence_digest''])]"

definition result_accepted_spec :: kind_spec where
  "result_accepted_spec = \<lparr>
     ks_prefix = ''run-result-accepted-'',
     ks_fields = COMMON @
       [''run_id'', ''item_id'', ''attempt_id'', ''predecessor_result_id'', ''acceptance_mode'',
        ''acceptance_receipt_id'', ''worker_receipt_ids''],
     ks_extras = (\<lambda>v. if v = JInt 1
       then [[''effect_operation_ids'', ''effect_ledger_high_watermark'', ''effect_evidence_digest'']] else [[]]),
     ks_versions = [0, 1],
     ks_body = result_accepted_body\<rparr>"

lemma lawful_result_accepted [lawful_kinds]: "lawful result_accepted_body"
  unfolding result_accepted_body_def
  by (rule lawful_checks) (simp add: lawful_checks_defs lawful_intros run_stable_simps)

definition run_terminal_body :: check where
  "run_terminal_body = checks
    [check_run_id ''run_id'',
     check_enum [''succeeded'', ''failed'', ''cancelled'', ''skipped'', ''needs_operator'',
       ''uncertain'', ''partially_succeeded''] ''outcome'' ''outcome'']"

definition run_terminal_spec :: kind_spec where
  "run_terminal_spec = \<lparr>
     ks_prefix = ''run-terminal-'',
     ks_fields = COMMON @
       [''run_id'', ''outcome''],
     ks_extras = (\<lambda>_. [[]]),
     ks_versions = [0],
     ks_body = run_terminal_body\<rparr>"

lemma lawful_run_terminal [lawful_kinds]: "lawful run_terminal_body"
  unfolding run_terminal_body_def
  by (rule lawful_checks) (simp add: lawful_checks_defs lawful_intros run_stable_simps)

definition cancel_requested_body :: check where
  "cancel_requested_body = checks
    [check_run_id ''run_id'', check_enum [''run'', ''item'', ''exact_items''] ''scope'' ''scope'',
     only_if (\<lambda>row. member_is ''scope'' ''exact_items'' row)
       (checks
         [require ''cancel_scope_invalid''
            (\<lambda>row. version_one row \<and> absent_value ''item_id'' row),
          check_run_item_ids ''item_ids'' 1 64,
          check_record_ref ''spawn-group-created-'' ''spawn_group_id'']),
     only_if (\<lambda>row. member_is ''scope'' ''run'' row)
       (require ''cancel_scope_invalid'' (\<lambda>row. absent_value ''item_id'' row)),
     only_if (\<lambda>row. member_is ''scope'' ''item'' row) (check_run_item_id ''item_id''),
     check_ident ''requested_by'']"

definition cancel_requested_spec :: kind_spec where
  "cancel_requested_spec = \<lparr>
     ks_prefix = ''cancel-requested-'',
     ks_fields = COMMON @
       [''run_id'', ''scope'', ''item_id'', ''requested_by''],
     ks_extras = (\<lambda>v. if v = JInt 1 then [[''item_ids'', ''spawn_group_id'']] else [[]]),
     ks_versions = [0, 1],
     ks_body = cancel_requested_body\<rparr>"

lemma lawful_cancel_requested [lawful_kinds]: "lawful cancel_requested_body"
  unfolding cancel_requested_body_def
  by (rule lawful_checks) (simp add: lawful_checks_defs lawful_intros run_stable_simps)

definition cancel_scope_resolved_body :: check where
  "cancel_scope_resolved_body = checks
    [check_run_id ''run_id'', check_record_ref ''cancel-requested-'' ''cancel_request_id'',
     check_enum [''run'', ''item'', ''exact_items''] ''scope'' ''scope'',
     only_if (\<lambda>row. member_is ''scope'' ''run'' row)
       (require ''cancel_scope_invalid'' (\<lambda>row. absent_value ''item_id'' row)),
     only_if (\<lambda>row. member_is ''scope'' ''item'' row) (check_run_item_id ''item_id''),
     only_if (\<lambda>row. member_is ''scope'' ''exact_items'' row)
       (require ''cancel_scope_invalid''
          (\<lambda>row. version_one row \<and> absent_value ''item_id'' row)),
     check_run_item_ids ''item_ids'' 1 128, check_attempt_ids ''attempt_ids'' 0 128]"

definition cancel_scope_resolved_spec :: kind_spec where
  "cancel_scope_resolved_spec = \<lparr>
     ks_prefix = ''cancel-scope-resolved-'',
     ks_fields = COMMON @
       [''run_id'', ''cancel_request_id'', ''scope'', ''item_id'', ''item_ids'', ''attempt_ids''],
     ks_extras = (\<lambda>_. [[]]),
     ks_versions = [0, 1],
     ks_body = cancel_scope_resolved_body\<rparr>"

lemma lawful_cancel_scope_resolved [lawful_kinds]: "lawful cancel_scope_resolved_body"
  unfolding cancel_scope_resolved_body_def
  by (rule lawful_checks) (simp add: lawful_checks_defs lawful_intros run_stable_simps)

definition attempt_cancelled_before_start_body :: check where
  "attempt_cancelled_before_start_body = checks
    [check_run_id ''run_id'', check_run_item_id ''item_id'', check_attempt_id ''attempt_id'',
     check_nullable (check_record_ref ''attempt-opened-'') ''attempt_opened_id'',
     check_nullable (check_record_ref ''retry-scheduled-'') ''retry_scheduled_id'',
     require ''cancel_transition_invalid''
       (\<lambda>row. absent_value ''attempt_opened_id'' row \<noteq> absent_value ''retry_scheduled_id'' row),
     check_sha256 ''fence_token'',
     check_record_ref ''cancel-scope-resolved-'' ''cancel_scope_resolved_id'',
     check_nullable (check_record_ref ''capability-set-bound-'') ''capability_set_bound_id'',
     check_nullable (check_record_ref ''run-dispatch-decision-'') ''dispatch_decision_id'',
     check_enum [''cancelled_before_start''] ''reason_code'' ''reason_code'',
     check_timestamp ''cancelled_at_testimony'']"

definition attempt_cancelled_before_start_spec :: kind_spec where
  "attempt_cancelled_before_start_spec = \<lparr>
     ks_prefix = ''attempt-cancelled-before-start-'',
     ks_fields = COMMON @
       [''run_id'', ''item_id'', ''attempt_id'', ''attempt_opened_id'', ''retry_scheduled_id'',
        ''fence_token'', ''cancel_scope_resolved_id'', ''capability_set_bound_id'',
        ''dispatch_decision_id'', ''reason_code'', ''cancelled_at_testimony''],
     ks_extras = (\<lambda>_. [[]]),
     ks_versions = [1],
     ks_body = attempt_cancelled_before_start_body\<rparr>"

lemma lawful_attempt_cancelled_before_start [lawful_kinds]: "lawful attempt_cancelled_before_start_body"
  unfolding attempt_cancelled_before_start_body_def
  by (rule lawful_checks) (simp add: lawful_checks_defs lawful_intros run_stable_simps)

definition spawn_child_cancelled_without_attempt_body :: check where
  "spawn_child_cancelled_without_attempt_body = checks
    [check_run_id ''run_id'', check_record_ref ''spawn-group-created-'' ''spawn_group_id'',
     check_record_ref ''plan-amendment-'' ''plan_amendment_id'',
     check_run_item_id ''child_item_id'',
     check_nullable (check_record_ref ''child-admitted-'') ''child_admitted_id'',
     check_record_ref ''cancel-scope-resolved-'' ''cancel_scope_resolved_id'',
     check_enum [''cancelled_without_attempt''] ''reason_code'' ''reason_code'',
     check_timestamp ''cancelled_at_testimony'']"

definition spawn_child_cancelled_without_attempt_spec :: kind_spec where
  "spawn_child_cancelled_without_attempt_spec = \<lparr>
     ks_prefix = ''spawn-child-cancelled-without-attempt-'',
     ks_fields = COMMON @
       [''run_id'', ''spawn_group_id'', ''plan_amendment_id'', ''child_item_id'',
        ''child_admitted_id'', ''cancel_scope_resolved_id'', ''reason_code'',
        ''cancelled_at_testimony''],
     ks_extras = (\<lambda>_. [[]]),
     ks_versions = [1],
     ks_body = spawn_child_cancelled_without_attempt_body\<rparr>"

lemma lawful_spawn_child_cancelled_without_attempt [lawful_kinds]: "lawful spawn_child_cancelled_without_attempt_body"
  unfolding spawn_child_cancelled_without_attempt_body_def
  by (rule lawful_checks) (simp add: lawful_checks_defs lawful_intros run_stable_simps)

text \<open>The shared branch of the four records of a cancellation reaching an attempt.\<close>

definition cancellation_body :: check where
  "cancellation_body = checks
    [check_run_id ''run_id'', check_record_ref ''cancel-scope-resolved-'' ''cancel_scope_resolved_id'',
     check_run_item_id ''item_id'', check_attempt_id ''attempt_id'', check_sha256 ''fence_token'',
     check_capability ''adapter'',
     check_enum [''native'', ''local_process_only'', ''unavailable''] ''cancel_mode'' ''cancel_mode'']"

lemma lawful_cancellation_body [lawful_kinds]: "lawful cancellation_body"
  unfolding cancellation_body_def
  by (rule lawful_checks) (simp add: lawful_checks_defs lawful_intros)

definition cancel_observed_spec :: kind_spec where
  "cancel_observed_spec = \<lparr>
     ks_prefix = ''cancel-observed-'',
     ks_fields = COMMON @
       [''run_id'', ''cancel_scope_resolved_id'', ''item_id'', ''attempt_id'', ''fence_token'',
        ''adapter'', ''cancel_mode''],
     ks_extras = (\<lambda>_. [[]]),
     ks_versions = [0],
     ks_body = cancellation_body\<rparr>"

definition cancel_signal_sent_spec :: kind_spec where
  "cancel_signal_sent_spec = \<lparr>
     ks_prefix = ''cancel-signal-sent-'',
     ks_fields = COMMON @
       [''run_id'', ''cancel_scope_resolved_id'', ''item_id'', ''attempt_id'', ''fence_token'',
        ''adapter'', ''cancel_mode''],
     ks_extras = (\<lambda>_. [[]]),
     ks_versions = [0],
     ks_body = cancellation_body\<rparr>"

definition cancel_terminal_spec :: kind_spec where
  "cancel_terminal_spec = \<lparr>
     ks_prefix = ''cancel-terminal-'',
     ks_fields = COMMON @
       [''run_id'', ''cancel_scope_resolved_id'', ''item_id'', ''attempt_id'', ''fence_token'',
        ''adapter'', ''cancel_mode''],
     ks_extras = (\<lambda>_. [[]]),
     ks_versions = [0],
     ks_body = cancellation_body\<rparr>"

definition cancel_unconfirmed_spec :: kind_spec where
  "cancel_unconfirmed_spec = \<lparr>
     ks_prefix = ''cancel-unconfirmed-'',
     ks_fields = COMMON @
       [''run_id'', ''cancel_scope_resolved_id'', ''item_id'', ''attempt_id'', ''fence_token'',
        ''adapter'', ''cancel_mode''],
     ks_extras = (\<lambda>_. [[]]),
     ks_versions = [0],
     ks_body = cancellation_body\<rparr>"

definition stale_attempt_evidence_body :: check where
  "stale_attempt_evidence_body = checks
    [check_run_id ''run_id'', check_run_item_id ''item_id'', check_attempt_id ''attempt_id'',
     check_ref_set ''worker-receipt-'' ''worker_receipt_ids'' 1 32,
     check_sha256 ''presented_fence_token'', check_attempt_id ''current_attempt_id'',
     check_sha256 ''current_fence_token'']"

definition stale_attempt_evidence_spec :: kind_spec where
  "stale_attempt_evidence_spec = \<lparr>
     ks_prefix = ''stale-attempt-evidence-'',
     ks_fields = COMMON @
       [''run_id'', ''item_id'', ''attempt_id'', ''worker_receipt_ids'',
        ''presented_fence_token'', ''current_attempt_id'', ''current_fence_token''],
     ks_extras = (\<lambda>_. [[]]),
     ks_versions = [0],
     ks_body = stale_attempt_evidence_body\<rparr>"

lemma lawful_stale_attempt_evidence [lawful_kinds]: "lawful stale_attempt_evidence_body"
  unfolding stale_attempt_evidence_body_def
  by (rule lawful_checks) (simp add: lawful_checks_defs lawful_intros run_stable_simps)

definition stale_evidence_adopted_body :: check where
  "stale_evidence_adopted_body = checks
    [check_run_id ''run_id'', check_run_item_id ''item_id'',
     check_record_ref ''stale-attempt-evidence-'' ''stale_evidence_id'',
     check_attempt_id ''current_attempt_id'', check_sha256 ''current_fence_token'',
     check_ident ''operator_id'', check_ident ''authority_subject'',
     check_integer ''authority_epoch'' 1 (2 ^ 63 - 1),
     check_record_ref ''capability-'' ''capability_record_id'']"

definition stale_evidence_adopted_spec :: kind_spec where
  "stale_evidence_adopted_spec = \<lparr>
     ks_prefix = ''stale-evidence-adopted-'',
     ks_fields = COMMON @
       [''run_id'', ''item_id'', ''stale_evidence_id'', ''current_attempt_id'',
        ''current_fence_token'', ''operator_id'', ''authority_subject'', ''authority_epoch'',
        ''capability_record_id''],
     ks_extras = (\<lambda>_. [[]]),
     ks_versions = [0],
     ks_body = stale_evidence_adopted_body\<rparr>"

lemma lawful_stale_evidence_adopted [lawful_kinds]: "lawful stale_evidence_adopted_body"
  unfolding stale_evidence_adopted_body_def
  by (rule lawful_checks) (simp add: lawful_checks_defs lawful_intros run_stable_simps)

definition supervisor_orphaned_body :: check where
  "supervisor_orphaned_body = checks
    [check_run_id ''run_id'', check_run_item_id ''item_id'', check_attempt_id ''attempt_id'',
     check_record_ref ''claim-'' ''claim_id'', check_record_ref ''lease-'' ''lease_id'',
     check_record_ref ''worker-'' ''worker_session_id'', check_ident ''supervisor_id'',
     check_enum [''owner_loss'', ''unregister'', ''lease_abandonment''] ''orphan_class''
       ''orphan_class'',
     check_ident ''authority_subject'', check_integer ''authority_epoch'' 1 (2 ^ 63 - 1),
     check_record_ref ''capability-'' ''capability_record_id'']"

definition supervisor_orphaned_spec :: kind_spec where
  "supervisor_orphaned_spec = \<lparr>
     ks_prefix = ''supervisor-orphaned-'',
     ks_fields = COMMON @
       [''run_id'', ''item_id'', ''attempt_id'', ''claim_id'', ''lease_id'',
        ''worker_session_id'', ''supervisor_id'', ''orphan_class'', ''authority_subject'',
        ''authority_epoch'', ''capability_record_id''],
     ks_extras = (\<lambda>_. [[]]),
     ks_versions = [0],
     ks_body = supervisor_orphaned_body\<rparr>"

lemma lawful_supervisor_orphaned [lawful_kinds]: "lawful supervisor_orphaned_body"
  unfolding supervisor_orphaned_body_def
  by (rule lawful_checks) (simp add: lawful_checks_defs lawful_intros run_stable_simps)

definition attempt_opened_body :: check where
  "attempt_opened_body = checks
    [check_run_id ''run_id'', check_run_item_id ''item_id'', check_attempt_id ''attempt_id'',
     check_integer ''ordinal'' 1 32, check_integer ''max_attempts'' 1 32,
     require ''ordinal_invalid''
       (\<lambda>row. integer_of row ''ordinal'' \<le> integer_of row ''max_attempts''),
     check_integer ''scheduler_epoch'' 1 (2 ^ 63 - 1), check_sha256 ''fence_token'',
     check_backoff ''backoff'']"

definition attempt_opened_spec :: kind_spec where
  "attempt_opened_spec = \<lparr>
     ks_prefix = ''attempt-opened-'',
     ks_fields = COMMON @
       [''run_id'', ''item_id'', ''attempt_id'', ''ordinal'', ''scheduler_epoch'',
        ''fence_token'', ''max_attempts'', ''backoff''],
     ks_extras = (\<lambda>_. [[]]),
     ks_versions = [0],
     ks_body = attempt_opened_body\<rparr>"

lemma lawful_attempt_opened [lawful_kinds]: "lawful attempt_opened_body"
  unfolding attempt_opened_body_def
  by (rule lawful_checks) (simp add: lawful_checks_defs lawful_intros run_stable_simps)

definition attempt_started_body :: check where
  "attempt_started_body = checks
    [check_run_id ''run_id'', check_run_item_id ''item_id'', check_attempt_id ''attempt_id'',
     check_integer ''ordinal'' 1 32, check_record_ref ''attempt-opened-'' ''attempt_opened_id'',
     check_record_ref ''run-dispatch-decision-'' ''dispatch_decision_id'',
     check_sha256 ''fence_token'']"

definition attempt_started_spec :: kind_spec where
  "attempt_started_spec = \<lparr>
     ks_prefix = ''attempt-started-'',
     ks_fields = COMMON @
       [''run_id'', ''item_id'', ''attempt_id'', ''ordinal'', ''attempt_opened_id'',
        ''dispatch_decision_id'', ''fence_token''],
     ks_extras = (\<lambda>_. [[]]),
     ks_versions = [0],
     ks_body = attempt_started_body\<rparr>"

lemma lawful_attempt_started [lawful_kinds]: "lawful attempt_started_body"
  unfolding attempt_started_body_def
  by (rule lawful_checks) (simp add: lawful_checks_defs lawful_intros run_stable_simps)

definition RETRY_CLOSURE :: "string list" where
  "RETRY_CLOSURE =
    [''retry_record_id'', ''next_attempt_id'', ''next_ordinal'', ''retry_delay_ms'',
     ''next_scheduler_epoch'', ''next_fence_token'']"

definition attempt_terminal_body :: check where
  "attempt_terminal_body = checks
    [check_run_id ''run_id'', check_run_item_id ''item_id'', check_attempt_id ''attempt_id'',
     check_integer ''ordinal'' 1 32, check_record_ref ''attempt-started-'' ''attempt_started_id'',
     check_sha256 ''fence_token'',
     check_enum [''completed'', ''failed'', ''cancelled'', ''uncertain''] ''terminal_state''
       ''terminal_state'',
     only_if (\<lambda>row. member_is ''terminal_state'' ''completed'' row)
       (require ''terminal_policy_invalid''
          (\<lambda>row. absent_value ''policy_class'' row \<and> member_is ''reason_code'' ''completed'' row)),
     only_if (\<lambda>row. \<not> member_is ''terminal_state'' ''completed'' row)
       (checks
         [check_enum [''transient'', ''permanent'', ''operator_required'', ''policy_refusal'',
            ''cancelled'', ''unknown_effect''] ''policy_class'' ''policy_class'',
          check_capability ''reason_code'']),
     check_enum [''idempotent'', ''non_idempotent'', ''unknown_effect''] ''effect_safety''
       ''effect_safety'',
     check_enum [''none'', ''scheduled'', ''exhausted''] ''retry_disposition''
       ''retry_disposition'',
     only_if (\<lambda>row. member_is ''retry_disposition'' ''none'' row)
       (require ''retry_closure_invalid''
          (\<lambda>row. list_all (\<lambda>f. absent_value f row) RETRY_CLOSURE)),
     only_if (\<lambda>row. member_is ''retry_disposition'' ''scheduled'' row)
       (checks
         [check_record_ref ''retry-scheduled-'' ''retry_record_id'',
          check_attempt_id ''next_attempt_id'', check_integer ''next_ordinal'' 1 32,
          check_integer ''retry_delay_ms'' 0 86400000,
          check_integer ''next_scheduler_epoch'' 1 (2 ^ 63 - 1), check_sha256 ''next_fence_token'']),
     only_if (\<lambda>row. member_is ''retry_disposition'' ''exhausted'' row)
       (checks
         [check_record_ref ''retry-exhausted-'' ''retry_record_id'',
          require ''retry_closure_invalid''
            (\<lambda>row. list_all (\<lambda>f. absent_value f row) (tl RETRY_CLOSURE))])]"

definition attempt_terminal_spec :: kind_spec where
  "attempt_terminal_spec = \<lparr>
     ks_prefix = ''attempt-terminal-'',
     ks_fields = COMMON @
       [''run_id'', ''item_id'', ''attempt_id'', ''ordinal'', ''attempt_started_id'',
        ''fence_token'', ''terminal_state'', ''policy_class'', ''reason_code'', ''effect_safety'',
        ''retry_disposition'', ''retry_record_id'', ''next_attempt_id'', ''next_ordinal'',
        ''retry_delay_ms'', ''next_scheduler_epoch'', ''next_fence_token''],
     ks_extras = (\<lambda>_. [[]]),
     ks_versions = [0],
     ks_body = attempt_terminal_body\<rparr>"

lemma lawful_attempt_terminal [lawful_kinds]: "lawful attempt_terminal_body"
  unfolding attempt_terminal_body_def
  by (rule lawful_checks) (simp add: lawful_checks_defs lawful_intros run_stable_simps)

definition retry_scheduled_body :: check where
  "retry_scheduled_body = checks
    [check_run_id ''run_id'', check_run_item_id ''item_id'',
     check_attempt_id ''previous_attempt_id'',
     check_record_ref ''attempt-terminal-'' ''attempt_terminal_id'',
     check_attempt_id ''next_attempt_id'', check_integer ''next_ordinal'' 1 32,
     check_integer ''delay_ms'' 0 86400000, check_integer ''scheduler_epoch'' 1 (2 ^ 63 - 1),
     check_sha256 ''next_fence_token'']"

definition retry_scheduled_spec :: kind_spec where
  "retry_scheduled_spec = \<lparr>
     ks_prefix = ''retry-scheduled-'',
     ks_fields = COMMON @
       [''run_id'', ''item_id'', ''previous_attempt_id'', ''attempt_terminal_id'',
        ''next_attempt_id'', ''next_ordinal'', ''delay_ms'', ''scheduler_epoch'',
        ''next_fence_token''],
     ks_extras = (\<lambda>_. [[]]),
     ks_versions = [0],
     ks_body = retry_scheduled_body\<rparr>"

lemma lawful_retry_scheduled [lawful_kinds]: "lawful retry_scheduled_body"
  unfolding retry_scheduled_body_def
  by (rule lawful_checks) (simp add: lawful_checks_defs lawful_intros run_stable_simps)

definition retry_exhausted_body :: check where
  "retry_exhausted_body = checks
    [check_run_id ''run_id'', check_run_item_id ''item_id'', check_attempt_id ''attempt_id'',
     check_integer ''ordinal'' 1 32,
     check_record_ref ''attempt-terminal-'' ''attempt_terminal_id'',
     check_integer ''max_attempts'' 1 32,
     check_enum [''max_attempts''] ''reason_code'' ''reason_code'']"

definition retry_exhausted_spec :: kind_spec where
  "retry_exhausted_spec = \<lparr>
     ks_prefix = ''retry-exhausted-'',
     ks_fields = COMMON @
       [''run_id'', ''item_id'', ''attempt_id'', ''ordinal'', ''attempt_terminal_id'',
        ''max_attempts'', ''reason_code''],
     ks_extras = (\<lambda>_. [[]]),
     ks_versions = [0],
     ks_body = retry_exhausted_body\<rparr>"

lemma lawful_retry_exhausted [lawful_kinds]: "lawful retry_exhausted_body"
  unfolding retry_exhausted_body_def
  by (rule lawful_checks) (simp add: lawful_checks_defs lawful_intros run_stable_simps)

text \<open>Effects.  The rows of a budget: an exact object with an identifier and a bounded amount.\<close>

definition EFFECT_BINDING_FIELDS :: "string list" where
  "EFFECT_BINDING_FIELDS =
    [''operation_id'', ''run_id'', ''item_id'', ''attempt_id'', ''attempt_started_id'',
     ''fence_token'', ''effect_type'', ''target'', ''request_digest'', ''idempotency_key'',
     ''expected_confirmation'', ''reconciliation_adapter'', ''risk_class'', ''budget_claim'']"

definition check_object :: "string \<Rightarrow> string list \<Rightarrow> check \<Rightarrow> check" where
  "check_object name names f integrity row =
     (case get_member row name of
        JObj ms \<Rightarrow>
          if \<not> same_names ms names then Inl (field_invalid integrity name) else f integrity ms
      | _ \<Rightarrow> Inl (field_invalid integrity name))"

lemma lawful_check_object [lawful_intros]: "lawful f \<Longrightarrow> lawful (check_object name names f)"
  unfolding check_object_def by (rule lawful_object)

definition EFFECT_TARGET_BY_TYPE :: "(string \<times> string) list" where
  "EFFECT_TARGET_BY_TYPE =
    [(''git_ref_update'', ''git_ref''), (''git_remote_ref_update'', ''git_remote_ref''),
     (''github_mutation'', ''github_resource''), (''deployment'', ''deployment_target''),
     (''shell_command'', ''shell_environment''), (''external_api'', ''external_api_resource'')]"

definition member_text :: "string \<Rightarrow> string \<Rightarrow> members \<Rightarrow> string" where
  "member_text name inner row =
     (case get_member row name of JObj ms \<Rightarrow> text_of ms inner | _ \<Rightarrow> [])"

lemma member_text_canonical:
  "canonical_of row row' \<Longrightarrow> member_text name inner row' = member_text name inner row"
proof -
  assume c: "canonical_of row row'"
  show ?thesis
  proof (cases "get_member row name")
    case (JObj ms)
    then show ?thesis
      using text_of_canonical [OF canonical_of_object [of ms]]
      by (simp add: member_text_def canonical_ofD(2) [OF c])
  qed (simp_all add: member_text_def canonical_ofD(2) [OF c])
qed

definition effect_target :: check where
  "effect_target = check_object ''target'' [''kind'', ''coordinate'', ''identity_digest'']
    (checks
      [check_enum (map snd EFFECT_TARGET_BY_TYPE) ''target_kind'' ''kind'',
       text_field ''target_coordinate'' (bounded_ok 1 1024) ''coordinate'',
       text_field ''target_identity_digest'' is_sha256 ''identity_digest''])"

definition effect_confirmation :: "string \<Rightarrow> check" where
  "effect_confirmation name = check_object name [''kind'', ''locator'', ''expected_digest'']
    (checks
      [check_enum [''git_ref_equals'', ''git_remote_ref_equals'', ''github_idempotency_marker'',
                   ''deployment_artifact_equals'', ''none''] (name @ ''_kind'') ''kind'',
       text_field (name @ ''_locator'') (bounded_ok 1 1024) ''locator'',
       text_field (name @ ''_expected_digest'') is_sha256 ''expected_digest''])"

definition effect_binding :: check where
  "effect_binding = checks
    [text_field ''operation_id'' (is_record_id ''effect-op-'') ''operation_id'',
     check_run_id ''run_id'', check_run_item_id ''item_id'', check_attempt_id ''attempt_id'',
     check_record_ref ''attempt-started-'' ''attempt_started_id'', check_sha256 ''fence_token'',
     check_enum (map fst EFFECT_TARGET_BY_TYPE) ''effect_type'' ''effect_type'', effect_target,
     require ''target_kind_invalid''
       (\<lambda>row. map_of EFFECT_TARGET_BY_TYPE (text_of row ''effect_type'') =
          Some (member_text ''target'' ''kind'' row)),
     check_sha256 ''request_digest'', check_bounded ''idempotency_key'' 1 128,
     effect_confirmation ''expected_confirmation'',
     check_enum [''git_local'', ''git_remote_explicit'', ''github_explicit'',
                 ''deployment_explicit'', ''none''] ''reconciliation_adapter'' ''reconciliation_adapter'',
     check_enum [''low'', ''medium'', ''high'', ''critical''] ''risk_class'' ''risk_class'',
     check_budget_rows ''budget_claim'' 0]"

lemma lawful_effect_confirmation [lawful_intros]: "lawful (effect_confirmation name)"
  unfolding effect_confirmation_def
  by (intro lawful_check_object lawful_checks) (simp add: lawful_checks_defs lawful_intros)

lemma lawful_effect_binding [lawful_intros]: "lawful effect_binding"
  unfolding effect_binding_def effect_target_def
  by (rule lawful_checks)
     (simp add: lawful_checks_defs lawful_intros stable_simps member_text_canonical)

text \<open>\<open>_effect_evidence_ref\<close>.\<close>

definition check_evidence_ref :: "string \<Rightarrow> check" where
  "check_evidence_ref name = text_field name
     (\<lambda>s. is_record_id ''effect-confirmed-'' s \<or> is_record_id ''effect-failed-'' s \<or>
          is_record_id ''effect-unknown-'' s \<or> is_record_id ''effect-reconciled-'' s) name"

lemma lawful_evidence_ref [lawful_intros]: "lawful (check_evidence_ref name)"
  by (simp add: check_evidence_ref_def lawful_text_field)

definition effect_intent_body :: check where
  "effect_intent_body = checks
    [effect_binding, check_ident ''requested_by'',
     check_nullable (check_record_ref ''approval-request-'') ''approval_request_id'',
     check_nullable (check_record_ref ''approval-decision-'') ''approval_decision_id'',
     check_nullable (check_record_ref ''approval-consumed-resume-'') ''approval_consumption_id'',
     check_timestamp ''intended_at_testimony'']"

definition effect_intent_spec :: kind_spec where
  "effect_intent_spec = \<lparr>
     ks_prefix = ''effect-intent-'',
     ks_fields = COMMON @ EFFECT_BINDING_FIELDS @
       [''requested_by'', ''approval_request_id'', ''approval_decision_id'',
        ''approval_consumption_id'', ''intended_at_testimony''],
     ks_extras = (\<lambda>_. [[]]),
     ks_versions = [1],
     ks_body = effect_intent_body\<rparr>"

lemma lawful_effect_intent [lawful_kinds]: "lawful effect_intent_body"
  unfolding effect_intent_body_def
  by (rule lawful_checks) (simp add: lawful_checks_defs lawful_intros run_stable_simps)

definition effect_dispatched_body :: check where
  "effect_dispatched_body = checks
    [effect_binding, check_record_ref ''effect-intent-'' ''effect_intent_id'',
     check_enum [''git_local'', ''git_remote_explicit'', ''github_explicit'',
       ''deployment_explicit'', ''shell_explicit'', ''external_api_explicit'']
       ''dispatch_adapter'' ''dispatch_adapter'',
     check_sha256 ''dispatch_evidence_digest'', check_timestamp ''dispatched_at_testimony'']"

definition effect_dispatched_spec :: kind_spec where
  "effect_dispatched_spec = \<lparr>
     ks_prefix = ''effect-dispatched-'',
     ks_fields = COMMON @ EFFECT_BINDING_FIELDS @
       [''effect_intent_id'', ''dispatch_adapter'', ''dispatch_evidence_digest'',
        ''dispatched_at_testimony''],
     ks_extras = (\<lambda>_. [[]]),
     ks_versions = [1],
     ks_body = effect_dispatched_body\<rparr>"

lemma lawful_effect_dispatched [lawful_kinds]: "lawful effect_dispatched_body"
  unfolding effect_dispatched_body_def
  by (rule lawful_checks) (simp add: lawful_checks_defs lawful_intros run_stable_simps)

definition effect_acknowledged_body :: check where
  "effect_acknowledged_body = checks
    [effect_binding, check_record_ref ''effect-intent-'' ''effect_intent_id'',
     check_record_ref ''effect-dispatched-'' ''effect_dispatched_id'',
     check_sha256 ''acknowledgement_digest'', check_timestamp ''acknowledged_at_testimony'']"

definition effect_acknowledged_spec :: kind_spec where
  "effect_acknowledged_spec = \<lparr>
     ks_prefix = ''effect-acknowledged-'',
     ks_fields = COMMON @ EFFECT_BINDING_FIELDS @
       [''effect_intent_id'', ''effect_dispatched_id'', ''acknowledgement_digest'',
        ''acknowledged_at_testimony''],
     ks_extras = (\<lambda>_. [[]]),
     ks_versions = [1],
     ks_body = effect_acknowledged_body\<rparr>"

lemma lawful_effect_acknowledged [lawful_kinds]: "lawful effect_acknowledged_body"
  unfolding effect_acknowledged_body_def
  by (rule lawful_checks) (simp add: lawful_checks_defs lawful_intros run_stable_simps)

definition effect_confirmed_body :: check where
  "effect_confirmed_body = checks
    [effect_binding, check_record_ref ''effect-intent-'' ''effect_intent_id'',
     check_record_ref ''effect-dispatched-'' ''effect_dispatched_id'',
     check_nullable (check_record_ref ''effect-acknowledged-'') ''effect_acknowledged_id'',
     effect_confirmation ''confirmation'', check_sha256 ''confirmation_evidence_digest'',
     check_budget_rows ''measured_spend'' 0, check_timestamp ''confirmed_at_testimony'']"

definition effect_confirmed_spec :: kind_spec where
  "effect_confirmed_spec = \<lparr>
     ks_prefix = ''effect-confirmed-'',
     ks_fields = COMMON @ EFFECT_BINDING_FIELDS @
       [''effect_intent_id'', ''effect_dispatched_id'', ''effect_acknowledged_id'',
        ''confirmation'', ''confirmation_evidence_digest'', ''measured_spend'',
        ''confirmed_at_testimony''],
     ks_extras = (\<lambda>_. [[]]),
     ks_versions = [1],
     ks_body = effect_confirmed_body\<rparr>"

lemma lawful_effect_confirmed [lawful_kinds]: "lawful effect_confirmed_body"
  unfolding effect_confirmed_body_def
  by (rule lawful_checks) (simp add: lawful_checks_defs lawful_intros run_stable_simps)

definition effect_failed_body :: check where
  "effect_failed_body = checks
    [effect_binding, check_record_ref ''effect-intent-'' ''effect_intent_id'',
     check_record_ref ''effect-dispatched-'' ''effect_dispatched_id'',
     check_enum [''destination_rejected'', ''destination_conflict'', ''request_invalid'',
       ''authorization_denied'', ''effect_not_applied'', ''budget_exceeded''] ''reason_code''
       ''reason_code'',
     text_field ''evidence_digest'' is_sha256 ''failure_evidence_digest'',
     check_enum [''complete'', ''partial'', ''unknown''] ''spend_status'' ''spend_status'',
     check_nullable (\<lambda>name. check_budget_rows name 0) ''measured_spend'',
     text_field ''outcome_at_testimony'' is_timestamp ''failed_at_testimony'']"

definition effect_failed_spec :: kind_spec where
  "effect_failed_spec = \<lparr>
     ks_prefix = ''effect-failed-'',
     ks_fields = COMMON @ EFFECT_BINDING_FIELDS @
       [''effect_intent_id'', ''effect_dispatched_id'', ''reason_code'',
        ''failure_evidence_digest'', ''spend_status'', ''measured_spend'', ''failed_at_testimony''],
     ks_extras = (\<lambda>_. [[]]),
     ks_versions = [1],
     ks_body = effect_failed_body\<rparr>"

lemma lawful_effect_failed [lawful_kinds]: "lawful effect_failed_body"
  unfolding effect_failed_body_def
  by (rule lawful_checks) (simp add: lawful_checks_defs lawful_intros run_stable_simps)

definition effect_unknown_body :: check where
  "effect_unknown_body = checks
    [effect_binding, check_record_ref ''effect-intent-'' ''effect_intent_id'',
     check_record_ref ''effect-dispatched-'' ''effect_dispatched_id'',
     check_enum [''adapter_unavailable'', ''confirmation_absent'', ''process_lost'',
       ''destination_unqueryable'', ''evidence_malformed'', ''reconciliation_inconclusive'']
       ''reason_code'' ''reason_code'',
     text_field ''evidence_digest'' is_sha256 ''unknown_evidence_digest'',
     check_enum [''complete'', ''partial'', ''unknown''] ''spend_status'' ''spend_status'',
     check_nullable (\<lambda>name. check_budget_rows name 0) ''measured_spend'',
     text_field ''outcome_at_testimony'' is_timestamp ''unknown_at_testimony'']"

definition effect_unknown_spec :: kind_spec where
  "effect_unknown_spec = \<lparr>
     ks_prefix = ''effect-unknown-'',
     ks_fields = COMMON @ EFFECT_BINDING_FIELDS @
       [''effect_intent_id'', ''effect_dispatched_id'', ''reason_code'',
        ''unknown_evidence_digest'', ''spend_status'', ''measured_spend'',
        ''unknown_at_testimony''],
     ks_extras = (\<lambda>_. [[]]),
     ks_versions = [1],
     ks_body = effect_unknown_body\<rparr>"

lemma lawful_effect_unknown [lawful_kinds]: "lawful effect_unknown_body"
  unfolding effect_unknown_body_def
  by (rule lawful_checks) (simp add: lawful_checks_defs lawful_intros run_stable_simps)

definition effect_reconciled_body :: check where
  "effect_reconciled_body = checks
    [effect_binding, check_record_ref ''effect-intent-'' ''effect_intent_id'',
     check_evidence_ref ''prior_effect_evidence_id'',
     check_enum [''confirmed'', ''failed'', ''unknown''] ''reconciled_outcome''
       ''reconciled_outcome'',
     check_sha256 ''reconciliation_evidence_digest'',
     check_nullable effect_confirmation ''confirmation'',
     check_enum [''complete'', ''partial'', ''unknown''] ''spend_status'' ''spend_status'',
     check_nullable (\<lambda>name. check_budget_rows name 0) ''measured_spend'',
     check_timestamp ''reconciled_at_testimony'']"

definition effect_reconciled_spec :: kind_spec where
  "effect_reconciled_spec = \<lparr>
     ks_prefix = ''effect-reconciled-'',
     ks_fields = COMMON @ EFFECT_BINDING_FIELDS @
       [''effect_intent_id'', ''prior_effect_evidence_id'', ''reconciled_outcome'',
        ''reconciliation_evidence_digest'', ''confirmation'', ''spend_status'',
        ''measured_spend'', ''reconciled_at_testimony''],
     ks_extras = (\<lambda>_. [[]]),
     ks_versions = [1],
     ks_body = effect_reconciled_body\<rparr>"

lemma lawful_effect_reconciled [lawful_kinds]: "lawful effect_reconciled_body"
  unfolding effect_reconciled_body_def
  by (rule lawful_checks) (simp add: lawful_checks_defs lawful_intros run_stable_simps)

definition compensation_proposed_body :: check where
  "compensation_proposed_body = checks
    [effect_binding, check_record_ref ''effect-intent-'' ''effect_intent_id'',
     check_evidence_ref ''source_effect_evidence_id'',
     check_enum [''operator_requested'', ''effect_failed'', ''effect_superseded'',
       ''policy_required''] ''reason_code'' ''reason_code'',
     check_sha256 ''compensation_plan_digest'', check_sha256 ''compensation_request_digest'',
     check_record_ref ''effect-op-'' ''compensation_operation_id'',
     check_enum [''low'', ''medium'', ''high'', ''critical''] ''compensation_risk_class''
       ''compensation_risk_class'',
     check_nullable (check_record_ref ''approval-request-'') ''approval_request_id'',
     check_nullable (check_record_ref ''approval-decision-'') ''approval_decision_id'',
     check_nullable (check_record_ref ''approval-consumed-resume-'') ''approval_consumption_id'',
     check_timestamp ''proposed_at_testimony'']"

definition compensation_proposed_spec :: kind_spec where
  "compensation_proposed_spec = \<lparr>
     ks_prefix = ''compensation-proposed-'',
     ks_fields = COMMON @ EFFECT_BINDING_FIELDS @
       [''effect_intent_id'', ''source_effect_evidence_id'', ''reason_code'',
        ''compensation_plan_digest'', ''compensation_request_digest'',
        ''compensation_operation_id'', ''compensation_risk_class'', ''approval_request_id'',
        ''approval_decision_id'', ''approval_consumption_id'', ''proposed_at_testimony''],
     ks_extras = (\<lambda>_. [[]]),
     ks_versions = [1],
     ks_body = compensation_proposed_body\<rparr>"

lemma lawful_compensation_proposed [lawful_kinds]: "lawful compensation_proposed_body"
  unfolding compensation_proposed_body_def
  by (rule lawful_checks) (simp add: lawful_checks_defs lawful_intros run_stable_simps)

definition compensation_executed_body :: check where
  "compensation_executed_body = checks
    [effect_binding, check_record_ref ''compensation-proposed-'' ''compensation_proposal_id'',
     check_record_ref ''effect-op-'' ''compensation_operation_id'',
     check_evidence_ref ''compensation_terminal_evidence_id'',
     check_timestamp ''executed_at_testimony'']"

definition compensation_executed_spec :: kind_spec where
  "compensation_executed_spec = \<lparr>
     ks_prefix = ''compensation-executed-'',
     ks_fields = COMMON @ EFFECT_BINDING_FIELDS @
       [''compensation_proposal_id'', ''compensation_operation_id'',
        ''compensation_terminal_evidence_id'', ''executed_at_testimony''],
     ks_extras = (\<lambda>_. [[]]),
     ks_versions = [1],
     ks_body = compensation_executed_body\<rparr>"

lemma lawful_compensation_executed [lawful_kinds]: "lawful compensation_executed_body"
  unfolding compensation_executed_body_def
  by (rule lawful_checks) (simp add: lawful_checks_defs lawful_intros run_stable_simps)

end
