(* ===== verification/Mail_Kinds.thy ===== *)
theory Mail_Kinds
  imports Run_Kinds
begin

text \<open>
  The record kinds of the event ledger that carry structure (\<open>floati/records.py\<close>): the delivery
  claim that travels with a message, and the receipts that an epoch roll and a repair leave in
  \<open>events.jsonl\<close>.  Envelopes, retractions, denials and the delivery and acknowledgment receipts are
  in \<open>Fleet_Kinds\<close>.
\<close>

text \<open>\<open>Path(repo_path).parts\<close> of an absolute path: empty components and single dots vanish when
  the path is parsed, so only a double dot is left to refuse.\<close>

definition is_claim_path :: "string \<Rightarrow> bool" where
  "is_claim_path s \<longleftrightarrow>
     1 \<le> length s \<and> length s \<le> 4096 \<and> \<not> terminal_unsafe s \<and> starts_with ''/'' s \<and>
     ''..'' \<notin> set (split_on CHR ''/'' s)"

definition is_name_char :: "char \<Rightarrow> bool" where
  "is_name_char c \<longleftrightarrow> is_alnum_char c \<or> c = CHR ''_''"

definition is_module_name :: "string \<Rightarrow> bool" where
  "is_module_name s \<longleftrightarrow>
     length s \<le> 256 \<and>
     list_all (\<lambda>p. p \<noteq> [] \<and> \<not> is_digit_char (hd p) \<and> list_all is_name_char p) (split_on CHR ''.'' s)"

definition check_bank :: check where
  "check_bank integrity row =
     (if get_member row ''bank'' = JStr ''discover'' then Inr ()
      else case get_member row ''bank'' of
        JArr vs \<Rightarrow>
          (case all_texts vs of
             Some ss \<Rightarrow>
               guardR (length ss < 1 \<or> length ss > 128 \<or> \<not> list_all is_module_name ss \<or> \<not> distinct ss)
                 (refusal integrity ''claim_bank_invalid'') (Inr ())
           | None \<Rightarrow> Inl (refusal integrity ''claim_bank_invalid''))
      | _ \<Rightarrow> Inl (refusal integrity ''claim_bank_invalid''))"

lemma check_bank_Inr_iff:
  "check_bank b row = Inr () \<longleftrightarrow>
     get_member row ''bank'' = JStr ''discover'' \<or>
     (\<exists>ss. get_member row ''bank'' = JArr (map JStr ss) \<and> ss \<noteq> [] \<and> length ss \<le> 128 \<and>
        list_all is_module_name ss \<and> distinct ss)"
  by (auto simp: check_bank_def all_texts_Some_iff guardR_def split: json.splits option.splits if_splits)

lemma lawful_check_bank [lawful_intros]: "lawful check_bank"
  by (auto simp: lawful_def check_bank_Inr_iff canonical_ofD(2))

text \<open>The count goes through \<open>_json_integer\<close>, which also takes integral floats; those are outside
  the model.\<close>

definition check_ran :: check where
  "check_ran integrity d =
     (case get_member d ''ran'' of
        JInt i \<Rightarrow> guardR (\<not> (0 \<le> i \<and> i \<le> 10000000)) (refusal integrity ''claim_declared_invalid'') (Inr ())
      | JFloat t \<Rightarrow> Inl NotModelled
      | _ \<Rightarrow> Inl (refusal integrity ''claim_declared_invalid''))"

lemma lawful_check_ran [lawful_intros]: "lawful check_ran"
proof -
  have "check_ran b d = Inr () \<longleftrightarrow> (\<exists>i. get_member d ''ran'' = JInt i \<and> 0 \<le> i \<and> i \<le> 10000000)" for b d
    by (auto simp: check_ran_def guardR_def split: json.splits)
  then show ?thesis by (auto simp: lawful_def canonical_ofD(2))
qed

definition check_declared :: check where
  "check_declared integrity row =
     (case get_member row ''declared'' of
        JObj d \<Rightarrow>
          if \<not> same_names d [''ran'', ''result''] then Inl (refusal integrity ''claim_declared_invalid'')
          else checks [check_ran, check_enum [''OK'', ''FAILED''] ''claim_declared_result'' ''result''] integrity d
      | _ \<Rightarrow> Inl (refusal integrity ''claim_declared_invalid''))"

lemma lawful_check_declared [lawful_intros]: "lawful check_declared"
  unfolding check_declared_def
  by (intro lawful_object lawful_checks) (simp add: lawful_checks_defs lawful_intros)

text \<open>A list of objects with the same fields, each under its own check.\<close>

fun objects_ok :: "string \<Rightarrow> string list \<Rightarrow> check \<Rightarrow> bool \<Rightarrow> json list \<Rightarrow> unit res" where
  "objects_ok code names f integrity [] = Inr ()"
| "objects_ok code names f integrity (v # vs) =
     (case v of
        JObj ms \<Rightarrow>
          if \<not> same_names ms names then Inl (refusal integrity code)
          else bindR (f integrity ms) (\<lambda>_. objects_ok code names f integrity vs)
      | _ \<Rightarrow> Inl (refusal integrity code))"

fun object_text :: "string \<Rightarrow> json \<Rightarrow> string" where
  "object_text name (JObj ms) = text_of ms name"
| "object_text name _ = []"

lemma objects_ok_canon:
  assumes "lawful f"
  shows "objects_ok code names f b vs = Inr () \<Longrightarrow> objects_ok code names f b' (map canon vs) = Inr ()"
proof (induction vs)
  case (Cons v vs)
  then obtain ms where ms: "v = JObj ms" "same_names ms names" "f b ms = Inr ()"
      "objects_ok code names f b vs = Inr ()"
    by (cases v) (auto simp: bindR_Inr_iff split: if_splits)
  let ?ns = "sort_key fst (map (map_prod id canon) ms)"
  note c = canonical_of_object [of ms]
  have "f b' ?ns = Inr ()" using assms ms(3) c unfolding lawful_def by blast
  then show ?case using ms Cons.IH canonical_ofD(3) [OF c] by simp
qed simp

lemma object_text_canon: "object_text name \<circ> canon = object_text name"
proof
  fix v
  show "(object_text name \<circ> canon) v = object_text name v"
    by (cases v) (simp_all add: text_of_canonical [OF canonical_of_object])
qed

definition check_artifacts :: check where
  "check_artifacts integrity row =
     (case get_member row ''artifacts'' of
        JArr vs \<Rightarrow>
          if length vs > 256 then Inl (refusal integrity ''claim_artifacts_invalid'')
          else bindR (objects_ok ''claim_artifacts_invalid'' [''path'', ''sha256'']
              (checks [text_field ''claim_artifact_path'' is_repository_document ''path'',
                       text_field ''claim_artifact_sha256'' is_sha256 ''sha256'']) integrity vs)
            (\<lambda>_. guardR (\<not> distinct (map (object_text ''path'') vs))
                   (refusal integrity ''claim_artifacts_invalid'') (Inr ()))
      | _ \<Rightarrow> Inl (refusal integrity ''claim_artifacts_invalid''))"

lemma lawful_check_artifacts [lawful_intros]: "lawful check_artifacts"
  unfolding lawful_def
proof (intro allI impI)
  fix b b' row row'
  let ?f = "checks [text_field ''claim_artifact_path'' is_repository_document ''path'',
    text_field ''claim_artifact_sha256'' is_sha256 ''sha256'']"
  let ?ok = "objects_ok ''claim_artifacts_invalid'' [''path'', ''sha256''] ?f"
  assume c: "canonical_of row row'" and ok: "check_artifacts b row = Inr ()"
  from ok obtain vs where vs: "get_member row ''artifacts'' = JArr vs" "length vs \<le> 256"
      "?ok b vs = Inr ()" "distinct (map (object_text ''path'') vs)"
    by (auto simp: check_artifacts_def bindR_Inr_iff guardR_def not_less split: json.splits if_splits)
  have "lawful ?f" by (intro lawful_checks) (simp add: lawful_intros)
  from objects_ok_canon [OF this vs(3)] have "?ok b' (map canon vs) = Inr ()" .
  then show "check_artifacts b' row' = Inr ()"
    using vs by (simp only: check_artifacts_def canonical_ofD(2) [OF c]) (simp add: guardR_def object_text_canon)
qed

definition delivery_claim_body :: check where
  "delivery_claim_body = checks
    [text_field ''claim_sha'' (hex_of_length 40) ''sha'',
     text_field ''claim_repo_path'' is_claim_path ''repo_path'', check_bank, check_declared,
     check_artifacts, check_record_ref ''msg-'' ''note_ref'',
     check_integer ''deadline_seconds'' 1 3600]"

definition delivery_claim_spec :: kind_spec where
  "delivery_claim_spec = \<lparr>
     ks_prefix = ''delivery-claim-'',
     ks_fields = COMMON @
       [''sha'', ''repo_path'', ''bank'', ''declared'', ''artifacts'', ''note_ref'',
        ''deadline_seconds''],
     ks_extras = (\<lambda>_. [[]]),
     ks_versions = [0],
     ks_body = delivery_claim_body\<rparr>"

lemma lawful_delivery_claim [lawful_kinds]: "lawful delivery_claim_body"
  unfolding delivery_claim_body_def
  by (rule lawful_checks) (simp add: lawful_checks_defs lawful_intros stable_simps)

definition is_absolute_text :: "string \<Rightarrow> bool" where
  "is_absolute_text s \<longleftrightarrow>
     1 \<le> length s \<and> length s \<le> 4096 \<and> starts_with ''/'' s \<and> \<not> terminal_unsafe s"

definition FOLLOWERS :: "string list" where
  "FOLLOWERS = [''tail_followers'', ''waiters'', ''monitors'']"

lemma canon_text_list [simp]: "canon v = JArr (map JStr ss) \<longleftrightarrow> v = JArr (map JStr ss)"
proof -
  have "map canon vs = map JStr ss \<longleftrightarrow> vs = map JStr ss" for vs
    by (induction ss arbitrary: vs) (auto simp: map_eq_Cons_conv)
  then show ?thesis by (cases v) auto
qed

definition plane_counts_ok :: "members \<Rightarrow> bool" where
  "plane_counts_ok p \<longleftrightarrow>
     list_all (\<lambda>plane. integer_in plane 0 (2 ^ 63 - 1) p) [''events'', ''deliveries'', ''acks''] \<and>
     integer_of p ''events'' = 1"

lemma plane_counts_canonical: "canonical_of row row' \<Longrightarrow> plane_counts_ok row' = plane_counts_ok row"
  by (simp add: plane_counts_ok_def integer_in_canonical integer_of_canonical)

definition plane_total :: "members \<Rightarrow> int" where
  "plane_total row =
     (case get_member row ''plane_counts'' of
        JObj p \<Rightarrow> integer_of p ''events'' + integer_of p ''deliveries'' + integer_of p ''acks''
      | _ \<Rightarrow> 0)"

lemma plane_total_canonical: "canonical_of row row' \<Longrightarrow> plane_total row' = plane_total row"
  by (cases "get_member row ''plane_counts''")
     (simp_all add: plane_total_def canonical_ofD(2) integer_of_canonical [OF canonical_of_object])

definition bus_epoch_roll_receipt_body :: check where
  "bus_epoch_roll_receipt_body = checks
    [text_field ''archive_path'' is_absolute_text ''archive_path'', check_ident ''actor'',
     check_bounded ''idempotency_key'' 1 128,
     require ''invalidated_followers_invalid''
       (\<lambda>row. get_member row ''invalidated_followers'' = JArr (map JStr FOLLOWERS)),
     check_ident ''epoch_id'', check_sha256 ''archive_sha256'',
     check_integer ''archive_file_count'' 1 (2 ^ 63 - 1),
     check_object ''span'' [''byte_start'', ''byte_end''] (require ''span_invalid'' (\<lambda>s.
       get_member s ''byte_start'' = JInt 0 \<and> integer_in ''byte_end'' 0 (2 ^ 63 - 1) s)),
     check_object ''plane_counts'' [''events'', ''deliveries'', ''acks''] (require
       ''plane_counts_invalid'' plane_counts_ok),
     require ''plane_counts_invalid''
       (\<lambda>row. plane_total row = integer_of row ''archive_file_count'')]"

definition bus_epoch_roll_receipt_spec :: kind_spec where
  "bus_epoch_roll_receipt_spec = \<lparr>
     ks_prefix = ''bus-epoch-roll-receipt-'',
     ks_fields = COMMON @
       [''archive_path'', ''actor'', ''idempotency_key'', ''invalidated_followers'', ''epoch_id'',
        ''span'', ''archive_sha256'', ''archive_file_count'', ''plane_counts''],
     ks_extras = (\<lambda>_. [[]]),
     ks_versions = [1],
     ks_body = bus_epoch_roll_receipt_body\<rparr>"

lemma lawful_bus_epoch_roll_receipt [lawful_kinds]: "lawful bus_epoch_roll_receipt_body"
  unfolding bus_epoch_roll_receipt_body_def
  by (rule lawful_checks)
    (simp add: lawful_checks_defs lawful_intros stable_simps plane_total_canonical
      plane_counts_canonical)

definition is_natural :: "string \<Rightarrow> members \<Rightarrow> bool" where
  "is_natural name row \<longleftrightarrow> (case get_member row name of JInt i \<Rightarrow> 0 \<le> i | _ \<Rightarrow> False)"

lemma is_natural_canonical: "canonical_of row row' \<Longrightarrow> is_natural name row' = is_natural name row"
  by (cases "get_member row name") (simp_all add: is_natural_def canonical_ofD(2))

definition check_coordinate :: "string \<Rightarrow> check" where
  "check_coordinate pos integrity r =
     (case get_member r pos of
        JObj c \<Rightarrow>
          if \<not> same_names c [''device'', ''inode''] then Inl (refusal integrity ''replaced_inode_invalid'')
          else require ''replaced_inode_invalid''
            (\<lambda>c. is_natural ''device'' c \<and> is_natural ''inode'' c) integrity c
      | _ \<Rightarrow> Inl (refusal integrity ''replaced_inode_invalid''))"

lemma lawful_check_coordinate [lawful_intros]: "lawful (check_coordinate pos)"
  unfolding check_coordinate_def
  by (rule lawful_object) (simp add: lawful_intros stable_simps is_natural_canonical)

definition coordinate_of :: "string \<Rightarrow> members \<Rightarrow> int \<times> int" where
  "coordinate_of pos r =
     (case get_member r pos of
        JObj c \<Rightarrow> (integer_of c ''device'', integer_of c ''inode'') | _ \<Rightarrow> (0, 0))"

lemma coordinate_of_canonical:
  "canonical_of row row' \<Longrightarrow> coordinate_of pos row' = coordinate_of pos row"
  by (cases "get_member row pos")
     (simp_all add: coordinate_of_def canonical_ofD(2) integer_of_canonical [OF canonical_of_object])

definition ledger_repair_receipt_body :: check where
  "ledger_repair_receipt_body = checks
    [require ''repair_ledger_invalid'' (\<lambda>row. member_is ''ledger'' ''events.jsonl'' row),
     check_bounded ''record_id'' 1 256, check_bounded ''idempotency_key'' 1 128,
     check_sha256 ''original_digest'', check_sha256 ''repaired_digest'',
     check_sha256 ''quarantine_digest'',
     text_field ''quarantine_path'' is_absolute_text ''quarantine_path'',
     check_object ''replaced_inode'' [''before'', ''after'', ''changed''] (checks
       [check_coordinate ''before'', check_coordinate ''after'', require
       ''replaced_inode_invalid'' (\<lambda>r. get_member r ''changed'' = JBool True \<and>
       coordinate_of ''before'' r \<noteq> coordinate_of ''after'' r)]),
     require ''invalidated_followers_invalid''
       (\<lambda>row. get_member row ''invalidated_followers'' = JArr (map JStr FOLLOWERS))]"

definition ledger_repair_receipt_spec :: kind_spec where
  "ledger_repair_receipt_spec = \<lparr>
     ks_prefix = ''ledger-repair-receipt-'',
     ks_fields = COMMON @
       [''ledger'', ''record_id'', ''idempotency_key'', ''original_digest'', ''repaired_digest'',
        ''quarantine_path'', ''quarantine_digest'', ''replaced_inode'', ''invalidated_followers''],
     ks_extras = (\<lambda>_. [[]]),
     ks_versions = [1],
     ks_body = ledger_repair_receipt_body\<rparr>"

lemma lawful_ledger_repair_receipt [lawful_kinds]: "lawful ledger_repair_receipt_body"
  unfolding ledger_repair_receipt_body_def
  by (rule lawful_checks)
    (simp add: lawful_checks_defs lawful_intros stable_simps coordinate_of_canonical)

end
