(* ===== verification/Governed_Kinds.thy ===== *)
theory Governed_Kinds
  imports Mail_Kinds
begin

text \<open>
  \<open>SPECS\<close> is the part of \<open>_SPECS\<close> that the development models; a kind outside it reads as
  \<open>record_kind_invalid\<close>, as a kind does that a ledger does not allow.  The two kinds that only the
  mail ledgers hold, the epoch roll receipt and the wake hold, are added in \<open>Mail_Ledger\<close>.  Every branch of the table is
  lawful, so \<open>validate_record\<close> on it meets the contracts of the journal and of the ledgers.
\<close>

definition governed_kinds :: "(string \<times> kind_spec) list" where
  "governed_kinds =
    [(''acceptance_receipt'', acceptance_receipt_spec), (''ack_receipt'', ack_receipt_spec),
     (''approval_consumed_for_resume'', approval_consumed_for_resume_spec),
     (''approval_decision'', approval_decision_spec),
     (''approval_request'', approval_request_spec),
     (''attempt_cancelled_before_start'', attempt_cancelled_before_start_spec),
     (''attempt_opened'', attempt_opened_spec),
     (''attempt_spawn_policy_bound'', attempt_spawn_policy_bound_spec),
     (''attempt_started'', attempt_started_spec),
     (''attempt_suspended_for_approval'', attempt_suspended_for_approval_spec),
     (''attempt_terminal'', attempt_terminal_spec), (''authority_grant'', authority_grant_spec),
     (''bridge_consent'', bridge_consent_spec), (''bridge_denial'', bridge_denial_spec),
     (''bridge_forward'', bridge_forward_spec), (''bridge_record'', bridge_record_spec),
     (''cancel_observed'', cancel_observed_spec), (''cancel_requested'', cancel_requested_spec),
     (''cancel_scope_resolved'', cancel_scope_resolved_spec),
     (''cancel_signal_sent'', cancel_signal_sent_spec),
     (''cancel_terminal'', cancel_terminal_spec),
     (''cancel_unconfirmed'', cancel_unconfirmed_spec), (''capability'', capability_spec),
     (''capability_revoked'', capability_revoked_spec), (''child_admitted'', child_admitted_spec),
     (''child_rejected'', child_rejected_spec),
     (''codex_wait_consent_receipt'', codex_wait_consent_receipt_spec),
     (''codex_wait_exhaustion_receipt'', codex_wait_exhaustion_receipt_spec),
     (''codex_wait_session_receipt'', codex_wait_session_receipt_spec),
     (''compensation_executed'', compensation_executed_spec),
     (''compensation_proposed'', compensation_proposed_spec),
     (''confluence_grant'', confluence_grant_spec),
     (''credential_lease_consumed'', credential_lease_consumed_spec),
     (''credential_lease_granted'', credential_lease_granted_spec),
     (''credential_lease_revoked'', credential_lease_revoked_spec),
     (''delivery_claim'', delivery_claim_spec), (''delivery_receipt'', delivery_receipt_spec),
     (''denial_receipt'', denial_receipt_spec),
     (''descendant_observation_closed'', descendant_observation_closed_spec),
     (''dispatch_decision'', dispatch_decision_spec),
     (''effect_acknowledged'', effect_acknowledged_spec),
     (''effect_confirmed'', effect_confirmed_spec),
     (''effect_dispatched'', effect_dispatched_spec), (''effect_failed'', effect_failed_spec),
     (''effect_intent'', effect_intent_spec), (''effect_reconciled'', effect_reconciled_spec),
     (''effect_unknown'', effect_unknown_spec),
     (''journal_checkpoint_state'', journal_checkpoint_state_spec),
     (''ledger_repair_receipt'', ledger_repair_receipt_spec),
     (''liveness_presence'', liveness_presence_spec),
     (''message_envelope'', message_envelope_spec),
     (''message_retracted'', message_retracted_spec),
     (''mutual_exclusion_hold'', mutual_exclusion_hold_spec), (''node_lease'', node_lease_spec),
     (''prep_clear_receipt'', prep_clear_receipt_spec),
     (''provider_switch_receipt'', provider_switch_receipt_spec),
     (''registry_entry'', registry_entry_spec),
     (''registry_role_transfer'', registry_role_transfer_spec),
     (''result_accepted'', result_accepted_spec), (''result_produced'', result_produced_spec),
     (''result_verified'', result_verified_spec), (''retry_exhausted'', retry_exhausted_spec),
     (''retry_scheduled'', retry_scheduled_spec),
     (''role_template_write_receipt'', role_template_write_receipt_spec),
     (''run_created'', run_created_spec), (''run_policy_bound'', run_policy_bound_spec),
     (''run_terminal'', run_terminal_spec), (''seat_board_receipt'', seat_board_receipt_spec),
     (''segment_opened'', segment_opened_spec), (''sequencer_epoch'', sequencer_epoch_spec),
     (''session_adoption'', session_adoption_spec), (''session_release'', session_release_spec),
     (''spawn_child_cancelled_without_attempt'', spawn_child_cancelled_without_attempt_spec),
     (''spawn_group_aborted'', spawn_group_aborted_spec),
     (''spawn_group_closed'', spawn_group_closed_spec),
     (''spawn_group_created'', spawn_group_created_spec),
     (''spawn_late_result_disposition'', spawn_late_result_disposition_spec),
     (''stale_attempt_evidence'', stale_attempt_evidence_spec),
     (''stale_evidence_adopted'', stale_evidence_adopted_spec),
     (''supervisor_orphaned'', supervisor_orphaned_spec),
     (''untracked_descendant'', untracked_descendant_spec),
     (''wake_attempt_receipt'', wake_attempt_receipt_spec), (''wake_cause'', wake_cause_spec),
     (''wake_control_receipt'', wake_control_receipt_spec),
     (''wake_daemon_consent_receipt'', wake_daemon_consent_receipt_spec),
     (''wake_daemon_lifecycle_receipt'', wake_daemon_lifecycle_receipt_spec),
     (''wake_waiter_exit_receipt'', wake_waiter_exit_receipt_spec),
     (''work_item'', work_item_spec), (''work_transition'', work_transition_spec),
     (''worker_pool_bound'', worker_pool_bound_spec), (''worker_receipt'', worker_receipt_spec),
     (''worker_refusal'', worker_refusal_spec)]"

definition SPECS :: schema where
  "SPECS = map_of governed_kinds"

lemmas spec_defs =
  acceptance_receipt_spec_def ack_receipt_spec_def approval_consumed_for_resume_spec_def
  approval_decision_spec_def approval_request_spec_def attempt_cancelled_before_start_spec_def
  attempt_opened_spec_def attempt_spawn_policy_bound_spec_def attempt_started_spec_def
  attempt_suspended_for_approval_spec_def attempt_terminal_spec_def authority_grant_spec_def
  bridge_consent_spec_def bridge_denial_spec_def bridge_forward_spec_def
  bridge_record_spec_def cancel_observed_spec_def cancel_requested_spec_def
  cancel_scope_resolved_spec_def cancel_signal_sent_spec_def cancel_terminal_spec_def
  cancel_unconfirmed_spec_def capability_spec_def capability_revoked_spec_def
  child_admitted_spec_def child_rejected_spec_def codex_wait_consent_receipt_spec_def
  codex_wait_exhaustion_receipt_spec_def codex_wait_session_receipt_spec_def
  compensation_executed_spec_def compensation_proposed_spec_def confluence_grant_spec_def
  credential_lease_consumed_spec_def credential_lease_granted_spec_def
  credential_lease_revoked_spec_def delivery_claim_spec_def delivery_receipt_spec_def
  denial_receipt_spec_def descendant_observation_closed_spec_def dispatch_decision_spec_def
  effect_acknowledged_spec_def effect_confirmed_spec_def effect_dispatched_spec_def
  effect_failed_spec_def effect_intent_spec_def effect_reconciled_spec_def
  effect_unknown_spec_def journal_checkpoint_state_spec_def ledger_repair_receipt_spec_def
  liveness_presence_spec_def message_envelope_spec_def message_retracted_spec_def
  mutual_exclusion_hold_spec_def node_lease_spec_def prep_clear_receipt_spec_def
  provider_switch_receipt_spec_def registry_entry_spec_def registry_role_transfer_spec_def
  result_accepted_spec_def result_produced_spec_def result_verified_spec_def
  retry_exhausted_spec_def retry_scheduled_spec_def role_template_write_receipt_spec_def
  run_created_spec_def run_policy_bound_spec_def run_terminal_spec_def
  seat_board_receipt_spec_def segment_opened_spec_def sequencer_epoch_spec_def
  session_adoption_spec_def session_release_spec_def
  spawn_child_cancelled_without_attempt_spec_def spawn_group_aborted_spec_def
  spawn_group_closed_spec_def spawn_group_created_spec_def
  spawn_late_result_disposition_spec_def stale_attempt_evidence_spec_def
  stale_evidence_adopted_spec_def supervisor_orphaned_spec_def untracked_descendant_spec_def
  wake_attempt_receipt_spec_def wake_cause_spec_def wake_control_receipt_spec_def
  wake_daemon_consent_receipt_spec_def wake_daemon_lifecycle_receipt_spec_def
  wake_waiter_exit_receipt_spec_def work_item_spec_def work_transition_spec_def
  worker_pool_bound_spec_def worker_receipt_spec_def worker_refusal_spec_def

lemma governed_lawful: "list_all (\<lambda>(kind, spec). lawful (ks_body spec)) governed_kinds"
  by (simp add: governed_kinds_def spec_defs lawful_kinds)

interpretation governed: kind_table SPECS
proof
  fix kind spec
  assume "SPECS kind = Some spec"
  then have "(kind, spec) \<in> set governed_kinds" by (simp add: SPECS_def map_of_SomeD)
  then show "lawful (ks_body spec)" using governed_lawful by (auto simp: list_all_iff)
qed

text \<open>The table is in the order of its kinds, so every entry is what a lookup finds.\<close>

lemma governed_sorted: "sorted_wrt (<) (map fst governed_kinds)"
  by (simp add: governed_kinds_def sorted_wrt1 sorted_wrt2 del: sorted_wrt.simps)

lemma governed_entries: "list_all (\<lambda>(kind, spec). SPECS kind = Some spec) governed_kinds"
  using governed_sorted by (auto simp: list_all_iff strict_sorted_iff SPECS_def)

lemmas governed_lookups = governed_entries [unfolded governed_kinds_def list.pred_inject prod.case]

interpretation governed_records: journal_records "validate_record SPECS tenant allowed"
  for tenant allowed
  by unfold_locales (fact governed.validate_reread, fact validate_record_paired)

end
