(* ===== verification/Kind_Properties.thy ===== *)
theory Kind_Properties
  imports Governed_Kinds
begin

text \<open>
  What the record contracts of \<open>floati/records.py\<close> promise: a record that may be appended is read
  back from its frame, and what an accepted authority interval and an accepted attempt terminal
  are.
\<close>

section \<open>From a validated record to its branch\<close>

text \<open>The members a branch sees: all but the chain.\<close>

definition unchained :: "members \<Rightarrow> members \<Rightarrow> bool" where
  "unchained ms row \<longleftrightarrow> (\<forall>k. k \<notin> set chain_fields \<longrightarrow> get_member row k = get_member ms k)"

lemma unchainedD: "unchained ms row \<Longrightarrow> k \<notin> set chain_fields \<Longrightarrow> get_member row k = get_member ms k"
  by (simp add: unchained_def)

lemma validated_branch:
  assumes "validate_record specs tenant allowed b (JObj ms) = Inr r"
    and "get_member ms ''kind'' = JStr kind" "specs kind = Some spec"
  shows "\<exists>row. ks_body spec b row = Inr () \<and> unchained ms row"
proof -
  obtain row chain where rc: "split_chain b ms = Inr (row, chain)"
      "check_envelope specs tenant allowed b row = Inr ()"
    using assms(1) by (auto simp: validate_record_def bindR_Inr_iff)
  have "row = ms \<or> row = filter (\<lambda>(k, v). k \<notin> set chain_fields) ms"
    using rc(1) by (auto simp: split_chain_def Let_def split: if_splits json.splits)
  then have same: "unchained ms row" by (auto simp: unchained_def get_member_filter)
  then have "get_member row ''kind'' = JStr kind" using assms(2) by (simp add: unchainedD chain_fields_def)
  then have "ks_body spec b row = Inr ()"
    using rc(2) assms(3) by (auto simp: check_envelope_def bindR_Inr_iff split: json.splits if_splits)
  with same show ?thesis by blast
qed

lemma require_Inr_iff: "require code P b row = Inr () \<longleftrightarrow> P row"
  by (auto simp: require_def guardR_def)

lemma only_if_Inr_iff: "only_if P f b row = Inr () \<longleftrightarrow> (P row \<longrightarrow> f b row = Inr ())"
  by (simp add: only_if_def)

lemmas branch_iff =
  checks_Inr_iff list.pred_inject check_nullable_def lawful_checks_defs require_Inr_iff
  only_if_Inr_iff text_field_Inr_iff check_integer_Inr_iff check_texts_Inr_iff

section \<open>Reading back what was appended\<close>

text \<open>C30: a record that \<open>validate_record\<close> lets a writer append is, once its frame is on the file,
  decoded to the canonical form of the same members and accepted by the reader, member for
  member.\<close>

theorem appended_record_rereads:
  assumes "validate_record SPECS tenant allowed False (JObj ms) = Inr r" "plain (JObj ms)"
  shows "\<exists>rs. encode_frame r = Inr (frame r) \<and> decode_frames (frame r) = Inr [canon r] \<and>
    validate_record SPECS tenant allowed True (canon r) = Inr (JObj rs) \<and>
    member_names rs = member_names ms \<and> (\<forall>k. get_member rs k = canon (get_member ms k))"
proof -
  have plain: "plain r" using validate_record_members [OF assms] by blast
  obtain rs where rs: "validate_record SPECS tenant allowed True (canon r) = Inr (JObj rs)"
      "canonical_of ms rs"
    using governed.validate_reread [OF assms] by blast
  have "decode_frames (concat (map frame [r])) = Inr (map canon [r])"
    by (rule decode_frames_concat) (use plain in simp)
  with rs plain show ?thesis
    by (auto simp: canonical_of_def simp del: canon.simps)
qed

section \<open>Intervals\<close>

lemma interval_body_Inr:
  assumes "interval_body subject first b row = Inr ()"
  shows "1 \<le> integer_of row ''epoch''" "integer_of row ''deadline_seconds'' \<le> integer_of row ''ttl_seconds''"
    "integer_of row ''ttl_seconds'' \<le> 86400" "1 \<le> integer_of row ''deadline_seconds''"
    "time_of row first \<le> time_of row ''renewed_at''"
    "time_of row ''renewed_at'' \<le> time_of row ''expires_at''"
    "member_is ''state'' ''released'' row \<longleftrightarrow> get_member row ''released_at'' \<noteq> JNull"
    "get_member row ''released_at'' = JNull \<or> time_of row ''renewed_at'' \<le> time_of row ''released_at''"
  using assms unfolding interval_body_def branch_iff
  by (auto simp: integer_of_def later_def absent_value_def)

lemma governed_interval:
  "SPECS ''authority_grant'' = Some authority_grant_spec"
  "SPECS ''mutual_exclusion_hold'' = Some mutual_exclusion_hold_spec"
  "SPECS ''attempt_terminal'' = Some attempt_terminal_spec"
  by (simp_all add: governed_lookups)

text \<open>An authority grant or a hold that is accepted has a positive epoch, a deadline within its
  time to live of at most a day, a claim, renewal and expiry in this order, and a release, not
  before the renewal, exactly when its state says so.\<close>

theorem accepted_interval_ordered:
  assumes "validate_record SPECS tenant allowed b (JObj ms) = Inr r"
    and "get_member ms ''kind'' = JStr kind"
    and "(kind, first) \<in> {(''authority_grant'', ''claimed_at''), (''mutual_exclusion_hold'', ''acquired_at'')}"
  shows "1 \<le> integer_of ms ''epoch'' \<and>
    1 \<le> integer_of ms ''deadline_seconds'' \<and>
    integer_of ms ''deadline_seconds'' \<le> integer_of ms ''ttl_seconds'' \<and>
    integer_of ms ''ttl_seconds'' \<le> 86400 \<and>
    time_of ms first \<le> time_of ms ''renewed_at'' \<and>
    time_of ms ''renewed_at'' \<le> time_of ms ''expires_at'' \<and>
    (member_is ''state'' ''released'' ms \<longleftrightarrow> get_member ms ''released_at'' \<noteq> JNull) \<and>
    (get_member ms ''released_at'' = JNull \<or> time_of ms ''renewed_at'' \<le> time_of ms ''released_at'')"
proof -
  have "\<exists>row subject. interval_body subject first b row = Inr () \<and> unchained ms row"
    using assms(3)
  proof (elim insertE emptyE)
    assume k: "(kind, first) = (''authority_grant'', ''claimed_at'')"
    then show ?thesis
      using validated_branch [OF assms(1,2), of authority_grant_spec]
      by (auto simp: governed_interval authority_grant_spec_def)
  next
    assume k: "(kind, first) = (''mutual_exclusion_hold'', ''acquired_at'')"
    then show ?thesis
      using validated_branch [OF assms(1,2), of mutual_exclusion_hold_spec]
      by (auto simp: governed_interval mutual_exclusion_hold_spec_def)
  qed
  then obtain row subject where row: "interval_body subject first b row = Inr ()" "unchained ms row"
    by (elim exE conjE)
  have first: "first \<notin> set chain_fields" using assms(3) by (auto simp: chain_fields_def)
  have same: "get_member row k = get_member ms k" if "k \<notin> set chain_fields" for k
    using unchainedD [OF row(2) that] .
  show ?thesis
    using interval_body_Inr [OF row(1)] same [OF first]
    by (simp add: integer_of_def time_of_def text_of_def member_is_def same chain_fields_def)
qed

section \<open>Attempt terminals\<close>

lemma terminal_body_Inr:
  assumes "attempt_terminal_body b row = Inr ()"
  shows "member_is ''terminal_state'' ''completed'' row \<Longrightarrow>
      get_member row ''policy_class'' = JNull \<and> get_member row ''reason_code'' = JStr ''completed''"
    "\<not> member_is ''terminal_state'' ''completed'' row \<Longrightarrow> get_member row ''policy_class'' \<noteq> JNull"
    "member_is ''retry_disposition'' ''scheduled'' row \<longleftrightarrow> get_member row ''next_attempt_id'' \<noteq> JNull"
    "member_is ''retry_disposition'' ''none'' row \<longleftrightarrow> get_member row ''retry_record_id'' = JNull"
    "member_is ''retry_disposition'' ''scheduled'' row \<Longrightarrow>
      1 \<le> integer_of row ''next_ordinal'' \<and> integer_of row ''next_ordinal'' \<le> 32"
proof -
  let ?is = "\<lambda>f v. get_member row f = JStr v"
  have completed: "?is ''terminal_state'' ''completed'' \<longrightarrow>
      get_member row ''policy_class'' = JNull \<and> ?is ''reason_code'' ''completed''"
    using assms unfolding attempt_terminal_body_def branch_iff absent_value_def member_is_def by (elim conjE)
  have other: "\<not> ?is ''terminal_state'' ''completed'' \<longrightarrow> (\<exists>s. get_member row ''policy_class'' = JStr s)"
    using assms unfolding attempt_terminal_body_def branch_iff absent_value_def member_is_def by blast
  have kinds: "\<exists>s. get_member row ''retry_disposition'' = JStr s \<and> s \<in> set [''none'', ''scheduled'', ''exhausted'']"
    using assms unfolding attempt_terminal_body_def branch_iff by (elim conjE)
  have none: "?is ''retry_disposition'' ''none'' \<longrightarrow> list_all (\<lambda>f. absent_value f row) RETRY_CLOSURE"
    using assms unfolding attempt_terminal_body_def branch_iff member_is_def by (elim conjE)
  have scheduled: "?is ''retry_disposition'' ''scheduled'' \<longrightarrow>
      (\<exists>s. get_member row ''retry_record_id'' = JStr s) \<and> (\<exists>s. get_member row ''next_attempt_id'' = JStr s) \<and>
      (\<exists>i. get_member row ''next_ordinal'' = JInt i \<and> 1 \<le> i \<and> i \<le> 32)"
    using assms unfolding attempt_terminal_body_def branch_iff member_is_def by blast
  have exhausted: "?is ''retry_disposition'' ''exhausted'' \<longrightarrow>
      (\<exists>s. get_member row ''retry_record_id'' = JStr s) \<and> list_all (\<lambda>f. absent_value f row) (tl RETRY_CLOSURE)"
    using assms unfolding attempt_terminal_body_def branch_iff member_is_def by blast
  show "member_is ''terminal_state'' ''completed'' row \<Longrightarrow>
      get_member row ''policy_class'' = JNull \<and> get_member row ''reason_code'' = JStr ''completed''"
    using completed by (simp add: member_is_def)
  show "\<not> member_is ''terminal_state'' ''completed'' row \<Longrightarrow> get_member row ''policy_class'' \<noteq> JNull"
    using other by (auto simp: member_is_def)
  show "member_is ''retry_disposition'' ''scheduled'' row \<longleftrightarrow> get_member row ''next_attempt_id'' \<noteq> JNull"
    "member_is ''retry_disposition'' ''none'' row \<longleftrightarrow> get_member row ''retry_record_id'' = JNull"
    "member_is ''retry_disposition'' ''scheduled'' row \<Longrightarrow>
      1 \<le> integer_of row ''next_ordinal'' \<and> integer_of row ''next_ordinal'' \<le> 32"
    using kinds none scheduled exhausted
    by (auto simp: member_is_def absent_value_def RETRY_CLOSURE_def integer_of_def)
qed

text \<open>An accepted attempt terminal carries no policy class when it completed and one when it did
  not; it names a retry record unless its disposition is none, and a next attempt, with an ordinal
  within the limit, exactly when a retry is scheduled.\<close>

theorem accepted_terminal_closed:
  assumes "validate_record SPECS tenant allowed b (JObj ms) = Inr r"
    and "get_member ms ''kind'' = JStr ''attempt_terminal''"
  shows "(member_is ''terminal_state'' ''completed'' ms \<longleftrightarrow> get_member ms ''policy_class'' = JNull) \<and>
    (member_is ''retry_disposition'' ''none'' ms \<longleftrightarrow> get_member ms ''retry_record_id'' = JNull) \<and>
    (member_is ''retry_disposition'' ''scheduled'' ms \<longleftrightarrow> get_member ms ''next_attempt_id'' \<noteq> JNull) \<and>
    (get_member ms ''next_attempt_id'' = JNull \<or>
      1 \<le> integer_of ms ''next_ordinal'' \<and> integer_of ms ''next_ordinal'' \<le> 32)"
proof -
  obtain row where row: "attempt_terminal_body b row = Inr ()" "unchained ms row"
    using validated_branch [OF assms governed_interval(3)] by (auto simp: attempt_terminal_spec_def)
  have same: "get_member row k = get_member ms k" if "k \<notin> set chain_fields" for k
    using unchainedD [OF row(2) that] .
  show ?thesis
    using terminal_body_Inr [OF row(1)]
    by (auto simp: integer_of_def member_is_def same chain_fields_def)
qed

section \<open>Worked examples\<close>

definition example_grant :: members where
  "example_grant =
     [(''schema_version'', JInt 0), (''id'', JStr ''authority-0198c0de00017000a000000000000001''),
      (''tenant_id'', JStr ''acme''), (''timestamp'', JStr ''2026-02-28T10:00:00Z''),
      (''kind'', JStr ''authority_grant''), (''subject_id'', JStr ''main''), (''holder'', JStr ''ada''),
      (''epoch'', JInt 1), (''claimed_at'', JStr ''2026-02-28T10:00:00Z''),
      (''renewed_at'', JStr ''2026-02-28T10:00:00Z''), (''expires_at'', JStr ''2026-02-28T11:00:00Z''),
      (''released_at'', JNull), (''ttl_seconds'', JInt 3600), (''deadline_seconds'', JInt 60),
      (''state'', JStr ''active'')]"

lemma example_grant_valid:
  "validate_record SPECS ''acme'' [''authority_grant''] False (JObj example_grant) = Inr (JObj example_grant)"
  by (simp add: example_grant_def evaluate governed_interval authority_grant_spec_def interval_body_def
      member_names_def checks.simps check_nullable_def only_if_def require_def absent_value_def later_def
      time_of_def text_of_def integer_of_def check_enum_def member_is_def)

lemma appended_record_rereads_witness:
  "\<exists>rs. validate_record SPECS ''acme'' [''authority_grant''] True (canon (JObj example_grant)) = Inr (JObj rs) \<and>
     get_member rs ''holder'' = JStr ''ada''"
proof -
  have "plain (JObj example_grant)" by (simp add: example_grant_def)
  from appended_record_rereads [OF example_grant_valid this] show ?thesis
    by (auto simp: example_grant_def get_member_def simp del: canon.simps(7))
qed

lemma accepted_interval_ordered_witness:
  "time_of example_grant ''claimed_at'' \<le> time_of example_grant ''renewed_at''"
  using accepted_interval_ordered [OF example_grant_valid, of "''authority_grant''" "''claimed_at''"]
  by (simp add: example_grant_def get_member_def)

definition example_terminal :: members where
  "example_terminal =
     [(''schema_version'', JInt 0), (''id'', JStr ''attempt-terminal-0198c0de00017000a000000000000001''),
      (''tenant_id'', JStr ''acme''), (''timestamp'', JStr ''2026-02-28T10:00:00Z''),
      (''kind'', JStr ''attempt_terminal''), (''run_id'', JStr ''run-0198c0de00017000a000000000000001''),
      (''item_id'', JStr ''work-0198c0de00017000a000000000000001''),
      (''attempt_id'', JStr ''attempt-0198c0de00017000a000000000000001''), (''ordinal'', JInt 1),
      (''attempt_started_id'', JStr ''attempt-started-0198c0de00017000a000000000000001''),
      (''fence_token'', JStr (replicate 64 CHR ''f'')), (''terminal_state'', JStr ''completed''),
      (''policy_class'', JNull), (''reason_code'', JStr ''completed''),
      (''effect_safety'', JStr ''idempotent''), (''retry_disposition'', JStr ''none''),
      (''retry_record_id'', JNull), (''next_attempt_id'', JNull), (''next_ordinal'', JNull),
      (''retry_delay_ms'', JNull), (''next_scheduler_epoch'', JNull), (''next_fence_token'', JNull)]"

lemma example_terminal_valid:
  "validate_record SPECS ''acme'' [''attempt_terminal''] False (JObj example_terminal) = Inr (JObj example_terminal)"
  by (simp add: example_terminal_def evaluate governed_interval attempt_terminal_spec_def attempt_terminal_body_def
      member_names_def checks.simps only_if_def require_def absent_value_def check_run_id_def check_run_item_id_def
      check_attempt_id_def check_record_ref_def check_enum_def member_is_def RETRY_CLOSURE_def)

lemma accepted_terminal_closed_witness:
  "get_member example_terminal ''policy_class'' = JNull \<and> get_member example_terminal ''next_attempt_id'' = JNull"
  using accepted_terminal_closed [OF example_terminal_valid]
  by (simp add: example_terminal_def get_member_def member_is_def)

end
