(* ===== verification/Ledger_Bytes.thy ===== *)
theory Ledger_Bytes
  imports Governed_Kinds Ledger_Store "HOL-Library.Multiset"
begin

text \<open>
  The ledger primitives of \<open>floati/jsonl.py\<close> on the bytes of the file: reading with all bounds,
  encoding, the append with its short-write rollback, and \<open>transact_exact_frame\<close>, which shows the
  deciding client the exact lines.  The record validator restricted to tenant and kinds is the
  argument \<open>validate\<close>.  \<open>Ledger_Store\<close> is the abstract view of the same file as a list of rows,
  and the last section shows that the bytes refine it.
\<close>

section \<open>Reading\<close>

definition record_kind :: "json \<Rightarrow> json" where
  "record_kind r = (case r of JObj ms \<Rightarrow> get_member ms ''kind'' | _ \<Rightarrow> JNull)"

fun decode_records ::
    "(bool \<Rightarrow> json \<Rightarrow> json res) \<Rightarrow> nat \<Rightarrow> json set \<Rightarrow> json list \<Rightarrow> json list res" where
  "decode_records validate line_number seen [] = Inr []"
| "decode_records validate line_number seen (raw # raws) =
     (if line_number > MAX_LEDGER_RECORDS then Inl (IntegrityFailure ''ledger_record_limit'')
      else if record_kind raw = JStr ''bus_epoch_roll_receipt'' \<and> line_number \<noteq> 1
        then Inl (IntegrityFailure ''bus_epoch_roll_receipt_position_invalid'')
      else bindR (validate True raw) (\<lambda>record.
        if record_id record \<in> seen then Inl (IntegrityFailure ''duplicate_record_id'')
        else bindR (decode_records validate (Suc line_number) (insert (record_id record) seen) raws)
               (\<lambda>rest. Inr (record # rest))))"

definition ledger_code :: "string \<Rightarrow> string" where
  "ledger_code code =
     (if code = ''incomplete_frame'' then ''incomplete_jsonl_line''
      else if code = ''blank_frame'' then ''blank_jsonl_line''
      else code)"

definition read_ledger :: "(bool \<Rightarrow> json \<Rightarrow> json res) \<Rightarrow> string \<Rightarrow> json list res" where
  "read_ledger validate data =
     (if length data > MAX_LEDGER_BYTES then Inl (IntegrityFailure ''ledger_too_large'')
      else if list_ex (\<lambda>raw. length raw + 1 > MAX_RECORD_BYTES) (split_lines data)
        then Inl (IntegrityFailure ''record_too_large'')
      else (case decode_frames data of
              Inl (FrameError code _) \<Rightarrow> Inl (IntegrityFailure (ledger_code code))
            | Inl OutsideModel \<Rightarrow> Inl NotModelled
            | Inr framed \<Rightarrow> decode_records validate 1 {} framed))"

section \<open>Writing\<close>

definition encode_line :: "(bool \<Rightarrow> json \<Rightarrow> json res) \<Rightarrow> json \<Rightarrow> string res" where
  "encode_line validate record =
     bindR (validate False record) (\<lambda>r.
       case encode_frame r of
         Inl (FrameError code _) \<Rightarrow> Inl (ProtocolRefusal code)
       | Inl OutsideModel \<Rightarrow> Inl NotModelled
       | Inr encoded \<Rightarrow>
           if length encoded > MAX_RECORD_BYTES then Inl (ProtocolRefusal ''record_too_large'')
           else Inr encoded)"

definition append_bytes :: "string \<Rightarrow> string \<Rightarrow> string res" where
  "append_bytes data encoded =
     (if length data + length encoded > MAX_LEDGER_BYTES then Inl (ProtocolRefusal ''ledger_too_large'')
      else Inr (data @ encoded))"

text \<open>What the operating system did with one append: how many bytes \<open>os.write\<close> took, whether
  \<open>os.fsync\<close> returned or with which fault code it failed, and whether the truncation of
  \<open>_rollback\<close> took effect.  The result is the file afterwards and what the caller sees.\<close>

record append_outcome =
  ao_written :: nat
  ao_sync_fault :: "string option"
  ao_rolled_back :: bool

definition append_attempt :: "append_outcome \<Rightarrow> string \<Rightarrow> string \<Rightarrow> string \<times> unit res" where
  "append_attempt out data encoded =
     (if length data + length encoded > MAX_LEDGER_BYTES
        then (data, Inl (ProtocolRefusal ''ledger_too_large''))
      else let file = data @ take (ao_written out) encoded;
               rolled = (if ao_rolled_back out then data else file)
           in if length (take (ao_written out) encoded) \<noteq> length encoded
                then (rolled, Inl (DurabilityFailure ''short_write''))
              else (case ao_sync_fault out of
                      Some code \<Rightarrow> (rolled, Inl (DurabilityFailure code))
                    | None \<Rightarrow> (file, Inr ())))"

definition append_line :: "(bool \<Rightarrow> json \<Rightarrow> json res) \<Rightarrow> string \<Rightarrow> json \<Rightarrow> string res" where
  "append_line validate data record =
     (if record_kind record = JStr ''wake_hold_receipt''
        then Inl (ProtocolRefusal ''wake_controller_only'')
      else bindR (encode_line validate record) (\<lambda>encoded.
           bindR (read_ledger validate data) (\<lambda>existing.
             if length existing \<ge> MAX_LEDGER_RECORDS
               then Inl (ProtocolRefusal ''ledger_record_limit'')
             else if list_ex (\<lambda>item. record_id item = record_id record) existing
               then Inl (ProtocolRefusal ''duplicate_record_id'')
             else append_bytes data encoded)))"

text \<open>\<open>data.split\<close> at line feeds, without the part after the last one.\<close>

definition exact_lines :: "string \<Rightarrow> string list" where
  "exact_lines data = butlast (split_on (CHR 0x0A) data)"

definition transact_exact_frame ::
    "(bool \<Rightarrow> json \<Rightarrow> json res) \<Rightarrow> string \<Rightarrow>
     (json list \<Rightarrow> string list \<Rightarrow> ('a \<times> json option) res) \<Rightarrow> ('a \<times> string) res" where
  "transact_exact_frame validate data decide =
     bindR (read_ledger validate data) (\<lambda>existing.
       if length (exact_lines data) \<noteq> length existing
         then Inl (IntegrityFailure ''journal_frame_count_invalid'')
       else bindR (decide existing (exact_lines data)) (\<lambda>(result, candidate).
         case candidate of
           None \<Rightarrow> Inr (result, data)
         | Some record \<Rightarrow>
             if length existing \<ge> MAX_LEDGER_RECORDS
               then Inl (ProtocolRefusal ''ledger_record_limit'')
             else bindR (encode_line validate record) (\<lambda>encoded.
               if list_ex (\<lambda>item. record_id item = record_id record) existing
                 then Inl (ProtocolRefusal ''duplicate_record_id'')
               else bindR (append_bytes data encoded) (\<lambda>data'. Inr (result, data')))))"

definition transact_line ::
    "(bool \<Rightarrow> json \<Rightarrow> json res) \<Rightarrow> string \<Rightarrow> (json list \<Rightarrow> ('a \<times> json option) res) \<Rightarrow> ('a \<times> string) res" where
  "transact_line validate data decide =
     bindR (read_ledger validate data) (\<lambda>existing.
     bindR (decide existing) (\<lambda>(result, candidate).
       case candidate of
         None \<Rightarrow> Inr (result, data)
       | Some record \<Rightarrow>
           if record_kind record = JStr ''wake_hold_receipt''
             then Inl (ProtocolRefusal ''wake_controller_only'')
           else if length existing \<ge> MAX_LEDGER_RECORDS
             then Inl (ProtocolRefusal ''ledger_record_limit'')
           else bindR (encode_line validate record) (\<lambda>encoded.
             if list_ex (\<lambda>item. record_id item = record_id record) existing
               then Inl (ProtocolRefusal ''duplicate_record_id'')
             else bindR (append_bytes data encoded) (\<lambda>data'. Inr (result, data')))))"

section \<open>Canonical rows\<close>

lemma canon_canon [simp]: "canon (canon j) = canon j"
proof (induction j)
  case (JObj ms)
  let ?xs = "map (map_prod id canon) ms"
  have fixed: "map_prod id canon m = m" if m: "m \<in> set ?xs" for m
  proof -
    obtain p where p: "p \<in> set ms" "m = map_prod id canon p" using m by auto
    have "snd p \<in> Basic_BNFs.snds p" by (cases p) simp
    then have "canon (canon (snd p)) = canon (snd p)" by (rule JObj.IH [OF p(1)])
    then show ?thesis unfolding p(2) by (simp add: prod_eq_iff)
  qed
  have "map (map_prod id canon) (sort_key fst ?xs) = sort_key fst ?xs"
    by (rule map_idI) (rule fixed, simp only: set_sort)
  then show ?case by (simp only: canon.simps sort_key_id_if_sorted [OF sorted_sort_key])
qed simp_all

lemma payload_canon [simp]: "payload (canon j) = payload j"
  by (simp add: payload_def dumps_def)

lemma frame_canon [simp]: "frame (canon j) = frame j"
  by (simp add: frame_def)

lemma canon_same_members:
  assumes "distinct (map fst ms)" "distinct (map fst rs)" "member_names rs = member_names ms"
    and "\<And>k. get_member rs k = get_member ms k"
  shows "canon (JObj rs) = canon (JObj ms)"
proof -
  have "map_of rs k = map_of ms k" for k
  proof (cases "k \<in> member_names ms")
    case True
    then obtain v w where "map_of ms k = Some v" "map_of rs k = Some w"
      using assms(3) by (metis map_of_eq_None_iff member_names_def not_None_eq)
    with assms(4) [of k] show ?thesis by (simp add: get_member_def)
  next
    case False
    then show ?thesis using assms(3) by (metis map_of_eq_None_iff member_names_def)
  qed
  then have "set rs = set ms" using assms(1,2) by (metis map_of_inject_set ext)
  then have "mset rs = mset ms"
    using assms(1,2) by (metis distinct_map set_eq_iff_mset_eq_distinct)
  then have "mset (map (map_prod id canon) rs) = mset (map (map_prod id canon) ms)" by simp
  moreover have "inj_on fst (set (map (map_prod id canon) rs))"
    using assms(2) by (auto simp: distinct_map inj_on_def)
  ultimately have "sort_key fst (map (map_prod id canon) rs) = sort_key fst (map (map_prod id canon) ms)"
    by (intro sort_key_inj_key_eq) simp_all
  then show ?thesis by simp
qed

section \<open>The bytes refine the rows\<close>

definition record_key :: "json \<Rightarrow> string" where
  "record_key r = (case record_id r of JStr s \<Rightarrow> s | _ \<Rightarrow> [])"

definition rows_contract :: "(bool \<Rightarrow> json \<Rightarrow> json res) \<Rightarrow> json row_contract" where
  "rows_contract validate =
     \<lparr>validate_row = (\<lambda>integrity r. bindR (validate integrity r) (\<lambda>_. Inr ())),
      row_id = record_key, frame_length = (\<lambda>r. length (frame r))\<rparr>"

definition validated :: "(bool \<Rightarrow> json \<Rightarrow> json res) \<Rightarrow> json \<Rightarrow> json" where
  "validated validate r = (case validate True r of Inr x \<Rightarrow> x | Inl e \<Rightarrow> r)"

text \<open>Rows as a canonical file holds them.\<close>

definition canonical_row :: "json \<Rightarrow> bool" where
  "canonical_row r \<longleftrightarrow> plain r \<and> canon r = r \<and> record_kind r \<noteq> JStr ''bus_epoch_roll_receipt''"

lemma rows_contract_simps [simp]:
  "validate_row (rows_contract validate) b r = bindR (validate b r) (\<lambda>_. Inr ())"
  "row_id (rows_contract validate) = record_key"
  "frame_length (rows_contract validate) r = length (frame r)"
  by (simp_all add: rows_contract_def)

lemma frames_bytes:
  "length (concat (map frame rows)) = ledger_bytes (rows_contract validate) rows"
  by (induction rows) (simp_all add: ledger_bytes_def)

context record_reader
begin

lemma validated_same:
  assumes "validate b r = Inr x" "plain r"
  shows "record_id x = record_id r" "record_id r = JStr (record_key r)" "plain x" "canon x = canon r"
proof -
  obtain ms where ms: "r = JObj ms" using object [OF assms(1)] by blast
  obtain rs where rs: "x = JObj rs" "plain x" "member_names rs = member_names ms"
      "\<And>k. get_member rs k = get_member ms k"
    using written [of b ms x] assms ms by blast
  show "record_id x = record_id r" by (simp add: record_id_def ms rs(1,4))
  show "record_id r = JStr (record_key r)"
    using identified [OF assms(1)] by (auto simp: record_key_def)
  show "plain x" by (rule rs(2))
  show "canon x = canon r"
    unfolding ms rs(1) by (rule canon_same_members) (use assms(2) rs in \<open>simp_all add: ms\<close>)
qed

lemma decode_records_refines:
  assumes "list_all canonical_row rows"
  shows "decode_records validate n (JStr ` seen) rows =
    bindR (decode_rows (rows_contract validate) n seen rows) (\<lambda>rs. Inr (map (validated validate) rs))"
  using assms
proof (induction rows arbitrary: n seen)
  case (Cons r rows)
  then have r: "plain r" "record_kind r \<noteq> JStr ''bus_epoch_roll_receipt''"
    by (simp_all add: canonical_row_def)
  show ?case
  proof (cases "validate True r")
    case (Inl e)
    then show ?thesis using r(2) by simp
  next
    case (Inr x)
    have id: "record_id x = JStr (record_key r)" using validated_same(1,2) [OF Inr r(1)] by simp
    have "insert (JStr (record_key r)) (JStr ` seen) = JStr ` insert (record_key r) seen" by simp
    then have "decode_records validate (Suc n) (insert (record_id x) (JStr ` seen)) rows =
        bindR (decode_rows (rows_contract validate) (Suc n) (insert (record_key r) seen) rows)
          (\<lambda>rs. Inr (map (validated validate) rs))"
      using Cons.IH [of "Suc n" "insert (record_key r) seen"] Cons.prems by (simp only: id list.pred_inject(2))
    then show ?thesis
      using r(2) by (cases "decode_rows (rows_contract validate) (Suc n) (insert (record_key r) seen) rows")
        (auto simp: Inr id validated_def)
  qed
qed simp

lemma read_ledger_refines:
  assumes "list_all canonical_row rows"
  shows "read_ledger validate (concat (map frame rows)) =
    bindR (decode_path_records (rows_contract validate) rows) (\<lambda>rs. Inr (map (validated validate) rs))"
proof -
  have plain: "list_all plain rows" and canon: "map canon rows = rows"
    using assms by (auto simp: list_all_iff canonical_row_def intro: map_idI)
  have lines: "list_ex (\<lambda>raw. MAX_RECORD_BYTES < length raw + 1) (map payload rows) =
      list_ex (\<lambda>r. MAX_RECORD_BYTES < frame_length (rows_contract validate) r) rows"
    by (simp add: list_ex_iff frame_def)
  show ?thesis
    unfolding read_ledger_def decode_path_records_def split_lines_frames [OF plain] frames_bytes [of rows validate] lines
      decode_frames_concat [OF plain] canon
    using decode_records_refines [OF assms, of 1 "{}"] by (simp del: decode_records.simps)
qed

lemma encode_line_refines:
  assumes "plain r"
  shows "encode_line validate r =
    bindR (encode_record (rows_contract validate) r) (\<lambda>_. Inr (frame r))"
proof (cases "validate False r")
  case (Inr x)
  have "frame x = frame r" using validated_same(4) [OF Inr assms] frame_canon by metis
  with validated_same(3) [OF Inr assms] show ?thesis
    by (simp add: encode_line_def encode_record_def Inr)
qed (simp add: encode_line_def encode_record_def)

lemma append_line_refines:
  assumes "list_all canonical_row rows" "plain r" "record_kind r \<noteq> JStr ''wake_hold_receipt''"
  shows "append_line validate (concat (map frame rows)) r =
    bindR (append_record (rows_contract validate) rows r) (\<lambda>rows'. Inr (concat (map frame rows')))"
proof (cases "encode_record (rows_contract validate) r")
  case (Inl e)
  then show ?thesis
    by (simp add: append_line_def encode_line_refines [OF assms(2)] append_record_def assms(3))
next
  case (Inr n)
  then obtain x where x: "validate False r = Inr x" "n = length (frame r)"
    by (auto simp: encode_record_Inr_iff bindR_Inr_iff)
  have id: "record_id r = JStr (record_key r)" by (rule validated_same(2) [OF x(1) assms(2)])
  show ?thesis
  proof (cases "decode_path_records (rows_contract validate) rows")
    case (Inl e)
    then show ?thesis
      by (simp add: append_line_def encode_line_refines [OF assms(2)] append_record_def assms(3) Inr
          read_ledger_refines [OF assms(1)])
  next
    case read: (Inr rs)
    then have rs: "rs = rows" and ok: "readable (rows_contract validate) rows"
      by (simp_all add: decode_path_records_Inr_iff)
    have "record_id (validated validate q) = JStr (record_key q)" if q: "q \<in> set rows" for q
    proof -
      have "plain q" using assms(1) q by (simp add: list_all_iff canonical_row_def)
      moreover obtain y where "validate True q = Inr y"
        using ok q by (auto simp: readable_def bindR_Inr_iff)
      ultimately show ?thesis using validated_same(1,2) [of True q y] by (simp add: validated_def)
    qed
    then have ids: "list_ex (\<lambda>item. record_id item = record_id r) (map (validated validate) rows) =
        list_ex (\<lambda>item. row_id (rows_contract validate) item = row_id (rows_contract validate) r) rows"
      by (auto simp: list_ex_iff id)
    show ?thesis
      by (simp add: append_line_def encode_line_refines [OF assms(2)] append_record_def assms(3) Inr
          read_ledger_refines [OF assms(1)] read rs ids append_bytes_def append_frame_def frames_bytes [of rows validate] x(2)
          del: same_id_iff)
  qed
qed

end

section \<open>Growing a ledger by one record\<close>

lemma split_on_append: "split_on c (s @ c # t) = split_on c s @ split_on c t"
proof (induction s)
  case (Cons d s)
  have "split_on c u \<noteq> []" for u by (cases u) (auto split: list.splits)
  with Cons show ?case by (auto split: list.splits)
qed simp

lemma split_on_none: "c \<notin> set s \<Longrightarrow> split_on c s = [s]"
  by (induction s) auto

lemma exact_lines_add_frame:
  assumes "data = [] \<or> last data = CHR 0x0A" "plain j"
  shows "exact_lines (data @ frame j) = exact_lines data @ [payload j]"
proof -
  have "CHR 0x0A \<notin> set (payload j)" using payload_no_break(1) [OF assms(2)] by blast
  then have one: "split_on (CHR 0x0A) (frame j) = [payload j, []]"
    using split_on_append [of "CHR 0x0A" "payload j" "[]"]
    by (simp add: frame_def FRAME_TERMINATOR_def split_on_none)
  show ?thesis
  proof (cases "data = []")
    case True
    with one show ?thesis by (simp add: exact_lines_def)
  next
    case False
    then obtain d where d: "data = d @ [CHR 0x0A]" using assms(1) by (metis append_butlast_last_id)
    show ?thesis
      using split_on_append [of "CHR 0x0A" d "frame j"] split_on_append [of "CHR 0x0A" d "[]"]
      by (simp add: exact_lines_def d one butlast_append)
  qed
qed

lemma decode_records_append:
  "decode_records validate n seen (xs @ ys) =
     bindR (decode_records validate n seen xs) (\<lambda>rs.
     bindR (decode_records validate (n + length xs) (seen \<union> record_id ` set rs) ys) (\<lambda>ss. Inr (rs @ ss)))"
proof (induction xs arbitrary: n seen)
  case (Cons x xs)
  show ?case
  proof (cases "validate True x")
    case (Inr r)
    show ?thesis
      using Cons.IH [of "Suc n" "insert (record_id r) seen"]
      by (cases "decode_records validate (Suc n) (insert (record_id r) seen) xs")
         (auto simp: Inr bindR_def split: sum.splits)
  qed simp
qed (simp add: bindR_def split: sum.splits)

lemma decode_records_nth:
  "decode_records validate n seen raws = Inr rs \<Longrightarrow>
     length rs = length raws \<and> (\<forall>i < length raws. validate True (raws ! i) = Inr (rs ! i)) \<and>
     distinct (map record_id rs) \<and> record_id ` set rs \<inter> seen = {}"
proof (induction raws arbitrary: n seen rs)
  case (Cons x xs)
  then obtain r ss where r: "validate True x = Inr r" "rs = r # ss" "record_id r \<notin> seen"
      "decode_records validate (Suc n) (insert (record_id r) seen) xs = Inr ss"
    by (auto simp: bindR_Inr_iff split: if_splits)
  with Cons.IH [OF r(4)] show ?case by (auto simp: nth_Cons split: nat.splits)
qed simp

lemma read_ledger_framed:
  assumes "read_ledger validate data = Inr rows"
  obtains framed where "decode_frames data = Inr framed" "decode_records validate 1 {} framed = Inr rows"
  using assms by (auto simp: read_ledger_def split: if_splits sum.splits frame_error.splits)

text \<open>What a transaction that returns has done: the file is the old one, or has the candidate's
  line at its end.\<close>

definition appended_by :: "(bool \<Rightarrow> json \<Rightarrow> json res) \<Rightarrow> string \<Rightarrow> json list \<Rightarrow> json option \<Rightarrow> string \<Rightarrow> bool" where
  "appended_by validate data rows candidate data' \<longleftrightarrow>
     (case candidate of
        None \<Rightarrow> data' = data
      | Some record \<Rightarrow>
          length rows < MAX_LEDGER_RECORDS \<and> record_id record \<notin> record_id ` set rows \<and>
          (\<exists>encoded. encode_line validate record = Inr encoded \<and> append_bytes data encoded = Inr data'))"

lemma transact_exact_frame_InrE:
  assumes "transact_exact_frame validate data decide = Inr (result, data')"
  obtains rows candidate where "read_ledger validate data = Inr rows"
    "length (exact_lines data) = length rows" "decide rows (exact_lines data) = Inr (result, candidate)"
    "appended_by validate data rows candidate data'"
proof -
  obtain rows a candidate where r: "read_ledger validate data = Inr rows"
      "length (exact_lines data) = length rows" "decide rows (exact_lines data) = Inr (a, candidate)"
    and rest: "(case candidate of
         None \<Rightarrow> Inr (a, data)
       | Some record \<Rightarrow>
           if length rows \<ge> MAX_LEDGER_RECORDS then Inl (ProtocolRefusal ''ledger_record_limit'')
           else bindR (encode_line validate record) (\<lambda>encoded.
             if list_ex (\<lambda>item. record_id item = record_id record) rows
               then Inl (ProtocolRefusal ''duplicate_record_id'')
             else bindR (append_bytes data encoded) (\<lambda>data'. Inr (a, data')))) = Inr (result, data')"
    using assms by (auto simp: transact_exact_frame_def bindR_Inr_iff split: if_splits)
  have "a = result \<and> appended_by validate data rows candidate data'"
    using rest by (cases candidate)
      (auto simp: appended_by_def bindR_Inr_iff list_ex_iff not_le split: if_splits)
  with r show ?thesis by (intro that) auto
qed

lemma transact_line_InrE:
  assumes "transact_line validate data decide = Inr (result, data')"
  obtains rows candidate where "read_ledger validate data = Inr rows"
    "decide rows = Inr (result, candidate)" "appended_by validate data rows candidate data'"
proof -
  obtain rows a candidate where r: "read_ledger validate data = Inr rows"
      "decide rows = Inr (a, candidate)"
    and rest: "(case candidate of
         None \<Rightarrow> Inr (a, data)
       | Some record \<Rightarrow>
           if record_kind record = JStr ''wake_hold_receipt''
             then Inl (ProtocolRefusal ''wake_controller_only'')
           else if length rows \<ge> MAX_LEDGER_RECORDS then Inl (ProtocolRefusal ''ledger_record_limit'')
           else bindR (encode_line validate record) (\<lambda>encoded.
             if list_ex (\<lambda>item. record_id item = record_id record) rows
               then Inl (ProtocolRefusal ''duplicate_record_id'')
             else bindR (append_bytes data encoded) (\<lambda>data'. Inr (a, data')))) = Inr (result, data')"
    using assms by (auto simp: transact_line_def bindR_Inr_iff split: if_splits)
  have "a = result \<and> appended_by validate data rows candidate data'"
    using rest by (cases candidate)
      (auto simp: appended_by_def bindR_Inr_iff list_ex_iff not_le split: if_splits)
  with r show ?thesis by (intro that) auto
qed

context journal_records
begin

lemma read_ledger_append:
  assumes "read_ledger validate data = Inr existing" "encode_line validate (JObj ms) = Inr encoded"
    and "append_bytes data encoded = Inr data'" "plain (JObj ms)"
    and "length existing < MAX_LEDGER_RECORDS" "record_id (JObj ms) \<notin> record_id ` set existing"
    and "record_kind (JObj ms) \<noteq> JStr ''bus_epoch_roll_receipt''"
  shows "data' = data @ frame (JObj ms)"
    "\<exists>rs. read_ledger validate data' = Inr (existing @ [JObj rs]) \<and> canonical_of ms rs \<and>
       validate True (canon (JObj ms)) = Inr (JObj rs)"
proof -
  obtain x where x: "validate False (JObj ms) = Inr x"
    using assms(2) by (auto simp: encode_line_def bindR_Inr_iff)
  have plain: "plain x" and canon: "canon x = canon (JObj ms)"
    using validated_same(3,4) [OF x assms(4)] .
  have "frame x = frame (JObj ms)" by (metis frame_canon canon)
  then have enc: "encoded = frame (JObj ms)" "length encoded \<le> MAX_RECORD_BYTES"
    using assms(2) by (auto simp: encode_line_def x plain split: if_splits)
  have size: "length data + length encoded \<le> MAX_LEDGER_BYTES" "data' = data @ encoded"
    using assms(3) by (auto simp: append_bytes_def split: if_splits)
  show data': "data' = data @ frame (JObj ms)" using size(2) enc(1) by simp
  obtain framed where framed: "decode_frames data = Inr framed"
      "decode_records validate 1 {} framed = Inr existing"
    by (rule read_ledger_framed [OF assms(1)])
  have len: "length framed = length existing" using decode_records_nth [OF framed(2)] by simp
  obtain rs where rs: "validate True (canon x) = Inr (JObj rs)" "canonical_of ms rs"
    using reread [OF x assms(4)] by blast
  have id: "record_id (JObj rs) = record_id (JObj ms)"
    using identified [OF x] canonical_ofD(2) [OF rs(2), of "''id''"]
    by (auto simp: record_id_def)
  have kind: "record_kind (canon (JObj ms)) \<noteq> JStr ''bus_epoch_roll_receipt''"
  proof -
    have "distinct (map fst ms)" using assms(4) by simp
    then obtain ns where "canon (JObj ms) = JObj ns" "canonical_of ms ns" by (rule canonical_of_canon)
    with assms(7) show ?thesis by (simp add: record_kind_def canonical_ofD(2) del: canon.simps)
  qed
  have frames: "decode_frames data' = Inr (framed @ [canon (JObj ms)])"
    unfolding data' by (rule decode_frames_add_frame [OF framed(1) assms(4)])
  have lines: "split_lines data' = split_lines data @ [payload (JObj ms)]"
    unfolding data' by (rule split_lines_add_frame [OF framed(1) assms(4)])
  have rec: "decode_records validate 1 {} (framed @ [canon (JObj ms)]) = Inr (existing @ [JObj rs])"
    using assms(5,6) rs(1) kind id
    by (simp add: decode_records_append framed(2) len canon del: canon.simps One_nat_def)
  have bounds: "\<not> length data' > MAX_LEDGER_BYTES"
    "\<not> list_ex (\<lambda>raw. length raw + 1 > MAX_RECORD_BYTES) (split_lines data')"
    using assms(1) size enc unfolding lines
    by (auto simp: read_ledger_def frame_def split: if_splits)
  show "\<exists>rs. read_ledger validate data' = Inr (existing @ [JObj rs]) \<and> canonical_of ms rs \<and>
      validate True (canon (JObj ms)) = Inr (JObj rs)"
    using bounds rec rs by (auto simp: read_ledger_def frames canon simp del: canon.simps)
qed

end

lemma append_attempt_cases:
  assumes "append_attempt out data encoded = (data', res)"
  obtains "data' = data" "res \<noteq> Inr ()"
  | q where "data' = data @ q" "prefix q encoded" "res \<noteq> Inr ()" "\<not> ao_rolled_back out"
  | "data' = data @ encoded" "res = Inr ()"
  using assms
  by (cases "ao_sync_fault out")
     (auto simp: append_attempt_def Let_def take_is_prefix not_less split: if_splits)

section \<open>Properties\<close>

text \<open>C31: on a file of canonical frames, reading the bytes is reading the list of rows, and
  appending one record to the bytes is appending it to the list: same successes, same refusals,
  and after a success the file holds exactly the frames of the new list.\<close>

theorem ledger_bytes_refine_rows:
  assumes "list_all canonical_row rows" "plain r" "record_kind r \<noteq> JStr ''wake_hold_receipt''"
    and "validate = validate_record specs tenant allowed"
  shows "read_ledger validate (concat (map frame rows)) =
      bindR (decode_path_records (rows_contract validate) rows) (\<lambda>rs. Inr (map (validated validate) rs)) \<and>
    append_line validate (concat (map frame rows)) r =
      bindR (append_record (rows_contract validate) rows r) (\<lambda>rows'. Inr (concat (map frame rows')))"
  unfolding assms(4)
  using schema_records.read_ledger_refines [OF assms(1)] schema_records.append_line_refines [OF assms(1-3)]
  by blast

text \<open>C15: whatever the operating system does to one append, the file afterwards reads as the old
  rows, or as the old rows and the new one, or is refused as incomplete; success means the new row
  is there, and after a failure that was rolled back the file is unchanged.\<close>

theorem append_attempt_safe:
  assumes "list_all plain rows" "plain r"
    and "append_attempt out (concat (map frame rows)) (frame r) = (data', res)"
  shows "(decode_frames data' = Inr (map canon rows) \<or>
      decode_frames data' = Inr (map canon (rows @ [r])) \<or>
      decode_frames data' = Inl (FrameError ''incomplete_frame'' 0)) \<and>
    (res = Inr () \<longrightarrow> decode_frames data' = Inr (map canon (rows @ [r]))) \<and>
    (res \<noteq> Inr () \<and> ao_rolled_back out \<longrightarrow> data' = concat (map frame rows))"
proof -
  have old: "decode_frames (concat (map frame rows)) = Inr (map canon rows)"
    by (rule decode_frames_concat [OF assms(1)])
  have "decode_frames (concat (map frame (rows @ [r]))) = Inr (map canon (rows @ [r]))"
    by (rule decode_frames_concat) (use assms(1,2) in simp)
  then have new: "decode_frames (concat (map frame rows) @ frame r) = Inr (map canon (rows @ [r]))"
    by simp
  from assms(3) show ?thesis
  proof (cases rule: append_attempt_cases)
    case 1
    with old show ?thesis by simp
  next
    case (2 q)
    consider "q = []" | "q = frame r" | "q \<noteq> []" "prefix q (payload r)"
      using 2(2) by (auto simp: frame_def)
    then show ?thesis
    proof cases
      case 3
      with 2 torn_tail [OF assms(2) 3] show ?thesis by simp
    qed (use 2 old new in simp_all)
  next
    case 3
    with new show ?thesis by simp
  qed
qed

section \<open>A worked example\<close>

abbreviation example_row :: json where
  "example_row \<equiv> JObj
     [(''byte_length'', JInt 40), (''checkpoint_sha256'', JStr (replicate 64 CHR ''c'')),
      (''head_sha256'', JStr (replicate 64 CHR ''a'')),
      (''id'', JStr ''journal-checkpoint-state-0198c0de00017000a000000000000001''),
      (''journal_id'', JStr ''events''), (''kind'', JStr ''journal_checkpoint_state''),
      (''schema_version'', JInt 0), (''tenant_id'', JStr ''acme''), (''through_seq'', JInt 1),
      (''timestamp'', JStr ''2026-02-28T23:59:59Z'')]"

lemma ledger_bytes_refine_rows_witness:
  "append_line (validate_record SPECS ''acme'' [''journal_checkpoint_state'']) [] example_row =
     bindR (append_record (rows_contract (validate_record SPECS ''acme'' [''journal_checkpoint_state'']))
              [] example_row) (\<lambda>rows'. Inr (concat (map frame rows')))"
  using ledger_bytes_refine_rows [of "[]" example_row _ SPECS "''acme''" "[''journal_checkpoint_state'']"]
  by (simp add: record_kind_def get_member_def)

lemma frame_empty: "frame (JObj []) = [CHR 0x7B, CHR 0x7D, CHR 0x0A]"
  by (simp add: frame_def payload_def dumps_def encode_utf8_char_def FRAME_TERMINATOR_def)

lemma example_attempt:
  "append_attempt \<lparr>ao_written = 3, ao_sync_fault = None, ao_rolled_back = False\<rparr>
     (concat (map frame [JObj []])) (frame (JObj [])) = (frame (JObj []) @ frame (JObj []), Inr ())"
  by (simp add: append_attempt_def frame_empty MAX_LEDGER_BYTES_def)

lemma append_attempt_safe_witness:
  "decode_frames (frame (JObj []) @ frame (JObj [])) = Inr [JObj [], JObj []]"
  using append_attempt_safe [OF _ _ example_attempt] by simp

end
