(* ===== verification/Journal_Chain.thy ===== *)
theory Journal_Chain
  imports Ledger_Bytes
begin

text \<open>
  \<open>floati/journal_chain.py\<close>: chained journal records (\<open>seq\<close>, \<open>prev\<close>), checkpoints over an exact
  byte prefix, and the accepted high-water mark that refuses a rollback.  A journal file and the
  file of accepted states are their bytes; a file that does not exist is \<open>None\<close>.  SHA-256 is
  the argument \<open>journal_sha256\<close>.
\<close>

record journal =
  journal_id :: string
  journal_validate :: "bool \<Rightarrow> json \<Rightarrow> json res"
  journal_sha256 :: "string \<Rightarrow> string"

definition CHECKPOINT_FORMAT :: string where
  "CHECKPOINT_FORMAT = ''floati-journal-checkpoint-v1''"

definition CHECKPOINT_FIELDS :: "string list" where
  "CHECKPOINT_FIELDS = [''format'', ''journal_id'', ''through_seq'', ''head_sha256'', ''byte_length'']"

definition genesis :: "journal \<Rightarrow> string" where
  "genesis j = journal_sha256 j (encode_utf8 (journal_id j))"

definition has_field :: "json \<Rightarrow> string \<Rightarrow> bool" where
  "has_field r f = (case r of JObj ms \<Rightarrow> f \<in> member_names ms | _ \<Rightarrow> False)"

definition field :: "json \<Rightarrow> string \<Rightarrow> json" where
  "field r f = (case r of JObj ms \<Rightarrow> get_member ms f | _ \<Rightarrow> JNull)"

text \<open>Indexing a tuple out of range raises \<open>IndexError\<close>.\<close>

definition nth_line :: "string list \<Rightarrow> nat \<Rightarrow> string res" where
  "nth_line lines i = (if i < length lines then Inr (lines ! i) else Inl (Uncaught ''IndexError''))"

definition last_line :: "string list \<Rightarrow> string res" where
  "last_line lines = (if lines = [] then Inl (Uncaught ''IndexError'') else Inr (last lines))"

section \<open>Verifying rows\<close>

record measure =
  ms_legacy_prefix_lines :: nat
  ms_chain_start_line :: nat
  ms_through_seq :: int
  ms_head_sha256 :: string

text \<open>The loop of \<open>_verify_rows\<close>; validated rows have an integer \<open>seq\<close>.  The result is the
  sequence number expected next.\<close>

fun check_chain :: "journal \<Rightarrow> string list \<Rightarrow> nat \<Rightarrow> int \<Rightarrow> string \<Rightarrow> json list \<Rightarrow> int res" where
  "check_chain j lines index expected_seq expected_prev [] = Inr expected_seq"
| "check_chain j lines index expected_seq expected_prev (row # rows) =
     (case field row ''seq'' of
        JInt seq \<Rightarrow>
          if seq \<noteq> expected_seq then
            Inl (ProtocolRefusal
              (if seq > expected_seq \<and> expected_seq > 1 then ''journal_seq_gap''
               else ''journal_seq_out_of_order''))
          else if field row ''prev'' \<noteq> JStr expected_prev
            then Inl (ProtocolRefusal ''journal_prev_mismatch'')
          else bindR (nth_line lines index) (\<lambda>line.
            check_chain j lines (Suc index) (expected_seq + 1) (journal_sha256 j line) rows)
      | _ \<Rightarrow> Inl (Uncaught ''TypeError''))"

definition first_chained :: "json list \<Rightarrow> nat option" where
  "first_chained rows =
     (let n = length (takeWhile (\<lambda>r. \<not> has_field r ''seq'') rows)
      in if n < length rows then Some n else None)"

definition verify_rows :: "journal \<Rightarrow> json list \<Rightarrow> string list \<Rightarrow> measure res" where
  "verify_rows j rows lines =
     (case first_chained rows of
        None \<Rightarrow> Inl (ProtocolRefusal ''journal_chain_absent'')
      | Some first \<Rightarrow>
          if list_ex (\<lambda>r. has_field r ''seq'' \<or> has_field r ''prev'') (take first rows)
            then Inl (ProtocolRefusal ''journal_chain_fields_invalid'')
          else if list_ex (\<lambda>r. \<not> has_field r ''seq'' \<or> \<not> has_field r ''prev'') (drop first rows)
            then Inl (ProtocolRefusal ''journal_chain_interrupted'')
          else
            bindR (if first = 0 then Inr (genesis j)
                   else bindR (nth_line lines (first - 1)) (\<lambda>line. Inr (journal_sha256 j line))) (\<lambda>prev.
            bindR (check_chain j lines first 1 prev (drop first rows)) (\<lambda>expected.
            bindR (last_line lines) (\<lambda>line.
              Inr \<lparr>ms_legacy_prefix_lines = first, ms_chain_start_line = first + 1,
                   ms_through_seq = expected - 1, ms_head_sha256 = journal_sha256 j line\<rparr>))))"

section \<open>Reading the bytes\<close>

fun journal_rows :: "journal \<Rightarrow> json set \<Rightarrow> json list \<Rightarrow> json list res" where
  "journal_rows j seen [] = Inr []"
| "journal_rows j seen (raw # raws) =
     (case journal_validate j True raw of
        Inl (IntegrityFailure _) \<Rightarrow> Inl (ProtocolRefusal ''journal_record_invalid'')
      | Inl e \<Rightarrow> Inl e
      | Inr row \<Rightarrow>
          if record_id row \<in> seen then Inl (ProtocolRefusal ''journal_record_duplicate'')
          else bindR (journal_rows j (insert (record_id row) seen) raws) (\<lambda>rows. Inr (row # rows)))"

definition journal_decode :: "journal \<Rightarrow> string \<Rightarrow> (json list \<times> string list) res" where
  "journal_decode j data =
     (if data \<noteq> [] \<and> last data \<noteq> CHR 0x0A then Inl (ProtocolRefusal ''journal_truncated_tail'')
      else (case decode_frames data of
              Inl (FrameError code _) \<Rightarrow>
                Inl (ProtocolRefusal
                  (if code = ''incomplete_frame'' then ''journal_truncated_tail''
                   else ''journal_frame_malformed''))
            | Inl OutsideModel \<Rightarrow> Inl NotModelled
            | Inr decoded \<Rightarrow>
                bindR (journal_rows j {} decoded) (\<lambda>rows. Inr (rows, exact_lines data))))"

definition journal_measure :: "journal \<Rightarrow> string \<Rightarrow> measure res" where
  "journal_measure j data = bindR (journal_decode j data) (\<lambda>(rows, lines). verify_rows j rows lines)"

definition read_data :: "string option \<Rightarrow> string res" where
  "read_data path =
     (case path of
        None \<Rightarrow> Inl (ProtocolRefusal ''journal_missing'')
      | Some data \<Rightarrow> if data = [] then Inl (ProtocolRefusal ''journal_empty'') else Inr data)"

section \<open>Appending\<close>

text \<open>The \<open>decide\<close> of \<open>JournalChain.append\<close>.\<close>

definition chain_candidate ::
    "journal \<Rightarrow> members \<Rightarrow> json list \<Rightarrow> string list \<Rightarrow> (json \<times> json option) res" where
  "chain_candidate j record existing lines =
     bindR
       (if list_ex (\<lambda>row. has_field row ''seq'') existing then
          bindR (verify_rows j existing lines) (\<lambda>measured.
            if field (last existing) ''seq'' \<noteq> JInt (ms_through_seq measured)
              then Inl (IntegrityFailure ''journal_chain_interrupted'')
            else bindR (last_line lines) (\<lambda>line.
              Inr (ms_through_seq measured + 1, journal_sha256 j line)))
        else Inr (1, if lines \<noteq> [] then journal_sha256 j (last lines) else genesis j))
       (\<lambda>(seq, prev).
          let candidate = JObj (record @ [(''seq'', JInt seq), (''prev'', JStr prev)])
          in Inr (candidate, Some candidate))"

definition journal_append :: "journal \<Rightarrow> string \<Rightarrow> members \<Rightarrow> (json \<times> string) res" where
  "journal_append j data record =
     (if ''seq'' \<in> member_names record \<or> ''prev'' \<in> member_names record
        then Inl (ProtocolRefusal ''journal_chain_caller_fields'')
      else transact_exact_frame (journal_validate j) data (chain_candidate j record))"

section \<open>Checkpoints\<close>

record checkpoint =
  cp_through_seq :: int
  cp_head_sha256 :: string
  cp_byte_length :: int

definition checkpoint_json :: "journal \<Rightarrow> checkpoint \<Rightarrow> json" where
  "checkpoint_json j c =
     JObj [(''format'', JStr CHECKPOINT_FORMAT), (''journal_id'', JStr (journal_id j)),
           (''through_seq'', JInt (cp_through_seq c)), (''head_sha256'', JStr (cp_head_sha256 c)),
           (''byte_length'', JInt (cp_byte_length c))]"

definition parse_checkpoint :: "journal \<Rightarrow> json \<Rightarrow> checkpoint res" where
  "parse_checkpoint j value =
     (case value of
        JObj ms \<Rightarrow>
          if \<not> same_names ms CHECKPOINT_FIELDS then Inl (ProtocolRefusal ''journal_checkpoint_invalid'')
          else if get_member ms ''format'' \<noteq> JStr CHECKPOINT_FORMAT
            then Inl (ProtocolRefusal ''journal_checkpoint_format_invalid'')
          else if get_member ms ''journal_id'' \<noteq> JStr (journal_id j)
            then Inl (ProtocolRefusal ''journal_checkpoint_id_mismatch'')
          else (case get_member ms ''through_seq'' of
                  JInt through \<Rightarrow>
                    if \<not> (1 \<le> through \<and> through \<le> 2 ^ 63 - 1)
                      then Inl (ProtocolRefusal ''journal_checkpoint_seq_invalid'')
                    else (case get_member ms ''byte_length'' of
                            JInt len \<Rightarrow>
                              if \<not> (1 \<le> len \<and> len \<le> 64 * 1024 * 1024)
                                then Inl (ProtocolRefusal ''journal_checkpoint_length_invalid'')
                              else (case get_member ms ''head_sha256'' of
                                      JStr head \<Rightarrow>
                                        if \<not> is_sha256 head
                                          then Inl (ProtocolRefusal ''journal_checkpoint_head_invalid'')
                                        else Inr \<lparr>cp_through_seq = through, cp_head_sha256 = head,
                                                  cp_byte_length = len\<rparr>
                                    | _ \<Rightarrow> Inl (ProtocolRefusal ''journal_checkpoint_head_invalid''))
                          | _ \<Rightarrow> Inl (ProtocolRefusal ''journal_checkpoint_length_invalid''))
                | _ \<Rightarrow> Inl (ProtocolRefusal ''journal_checkpoint_seq_invalid''))
      | _ \<Rightarrow> Inl (ProtocolRefusal ''journal_checkpoint_invalid''))"

text \<open>The result is the checkpoint and the bytes of its file; the second argument says that the
  output path is the journal itself.\<close>

definition write_checkpoint :: "journal \<Rightarrow> bool \<Rightarrow> string option \<Rightarrow> (checkpoint \<times> string) res" where
  "write_checkpoint j onto_journal path =
     bindR (read_data path) (\<lambda>data.
     bindR (journal_measure j data) (\<lambda>measured.
       let checkpoint = \<lparr>cp_through_seq = ms_through_seq measured,
             cp_head_sha256 = ms_head_sha256 measured, cp_byte_length = int (length data)\<rparr>
       in if onto_journal then Inl (ProtocolRefusal ''journal_checkpoint_path_invalid'')
          else (case encode_frame (checkpoint_json j checkpoint) of
                  Inl _ \<Rightarrow> Inl NotModelled
                | Inr encoded \<Rightarrow> Inr (checkpoint, encoded))))"

definition read_checkpoint :: "journal \<Rightarrow> string option \<Rightarrow> checkpoint res" where
  "read_checkpoint j path =
     (case path of
        None \<Rightarrow> Inl (ProtocolRefusal ''journal_checkpoint_unreadable'')
      | Some data \<Rightarrow>
          (case decode_frames data of
             Inl (FrameError _ _) \<Rightarrow> Inl (ProtocolRefusal ''journal_checkpoint_invalid'')
           | Inl OutsideModel \<Rightarrow> Inl NotModelled
           | Inr decoded \<Rightarrow>
               (case decoded of
                  [value] \<Rightarrow> parse_checkpoint j value
                | _ \<Rightarrow> Inl (ProtocolRefusal ''journal_checkpoint_invalid''))))"

section \<open>Verification and the accepted high-water mark\<close>

text \<open>\<open>max((int(row["through_seq"]) for row in states), default=0)\<close>.\<close>

definition highest_accepted :: "json list \<Rightarrow> int" where
  "highest_accepted states =
     foldr (\<lambda>row m. case field row ''through_seq'' of JInt i \<Rightarrow> max i m | _ \<Rightarrow> m) states 0"

text \<open>\<open>accept\<close>: the id and the time of the new state come from \<open>uuid7_hex\<close> and \<open>utc_now\<close>.\<close>

definition accept_checkpoint ::
    "journal \<Rightarrow> string \<Rightarrow> string \<Rightarrow> string \<Rightarrow> checkpoint \<Rightarrow> json list \<Rightarrow> (int \<times> json option) res" where
  "accept_checkpoint j tenant uuid now c states =
     (let highest = highest_accepted states; through = cp_through_seq c in
      if through < highest then Inl (ProtocolRefusal ''journal_rollback_suspected'')
      else if through = highest then Inr (highest, None)
      else Inr (through, Some (JObj
        [(''schema_version'', JInt 0), (''id'', JStr (''journal-checkpoint-state-'' @ uuid)),
         (''tenant_id'', JStr tenant), (''timestamp'', JStr now),
         (''kind'', JStr ''journal_checkpoint_state''), (''journal_id'', JStr (journal_id j)),
         (''through_seq'', JInt through), (''head_sha256'', JStr (cp_head_sha256 c)),
         (''byte_length'', JInt (cp_byte_length c)),
         (''checkpoint_sha256'', JStr (journal_sha256 j (payload (checkpoint_json j c))))])))"

definition state_validate :: "string \<Rightarrow> bool \<Rightarrow> json \<Rightarrow> json res" where
  "state_validate tenant = validate_record SPECS tenant [''journal_checkpoint_state'']"

record verification =
  vr_through_seq :: int
  vr_head_sha256 :: string
  vr_byte_length :: int
  vr_legacy_prefix_lines :: nat
  vr_chain_start_line :: nat
  vr_highest_accepted_seq :: int
  vr_historical :: bool

text \<open>The checks of \<open>verify\<close> before it consults the accepted states.\<close>

definition check_prefix :: "journal \<Rightarrow> checkpoint \<Rightarrow> string option \<Rightarrow> measure res" where
  "check_prefix j c path =
     bindR (read_data path) (\<lambda>data.
     bindR (journal_measure j data) (\<lambda>_.
       let len = nat (cp_byte_length c) in
       if len > length data \<or> len = 0 \<or> last (take len data) \<noteq> CHR 0x0A
         then Inl (ProtocolRefusal ''journal_checkpoint_length_mismatch'')
       else bindR (journal_measure j (take len data)) (\<lambda>measured.
         if ms_through_seq measured \<noteq> cp_through_seq c
           then Inl (ProtocolRefusal ''journal_checkpoint_seq_mismatch'')
         else if ms_head_sha256 measured \<noteq> cp_head_sha256 c
           then Inl (ProtocolRefusal ''journal_head_mismatch'')
         else Inr measured)))"

definition journal_verify ::
    "journal \<Rightarrow> string \<Rightarrow> string \<Rightarrow> string \<Rightarrow> bool \<Rightarrow> json \<Rightarrow> string option \<Rightarrow> string \<Rightarrow>
     (verification \<times> string) res" where
  "journal_verify j tenant uuid now historical value path states =
     bindR (parse_checkpoint j value) (\<lambda>c.
     bindR (check_prefix j c path) (\<lambda>measured.
     bindR (if historical
              then bindR (read_ledger (state_validate tenant) states) (\<lambda>rows.
                     Inr (highest_accepted rows, states))
            else transact_line (state_validate tenant) states (accept_checkpoint j tenant uuid now c))
       (\<lambda>(highest, states').
          Inr (\<lparr>vr_through_seq = cp_through_seq c, vr_head_sha256 = ms_head_sha256 measured,
                vr_byte_length = cp_byte_length c,
                vr_legacy_prefix_lines = ms_legacy_prefix_lines measured,
                vr_chain_start_line = ms_chain_start_line measured,
                vr_highest_accepted_seq = highest, vr_historical = historical\<rparr>, states'))))"

end
