(* ===== verification/Journal_Properties.thy ===== *)
theory Journal_Properties
  imports Journal_Chain
begin

text \<open>
  What a verified journal is (\<open>chain_ok\<close>), and the promises of \<open>floati/journal_chain.py\<close>: an
  append extends a verified journal by one, equal heads mean equal chains unless SHA-256 collides,
  and an accepted checkpoint is never followed by a lower one.
\<close>

section \<open>Verified chains\<close>

text \<open>The digest that the row at index \<open>i\<close> must carry as \<open>prev\<close>.\<close>

definition link :: "journal \<Rightarrow> string list \<Rightarrow> nat \<Rightarrow> string" where
  "link j lines i = (if i = 0 then genesis j else journal_sha256 j (lines ! (i - 1)))"

definition chain_ok :: "journal \<Rightarrow> json list \<Rightarrow> string list \<Rightarrow> nat \<Rightarrow> bool" where
  "chain_ok j rows lines first \<longleftrightarrow>
     first < length rows \<and>
     (\<forall>i < first. \<not> has_field (rows ! i) ''seq'' \<and> \<not> has_field (rows ! i) ''prev'') \<and>
     (\<forall>i. first \<le> i \<and> i < length rows \<longrightarrow>
        has_field (rows ! i) ''seq'' \<and> has_field (rows ! i) ''prev'' \<and>
        field (rows ! i) ''seq'' = JInt (int (i - first) + 1) \<and>
        field (rows ! i) ''prev'' = JStr (link j lines i))"

definition measure_of :: "journal \<Rightarrow> json list \<Rightarrow> string list \<Rightarrow> nat \<Rightarrow> measure" where
  "measure_of j rows lines first =
     \<lparr>ms_legacy_prefix_lines = first, ms_chain_start_line = first + 1,
      ms_through_seq = int (length rows - first), ms_head_sha256 = journal_sha256 j (last lines)\<rparr>"

lemma first_chained_iff:
  "first_chained rows = Some n \<longleftrightarrow>
     n < length rows \<and> has_field (rows ! n) ''seq'' \<and> (\<forall>i < n. \<not> has_field (rows ! i) ''seq'')"
proof -
  let ?P = "\<lambda>r. \<not> has_field r ''seq''"
  let ?N = "length (takeWhile ?P rows)"
  have before: "?P (rows ! i)" if "i < ?N" for i
    using that by (metis nth_mem set_takeWhileD takeWhile_nth)
  show ?thesis
  proof
    assume "first_chained rows = Some n"
    then have n: "n = ?N" "?N < length rows" by (auto simp: first_chained_def Let_def split: if_splits)
    have "\<not> ?P (rows ! ?N)" using n(2) by (rule nth_length_takeWhile)
    with n before show "n < length rows \<and> has_field (rows ! n) ''seq'' \<and>
        (\<forall>i < n. \<not> has_field (rows ! i) ''seq'')"
      by simp
  next
    assume r: "n < length rows \<and> has_field (rows ! n) ''seq'' \<and> (\<forall>i < n. \<not> has_field (rows ! i) ''seq'')"
    then have "takeWhile ?P rows = take n rows" by (intro takeWhile_eq_take_P_nth) auto
    with r show "first_chained rows = Some n" by (simp add: first_chained_def)
  qed
qed

lemma check_chain_Inr_iff:
  "idx + length rows \<le> length lines \<Longrightarrow>
   check_chain j lines idx e p rows = Inr out \<longleftrightarrow>
     out = e + int (length rows) \<and>
     (\<forall>i < length rows. field (rows ! i) ''seq'' = JInt (e + int i) \<and>
        field (rows ! i) ''prev'' = JStr (if i = 0 then p else journal_sha256 j (lines ! (idx + i - 1))))"
proof (induction rows arbitrary: idx e p)
  case (Cons row rows)
  have all: "(\<forall>i < length (row # rows). P i) \<longleftrightarrow> P 0 \<and> (\<forall>i < length rows. P (Suc i))" for P
    by (auto simp: less_Suc_eq_0_disj)
  have line: "nth_line lines idx = Inr (lines ! idx)" using Cons.prems by (simp add: nth_line_def)
  have "idx + (Suc i) - 1 = idx + i" for i by simp
  moreover have "(if i = 0 then journal_sha256 j (lines ! idx) else journal_sha256 j (lines ! (Suc idx + i - 1)))
      = journal_sha256 j (lines ! (idx + i))" for i
    by (cases i) simp_all
  ultimately show ?case
    using Cons.IH [of "Suc idx" "e + 1" "journal_sha256 j (lines ! idx)"] Cons.prems
    unfolding all by (auto simp: line algebra_simps split: json.splits)
qed auto

lemma list_ex_nth: "list_ex P xs \<longleftrightarrow> (\<exists>i < length xs. P (xs ! i))"
  by (rule list_ex_length)

lemma verify_rows_Inr_iff:
  assumes "length lines = length rows"
  shows "verify_rows j rows lines = Inr m \<longleftrightarrow>
    (\<exists>first. chain_ok j rows lines first \<and> m = measure_of j rows lines first)"
proof -
  have step: "verify_rows j rows lines = Inr m \<longleftrightarrow> chain_ok j rows lines first \<and> m = measure_of j rows lines first"
    if first: "first_chained rows = Some first" for first
  proof -
    have f: "first < length rows" "has_field (rows ! first) ''seq''" "\<forall>i < first. \<not> has_field (rows ! i) ''seq''"
      using first by (simp_all add: first_chained_iff)
    have ne: "lines \<noteq> []" using f(1) assms by auto
    have prev: "(if first = 0 then Inr (genesis j)
        else bindR (nth_line lines (first - 1)) (\<lambda>line. Inr (journal_sha256 j line))) = Inr (link j lines first)"
      using f(1) assms by (auto simp: link_def nth_line_def)
    have links: "(if i = 0 then link j lines first else journal_sha256 j (lines ! (first + i - 1))) =
        link j lines (first + i)" for i
      by (simp add: link_def)
    have chain: "check_chain j lines first 1 (link j lines first) (drop first rows) = Inr out \<longleftrightarrow>
        out = 1 + int (length rows - first) \<and>
        (\<forall>i < length rows - first. field (rows ! (first + i)) ''seq'' = JInt (1 + int i) \<and>
           field (rows ! (first + i)) ''prev'' = JStr (link j lines (first + i)))" for out
      using check_chain_Inr_iff [of first "drop first rows" lines j 1 "link j lines first" out] f(1) assms
      unfolding links by simp
    have shift: "(\<forall>i. first \<le> i \<and> i < length rows \<longrightarrow> P i) \<longleftrightarrow> (\<forall>i < length rows - first. P (first + i))" for P
    proof
      assume r: "\<forall>i < length rows - first. P (first + i)"
      show "\<forall>i. first \<le> i \<and> i < length rows \<longrightarrow> P i"
      proof (intro allI impI)
        fix i assume i: "first \<le> i \<and> i < length rows"
        then have "P (first + (i - first))" using r by (intro r [rule_format]) auto
        with i show "P i" by simp
      qed
    qed simp
    define A where "A \<longleftrightarrow> (\<forall>i < first. \<not> has_field (rows ! i) ''seq'' \<and> \<not> has_field (rows ! i) ''prev'')"
    define B where "B \<longleftrightarrow> (\<forall>i < length rows - first.
      has_field (rows ! (first + i)) ''seq'' \<and> has_field (rows ! (first + i)) ''prev'')"
    define C where "C \<longleftrightarrow> (\<forall>i < length rows - first. field (rows ! (first + i)) ''seq'' = JInt (1 + int i) \<and>
      field (rows ! (first + i)) ''prev'' = JStr (link j lines (first + i)))"
    have a: "list_ex (\<lambda>r. has_field r ''seq'' \<or> has_field r ''prev'') (take first rows) \<longleftrightarrow> \<not> A"
      using f(1) by (auto simp: list_ex_nth A_def)
    have b: "list_ex (\<lambda>r. \<not> has_field r ''seq'' \<or> \<not> has_field r ''prev'') (drop first rows) \<longleftrightarrow> \<not> B"
      using f(1) by (auto simp: list_ex_nth B_def)
    have "verify_rows j rows lines = Inr m \<longleftrightarrow> A \<and> B \<and>
        (\<exists>out. check_chain j lines first 1 (link j lines first) (drop first rows) = Inr out \<and>
           m = \<lparr>ms_legacy_prefix_lines = first, ms_chain_start_line = first + 1,
                ms_through_seq = out - 1, ms_head_sha256 = journal_sha256 j (last lines)\<rparr>)"
      unfolding verify_rows_def first option.case prev a b
      by (auto simp: bindR_Inr_iff last_line_def ne)
    also have "\<dots> \<longleftrightarrow> A \<and> B \<and> C \<and> m = measure_of j rows lines first"
      unfolding chain C_def measure_of_def by auto
    also have "\<dots> \<longleftrightarrow> chain_ok j rows lines first \<and> m = measure_of j rows lines first"
      unfolding chain_ok_def shift A_def B_def C_def using f(1) by (auto simp: add.commute)
    finally show ?thesis .
  qed
  show ?thesis
  proof (cases "first_chained rows")
    case None
    have "\<not> chain_ok j rows lines first" for first
    proof
      assume "chain_ok j rows lines first"
      then have "first_chained rows = Some first" by (auto simp: chain_ok_def first_chained_iff)
      with None show False by simp
    qed
    with None show ?thesis by (simp add: verify_rows_def)
  next
    case (Some first)
    have "chain_ok j rows lines f \<Longrightarrow> f = first" for f
    proof -
      assume "chain_ok j rows lines f"
      then have "first_chained rows = Some f" by (auto simp: chain_ok_def first_chained_iff)
      with Some show ?thesis by simp
    qed
    with step [OF Some] show ?thesis by blast
  qed
qed

lemma chain_ok_snoc:
  assumes "chain_ok j rows lines first" "length lines = length rows"
    and "has_field row ''seq''" "has_field row ''prev''"
    and "field row ''seq'' = JInt (int (length rows - first) + 1)"
    and "field row ''prev'' = JStr (journal_sha256 j (last lines))"
  shows "chain_ok j (rows @ [row]) (lines @ [line]) first"
proof -
  have ne: "lines \<noteq> []" using assms(1,2) by (auto simp: chain_ok_def)
  have links: "link j (lines @ [line]) i = link j lines i" if "i \<le> length rows" for i
    using that assms(2) by (auto simp: link_def nth_append)
  have last: "link j lines (length rows) = journal_sha256 j (last lines)"
    using ne assms(2) by (auto simp: link_def last_conv_nth)
  show ?thesis
    using assms by (auto simp: chain_ok_def nth_append less_Suc_eq links last Suc_diff_le)
qed

lemma chain_ok_start:
  assumes "\<And>r. r \<in> set rows \<Longrightarrow> \<not> has_field r ''seq'' \<and> \<not> has_field r ''prev''"
    and "length lines = length rows" "has_field row ''seq''" "has_field row ''prev''"
    and "field row ''seq'' = JInt 1"
    and "field row ''prev'' = JStr (if lines \<noteq> [] then journal_sha256 j (last lines) else genesis j)"
  shows "chain_ok j (rows @ [row]) (lines @ [line]) (length rows)"
proof -
  have "link j (lines @ [line]) (length rows) =
      (if lines \<noteq> [] then journal_sha256 j (last lines) else genesis j)"
    using assms(2) by (auto simp: link_def nth_append last_conv_nth)
  with assms show ?thesis by (auto simp: chain_ok_def nth_append less_Suc_eq)
qed

section \<open>A ledger that reads is a journal that decodes\<close>

lemma journal_rows_decode:
  "decode_records (journal_validate j) n seen raws = Inr rows \<Longrightarrow> journal_rows j seen raws = Inr rows"
proof (induction raws arbitrary: n seen rows)
  case (Cons raw raws)
  then obtain r rs where r: "journal_validate j True raw = Inr r" "record_id r \<notin> seen" "rows = r # rs"
      "decode_records (journal_validate j) (Suc n) (insert (record_id r) seen) raws = Inr rs"
    by (auto simp: bindR_Inr_iff split: if_splits)
  with Cons.IH [OF r(4)] show ?case by simp
qed simp

lemma journal_measure_read:
  assumes "read_ledger (journal_validate j) data = Inr rows"
  shows "journal_measure j data = verify_rows j rows (exact_lines data)"
proof -
  obtain framed where f: "decode_frames data = Inr framed"
      "decode_records (journal_validate j) 1 {} framed = Inr rows"
    by (rule read_ledger_framed [OF assms])
  have "\<not> (data \<noteq> [] \<and> last data \<noteq> CHR 0x0A)" using decode_frames_complete [OF f(1)] by simp
  then have "journal_decode j data = Inr (rows, exact_lines data)"
    by (simp add: journal_decode_def f(1) journal_rows_decode [OF f(2)])
  then show ?thesis by (simp add: journal_measure_def)
qed

lemma validated_row_paired:
  assumes "validate_record specs tenant allowed b v = Inr r"
  shows "has_field r ''seq'' \<longleftrightarrow> has_field r ''prev''"
proof -
  obtain ms row chain where rc: "v = JObj ms" "split_chain b ms = Inr (row, chain)" "r = JObj (row @ chain)"
    using assms by (auto simp: validate_record_def bindR_Inr_iff split: json.splits)
  have "''seq'' \<in> member_names ms \<longleftrightarrow> ''prev'' \<in> member_names ms"
    using assms unfolding rc(1) by (rule validate_record_paired)
  then show ?thesis
    using split_chain_members(2) [OF rc(2)] by (simp add: has_field_def rc(3))
qed

section \<open>Appending extends the chain\<close>

lemma field_canonical:
  assumes "canonical_of ms rs"
  shows "has_field (JObj rs) f \<longleftrightarrow> f \<in> member_names ms" "field (JObj rs) f = canon (get_member ms f)"
  using canonical_ofD(1,2) [OF assms] by (simp_all add: has_field_def field_def)

lemma candidate_Inr:
  assumes "chain_candidate j record rows lines = Inr (candidate, c)" "length lines = length rows"
  obtains seq prev where
    "candidate = JObj (record @ [(''seq'', JInt seq), (''prev'', JStr prev)])" "c = Some candidate"
    "if list_ex (\<lambda>row. has_field row ''seq'') rows
     then \<exists>m. verify_rows j rows lines = Inr m \<and> seq = ms_through_seq m + 1 \<and>
       prev = journal_sha256 j (last lines)
     else seq = 1 \<and> prev = (if lines \<noteq> [] then journal_sha256 j (last lines) else genesis j)"
proof -
  have ne: "lines \<noteq> []" if "list_ex (\<lambda>row. has_field row ''seq'') rows"
    using that assms(2) by (cases rows) auto
  show ?thesis
  proof (cases "list_ex (\<lambda>row. has_field row ''seq'') rows")
    case True
    then obtain m where "verify_rows j rows lines = Inr m"
        "candidate = JObj (record @ [(''seq'', JInt (ms_through_seq m + 1)),
           (''prev'', JStr (journal_sha256 j (last lines)))])" "c = Some candidate"
      using assms(1) ne by (auto simp: chain_candidate_def bindR_Inr_iff last_line_def Let_def split: if_splits)
    with True show ?thesis by (intro that) simp_all
  next
    case False
    define prev where "prev = (if lines \<noteq> [] then journal_sha256 j (last lines) else genesis j)"
    have "candidate = JObj (record @ [(''seq'', JInt 1), (''prev'', JStr prev)]) \<and> c = Some candidate"
      using assms(1) False by (auto simp: chain_candidate_def Let_def prev_def [symmetric])
    with False show ?thesis by (intro that [of 1 prev]) (simp_all add: prev_def)
  qed
qed

lemma verify_rows_extended:
  assumes "list_ex (\<lambda>row. has_field row ''seq'') rows \<Longrightarrow>
      \<exists>m. verify_rows j rows lines = Inr m \<and> seq = ms_through_seq m + 1 \<and>
        prev = journal_sha256 j (last lines)"
    and "\<not> list_ex (\<lambda>row. has_field row ''seq'') rows \<Longrightarrow>
      seq = 1 \<and> prev = (if lines \<noteq> [] then journal_sha256 j (last lines) else genesis j)"
    and "\<And>r. r \<in> set rows \<Longrightarrow> has_field r ''seq'' \<longleftrightarrow> has_field r ''prev''"
    and "length lines = length rows" "has_field row ''seq''" "has_field row ''prev''"
    and "field row ''seq'' = JInt seq" "field row ''prev'' = JStr prev"
  shows "\<exists>m. verify_rows j (rows @ [row]) (lines @ [line]) = Inr m \<and>
    ms_head_sha256 m = journal_sha256 j line \<and>
    (case verify_rows j rows lines of
       Inr old \<Rightarrow> ms_through_seq m = ms_through_seq old + 1 \<and>
         ms_legacy_prefix_lines m = ms_legacy_prefix_lines old
     | Inl _ \<Rightarrow> ms_through_seq m = 1 \<and> ms_legacy_prefix_lines m = length lines)"
proof -
  have len: "length (lines @ [line]) = length (rows @ [row])" using assms(4) by simp
  have result: "verify_rows j (rows @ [row]) (lines @ [line]) =
      Inr (measure_of j (rows @ [row]) (lines @ [line]) first)"
    if "chain_ok j (rows @ [row]) (lines @ [line]) first" for first
    using that unfolding verify_rows_Inr_iff [OF len] by blast
  show ?thesis
  proof (cases "list_ex (\<lambda>row. has_field row ''seq'') rows")
    case True
    then obtain m where m: "verify_rows j rows lines = Inr m" "seq = ms_through_seq m + 1"
        "prev = journal_sha256 j (last lines)"
      using assms(1) by blast
    then obtain first where first: "chain_ok j rows lines first" "m = measure_of j rows lines first"
      by (auto simp: verify_rows_Inr_iff [OF assms(4)])
    have "chain_ok j (rows @ [row]) (lines @ [line]) first"
      by (rule chain_ok_snoc [OF first(1) assms(4-6)]) (simp_all add: assms(7,8) m(2,3) first(2) measure_of_def)
    moreover have "first < length rows" using first(1) by (simp add: chain_ok_def)
    ultimately show ?thesis
      by (simp add: result m(1)) (simp add: first(2) measure_of_def of_nat_diff)
  next
    case False
    then have s: "seq = 1" "prev = (if lines \<noteq> [] then journal_sha256 j (last lines) else genesis j)"
      using assms(2) by blast+
    have "chain_ok j (rows @ [row]) (lines @ [line]) (length rows)"
      by (rule chain_ok_start [OF _ assms(4-6)])
        (use False assms(3) in \<open>simp_all add: assms(7,8) s list_ex_iff\<close>)
    moreover have "first_chained rows = None"
    proof (cases "first_chained rows")
      case (Some n)
      then have "n < length rows" "has_field (rows ! n) ''seq''" by (simp_all add: first_chained_iff)
      with False show ?thesis by (auto simp: list_ex_length)
    qed
    then have "\<exists>e. verify_rows j rows lines = Inl e" by (simp add: verify_rows_def)
    ultimately show ?thesis
      by (auto simp: result measure_of_def assms(4))
  qed
qed

text \<open>The journal validates its records as a ledger of governed kinds.\<close>

definition governed_journal :: "journal \<Rightarrow> string \<Rightarrow> string list \<Rightarrow> bool" where
  "governed_journal j tenant allowed \<longleftrightarrow> journal_validate j = validate_record SPECS tenant allowed"

lemma governed_kind:
  assumes "validate_record SPECS tenant allowed b v = Inr r"
  shows "record_kind v \<noteq> JStr ''bus_epoch_roll_receipt''"
proof -
  obtain ms row chain where rc: "v = JObj ms" "split_chain b ms = Inr (row, chain)"
      "check_envelope SPECS tenant allowed b row = Inr ()"
    using assms by (auto simp: validate_record_def bindR_Inr_iff split: json.splits)
  obtain kind spec where k: "get_member row ''kind'' = JStr kind" "SPECS kind = Some spec"
    using rc(3) by (auto simp: check_envelope_def split: json.splits option.splits)
  have "SPECS ''bus_epoch_roll_receipt'' = None" by (simp add: SPECS_def governed_kinds_def)
  with k(2) have "kind \<noteq> ''bus_epoch_roll_receipt''" by auto
  moreover have "get_member ms ''kind'' = JStr kind"
  proof -
    have "''kind'' \<in> member_names row" using k(1) get_member_absent by fastforce
    then show ?thesis
      using split_chain_members(1) [OF rc(2), of "''kind''"] k(1) by (simp add: get_member_append)
  qed
  ultimately show ?thesis by (simp add: record_kind_def rc(1))
qed

text \<open>C32: an append to a journal that reads adds exactly the frame of the candidate, and the file
  that results verifies: its head is the digest of the new line, and it goes on from the old chain
  by one, or starts a chain at sequence one after the lines that were there.\<close>

theorem journal_append_extends:
  assumes "governed_journal j tenant allowed" "plain (JObj record)"
    and "journal_append j data record = Inr (candidate, data')"
  shows "data' = data @ frame candidate \<and>
    (\<exists>m. journal_measure j data' = Inr m \<and>
       ms_head_sha256 m = journal_sha256 j (payload candidate) \<and>
       (case journal_measure j data of
          Inr old \<Rightarrow> ms_through_seq m = ms_through_seq old + 1 \<and>
            ms_legacy_prefix_lines m = ms_legacy_prefix_lines old
        | Inl _ \<Rightarrow> ms_through_seq m = 1 \<and>
            ms_legacy_prefix_lines m = length (exact_lines data)))"
proof -
  have validate: "journal_validate j = validate_record SPECS tenant allowed"
    using assms(1) by (simp add: governed_journal_def)
  have fresh: "''seq'' \<notin> member_names record" "''prev'' \<notin> member_names record"
    using assms(3) by (auto simp: journal_append_def split: if_splits)
  have "transact_exact_frame (journal_validate j) data (chain_candidate j record) = Inr (candidate, data')"
    using assms(3) fresh by (simp add: journal_append_def)
  then obtain rows c' where r: "read_ledger (journal_validate j) data = Inr rows"
      "length (exact_lines data) = length rows"
      "chain_candidate j record rows (exact_lines data) = Inr (candidate, c')"
      "appended_by (journal_validate j) data rows c' data'"
    by (rule transact_exact_frame_InrE)
  obtain seq prev where cand: "candidate = JObj (record @ [(''seq'', JInt seq), (''prev'', JStr prev)])"
      "c' = Some candidate"
      "if list_ex (\<lambda>row. has_field row ''seq'') rows
       then \<exists>m. verify_rows j rows (exact_lines data) = Inr m \<and> seq = ms_through_seq m + 1 \<and>
         prev = journal_sha256 j (last (exact_lines data))
       else seq = 1 \<and>
         prev = (if exact_lines data \<noteq> [] then journal_sha256 j (last (exact_lines data)) else genesis j)"
    by (rule candidate_Inr [OF r(3) r(2)])
  let ?ms = "record @ [(''seq'', JInt seq), (''prev'', JStr prev)]"
  obtain encoded where enc: "length rows < MAX_LEDGER_RECORDS" "record_id (JObj ?ms) \<notin> record_id ` set rows"
      "encode_line (journal_validate j) (JObj ?ms) = Inr encoded" "append_bytes data encoded = Inr data'"
    using r(4) by (auto simp: appended_by_def cand(1,2))
  have plain: "plain (JObj ?ms)" using assms(2) fresh by (auto simp: member_names_def)
  obtain x where x: "journal_validate j False (JObj ?ms) = Inr x"
    using enc(3) by (auto simp: encode_line_def bindR_Inr_iff)
  have kind: "record_kind (JObj ?ms) \<noteq> JStr ''bus_epoch_roll_receipt''"
    using x unfolding validate by (rule governed_kind)
  note grown = governed_records.read_ledger_append
    [OF r(1) [unfolded validate] enc(3) [unfolded validate] enc(4) plain enc(1,2) kind]
  have data': "data' = data @ frame candidate" using grown(1) cand(1) by simp
  obtain rs where rs: "read_ledger (journal_validate j) data' = Inr (rows @ [JObj rs])" "canonical_of ?ms rs"
    using grown(2) unfolding validate by blast
  have lines: "exact_lines data' = exact_lines data @ [payload candidate]"
  proof -
    obtain framed where "decode_frames data = Inr framed"
      by (rule read_ledger_framed [OF r(1)])
    then have "data = [] \<or> last data = CHR 0x0A" by (rule decode_frames_complete)
    then show ?thesis using plain unfolding data' cand(1) by (rule exact_lines_add_frame)
  qed
  have paired: "has_field q ''seq'' \<longleftrightarrow> has_field q ''prev''" if "q \<in> set rows" for q
  proof -
    obtain framed where f: "decode_records (journal_validate j) 1 {} framed = Inr rows"
      by (rule read_ledger_framed [OF r(1)])
    obtain i where i: "i < length rows" "rows ! i = q" using \<open>q \<in> set rows\<close> by (auto simp: in_set_conv_nth)
    then have "journal_validate j True (framed ! i) = Inr q" using decode_records_nth [OF f] by auto
    then show ?thesis unfolding validate by (rule validated_row_paired)
  qed
  have last: "has_field (JObj rs) ''seq''" "has_field (JObj rs) ''prev''"
      "field (JObj rs) ''seq'' = JInt seq" "field (JObj rs) ''prev'' = JStr prev"
    using fresh by (simp_all add: field_canonical [OF rs(2)] get_member_append)
       (simp_all add: member_names_def get_member_def)
  let ?lines = "exact_lines data"
  have chained: "\<exists>m. verify_rows j rows ?lines = Inr m \<and> seq = ms_through_seq m + 1 \<and>
      prev = journal_sha256 j (last ?lines)" if "list_ex (\<lambda>row. has_field row ''seq'') rows"
    using cand(3) unfolding if_P [OF that] .
  have started: "seq = 1 \<and> prev = (if ?lines \<noteq> [] then journal_sha256 j (last ?lines) else genesis j)"
    if "\<not> list_ex (\<lambda>row. has_field row ''seq'') rows"
    using cand(3) unfolding if_not_P [OF that] .
  have "\<exists>m. verify_rows j (rows @ [JObj rs]) (?lines @ [payload candidate]) = Inr m \<and>
      ms_head_sha256 m = journal_sha256 j (payload candidate) \<and>
      (case verify_rows j rows ?lines of
         Inr old \<Rightarrow> ms_through_seq m = ms_through_seq old + 1 \<and>
           ms_legacy_prefix_lines m = ms_legacy_prefix_lines old
       | Inl _ \<Rightarrow> ms_through_seq m = 1 \<and> ms_legacy_prefix_lines m = length ?lines)"
    by (rule verify_rows_extended [OF chained started paired r(2) last])
  with data' show ?thesis
    unfolding journal_measure_read [OF r(1)] journal_measure_read [OF rs(1)] lines by blast
qed

section \<open>Equal heads, equal chains\<close>

lemma split_lines_exact: "CHR 0x0D \<notin> set s \<Longrightarrow> split_lines (s @ [CHR 0x0A]) = split_on (CHR 0x0A) s"
proof (induction s)
  case (Cons c s)
  have "split_lines (s @ [CHR 0x0A]) \<noteq> []" using Cons by simp
  with Cons show ?case by (auto split: list.splits)
qed simp

lemma exact_lines_split:
  assumes "CHR 0x0D \<notin> set data" "data = [] \<or> last data = CHR 0x0A"
  shows "split_lines data = exact_lines data"
proof (cases "data = []")
  case False
  then obtain s where s: "data = s @ [CHR 0x0A]" using assms(2) by (metis append_butlast_last_id)
  then have "exact_lines data = split_on (CHR 0x0A) s"
    using split_on_append [of "CHR 0x0A" s "[]"] by (simp add: exact_lines_def)
  with s assms(1) show ?thesis by (simp add: split_lines_exact)
qed (simp add: exact_lines_def)

text \<open>The row a line holds, whatever its position.\<close>

definition line_row :: "journal \<Rightarrow> string \<Rightarrow> json \<Rightarrow> bool" where
  "line_row j line row \<longleftrightarrow> (\<exists>raw. loads_bytes line = Inr raw \<and> journal_validate j True raw = Inr row)"

lemma line_row_unique: "line_row j line r \<Longrightarrow> line_row j line s \<Longrightarrow> r = s"
  by (auto simp: line_row_def)

lemma journal_rows_nth:
  "journal_rows j seen raws = Inr rows \<Longrightarrow>
     length rows = length raws \<and> (\<forall>i < length raws. journal_validate j True (raws ! i) = Inr (rows ! i))"
proof (induction raws arbitrary: seen rows)
  case (Cons raw raws)
  then obtain r rs where r: "journal_validate j True raw = Inr r" "rows = r # rs"
      "journal_rows j (insert (record_id r) seen) raws = Inr rs"
    by (auto simp: bindR_Inr_iff split: sum.splits fault.splits if_splits)
  with Cons.IH [OF r(3)] show ?case by (auto simp: nth_Cons split: nat.splits)
qed simp

text \<open>What a measurement of a file without carriage returns rests on.\<close>

lemma journal_measureE:
  assumes "journal_measure j data = Inr m" "CHR 0x0D \<notin> set data"
  obtains rows first where "length (exact_lines data) = length rows"
    "\<forall>i < length rows. line_row j (exact_lines data ! i) (rows ! i)"
    "chain_ok j rows (exact_lines data) first" "m = measure_of j rows (exact_lines data) first"
proof -
  obtain decoded rows where d: "decode_frames data = Inr decoded" "journal_rows j {} decoded = Inr rows"
      "verify_rows j rows (exact_lines data) = Inr m"
    using assms(1)
    by (auto simp: journal_measure_def journal_decode_def bindR_Inr_iff split: if_splits sum.splits frame_error.splits)
  have lines: "decode_lines 1 (exact_lines data) = Inr decoded"
    using d(1) exact_lines_split [OF assms(2) decode_frames_complete [OF d(1)]]
    by (simp add: decode_frames_def split: if_splits)
  note nth = decode_lines_nth [OF lines] journal_rows_nth [OF d(2)]
  have len: "length (exact_lines data) = length rows" using nth by simp
  have rows: "line_row j (exact_lines data ! i) (rows ! i)" if "i < length rows" for i
    using nth that by (auto simp: line_row_def)
  obtain first where "chain_ok j rows (exact_lines data) first" "m = measure_of j rows (exact_lines data) first"
    using d(3) by (auto simp: verify_rows_Inr_iff [OF len])
  with len show ?thesis using rows by (intro that) auto
qed

text \<open>The bytes whose digest the first chained row carries.\<close>

definition chain_anchor :: "journal \<Rightarrow> string list \<Rightarrow> nat \<Rightarrow> string" where
  "chain_anchor j lines first = (if first = 0 then encode_utf8 (journal_id j) else lines ! (first - 1))"

lemma link_anchor:
  "link j lines i = journal_sha256 j (if i = 0 then encode_utf8 (journal_id j) else lines ! (i - 1))"
  by (simp add: link_def genesis_def)

text \<open>Walking back from equal last lines, \<open>n\<close> rows at a time.\<close>

lemma chains_equal_back:
  assumes a: "chain_ok j rows lines first" "length lines = length rows"
      "\<And>i. i < length rows \<Longrightarrow> line_row j (lines ! i) (rows ! i)"
    and b: "chain_ok j rows' lines' first'" "length lines' = length rows'"
      "\<And>i. i < length rows' \<Longrightarrow> line_row j (lines' ! i) (rows' ! i)"
    and inj: "inj_on (journal_sha256 j)
      (insert (encode_utf8 (journal_id j)) (set lines \<union> set lines'))"
    and last: "journal_sha256 j (last lines) = journal_sha256 j (last lines')"
    and n: "first + n < length rows"
  shows "first' + n < length rows' \<and> lines ! (length rows - Suc n) = lines' ! (length rows' - Suc n)"
  using n
proof (induction n)
  case 0
  have ne: "lines \<noteq> []" "lines' \<noteq> []" using a(1,2) b(1,2) by (auto simp: chain_ok_def)
  have "last lines = last lines'"
    by (rule inj_onD [OF inj last]) (use ne in simp_all)
  with ne a(2) b(2) b(1) show ?case by (simp add: last_conv_nth chain_ok_def)
next
  case (Suc n)
  let ?i = "length rows - Suc n" and ?i' = "length rows' - Suc n"
  from Suc have ih: "first' + n < length rows'" "lines ! ?i = lines' ! ?i'" by simp_all
  have i: "?i < length rows" "first < ?i" "?i' < length rows'" "first' \<le> ?i'"
    using Suc.prems ih(1) by auto
  have same: "rows ! ?i = rows' ! ?i'"
    using a(3) [OF i(1)] b(3) [OF i(3)] ih(2) by (auto intro: line_row_unique)
  have seq: "field (rows ! ?i) ''seq'' = JInt (int (?i - first) + 1)"
      "field (rows' ! ?i') ''seq'' = JInt (int (?i' - first') + 1)"
      "field (rows ! ?i) ''prev'' = JStr (link j lines ?i)"
      "field (rows' ! ?i') ''prev'' = JStr (link j lines' ?i')"
    using a(1) b(1) i by (auto simp: chain_ok_def)
  have lt: "first' < ?i'" using seq(1,2) i same by simp
  then have pos: "?i \<noteq> 0" "?i' \<noteq> 0" using i(2) by linarith+
  have "journal_sha256 j (lines ! (?i - 1)) = journal_sha256 j (lines' ! (?i' - 1))"
    using seq(3,4) same pos by (simp add: link_anchor)
  then have "lines ! (?i - 1) = lines' ! (?i' - 1)"
    by (rule inj_onD [OF inj]) (use i a(2) b(2) in auto)
  moreover have "?i - 1 = length rows - Suc (Suc n)" "?i' - 1 = length rows' - Suc (Suc n)"
    by simp_all
  moreover have "first' + Suc n < length rows'" using lt by linarith
  ultimately show ?case by simp
qed

text \<open>C33: if two files without carriage returns verify with the same head, they have the same
  sequence number, the same chained lines byte for byte, and the same anchor under the first of
  them, unless two different ones among these lines have the same SHA-256.\<close>

theorem equal_heads_equal_chains:
  assumes "journal_measure j data = Inr m" "journal_measure j data' = Inr m'"
    and "CHR 0x0D \<notin> set data" "CHR 0x0D \<notin> set data'"
    and "ms_head_sha256 m = ms_head_sha256 m'"
  defines "anchored \<equiv> insert (encode_utf8 (journal_id j)) (set (exact_lines data) \<union> set (exact_lines data'))"
  shows "(ms_through_seq m = ms_through_seq m' \<and>
      drop (ms_legacy_prefix_lines m) (exact_lines data) = drop (ms_legacy_prefix_lines m') (exact_lines data') \<and>
      chain_anchor j (exact_lines data) (ms_legacy_prefix_lines m) =
        chain_anchor j (exact_lines data') (ms_legacy_prefix_lines m')) \<or>
    (\<exists>x \<in> anchored. \<exists>y \<in> anchored. x \<noteq> y \<and> journal_sha256 j x = journal_sha256 j y)"
proof -
  let ?l = "exact_lines data" and ?l' = "exact_lines data'"
  obtain rows first where a: "length ?l = length rows"
      "\<forall>i < length rows. line_row j (?l ! i) (rows ! i)"
      "chain_ok j rows ?l first" "m = measure_of j rows ?l first"
    by (rule journal_measureE [OF assms(1,3)])
  obtain rows' first' where b: "length ?l' = length rows'"
      "\<forall>i < length rows'. line_row j (?l' ! i) (rows' ! i)"
      "chain_ok j rows' ?l' first'" "m' = measure_of j rows' ?l' first'"
    by (rule journal_measureE [OF assms(2,4)])
  have head: "journal_sha256 j (last ?l) = journal_sha256 j (last ?l')"
    using assms(5) by (simp add: a(4) b(4) measure_of_def)
  have f: "first < length rows" "first' < length rows'" using a(3) b(3) by (simp_all add: chain_ok_def)
  show ?thesis
  proof (cases "inj_on (journal_sha256 j) anchored")
    case True
    note inj = True [unfolded anchored_def]
    have ra: "line_row j (?l ! i) (rows ! i)" if "i < length rows" for i using a(2) that by blast
    have rb: "line_row j (?l' ! i) (rows' ! i)" if "i < length rows'" for i using b(2) that by blast
    note walk = chains_equal_back [OF a(3,1) ra b(3,1) rb inj head]
    have inj': "inj_on (journal_sha256 j) (insert (encode_utf8 (journal_id j)) (set ?l' \<union> set ?l))"
      using inj by (simp only: Un_commute)
    note walk' = chains_equal_back [OF b(3,1) rb a(3,1) ra inj' head [symmetric]]
    have "first' + (length rows - first - 1) < length rows'" using walk [of "length rows - first - 1"] f by simp
    moreover have "first + (length rows' - first' - 1) < length rows"
      using walk' [of "length rows' - first' - 1"] f by simp
    ultimately have n: "length rows - first = length rows' - first'" using f by linarith
    have line: "?l ! (first + k) = ?l' ! (first' + k)" if k: "k < length rows - first" for k
    proof -
      have "length rows - Suc (length rows - first - 1 - k) = first + k" using k by linarith
      moreover have "length rows' - Suc (length rows - first - 1 - k) = first' + k" using k n f by linarith
      ultimately show ?thesis using walk [of "length rows - first - 1 - k"] k by simp
    qed
    have lines: "drop first ?l = drop first' ?l'"
      by (rule nth_equalityI) (use line n a(1) b(1) in simp_all)
    have "rows ! first = rows' ! first'"
      using ra [OF f(1)] rb [OF f(2)] line [of 0] f by (auto intro: line_row_unique)
    then have "journal_sha256 j (chain_anchor j ?l first) = journal_sha256 j (chain_anchor j ?l' first')"
      using a(3) b(3) f by (auto simp: chain_ok_def link_anchor chain_anchor_def)
    moreover have "chain_anchor j ?l first \<in> anchored" "chain_anchor j ?l' first' \<in> anchored"
      using f a(1) b(1) by (auto simp: chain_anchor_def anchored_def)
    ultimately have "chain_anchor j ?l first = chain_anchor j ?l' first'" by (rule inj_onD [OF True])
    with lines n show ?thesis by (simp add: a(4) b(4) measure_of_def)
  next
    case False
    then show ?thesis by (auto simp: inj_on_def)
  qed
qed

section \<open>Accepted checkpoints\<close>

lemma highest_accepted_append:
  "highest_accepted (rows @ [row]) = (case field row ''through_seq'' of
     JInt i \<Rightarrow> max (highest_accepted rows) (max i 0) | _ \<Rightarrow> highest_accepted rows)"
proof -
  have "foldr (\<lambda>row m. case field row ''through_seq'' of JInt i \<Rightarrow> max i m | _ \<Rightarrow> m) rows k =
      max (highest_accepted rows) k" if "0 \<le> k" for k
    unfolding highest_accepted_def using that
    by (induction rows) (auto split: json.splits)
  from this [of "max i 0" for i] show ?thesis
    by (auto simp: highest_accepted_def split: json.splits)
qed

text \<open>An accepted checkpoint is on the file afterwards.\<close>

lemma verify_accepts:
  assumes "journal_verify j tenant uuid now False value path states = Inr (v, states')"
  shows "\<exists>rows rows'. read_ledger (state_validate tenant) states = Inr rows \<and>
    read_ledger (state_validate tenant) states' = Inr rows' \<and>
    highest_accepted rows \<le> vr_through_seq v \<and> highest_accepted rows' = vr_through_seq v"
proof -
  obtain c m highest where c: "parse_checkpoint j value = Inr c" "check_prefix j c path = Inr m"
      "transact_line (state_validate tenant) states (accept_checkpoint j tenant uuid now c) = Inr (highest, states')"
      "vr_through_seq v = cp_through_seq c"
    using assms by (auto simp: journal_verify_def bindR_Inr_iff)
  have through: "1 \<le> cp_through_seq c"
    using c(1) by (auto simp: parse_checkpoint_def split: json.splits if_splits)
  obtain rows candidate where r: "read_ledger (state_validate tenant) states = Inr rows"
      "accept_checkpoint j tenant uuid now c rows = Inr (highest, candidate)"
      "appended_by (state_validate tenant) states rows candidate states'"
    by (rule transact_line_InrE [OF c(3)])
  have le: "highest_accepted rows \<le> cp_through_seq c"
    using r(2) by (auto simp: accept_checkpoint_def Let_def split: if_splits)
  show ?thesis
  proof (cases candidate)
    case None
    then have "states' = states" "cp_through_seq c = highest_accepted rows"
      using r(2,3) by (auto simp: accept_checkpoint_def appended_by_def Let_def split: if_splits)
    with r(1) c(4) show ?thesis by auto
  next
    case (Some r0)
    let ?ms = "[(''schema_version'', JInt 0), (''id'', JStr (''journal-checkpoint-state-'' @ uuid)),
         (''tenant_id'', JStr tenant), (''timestamp'', JStr now),
         (''kind'', JStr ''journal_checkpoint_state''), (''journal_id'', JStr (journal_id j)),
         (''through_seq'', JInt (cp_through_seq c)), (''head_sha256'', JStr (cp_head_sha256 c)),
         (''byte_length'', JInt (cp_byte_length c)),
         (''checkpoint_sha256'', JStr (journal_sha256 j (payload (checkpoint_json j c))))]"
    have r0: "r0 = JObj ?ms"
      using r(2) Some by (auto simp: accept_checkpoint_def Let_def split: if_splits)
    obtain encoded where e: "length rows < MAX_LEDGER_RECORDS" "record_id (JObj ?ms) \<notin> record_id ` set rows"
        "encode_line (state_validate tenant) (JObj ?ms) = Inr encoded" "append_bytes states encoded = Inr states'"
      using r(3) by (auto simp: appended_by_def Some r0)
    have plain: "plain (JObj ?ms)" by simp
    have kind: "record_kind (JObj ?ms) \<noteq> JStr ''bus_epoch_roll_receipt''"
      by (simp add: record_kind_def get_member_def)
    obtain rs where rs: "read_ledger (state_validate tenant) states' = Inr (rows @ [JObj rs])" "canonical_of ?ms rs"
      using governed_records.read_ledger_append(2) [OF r(1) [unfolded state_validate_def]
        e(3) [unfolded state_validate_def] e(4) plain e(1,2) kind]
      unfolding state_validate_def by blast
    have "field (JObj rs) ''through_seq'' = JInt (cp_through_seq c)"
      by (simp add: field_canonical(2) [OF rs(2)] get_member_def)
    then have "highest_accepted (rows @ [JObj rs]) = cp_through_seq c"
      using le through by (simp add: highest_accepted_append)
    with r(1) rs(1) le c(4) show ?thesis by auto
  qed
qed

lemma verify_keeps:
  assumes "journal_verify j tenant uuid now historical value path states = Inr (v, states')"
    and "read_ledger (state_validate tenant) states = Inr rows"
  shows "\<exists>rows'. read_ledger (state_validate tenant) states' = Inr rows' \<and>
    highest_accepted rows \<le> highest_accepted rows'"
proof (cases historical)
  case True
  then have "states' = states" using assms(1) by (auto simp: journal_verify_def bindR_Inr_iff)
  with assms(2) show ?thesis by simp
next
  case False
  with assms(1) have "journal_verify j tenant uuid now False value path states = Inr (v, states')" by simp
  from verify_accepts [OF this] assms(2) show ?thesis by auto
qed

text \<open>Any number of later verifications, whatever their outcome: a refused one leaves the file.\<close>

fun verify_all ::
    "journal \<Rightarrow> string \<Rightarrow> (string \<times> string \<times> bool \<times> json \<times> string option) list \<Rightarrow> string \<Rightarrow> string" where
  "verify_all j tenant [] states = states"
| "verify_all j tenant ((uuid, now, historical, value, path) # requests) states =
     verify_all j tenant requests
       (case journal_verify j tenant uuid now historical value path states of
          Inl e \<Rightarrow> states
        | Inr (v, states') \<Rightarrow> states')"

lemma verify_all_keeps:
  "read_ledger (state_validate tenant) states = Inr rows \<Longrightarrow>
     \<exists>rows'. read_ledger (state_validate tenant) (verify_all j tenant requests states) = Inr rows' \<and>
       highest_accepted rows \<le> highest_accepted rows'"
proof (induction requests arbitrary: states rows)
  case (Cons r requests)
  obtain uuid now historical val path where r: "r = (uuid, now, historical, val, path)"
    by (cases r) auto
  show ?case
  proof (cases "journal_verify j tenant uuid now historical val path states")
    case (Inl e)
    with Cons show ?thesis by (simp add: r)
  next
    case (Inr vs)
    obtain v states' where vs: "vs = (v, states')" by (cases vs)
    obtain rows' where rows': "read_ledger (state_validate tenant) states' = Inr rows'"
        "highest_accepted rows \<le> highest_accepted rows'"
      using verify_keeps [OF Inr [unfolded vs] Cons.prems] by blast
    from Cons.IH [OF rows'(1)] rows'(2) show ?thesis by (auto simp: r Inr vs)
  qed
qed auto

text \<open>C16: once a checkpoint has been accepted, and after any number of further verifications,
  a checkpoint with a lower sequence number is refused as a suspected rollback, even though the
  file it names verifies.\<close>

theorem accepted_never_rolled_back:
  assumes "journal_verify j tenant uuid now False value path states = Inr (v, states')"
    and "parse_checkpoint j value' = Inr c" "check_prefix j c path' = Inr m"
    and "cp_through_seq c < vr_through_seq v"
  shows "journal_verify j tenant uuid' now' False value' path' (verify_all j tenant requests states') =
    Inl (ProtocolRefusal ''journal_rollback_suspected'')"
proof -
  obtain rows where rows: "read_ledger (state_validate tenant) states' = Inr rows"
      "highest_accepted rows = vr_through_seq v"
    using verify_accepts [OF assms(1)] by blast
  obtain rows' where rows': "read_ledger (state_validate tenant) (verify_all j tenant requests states') = Inr rows'"
      "vr_through_seq v \<le> highest_accepted rows'"
    using verify_all_keeps [OF rows(1), of j requests] rows(2) by auto
  with assms(4) have "accept_checkpoint j tenant uuid' now' c rows' =
      Inl (ProtocolRefusal ''journal_rollback_suspected'')"
    by (simp add: accept_checkpoint_def)
  then show ?thesis
    by (simp add: journal_verify_def assms(2,3) transact_line_def rows'(1))
qed

end
