(* ===== verification/Journal_Examples.thy ===== *)
theory Journal_Examples
  imports Journal_Properties
begin

text \<open>
  The properties of the journal at concrete inputs: an append to an empty journal of governed
  records, two journals with the same head, and a rollback that is refused.  The last two use a
  journal whose record validator accepts every object, which its theorems allow.
\<close>

section \<open>An append\<close>

definition example_fields :: members where
  "example_fields =
     [(''byte_length'', JInt 40), (''checkpoint_sha256'', JStr (replicate 64 CHR ''c'')),
      (''head_sha256'', JStr (replicate 64 CHR ''a'')),
      (''id'', JStr ''journal-checkpoint-state-0198c0de00017000a000000000000001''),
      (''journal_id'', JStr ''events''), (''kind'', JStr ''journal_checkpoint_state''),
      (''schema_version'', JInt 0), (''tenant_id'', JStr ''acme''), (''through_seq'', JInt 1),
      (''timestamp'', JStr ''2026-02-28T23:59:59Z'')]"

definition example_journal :: journal where
  "example_journal = \<lparr>journal_id = ''events'',
     journal_validate = validate_record SPECS ''acme'' [''journal_checkpoint_state''],
     journal_sha256 = (\<lambda>_. replicate 64 CHR ''b'')\<rparr>"

definition example_candidate :: json where
  "example_candidate = JObj (example_fields @ [(''seq'', JInt 1), (''prev'', JStr (replicate 64 CHR ''b''))])"

lemma example_valid:
  "validate_record SPECS ''acme'' [''journal_checkpoint_state''] False example_candidate = Inr example_candidate"
  by (simp add: example_candidate_def example_fields_def evaluate governed_lookups journal_checkpoint_state_spec_def journal_checkpoint_state_body_def member_names_def checks.simps)

lemma example_length: "length (frame example_candidate) \<le> 8000"
  by (rule order_trans [OF length_frame]) (simp add: example_candidate_def example_fields_def)


lemma governed_example: "governed_journal example_journal ''acme'' [''journal_checkpoint_state'']"
  by (simp add: governed_journal_def example_journal_def)

lemma state_row_plain: "plain example_candidate" "plain (JObj example_fields)"
  by (simp_all add: example_candidate_def example_fields_def)

lemma example_append:
  "journal_append example_journal [] example_fields = Inr (example_candidate, frame example_candidate)"
proof -
  have enc: "encode_line (journal_validate example_journal) example_candidate = Inr (frame example_candidate)"
    using example_length
    by (simp add: encode_line_def example_journal_def example_valid state_row_plain MAX_RECORD_BYTES_def)
  have ap: "append_bytes [] (frame example_candidate) = Inr (frame example_candidate)"
    using example_length by (simp add: append_bytes_def MAX_LEDGER_BYTES_def)
  have "chain_candidate example_journal example_fields [] [] = Inr (example_candidate, Some example_candidate)"
    by (simp add: chain_candidate_def genesis_def example_journal_def example_candidate_def Let_def)
  with enc ap show ?thesis
    by (simp add: journal_append_def transact_exact_frame_def read_ledger_def decode_frames_def
        exact_lines_def member_names_def example_fields_def MAX_LEDGER_RECORDS_def MAX_LEDGER_BYTES_def)
qed

lemma empty_journal: "journal_measure j [] = Inl (ProtocolRefusal ''journal_chain_absent'')"
  by (simp add: journal_measure_def journal_decode_def decode_frames_def verify_rows_def first_chained_def)

lemma journal_append_extends_witness:
  "\<exists>m. journal_measure example_journal (frame example_candidate) = Inr m \<and> ms_through_seq m = 1"
  using journal_append_extends [OF governed_example state_row_plain(2) example_append]
  unfolding empty_journal by auto

section \<open>Two journals with one head\<close>

definition lenient :: "(string \<Rightarrow> string) \<Rightarrow> journal" where
  "lenient sha = \<lparr>journal_id = ''j'', journal_validate = (\<lambda>_ v. Inr v), journal_sha256 = sha\<rparr>"

definition row_with :: "string \<Rightarrow> (string \<times> int) option \<Rightarrow> json" where
  "row_with i chain = JObj ((''id'', JStr i) #
     (case chain of None \<Rightarrow> [] | Some (prev, seq) \<Rightarrow> [(''prev'', JStr prev), (''seq'', JInt seq)]))"

lemma row_with_none [simp]:
  "plain (row_with i None)" "canon (row_with i None) = row_with i None"
  "record_id (row_with i None) = JStr i"
  "\<not> has_field (row_with i None) ''seq''" "\<not> has_field (row_with i None) ''prev''"
  by (simp_all add: row_with_def record_id_def get_member_def has_field_def member_names_def)

lemma row_with_some [simp]:
  "plain (row_with i (Some (p, s)))" "canon (row_with i (Some (p, s))) = row_with i (Some (p, s))"
  "record_id (row_with i (Some (p, s))) = JStr i"
  "has_field (row_with i (Some (p, s))) ''seq''" "has_field (row_with i (Some (p, s))) ''prev''"
  "field (row_with i (Some (p, s))) ''seq'' = JInt s"
  "field (row_with i (Some (p, s))) ''prev'' = JStr p"
  by (simp_all add: row_with_def record_id_def field_def get_member_def has_field_def member_names_def)

lemma lenient_rows:
  "distinct (map record_id rows) \<Longrightarrow> seen \<inter> record_id ` set rows = {} \<Longrightarrow>
     journal_rows (lenient sha) seen rows = Inr rows"
  by (induction rows arbitrary: seen) (auto simp: lenient_def)

lemma exact_lines_frames: "list_all plain rows \<Longrightarrow> exact_lines (concat (map frame rows)) = map payload rows"
proof (induction rows rule: rev_induct)
  case (snoc r rows)
  then have "decode_frames (concat (map frame rows)) = Inr (map canon rows)"
    by (intro decode_frames_concat) simp
  then have "concat (map frame rows) = [] \<or> last (concat (map frame rows)) = CHR 0x0A"
    by (rule decode_frames_complete)
  with snoc show ?case by (simp add: exact_lines_add_frame)
qed (simp add: exact_lines_def)

lemma lenient_measure:
  assumes "list_all plain rows" "map canon rows = rows" "distinct (map record_id rows)"
  shows "journal_measure (lenient sha) (concat (map frame rows)) = verify_rows (lenient sha) rows (map payload rows)"
proof -
  have d: "decode_frames (concat (map frame rows)) = Inr rows"
    using decode_frames_concat [OF assms(1)] assms(2) by simp
  let ?data = "concat (map frame rows)"
  have "(?data \<noteq> [] \<and> last ?data \<noteq> CHR 0x0A) = False"
    using decode_frames_complete [OF d] by blast
  moreover have "journal_rows (lenient sha) {} rows = Inr rows"
    using lenient_rows [OF assms(3), of "{}" sha] by simp
  ultimately show ?thesis
    unfolding journal_measure_def journal_decode_def exact_lines_frames [OF assms(1)] d
    by (simp only: if_False sum.case bindR_simps prod.case)
qed

definition legacy :: "string \<Rightarrow> json" where "legacy i = row_with i None"

definition anchored :: json where
  "anchored = row_with ''c'' (Some (payload (legacy ''b''), 1))"

lemma measure_one: "journal_measure (lenient id) (concat (map frame [legacy ''b'', anchored])) =
    Inr \<lparr>ms_legacy_prefix_lines = 1, ms_chain_start_line = 2, ms_through_seq = 1,
         ms_head_sha256 = payload anchored\<rparr>"
  by (subst lenient_measure)
     (simp_all add: legacy_def anchored_def verify_rows_def first_chained_def nth_line_def last_line_def lenient_def)

lemma measure_two: "journal_measure (lenient id) (concat (map frame [legacy ''a'', legacy ''b'', anchored])) =
    Inr \<lparr>ms_legacy_prefix_lines = 2, ms_chain_start_line = 3, ms_through_seq = 1,
         ms_head_sha256 = payload anchored\<rparr>"
  by (subst lenient_measure)
     (simp_all add: legacy_def anchored_def verify_rows_def first_chained_def nth_line_def last_line_def lenient_def)

lemma no_return: "list_all plain rows \<Longrightarrow> CHR 0x0D \<notin> set (concat (map frame rows))"
  by (induction rows) (use payload_no_break in \<open>auto simp: frame_def FRAME_TERMINATOR_def\<close>)

lemma equal_heads_equal_chains_witness:
  "drop 1 (exact_lines (concat (map frame [legacy ''b'', anchored]))) =
     drop 2 (exact_lines (concat (map frame [legacy ''a'', legacy ''b'', anchored]))) \<and>
   chain_anchor (lenient id) (exact_lines (concat (map frame [legacy ''b'', anchored]))) 1 =
     chain_anchor (lenient id) (exact_lines (concat (map frame [legacy ''a'', legacy ''b'', anchored]))) 2"
proof -
  have plain: "list_all plain [legacy ''b'', anchored]" "list_all plain [legacy ''a'', legacy ''b'', anchored]"
    by (simp_all add: legacy_def anchored_def)
  have id: "journal_sha256 (lenient id) = id" by (simp add: lenient_def)
  show ?thesis
    using equal_heads_equal_chains
      [OF measure_one measure_two no_return [OF plain(1)] no_return [OF plain(2)]]
    unfolding id id_apply by (simp only: measure.simps) blast
qed

section \<open>A rollback\<close>

abbreviation digest :: string where "digest \<equiv> replicate 64 CHR ''b''"

definition steady :: journal where "steady = lenient (\<lambda>_. digest)"

definition first_row :: json where "first_row = row_with ''a'' (Some (digest, 1))"
definition second_row :: json where "second_row = row_with ''b'' (Some (digest, 2))"

definition short_file :: string where "short_file = frame first_row"
definition long_file :: string where "long_file = frame first_row @ frame second_row"

lemma file_lengths: "1 \<le> length short_file" "length short_file \<le> length long_file" "length long_file \<le> 5000"
    "last short_file = CHR 0x0A" "last long_file = CHR 0x0A" "short_file \<noteq> []" "long_file \<noteq> []"
proof -
  have "text_bound (canon first_row) \<le> 1000" "text_bound (canon second_row) \<le> 1000"
    by (simp_all add: first_row_def second_row_def) (simp_all add: row_with_def)
  with length_frame [of first_row] length_frame [of second_row] show "length long_file \<le> 5000"
    by (simp add: long_file_def)
qed (simp_all add: short_file_def long_file_def frame_def FRAME_TERMINATOR_def)

lemma short_measure: "journal_measure steady short_file =
    Inr \<lparr>ms_legacy_prefix_lines = 0, ms_chain_start_line = 1, ms_through_seq = 1, ms_head_sha256 = digest\<rparr>"
proof -
  have bytes: "short_file = concat (map frame [first_row])" by (simp add: short_file_def)
  show ?thesis
    unfolding steady_def bytes
    by (subst lenient_measure,
      simp_all add: first_row_def verify_rows_def first_chained_def nth_line_def last_line_def genesis_def lenient_def)
qed

lemma long_measure: "journal_measure steady long_file =
    Inr \<lparr>ms_legacy_prefix_lines = 0, ms_chain_start_line = 1, ms_through_seq = 2, ms_head_sha256 = digest\<rparr>"
proof -
  have bytes: "long_file = concat (map frame [first_row, second_row])" by (simp add: long_file_def)
  show ?thesis
    unfolding steady_def bytes
    by (subst lenient_measure,
      simp_all add: first_row_def second_row_def verify_rows_def first_chained_def nth_line_def last_line_def
        genesis_def lenient_def)
qed

definition checkpoint_at :: "int \<Rightarrow> string \<Rightarrow> checkpoint" where
  "checkpoint_at n file = \<lparr>cp_through_seq = n, cp_head_sha256 = digest, cp_byte_length = int (length file)\<rparr>"

lemma parse_at:
  assumes "1 \<le> n" "n \<le> 5" "1 \<le> length file" "length file \<le> 5000"
  shows "parse_checkpoint steady (checkpoint_json steady (checkpoint_at n file)) = Inr (checkpoint_at n file)"
proof -
  have "is_sha256 digest" by (simp add: evaluate)
  moreover have "same_names [(''format'', a), (''journal_id'', b), (''through_seq'', c), (''head_sha256'', d),
      (''byte_length'', e)] CHECKPOINT_FIELDS" for a b c d e
    by (simp add: same_names_def member_names_def CHECKPOINT_FIELDS_def)
  ultimately show ?thesis
    using assms by (simp add: parse_checkpoint_def checkpoint_json_def checkpoint_at_def get_member_def)
qed

lemma prefix_at:
  "check_prefix steady (checkpoint_at 1 short_file) (Some long_file) =
     Inr \<lparr>ms_legacy_prefix_lines = 0, ms_chain_start_line = 1, ms_through_seq = 1, ms_head_sha256 = digest\<rparr>"
  "check_prefix steady (checkpoint_at 2 long_file) (Some long_file) =
     Inr \<lparr>ms_legacy_prefix_lines = 0, ms_chain_start_line = 1, ms_through_seq = 2, ms_head_sha256 = digest\<rparr>"
proof -
  have "take (length short_file) long_file = short_file" by (simp add: short_file_def long_file_def)
  then show "check_prefix steady (checkpoint_at 1 short_file) (Some long_file) =
     Inr \<lparr>ms_legacy_prefix_lines = 0, ms_chain_start_line = 1, ms_through_seq = 1, ms_head_sha256 = digest\<rparr>"
    using file_lengths
    by (simp add: check_prefix_def read_data_def checkpoint_at_def long_measure short_measure Let_def del: length_0_conv)
  show "check_prefix steady (checkpoint_at 2 long_file) (Some long_file) =
     Inr \<lparr>ms_legacy_prefix_lines = 0, ms_chain_start_line = 1, ms_through_seq = 2, ms_head_sha256 = digest\<rparr>"
    using file_lengths
    by (simp add: check_prefix_def read_data_def checkpoint_at_def long_measure Let_def del: length_0_conv)
qed

definition state_row :: json where
  "state_row = JObj
    [(''schema_version'', JInt 0),
     (''id'', JStr (''journal-checkpoint-state-'' @ ''0198c0de00017000a000000000000001'')),
     (''tenant_id'', JStr ''acme''), (''timestamp'', JStr ''2026-02-28T23:59:59Z''),
     (''kind'', JStr ''journal_checkpoint_state''), (''journal_id'', JStr ''j''),
     (''through_seq'', JInt 2), (''head_sha256'', JStr digest),
     (''byte_length'', JInt (int (length long_file))), (''checkpoint_sha256'', JStr digest)]"

lemma state_row_valid: "state_validate ''acme'' False state_row = Inr state_row"
proof -
  have "int (length long_file) \<le> 67108864" "1 \<le> int (length long_file)" using file_lengths by linarith+
  then show ?thesis
    by (simp add: state_validate_def state_row_def evaluate governed_lookups journal_checkpoint_state_spec_def
        journal_checkpoint_state_body_def member_names_def checks.simps)
qed

lemma state_row_size: "plain state_row" "length (frame state_row) \<le> 30000"
proof -
  show "plain state_row" by (simp add: state_row_def)
  have "text_bound (canon state_row) \<le> 14000"
    using file_lengths by (simp add: state_row_def)
  with length_frame [of state_row] show "length (frame state_row) \<le> 30000" by simp
qed

lemma example_verify:
  "\<exists>v. journal_verify steady ''acme'' ''0198c0de00017000a000000000000001'' ''2026-02-28T23:59:59Z'' False
     (checkpoint_json steady (checkpoint_at 2 long_file)) (Some long_file) [] = Inr (v, frame state_row) \<and>
     vr_through_seq v = 2"
proof -
  have accept: "accept_checkpoint steady ''acme'' ''0198c0de00017000a000000000000001'' ''2026-02-28T23:59:59Z''
      (checkpoint_at 2 long_file) [] = Inr (2, Some state_row)"
    by (simp add: accept_checkpoint_def highest_accepted_def checkpoint_at_def state_row_def steady_def lenient_def)
  have kind: "record_kind state_row \<noteq> JStr ''wake_hold_receipt''"
    by (simp add: record_kind_def state_row_def get_member_def)
  have enc: "encode_line (state_validate ''acme'') state_row = Inr (frame state_row)"
    using state_row_size by (simp add: encode_line_def state_row_valid MAX_RECORD_BYTES_def)
  have "append_bytes [] (frame state_row) = Inr (frame state_row)"
    using state_row_size by (simp add: append_bytes_def MAX_LEDGER_BYTES_def)
  with accept kind enc have "transact_line (state_validate ''acme'') [] (accept_checkpoint steady ''acme''
      ''0198c0de00017000a000000000000001'' ''2026-02-28T23:59:59Z'' (checkpoint_at 2 long_file)) =
      Inr (2, frame state_row)"
    by (simp add: transact_line_def read_ledger_def decode_frames_def MAX_LEDGER_RECORDS_def MAX_LEDGER_BYTES_def)
  then show ?thesis
    using parse_at [of 2 long_file] file_lengths
    by (simp add: journal_verify_def prefix_at(2)) (simp add: checkpoint_at_def)
qed

lemma accepted_never_rolled_back_witness:
  "journal_verify steady ''acme'' ''0198c0de00017000a000000000000002'' ''2026-03-01T00:00:00Z'' False
     (checkpoint_json steady (checkpoint_at 1 short_file)) (Some long_file) (frame state_row) =
   Inl (ProtocolRefusal ''journal_rollback_suspected'')"
proof -
  obtain v where v: "journal_verify steady ''acme'' ''0198c0de00017000a000000000000001''
      ''2026-02-28T23:59:59Z'' False (checkpoint_json steady (checkpoint_at 2 long_file)) (Some long_file) [] =
      Inr (v, frame state_row)" "vr_through_seq v = 2"
    using example_verify by blast
  have c: "parse_checkpoint steady (checkpoint_json steady (checkpoint_at 1 short_file)) =
      Inr (checkpoint_at 1 short_file)"
    using parse_at [of 1 short_file] file_lengths by simp
  have "cp_through_seq (checkpoint_at 1 short_file) < vr_through_seq v"
    by (simp add: v(2) checkpoint_at_def)
  from accepted_never_rolled_back [OF v(1) c prefix_at(1) this, of _ _ "[]"] show ?thesis by simp
qed

end
