(* ===== verification/Ledger_Rows.thy ===== *)
theory Ledger_Rows
  imports Ledger_Bytes
begin

text \<open>
  What the ledgers of JSON rows share: reading a member of a row, writing a dictionary as a row, the
  batches of \<open>transact_records\<close> (\<open>floati/jsonl.py\<close>), and what the validator of a table of kinds says of
  an appended row when it is read back.
\<close>

section \<open>Rows\<close>

definition member_of :: "json \<Rightarrow> string \<Rightarrow> json" where
  "member_of r name = (case r of JObj ms \<Rightarrow> get_member ms name | _ \<Rightarrow> JNull)"

definition text_at :: "json \<Rightarrow> string \<Rightarrow> string" where
  "text_at r name = (case member_of r name of JStr s \<Rightarrow> s | _ \<Rightarrow> [])"

definition int_at :: "json \<Rightarrow> string \<Rightarrow> int" where
  "int_at r name = (case member_of r name of JInt i \<Rightarrow> i | _ \<Rightarrow> 0)"

definition is_kind :: "string \<Rightarrow> json \<Rightarrow> bool" where
  "is_kind kind r \<longleftrightarrow> record_kind r = JStr kind"

definition texts_at :: "json \<Rightarrow> string \<Rightarrow> string list" where
  "texts_at r name = (case r of JObj ms \<Rightarrow> texts_of name ms | _ \<Rightarrow> [])"

text \<open>A dictionary as the ledger holds it.\<close>

definition row_of :: "members \<Rightarrow> json" where
  "row_of ms = canon (JObj ms)"

lemma member_of_row_of [simp]: "member_of (row_of ms) k = canon (get_member ms k)"
proof -
  have "canonical_of ms (sort_key fst (map (map_prod id canon) ms))" by (rule canonical_of_object)
  then show ?thesis by (simp add: member_of_def row_of_def canonical_ofD(2))
qed

lemma canon_row_of [simp]: "canon (row_of ms) = row_of ms"
  by (simp only: row_of_def canon_canon)

lemma record_kind_member: "record_kind r = member_of r ''kind''"
  by (simp add: record_kind_def member_of_def)

section \<open>Batches\<close>

text \<open>The part of \<open>transact_records\<close> after the decision: every record of the batch is encoded, ids
  are compared within the batch and with the rows the reader returned, and the batch is one append.\<close>

fun encode_batch :: "'r row_contract \<Rightarrow> 'r list \<Rightarrow> nat res" where
  "encode_batch c [] = Inr 0"
| "encode_batch c (r # rs) =
     bindR (encode_record c r) (\<lambda>n. bindR (encode_batch c rs) (\<lambda>m. Inr (n + m)))"

definition append_batch ::
    "'r row_contract \<Rightarrow> 'r list \<Rightarrow> 'r list \<Rightarrow> 'r list \<Rightarrow> 'r list res" where
  "append_batch c existing rows batch =
     (if batch = [] then Inr rows
      else if length existing + length batch > MAX_LEDGER_RECORDS
        then Inl (ProtocolRefusal ''ledger_record_limit'')
      else bindR (encode_batch c batch) (\<lambda>encoded.
        if \<not> distinct (map (row_id c) batch) then Inl (ProtocolRefusal ''duplicate_record_id'')
        else if list_ex (\<lambda>r. row_id c r \<in> row_id c ` set existing) batch
          then Inl (ProtocolRefusal ''duplicate_record_id'')
        else if ledger_bytes c rows + encoded > MAX_LEDGER_BYTES
          then Inl (ProtocolRefusal ''ledger_too_large'')
        else Inr (rows @ batch)))"

definition transact_records ::
    "'r row_contract \<Rightarrow> 'r list \<Rightarrow> ('r list \<Rightarrow> ('a \<times> 'r list) res) \<Rightarrow> ('a \<times> 'r list) res" where
  "transact_records c rows decide =
     bindR (decode_path_records c rows) (\<lambda>existing.
     bindR (decide existing) (\<lambda>(result, batch).
     bindR (append_batch c existing rows batch) (\<lambda>rows'. Inr (result, rows'))))"

text \<open>What an operation on one ledger leaves of it, whether it raises or not.\<close>

definition outcome_rows :: "json list \<Rightarrow> ('a \<times> json list) res \<Rightarrow> json list" where
  "outcome_rows rows m = (case m of Inl e \<Rightarrow> rows | Inr (x, rows') \<Rightarrow> rows')"

lemma encode_batch_Inr:
  "encode_batch c rs = Inr n \<longleftrightarrow>
     n = ledger_bytes c rs \<and> (\<forall>r \<in> set rs. validate_row c False r = Inr () \<and> frame_length c r \<le> MAX_RECORD_BYTES)"
  by (induction rs arbitrary: n) (auto simp: bindR_Inr_iff encode_record_Inr_iff ledger_bytes_def)

lemma append_batch_Inr:
  "append_batch c existing rows batch = Inr rows' \<longleftrightarrow>
     batch = [] \<and> rows' = rows \<or>
     batch \<noteq> [] \<and> rows' = rows @ batch \<and> length existing + length batch \<le> MAX_LEDGER_RECORDS \<and>
     (\<forall>r \<in> set batch. validate_row c False r = Inr () \<and> frame_length c r \<le> MAX_RECORD_BYTES) \<and>
     distinct (map (row_id c) batch) \<and> row_id c ` set batch \<inter> row_id c ` set existing = {} \<and>
     ledger_bytes c rows + ledger_bytes c batch \<le> MAX_LEDGER_BYTES"
  by (auto simp: append_batch_def bindR_Inr_iff encode_batch_Inr list_ex_iff not_less not_le)

lemma append_batch_extends:
  "append_batch c existing rows batch = Inr rows' \<Longrightarrow> rows' = rows @ batch"
  by (auto simp: append_batch_Inr)

lemma transact_records_Inr:
  "transact_records c rows decide = Inr (result, rows') \<longleftrightarrow>
     readable c rows \<and> (\<exists>batch. decide rows = Inr (result, batch) \<and> append_batch c rows rows batch = Inr rows')"
  by (auto simp: transact_records_def bindR_Inr_iff decode_path_records_Inr_iff)

section \<open>Validated rows\<close>

lemma check_envelope_kind:
  assumes "check_envelope specs tenant allowed b row = Inr ()"
  shows "\<exists>kind. get_member row ''kind'' = JStr kind \<and> kind \<in> set allowed \<and>
    specs kind \<noteq> None \<and> ks_body (the (specs kind)) b row = Inr ()"
  using assms
  by (auto simp: check_envelope_def bindR_Inr_iff split: json.splits option.splits if_splits)

lemma validate_record_kind:
  assumes "validate_record specs tenant allowed b (JObj ms) = Inr r"
  shows "\<exists>kind row. get_member ms ''kind'' = JStr kind \<and> kind \<in> set allowed \<and> specs kind \<noteq> None \<and>
    ks_body (the (specs kind)) b row = Inr () \<and>
    (\<forall>k. k \<notin> set chain_fields \<longrightarrow> get_member row k = get_member ms k)"
proof -
  obtain row chain where rc: "split_chain b ms = Inr (row, chain)"
      "check_envelope specs tenant allowed b row = Inr ()"
    using assms by (auto simp: validate_record_def bindR_Inr_iff)
  have "row = ms \<or> row = filter (\<lambda>(k, v). k \<notin> set chain_fields) ms"
    using rc(1) by (auto simp: split_chain_def Let_def split: if_splits json.splits)
  then have same: "\<forall>k. k \<notin> set chain_fields \<longrightarrow> get_member row k = get_member ms k"
    by (auto simp: get_member_filter)
  moreover have "''kind'' \<notin> set chain_fields" by (simp add: chain_fields_def)
  ultimately show ?thesis using check_envelope_kind [OF rc(2)] by metis
qed

text \<open>A row whose dictionaries are sorted, as the ledger holds it, is accepted by the reader when the
  writer's validator accepts it.\<close>

lemma canon_get_member:
  assumes "canon (JObj ms) = JObj ms"
  shows "canon (get_member ms k) = get_member ms k"
proof -
  have "canonical_of ms (sort_key fst (map (map_prod id canon) ms))" by (rule canonical_of_object)
  moreover have "sort_key fst (map (map_prod id canon) ms) = ms" using assms by simp
  ultimately show ?thesis using canonical_ofD(2) by metis
qed

context kind_table
begin

lemma check_envelope_reread:
  assumes "check_envelope specs tenant allowed False row = Inr ()" "canonical_of row row"
  shows "check_envelope specs tenant allowed True row = Inr ()"
proof -
  obtain kind spec i where k: "get_member row ''kind'' = JStr kind"
      "specs kind = Some spec" "kind \<in> set allowed" "fields_ok spec row" "\<not> float_row spec row"
      "get_member row ''schema_version'' \<in> JInt ` set (ks_versions spec)"
      "get_member row ''tenant_id'' = JStr tenant"
      "is_identifier tenant" "get_member row ''id'' = JStr i" "is_record_id (ks_prefix spec) i"
      "check_timestamp ''timestamp'' False row = Inr ()" "ks_body spec False row = Inr ()"
    using assms(1)
    by (auto simp: check_envelope_def bindR_Inr_iff split: json.splits option.splits if_splits)
  have "ks_body spec True row = Inr ()"
    using body_lawful [OF k(2)] k(12) assms(2) unfolding lawful_def by blast
  moreover have "check_timestamp ''timestamp'' True row = Inr ()"
    using k(11) by (simp add: check_timestamp_Inr_iff)
  ultimately show ?thesis using k by (simp add: check_envelope_def)
qed

lemma validate_canonical_reread:
  assumes "validate_record specs tenant allowed False r = Inr x" "canon r = r"
  shows "validate_record specs tenant allowed True r = Inr x"
proof -
  obtain ms where ms: "r = JObj ms" using validate_record_object [OF assms(1)] by blast
  obtain row chain where rc: "split_chain False ms = Inr (row, chain)"
      "check_envelope specs tenant allowed False row = Inr ()" "x = JObj (row @ chain)"
    using assms(1) by (auto simp: validate_record_def bindR_Inr_iff ms)
  have "split_chain True ms = Inr (row, chain)"
    using rc(1) by (auto simp: split_chain_def Let_def split: if_splits json.splits)
  moreover have "row = ms \<or> row = filter (\<lambda>(k, v). k \<notin> set chain_fields) ms"
    using rc(1) by (auto simp: split_chain_def Let_def split: if_splits json.splits)
  then have "canonical_of row row"
    using canon_get_member assms(2) unfolding ms by (auto simp: canonical_of_def get_member_filter)
  ultimately show ?thesis
    using check_envelope_reread [OF rc(2)] by (simp add: validate_record_def ms rc(3))
qed

end

text \<open>What validation keeps: every member of the row, in its canonical form once it is stored, and the
  whole row when it has no chain members.\<close>

lemma validate_record_member:
  assumes "validate_record specs tenant allowed b raw = Inr v"
  shows "member_of (canon v) k = canon (member_of raw k)"
proof -
  obtain ms row chain where rc: "raw = JObj ms" "split_chain b ms = Inr (row, chain)" "v = JObj (row @ chain)"
    using assms by (auto simp: validate_record_def bindR_Inr_iff split: json.splits)
  have "canonical_of (row @ chain) (sort_key fst (map (map_prod id canon) (row @ chain)))"
    by (rule canonical_of_object)
  then show ?thesis
    using split_chain_members(1) [OF rc(2)]
    by (simp add: member_of_def rc(1,3) canonical_ofD(2) del: map_append)
qed

definition unchained :: "json \<Rightarrow> bool" where
  "unchained r \<longleftrightarrow> (\<exists>ms. r = JObj ms \<and> ''seq'' \<notin> fst ` set ms \<and> ''prev'' \<notin> fst ` set ms)"

lemma validate_unchained:
  "validate_record specs tenant allowed b r = Inr v \<Longrightarrow> unchained r \<Longrightarrow> v = r"
  by (auto simp: validate_record_def unchained_def split_chain_def chain_fields_def member_names_def bindR_Inr_iff)

lemma unchained_row_of:
  assumes "list_all (\<lambda>n. n \<noteq> ''seq'' \<and> n \<noteq> ''prev'') (map fst ms)"
  shows "unchained (row_of ms)"
  using assms by (auto simp: unchained_def row_of_def list_all_iff)

section \<open>Appending to a ledger of governed kinds\<close>

lemma record_row_kind:
  assumes "validate_row (rows_contract (validate_record specs tenant kinds)) b r = Inr ()"
  shows "\<exists>kind \<in> set kinds. is_kind kind r"
proof -
  obtain x where x: "validate_record specs tenant kinds b r = Inr x"
    using assms by (auto simp: bindR_Inr_iff)
  obtain ms where ms: "r = JObj ms" using validate_record_object [OF x] by blast
  show ?thesis
    using validate_record_kind [OF x [unfolded ms]] by (auto simp: is_kind_def record_kind_def ms)
qed

context kind_table
begin

lemma row_reread:
  "validate_row (rows_contract (validate_record specs tenant kinds)) False r = Inr () \<Longrightarrow> canon r = r \<Longrightarrow>
   validate_row (rows_contract (validate_record specs tenant kinds)) True r = Inr ()"
  using validate_canonical_reread by (fastforce simp: bindR_Inr_iff)

lemma append_batch_readable:
  assumes "readable (rows_contract (validate_record specs tenant kinds)) rows"
    and "append_batch (rows_contract (validate_record specs tenant kinds)) rows rows batch = Inr rows'"
    and "\<forall>r \<in> set batch. canon r = r"
  shows "readable (rows_contract (validate_record specs tenant kinds)) rows'"
proof (cases "batch = []")
  case True
  then show ?thesis using assms(1,2) by (simp add: append_batch_Inr)
next
  case False
  let ?c = "rows_contract (validate_record specs tenant kinds)"
  note b = assms(2) [unfolded append_batch_Inr, simplified False, simplified simp_thms]
  have "\<forall>r \<in> set batch. validate_row ?c True r = Inr ()"
    using row_reread b assms(3) by blast
  moreover have "ledger_bytes ?c (rows @ batch) = ledger_bytes ?c rows + ledger_bytes ?c batch"
    by (simp add: ledger_bytes_def)
  ultimately show ?thesis
    using assms(1) b unfolding readable_def by auto
qed

lemma append_record_readable:
  assumes "append_record (rows_contract (validate_record specs tenant kinds)) rows r = Inr rows'" "canon r = r"
  shows "readable (rows_contract (validate_record specs tenant kinds)) rows'" "rows' = rows @ [r]"
proof -
  let ?c = "rows_contract (validate_record specs tenant kinds)"
  have valid: "validate_row ?c True r = Inr ()"
    by (rule row_reread [OF _ assms(2)]) (use assms(1) in \<open>simp only: append_record_Inr_iff\<close>)
  show "rows' = rows @ [r]" using assms(1) by (simp only: append_record_Inr_iff)
  then show "readable ?c rows'"
    using assms(1) valid unfolding append_record_Inr_iff readable_def by auto
qed

end

lemmas [evaluate] =
  member_of_def text_at_def int_at_def is_kind_def texts_at_def append_batch_def transact_records_def

end
