(* ===== verification/Mail_Ledger.thy ===== *)
theory Mail_Ledger
  imports Ledger_Rows Registry
begin

text \<open>
  The event ledger of the bus: the kinds it holds, the reader that skips well-formed rows of kinds
  it does not know (\<open>read_records_compatible\<close> and the \<open>skip_unknown_kinds\<close> transactions of
  \<open>floati/jsonl.py\<close>), and \<open>validate_event_records\<close> of \<open>floati/events.py\<close>, which refuses a prefix that
  cannot be replayed.  A row is its decoded JSON object; \<open>rows_contract\<close> of \<open>Ledger_Bytes\<close> ties the
  list of rows to the bytes of the file.
\<close>

section \<open>Kinds\<close>

text \<open>A wake hold carries a digest of its own members, so its kind has SHA-256 as an argument.\<close>

definition wake_hold_fields :: "string list" where
  "wake_hold_fields =
    [''recipient'', ''worker_session_id'', ''idempotency_key'', ''limit'', ''item_ids'',
     ''event_prefix_digest'', ''delivery_prefix_digest'', ''acknowledgment_prefix_digest'']"

definition wake_hold_decision_digest :: "(string \<Rightarrow> string) \<Rightarrow> string \<Rightarrow> members \<Rightarrow> string" where
  "wake_hold_decision_digest sha256 preimage row =
     sha256 (preimage @ encode_utf8 (dumps (JObj (map (\<lambda>f. (f, get_member row f)) wake_hold_fields))))"

definition wake_hold_body :: "(string \<Rightarrow> string) \<Rightarrow> string \<Rightarrow> check" where
  "wake_hold_body sha256 preimage = checks
    [check_ident ''recipient'',
     check_nullable check_opaque ''worker_session_id'',
     check_bounded ''idempotency_key'' 1 128, check_integer ''limit'' 1 1000, check_message_ids 1,
     check_sha256 ''event_prefix_digest'', check_sha256 ''delivery_prefix_digest'',
     check_sha256 ''acknowledgment_prefix_digest'', check_sha256 ''decision_digest'',
     require ''wake_hold_decision_digest_invalid''
       (\<lambda>row. member_is ''decision_digest'' (wake_hold_decision_digest sha256 preimage row) row)]"

definition wake_hold_spec :: "(string \<Rightarrow> string) \<Rightarrow> string \<Rightarrow> kind_spec" where
  "wake_hold_spec sha256 preimage = \<lparr>
     ks_prefix = ''wake-hold-'',
     ks_fields = COMMON @ wake_hold_fields @ [''decision_digest''],
     ks_extras = (\<lambda>_. [[]]),
     ks_versions = [1],
     ks_body = wake_hold_body sha256 preimage\<rparr>"

definition WAKE_HOLD_PREIMAGE :: string where
  "WAKE_HOLD_PREIMAGE = ''slipway-wake-hold-decision-v1'' @ [CHR 0x00]"

definition mail_specs :: "(string \<Rightarrow> string) \<Rightarrow> schema" where
  "mail_specs sha256 = SPECS
     (''wake_hold_receipt'' \<mapsto> wake_hold_spec sha256 WAKE_HOLD_PREIMAGE,
      ''bus_epoch_roll_receipt'' \<mapsto> bus_epoch_roll_receipt_spec)"

definition EVENT_KINDS :: "string list" where
  "EVENT_KINDS =
    [''message_envelope'', ''delivery_claim'', ''message_retracted'', ''bus_epoch_roll_receipt'',
     ''ledger_repair_receipt'']"

definition WAKE_HOLD_KINDS :: "string list" where
  "WAKE_HOLD_KINDS = [''delivery_receipt'', ''wake_hold_receipt'']"

lemma wake_hold_digest_canonical:
  assumes "canonical_of row row'"
  shows "wake_hold_decision_digest sha p row' = wake_hold_decision_digest sha p row"
proof -
  have "canon (JObj (map (\<lambda>f. (f, get_member row' f)) fs)) = canon (JObj (map (\<lambda>f. (f, get_member row f)) fs))" for fs
    by (simp add: canonical_ofD(2) [OF assms] comp_def)
  then show ?thesis by (simp only: wake_hold_decision_digest_def dumps_def)
qed

lemma lawful_wake_hold: "lawful (wake_hold_body sha p)"
  unfolding wake_hold_body_def
  by (rule lawful_checks)
    (simp add: lawful_checks_defs lawful_intros stable_simps wake_hold_digest_canonical)

interpretation mail: kind_table "mail_specs sha" for sha
proof
  fix kind spec
  assume "mail_specs sha kind = Some spec"
  then show "lawful (ks_body spec)"
    using governed.body_lawful [of kind spec]
    by (auto simp: mail_specs_def wake_hold_spec_def lawful_wake_hold bus_epoch_roll_receipt_spec_def
        lawful_bus_epoch_roll_receipt split: if_splits)
qed

section \<open>Reading past kinds of a newer version\<close>

text \<open>The names of \<open>_SPECS\<close>; most of their branches are in \<open>Governed_Kinds\<close>.\<close>

definition KNOWN_KINDS :: "string list" where
  "KNOWN_KINDS =
    [''quota_receipt_record'', ''tide_policy_record'', ''tide_receipt'',
     ''tide_testimony_record'', ''ack_receipt'', ''authority_grant'', ''delivery_receipt'',
     ''wake_hold_receipt'', ''seat_board_receipt'', ''wake_attempt_receipt'',
     ''bus_epoch_roll_receipt'', ''codex_wait_consent_receipt'', ''codex_wait_session_receipt'',
     ''codex_wait_exhaustion_receipt'', ''wake_waiter_exit_receipt'', ''wake_control_receipt'',
     ''wake_daemon_consent_receipt'', ''wake_daemon_lifecycle_receipt'', ''denial_receipt'',
     ''liveness_presence'', ''message_envelope'', ''delivery_claim'', ''verification_receipt'',
     ''journal_checkpoint_state'', ''ledger_repair_receipt'', ''message_retracted'',
     ''mutual_exclusion_hold'', ''registry_entry'', ''node_lease'', ''provider_switch_receipt'',
     ''fleet_update_started'', ''fleet_update_step'', ''fleet_update_completed'',
     ''role_template_write_receipt'', ''registry_role_record'', ''registry_role_transfer'',
     ''lane_spawn_receipt'', ''lane_teardown_receipt'', ''lane_workspace_record'', ''wake_cause'',
     ''work_item'', ''intake_snapshot'', ''work_transition'', ''capability'',
     ''capability_grant'', ''capability_revoked'', ''confluence_grant'',
     ''credential_lease_granted'', ''credential_lease_consumed'', ''credential_lease_revoked'',
     ''approval_request'', ''approval_decision'', ''worker_receipt'', ''worker_refusal'',
     ''session_adoption'', ''session_release'', ''bridge_consent'', ''bridge_record'',
     ''bridge_forward'', ''bridge_denial'', ''gateway_session_ingress'',
     ''gateway_capability_declaration'', ''gateway_approval_forward'', ''decision_record'',
     ''segment_opened'', ''segment_sealed'', ''task_contract'', ''plan_amendment'',
     ''run_spawn_admission_enabled'', ''attempt_spawn_policy_bound'', ''spawn_group_created'',
     ''spawn_group_aborted'', ''child_admitted'', ''run_manifest_fact'', ''prep_clear_receipt'',
     ''run_environment_observed'', ''hook_burn_record'', ''mcp_integration_pin'',
     ''child_rejected'', ''spawn_group_closed'', ''untracked_descendant'',
     ''descendant_observation_closed'', ''spawn_late_result_disposition'', ''acceptance_receipt'',
     ''run_created'', ''run_admission_bound'', ''run_policy_bound'', ''worker_pool_bound'',
     ''capability_set_bound'', ''sequencer_epoch'', ''dispatch_decision'', ''result_produced'',
     ''result_verified'', ''result_accepted'', ''run_terminal'', ''attempt_opened'',
     ''attempt_started'', ''attempt_terminal'', ''retry_scheduled'', ''retry_exhausted'',
     ''cancel_requested'', ''cancel_scope_resolved'', ''attempt_cancelled_before_start'',
     ''spawn_child_cancelled_without_attempt'', ''cancel_observed'', ''cancel_signal_sent'',
     ''cancel_terminal'', ''cancel_unconfirmed'', ''stale_attempt_evidence'',
     ''stale_evidence_adopted'', ''attempt_harness_session_bound'', ''supervisor_orphaned'',
     ''attempt_suspended_for_approval'', ''approval_consumed_for_resume'',
     ''thread_attachment_registered'', ''thread_observation_recorded'',
     ''thread_attachment_detached'', ''timing_receipt'', ''effect_intent'', ''effect_dispatched'',
     ''effect_acknowledged'', ''effect_confirmed'', ''effect_failed'', ''effect_unknown'',
     ''effect_reconciled'', ''compensation_proposed'', ''compensation_executed'']"

definition is_known_record_kind :: "json \<Rightarrow> bool" where
  "is_known_record_kind kind \<longleftrightarrow> (case kind of JStr k \<Rightarrow> k \<in> set KNOWN_KINDS | _ \<Rightarrow> False)"

definition known_row :: "json \<Rightarrow> bool" where
  "known_row r \<longleftrightarrow> is_known_record_kind (record_kind r)"

definition is_kind_name :: "string \<Rightarrow> bool" where
  "is_kind_name k \<longleftrightarrow>
     1 \<le> length k \<and> length k \<le> 128 \<and> in_range CHR ''a'' CHR ''z'' (hd k) \<and>
     list_all (\<lambda>c. is_lower_alnum c \<or> c = CHR ''_'') k"

definition is_plain_id :: "nat \<Rightarrow> string \<Rightarrow> bool" where
  "is_plain_id limit s \<longleftrightarrow>
     1 \<le> length s \<and> length s \<le> limit \<and>
     list_all (\<lambda>c. let n = (of_char c :: nat) in 32 \<le> n \<and> n \<noteq> 127) s"

definition validate_unknown_record :: "string \<Rightarrow> json \<Rightarrow> unit res" where
  "validate_unknown_record tenant record =
     (case record of
        JObj row \<Rightarrow>
          guardR (\<not> set COMMON \<subseteq> member_names row) (IntegrityFailure ''record_fields_invalid'')
         (checks
            [text_field ''record_kind'' is_kind_name ''kind'',
             check_integer ''schema_version'' 0 (2 ^ 31 - 1),
             require ''tenant_mismatch'' (member_is ''tenant_id'' tenant),
             require ''tenant_invalid'' (\<lambda>_. is_identifier tenant),
             text_field ''record_id'' (is_plain_id 256) ''id'', check_timestamp ''timestamp'']
            True row)
      | _ \<Rightarrow> Inl (IntegrityFailure ''record_not_object''))"

fun decode_known ::
    "json row_contract \<Rightarrow> string \<Rightarrow> nat \<Rightarrow> string set \<Rightarrow> json list \<Rightarrow> json list res" where
  "decode_known c tenant line_number seen [] = Inr []"
| "decode_known c tenant line_number seen (raw # raws) =
     (if line_number > MAX_LEDGER_RECORDS then Inl (IntegrityFailure ''ledger_record_limit'')
      else if record_kind raw = JStr ''bus_epoch_roll_receipt'' \<and> line_number \<noteq> 1
        then Inl (IntegrityFailure ''bus_epoch_roll_receipt_position_invalid'')
      else bindR (if known_row raw then validate_row c True raw else validate_unknown_record tenant raw)
        (\<lambda>_.
          if row_id c raw \<in> seen then Inl (IntegrityFailure ''duplicate_record_id'')
          else bindR (decode_known c tenant (Suc line_number) (insert (row_id c raw) seen) raws)
                 (\<lambda>rest. Inr (if known_row raw then raw # rest else rest))))"

definition read_known :: "json row_contract \<Rightarrow> string \<Rightarrow> json list \<Rightarrow> json list res" where
  "read_known c tenant rows =
     (if ledger_bytes c rows > MAX_LEDGER_BYTES then Inl (IntegrityFailure ''ledger_too_large'')
      else if list_ex (\<lambda>r. frame_length c r > MAX_RECORD_BYTES) rows
        then Inl (IntegrityFailure ''record_too_large'')
      else decode_known c tenant 1 {} rows)"

definition transact_known ::
    "json row_contract \<Rightarrow> string \<Rightarrow> json list \<Rightarrow> (json list \<Rightarrow> ('a \<times> json list) res) \<Rightarrow>
     ('a \<times> json list) res" where
  "transact_known c tenant rows decide =
     bindR (read_known c tenant rows) (\<lambda>existing.
     bindR (decide existing) (\<lambda>(result, batch).
     bindR (append_batch c existing rows batch) (\<lambda>rows'. Inr (result, rows'))))"

section \<open>Replaying events\<close>

record event_scan =
  es_index :: nat
  es_prior :: "(string \<times> json) list"
  es_retracted :: "string list"

definition event_step :: "event_scan \<Rightarrow> json \<Rightarrow> event_scan res" where
  "event_step s r =
     (let next = s\<lparr>es_index := es_index s + 1\<rparr>;
          prior = map_of (es_prior s) in
      if is_kind ''bus_epoch_roll_receipt'' r then
        guardR (es_index s \<noteq> 0) (IntegrityFailure ''bus_epoch_roll_receipt_position_invalid'') (Inr next)
      else if is_kind ''message_envelope'' r then
        (let admitted = Inr (next\<lparr>es_prior := AList.update (record_key r) r (es_prior s)\<rparr>) in
         if member_of r ''reply_to'' = JNull then admitted
         else case prior (text_at r ''reply_to'') of
             None \<Rightarrow> Inl (IntegrityFailure ''message_order_invalid'')
           | Some original \<Rightarrow>
               guardR (member_of original ''sender'' \<noteq> member_of r ''recipient'' \<or>
                       member_of original ''recipient'' \<noteq> member_of r ''sender'')
                 (IntegrityFailure ''message_order_invalid'') admitted)
      else if is_kind ''delivery_claim'' r then
        (case prior (text_at r ''note_ref'') of
           None \<Rightarrow> Inl (IntegrityFailure ''delivery_claim_order_invalid'')
         | Some envelope \<Rightarrow>
             guardR (member_of envelope ''sha'' \<noteq> member_of r ''sha'')
               (IntegrityFailure ''delivery_claim_sha_invalid'') (Inr next))
      else if is_kind ''ledger_repair_receipt'' r then Inr next
      else (case prior (text_at r ''retracted_message_id'') of
              None \<Rightarrow> Inl (IntegrityFailure ''message_retraction_order_invalid'')
            | Some original \<Rightarrow>
                guardR (member_of original ''worker_session_id'' \<noteq> member_of r ''worker_session_id'')
                  (IntegrityFailure ''message_retraction_session_invalid'')
               (guardR (member_of r ''author'' \<notin> {member_of original ''sender'', member_of original ''recipient''})
                  (IntegrityFailure ''message_retraction_party_invalid'')
               (guardR (text_at r ''retracted_message_id'' \<in> set (es_retracted s))
                  (IntegrityFailure ''message_retraction_duplicate'')
               (Inr (next\<lparr>es_retracted := text_at r ''retracted_message_id'' # es_retracted s\<rparr>))))))"

definition empty_scan :: event_scan where
  "empty_scan = \<lparr>es_index = 0, es_prior = [], es_retracted = []\<rparr>"

definition validate_event_records :: "json list \<Rightarrow> unit res" where
  "validate_event_records records = bindR (replay event_step empty_scan records) (\<lambda>_. Inr ())"

lemmas [evaluate] =
  wake_hold_decision_digest_def mail_specs_def EVENT_KINDS_def WAKE_HOLD_KINDS_def
  is_known_record_kind_def known_row_def is_kind_name_def is_plain_id_def validate_unknown_record_def
  read_known_def transact_known_def event_step_def empty_scan_def validate_event_records_def

end
