(* ===== verification/Mail_Bus.thy ===== *)
theory Mail_Bus
  imports Mail_Ledger
begin

text \<open>
  The mail operations of \<open>EventLog\<close> (\<open>floati/events.py\<close>) and \<open>SparseCursor\<close>
  (\<open>floati/cursor.py\<close>): sending, retracting, presenting, acknowledging and draining, over the
  ledgers of one tenant.  The delivery and acknowledgment ledgers are kept per recipient and worker
  session; an inbox snapshot (\<open>floati/snapshot.py\<close>) is the event rows it was taken at and the
  payload, and loads only while those rows are still a prefix of the ledger (the code compares their
  digest).

  Each operation runs under the lock of its recipient, or has a single transaction, and is one step;
  \<open>send\<close> reads before it takes its lock, so it is the two steps \<open>send_check\<close> and \<open>send_commit\<close>.
  Clock readings, fresh UUIDs and the outcome of file system accesses to derived snapshots are
  inputs.
\<close>

section \<open>State\<close>

type_synonym channel = "string \<times> string option"

record inbox_payload =
  ip_recipient :: string
  ip_limit :: int
  ip_messages :: "json list"
  ip_truncated :: bool
  ip_delivered :: "string list"
  ip_acked :: "string list"

record mail_bus =
  mb_nodes :: "registry_row list"
  mb_events :: "json list"
  mb_denials :: "json list"
  mb_deliveries :: "channel \<Rightarrow> json list"
  mb_acks :: "channel \<Rightarrow> json list"
  mb_archives :: "(json list \<times> (channel \<Rightarrow> json list)) list"
  mb_snapshots :: "string \<times> int \<Rightarrow> (json list \<times> inbox_payload) option"

text \<open>\<open>me_lease_text\<close> is the text under which a registry row keeps the expiry of a lease, whose
  instant is all that \<open>Registry\<close> keeps.\<close>

record mail_env =
  me_tenant :: string
  me_sha256 :: "string \<Rightarrow> string"
  me_lease_text :: "int \<Rightarrow> string"

definition mail_contract :: "mail_env \<Rightarrow> string list \<Rightarrow> json row_contract" where
  "mail_contract env kinds =
     rows_contract (validate_record (mail_specs (me_sha256 env)) (me_tenant env) kinds)"

section \<open>Reading\<close>

definition event_records :: "mail_env \<Rightarrow> mail_bus \<Rightarrow> json list res" where
  "event_records env bus =
     bindR (read_known (mail_contract env EVENT_KINDS) (me_tenant env) (mb_events bus)) (\<lambda>records.
     bindR (validate_event_records records) (\<lambda>_. Inr records))"

definition envelopes :: "json list \<Rightarrow> json list" where
  "envelopes frames = filter (is_kind ''message_envelope'') frames"

definition retracted_ids :: "json list \<Rightarrow> string list" where
  "retracted_ids frames =
     map (\<lambda>r. text_at r ''retracted_message_id'') (filter (is_kind ''message_retracted'') frames)"

definition session_component :: "mail_env \<Rightarrow> string \<Rightarrow> string res" where
  "session_component env session =
     (if \<not> is_plain_id 512 session then Inl (ProtocolRefusal ''worker_session_id_invalid'')
      else Inr (me_sha256 env (encode_utf8 session)))"

definition channel_for :: "mail_env \<Rightarrow> string \<Rightarrow> string option \<Rightarrow> channel res" where
  "channel_for env node session =
     (case session of
        None \<Rightarrow> Inr (node, None)
      | Some s \<Rightarrow> bindR (session_component env s) (\<lambda>c. Inr (node, Some c)))"

definition session_json :: "string option \<Rightarrow> json" where
  "session_json session = (case session of None \<Rightarrow> JNull | Some s \<Rightarrow> JStr s)"

text \<open>The dictionary of events by id: a later row wins.\<close>

definition event_by_id :: "json list \<Rightarrow> string \<Rightarrow> json option" where
  "event_by_id events = map_of (rev (map (\<lambda>e. (record_key e, e)) events))"

definition addressed :: "string \<Rightarrow> string option \<Rightarrow> json \<Rightarrow> bool" where
  "addressed node session e \<longleftrightarrow>
     member_of e ''recipient'' = JStr node \<and> member_of e ''worker_session_id'' = session_json session"

definition owns_item :: "json list \<Rightarrow> string \<Rightarrow> string option \<Rightarrow> string \<Rightarrow> bool" where
  "owns_item events node session item \<longleftrightarrow>
     (case event_by_id events item of None \<Rightarrow> False | Some e \<Rightarrow> addressed node session e)"

fun collect_deliveries ::
    "json list \<Rightarrow> string \<Rightarrow> string option \<Rightarrow> string list \<Rightarrow> json list \<Rightarrow> string list res" where
  "collect_deliveries events node session delivered [] = Inr delivered"
| "collect_deliveries events node session delivered (r # rs) =
     (if member_of r ''recipient'' \<noteq> JStr node then Inl (IntegrityFailure ''delivery_evidence_invalid'')
      else if \<not> list_all (owns_item events node session) (texts_at r ''item_ids'')
        then Inl (IntegrityFailure ''delivery_evidence_invalid'')
      else collect_deliveries events node session (delivered @ texts_at r ''item_ids'') rs)"

definition validate_deliveries ::
    "mail_env \<Rightarrow> mail_bus \<Rightarrow> json list \<Rightarrow> string \<Rightarrow> string option \<Rightarrow> string list res" where
  "validate_deliveries env bus events recipient session =
     bindR (validate_identifier ''node'' recipient) (\<lambda>node.
     bindR (channel_for env node session) (\<lambda>ch.
     bindR (decode_path_records (mail_contract env WAKE_HOLD_KINDS) (mb_deliveries bus ch)) (\<lambda>rows.
       collect_deliveries events node session [] rows)))"

fun collect_acks ::
    "json list \<Rightarrow> string \<Rightarrow> string option \<Rightarrow> string list \<Rightarrow> string list \<Rightarrow> json list \<Rightarrow> string list res" where
  "collect_acks events node session delivered acked [] = Inr acked"
| "collect_acks events node session delivered acked (r # rs) =
     (if member_of r ''recipient'' \<noteq> JStr node then Inl (IntegrityFailure ''ack_evidence_invalid'')
      else if \<not> list_all (\<lambda>i. owns_item events node session i \<and> i \<in> set delivered) (texts_at r ''item_ids'')
        then Inl (IntegrityFailure ''ack_evidence_invalid'')
      else collect_acks events node session delivered (acked @ texts_at r ''item_ids'') rs)"

definition state_for ::
    "mail_env \<Rightarrow> mail_bus \<Rightarrow> json list \<Rightarrow> string \<Rightarrow> string option \<Rightarrow> (string list \<times> string list) res" where
  "state_for env bus events recipient session =
     bindR (validate_identifier ''node'' recipient) (\<lambda>node.
     bindR (channel_for env node session) (\<lambda>ch.
     bindR (validate_deliveries env bus events node session) (\<lambda>delivered.
     bindR (decode_path_records (mail_contract env [''ack_receipt'']) (mb_acks bus ch)) (\<lambda>rows.
     bindR (collect_acks events node session delivered [] rows) (\<lambda>acked. Inr (delivered, acked))))))"

section \<open>The inbox\<close>

definition inbox_matching ::
    "json list \<Rightarrow> string \<Rightarrow> string option \<Rightarrow> string list \<Rightarrow> json list" where
  "inbox_matching frames node session acked =
     filter (\<lambda>e. addressed node session e \<and> record_key e \<notin> set (retracted_ids frames) \<and>
               record_key e \<notin> set acked) (envelopes frames)"

definition present_from_frames ::
    "mail_env \<Rightarrow> mail_bus \<Rightarrow> json list \<Rightarrow> string \<Rightarrow> int \<Rightarrow> string option \<Rightarrow> (json list \<times> inbox_payload) res" where
  "present_from_frames env bus frames node limit session =
     bindR (state_for env bus (envelopes frames) node session) (\<lambda>(delivered, acked).
       let matching = inbox_matching frames node session acked;
           messages = take (nat limit) matching
       in Inr (messages,
            \<lparr>ip_recipient = node, ip_limit = limit, ip_messages = messages,
             ip_truncated = (int (length matching) > limit),
             ip_delivered = sort (remdups delivered), ip_acked = sort (remdups acked)\<rparr>))"

definition present_full_scan ::
    "mail_env \<Rightarrow> mail_bus \<Rightarrow> string \<Rightarrow> int \<Rightarrow> string option \<Rightarrow> (json list \<times> inbox_payload) res" where
  "present_full_scan env bus node limit session =
     bindR (event_records env bus) (\<lambda>frames. present_from_frames env bus frames node limit session)"

text \<open>A snapshot of the inbox and the events after it; \<open>Inr None\<close> is a \<open>SnapshotRefusal\<close>.  The tail
  was validated with the whole ledger just before, so the reader's own checks on it cannot fail.\<close>

definition load_snapshot :: "mail_bus \<Rightarrow> string \<Rightarrow> int \<Rightarrow> (inbox_payload \<times> json list) option" where
  "load_snapshot bus node limit =
     (case mb_snapshots bus (node, limit) of
        None \<Rightarrow> None
      | Some (rows, snap) \<Rightarrow>
          if take (length rows) (mb_events bus) = rows \<and> list_all known_row rows
            then Some (snap, filter known_row (drop (length rows) (mb_events bus)))
          else None)"

fun snapshot_deliveries ::
    "string \<Rightarrow> string list \<Rightarrow> string list \<Rightarrow> json list \<Rightarrow> string list option res" where
  "snapshot_deliveries node known delivered [] = Inr (Some delivered)"
| "snapshot_deliveries node known delivered (r # rs) =
     (if member_of r ''recipient'' \<noteq> JStr node then Inl (IntegrityFailure ''delivery_evidence_invalid'')
      else if \<not> list_all (\<lambda>i. i \<in> set delivered \<or> i \<in> set known) (texts_at r ''item_ids'') then Inr None
      else snapshot_deliveries node known (delivered @ texts_at r ''item_ids'') rs)"

fun snapshot_acks :: "string \<Rightarrow> string list \<Rightarrow> string list \<Rightarrow> json list \<Rightarrow> string list res" where
  "snapshot_acks node delivered acked [] = Inr acked"
| "snapshot_acks node delivered acked (r # rs) =
     (if member_of r ''recipient'' \<noteq> JStr node then Inl (IntegrityFailure ''ack_evidence_invalid'')
      else if \<not> list_all (\<lambda>i. i \<in> set delivered) (texts_at r ''item_ids'')
        then Inl (IntegrityFailure ''ack_evidence_invalid'')
      else snapshot_acks node delivered (acked @ texts_at r ''item_ids'') rs)"

fun snapshot_tail :: "string \<Rightarrow> int \<Rightarrow> string list \<Rightarrow> json list \<Rightarrow> json list \<Rightarrow> json list option" where
  "snapshot_tail node limit acked messages [] = Some messages"
| "snapshot_tail node limit acked messages (r # rs) =
     (if is_kind ''bus_epoch_roll_receipt'' r \<or> is_kind ''delivery_claim'' r \<or>
         is_kind ''ledger_repair_receipt'' r
        then snapshot_tail node limit acked messages rs
      else if \<not> is_kind ''message_envelope'' r then None
      else if member_of r ''reply_to'' \<noteq> JNull then None
      else if \<not> addressed node None r \<or> record_key r \<in> set acked
        then snapshot_tail node limit acked messages rs
      else if int (length messages) < limit
        then snapshot_tail node limit acked (messages @ [r]) rs
      else snapshot_tail node limit acked messages rs)"

definition messages_from_snapshot ::
    "mail_env \<Rightarrow> mail_bus \<Rightarrow> string \<Rightarrow> int \<Rightarrow> inbox_payload \<Rightarrow> json list \<Rightarrow> json list option res" where
  "messages_from_snapshot env bus node limit snap tail =
     (if ip_recipient snap \<noteq> node \<or> ip_limit snap \<noteq> limit then Inr None
      else bindR (decode_path_records (mail_contract env WAKE_HOLD_KINDS) (mb_deliveries bus (node, None)))
        (\<lambda>drows.
           bindR (snapshot_deliveries node (map record_key (ip_messages snap)) (ip_delivered snap) drows)
             (\<lambda>loaded.
                case loaded of
                  None \<Rightarrow> Inr None
                | Some delivered \<Rightarrow>
                    bindR (decode_path_records (mail_contract env [''ack_receipt'']) (mb_acks bus (node, None)))
                      (\<lambda>arows.
                         bindR (snapshot_acks node delivered (ip_acked snap) arows) (\<lambda>acked.
                           let messages = filter (\<lambda>m. record_key m \<notin> set acked) (ip_messages snap) in
                           if length messages \<noteq> length (ip_messages snap) \<and> ip_truncated snap
                             then Inr None
                           else Inr (map_option (take (nat limit))
                                  (snapshot_tail node limit acked messages tail)))))))"

section \<open>Denials\<close>

record stamp =
  sp_uuid :: string
  sp_time :: string

text \<open>\<open>safe_claim\<close> leaves a name of at most 64 characters as it is; both parties have been validated
  as identifiers by then, which are no longer.\<close>

definition denial_row :: "mail_env \<Rightarrow> stamp \<Rightarrow> string \<Rightarrow> string \<Rightarrow> string \<Rightarrow> string \<Rightarrow> json" where
  "denial_row env at attempt sender recipient reason = row_of
     [(''schema_version'', JInt 0), (''id'', JStr (''denial-'' @ sp_uuid at)),
      (''tenant_id'', JStr (me_tenant env)), (''timestamp'', JStr (sp_time at)),
      (''kind'', JStr ''denial_receipt''), (''attempt_id'', JStr (''attempt-'' @ attempt)),
      (''claimed_sender'', JStr sender), (''claimed_recipient'', JStr recipient),
      (''reason_code'', JStr reason)]"

definition deny ::
    "mail_env \<Rightarrow> stamp \<Rightarrow> string \<Rightarrow> string \<Rightarrow> string \<Rightarrow> string \<Rightarrow> (mail_bus, 'a) act" where
  "deny env at attempt sender recipient reason bus =
     (case append_record (mail_contract env [''denial_receipt'']) (mb_denials bus)
             (denial_row env at attempt sender recipient reason) of
        Inl e \<Rightarrow> (Inl e, bus)
      | Inr rows \<Rightarrow> (Inl (ProtocolRefusal reason), bus\<lparr>mb_denials := rows\<rparr>))"

section \<open>Sending\<close>

record send_input =
  si_sender :: string
  si_recipient :: string
  si_repo :: string
  si_sha :: string
  si_doc :: string
  si_note :: string
  si_reply_to :: "string option"
  si_key :: "string option"
  si_session :: "string option"
  si_binding :: json
  si_claim :: "json option"
  si_at :: stamp
  si_key_uuid :: string
  si_claim_at :: stamp
  si_denial_at :: stamp
  si_attempt_uuid :: string
  si_now :: int

record recipient_readiness =
  rr_state :: string
  rr_reason :: string
  rr_observed_at :: string

record send_receipt =
  sr_message :: json
  sr_claim :: "json option"
  sr_readiness :: recipient_readiness

definition readiness_from_lease :: "lease_view \<Rightarrow> string \<Rightarrow> recipient_readiness" where
  "readiness_from_lease lease observed =
     (let arranged = (case lease of NotLeased \<Rightarrow> False | LeaseIs _ state _ \<Rightarrow> state = ''active'') in
      \<lparr>rr_state = (if arranged then ''recipient_wake_arranged'' else ''recipient_not_listening''),
       rr_reason = (if arranged then ''active_lease'' else ''no_active_lease''),
       rr_observed_at = observed\<rparr>)"

definition ATTEMPT_BINDING_FIELDS :: "string list" where
  "ATTEMPT_BINDING_FIELDS = [''attempt_id'', ''claim_id'', ''lease_id'', ''worker_session_id'']"

definition normalized_attempt_binding :: "json \<Rightarrow> json" where
  "normalized_attempt_binding v =
     (case v of
        JObj b \<Rightarrow> if same_names b ATTEMPT_BINDING_FIELDS then v else JStr ''absent_legacy''
      | _ \<Rightarrow> JStr ''absent_legacy'')"

definition envelope_row :: "mail_env \<Rightarrow> send_input \<Rightarrow> string \<Rightarrow> string \<Rightarrow> string \<Rightarrow> json" where
  "envelope_row env i sender recipient key =
     (let binding = normalized_attempt_binding (si_binding i);
          session = (case (si_session i, binding) of
                       (Some s, _) \<Rightarrow> JStr s
                     | (None, JObj b) \<Rightarrow> get_member b ''worker_session_id''
                     | (None, _) \<Rightarrow> JNull)
      in row_of
        ([(''schema_version'', JInt 0), (''id'', JStr (''msg-'' @ sp_uuid (si_at i))),
          (''tenant_id'', JStr (me_tenant env)), (''timestamp'', JStr (sp_time (si_at i))),
          (''kind'', JStr ''message_envelope''), (''sender'', JStr sender),
          (''recipient'', JStr recipient), (''repo'', JStr (si_repo i)), (''sha'', JStr (si_sha i)),
          (''doc'', JStr (si_doc i)), (''note'', JStr (si_note i)), (''idempotency_key'', JStr key),
          (''attempt_binding'', binding)] @
         (case si_reply_to i of None \<Rightarrow> [] | Some r \<Rightarrow> [(''reply_to'', JStr r)]) @
         (if session = JNull then [] else [(''worker_session_id'', session)])))"

definition CLAIM_FIELDS :: "string list" where
  "CLAIM_FIELDS =
    [''kind'', ''schema_version'', ''sha'', ''repo_path'', ''bank'', ''declared'', ''artifacts'',
     ''deadline_seconds'']"

definition delivery_claim_row ::
    "mail_env \<Rightarrow> stamp \<Rightarrow> json \<Rightarrow> string \<Rightarrow> string \<Rightarrow> json res" where
  "delivery_claim_row env at dclaim envelope_id envelope_sha =
     (case dclaim of
        JObj c \<Rightarrow>
          if \<not> same_names c CLAIM_FIELDS then Inl (ProtocolRefusal ''claim_fields_invalid'')
          else if get_member c ''sha'' \<noteq> JStr envelope_sha
            then Inl (ProtocolRefusal ''claim_sha_mismatch'')
          else
            (let row = row_of
               [(''schema_version'', get_member c ''schema_version''),
                (''id'', JStr (''delivery-claim-'' @ sp_uuid at)),
                (''tenant_id'', JStr (me_tenant env)), (''timestamp'', JStr (sp_time at)),
                (''kind'', get_member c ''kind''), (''sha'', get_member c ''sha''),
                (''repo_path'', get_member c ''repo_path''), (''bank'', get_member c ''bank''),
                (''declared'', get_member c ''declared''), (''artifacts'', get_member c ''artifacts''),
                (''note_ref'', JStr envelope_id),
                (''deadline_seconds'', get_member c ''deadline_seconds'')]
             in bindR (validate_row (mail_contract env [''delivery_claim'']) False row) (\<lambda>_. Inr row))
      | _ \<Rightarrow> Inl (ProtocolRefusal ''claim_not_object''))"

definition PAYLOAD_FIELDS :: "string list" where
  "PAYLOAD_FIELDS =
    [''sender'', ''recipient'', ''repo'', ''sha'', ''doc'', ''note'', ''reply_to'', ''worker_session_id'']"

text \<open>\<open>record.get(field, default)\<close>.\<close>

definition binding_of :: "json \<Rightarrow> json" where
  "binding_of r =
     (case r of
        JObj ms \<Rightarrow> if ''attempt_binding'' \<in> member_names ms then get_member ms ''attempt_binding''
                   else JStr ''absent_legacy''
      | _ \<Rightarrow> JStr ''absent_legacy'')"

definition same_claim :: "json option \<Rightarrow> json option \<Rightarrow> bool" where
  "same_claim prior new =
     (case (prior, new) of
        (None, None) \<Rightarrow> True
      | (Some p, Some c) \<Rightarrow> list_all (\<lambda>f. canon (member_of p f) = canon (member_of c f)) CLAIM_FIELDS
      | _ \<Rightarrow> False)"

definition same_send :: "json \<Rightarrow> json option \<Rightarrow> json \<Rightarrow> json option \<Rightarrow> bool" where
  "same_send prior prior_claim envelope dclaim \<longleftrightarrow>
     list_all (\<lambda>f. member_of prior f = member_of envelope f) PAYLOAD_FIELDS \<and>
     canon (binding_of prior) = canon (binding_of envelope) \<and> same_claim prior_claim dclaim"

definition prior_send :: "json list \<Rightarrow> string \<Rightarrow> json option" where
  "prior_send records key =
     find (\<lambda>r. is_kind ''message_envelope'' r \<and> member_of r ''idempotency_key'' = JStr key) records"

definition claim_on :: "json list \<Rightarrow> json \<Rightarrow> json option" where
  "claim_on records message =
     find (\<lambda>r. is_kind ''delivery_claim'' r \<and> member_of r ''note_ref'' = member_of message ''id'') records"

text \<open>What \<open>send\<close> knows when it has read the ledger: the earlier send it repeats, or the rows it will
  try to append and the lease of the recipient.\<close>

datatype send_plan =
    Repeated send_receipt
  | Proposed string string string json "json option" lease_view

definition check_reply ::
    "mail_env \<Rightarrow> send_input \<Rightarrow> string \<Rightarrow> string \<Rightarrow> json list \<Rightarrow> (mail_bus, unit) act" where
  "check_reply env i sender recipient prior_events =
     (case si_reply_to i of
        None \<Rightarrow> readA (\<lambda>_. Inr ())
      | Some reply \<Rightarrow>
          (case find (\<lambda>r. member_of r ''id'' = JStr reply) prior_events of
             None \<Rightarrow> deny env (si_denial_at i) (si_attempt_uuid i) sender recipient ''reply_to_unknown''
           | Some original \<Rightarrow>
               if \<not> is_kind ''message_envelope'' original then readA (\<lambda>_. Inl (Uncaught ''KeyError''))
               else if member_of original ''sender'' \<noteq> JStr recipient \<or>
                       member_of original ''recipient'' \<noteq> JStr sender
                 then deny env (si_denial_at i) (si_attempt_uuid i) sender recipient
                        ''reply_to_parties_mismatch''
               else readA (\<lambda>_. Inr ())))"

definition resolve_recipient :: "registry_row list \<Rightarrow> string \<Rightarrow> string res" where
  "resolve_recipient nodes recipient =
     (case resolve_node_id ''recipient'' True ''unknown_recipient'' nodes recipient of
        Inl (ProtocolRefusal code) \<Rightarrow>
          Inl (ProtocolRefusal (if code = ''unknown_recipient'' then ''recipient_unregistered'' else code))
      | r \<Rightarrow> r)"

definition send_key :: "send_input \<Rightarrow> string res" where
  "send_key i =
     (let key = (case si_key i of None \<Rightarrow> ''idempotency-'' @ si_key_uuid i | Some k \<Rightarrow> k) in
      if key = [] \<or> length key > 128 then Inl (ProtocolRefusal ''idempotency_key_invalid'')
      else Inr key)"

definition propose_rows ::
    "mail_env \<Rightarrow> send_input \<Rightarrow> string \<Rightarrow> string \<Rightarrow> string \<Rightarrow> (json \<times> json option) res" where
  "propose_rows env i sender recipient key =
     (let envelope = envelope_row env i sender recipient key in
      bindR (validate_row (mail_contract env [''message_envelope'']) False envelope) (\<lambda>_.
        case si_claim i of
          None \<Rightarrow> Inr (envelope, None)
        | Some dclaim \<Rightarrow>
            bindR (delivery_claim_row env (si_claim_at i) dclaim (text_at envelope ''id'') (si_sha i))
              (\<lambda>row. Inr (envelope, Some row))))"

definition receipt_for :: "json \<Rightarrow> json option \<Rightarrow> lease_view \<Rightarrow> string \<Rightarrow> send_receipt" where
  "receipt_for message dclaim lease observed =
     \<lparr>sr_message = message, sr_claim = dclaim, sr_readiness = readiness_from_lease lease observed\<rparr>"

definition plan_send ::
    "mail_env \<Rightarrow> send_input \<Rightarrow> string \<Rightarrow> string \<Rightarrow> string \<Rightarrow> json list \<Rightarrow> json \<Rightarrow> json option \<Rightarrow>
     mail_bus \<Rightarrow> send_plan res" where
  "plan_send env i sender recipient key prior_events envelope dclaim bus =
     (let lease_plan = bindR (require_protocol_lease (mb_nodes bus) sender (si_now i)) (\<lambda>_.
            bindR (require_protocol_lease (mb_nodes bus) recipient (si_now i)) (\<lambda>lease.
              Inr (Proposed sender recipient key envelope dclaim lease)))
      in case prior_send prior_events key of
        Some r \<Rightarrow>
          if same_send r (claim_on prior_events r) envelope dclaim then
            bindR (node_lease_state (mb_nodes bus) recipient (timestamp_value (text_at r ''timestamp'')))
              (\<lambda>lease. Inr (Repeated (receipt_for r (claim_on prior_events r) lease (text_at r ''timestamp''))))
          else lease_plan
      | None \<Rightarrow> lease_plan)"

definition send_check :: "mail_env \<Rightarrow> send_input \<Rightarrow> (mail_bus, send_plan) act" where
  "send_check env i =
     bindA (readA (\<lambda>bus. resolve_node_id ''sender'' True ''unknown_sender'' (mb_nodes bus) (si_sender i)))
       (\<lambda>sender.
     bindA (readA (\<lambda>bus. resolve_recipient (mb_nodes bus) (si_recipient i))) (\<lambda>recipient.
     bindA (readA (\<lambda>_. send_key i)) (\<lambda>key.
     bindA (readA (event_records env)) (\<lambda>prior_events.
     bindA (check_reply env i sender recipient prior_events) (\<lambda>_.
     bindA (readA (\<lambda>_. propose_rows env i sender recipient key)) (\<lambda>(envelope, dclaim).
     readA (plan_send env i sender recipient key prior_events envelope dclaim)))))))"

text \<open>\<open>decide\<close> of \<open>send\<close>, on the rows read again under the lock of the ledger.\<close>

definition decide_send ::
    "string \<Rightarrow> json \<Rightarrow> json option \<Rightarrow> json list \<Rightarrow> ((json \<times> json option) \<times> json list) res" where
  "decide_send key envelope dclaim records =
     bindR (validate_event_records records) (\<lambda>_.
       case prior_send records key of
         Some r \<Rightarrow>
           if same_send r (claim_on records r) envelope dclaim then Inr ((r, claim_on records r), [])
           else Inl (ProtocolRefusal ''idempotency_conflict'')
       | None \<Rightarrow>
           Inr ((envelope, dclaim), envelope # (case dclaim of None \<Rightarrow> [] | Some c \<Rightarrow> [c])))"

definition send_commit :: "mail_env \<Rightarrow> send_input \<Rightarrow> send_plan \<Rightarrow> (mail_bus, send_receipt) act" where
  "send_commit env i plan bus =
     (case plan of
        Repeated receipt \<Rightarrow> (Inr receipt, bus)
      | Proposed sender recipient key envelope dclaim lease \<Rightarrow>
          (case transact_known (mail_contract env EVENT_KINDS) (me_tenant env) (mb_events bus)
                  (decide_send key envelope dclaim) of
             Inr ((message, attached), rows) \<Rightarrow>
               (Inr (receipt_for message attached lease (sp_time (si_at i))), bus\<lparr>mb_events := rows\<rparr>)
           | Inl e \<Rightarrow>
               if e = ProtocolRefusal ''idempotency_conflict''
                 then deny env (si_denial_at i) (si_attempt_uuid i) sender recipient ''idempotency_conflict'' bus
               else (Inl e, bus)))"

definition send :: "mail_env \<Rightarrow> send_input \<Rightarrow> (mail_bus, send_receipt) act" where
  "send env i = bindA (send_check env i) (send_commit env i)"

section \<open>Retracting\<close>

text \<open>\<open>wake_coordination_guard\<close> without its lock.\<close>

definition wake_guard :: "mail_env \<Rightarrow> string \<Rightarrow> string option \<Rightarrow> mail_bus \<Rightarrow> unit res" where
  "wake_guard env recipient session bus =
     bindR (resolve_node_id ''recipient'' True ''unknown_node'' (mb_nodes bus) recipient) (\<lambda>node.
     bindR (channel_for env node session) (\<lambda>_. Inr ()))"

record retract_input =
  ri_message :: string
  ri_session :: string
  ri_reason :: string
  ri_author :: string
  ri_at :: stamp

definition retraction_row :: "mail_env \<Rightarrow> retract_input \<Rightarrow> json" where
  "retraction_row env i = row_of
     [(''schema_version'', JInt 0), (''id'', JStr (''ret-'' @ sp_uuid (ri_at i))),
      (''tenant_id'', JStr (me_tenant env)), (''timestamp'', JStr (sp_time (ri_at i))),
      (''kind'', JStr ''message_retracted''), (''retracted_message_id'', JStr (ri_message i)),
      (''worker_session_id'', JStr (ri_session i)), (''reason'', JStr (ri_reason i)),
      (''author'', JStr (ri_author i))]"

definition decide_retract ::
    "mail_env \<Rightarrow> retract_input \<Rightarrow> json list \<Rightarrow> (json \<times> json list) res" where
  "decide_retract env i records =
     bindR (validate_event_records records) (\<lambda>_.
       case find (\<lambda>r. is_kind ''message_retracted'' r \<and>
                      member_of r ''retracted_message_id'' = JStr (ri_message i)) records of
         Some r \<Rightarrow>
           if member_of r ''worker_session_id'' = JStr (ri_session i) \<and>
              member_of r ''reason'' = JStr (ri_reason i) \<and> member_of r ''author'' = JStr (ri_author i)
             then Inr (r, [])
           else Inl (ProtocolRefusal ''message_retraction_duplicate'')
       | None \<Rightarrow>
           (case event_by_id (envelopes records) (ri_message i) of
              None \<Rightarrow> Inl (ProtocolRefusal ''message_retraction_unknown'')
            | Some original \<Rightarrow>
                guardR (member_of original ''worker_session_id'' \<noteq> JStr (ri_session i))
                  (ProtocolRefusal ''message_retraction_session_invalid'')
               (guardR (JStr (ri_author i) \<notin> {member_of original ''sender'', member_of original ''recipient''})
                  (ProtocolRefusal ''message_retraction_party_invalid'')
               (Inr (retraction_row env i, [retraction_row env i])))))"

definition retract_already_guarded :: "mail_env \<Rightarrow> retract_input \<Rightarrow> (mail_bus, json) act" where
  "retract_already_guarded env i bus =
     (case bindR (validate_row (mail_contract env [''message_retracted'']) False (retraction_row env i))
             (\<lambda>_. transact_known (mail_contract env EVENT_KINDS) (me_tenant env) (mb_events bus)
                    (decide_retract env i)) of
        Inl e \<Rightarrow> (Inl e, bus)
      | Inr (r, rows) \<Rightarrow> (Inr r, bus\<lparr>mb_events := rows\<rparr>))"

definition retract :: "mail_env \<Rightarrow> retract_input \<Rightarrow> (mail_bus, json) act" where
  "retract env i =
     bindA (readA (event_records env)) (\<lambda>records.
     bindA (readA (\<lambda>bus.
       case find (\<lambda>r. is_kind ''message_envelope'' r \<and> member_of r ''id'' = JStr (ri_message i)) records of
         None \<Rightarrow> Inr ()
       | Some original \<Rightarrow>
           wake_guard env (text_at original ''recipient'')
             (case member_of original ''worker_session_id'' of JStr s \<Rightarrow> Some s | _ \<Rightarrow> None) bus)) (\<lambda>_.
     retract_already_guarded env i))"

section \<open>Presenting\<close>

record present_input =
  pi_limit :: int
  pi_session :: "string option"
  pi_now :: int
  pi_at :: stamp
  pi_loadable :: bool
  pi_refreshable :: bool

definition delivery_row :: "mail_env \<Rightarrow> stamp \<Rightarrow> string \<Rightarrow> json list \<Rightarrow> nat \<Rightarrow> json" where
  "delivery_row env at node messages n = row_of
     [(''schema_version'', JInt 0), (''id'', JStr (''delivery-'' @ sp_uuid at)),
      (''tenant_id'', JStr (me_tenant env)), (''timestamp'', JStr (sp_time at)),
      (''kind'', JStr ''delivery_receipt''), (''recipient'', JStr node),
      (''item_ids'', JArr (map (\<lambda>m. member_of m ''id'') messages)),
      (''presentation_count'', JInt (int n))]"

definition write_delivery_receipt ::
    "mail_env \<Rightarrow> stamp \<Rightarrow> string \<Rightarrow> channel \<Rightarrow> json list \<Rightarrow> (mail_bus, json) act" where
  "write_delivery_receipt env at node ch messages bus =
     (case transact (mail_contract env WAKE_HOLD_KINDS) (mb_deliveries bus ch)
             (\<lambda>prior. let r = delivery_row env at node messages (length prior + 1) in Inr (r, Some r)) of
        Inl e \<Rightarrow> (Inl e, bus)
      | Inr (r, rows) \<Rightarrow> (Inr r, bus\<lparr>mb_deliveries := (mb_deliveries bus)(ch := rows)\<rparr>))"

text \<open>The full scan after a refused snapshot: the projection it found is stored for the next time,
  unless the snapshot cannot be written.\<close>

definition scan_and_refresh ::
    "mail_env \<Rightarrow> present_input \<Rightarrow> string \<Rightarrow> (mail_bus, json list) act" where
  "scan_and_refresh env i node bus =
     (case present_full_scan env bus node (pi_limit i) None of
        Inl e \<Rightarrow> (Inl e, bus)
      | Inr (messages, snap) \<Rightarrow>
          (Inr messages,
           if pi_refreshable i
             then bus\<lparr>mb_snapshots := (mb_snapshots bus)((node, pi_limit i) := Some (mb_events bus, snap))\<rparr>
           else bus))"

definition inbox_messages :: "mail_env \<Rightarrow> present_input \<Rightarrow> string \<Rightarrow> (mail_bus, json list) act" where
  "inbox_messages env i node =
     (case pi_session i of
        Some s \<Rightarrow> readA (\<lambda>bus. bindR (present_full_scan env bus node (pi_limit i) (Some s)) (\<lambda>(ms, _). Inr ms))
      | None \<Rightarrow>
          bindA (readA (event_records env)) (\<lambda>records bus.
            if list_ex (is_kind ''message_retracted'') records
              then readA (\<lambda>bus. bindR (present_full_scan env bus node (pi_limit i) None) (\<lambda>(ms, _). Inr ms)) bus
            else (case (if pi_loadable i then load_snapshot bus node (pi_limit i) else None) of
                    None \<Rightarrow> scan_and_refresh env i node bus
                  | Some (snap, tail) \<Rightarrow>
                      (case messages_from_snapshot env bus node (pi_limit i) snap tail of
                         Inl e \<Rightarrow> (Inl e, bus)
                       | Inr None \<Rightarrow> scan_and_refresh env i node bus
                       | Inr (Some messages) \<Rightarrow> (Inr messages, bus)))))"

definition present_already_guarded ::
    "mail_env \<Rightarrow> present_input \<Rightarrow> string \<Rightarrow> (mail_bus, json list \<times> json option) act" where
  "present_already_guarded env i recipient =
     bindA (readA (\<lambda>_. validate_identifier ''recipient'' recipient)) (\<lambda>node.
     bindA (readA (\<lambda>bus. require_active (mb_nodes bus) node)) (\<lambda>_.
     bindA (readA (\<lambda>_. if 1 \<le> pi_limit i \<and> pi_limit i \<le> 1000 then Inr ()
                        else Inl (ProtocolRefusal ''presentation_limit_invalid''))) (\<lambda>_.
     bindA (readA (\<lambda>_. channel_for env node (pi_session i))) (\<lambda>ch.
     bindA (inbox_messages env i node) (\<lambda>messages.
       if messages = [] then readA (\<lambda>_. Inr ([], None))
       else bindA (readA (\<lambda>bus. require_protocol_lease (mb_nodes bus) node (pi_now i))) (\<lambda>_.
            bindA (write_delivery_receipt env (pi_at i) node ch messages) (\<lambda>r.
            readA (\<lambda>_. Inr (messages, Some r)))))))))"

definition guarded_node ::
    "mail_env \<Rightarrow> string \<Rightarrow> string \<Rightarrow> string option \<Rightarrow> (mail_bus, string) act" where
  "guarded_node env field_name recipient session =
     bindA (readA (\<lambda>bus. resolve_node_id field_name True ''unknown_node'' (mb_nodes bus) recipient)) (\<lambda>node.
     bindA (readA (wake_guard env node session)) (\<lambda>_. readA (\<lambda>_. Inr node)))"

definition present ::
    "mail_env \<Rightarrow> present_input \<Rightarrow> string \<Rightarrow> (mail_bus, json list \<times> json option) act" where
  "present env i recipient =
     bindA (guarded_node env ''recipient'' recipient (pi_session i)) (present_already_guarded env i)"

section \<open>Acknowledging\<close>

record ack_input =
  ai_items :: "string list"
  ai_acting :: string
  ai_session :: "string option"
  ai_now :: int
  ai_at :: stamp

definition lower_char :: "char \<Rightarrow> char" where
  "lower_char c = (if in_range CHR ''A'' CHR ''Z'' c then char_of (of_char c + 32 :: nat) else c)"

definition is_session_id :: "string \<Rightarrow> bool" where
  "is_session_id s \<longleftrightarrow>
     1 \<le> length s \<and> length s \<le> 256 \<and> is_alnum_char (hd s) \<and>
     list_all (\<lambda>c. is_alnum_char c \<or> c \<in> set ''._:-'') s \<and>
     map lower_char s \<notin> {''all'', ''global''}"

definition validate_session_id :: "string \<Rightarrow> string res" where
  "validate_session_id s =
     (if is_session_id s then Inr s else Inl (ProtocolRefusal ''wake_session_invalid''))"

fun item_was_archived ::
    "mail_env \<Rightarrow> channel \<Rightarrow> string \<Rightarrow> (json list \<times> (channel \<Rightarrow> json list)) list \<Rightarrow> bool res" where
  "item_was_archived env ch item [] = Inr False"
| "item_was_archived env ch item ((events, deliveries) # archives) =
     bindR (decode_path_records (mail_contract env EVENT_KINDS) events) (\<lambda>rows.
       if list_ex (\<lambda>r. is_kind ''message_envelope'' r \<and> member_of r ''id'' = JStr item) rows then Inr True
       else bindR (decode_path_records (mail_contract env WAKE_HOLD_KINDS) (deliveries ch)) (\<lambda>receipts.
         if list_ex (\<lambda>r. item \<in> set (texts_at r ''item_ids'')) receipts then Inr True
         else item_was_archived env ch item archives))"

definition archived_or :: "mail_env \<Rightarrow> mail_bus \<Rightarrow> channel \<Rightarrow> string \<Rightarrow> string \<Rightarrow> unit res" where
  "archived_or env bus ch item code =
     bindR (item_was_archived env ch item (mb_archives bus)) (\<lambda>archived.
       Inl (ProtocolRefusal (if archived then ''ack_item_archived'' else code)))"

definition check_ack_item ::
    "mail_env \<Rightarrow> mail_bus \<Rightarrow> channel \<Rightarrow> string \<Rightarrow> string option \<Rightarrow> json list \<Rightarrow> string list \<Rightarrow>
     string list \<Rightarrow> string \<Rightarrow> unit res" where
  "check_ack_item env bus ch node session events retracted delivered item =
     (case event_by_id events item of
        None \<Rightarrow> archived_or env bus ch item ''ack_item_unknown''
      | Some e \<Rightarrow>
          if member_of e ''recipient'' \<noteq> JStr node then Inl (ProtocolRefusal ''ack_recipient_mismatch'')
          else if member_of e ''worker_session_id'' \<noteq> session_json session
            then Inl (ProtocolRefusal ''ack_session_mismatch'')
          else if item \<in> set retracted then Inl (ProtocolRefusal ''ack_item_retracted'')
          else if item \<notin> set delivered then archived_or env bus ch item ''ack_item_not_delivered''
          else Inr ())"

fun check_ack_items ::
    "mail_env \<Rightarrow> mail_bus \<Rightarrow> channel \<Rightarrow> string \<Rightarrow> string option \<Rightarrow> json list \<Rightarrow> string list \<Rightarrow>
     string list \<Rightarrow> string list \<Rightarrow> unit res" where
  "check_ack_items env bus ch node session events retracted delivered [] = Inr ()"
| "check_ack_items env bus ch node session events retracted delivered (item # items) =
     bindR (check_ack_item env bus ch node session events retracted delivered item) (\<lambda>_.
       check_ack_items env bus ch node session events retracted delivered items)"

definition ack_row :: "mail_env \<Rightarrow> ack_input \<Rightarrow> string \<Rightarrow> lease_view \<Rightarrow> json" where
  "ack_row env i node lease = row_of
     [(''schema_version'', JInt 1), (''id'', JStr (''ack-'' @ sp_uuid (ai_at i))),
      (''tenant_id'', JStr (me_tenant env)), (''timestamp'', JStr (sp_time (ai_at i))),
      (''kind'', JStr ''ack_receipt''), (''recipient'', JStr node),
      (''acting_session_id'', JStr (ai_acting i)),
      (''node_lease_id'', case lease of NotLeased \<Rightarrow> JNull | LeaseIs l _ _ \<Rightarrow> JStr l),
      (''node_lease_state_at_ack'',
         JStr (case lease of NotLeased \<Rightarrow> ''not_leased'' | LeaseIs _ state _ \<Rightarrow> state)),
      (''node_lease_expires_at'',
         case lease of LeaseIs _ _ (Some t) \<Rightarrow> JStr (me_lease_text env t) | _ \<Rightarrow> JNull),
      (''item_ids'', JArr (map JStr (ai_items i)))]"

definition decide_ack :: "json \<Rightarrow> ack_input \<Rightarrow> json list \<Rightarrow> (json \<times> json option) res" where
  "decide_ack r i prior =
     (case find (\<lambda>e. member_of e ''item_ids'' = JArr (map JStr (ai_items i)) \<and>
                     member_of e ''acting_session_id'' = JStr (ai_acting i)) (rev prior) of
        Some existing \<Rightarrow> Inr (existing, None)
      | None \<Rightarrow> Inr (r, Some r))"

definition ack_already_guarded :: "mail_env \<Rightarrow> ack_input \<Rightarrow> string \<Rightarrow> (mail_bus, json) act" where
  "ack_already_guarded env i recipient =
     bindA (readA (\<lambda>_. validate_identifier ''node'' recipient)) (\<lambda>node.
     bindA (readA (\<lambda>_. validate_session_id (ai_acting i))) (\<lambda>_.
     bindA (readA (\<lambda>_. channel_for env node (ai_session i))) (\<lambda>ch.
     bindA (readA (\<lambda>_.
       if ai_items i = [] \<or> length (ai_items i) > 1000 \<or> [] \<in> set (ai_items i) \<or> \<not> distinct (ai_items i)
         then Inl (ProtocolRefusal ''ack_items_invalid'') else Inr ())) (\<lambda>_.
     bindA (readA (event_records env)) (\<lambda>frames.
     bindA (readA (\<lambda>bus. validate_deliveries env bus (envelopes frames) node (ai_session i))) (\<lambda>delivered.
     bindA (readA (\<lambda>bus. check_ack_items env bus ch node (ai_session i) (envelopes frames)
                           (retracted_ids frames) delivered (ai_items i))) (\<lambda>_.
     bindA (readA (\<lambda>bus. node_lease_state (mb_nodes bus) node (ai_now i))) (\<lambda>lease bus.
       case transact (mail_contract env [''ack_receipt'']) (mb_acks bus ch)
              (decide_ack (ack_row env i node lease) i) of
         Inl e \<Rightarrow> (Inl e, bus)
       | Inr (r, rows) \<Rightarrow> (Inr r, bus\<lparr>mb_acks := (mb_acks bus)(ch := rows)\<rparr>)))))))))"

definition ack :: "mail_env \<Rightarrow> ack_input \<Rightarrow> string \<Rightarrow> (mail_bus, json) act" where
  "ack env i recipient =
     bindA (guarded_node env ''node'' recipient (ai_session i)) (ack_already_guarded env i)"

section \<open>Draining\<close>

record drain_input = present_input +
  di_acting :: string
  di_ack_now :: int
  di_ack_at :: stamp

definition drain ::
    "mail_env \<Rightarrow> drain_input \<Rightarrow> string \<Rightarrow> (mail_bus, json list \<times> json option \<times> json option) act" where
  "drain env i recipient =
     bindA (readA (\<lambda>bus. resolve_node_id ''recipient'' True ''unknown_node'' (mb_nodes bus) recipient))
       (\<lambda>node.
     bindA (readA (\<lambda>_. validate_session_id (di_acting i))) (\<lambda>acting.
     bindA (readA (wake_guard env node (pi_session i))) (\<lambda>_.
     bindA (present_already_guarded env (present_input.truncate i) node) (\<lambda>(messages, delivery).
       if messages = [] then readA (\<lambda>_. Inr ([], None, None))
       else bindA (ack_already_guarded env
              \<lparr>ai_items = map record_key messages, ai_acting = acting, ai_session = pi_session i,
               ai_now = di_ack_now i, ai_at = di_ack_at i\<rparr> node)
            (\<lambda>receipt. readA (\<lambda>_. Inr (messages, delivery, Some receipt)))))))"

definition acked_ids :: "mail_env \<Rightarrow> mail_bus \<Rightarrow> string \<Rightarrow> string option \<Rightarrow> string list res" where
  "acked_ids env bus recipient session =
     bindR (event_records env bus) (\<lambda>frames.
     bindR (state_for env bus (envelopes frames) recipient session) (\<lambda>(delivered, acked). Inr acked))"

text \<open>\<open>unacked_ids\<close> looks at the acknowledgments without a session only, whatever session a message
  names.\<close>

definition unacked_ids :: "mail_env \<Rightarrow> string \<Rightarrow> mail_bus \<Rightarrow> string list res" where
  "unacked_ids env recipient bus =
     bindR (require_active (mb_nodes bus) recipient) (\<lambda>entry.
     bindR (event_records env bus) (\<lambda>frames.
     bindR (acked_ids env bus (re_node entry) None) (\<lambda>acked.
       Inr (map record_key (filter (\<lambda>r. member_of r ''recipient'' = JStr (re_node entry) \<and>
              record_key r \<notin> set acked \<and> record_key r \<notin> set (retracted_ids frames))
            (envelopes frames))))))"

end
