(* ===== verification/Mail_Drain.thy ===== *)
theory Mail_Drain
  imports Mail_Bus
begin

text \<open>
  \<open>empty_inbox\<close> of \<open>floati/events.py\<close>: drain until nothing is left, then make sure nothing is left.
  The loop has no bound of its own; it ends because every round acknowledges events of the ledger
  that no earlier round did.
\<close>

section \<open>What the operations leave alone\<close>

lemma keeps_write_delivery [keeps_intros]:
  "keeps mb_events (write_delivery_receipt env at node ch messages)"
  "keeps mb_nodes (write_delivery_receipt env at node ch messages)"
  "keeps mb_acks (write_delivery_receipt env at node ch messages)"
  by (auto simp: keeps_def write_delivery_receipt_def split: sum.splits)

lemma keeps_scan [keeps_intros]:
  "keeps mb_events (scan_and_refresh env i node)"
  "keeps mb_nodes (scan_and_refresh env i node)"
  "keeps mb_acks (scan_and_refresh env i node)"
  "keeps mb_deliveries (scan_and_refresh env i node)"
  by (auto simp: keeps_def scan_and_refresh_def split: sum.splits)

lemma keeps_inbox [keeps_intros]:
  assumes "keeps f (scan_and_refresh env i node)"
  shows "keeps f (inbox_messages env i node)"
proof -
  have scan: "f (snd (scan_and_refresh env i node s)) = f s" for s
    using assms by (simp add: keeps_def)
  show ?thesis
    unfolding inbox_messages_def
    by (intro keeps_intros; cases "pi_session i")
       (auto simp: keeps_def bindA_snd scan split: option.splits sum.splits)
qed

lemma keeps_present [keeps_intros]:
  "keeps mb_events (present_already_guarded env i node)"
  "keeps mb_nodes (present_already_guarded env i node)"
  "keeps mb_acks (present_already_guarded env i node)"
  unfolding present_already_guarded_def by (intro keeps_intros)+

lemma keeps_ack [keeps_intros]:
  "keeps mb_events (ack_already_guarded env i node)"
  "keeps mb_nodes (ack_already_guarded env i node)"
  "keeps mb_deliveries (ack_already_guarded env i node)"
  "keeps mb_snapshots (ack_already_guarded env i node)"
  unfolding ack_already_guarded_def
  by (intro keeps_intros; auto simp: keeps_def split: sum.splits)+

lemma keeps_drain [keeps_intros]:
  "keeps mb_events (drain env i node)"
  "keeps mb_nodes (drain env i node)"
  unfolding drain_def by (intro keeps_intros)+

section \<open>What a drained batch consists of\<close>

lemma decode_known_filter:
  "decode_known c tenant n seen rows = Inr out \<Longrightarrow> out = filter known_row rows"
  by (induction rows arbitrary: n seen out) (auto simp: bindR_Inr_iff split: if_splits)

lemma event_records_filter:
  "event_records env bus = Inr frames \<Longrightarrow> frames = filter known_row (mb_events bus)"
  by (auto simp: event_records_def read_known_def bindR_Inr_iff decode_known_filter split: if_splits)

lemma check_ack_items_Inr:
  assumes "check_ack_items env bus ch node session events retracted delivered items = Inr ()"
  shows "\<forall>i \<in> set items. owns_item events node session i \<and> i \<notin> set retracted \<and> i \<in> set delivered"
  using assms
proof (induction items)
  case (Cons i items)
  then show ?case
    by (auto simp: bindR_Inr_iff check_ack_item_def archived_or_def owns_item_def addressed_def
        split: option.splits if_splits)
qed simp

lemma owns_item_in: "owns_item events node session i \<Longrightarrow> i \<in> record_key ` set events"
  by (auto simp: owns_item_def event_by_id_def dest!: map_of_SomeD split: option.splits)

lemma ack_items:
  assumes "ack_already_guarded env i node bus = (Inr r, bus')"
  shows "set (ai_items i) \<subseteq> record_key ` set (mb_events bus)"
proof -
  obtain frames delivered ch where f: "event_records env bus = Inr frames"
      "check_ack_items env bus ch node (ai_session i) (envelopes frames) (retracted_ids frames)
         delivered (ai_items i) = Inr ()"
    using assms
    by (auto simp: ack_already_guarded_def validate_identifier_def validate_session_id_def
        split: sum.splits if_splits)
  have "set (envelopes frames) \<subseteq> set (mb_events bus)"
    by (auto simp: event_records_filter [OF f(1)] envelopes_def)
  with check_ack_items_Inr [OF f(2)] owns_item_in show ?thesis by blast
qed

text \<open>A round that returns a batch has acknowledged it.\<close>

lemma drain_step:
  assumes "resolve_node_id ''recipient'' True ''unknown_node'' (mb_nodes bus) node = Inr node"
    and "validate_session_id (di_acting i) = Inr (di_acting i)"
    and "wake_guard env node (pi_session i) bus = Inr ()"
  shows "drain env i node bus =
    (case present_already_guarded env (present_input.truncate i) node bus of
       (Inl e, t) \<Rightarrow> (Inl e, t)
     | (Inr (messages, d), t) \<Rightarrow>
         if messages = [] then (Inr ([], None, None), t)
         else (case ack_already_guarded env
                      \<lparr>ai_items = map record_key messages, ai_acting = di_acting i,
                       ai_session = pi_session i, ai_now = di_ack_now i, ai_at = di_ack_at i\<rparr> node t of
                 (Inl e, u) \<Rightarrow> (Inl e, u)
               | (Inr r, u) \<Rightarrow> (Inr (messages, d, Some r), u)))"
  unfolding drain_def
  by (simp add: assms, subst bindA_def)
     (auto simp: readA_def bindA_def split: prod.splits sum.splits)

lemma drain_InrE:
  assumes "drain env i node bus = (Inr (messages, delivery, acknowledgment), bus')"
  obtains (empty) d where "messages = []" "acknowledgment = None"
      "present_already_guarded env (present_input.truncate i) node bus = (Inr ([], d), bus')"
  | (batch) d r t where "messages \<noteq> []" "delivery = d" "acknowledgment = Some r"
      "present_already_guarded env (present_input.truncate i) node bus = (Inr (messages, d), t)"
      "ack_already_guarded env
         \<lparr>ai_items = map record_key messages, ai_acting = di_acting i, ai_session = pi_session i,
          ai_now = di_ack_now i, ai_at = di_ack_at i\<rparr> node t = (Inr r, bus')"
proof -
  have ok: "resolve_node_id ''recipient'' True ''unknown_node'' (mb_nodes bus) node = Inr node"
      "validate_session_id (di_acting i) = Inr (di_acting i)"
      "wake_guard env node (pi_session i) bus = Inr ()"
    using assms
    by (auto simp: drain_def resolve_node_id_def validate_identifier_def validate_session_id_def
        split: sum.splits if_splits)
  show ?thesis
    using assms unfolding drain_step [OF ok]
    by (auto split: prod.splits sum.splits if_splits intro: empty batch)
qed

lemma drain_batch:
  assumes "drain env i node bus = (Inr (messages, delivery, acknowledgment), bus')"
  shows "mb_events bus' = mb_events bus \<and> record_key ` set messages \<subseteq> record_key ` set (mb_events bus)"
  using assms
proof (cases rule: drain_InrE)
  case (empty d)
  then show ?thesis using keepsD [OF keeps_drain(1) assms] by simp
next
  case (batch d r t)
  have "mb_events t = mb_events bus" by (rule keepsD [OF keeps_present(1) batch(4)])
  moreover have "mb_events bus' = mb_events bus" by (rule keepsD [OF keeps_drain(1) assms])
  ultimately show ?thesis using ack_items [OF batch(5)] by simp
qed

section \<open>Emptying an inbox\<close>

text \<open>\<open>inputs k\<close> holds the clock readings and fresh ids of round \<open>k\<close>.\<close>

function (sequential) drain_loop ::
    "mail_env \<Rightarrow> string \<Rightarrow> (nat \<Rightarrow> drain_input) \<Rightarrow> nat \<Rightarrow> string list \<Rightarrow> json list \<Rightarrow>
     (mail_bus, string list \<times> json list) act" where
  "drain_loop env node inputs k seen receipts bus =
     (case drain env (inputs k) node bus of
        (Inl e, bus') \<Rightarrow> (Inl e, bus')
      | (Inr (messages, delivery, acknowledgment), bus') \<Rightarrow>
          if messages = [] then (Inr (seen, receipts), bus')
          else if set (map record_key messages) \<inter> set seen \<noteq> {}
            then (Inl (ProtocolRefusal ''node_drain_incomplete''), bus')
          else drain_loop env node inputs (Suc k) (seen @ map record_key messages)
                 (receipts @ (case acknowledgment of None \<Rightarrow> [] | Some r \<Rightarrow> [r])) bus')"
  by pat_completeness auto

termination
proof (relation "measure (\<lambda>(env, node, inputs, k, seen, receipts, bus).
    card (record_key ` set (mb_events bus) - set seen))")
  fix env :: mail_env and k :: nat and node inputs seen receipts bus out bus' x messages rest delivery acknowledgment
  assume run: "(out, bus') = drain env (inputs k) node bus" "out = Inr x"
      "(messages, rest) = x" "(delivery, acknowledgment) = rest"
    and more: "messages \<noteq> []" "\<not> set (map record_key messages) \<inter> set seen \<noteq> {}"
  from run have "drain env (inputs k) node bus = (Inr (messages, delivery, acknowledgment), bus')" by simp
  from drain_batch [OF this] have ev: "mb_events bus' = mb_events bus"
      "record_key ` set messages \<subseteq> record_key ` set (mb_events bus)" by blast+
  have "record_key ` set (mb_events bus) - (set seen \<union> record_key ` set messages)
      \<subset> record_key ` set (mb_events bus) - set seen"
    using ev(2) more by (auto simp: neq_Nil_conv)
  then show "((env, node, inputs, Suc k, seen @ map record_key messages,
      receipts @ (case acknowledgment of None \<Rightarrow> [] | Some r \<Rightarrow> [r]), bus'),
      env, node, inputs, k, seen, receipts, bus)
    \<in> measure (\<lambda>(env, node, inputs, k, seen, receipts, bus).
        card (record_key ` set (mb_events bus) - set seen))"
    by (simp add: ev(1) psubset_card_mono)
qed simp

declare drain_loop.simps [simp del]

record emptied =
  em_node :: string
  em_acked :: "string list"
  em_receipts :: "string list"
  em_acting :: string

definition empty_inbox ::
    "mail_env \<Rightarrow> string \<Rightarrow> string \<Rightarrow> (nat \<Rightarrow> drain_input) \<Rightarrow> (mail_bus, emptied) act" where
  "empty_inbox env recipient acting inputs =
     bindA (readA (\<lambda>bus. require_active (mb_nodes bus) recipient)) (\<lambda>entry.
     bindA (drain_loop env (re_node entry)
              (\<lambda>k. (inputs k)\<lparr>pi_limit := 1000, pi_session := None, di_acting := acting\<rparr>) 0 [] [])
       (\<lambda>(acked, receipts).
     bindA (readA (unacked_ids env (re_node entry))) (\<lambda>leftover.
       if leftover \<noteq> [] then readA (\<lambda>_. Inl (ProtocolRefusal ''node_drain_incomplete''))
       else readA (\<lambda>_. Inr \<lparr>em_node = re_node entry, em_acked = acked,
                             em_receipts = map record_key receipts, em_acting = acting\<rparr>))))"

end
