(* ===== verification/Mail_Safety.thy ===== *)
theory Mail_Safety
  imports Mail_Drain
begin

text \<open>
  The invariant of the mail ledgers and the lemmas that every operation keeps it: the event ledger
  reads and replays, and for every recipient and session the delivery and acknowledgment ledgers are
  evidence about events addressed to them.
\<close>

section \<open>Batches\<close>

lemma transact_known_Inr:
  "transact_known c tenant rows decide = Inr (result, rows') \<longleftrightarrow>
     (\<exists>existing batch. read_known c tenant rows = Inr existing \<and> decide existing = Inr (result, batch) \<and>
        append_batch c existing rows batch = Inr rows')"
  by (auto simp: transact_known_def bindR_Inr_iff)

text \<open>A ledger whose rows are all of known kinds, with no epoch roll after the first.\<close>

lemma decode_known_Inr:
  assumes "list_all known_row rows" "\<forall>r \<in> set rows. \<not> is_kind ''bus_epoch_roll_receipt'' r"
  shows "decode_known c tenant n seen rows = Inr out \<longleftrightarrow>
    out = rows \<and> (rows \<noteq> [] \<longrightarrow> n + length rows \<le> Suc MAX_LEDGER_RECORDS) \<and>
    (\<forall>r \<in> set rows. validate_row c True r = Inr ()) \<and>
    distinct (map (row_id c) rows) \<and> row_id c ` set rows \<inter> seen = {}"
  using assms
proof (induction rows arbitrary: n seen out)
  case (Cons r rows)
  have "decode_known c tenant n seen (r # rows) = Inr out \<longleftrightarrow>
      n \<le> MAX_LEDGER_RECORDS \<and> validate_row c True r = Inr () \<and> row_id c r \<notin> seen \<and>
      (\<exists>rest. decode_known c tenant (Suc n) (insert (row_id c r) seen) rows = Inr rest \<and> out = r # rest)"
    using Cons.prems by (auto simp: bindR_Inr_iff is_kind_def)
  also have "\<dots> \<longleftrightarrow> n \<le> MAX_LEDGER_RECORDS \<and> validate_row c True r = Inr () \<and> row_id c r \<notin> seen \<and>
      out = r # rows \<and> (rows \<noteq> [] \<longrightarrow> Suc n + length rows \<le> Suc MAX_LEDGER_RECORDS) \<and>
      (\<forall>r \<in> set rows. validate_row c True r = Inr ()) \<and> distinct (map (row_id c) rows) \<and>
      row_id c ` set rows \<inter> insert (row_id c r) seen = {}"
    using Cons.IH [of "Suc n" "insert (row_id c r) seen"] Cons.prems by auto
  finally show ?case by auto
qed auto

lemma read_known_Inr:
  assumes "list_all known_row rows" "\<forall>r \<in> set rows. \<not> is_kind ''bus_epoch_roll_receipt'' r"
  shows "read_known c tenant rows = Inr out \<longleftrightarrow> out = rows \<and> readable c rows"
  by (auto simp: read_known_def readable_def decode_known_Inr [OF assms] list_ex_iff not_less
      simp flip: not_le)

section \<open>The event ledger\<close>

lemma mail_contract_simps [simp]:
  "row_id (mail_contract env kinds) = record_key"
  "validate_row (mail_contract env kinds) b r =
     bindR (validate_record (mail_specs (me_sha256 env)) (me_tenant env) kinds b r) (\<lambda>_. Inr ())"
  by (simp_all add: mail_contract_def)

lemma mail_row_reread:
  "validate_row (mail_contract env kinds) False r = Inr () \<Longrightarrow> canon r = r \<Longrightarrow>
   validate_row (mail_contract env kinds) True r = Inr ()"
  unfolding mail_contract_def by (rule mail.row_reread)

lemma mail_row_kind:
  assumes "validate_row (mail_contract env kinds) b r = Inr ()"
  shows "\<exists>kind \<in> set kinds. is_kind kind r"
  using assms unfolding mail_contract_def by (rule record_row_kind)

lemma event_kinds_known: "kind \<in> set EVENT_KINDS \<Longrightarrow> is_kind kind r \<Longrightarrow> known_row r"
  by (auto simp: EVENT_KINDS_def known_row_def is_kind_def is_known_record_kind_def KNOWN_KINDS_def)

text \<open>What the replay of a ledger knows at its end.\<close>

lemma is_kind_unique: "is_kind k r \<Longrightarrow> is_kind k' r \<longleftrightarrow> k' = k"
  by (auto simp: is_kind_def)

lemma envelopes_append [simp]: "envelopes (xs @ ys) = envelopes xs @ envelopes ys"
  by (simp add: envelopes_def)

lemma retracted_ids_append [simp]: "retracted_ids (xs @ ys) = retracted_ids xs @ retracted_ids ys"
  by (simp add: retracted_ids_def)

definition event_row :: "json \<Rightarrow> bool" where
  "event_row r \<longleftrightarrow> (\<exists>kind \<in> set EVENT_KINDS. is_kind kind r)"

lemma event_row_cases:
  assumes "event_row r" "\<not> is_kind ''bus_epoch_roll_receipt'' r"
  obtains (envelope) "is_kind ''message_envelope'' r" | (delivery_claim) "is_kind ''delivery_claim'' r"
    | (retraction) "is_kind ''message_retracted'' r" | (repair) "is_kind ''ledger_repair_receipt'' r"
  using assms by (auto simp: event_row_def EVENT_KINDS_def)

lemma event_step_envelope:
  assumes "is_kind ''message_envelope'' r"
  shows "event_step s r = Inr s' \<longleftrightarrow>
    s' = s\<lparr>es_index := es_index s + 1, es_prior := AList.update (record_key r) r (es_prior s)\<rparr> \<and>
    (member_of r ''reply_to'' = JNull \<or>
     (\<exists>original. map_of (es_prior s) (text_at r ''reply_to'') = Some original \<and>
        member_of original ''sender'' = member_of r ''recipient'' \<and>
        member_of original ''recipient'' = member_of r ''sender''))"
  using assms by (auto simp: event_step_def Let_def is_kind_unique split: option.split)

lemma event_step_claim:
  assumes "is_kind ''delivery_claim'' r"
  shows "event_step s r = Inr s' \<longleftrightarrow>
    s' = s\<lparr>es_index := es_index s + 1\<rparr> \<and>
    (\<exists>envelope. map_of (es_prior s) (text_at r ''note_ref'') = Some envelope \<and>
       member_of envelope ''sha'' = member_of r ''sha'')"
  using assms by (auto simp: event_step_def Let_def is_kind_unique split: option.split)

lemma event_step_retraction:
  assumes "is_kind ''message_retracted'' r"
  shows "event_step s r = Inr s' \<longleftrightarrow>
    s' = s\<lparr>es_index := es_index s + 1,
           es_retracted := text_at r ''retracted_message_id'' # es_retracted s\<rparr> \<and>
    (\<exists>original. map_of (es_prior s) (text_at r ''retracted_message_id'') = Some original \<and>
       member_of original ''worker_session_id'' = member_of r ''worker_session_id'' \<and>
       member_of r ''author'' \<in> {member_of original ''sender'', member_of original ''recipient''}) \<and>
    text_at r ''retracted_message_id'' \<notin> set (es_retracted s)"
  using assms by (auto simp: event_step_def Let_def is_kind_unique split: option.split)

lemma event_step_repair:
  "is_kind ''ledger_repair_receipt'' r \<Longrightarrow> event_step s r = Inr (s\<lparr>es_index := es_index s + 1\<rparr>)"
  by (simp add: event_step_def Let_def is_kind_unique)

definition keyed :: "json list \<Rightarrow> (string \<times> json) list" where
  "keyed rows = map (\<lambda>e. (record_key e, e)) rows"

lemma keys_keyed: "map fst (keyed rows) = map record_key rows"
  by (simp add: keyed_def)

lemma scan_state:
  assumes "\<forall>r \<in> set rows. event_row r \<and> \<not> is_kind ''bus_epoch_roll_receipt'' r"
    and "distinct (map record_key rows)"
    and "replay event_step empty_scan rows = Inr s"
  shows "es_prior s = keyed (envelopes rows) \<and> es_retracted s = rev (retracted_ids rows)"
  using assms
proof (induction rows arbitrary: s rule: rev_induct)
  case Nil
  then show ?case by (auto simp: empty_scan_def keyed_def envelopes_def retracted_ids_def)
next
  case (snoc r rows)
  obtain t where t: "replay event_step empty_scan rows = Inr t" "event_step t r = Inr s"
    using snoc.prems(3) by (auto simp: replay_snoc bindR_Inr_iff)
  have IH: "es_prior t = keyed (envelopes rows)" "es_retracted t = rev (retracted_ids rows)"
    using snoc.IH [OF _ _ t(1)] snoc.prems(1,2) by auto
  have fresh: "record_key r \<notin> fst ` set (keyed (envelopes rows))"
    using snoc.prems(2) by (auto simp: keyed_def envelopes_def)
  have "event_row r" "\<not> is_kind ''bus_epoch_roll_receipt'' r" using snoc.prems(1) by simp_all
  then show ?case
  proof (cases rule: event_row_cases)
    case envelope
    then show ?thesis
      using t(2) fresh IH
      by (auto simp: event_step_envelope update_fresh envelopes_def retracted_ids_def is_kind_unique keyed_def)
  next
    case delivery_claim
    then show ?thesis
      using t(2) IH by (auto simp: event_step_claim envelopes_def retracted_ids_def is_kind_unique)
  next
    case retraction
    then show ?thesis
      using t(2) IH by (auto simp: event_step_retraction envelopes_def retracted_ids_def is_kind_unique)
  next
    case repair
    then show ?thesis
      using t(2) IH by (auto simp: event_step_repair envelopes_def retracted_ids_def is_kind_unique)
  qed
qed

definition events_inv :: "mail_env \<Rightarrow> json list \<Rightarrow> bool" where
  "events_inv env rows \<longleftrightarrow>
     readable (mail_contract env EVENT_KINDS) rows \<and>
     (\<forall>r \<in> set rows. canon r = r \<and> event_row r \<and> \<not> is_kind ''bus_epoch_roll_receipt'' r) \<and>
     validate_event_records rows = Inr ()"

lemma events_inv_facts:
  assumes "events_inv env rows"
  shows "distinct (map record_key rows)" "list_all known_row rows"
    "readable (mail_contract env EVENT_KINDS) rows" "validate_event_records rows = Inr ()"
    "\<forall>r \<in> set rows. event_row r \<and> \<not> is_kind ''bus_epoch_roll_receipt'' r"
  using assms event_kinds_known
  by (auto simp: events_inv_def readable_def list_all_iff event_row_def)

lemma events_inv_read:
  assumes "events_inv env (mb_events bus)"
  shows "event_records env bus = Inr (mb_events bus)"
    "read_known (mail_contract env EVENT_KINDS) (me_tenant env) (mb_events bus) = Inr (mb_events bus)"
proof -
  note f = events_inv_facts [OF assms]
  show r: "read_known (mail_contract env EVENT_KINDS) (me_tenant env) (mb_events bus) = Inr (mb_events bus)"
    using f(2,3,5) by (subst read_known_Inr) auto
  show "event_records env bus = Inr (mb_events bus)"
    by (simp add: event_records_def r f(4))
qed

lemma event_by_id_keyed:
  "distinct (map record_key rows) \<Longrightarrow> event_by_id rows = map_of (keyed rows)"
  unfolding event_by_id_def keyed_def [symmetric]
  by (rule map_of_inject_set [THEN iffD2]) (simp_all add: keys_keyed rev_map [symmetric])

lemma event_by_id_Some:
  assumes "distinct (map record_key rows)"
  shows "event_by_id rows i = Some e \<longleftrightarrow> e \<in> set rows \<and> record_key e = i"
proof -
  have "distinct (map fst (keyed rows))" using assms by (simp add: keys_keyed)
  then have "event_by_id rows i = Some e \<longleftrightarrow> (i, e) \<in> set (keyed rows)"
    using assms by (simp add: event_by_id_keyed map_of_eq_Some_iff)
  then show ?thesis by (auto simp: keyed_def)
qed

lemma distinct_envelopes: "distinct (map record_key rows) \<Longrightarrow> distinct (map record_key (envelopes rows))"
  by (simp add: envelopes_def distinct_map_filter)

text \<open>Appending a batch that replays.\<close>

lemma events_inv_append:
  assumes "events_inv env rows"
    and "append_batch (mail_contract env EVENT_KINDS) rows rows batch = Inr rows'"
    and "\<forall>r \<in> set batch. canon r = r \<and> \<not> is_kind ''bus_epoch_roll_receipt'' r"
    and "\<And>s. replay event_step empty_scan rows = Inr s \<Longrightarrow> \<exists>t. replay event_step s batch = Inr t"
  shows "events_inv env rows' \<and> rows' = rows @ batch"
proof (cases "batch = []")
  case True
  then show ?thesis using assms(1,2) by (simp add: append_batch_Inr)
next
  case False
  note b = assms(2) [unfolded append_batch_Inr, simplified False, simplified]
  let ?c = "mail_contract env EVENT_KINDS"
  have valid: "validate_row ?c False r = Inr ()" if "r \<in> set batch" for r using b that by simp
  have "\<forall>r \<in> set batch. validate_row ?c True r = Inr ()"
    using mail_row_reread [OF valid] assms(3) by blast
  moreover have "\<forall>r \<in> set batch. event_row r"
    using mail_row_kind [OF valid] by (auto simp: event_row_def)
  moreover obtain s where s: "replay event_step empty_scan rows = Inr s"
    using events_inv_facts(4) [OF assms(1)] by (auto simp: validate_event_records_def bindR_Inr_iff)
  then obtain t where "replay event_step s batch = Inr t" using assms(4) by blast
  with s have "validate_event_records (rows @ batch) = Inr ()"
    by (simp add: validate_event_records_def replay_append)
  moreover have "ledger_bytes ?c (rows @ batch) = ledger_bytes ?c rows + ledger_bytes ?c batch"
    by (simp add: ledger_bytes_def)
  ultimately show ?thesis
    using assms(1,3) b by (auto simp: events_inv_def readable_def)
qed

end
