(* ===== verification/Mail_Inbox.thy ===== *)
theory Mail_Inbox
  imports Mail_Safety
begin

text \<open>
  What the delivery and acknowledgment ledgers of an inbox hold, what an inbox snapshot holds, and
  that both ways of computing the inbox, from a snapshot and its tail or from the whole ledger, give
  the same messages.
\<close>

section \<open>Receipts\<close>

definition items_of :: "json list \<Rightarrow> string list" where
  "items_of rows = concat (map (\<lambda>r. texts_at r ''item_ids'') rows)"

lemma items_of_append [simp]: "items_of (xs @ ys) = items_of xs @ items_of ys"
  by (simp add: items_of_def)

lemma items_of_Nil [simp]: "items_of [] = []"
  by (simp add: items_of_def)

lemma items_of_Cons [simp]: "items_of (r # rs) = texts_at r ''item_ids'' @ items_of rs"
  by (simp add: items_of_def)

text \<open>Every row is about \<open>node\<close> and all its items satisfy \<open>P\<close>.\<close>

definition receipts_for :: "string \<Rightarrow> (string \<Rightarrow> bool) \<Rightarrow> json list \<Rightarrow> bool" where
  "receipts_for node P rows \<longleftrightarrow>
     (\<forall>r \<in> set rows. member_of r ''recipient'' = JStr node) \<and> (\<forall>i \<in> set (items_of rows). P i)"

lemma receipts_for_simps [simp]:
  "receipts_for node P []"
  "receipts_for node P (r # rs) \<longleftrightarrow>
     member_of r ''recipient'' = JStr node \<and> list_all P (texts_at r ''item_ids'') \<and> receipts_for node P rs"
  "receipts_for node P (xs @ ys) \<longleftrightarrow> receipts_for node P xs \<and> receipts_for node P ys"
  by (auto simp: receipts_for_def list_all_iff)

lemma receipts_for_mono:
  "receipts_for node P rows \<Longrightarrow> (\<And>i. P i \<Longrightarrow> Q i) \<Longrightarrow> receipts_for node Q rows"
  by (auto simp: receipts_for_def)

lemma collect_deliveries_Inr:
  "collect_deliveries events node session delivered rows = Inr out \<longleftrightarrow>
     receipts_for node (owns_item events node session) rows \<and> out = delivered @ items_of rows"
  by (induction rows arbitrary: delivered) auto

lemma collect_acks_Inr:
  "collect_acks events node session delivered acked rows = Inr out \<longleftrightarrow>
     receipts_for node (\<lambda>i. owns_item events node session i \<and> i \<in> set delivered) rows \<and>
     out = acked @ items_of rows"
  by (induction rows arbitrary: acked) auto

lemma snapshot_acks_Inr:
  "snapshot_acks node delivered acked rows = Inr out \<longleftrightarrow>
     receipts_for node (\<lambda>i. i \<in> set delivered) rows \<and> out = acked @ items_of rows"
  by (induction rows arbitrary: acked) auto

lemma snapshot_deliveries_cases:
  assumes "\<forall>r \<in> set rows. member_of r ''recipient'' = JStr node"
  shows "snapshot_deliveries node known delivered rows = Inr None \<or>
    snapshot_deliveries node known delivered rows = Inr (Some (delivered @ items_of rows))"
  using assms
proof (induction rows arbitrary: delivered)
  case (Cons r rows)
  then show ?case using Cons.IH [of "delivered @ texts_at r ''item_ids''"] by simp
qed simp

section \<open>Channels\<close>

definition channel_sound ::
    "mail_env \<Rightarrow> json list \<Rightarrow> string \<Rightarrow> string option \<Rightarrow> json list \<Rightarrow> json list \<Rightarrow> bool" where
  "channel_sound env events node session drows arows \<longleftrightarrow>
     readable (mail_contract env WAKE_HOLD_KINDS) drows \<and>
     readable (mail_contract env [''ack_receipt'']) arows \<and>
     receipts_for node (owns_item (envelopes events) node session) drows \<and>
     receipts_for node (\<lambda>i. owns_item (envelopes events) node session i \<and> i \<in> set (items_of drows)) arows"

lemma owns_item_append:
  assumes "owns_item events node session i" "distinct (map record_key (events @ new))"
  shows "owns_item (events @ new) node session i"
proof -
  obtain e where e: "event_by_id events i = Some e" "addressed node session e"
    using assms(1) by (auto simp: owns_item_def split: option.splits)
  have "event_by_id (events @ new) i = Some e"
    using e(1) assms(2) by (auto simp: event_by_id_Some)
  with e(2) show ?thesis by (simp add: owns_item_def)
qed

lemma channel_sound_append:
  assumes "channel_sound env events node session drows arows"
    and "distinct (map record_key (events @ new))"
  shows "channel_sound env (events @ new) node session drows arows"
proof -
  have "distinct (map record_key (envelopes events @ envelopes new))"
    using distinct_envelopes [OF assms(2)] by simp
  from owns_item_append [OF _ this] show ?thesis
    using assms(1) unfolding channel_sound_def envelopes_append
    by (auto intro: receipts_for_mono)
qed

lemma channel_sound_Nil: "channel_sound env events node session [] []"
  by (simp add: channel_sound_def)

lemma state_for_sound:
  assumes "channel_sound env events node session (mb_deliveries bus ch) (mb_acks bus ch)"
    and "channel_for env node session = Inr ch" "is_identifier node"
  shows "validate_deliveries env bus (envelopes events) node session = Inr (items_of (mb_deliveries bus ch))"
    and "state_for env bus (envelopes events) node session =
           Inr (items_of (mb_deliveries bus ch), items_of (mb_acks bus ch))"
proof -
  have c: "collect_deliveries (envelopes events) node session [] (mb_deliveries bus ch) =
        Inr (items_of (mb_deliveries bus ch))"
      "collect_acks (envelopes events) node session (items_of (mb_deliveries bus ch)) [] (mb_acks bus ch) =
        Inr (items_of (mb_acks bus ch))"
    using assms(1) by (simp_all add: collect_deliveries_Inr collect_acks_Inr channel_sound_def)
  have r: "decode_path_records (mail_contract env WAKE_HOLD_KINDS) (mb_deliveries bus ch) = Inr (mb_deliveries bus ch)"
      "decode_path_records (mail_contract env [''ack_receipt'']) (mb_acks bus ch) = Inr (mb_acks bus ch)"
    using assms(1) by (simp_all only: channel_sound_def decode_path_records_readable)
  show v: "validate_deliveries env bus (envelopes events) node session = Inr (items_of (mb_deliveries bus ch))"
    by (simp only: validate_deliveries_def validate_identifier_def assms(2,3) r(1) c(1) bindR_simps if_True)
  show "state_for env bus (envelopes events) node session =
           Inr (items_of (mb_deliveries bus ch), items_of (mb_acks bus ch))"
    by (simp only: state_for_def validate_identifier_def assms(2,3) r(2) c(2) v bindR_simps if_True prod.case)
qed

section \<open>Snapshots\<close>

text \<open>The part of the inbox that no acknowledgment can change.\<close>

definition inbox_base :: "json list \<Rightarrow> string \<Rightarrow> json list" where
  "inbox_base frames node = filter (addressed node None) (envelopes frames)"

definition snapshot_sound :: "json list \<Rightarrow> json list \<Rightarrow> string \<Rightarrow> int \<Rightarrow> json list \<times> inbox_payload \<Rightarrow> bool" where
  "snapshot_sound drows arows node limit s \<longleftrightarrow>
     (case s of (rows, snap) \<Rightarrow>
        list_all (\<lambda>r. \<not> is_kind ''message_retracted'' r) rows \<and>
        ip_messages snap = take (nat limit) (inbox_matching rows node None (ip_acked snap)) \<and>
        (ip_truncated snap \<longleftrightarrow> int (length (inbox_matching rows node None (ip_acked snap))) > limit) \<and>
        set (ip_delivered snap) \<subseteq> set (items_of drows) \<and> set (ip_acked snap) \<subseteq> set (items_of arows))"

lemma snapshot_sound_mono:
  "snapshot_sound drows arows node limit s \<Longrightarrow> set (items_of drows) \<subseteq> set (items_of drows') \<Longrightarrow>
   set (items_of arows) \<subseteq> set (items_of arows') \<Longrightarrow> snapshot_sound drows' arows' node limit s"
  by (auto simp: snapshot_sound_def)

lemma no_retractions: "list_all (\<lambda>r. \<not> is_kind ''message_retracted'' r) rows \<Longrightarrow> retracted_ids rows = []"
  by (simp add: retracted_ids_def list_all_iff)

lemma inbox_matching_base:
  assumes "list_all (\<lambda>r. \<not> is_kind ''message_retracted'' r) rows"
  shows "inbox_matching rows node None acked = filter (\<lambda>e. record_key e \<notin> set acked) (inbox_base rows node)"
  by (simp add: inbox_matching_def inbox_base_def no_retractions [OF assms] conj_commute)

lemma snapshot_tail_Some:
  assumes "snapshot_tail node limit acked messages tail = Some out"
  shows "out = messages @ take (nat limit - length messages)
      (filter (\<lambda>e. record_key e \<notin> set acked) (inbox_base tail node))"
  using assms
proof (induction node limit acked messages tail rule: snapshot_tail.induct)
  case (2 node limit acked messages r rs)
  note IH = "2.IH" and prems = "2.prems"
  consider (skip) "is_kind ''bus_epoch_roll_receipt'' r \<or> is_kind ''delivery_claim'' r \<or>
         is_kind ''ledger_repair_receipt'' r"
    | (other) "is_kind ''message_envelope'' r" "\<not> addressed node None r \<or> record_key r \<in> set acked"
    | (room) "is_kind ''message_envelope'' r" "addressed node None r" "record_key r \<notin> set acked"
        "int (length messages) < limit"
    | (full) "is_kind ''message_envelope'' r" "addressed node None r" "record_key r \<notin> set acked"
        "\<not> int (length messages) < limit"
    using prems by (auto split: if_splits)
  then show ?case
  proof cases
    case skip
    then have "inbox_base (r # rs) node = inbox_base rs node"
      by (auto simp: inbox_base_def envelopes_def is_kind_unique)
    then show ?thesis using IH(1) skip prems by simp
  next
    case other
    then show ?thesis
      using IH(2) prems by (auto simp: inbox_base_def envelopes_def is_kind_unique split: if_splits)
  next
    case room
    then have "out = (messages @ [r]) @ take (nat limit - length (messages @ [r]))
        (filter (\<lambda>e. record_key e \<notin> set acked) (inbox_base rs node))"
      using IH(3) prems by (auto simp: is_kind_unique split: if_splits)
    moreover have "nat limit - length messages = Suc (nat limit - length (messages @ [r]))"
      using room(4) by simp
    ultimately show ?thesis using room by (simp add: inbox_base_def envelopes_def)
  next
    case full
    then have "out = messages @ take (nat limit - length messages)
        (filter (\<lambda>e. record_key e \<notin> set acked) (inbox_base rs node))"
      using IH(4) prems by (auto simp: is_kind_unique split: if_splits)
    then show ?thesis using full(4) by simp
  qed
qed (simp add: inbox_base_def envelopes_def)

text \<open>A snapshot taken at \<open>rows\<close> answers for the ledger \<open>rows @ tail\<close>, or says that it cannot.\<close>

lemma snapshot_answers:
  assumes "snapshot_sound drows arows node limit (rows, snap)"
    and "list_all (\<lambda>r. \<not> is_kind ''message_retracted'' r) (rows @ tail)"
    and "1 \<le> limit" "set acked = set (items_of arows)"
    and "length (filter (\<lambda>m. record_key m \<notin> set acked) (ip_messages snap)) = length (ip_messages snap) \<or>
         \<not> ip_truncated snap"
    and "snapshot_tail node limit acked (filter (\<lambda>m. record_key m \<notin> set acked) (ip_messages snap)) tail = Some out"
  shows "take (nat limit) out = take (nat limit) (inbox_matching (rows @ tail) node None acked)"
proof -
  let ?live = "filter (\<lambda>e. record_key e \<notin> set acked)"
  let ?old = "inbox_matching rows node None (ip_acked snap)"
  have plain: "list_all (\<lambda>r. \<not> is_kind ''message_retracted'' r) rows" using assms(2) by simp
  have old: "ip_messages snap = take (nat limit) ?old" "ip_truncated snap \<longleftrightarrow> int (length ?old) > limit"
      "set (ip_acked snap) \<subseteq> set acked"
    using assms(1,4) by (auto simp: snapshot_sound_def)
  have live: "?live ?old = ?live (inbox_base rows node)"
    using old(3) by (auto simp: inbox_matching_base [OF plain] intro: filter_cong)
  have goal: "inbox_matching (rows @ tail) node None acked = ?live ?old @ ?live (inbox_base tail node)"
    using inbox_matching_base [OF assms(2)] live by (simp add: inbox_base_def)
  have out: "out = ?live (ip_messages snap) @
      take (nat limit - length (?live (ip_messages snap))) (?live (inbox_base tail node))"
    by (rule snapshot_tail_Some [OF assms(6)])
  show ?thesis
  proof (cases "ip_truncated snap")
    case False
    then have "ip_messages snap = ?old" using old assms(3) by simp
    then show ?thesis unfolding goal out by simp
  next
    case True
    then have "length (?live (ip_messages snap)) = length (ip_messages snap)" using assms(5) by blast
    then have same: "?live (ip_messages snap) = ip_messages snap"
      by (metis length_filter_less less_irrefl filter_True)
    have len: "length (ip_messages snap) = nat limit" using True old(1,2) by simp
    have "?live ?old = ip_messages snap @ ?live (drop (nat limit) ?old)"
      by (metis append_take_drop_id filter_append old(1) same)
    then show ?thesis unfolding goal out same by (simp add: len)
  qed
qed

end
