(* ===== verification/Mail_Writes.thy ===== *)
theory Mail_Writes
  imports Mail_Inbox
begin

text \<open>
  The elementary writes that the mail operations are made of, what makes each of them safe, and the
  soundness of the mail ledgers, which they all keep.  An operation is correct when every change it
  makes is one of these writes.

  The ledgers of a worker session are named by the SHA-256 of the session, so two sessions are only
  kept apart while their digests differ: \<open>S\<close> is the set of sessions in use, on which the digest is
  assumed to be injective.
\<close>

definition sessions_apart :: "mail_env \<Rightarrow> string set \<Rightarrow> bool" where
  "sessions_apart env S \<longleftrightarrow> inj_on (\<lambda>s. me_sha256 env (encode_utf8 s)) S"

definition session_in :: "string set \<Rightarrow> string option \<Rightarrow> bool" where
  "session_in S session \<longleftrightarrow> (case session of None \<Rightarrow> True | Some s \<Rightarrow> s \<in> S)"

lemma channel_for_inject:
  assumes "sessions_apart env S" "session_in S s" "session_in S t"
    and "channel_for env n s = Inr ch" "channel_for env m t = Inr ch"
  shows "n = m" "s = t"
  using assms
  by (auto simp: channel_for_def session_component_def session_in_def sessions_apart_def bindR_Inr_iff
      split: option.splits if_splits dest: inj_onD)

definition message_keys :: "json list \<Rightarrow> json list" where
  "message_keys rows = map (\<lambda>e. member_of e ''idempotency_key'') (envelopes rows)"

lemma message_keys_append [simp]: "message_keys (xs @ ys) = message_keys xs @ message_keys ys"
  by (simp add: message_keys_def)

definition mail_sound :: "mail_env \<Rightarrow> string set \<Rightarrow> mail_bus \<Rightarrow> bool" where
  "mail_sound env S bus \<longleftrightarrow>
     events_inv env (mb_events bus) \<and> distinct (message_keys (mb_events bus)) \<and>
     (\<forall>node session ch. is_identifier node \<longrightarrow> session_in S session \<longrightarrow>
        channel_for env node session = Inr ch \<longrightarrow>
        channel_sound env (mb_events bus) node session (mb_deliveries bus ch) (mb_acks bus ch)) \<and>
     (\<forall>node limit s. mb_snapshots bus (node, limit) = Some s \<longrightarrow>
        snapshot_sound (mb_deliveries bus (node, None)) (mb_acks bus (node, None)) node limit s)"

lemma mail_soundD:
  assumes "mail_sound env S bus"
  shows "events_inv env (mb_events bus)" "distinct (message_keys (mb_events bus))"
    "is_identifier node \<Longrightarrow> session_in S session \<Longrightarrow> channel_for env node session = Inr ch \<Longrightarrow>
     channel_sound env (mb_events bus) node session (mb_deliveries bus ch) (mb_acks bus ch)"
    "mb_snapshots bus (node, limit) = Some s \<Longrightarrow>
     snapshot_sound (mb_deliveries bus (node, None)) (mb_acks bus (node, None)) node limit s"
  using assms unfolding mail_sound_def by blast+

lemma mail_soundI:
  assumes "events_inv env (mb_events bus)" "distinct (message_keys (mb_events bus))"
    and "\<And>node session ch. is_identifier node \<Longrightarrow> session_in S session \<Longrightarrow>
      channel_for env node session = Inr ch \<Longrightarrow>
      channel_sound env (mb_events bus) node session (mb_deliveries bus ch) (mb_acks bus ch)"
    and "\<And>node limit s. mb_snapshots bus (node, limit) = Some s \<Longrightarrow>
      snapshot_sound (mb_deliveries bus (node, None)) (mb_acks bus (node, None)) node limit s"
  shows "mail_sound env S bus"
  using assms unfolding mail_sound_def by blast

section \<open>Elementary writes\<close>

inductive mail_write :: "mail_env \<Rightarrow> string set \<Rightarrow> mail_bus \<Rightarrow> mail_bus \<Rightarrow> bool" for env S where
  write_events:
    "append_batch (mail_contract env EVENT_KINDS) (mb_events bus) (mb_events bus) batch = Inr rows \<Longrightarrow>
     \<forall>r \<in> set batch. canon r = r \<and> \<not> is_kind ''bus_epoch_roll_receipt'' r \<Longrightarrow>
     (\<And>s. replay event_step empty_scan (mb_events bus) = Inr s \<Longrightarrow> \<exists>t. replay event_step s batch = Inr t) \<Longrightarrow>
     distinct (message_keys (mb_events bus @ batch)) \<Longrightarrow>
     mail_write env S bus (bus\<lparr>mb_events := rows\<rparr>)"
| write_delivery:
    "channel_for env node session = Inr ch \<Longrightarrow> is_identifier node \<Longrightarrow> session_in S session \<Longrightarrow>
     append_record (mail_contract env WAKE_HOLD_KINDS) (mb_deliveries bus ch) r = Inr rows \<Longrightarrow> canon r = r \<Longrightarrow>
     receipts_for node (owns_item (envelopes (mb_events bus)) node session) [r] \<Longrightarrow>
     mail_write env S bus (bus\<lparr>mb_deliveries := (mb_deliveries bus)(ch := rows)\<rparr>)"
| write_ack:
    "channel_for env node session = Inr ch \<Longrightarrow> is_identifier node \<Longrightarrow> session_in S session \<Longrightarrow>
     append_record (mail_contract env [''ack_receipt'']) (mb_acks bus ch) r = Inr rows \<Longrightarrow> canon r = r \<Longrightarrow>
     receipts_for node (\<lambda>i. owns_item (envelopes (mb_events bus)) node session i \<and>
                            i \<in> set (items_of (mb_deliveries bus ch))) [r] \<Longrightarrow>
     mail_write env S bus (bus\<lparr>mb_acks := (mb_acks bus)(ch := rows)\<rparr>)"
| write_snapshot:
    "snapshot_sound (mb_deliveries bus (node, None)) (mb_acks bus (node, None)) node limit s \<Longrightarrow>
     mail_write env S bus (bus\<lparr>mb_snapshots := (mb_snapshots bus)((node, limit) := Some s)\<rparr>)"
| write_outside:
    "mb_events bus' = mb_events bus \<Longrightarrow> mb_deliveries bus' = mb_deliveries bus \<Longrightarrow>
     mb_acks bus' = mb_acks bus \<Longrightarrow> mb_snapshots bus' \<subseteq>\<^sub>m mb_snapshots bus \<Longrightarrow>
     mail_write env S bus bus'"

lemma append_canonical:
  assumes "append_record (mail_contract env kinds) rows r = Inr rows'" "canon r = r"
  shows "rows' = rows @ [r]" "readable (mail_contract env kinds) rows'"
  using assms unfolding mail_contract_def by (rule mail.append_record_readable(2), rule mail.append_record_readable(1))

lemma channel_sound_delivery:
  assumes "channel_sound env events node session drows arows"
    and "append_record (mail_contract env WAKE_HOLD_KINDS) drows r = Inr rows" "canon r = r"
    and "receipts_for node (owns_item (envelopes events) node session) [r]"
  shows "channel_sound env events node session rows arows"
proof -
  have "receipts_for node (\<lambda>i. owns_item (envelopes events) node session i \<and> i \<in> set (items_of (drows @ [r]))) arows"
    using assms(1) unfolding channel_sound_def by (auto elim: receipts_for_mono)
  then show ?thesis
    using assms(1,4) append_canonical [OF assms(2,3)] unfolding channel_sound_def by simp
qed

lemma channel_sound_ack:
  assumes "channel_sound env events node session drows arows"
    and "append_record (mail_contract env [''ack_receipt'']) arows r = Inr rows" "canon r = r"
    and "receipts_for node (\<lambda>i. owns_item (envelopes events) node session i \<and> i \<in> set (items_of drows)) [r]"
  shows "channel_sound env events node session drows rows"
  using assms(1,4) append_canonical [OF assms(2,3)] unfolding channel_sound_def by simp

section \<open>Every write keeps the ledgers sound\<close>

lemma mail_write_sound:
  assumes "sessions_apart env S" "mail_write env S bus bus'" "mail_sound env S bus"
  shows "mail_sound env S bus'"
  using assms(2,3)
proof (induction rule: mail_write.induct)
  case (write_events bus batch rows)
  note sound = mail_soundD [OF write_events.prems]
  have ev: "events_inv env rows" "rows = mb_events bus @ batch"
    using events_inv_append [OF sound(1) write_events.hyps(1-3)] by blast+
  have "channel_sound env rows node session drows arows"
    if "channel_sound env (mb_events bus) node session drows arows" for node session drows arows
    using channel_sound_append [OF that] events_inv_facts(1) [OF ev(1)] ev(2) by simp
  with sound(3) have "channel_sound env rows node session (mb_deliveries bus ch) (mb_acks bus ch)"
    if "is_identifier node" "session_in S session" "channel_for env node session = Inr ch" for node session ch
    using that by blast
  moreover have "distinct (message_keys rows)" using ev(2) write_events.hyps(4) by simp
  ultimately show ?case
    by (intro mail_soundI) (simp_all add: ev(1) sound(4))
next
  case (write_delivery node session ch bus r rows)
  note sound = mail_soundD [OF write_delivery.prems]
  have rows: "rows = mb_deliveries bus ch @ [r]"
    using append_canonical(1) write_delivery.hyps(4,5) .
  have "channel_sound env (mb_events bus) n s (((mb_deliveries bus)(ch := rows)) c) (mb_acks bus c)"
    if n: "is_identifier n" "session_in S s" "channel_for env n s = Inr c" for n s c
  proof (cases "c = ch")
    case True
    then have "n = node" "s = session"
      using channel_for_inject [OF assms(1) n(2) write_delivery.hyps(3) _ write_delivery.hyps(1)] n(3) by simp_all
    then show ?thesis
      using channel_sound_delivery [OF sound(3) [OF n] _ write_delivery.hyps(5)] write_delivery.hyps(4,6) True
      by simp
  qed (use sound(3) [OF n] in simp)
  moreover have "snapshot_sound (((mb_deliveries bus)(ch := rows)) (n, None)) (mb_acks bus (n, None)) n limit s"
    if "mb_snapshots bus (n, limit) = Some s" for n limit s
    using snapshot_sound_mono [OF sound(4) [OF that]] rows by simp
  ultimately show ?case by (intro mail_soundI) (simp_all add: sound(1,2) del: fun_upd_apply)
next
  case (write_ack node session ch bus r rows)
  note sound = mail_soundD [OF write_ack.prems]
  have rows: "rows = mb_acks bus ch @ [r]"
    using append_canonical(1) write_ack.hyps(4,5) .
  have "channel_sound env (mb_events bus) n s (mb_deliveries bus c) (((mb_acks bus)(ch := rows)) c)"
    if n: "is_identifier n" "session_in S s" "channel_for env n s = Inr c" for n s c
  proof (cases "c = ch")
    case True
    then have "n = node" "s = session"
      using channel_for_inject [OF assms(1) n(2) write_ack.hyps(3) _ write_ack.hyps(1)] n(3) by simp_all
    then show ?thesis
      using channel_sound_ack [OF sound(3) [OF n] _ write_ack.hyps(5)] write_ack.hyps(4,6) True by simp
  qed (use sound(3) [OF n] in simp)
  moreover have "snapshot_sound (mb_deliveries bus (n, None)) (((mb_acks bus)(ch := rows)) (n, None)) n limit s"
    if "mb_snapshots bus (n, limit) = Some s" for n limit s
    using snapshot_sound_mono [OF sound(4) [OF that]] rows by simp
  ultimately show ?case by (intro mail_soundI) (simp_all add: sound(1,2) del: fun_upd_apply)
next
  case (write_snapshot bus node limit s)
  note sound = mail_soundD [OF write_snapshot.prems]
  show ?case
    by (rule mail_soundI) (use sound write_snapshot.hyps in \<open>auto split: if_splits\<close>)
next
  case (write_outside bus' bus)
  have "mb_snapshots bus (n, l) = Some s" if "mb_snapshots bus' (n, l) = Some s" for n l s
    using write_outside.hyps(4) that by (auto simp: map_le_def dom_def)
  with write_outside.hyps(1-3) mail_soundD [OF write_outside.prems] show ?case
    by (intro mail_soundI) simp_all
qed

section \<open>Nothing is taken back\<close>

text \<open>Events, and the items of each channel that are delivered or acknowledged, only accumulate.\<close>

definition mail_grows :: "mail_bus \<Rightarrow> mail_bus \<Rightarrow> bool" where
  "mail_grows bus bus' \<longleftrightarrow>
     (\<exists>new. mb_events bus' = mb_events bus @ new) \<and>
     (\<forall>ch. set (items_of (mb_deliveries bus ch)) \<subseteq> set (items_of (mb_deliveries bus' ch)) \<and>
           set (items_of (mb_acks bus ch)) \<subseteq> set (items_of (mb_acks bus' ch)))"

lemma mail_growsD:
  assumes "mail_grows bus bus'"
  shows "\<exists>new. mb_events bus' = mb_events bus @ new"
    "set (items_of (mb_deliveries bus ch)) \<subseteq> set (items_of (mb_deliveries bus' ch))"
    "set (items_of (mb_acks bus ch)) \<subseteq> set (items_of (mb_acks bus' ch))"
  using assms unfolding mail_grows_def by blast+

lemma mail_grows_refl: "mail_grows bus bus"
  by (simp add: mail_grows_def)

lemma mail_grows_trans: "mail_grows a b \<Longrightarrow> mail_grows b c \<Longrightarrow> mail_grows a c"
  unfolding mail_grows_def by (metis append_assoc subset_trans)

lemma mail_write_grows: "mail_write env S bus bus' \<Longrightarrow> mail_grows bus bus'"
  by (induction rule: mail_write.induct)
     (auto simp: mail_grows_def dest!: append_batch_extends append_canonical(1))

definition mail_writes :: "mail_env \<Rightarrow> string set \<Rightarrow> mail_bus \<Rightarrow> mail_bus \<Rightarrow> bool" where
  "mail_writes env S = (mail_write env S)\<^sup>*\<^sup>*"

lemma mail_writes_intros:
  "mail_writes env S bus bus"
  "mail_write env S bus bus' \<Longrightarrow> mail_writes env S bus bus'"
  "mail_writes env S a b \<Longrightarrow> mail_writes env S b c \<Longrightarrow> mail_writes env S a c"
  by (auto simp: mail_writes_def)

lemma mail_writes_keep:
  assumes "mail_writes env S bus bus'"
  shows "sessions_apart env S \<Longrightarrow> mail_sound env S bus \<Longrightarrow> mail_sound env S bus'" "mail_grows bus bus'"
proof -
  show "mail_grows bus bus'"
    using assms unfolding mail_writes_def
    by (induction rule: rtranclp_induct) (auto intro: mail_grows_refl mail_grows_trans mail_write_grows)
  show "mail_sound env S bus'" if "sessions_apart env S" "mail_sound env S bus"
    using assms that unfolding mail_writes_def
    by (induction rule: rtranclp_induct) (auto intro: mail_write_sound)
qed

end
