(* ===== verification/Mail_Steps.thy ===== *)
theory Mail_Steps
  imports Mail_Writes
begin

text \<open>
  Every mail operation is a sequence of the elementary writes of \<open>Mail_Writes\<close>, and the inbox it
  computes on sound ledgers is the specified one.
\<close>

section \<open>The inbox on sound ledgers\<close>

lemma inbox_matching_cong:
  "set acked = set acked' \<Longrightarrow> inbox_matching frames node session acked = inbox_matching frames node session acked'"
  by (simp add: inbox_matching_def)

lemma present_full_scan_sound:
  assumes "mail_sound env S bus" "is_identifier node" "session_in S session"
    and "channel_for env node session = Inr ch"
  shows "present_full_scan env bus node limit session =
    (let matching = inbox_matching (mb_events bus) node session (items_of (mb_acks bus ch));
         messages = take (nat limit) matching
     in Inr (messages,
          \<lparr>ip_recipient = node, ip_limit = limit, ip_messages = messages,
           ip_truncated = (int (length matching) > limit),
           ip_delivered = sort (remdups (items_of (mb_deliveries bus ch))),
           ip_acked = sort (remdups (items_of (mb_acks bus ch)))\<rparr>))"
proof -
  note sound = mail_soundD [OF assms(1)]
  show ?thesis
    using events_inv_read(1) [OF sound(1)] state_for_sound(2) [OF sound(3) [OF assms(2-4)] assms(4,2)]
    by (simp add: present_full_scan_def present_from_frames_def Let_def)
qed

lemma load_snapshot_rows:
  assumes "load_snapshot bus node limit = Some (snap, tail)" "events_inv env (mb_events bus)"
  shows "\<exists>rows. mb_snapshots bus (node, limit) = Some (rows, snap) \<and> mb_events bus = rows @ tail"
proof -
  obtain rows where rows: "mb_snapshots bus (node, limit) = Some (rows, snap)"
      "take (length rows) (mb_events bus) = rows" "tail = filter known_row (drop (length rows) (mb_events bus))"
    using assms(1) by (auto simp: load_snapshot_def split: option.splits if_splits)
  have "list_all known_row (mb_events bus)" by (rule events_inv_facts(2) [OF assms(2)])
  then have "tail = drop (length rows) (mb_events bus)"
    unfolding rows(3) by (auto simp: list_all_iff filter_id_conv dest: in_set_dropD)
  with rows(1,2) show ?thesis by (metis append_take_drop_id)
qed

lemma messages_from_snapshot_sound:
  assumes "channel_sound env (mb_events bus) node None (mb_deliveries bus (node, None)) (mb_acks bus (node, None))"
    and "snapshot_sound (mb_deliveries bus (node, None)) (mb_acks bus (node, None)) node limit (rows, snap)"
    and "mb_events bus = rows @ tail" "1 \<le> limit"
    and "list_all (\<lambda>r. \<not> is_kind ''message_retracted'' r) (mb_events bus)"
  shows "messages_from_snapshot env bus node limit snap tail = Inr None \<or>
    messages_from_snapshot env bus node limit snap tail =
      Inr (Some (take (nat limit) (inbox_matching (mb_events bus) node None (items_of (mb_acks bus (node, None))))))"
proof -
  let ?d = "mb_deliveries bus (node, None)" and ?a = "mb_acks bus (node, None)"
  let ?acked = "ip_acked snap @ items_of ?a"
  have rd: "decode_path_records (mail_contract env WAKE_HOLD_KINDS) ?d = Inr ?d"
      "decode_path_records (mail_contract env [''ack_receipt'']) ?a = Inr ?a"
    using assms(1) by (simp_all only: channel_sound_def decode_path_records_readable)
  have dl: "snapshot_deliveries node (map record_key (ip_messages snap)) (ip_delivered snap) ?d = Inr None \<or>
      snapshot_deliveries node (map record_key (ip_messages snap)) (ip_delivered snap) ?d =
        Inr (Some (ip_delivered snap @ items_of ?d))"
    by (rule snapshot_deliveries_cases) (use assms(1) in \<open>simp add: channel_sound_def receipts_for_def\<close>)
  have ak: "snapshot_acks node (ip_delivered snap @ items_of ?d) (ip_acked snap) ?a = Inr ?acked"
    using assms(1) by (auto simp: snapshot_acks_Inr channel_sound_def elim: receipts_for_mono)
  have same: "set ?acked = set (items_of ?a)" using assms(2) by (auto simp: snapshot_sound_def)
  have answer: "take (nat limit) out = take (nat limit) (inbox_matching (mb_events bus) node None (items_of ?a))"
    if "length (filter (\<lambda>m. record_key m \<notin> set ?acked) (ip_messages snap)) = length (ip_messages snap) \<or>
         \<not> ip_truncated snap"
      "snapshot_tail node limit ?acked (filter (\<lambda>m. record_key m \<notin> set ?acked) (ip_messages snap)) tail = Some out"
    for out
    using snapshot_answers [OF assms(2) _ assms(4) same that] assms(3,5) inbox_matching_cong [OF same] by simp
  show ?thesis
  proof (cases "ip_recipient snap \<noteq> node \<or> ip_limit snap \<noteq> limit")
    case True
    then show ?thesis by (simp add: messages_from_snapshot_def)
  next
    case False
    let ?kept = "filter (\<lambda>m. record_key m \<notin> set ?acked) (ip_messages snap)"
    from dl show ?thesis
    proof
      assume "snapshot_deliveries node (map record_key (ip_messages snap)) (ip_delivered snap) ?d = Inr None"
      then show ?thesis using False rd by (simp add: messages_from_snapshot_def)
    next
      assume "snapshot_deliveries node (map record_key (ip_messages snap)) (ip_delivered snap) ?d =
        Inr (Some (ip_delivered snap @ items_of ?d))"
      then have eq: "messages_from_snapshot env bus node limit snap tail =
          (if length ?kept \<noteq> length (ip_messages snap) \<and> ip_truncated snap then Inr None
           else Inr (map_option (take (nat limit)) (snapshot_tail node limit ?acked ?kept tail)))"
        using False rd ak by (simp add: messages_from_snapshot_def Let_def)
      show ?thesis
        unfolding eq using answer by (cases "snapshot_tail node limit ?acked ?kept tail") auto
    qed
  qed
qed

lemma scan_and_refresh_sound:
  assumes "mail_sound env S bus" "is_identifier node"
    and "list_all (\<lambda>r. \<not> is_kind ''message_retracted'' r) (mb_events bus)"
  shows "\<exists>bus'. scan_and_refresh env i node bus =
      (Inr (take (nat (pi_limit i)) (inbox_matching (mb_events bus) node None (items_of (mb_acks bus (node, None))))), bus')
      \<and> mail_writes env S bus bus'"
proof -
  have ch: "channel_for env node None = Inr (node, None)" "session_in S None"
    by (simp_all add: channel_for_def session_in_def)
  let ?m = "inbox_matching (mb_events bus) node None (items_of (mb_acks bus (node, None)))"
  let ?snap = "\<lparr>ip_recipient = node, ip_limit = pi_limit i, ip_messages = take (nat (pi_limit i)) ?m,
    ip_truncated = (int (length ?m) > pi_limit i),
    ip_delivered = sort (remdups (items_of (mb_deliveries bus (node, None)))),
    ip_acked = sort (remdups (items_of (mb_acks bus (node, None))))\<rparr>"
  have scan: "present_full_scan env bus node (pi_limit i) None = Inr (take (nat (pi_limit i)) ?m, ?snap)"
    using present_full_scan_sound [OF assms(1,2) ch(2,1)] by (simp add: Let_def)
  have "inbox_matching (mb_events bus) node None (sort (remdups (items_of (mb_acks bus (node, None))))) = ?m"
    by (rule inbox_matching_cong) simp
  then have "snapshot_sound (mb_deliveries bus (node, None)) (mb_acks bus (node, None)) node (pi_limit i)
      (mb_events bus, ?snap)"
    by (simp add: snapshot_sound_def assms(3))
  then show ?thesis
    by (auto simp: scan_and_refresh_def scan intro: mail_writes_intros(1) mail_writes_intros(2) [OF write_snapshot])
qed

lemma inbox_messages_sound:
  assumes "mail_sound env S bus" "is_identifier node" "session_in S (pi_session i)"
    and "channel_for env node (pi_session i) = Inr ch" "1 \<le> pi_limit i"
  shows "\<exists>bus'. inbox_messages env i node bus =
      (Inr (take (nat (pi_limit i)) (inbox_matching (mb_events bus) node (pi_session i) (items_of (mb_acks bus ch)))), bus')
      \<and> mail_writes env S bus bus'"
proof (cases "pi_session i")
  case (Some s)
  then show ?thesis
    using present_full_scan_sound [OF assms(1-4), of "pi_limit i"]
    by (auto simp: inbox_messages_def Let_def readA_def intro: mail_writes_intros(1))
next
  case None
  then have ch: "ch = (node, None)" using assms(4) by (simp add: channel_for_def)
  have read: "event_records env bus = Inr (mb_events bus)"
    by (rule events_inv_read(1) [OF mail_soundD(1) [OF assms(1)]])
  show ?thesis
  proof (cases "list_ex (is_kind ''message_retracted'') (mb_events bus)")
    case True
    then show ?thesis
      using None present_full_scan_sound [OF assms(1-4), of "pi_limit i"] read
      by (auto simp: inbox_messages_def Let_def readA_def intro: mail_writes_intros(1))
  next
    case False
    then have plain: "list_all (\<lambda>r. \<not> is_kind ''message_retracted'' r) (mb_events bus)"
      by (simp add: list_ex_iff list_all_iff)
    note scan = scan_and_refresh_sound [OF assms(1,2) plain, of i]
    show ?thesis
    proof (cases "if pi_loadable i then load_snapshot bus node (pi_limit i) else None")
      case None': None
      then show ?thesis using scan None False read ch by (simp add: inbox_messages_def)
    next
      case (Some p)
      then obtain snap tail where p: "load_snapshot bus node (pi_limit i) = Some (snap, tail)" "pi_loadable i"
          "p = (snap, tail)"
        by (cases p) (auto split: if_splits)
      obtain rows where rows: "mb_snapshots bus (node, pi_limit i) = Some (rows, snap)"
          "mb_events bus = rows @ tail"
        using load_snapshot_rows [OF p(1) mail_soundD(1) [OF assms(1)]] by blast
      have "channel_sound env (mb_events bus) node None (mb_deliveries bus (node, None)) (mb_acks bus (node, None))"
        using mail_soundD(3) [OF assms(1-4)] None ch by simp
      from messages_from_snapshot_sound [OF this mail_soundD(4) [OF assms(1) rows(1)] rows(2) assms(5) plain]
      show ?thesis
        using scan None False read ch p(1,2)
        by (auto simp: inbox_messages_def intro: mail_writes_intros(1))
    qed
  qed
qed

section \<open>Presenting and acknowledging\<close>

lemma texts_at_member: "texts_at r name =
    (case member_of r name of JArr vs \<Rightarrow> (case all_texts vs of Some ss \<Rightarrow> ss | None \<Rightarrow> []) | _ \<Rightarrow> [])"
  by (cases r) (simp_all add: texts_at_def member_of_def texts_of_def)

lemma is_kind_member: "is_kind kind r \<longleftrightarrow> member_of r ''kind'' = JStr kind"
  by (cases r) (auto simp: is_kind_def record_kind_def member_of_def)

lemma canon_text_array [simp]: "canon (JArr (map JStr ss)) = JArr (map JStr ss)"
  by (simp add: comp_def)

lemma all_texts_JStr [simp]: "all_texts (map JStr ss) = Some ss"
  by (simp add: all_texts_Some_iff)

lemma mail_row_id:
  assumes "validate_row (mail_contract env kinds) b r = Inr ()"
  shows "member_of r ''id'' = JStr (record_key r)"
proof -
  obtain x where "validate_record (mail_specs (me_sha256 env)) (me_tenant env) kinds b r = Inr x"
    using assms by (auto simp: bindR_Inr_iff)
  from validate_record_id [OF this] show ?thesis
    by (auto simp: record_key_def record_id_def member_of_def split: json.splits)
qed

lemma events_inv_id: "events_inv env rows \<Longrightarrow> r \<in> set rows \<Longrightarrow> member_of r ''id'' = JStr (record_key r)"
  using mail_row_id by (fastforce simp: events_inv_def readable_def)

lemma inbox_owned:
  assumes "e \<in> set (inbox_matching rows node session acked)" "distinct (map record_key rows)"
  shows "owns_item (envelopes rows) node session (record_key e)" "e \<in> set rows" "record_key e \<notin> set acked"
    "record_key e \<notin> set (retracted_ids rows)"
proof -
  have "event_by_id (envelopes rows) (record_key e) = Some e"
    using assms(1) event_by_id_Some [OF distinct_envelopes [OF assms(2)]] by (simp add: inbox_matching_def)
  with assms(1) show "owns_item (envelopes rows) node session (record_key e)"
    by (simp add: owns_item_def inbox_matching_def)
  show "e \<in> set rows" "record_key e \<notin> set acked" "record_key e \<notin> set (retracted_ids rows)"
    using assms(1) by (auto simp: inbox_matching_def envelopes_def)
qed

lemma write_delivery_writes:
  assumes "mail_sound env S bus" "is_identifier node" "session_in S session"
    and "channel_for env node session = Inr ch"
    and "set messages \<subseteq> set (inbox_matching (mb_events bus) node session acked)"
  shows "mail_writes env S bus (snd (write_delivery_receipt env at node ch messages bus))"
proof -
  have inv: "events_inv env (mb_events bus)" by (rule mail_soundD(1) [OF assms(1)])
  note owned = inbox_owned [OF _ events_inv_facts(1) [OF inv]]
  have ids: "map (\<lambda>m. member_of m ''id'') messages = map JStr (map record_key messages)"
    using assms(5) owned(2) events_inv_id [OF inv] by auto
  have row: "receipts_for node (owns_item (envelopes (mb_events bus)) node session) [delivery_row env at node messages n]" for n
  proof -
    have "member_of (delivery_row env at node messages n) ''item_ids'' = canon (JArr (map JStr (map record_key messages)))"
      unfolding delivery_row_def member_of_row_of ids by (simp add: get_member_def)
    then have "texts_at (delivery_row env at node messages n) ''item_ids'' = map record_key messages"
      by (simp only: texts_at_member canon_text_array json.case all_texts_JStr option.case)
    moreover have "member_of (delivery_row env at node messages n) ''recipient'' = JStr node"
      unfolding delivery_row_def member_of_row_of by (simp add: get_member_def)
    ultimately show ?thesis using assms(5) owned(1) by (auto simp: list_all_iff)
  qed
  show ?thesis
  proof (cases "transact (mail_contract env WAKE_HOLD_KINDS) (mb_deliveries bus ch)
             (\<lambda>prior. let r = delivery_row env at node messages (length prior + 1) in Inr (r, Some r))")
    case (Inl e)
    then show ?thesis by (simp add: write_delivery_receipt_def mail_writes_intros(1))
  next
    case (Inr p)
    then have "append_record (mail_contract env WAKE_HOLD_KINDS) (mb_deliveries bus ch)
        (delivery_row env at node messages (length (mb_deliveries bus ch) + 1)) = Inr (snd p)"
      by (cases p) (auto simp: transact_Inr_iff Let_def simp del: mail_contract_simps)
    from write_delivery [OF assms(4,2,3) this _ row] show ?thesis
      using Inr by (auto simp: write_delivery_receipt_def delivery_row_def intro: mail_writes_intros(2) split: prod.split)
  qed
qed

lemma present_guarded_step:
  assumes "is_identifier node" "1 \<le> pi_limit i" "pi_limit i \<le> 1000"
    and "channel_for env node (pi_session i) = Inr ch" "require_active (mb_nodes bus) node = Inr entry"
  shows "present_already_guarded env i node bus =
    (case inbox_messages env i node bus of
       (Inl e, t) \<Rightarrow> (Inl e, t)
     | (Inr messages, t) \<Rightarrow>
         if messages = [] then (Inr ([], None), t)
         else (case require_protocol_lease (mb_nodes t) node (pi_now i) of
                 Inl e \<Rightarrow> (Inl e, t)
               | Inr lease \<Rightarrow>
                   (case write_delivery_receipt env (pi_at i) node ch messages t of
                      (Inl e, u) \<Rightarrow> (Inl e, u)
                    | (Inr r, u) \<Rightarrow> (Inr (messages, Some r), u))))"
  unfolding present_already_guarded_def
  by (simp add: assms validate_identifier_def, subst bindA_def)
     (auto simp: readA_def bindA_def split: prod.splits sum.splits)

lemma present_guarded_fails:
  "\<not> (is_identifier node \<and> 1 \<le> pi_limit i \<and> pi_limit i \<le> 1000 \<and>
      (\<exists>ch. channel_for env node (pi_session i) = Inr ch) \<and>
      (\<exists>entry. require_active (mb_nodes bus) node = Inr entry)) \<Longrightarrow>
   \<exists>e. present_already_guarded env i node bus = (Inl e, bus)"
  by (auto simp: present_already_guarded_def validate_identifier_def readA_def split: sum.split)

lemma present_guarded_sound:
  assumes "sessions_apart env S" "mail_sound env S bus" "session_in S (pi_session i)"
  shows "mail_writes env S bus (snd (present_already_guarded env i node bus))"
    and "present_already_guarded env i node bus = (Inr (messages, delivery), bus') \<Longrightarrow>
      is_identifier node \<and> (\<exists>ch. channel_for env node (pi_session i) = Inr ch \<and>
        messages = take (nat (pi_limit i))
          (inbox_matching (mb_events bus) node (pi_session i) (items_of (mb_acks bus ch))))"
proof -
  have both: "mail_writes env S bus (snd (present_already_guarded env i node bus)) \<and>
    (\<forall>messages delivery bus'. present_already_guarded env i node bus = (Inr (messages, delivery), bus') \<longrightarrow>
      is_identifier node \<and> (\<exists>ch. channel_for env node (pi_session i) = Inr ch \<and>
        messages = take (nat (pi_limit i))
          (inbox_matching (mb_events bus) node (pi_session i) (items_of (mb_acks bus ch)))))"
  proof (cases "is_identifier node \<and> 1 \<le> pi_limit i \<and> pi_limit i \<le> 1000 \<and>
      (\<exists>ch. channel_for env node (pi_session i) = Inr ch) \<and>
      (\<exists>entry. require_active (mb_nodes bus) node = Inr entry)")
    case False
    from present_guarded_fails [OF this] show ?thesis by (auto intro: mail_writes_intros(1))
  next
    case True
    then obtain ch entry where g: "is_identifier node" "1 \<le> pi_limit i" "pi_limit i \<le> 1000"
        "channel_for env node (pi_session i) = Inr ch" "require_active (mb_nodes bus) node = Inr entry" by blast
    let ?ms = "take (nat (pi_limit i))
      (inbox_matching (mb_events bus) node (pi_session i) (items_of (mb_acks bus ch)))"
    obtain t where t: "inbox_messages env i node bus = (Inr ?ms, t)" "mail_writes env S bus t"
      using inbox_messages_sound [OF assms(2) g(1) assms(3) g(4,2)] by blast
    have "mb_events t = mb_events bus" by (rule keepsD [OF keeps_inbox [OF keeps_scan(1)] t(1)])
    then have sub: "set ?ms \<subseteq> set (inbox_matching (mb_events t) node (pi_session i) (items_of (mb_acks bus ch)))"
      by (auto dest: in_set_takeD)
    have "mail_writes env S t (snd (write_delivery_receipt env (pi_at i) node ch ?ms t))"
      by (rule write_delivery_writes [OF mail_writes_keep(1) [OF t(2) assms(1,2)] g(1) assms(3) g(4) sub])
    with t(2) have w: "mail_writes env S bus (snd (write_delivery_receipt env (pi_at i) node ch ?ms t))"
      by (rule mail_writes_intros(3))
    show ?thesis
      unfolding present_guarded_step [OF g] using t w g(1,4)
      by (auto split: sum.split prod.split)
  qed
  show "mail_writes env S bus (snd (present_already_guarded env i node bus))" using both by blast
  show "present_already_guarded env i node bus = (Inr (messages, delivery), bus') \<Longrightarrow>
      is_identifier node \<and> (\<exists>ch. channel_for env node (pi_session i) = Inr ch \<and>
        messages = take (nat (pi_limit i))
          (inbox_matching (mb_events bus) node (pi_session i) (items_of (mb_acks bus ch))))"
    using both by blast
qed

end
