(* ===== verification/Mail_Operations.thy ===== *)
theory Mail_Operations
  imports Mail_Steps
begin

text \<open>
  Acknowledging, sending and retracting as sequences of the elementary writes of \<open>Mail_Writes\<close>.
\<close>

section \<open>Acknowledging\<close>

lemma ack_guarded_step:
  assumes "is_identifier node" "is_session_id (ai_acting i)" "channel_for env node (ai_session i) = Inr ch"
    and "\<not> (ai_items i = [] \<or> length (ai_items i) > 1000 \<or> [] \<in> set (ai_items i) \<or> \<not> distinct (ai_items i))"
    and "event_records env bus = Inr frames"
    and "validate_deliveries env bus (envelopes frames) node (ai_session i) = Inr delivered"
    and "check_ack_items env bus ch node (ai_session i) (envelopes frames) (retracted_ids frames) delivered
           (ai_items i) = Inr ()"
  shows "ack_already_guarded env i node bus =
    (case node_lease_state (mb_nodes bus) node (ai_now i) of
       Inl e \<Rightarrow> (Inl e, bus)
     | Inr lease \<Rightarrow>
         (case transact (mail_contract env [''ack_receipt'']) (mb_acks bus ch)
                (decide_ack (ack_row env i node lease) i) of
            Inl e \<Rightarrow> (Inl e, bus)
          | Inr (r, rows) \<Rightarrow> (Inr r, bus\<lparr>mb_acks := (mb_acks bus)(ch := rows)\<rparr>)))"
  using assms by (simp add: ack_already_guarded_def validate_identifier_def validate_session_id_def)

lemma ack_guarded_fails:
  "\<not> (is_identifier node \<and> is_session_id (ai_acting i) \<and>
      \<not> (ai_items i = [] \<or> length (ai_items i) > 1000 \<or> [] \<in> set (ai_items i) \<or> \<not> distinct (ai_items i)) \<and>
      (\<exists>ch frames delivered. channel_for env node (ai_session i) = Inr ch \<and> event_records env bus = Inr frames \<and>
        validate_deliveries env bus (envelopes frames) node (ai_session i) = Inr delivered \<and>
        check_ack_items env bus ch node (ai_session i) (envelopes frames) (retracted_ids frames) delivered
           (ai_items i) = Inr ())) \<Longrightarrow>
   \<exists>e. ack_already_guarded env i node bus = (Inl e, bus)"
  by (auto simp: ack_already_guarded_def validate_identifier_def validate_session_id_def split: sum.split)

lemma ack_row_items:
  "texts_at (ack_row env i node lease) ''item_ids'' = ai_items i"
  "member_of (ack_row env i node lease) ''recipient'' = JStr node"
  "canon (ack_row env i node lease) = ack_row env i node lease"
proof -
  have "member_of (ack_row env i node lease) ''item_ids'' = canon (JArr (map JStr (ai_items i)))"
    unfolding ack_row_def member_of_row_of by (simp add: get_member_def)
  then show "texts_at (ack_row env i node lease) ''item_ids'' = ai_items i"
    by (simp only: texts_at_member canon_text_array json.case all_texts_JStr option.case)
  show "member_of (ack_row env i node lease) ''recipient'' = JStr node"
    unfolding ack_row_def member_of_row_of by (simp add: get_member_def)
  show "canon (ack_row env i node lease) = ack_row env i node lease"
    unfolding ack_row_def by (rule canon_row_of)
qed

lemma decide_ack_cases:
  assumes "decide_ack r i prior = Inr (result, candidate)"
  shows "candidate = None \<and> result \<in> set prior \<and> texts_at result ''item_ids'' = ai_items i \<or> candidate = Some r"
  using assms
  by (auto simp: decide_ack_def find_Some_iff texts_at_member rev_nth split: option.splits)

text \<open>The items that an acknowledgment names are acknowledged afterwards, whether a row was written
  or an equal one was there.\<close>

lemma ack_guarded_sound:
  assumes "mail_sound env S bus" "session_in S (ai_session i)"
  shows "mail_writes env S bus (snd (ack_already_guarded env i node bus))"
    and "ack_already_guarded env i node bus = (Inr r, bus') \<Longrightarrow>
      is_identifier node \<and> (\<exists>ch. channel_for env node (ai_session i) = Inr ch \<and>
        set (ai_items i) \<subseteq> set (items_of (mb_acks bus' ch)))"
proof -
  have "mail_writes env S bus (snd (ack_already_guarded env i node bus)) \<and>
    (\<forall>r bus'. ack_already_guarded env i node bus = (Inr r, bus') \<longrightarrow>
      is_identifier node \<and> (\<exists>ch. channel_for env node (ai_session i) = Inr ch \<and>
        set (ai_items i) \<subseteq> set (items_of (mb_acks bus' ch))))"
  proof (cases "\<exists>e. ack_already_guarded env i node bus = (Inl e, bus)")
    case True
    then show ?thesis by (auto intro: mail_writes_intros(1))
  next
    case False
    then obtain ch frames delivered where g: "is_identifier node" "is_session_id (ai_acting i)"
        "channel_for env node (ai_session i) = Inr ch"
        "\<not> (ai_items i = [] \<or> length (ai_items i) > 1000 \<or> [] \<in> set (ai_items i) \<or> \<not> distinct (ai_items i))"
        "event_records env bus = Inr frames"
        "validate_deliveries env bus (envelopes frames) node (ai_session i) = Inr delivered"
        "check_ack_items env bus ch node (ai_session i) (envelopes frames) (retracted_ids frames) delivered
           (ai_items i) = Inr ()"
      using ack_guarded_fails by blast
    note sound = mail_soundD [OF assms(1)]
    have "frames = mb_events bus" using g(5) events_inv_read(1) [OF sound(1)] by simp
    moreover have "delivered = items_of (mb_deliveries bus ch)"
      using g(6) state_for_sound(1) [OF sound(3) [OF g(1) assms(2) g(3)] g(3,1)] calculation by simp
    ultimately have row: "receipts_for node (\<lambda>i. owns_item (envelopes (mb_events bus)) node (ai_session i') i \<and>
        i \<in> set (items_of (mb_deliveries bus ch))) [ack_row env i node lease]" if "i' = i" for i' lease
      using check_ack_items_Inr [OF g(7)] that by (simp add: ack_row_items list_all_iff)
    show ?thesis
    proof (cases "node_lease_state (mb_nodes bus) node (ai_now i)")
      case (Inl e)
      then show ?thesis using False ack_guarded_step [OF g] by simp
    next
      case (Inr lease)
      let ?t = "transact (mail_contract env [''ack_receipt'']) (mb_acks bus ch) (decide_ack (ack_row env i node lease) i)"
      have step: "ack_already_guarded env i node bus =
          (case ?t of Inl e \<Rightarrow> (Inl e, bus) | Inr (r, rows) \<Rightarrow> (Inr r, bus\<lparr>mb_acks := (mb_acks bus)(ch := rows)\<rparr>))"
        using ack_guarded_step [OF g] Inr by simp
      obtain result rows where t: "?t = Inr (result, rows)" using False step by (cases ?t) auto
      obtain candidate where c: "decide_ack (ack_row env i node lease) i (mb_acks bus ch) = Inr (result, candidate)"
          "candidate = None \<and> rows = mb_acks bus ch \<or>
           (\<exists>r. candidate = Some r \<and> append_record (mail_contract env [''ack_receipt'']) (mb_acks bus ch) r = Inr rows)"
        using t unfolding transact_Inr_iff by blast
      from decide_ack_cases [OF c(1)] show ?thesis
      proof
        assume old: "candidate = None \<and> result \<in> set (mb_acks bus ch) \<and> texts_at result ''item_ids'' = ai_items i"
        then have "set (ai_items i) \<subseteq> set (items_of (mb_acks bus ch))" by (auto simp: items_of_def)
        then show ?thesis using old c(2) step t g(1,3) by (auto intro: mail_writes_intros(1))
      next
        assume "candidate = Some (ack_row env i node lease)"
        then have ap: "append_record (mail_contract env [''ack_receipt'']) (mb_acks bus ch) (ack_row env i node lease) = Inr rows"
          using c(2) by simp
        have "rows = mb_acks bus ch @ [ack_row env i node lease]"
          by (rule append_canonical(1) [OF ap ack_row_items(3)])
        then show ?thesis
          using write_ack [OF g(3,1) assms(2) ap ack_row_items(3) row] step t g(1,3)
          by (auto simp: ack_row_items intro: mail_writes_intros(2))
      qed
    qed
  qed
  then show "mail_writes env S bus (snd (ack_already_guarded env i node bus))"
    and "ack_already_guarded env i node bus = (Inr r, bus') \<Longrightarrow>
      is_identifier node \<and> (\<exists>ch. channel_for env node (ai_session i) = Inr ch \<and>
        set (ai_items i) \<subseteq> set (items_of (mb_acks bus' ch)))" by blast+
qed

section \<open>Denials\<close>

lemma deny_writes: "mail_writes env S bus (snd (deny env at attempt sender recipient reason bus))"
  by (auto simp: deny_def split: sum.split intro: mail_writes_intros(1) mail_writes_intros(2) [OF write_outside])

lemma deny_refuses: "deny env at attempt sender recipient reason bus \<noteq> (Inr x, bus')"
  by (simp add: deny_def split: sum.split)

section \<open>Sending\<close>

text \<open>What a checked send may rely on when it is committed: a repeated one answers with a message that is
  in the ledger under its key.\<close>

definition reply_known :: "json list \<Rightarrow> json \<Rightarrow> bool" where
  "reply_known events envelope \<longleftrightarrow>
     member_of envelope ''reply_to'' = JNull \<or>
     (\<exists>original \<in> set (envelopes events). record_key original = text_at envelope ''reply_to'' \<and>
        member_of original ''sender'' = member_of envelope ''recipient'' \<and>
        member_of original ''recipient'' = member_of envelope ''sender'')"

definition plan_sound :: "json list \<Rightarrow> send_input \<Rightarrow> send_plan \<Rightarrow> bool" where
  "plan_sound events i plan \<longleftrightarrow>
     (case plan of
        Repeated receipt \<Rightarrow>
          sr_message receipt \<in> set (envelopes events) \<and>
          (\<exists>key. send_key i = Inr key \<and> member_of (sr_message receipt) ''idempotency_key'' = JStr key)
      | Proposed sender recipient key envelope dclaim lease \<Rightarrow>
          send_key i = Inr key \<and> canon envelope = envelope \<and> is_kind ''message_envelope'' envelope \<and>
          member_of envelope ''idempotency_key'' = JStr key \<and> reply_known events envelope \<and>
          (case dclaim of
             None \<Rightarrow> True
           | Some c \<Rightarrow> canon c = c \<and> is_kind ''delivery_claim'' c \<and> text_at c ''note_ref'' = record_key envelope \<and>
               member_of c ''sha'' = member_of envelope ''sha''))"

lemma plan_sound_append: "plan_sound events i plan \<Longrightarrow> plan_sound (events @ new) i plan"
  by (auto simp: plan_sound_def reply_known_def split: send_plan.splits)

lemma record_key_text: "record_key r = text_at r ''id''"
  by (simp add: record_key_def record_id_def text_at_def member_of_def split: json.split)

lemma envelope_row_members:
  "member_of (envelope_row env i sender recipient key) ''kind'' = JStr ''message_envelope''"
  "member_of (envelope_row env i sender recipient key) ''idempotency_key'' = JStr key"
  "member_of (envelope_row env i sender recipient key) ''sender'' = JStr sender"
  "member_of (envelope_row env i sender recipient key) ''recipient'' = JStr recipient"
  "member_of (envelope_row env i sender recipient key) ''sha'' = JStr (si_sha i)"
  "member_of (envelope_row env i sender recipient key) ''reply_to'' =
     (case si_reply_to i of None \<Rightarrow> JNull | Some r \<Rightarrow> JStr r)"
  unfolding envelope_row_def Let_def member_of_row_of
  by (simp_all add: get_member_def split: option.split)

lemma delivery_claim_row_Inr:
  assumes "delivery_claim_row env at dclaim eid sha = Inr row"
  shows "canon row = row" "is_kind ''delivery_claim'' row" "text_at row ''note_ref'' = eid"
    "member_of row ''sha'' = JStr sha"
proof -
  obtain c where c: "dclaim = JObj c" "get_member c ''sha'' = JStr sha"
      "validate_row (mail_contract env [''delivery_claim'']) False row = Inr ()"
    using assms
    by (auto simp: delivery_claim_row_def Let_def bindR_Inr_iff simp del: mail_contract_simps
        split: json.splits if_splits)
  show "is_kind ''delivery_claim'' row" using mail_row_kind [OF c(3)] by simp
  have row: "row = row_of
       [(''schema_version'', get_member c ''schema_version''),
        (''id'', JStr (''delivery-claim-'' @ sp_uuid at)),
        (''tenant_id'', JStr (me_tenant env)), (''timestamp'', JStr (sp_time at)),
        (''kind'', get_member c ''kind''), (''sha'', get_member c ''sha''),
        (''repo_path'', get_member c ''repo_path''), (''bank'', get_member c ''bank''),
        (''declared'', get_member c ''declared''), (''artifacts'', get_member c ''artifacts''),
        (''note_ref'', JStr eid), (''deadline_seconds'', get_member c ''deadline_seconds'')]"
    using assms
    by (simp add: delivery_claim_row_def Let_def bindR_Inr_iff c(1) del: mail_contract_simps split: if_splits)
  show "canon row = row" unfolding row by (rule canon_row_of)
  show "text_at row ''note_ref'' = eid"
    unfolding row text_at_def member_of_row_of by (simp add: get_member_def)
  show "member_of row ''sha'' = JStr sha"
    unfolding row member_of_row_of by (simp add: get_member_def c(2) [unfolded get_member_def])
qed

lemma check_reply_Inr:
  assumes "check_reply env i sender recipient events bus = (Inr (), bus')"
    and "\<forall>r \<in> set events. member_of r ''id'' = JStr (record_key r)"
  shows "reply_known events (envelope_row env i sender recipient key)"
proof (cases "si_reply_to i")
  case None
  then show ?thesis by (simp add: reply_known_def envelope_row_members)
next
  case (Some reply)
  then obtain original where o: "find (\<lambda>r. member_of r ''id'' = JStr reply) events = Some original"
      "is_kind ''message_envelope'' original" "member_of original ''sender'' = JStr recipient"
      "member_of original ''recipient'' = JStr sender"
    using assms(1) by (auto simp: check_reply_def readA_def deny_refuses split: option.splits if_splits)
  have "original \<in> set events" "member_of original ''id'' = JStr reply"
    using o(1) by (auto simp: find_Some_iff)
  then have "original \<in> set (envelopes events)" "record_key original = reply"
    using assms(2) o(2) by (auto simp: envelopes_def)
  with o(3,4) Some show ?thesis
    by (auto simp: reply_known_def envelope_row_members text_at_def)
qed

lemma check_reply_writes:
  "mail_writes env S bus (snd (check_reply env i sender recipient events bus))"
  by (auto simp: check_reply_def readA_def deny_writes mail_writes_intros(1) split: option.split)

lemma prior_send_None:
  assumes "prior_send rows key = None"
  shows "JStr key \<notin> set (message_keys rows)"
  using assms by (auto simp: prior_send_def find_None_iff message_keys_def envelopes_def)

lemma prior_send_Some:
  assumes "prior_send rows key = Some r"
  shows "r \<in> set (envelopes rows) \<and> member_of r ''idempotency_key'' = JStr key"
  using assms by (auto simp: prior_send_def find_Some_iff envelopes_def)

lemma plan_send_cases:
  assumes "plan_send env i s r k events e d bus = Inr plan"
  shows "(\<exists>lease. plan = Proposed s r k e d lease) \<or>
    (\<exists>receipt. plan = Repeated receipt \<and> prior_send events k = Some (sr_message receipt))"
  using assms by (auto simp: plan_send_def Let_def bindR_Inr_iff receipt_for_def split: option.splits if_splits)

lemma send_check_plan:
  assumes "send_check env i bus = (Inr plan, bus')" and "events_inv env (mb_events bus)"
  shows "plan_sound (mb_events bus) i plan"
proof -
  have read: "event_records env bus = Inr (mb_events bus)" by (rule events_inv_read(1) [OF assms(2)])
  obtain s r k t e d where c: "send_key i = Inr k" "check_reply env i s r (mb_events bus) bus = (Inr (), t)"
      "propose_rows env i s r k = Inr (e, d)" "plan_send env i s r k (mb_events bus) e d t = Inr plan"
    using assms(1) read
    by (auto simp: send_check_def bindA_Inr_iff readA_def simp del: bindA_readA)
  show ?thesis
  proof (cases "\<exists>receipt. plan = Repeated receipt")
    case True
    then show ?thesis using plan_send_cases [OF c(4)] c(1) by (auto simp: plan_sound_def prior_send_Some)
  next
    case False
    then obtain lease where plan: "plan = Proposed s r k e d lease" using plan_send_cases [OF c(4)] by blast
    have rows: "e = envelope_row env i s r k"
        "d = None \<or> (\<exists>claim row. d = Some row \<and>
           delivery_claim_row env (si_claim_at i) claim (text_at e ''id'') (si_sha i) = Inr row)"
      using c(3)
      by (auto simp: propose_rows_def Let_def bindR_Inr_iff simp del: mail_contract_simps split: option.splits)
    have "reply_known (mb_events bus) e"
      unfolding rows(1) by (rule check_reply_Inr [OF c(2)]) (use events_inv_id [OF assms(2)] in blast)
    moreover have "canon e = e" unfolding rows(1) envelope_row_def Let_def by (rule canon_row_of)
    ultimately show ?thesis
      using rows c(1)
      by (auto simp: plan plan_sound_def is_kind_member envelope_row_members record_key_text
          delivery_claim_row_Inr [unfolded is_kind_member])
  qed
qed

lemma send_check_writes: "mail_writes env S bus (snd (send_check env i bus))"
proof -
  have "mail_writes env S bus
      (snd (bindA (check_reply env i sender recipient events)
        (\<lambda>_. bindA (readA (\<lambda>_. propose_rows env i sender recipient key))
           (\<lambda>(envelope, dclaim). readA (plan_send env i sender recipient key events envelope dclaim))) bus))"
    for sender recipient key events
    using check_reply_writes [of env S bus i sender recipient events]
    by (auto simp: bindA_snd split: sum.split prod.split)
  then show ?thesis
    by (auto simp: send_check_def intro: mail_writes_intros(1) split: sum.split)
qed

text \<open>The rows of a checked plan replay after the ledger.\<close>

lemma plan_replays:
  assumes "events_inv env rows" "plan_sound rows i (Proposed sender recipient key envelope dclaim lease)"
    and "replay event_step empty_scan rows = Inr s"
  shows "\<exists>t. replay event_step s (envelope # (case dclaim of None \<Rightarrow> [] | Some c \<Rightarrow> [c])) = Inr t"
proof -
  note f = events_inv_facts [OF assms(1)]
  have prior: "map_of (es_prior s) = event_by_id (envelopes rows)"
    using scan_state [OF f(5,1) assms(3)] event_by_id_keyed [OF distinct_envelopes [OF f(1)]] by simp
  let ?t = "s\<lparr>es_index := es_index s + 1, es_prior := AList.update (record_key envelope) envelope (es_prior s)\<rparr>"
  have p: "is_kind ''message_envelope'' envelope" "reply_known rows envelope"
      "\<And>c. dclaim = Some c \<Longrightarrow> is_kind ''delivery_claim'' c \<and> text_at c ''note_ref'' = record_key envelope \<and>
         member_of c ''sha'' = member_of envelope ''sha''"
    using assms(2) by (auto simp: plan_sound_def)
  have step: "event_step s envelope = Inr ?t"
    using p(2) event_by_id_Some [OF distinct_envelopes [OF f(1)]]
    by (auto simp: event_step_envelope [OF p(1)] reply_known_def prior)
  have "\<exists>u. event_step ?t c = Inr u" if "dclaim = Some c" for c
    using p(3) [OF that] by (simp add: event_step_claim)
  then show ?thesis using step by (auto simp: bindR_Inr_iff split: option.split)
qed

lemma decide_send_cases:
  assumes "decide_send key envelope dclaim rows = Inr (result, batch)"
  shows "batch = [] \<and> prior_send rows key = Some (fst result) \<or>
    prior_send rows key = None \<and> fst result = envelope \<and>
    batch = envelope # (case dclaim of None \<Rightarrow> [] | Some c \<Rightarrow> [c])"
  using assms by (auto simp: decide_send_def bindR_Inr_iff split: option.splits if_splits)

lemma send_commit_sound:
  assumes "mail_sound env S bus" "plan_sound (mb_events bus) i plan"
  shows "mail_writes env S bus (snd (send_commit env i plan bus))"
    and "send_commit env i plan bus = (Inr receipt, bus') \<Longrightarrow> send_key i = Inr key \<Longrightarrow>
      sr_message receipt \<in> set (envelopes (mb_events bus')) \<and>
      member_of (sr_message receipt) ''idempotency_key'' = JStr key"
proof -
  have "mail_writes env S bus (snd (send_commit env i plan bus)) \<and>
    (\<forall>key receipt bus'. send_commit env i plan bus = (Inr receipt, bus') \<longrightarrow> send_key i = Inr key \<longrightarrow>
      sr_message receipt \<in> set (envelopes (mb_events bus')) \<and>
      member_of (sr_message receipt) ''idempotency_key'' = JStr key)"
  proof (cases plan)
    case (Repeated receipt)
    then show ?thesis using assms(2) by (auto simp: send_commit_def plan_sound_def mail_writes_intros(1))
  next
    case (Proposed sender recipient key envelope dclaim lease)
    let ?t = "transact_known (mail_contract env EVENT_KINDS) (me_tenant env) (mb_events bus)
      (decide_send key envelope dclaim)"
    show ?thesis
    proof (cases ?t)
      case (Inl e)
      then show ?thesis
        by (auto simp: send_commit_def Proposed deny_writes deny_refuses intro: mail_writes_intros(1))
    next
      case (Inr p)
      obtain result rows where p: "p = (result, rows)" by (cases p)
      note sound = mail_soundD [OF assms(1)]
      obtain batch where b: "decide_send key envelope dclaim (mb_events bus) = Inr (result, batch)"
          "append_batch (mail_contract env EVENT_KINDS) (mb_events bus) (mb_events bus) batch = Inr rows"
        using Inr events_inv_read(2) [OF sound(1)] unfolding p transact_known_Inr by auto
      have eq: "send_commit env i (Proposed sender recipient key envelope dclaim lease) bus =
          (Inr (receipt_for (fst result) (snd result) lease (sp_time (si_at i))), bus\<lparr>mb_events := rows\<rparr>)"
        by (simp add: send_commit_def Inr p split: prod.split)
      note ok = assms(2) [unfolded Proposed plan_sound_def, simplified]
      from decide_send_cases [OF b(1)] show ?thesis
      proof
        assume old: "batch = [] \<and> prior_send (mb_events bus) key = Some (fst result)"
        then have "rows = mb_events bus" using b(2) by (simp add: append_batch_Inr)
        then show ?thesis
          using old ok prior_send_Some [of "mb_events bus" key "fst result"]
          by (simp add: eq Proposed receipt_for_def mail_writes_intros(1))
      next
        assume new: "prior_send (mb_events bus) key = None \<and> fst result = envelope \<and>
          batch = envelope # (case dclaim of None \<Rightarrow> [] | Some c \<Rightarrow> [c])"
        have "rows = mb_events bus @ batch" by (rule append_batch_extends [OF b(2)])
        moreover have plain: "\<forall>r \<in> set batch. canon r = r \<and> \<not> is_kind ''bus_epoch_roll_receipt'' r"
          using new ok by (auto simp: is_kind_unique split: option.splits)
        moreover have "message_keys batch = [JStr key]"
          using new ok by (auto simp: message_keys_def envelopes_def is_kind_unique split: option.splits)
        then have "distinct (message_keys (mb_events bus @ batch))"
          using sound(2) prior_send_None new by simp
        ultimately have "mail_write env S bus (bus\<lparr>mb_events := rows\<rparr>)"
          using plan_replays [OF sound(1) assms(2) [unfolded Proposed]] new
          by (intro write_events [OF b(2)]) auto
        then show ?thesis
          using new ok \<open>rows = mb_events bus @ batch\<close>
          by (auto simp: eq Proposed receipt_for_def envelopes_def intro: mail_writes_intros(2))
      qed
    qed
  qed
  then show "mail_writes env S bus (snd (send_commit env i plan bus))"
    and "send_commit env i plan bus = (Inr receipt, bus') \<Longrightarrow> send_key i = Inr key \<Longrightarrow>
      sr_message receipt \<in> set (envelopes (mb_events bus')) \<and>
      member_of (sr_message receipt) ''idempotency_key'' = JStr key" by blast+
qed

section \<open>Retracting\<close>

lemma retraction_names_text:
  assumes "events_inv env rows" "r \<in> set rows" "is_kind ''message_retracted'' r"
  shows "member_of r ''retracted_message_id'' = JStr (text_at r ''retracted_message_id'')"
proof -
  obtain x where x: "validate_record (mail_specs (me_sha256 env)) (me_tenant env) EVENT_KINDS True r = Inr x"
    using assms(1,2) by (auto simp: events_inv_def readable_def bindR_Inr_iff)
  obtain ms where ms: "r = JObj ms" using validate_record_object [OF x] by blast
  obtain kind row where k: "get_member ms ''kind'' = JStr kind" "ks_body (the (mail_specs (me_sha256 env) kind)) True row = Inr ()"
      "\<forall>k. k \<notin> set chain_fields \<longrightarrow> get_member row k = get_member ms k"
    using validate_record_kind [OF x [unfolded ms]] by blast
  have "kind = ''message_retracted''" using assms(3) k(1) by (simp add: is_kind_def record_kind_def ms)
  then have "check_record_ref ''msg-'' ''retracted_message_id'' True row = Inr ()"
    using k(2)
    by (simp add: mail_specs_def SPECS_def governed_kinds_def message_retracted_spec_def
        message_retracted_body_def bindR_Inr_iff)
  then obtain s where "get_member row ''retracted_message_id'' = JStr s"
    by (auto simp: check_record_ref_def text_field_Inr_iff)
  then have "get_member ms ''retracted_message_id'' = JStr s"
    using k(3) by (simp add: chain_fields_def)
  then show ?thesis by (simp add: member_of_def text_at_def ms)
qed

lemma retraction_row_members:
  "member_of (retraction_row env i) ''kind'' = JStr ''message_retracted''"
  "member_of (retraction_row env i) ''retracted_message_id'' = JStr (ri_message i)"
  "member_of (retraction_row env i) ''worker_session_id'' = JStr (ri_session i)"
  "member_of (retraction_row env i) ''author'' = JStr (ri_author i)"
  unfolding retraction_row_def member_of_row_of by (simp_all add: get_member_def)

lemma retraction_replays:
  assumes "events_inv env rows" "decide_retract env i rows = Inr (result, batch)" "batch \<noteq> []"
    and "replay event_step empty_scan rows = Inr s"
  shows "batch = [retraction_row env i] \<and> (\<exists>t. replay event_step s batch = Inr t)"
proof -
  note f = events_inv_facts [OF assms(1)]
  obtain original where o: "batch = [retraction_row env i]"
      "find (\<lambda>r. is_kind ''message_retracted'' r \<and> member_of r ''retracted_message_id'' = JStr (ri_message i)) rows = None"
      "event_by_id (envelopes rows) (ri_message i) = Some original"
      "member_of original ''worker_session_id'' = JStr (ri_session i)"
      "JStr (ri_author i) \<in> {member_of original ''sender'', member_of original ''recipient''}"
    using assms(2,3) by (auto simp: decide_retract_def bindR_Inr_iff split: option.splits if_splits)
  have state: "map_of (es_prior s) = event_by_id (envelopes rows)" "set (es_retracted s) = set (retracted_ids rows)"
    using scan_state [OF f(5,1) assms(4)] event_by_id_keyed [OF distinct_envelopes [OF f(1)]] by simp_all
  have "ri_message i \<notin> set (retracted_ids rows)"
    using o(2) retraction_names_text [OF assms(1)] by (fastforce simp: retracted_ids_def find_None_iff)
  moreover have "is_kind ''message_retracted'' (retraction_row env i)"
    by (simp add: is_kind_member retraction_row_members)
  moreover have "text_at (retraction_row env i) ''retracted_message_id'' = ri_message i"
    by (simp add: text_at_def retraction_row_members)
  ultimately have "event_step s (retraction_row env i) =
      Inr (s\<lparr>es_index := es_index s + 1, es_retracted := ri_message i # es_retracted s\<rparr>)"
    using o state by (auto simp: event_step_retraction retraction_row_members)
  then show ?thesis using o(1) by simp
qed

lemma retract_guarded_writes:
  assumes "mail_sound env S bus"
  shows "mail_writes env S bus (snd (retract_already_guarded env i bus))"
proof -
  note sound = mail_soundD [OF assms]
  let ?t = "transact_known (mail_contract env EVENT_KINDS) (me_tenant env) (mb_events bus) (decide_retract env i)"
  let ?v = "validate_row (mail_contract env [''message_retracted'']) False (retraction_row env i)"
  have "mail_writes env S bus (bus\<lparr>mb_events := rows\<rparr>)" if t: "?t = Inr (result, rows)" for result rows
  proof -
    obtain batch where b: "decide_retract env i (mb_events bus) = Inr (result, batch)"
        "append_batch (mail_contract env EVENT_KINDS) (mb_events bus) (mb_events bus) batch = Inr rows"
      using t events_inv_read(2) [OF sound(1)] unfolding transact_known_Inr by auto
    show ?thesis
    proof (cases "batch = []")
      case True
      then have "rows = mb_events bus" using b(2) by (simp add: append_batch_Inr)
      then show ?thesis by (simp add: mail_writes_intros(1))
    next
      case False
      note rp = retraction_replays [OF sound(1) b(1) False]
      obtain s where "replay event_step empty_scan (mb_events bus) = Inr s"
        using events_inv_facts(4) [OF sound(1)] by (auto simp: validate_event_records_def bindR_Inr_iff)
      with rp have row: "batch = [retraction_row env i]" by blast
      have kind: "is_kind ''message_retracted'' (retraction_row env i)"
        by (simp add: is_kind_member retraction_row_members)
      have "canon (retraction_row env i) = retraction_row env i"
        unfolding retraction_row_def by (rule canon_row_of)
      then have "\<forall>r \<in> set batch. canon r = r \<and> \<not> is_kind ''bus_epoch_roll_receipt'' r"
        using kind by (simp add: row is_kind_unique)
      moreover have "distinct (message_keys (mb_events bus @ batch))"
        using sound(2) kind by (simp add: row message_keys_def envelopes_def is_kind_unique)
      ultimately have "mail_write env S bus (bus\<lparr>mb_events := rows\<rparr>)"
        using rp by (intro write_events [OF b(2)]) auto
      then show ?thesis by (rule mail_writes_intros(2))
    qed
  qed
  then show ?thesis
    by (auto simp: retract_already_guarded_def bindR_Inr_iff simp del: mail_contract_simps
        intro: mail_writes_intros(1) split: sum.split)
qed

end
