(* ===== verification/Mail_History.thy ===== *)
theory Mail_History
  imports Mail_Operations Mail_Drain
begin

text \<open>
  Histories of the mail ledgers: the operations of any number of processes, interleaved.  A send reads
  before it locks, so it is two steps, and any other step may come between them; the plans that have
  been checked and not yet committed are part of the state.
\<close>

section \<open>Steps\<close>

type_synonym mail_state = "mail_bus \<times> (send_input \<times> send_plan) set"

text \<open>\<open>step_outside\<close>: registrations and leases change, other tenants' archives appear, denials are
  written and snapshot files get lost.  \<open>retract\<close> only reads before its guarded part.\<close>

inductive mail_step :: "mail_env \<Rightarrow> string set \<Rightarrow> mail_state \<Rightarrow> mail_state \<Rightarrow> bool" for env S where
  step_check:
    "send_check env i bus = (Inr plan, bus') \<Longrightarrow> mail_step env S (bus, P) (bus', insert (i, plan) P)"
| step_refused:
    "send_check env i bus = (Inl e, bus') \<Longrightarrow> mail_step env S (bus, P) (bus', P)"
| step_commit:
    "(i, plan) \<in> P \<Longrightarrow> send_commit env i plan bus = (out, bus') \<Longrightarrow>
     mail_step env S (bus, P) (bus', P - {(i, plan)})"
| step_retract:
    "retract_already_guarded env i' bus = (out', bus') \<Longrightarrow> mail_step env S (bus, P) (bus', P)"
| step_present:
    "present env j recipient bus = (presented, bus') \<Longrightarrow> session_in S (pi_session j) \<Longrightarrow>
     mail_step env S (bus, P) (bus', P)"
| step_ack:
    "ack env k recipient bus = (out', bus') \<Longrightarrow> session_in S (ai_session k) \<Longrightarrow>
     mail_step env S (bus, P) (bus', P)"
| step_drain:
    "drain env d recipient bus = (drained, bus') \<Longrightarrow> session_in S (pi_session d) \<Longrightarrow>
     mail_step env S (bus, P) (bus', P)"
| step_outside:
    "mb_events bus' = mb_events bus \<Longrightarrow> mb_deliveries bus' = mb_deliveries bus \<Longrightarrow>
     mb_acks bus' = mb_acks bus \<Longrightarrow> mb_snapshots bus' \<subseteq>\<^sub>m mb_snapshots bus \<Longrightarrow>
     mail_step env S (bus, P) (bus', P)"

definition new_bus :: "registry_row list \<Rightarrow> mail_bus" where
  "new_bus nodes =
     \<lparr>mb_nodes = nodes, mb_events = [], mb_denials = [], mb_deliveries = (\<lambda>_. []), mb_acks = (\<lambda>_. []),
      mb_archives = [], mb_snapshots = (\<lambda>_. None)\<rparr>"

definition mail_history :: "mail_env \<Rightarrow> string set \<Rightarrow> mail_state \<Rightarrow> bool" where
  "mail_history env S s \<longleftrightarrow> (\<exists>nodes. (mail_step env S)\<^sup>*\<^sup>* (new_bus nodes, {}) s)"

lemma mail_history_new: "mail_history env S (new_bus nodes, {})"
  unfolding mail_history_def by blast

lemma mail_history_step: "mail_history env S s \<Longrightarrow> mail_step env S s s' \<Longrightarrow> mail_history env S s'"
  unfolding mail_history_def by (meson rtranclp.rtrancl_into_rtrancl)

lemma mail_history_steps: "mail_history env S s \<Longrightarrow> (mail_step env S)\<^sup>*\<^sup>* s s' \<Longrightarrow> mail_history env S s'"
  unfolding mail_history_def by (meson rtranclp_trans)

section \<open>The invariant\<close>

definition state_sound :: "mail_env \<Rightarrow> string set \<Rightarrow> mail_state \<Rightarrow> bool" where
  "state_sound env S s \<longleftrightarrow>
     mail_sound env S (fst s) \<and> (\<forall>(i, plan) \<in> snd s. plan_sound (mb_events (fst s)) i plan)"

lemma new_bus_sound: "state_sound env S (new_bus nodes, {})"
proof -
  have "events_inv env []"
    by (simp add: events_inv_def validate_event_records_def)
  then have "mail_sound env S (new_bus nodes)"
    by (intro mail_soundI) (simp_all add: new_bus_def message_keys_def envelopes_def channel_sound_Nil)
  then show ?thesis by (simp add: state_sound_def)
qed

lemma bindA_writes:
  assumes "mail_writes env S s (snd (m s))"
    and "\<And>x t. m s = (Inr x, t) \<Longrightarrow> mail_writes env S t (snd (g x t))"
  shows "mail_writes env S s (snd (bindA m g s))"
proof (cases "m s")
  case (Pair out t)
  show ?thesis
  proof (cases out)
    case (Inl e)
    then show ?thesis using assms(1) Pair by (simp add: bindA_def)
  next
    case (Inr x)
    then have "bindA m g s = g x t" using Pair by (simp add: bindA_def)
    then show ?thesis
      using mail_writes_intros(3) [of env S s t "snd (g x t)"] assms(1) assms(2) [of x t] Pair Inr by simp
  qed
qed

lemma readA_writes: "mail_writes env S s (snd (readA f s))"
  by (simp add: mail_writes_intros(1))

lemma guarded_node_same: "guarded_node env field recipient session bus = (Inr node, bus') \<Longrightarrow> bus' = bus \<and> node = recipient"
  by (auto simp: guarded_node_def readA_def resolve_node_id_def validate_identifier_def
      split: sum.splits if_splits)

lemma guarded_node_writes: "mail_writes env S s (snd (guarded_node env field recipient session s))"
  by (auto simp: guarded_node_def readA_def mail_writes_intros(1) split: sum.split)

lemma present_writes:
  assumes "sessions_apart env S" "mail_sound env S bus" "session_in S (pi_session i)"
  shows "mail_writes env S bus (snd (present env i recipient bus))"
  unfolding present_def
  by (rule bindA_writes [OF guarded_node_writes])
    (use present_guarded_sound(1) [OF assms] guarded_node_same in blast)

lemma ack_writes:
  assumes "mail_sound env S bus" "session_in S (ai_session i)"
  shows "mail_writes env S bus (snd (ack env i recipient bus))"
  unfolding ack_def
  by (rule bindA_writes [OF guarded_node_writes])
    (use ack_guarded_sound(1) [OF assms] guarded_node_same in blast)

lemma truncate_session [simp]: "pi_session (present_input.truncate i) = pi_session i"
  "pi_limit (present_input.truncate i) = pi_limit i"
  by (simp_all add: present_input.truncate_def)

lemma drain_writes:
  assumes "sessions_apart env S" "mail_sound env S bus" "session_in S (pi_session i)"
  shows "mail_writes env S bus (snd (drain env i recipient bus))"
proof -
  have pr: "mail_writes env S bus (snd (present_already_guarded env (present_input.truncate i) node bus))" for node
    by (rule present_guarded_sound(1) [OF assms(1,2)]) (simp add: assms(3))
  have tail: "mail_writes env S t
      (snd (bindA (ack_already_guarded env
              \<lparr>ai_items = map record_key messages, ai_acting = acting, ai_session = pi_session i,
               ai_now = di_ack_now i, ai_at = di_ack_at i\<rparr> node)
            (\<lambda>receipt. readA (\<lambda>_. Inr (messages, delivery, Some receipt))) t))"
    if "mail_sound env S t" for messages node t acting and delivery :: "json option"
    by (rule bindA_writes [OF ack_guarded_sound(1) readA_writes]) (simp_all add: that assms(3))
  have "mail_writes env S bus
      (snd (bindA (present_already_guarded env (present_input.truncate i) node) (\<lambda>(messages, delivery).
       if messages = [] then readA (\<lambda>_. Inr ([], None, None))
       else bindA (ack_already_guarded env
              \<lparr>ai_items = map record_key messages, ai_acting = acting, ai_session = pi_session i,
               ai_now = di_ack_now i, ai_at = di_ack_at i\<rparr> node)
            (\<lambda>receipt. readA (\<lambda>_. Inr (messages, delivery, Some receipt)))) bus))" for node acting
  proof (rule bindA_writes, rule pr)
    fix x t assume "present_already_guarded env (present_input.truncate i) node bus = (Inr x, t)"
    with pr [of node] have "mail_sound env S t"
      using mail_writes_keep(1) [OF _ assms(1,2)] by simp
    from tail [OF this] show "mail_writes env S t (snd ((case x of (messages, delivery) \<Rightarrow>
       if messages = [] then readA (\<lambda>_. Inr ([], None, None))
       else bindA (ack_already_guarded env
              \<lparr>ai_items = map record_key messages, ai_acting = acting, ai_session = pi_session i,
               ai_now = di_ack_now i, ai_at = di_ack_at i\<rparr> node)
            (\<lambda>receipt. readA (\<lambda>_. Inr (messages, delivery, Some receipt)))) t))"
      by (cases x) (simp add: mail_writes_intros(1))
  qed
  then show ?thesis by (simp add: drain_def mail_writes_intros(1) split: sum.split)
qed

lemma mail_step_writes:
  assumes "sessions_apart env S" "mail_step env S s s'" "state_sound env S s"
  shows "mail_writes env S (fst s) (fst s')"
  using assms(2,3)
proof (induction rule: mail_step.induct)
  case (step_check i bus plan bus' P)
  then show ?case using send_check_writes [of env S bus i] by simp
next
  case (step_refused i bus e bus' P)
  then show ?case using send_check_writes [of env S bus i] by simp
next
  case (step_commit i plan P bus out bus')
  then have "plan_sound (mb_events bus) i plan" "mail_sound env S bus" by (auto simp: state_sound_def)
  from send_commit_sound(1) [OF this(2,1)] show ?case using step_commit by simp
next
  case (step_retract i bus out bus' P)
  then show ?case using retract_guarded_writes [of env S bus i] by (simp add: state_sound_def)
next
  case (step_present j recipient bus presented bus' P)
  then show ?case using present_writes [OF assms(1), of bus j recipient] by (simp add: state_sound_def)
next
  case (step_ack k recipient bus out bus' P)
  then show ?case using ack_writes [of env S bus k recipient] by (simp add: state_sound_def)
next
  case (step_drain d recipient bus drained bus' P)
  then show ?case using drain_writes [OF assms(1), of bus d recipient] by (simp add: state_sound_def)
next
  case (step_outside bus' bus P)
  then show ?case by (simp add: mail_writes_intros(2) [OF write_outside])
qed

lemma mail_step_plans:
  assumes "mail_step env S s s'" "state_sound env S s" "p \<in> snd s'"
  shows "plan_sound (mb_events (fst s)) (fst p) (snd p)"
  using assms
proof (induction rule: mail_step.induct)
  case (step_check i bus plan bus' P)
  have "plan_sound (mb_events bus) i plan"
    using send_check_plan step_check by (auto simp: state_sound_def dest: mail_soundD(1))
  then show ?case using step_check.prems by (auto simp: state_sound_def)
qed (auto simp: state_sound_def)

lemma mail_step_sound:
  assumes "sessions_apart env S" "mail_step env S s s'" "state_sound env S s"
  shows "state_sound env S s'" "mail_grows (fst s) (fst s')"
proof -
  note w = mail_writes_keep [OF mail_step_writes [OF assms]]
  show grows: "mail_grows (fst s) (fst s')" by (rule w(2))
  have "plan_sound (mb_events (fst s')) (fst p) (snd p)" if "p \<in> snd s'" for p
    using mail_step_plans [OF assms(2,3) that] plan_sound_append grows by (auto simp: mail_grows_def)
  then show "state_sound env S s'"
    using w(1) assms(1,3) by (auto simp: state_sound_def)
qed

lemma mail_steps_sound:
  assumes "sessions_apart env S" "(mail_step env S)\<^sup>*\<^sup>* s s'" "state_sound env S s"
  shows "state_sound env S s' \<and> mail_grows (fst s) (fst s')"
  using assms(2,3)
proof (induction rule: rtranclp_induct)
  case base
  then show ?case by (simp add: mail_grows_refl)
next
  case (step t u)
  then show ?case using mail_step_sound [OF assms(1) step.hyps(2)] mail_grows_trans by blast
qed

lemma mail_history_sound:
  assumes "mail_history env S s" "sessions_apart env S"
  shows "state_sound env S s"
  using assms mail_steps_sound new_bus_sound unfolding mail_history_def by blast

end
