(* ===== verification/Mail_Properties.thy ===== *)
theory Mail_Properties
  imports Mail_History
begin

text \<open>
  The properties of the mail ledgers over every history.
\<close>

lemma history_sound:
  assumes "mail_history env S (bus, P)" "sessions_apart env S"
  shows "mail_sound env S bus" "(i, plan) \<in> P \<Longrightarrow> plan_sound (mb_events bus) i plan"
  using mail_history_sound [OF assms] by (auto simp: state_sound_def)

lemma present_Inr:
  assumes "present env i node bus = (Inr (messages, d), bus')"
  shows "present_already_guarded env i node bus = (Inr (messages, d), bus')"
  using assms by (auto simp: present_def bindA_Inr_iff dest: guarded_node_same)

lemma ack_Inr:
  assumes "ack env i node bus = (Inr r, bus')"
  shows "ack_already_guarded env i node bus = (Inr r, bus')"
  using assms by (auto simp: ack_def bindA_Inr_iff dest: guarded_node_same)

lemma acked_grows:
  assumes "(mail_step env S)\<^sup>*\<^sup>* (bus, P) (bus', P')" "mail_history env S (bus, P)" "sessions_apart env S"
  shows "set (items_of (mb_acks bus ch)) \<subseteq> set (items_of (mb_acks bus' ch))"
  using mail_steps_sound [OF assms(3,1) mail_history_sound [OF assms(2,3)]] mail_growsD(3) by fastforce

lemma acked_not_presented:
  assumes "mail_sound env S bus" "sessions_apart env S" "session_in S (pi_session i)"
    and "present_already_guarded env i node bus = (Inr (messages, d), bus')"
    and "channel_for env node (pi_session i) = Inr ch" "items \<subseteq> set (items_of (mb_acks bus ch))"
  shows "record_key ` set messages \<inter> items = {}"
  using present_guarded_sound(2) [OF assms(2,1,3,4)] assms(5,6)
  by (auto simp: inbox_matching_def dest!: in_set_takeD)

section \<open>Every reader succeeds\<close>

text \<open>C1: whatever operations have run, in whatever order, the event ledger reads and replays, and
  for every node and session in use the delivery and acknowledgment ledgers read, every delivered
  item is an event addressed to that node and session, and every acknowledged item was delivered.\<close>

theorem mail_always_reads:
  assumes "mail_history env S (bus, P)" "sessions_apart env S"
    and "is_identifier node" "session_in S session" "channel_for env node session = Inr ch"
  shows "event_records env bus = Inr (mb_events bus) \<and>
    state_for env bus (envelopes (mb_events bus)) node session =
      Inr (items_of (mb_deliveries bus ch), items_of (mb_acks bus ch)) \<and>
    (\<forall>i \<in> set (items_of (mb_deliveries bus ch)). owns_item (envelopes (mb_events bus)) node session i) \<and>
    set (items_of (mb_acks bus ch)) \<subseteq> set (items_of (mb_deliveries bus ch))"
proof -
  note sound = mail_soundD [OF history_sound(1) [OF assms(1,2)]]
  note channel = sound(3) [OF assms(3-5)]
  show ?thesis
    using events_inv_read(1) [OF sound(1)] state_for_sound(2) [OF channel assms(5,3)] channel
    by (auto simp: channel_sound_def receipts_for_def)
qed

section \<open>The inbox\<close>

text \<open>C8: the inbox of a node and session is always found, and it is the first \<open>limit\<close> events
  addressed to them that are neither retracted nor acknowledged, in the order of the ledger, whether
  it comes from the snapshot and the rows after it or from a scan of the whole ledger.\<close>

theorem inbox_is_exact:
  assumes "mail_history env S (bus, P)" "sessions_apart env S"
    and "is_identifier node" "session_in S (pi_session i)" "1 \<le> pi_limit i"
    and "acked_ids env bus node (pi_session i) = Inr acked"
  shows "fst (inbox_messages env i node bus) =
    Inr (take (nat (pi_limit i)) (inbox_matching (mb_events bus) node (pi_session i) acked))"
proof -
  note sound = history_sound(1) [OF assms(1,2)]
  obtain ch where ch: "channel_for env node (pi_session i) = Inr ch"
    using assms(6) by (auto simp: acked_ids_def state_for_def bindR_Inr_iff validate_identifier_def split: if_splits)
  have "acked_ids env bus node (pi_session i) = Inr (items_of (mb_acks bus ch))"
    using events_inv_read(1) [OF mail_soundD(1) [OF sound]]
      state_for_sound(2) [OF mail_soundD(3) [OF sound assms(3,4) ch] ch assms(3)]
    by (simp add: acked_ids_def)
  with assms(6) inbox_messages_sound [OF sound assms(3,4) ch assms(5)] show ?thesis by auto
qed

text \<open>C7: an item that has been acknowledged is never presented again to the same node and session,
  whatever runs in between.\<close>

theorem acked_never_presented:
  assumes "mail_history env S (bus, P)" "sessions_apart env S" "session_in S (ai_session i)"
    and "ack env i node bus = (Inr receipt, bus1)"
    and "(mail_step env S)\<^sup>*\<^sup>* (bus1, P) (bus2, P2)"
    and "pi_session j = ai_session i" "present env j node bus2 = (Inr (messages, delivery), bus3)"
  shows "record_key ` set messages \<inter> set (ai_items i) = {}"
proof -
  have h1: "mail_history env S (bus1, P)"
    by (rule mail_history_step [OF assms(1) step_ack [OF assms(4,3)]])
  obtain ch where ch: "channel_for env node (ai_session i) = Inr ch"
      "set (ai_items i) \<subseteq> set (items_of (mb_acks bus1 ch))"
    using ack_guarded_sound(2) [OF history_sound(1) [OF assms(1,2)] assms(3) ack_Inr [OF assms(4)]] by blast
  have "set (ai_items i) \<subseteq> set (items_of (mb_acks bus2 ch))"
    using acked_grows [OF assms(5) h1 assms(2)] ch(2) by blast
  then show ?thesis
    using acked_not_presented [OF history_sound(1) [OF mail_history_steps [OF h1 assms(5)] assms(2)] assms(2)
        _ present_Inr [OF assms(7)]] ch(1) assms(3,6) by simp
qed

section \<open>Sending\<close>

text \<open>C6: two sends under one idempotency key that both succeed return the same message, and it is
  in the ledger: a resend that finds its first attempt when it checks, a resend that finds it only
  under the lock of the ledger, and two sends racing each other, with anything else in between.\<close>

theorem key_names_one_message:
  assumes "mail_history env S (bus, P)" "sessions_apart env S"
    and "(i, plan) \<in> P" "send_key i = Inr key" "send_commit env i plan bus = (Inr first, bus1)"
    and "(mail_step env S)\<^sup>*\<^sup>* (bus1, P - {(i, plan)}) (bus2, P2)"
    and "(j, plan') \<in> P2" "send_key j = Inr key" "send_commit env j plan' bus2 = (Inr second, bus3)"
  shows "sr_message second = sr_message first \<and> sr_message first \<in> set (envelopes (mb_events bus3)) \<and>
    member_of (sr_message first) ''idempotency_key'' = JStr key"
proof -
  have h1: "mail_history env S (bus1, P - {(i, plan)})"
    by (rule mail_history_step [OF assms(1) step_commit [OF assms(3,5)]])
  have h2: "mail_history env S (bus2, P2)" by (rule mail_history_steps [OF h1 assms(6)])
  note sent1 = send_commit_sound(2) [OF history_sound(1) [OF assms(1,2)] history_sound(2) [OF assms(1,2,3)] assms(5,4)]
  note sent2 = send_commit_sound [OF history_sound(1) [OF h2 assms(2)] history_sound(2) [OF h2 assms(2,7)]]
  note second = sent2(2) [OF assms(9,8)]
  have "mail_grows bus1 bus2"
    using mail_steps_sound [OF assms(2,6) mail_history_sound [OF h1 assms(2)]] by simp
  moreover have "mail_grows bus2 bus3"
    using mail_writes_keep(2) [OF sent2(1)] assms(9) by simp
  ultimately obtain new where "mb_events bus3 = mb_events bus1 @ new"
    using mail_grows_trans unfolding mail_grows_def by blast
  then have first: "sr_message first \<in> set (envelopes (mb_events bus3))" using sent1 by simp
  have "distinct (message_keys (mb_events bus3))"
    using history_sound(1) [OF mail_history_step [OF h2 step_commit [OF assms(7,9)]] assms(2)]
    by (rule mail_soundD(2))
  then have "inj_on (\<lambda>m. member_of m ''idempotency_key'') (set (envelopes (mb_events bus3)))"
    by (simp add: message_keys_def distinct_map)
  then show ?thesis using first sent1 second by (metis (no_types, lifting) inj_onD)
qed

section \<open>Draining\<close>

text \<open>What one round of draining does on sound ledgers.\<close>

lemma drain_round:
  assumes "mail_sound env S bus" "sessions_apart env S" "session_in S (pi_session i)"
    and "drain env i node bus = (Inr (messages, d, a), bus')"
  shows "\<exists>ch. is_identifier node \<and> channel_for env node (pi_session i) = Inr ch \<and> mail_sound env S bus' \<and>
    mb_events bus' = mb_events bus \<and> set (items_of (mb_acks bus ch)) \<subseteq> set (items_of (mb_acks bus' ch)) \<and>
    messages = take (nat (pi_limit i))
      (inbox_matching (mb_events bus) node (pi_session i) (items_of (mb_acks bus ch))) \<and>
    record_key ` set messages \<subseteq> set (items_of (mb_acks bus' ch)) \<and> (messages \<noteq> [] \<longrightarrow> a \<noteq> None)"
proof -
  have w: "mail_writes env S bus bus'" using drain_writes [OF assms(2,1,3), of node] assms(4) by simp
  note keep = mail_writes_keep(1) [OF w assms(2,1)] mail_growsD(3) [OF mail_writes_keep(2) [OF w]]
  have ses: "session_in S (pi_session (present_input.truncate i))" using assms(3) by simp
  note ev = drain_batch [OF assms(4), THEN conjunct1]
  from assms(4) show ?thesis
  proof (cases rule: drain_InrE)
    case (empty d')
    from present_guarded_sound(2) [OF assms(2,1) ses empty(3)] obtain ch where
        "is_identifier node" "channel_for env node (pi_session i) = Inr ch"
        "[] = take (nat (pi_limit i)) (inbox_matching (mb_events bus) node (pi_session i) (items_of (mb_acks bus ch)))"
      unfolding truncate_session by blast
    then show ?thesis using keep ev empty(1) by (intro exI [of _ ch]) simp
  next
    case (batch d' r t)
    from present_guarded_sound(2) [OF assms(2,1) ses batch(4)] obtain ch where ch:
        "is_identifier node" "channel_for env node (pi_session i) = Inr ch"
        "messages = take (nat (pi_limit i)) (inbox_matching (mb_events bus) node (pi_session i) (items_of (mb_acks bus ch)))"
      unfolding truncate_session by blast
    have "mail_sound env S t"
      using mail_writes_keep(1) [OF present_guarded_sound(1) [OF assms(2,1) ses] assms(2,1), of node] batch(4) by simp
    from ack_guarded_sound(2) [OF this _ batch(5)] ch(2) assms(3)
    have "record_key ` set messages \<subseteq> set (items_of (mb_acks bus' ch))" by auto
    then show ?thesis using keep ev ch batch(1,3) by (intro exI [of _ ch]) simp
  qed
qed

text \<open>The loop never meets a message twice, so it ends with an error of one of its rounds or with an
  empty inbox.\<close>

definition drained :: "mail_env \<Rightarrow> string set \<Rightarrow> string \<Rightarrow> string option \<Rightarrow> string list \<Rightarrow> json list \<Rightarrow> mail_bus \<Rightarrow> bool" where
  "drained env S node session acked receipts bus \<longleftrightarrow>
     mail_sound env S bus \<and> distinct acked \<and> length receipts \<le> length acked \<and>
     set acked \<subseteq> record_key ` set (mb_events bus) \<and>
     (\<forall>ch. channel_for env node session = Inr ch \<longrightarrow> set acked \<subseteq> set (items_of (mb_acks bus ch)))"

lemma drained_again:
  assumes "drained env S node session seen receipts bus" "mail_sound env S bus'"
    and "mb_events bus' = mb_events bus" "channel_for env node session = Inr ch"
    and "set seen \<subseteq> set (items_of (mb_acks bus' ch))" "set new \<subseteq> set (items_of (mb_acks bus' ch))"
    and "distinct new" "set new \<inter> set seen = {}" "set new \<subseteq> record_key ` set (mb_events bus)"
    and "length rs \<le> length new"
  shows "drained env S node session (seen @ new) (receipts @ rs) bus'"
  using assms by (auto simp: drained_def)

lemma drained_round:
  assumes "drained env S node session seen receipts bus" "sessions_apart env S" "session_in S session"
    and "pi_session i = session" "1 \<le> pi_limit i"
    and "drain env i node bus = (Inr (messages, d, a), bus')"
  shows "messages = [] \<Longrightarrow> drained env S node session seen receipts bus' \<and>
      (\<exists>ch. channel_for env node session = Inr ch \<and>
        inbox_matching (mb_events bus') node session (items_of (mb_acks bus' ch)) = [])"
    and "messages \<noteq> [] \<Longrightarrow> set (map record_key messages) \<inter> set seen = {} \<and>
      drained env S node session (seen @ map record_key messages)
        (receipts @ (case a of None \<Rightarrow> [] | Some r \<Rightarrow> [r])) bus'"
proof -
  note dr = assms(1) [unfolded drained_def]
  obtain ch where r: "is_identifier node" "channel_for env node session = Inr ch" "mail_sound env S bus'"
      "mb_events bus' = mb_events bus" "set (items_of (mb_acks bus ch)) \<subseteq> set (items_of (mb_acks bus' ch))"
      "messages = take (nat (pi_limit i)) (inbox_matching (mb_events bus) node session (items_of (mb_acks bus ch)))"
      "record_key ` set messages \<subseteq> set (items_of (mb_acks bus' ch))"
    using drain_round [OF dr [THEN conjunct1] assms(2) _ assms(6)] assms(3,4) by auto
  have seen: "set seen \<subseteq> set (items_of (mb_acks bus ch))" using dr r(2) by blast
  have inbox: "set messages \<subseteq> set (inbox_matching (mb_events bus) node session (items_of (mb_acks bus ch)))"
    unfolding r(6) by (rule set_take_subset)
  show "drained env S node session seen receipts bus' \<and> (\<exists>ch. channel_for env node session = Inr ch \<and>
      inbox_matching (mb_events bus') node session (items_of (mb_acks bus' ch)) = [])" if "messages = []"
  proof
    have "set seen \<subseteq> set (items_of (mb_acks bus' ch))" using seen r(5) by blast
    from drained_again [OF assms(1) r(3,4,2) this, of "[]" "[]"]
    show "drained env S node session seen receipts bus'" by simp
    have "inbox_matching (mb_events bus) node session (items_of (mb_acks bus ch)) = []"
      using that r(6) assms(5) by simp
    then have "inbox_matching (mb_events bus') node session (items_of (mb_acks bus' ch)) = []"
      using r(5) by (auto simp: r(4) inbox_matching_def filter_empty_conv)
    with r(2) show "\<exists>ch. channel_for env node session = Inr ch \<and>
      inbox_matching (mb_events bus') node session (items_of (mb_acks bus' ch)) = []" by blast
  qed
  show "set (map record_key messages) \<inter> set seen = {} \<and>
      drained env S node session (seen @ map record_key messages)
        (receipts @ (case a of None \<Rightarrow> [] | Some r \<Rightarrow> [r])) bus'" if "messages \<noteq> []"
  proof
    show fresh: "set (map record_key messages) \<inter> set seen = {}"
      using inbox seen by (auto simp: inbox_matching_def)
    have "distinct (map record_key (inbox_matching (mb_events bus) node session (items_of (mb_acks bus ch))))"
      using events_inv_facts(1) [OF mail_soundD(1)] dr
      by (auto simp: inbox_matching_def envelopes_def intro!: distinct_map_filter)
    then have "distinct (map record_key messages)" unfolding r(6) by (simp add: take_map [symmetric])
    moreover have "record_key ` set messages \<subseteq> record_key ` set (mb_events bus)"
      using inbox by (auto simp: inbox_matching_def envelopes_def)
    moreover have "length (case a of None \<Rightarrow> [] | Some r \<Rightarrow> [r]) \<le> length messages"
      using that by (auto split: option.split simp: Suc_le_eq)
    moreover have "set seen \<subseteq> set (items_of (mb_acks bus' ch))" using seen r(5) by blast
    ultimately show "drained env S node session (seen @ map record_key messages)
        (receipts @ (case a of None \<Rightarrow> [] | Some r \<Rightarrow> [r])) bus'"
      using r(7) fresh by (intro drained_again [OF assms(1) r(3,4,2)]) simp_all
  qed
qed

lemma drained_length: "drained env S node session seen receipts bus \<Longrightarrow> length seen \<le> length (mb_events bus)"
proof -
  assume d: "drained env S node session seen receipts bus"
  then have "length seen = card (set seen)" by (simp add: drained_def distinct_card)
  also have "\<dots> \<le> card (record_key ` set (mb_events bus))"
    using d by (intro card_mono) (auto simp: drained_def)
  also have "\<dots> \<le> length (mb_events bus)" by (meson card_image_le card_length finite_set le_trans)
  finally show ?thesis .
qed

lemma drain_loop_outcome:
  assumes "drained env S node session seen receipts bus" "sessions_apart env S" "session_in S session"
    and "\<And>k. pi_session (inputs k) = session" "\<And>k. 1 \<le> pi_limit (inputs k)"
  shows "(\<exists>e j t u. fst (drain_loop env node inputs k seen receipts bus) = Inl e \<and>
        j \<le> k + (length (mb_events bus) - length seen) \<and> drain env (inputs j) node t = (Inl e, u)) \<or>
    (\<exists>acked receipts' bus'. drain_loop env node inputs k seen receipts bus = (Inr (acked, receipts'), bus') \<and>
        drained env S node session acked receipts' bus' \<and> mb_events bus' = mb_events bus \<and>
        (\<exists>ch. channel_for env node session = Inr ch \<and>
          inbox_matching (mb_events bus') node session (items_of (mb_acks bus' ch)) = []))"
  using assms
proof (induction env node inputs k seen receipts bus rule: drain_loop.induct)
  case (1 env node inputs k seen receipts bus)
  obtain out bus' where d: "drain env (inputs k) node bus = (out, bus')" by fastforce
  show ?case
  proof (cases out)
    case (Inl e)
    then have "fst (drain_loop env node inputs k seen receipts bus) = Inl e"
        "drain env (inputs k) node bus = (Inl e, bus')"
      using d by (simp_all add: drain_loop.simps)
    moreover have "k \<le> k + (length (mb_events bus) - length seen)" by simp
    ultimately show ?thesis by blast
  next
    case (Inr x)
    obtain messages de a where x: "x = (messages, de, a)" by (cases x)
    note d' = d [unfolded Inr x]
    note round = drained_round [OF "1.prems"(1,2,3) "1.prems"(4,5) d']
    have ev: "mb_events bus' = mb_events bus" using drain_batch [OF d'] by blast
    show ?thesis
    proof (cases "messages = []")
      case True
      then show ?thesis using round(1) d' ev by (simp add: drain_loop.simps)
    next
      case False
      note more = round(2) [OF False]
      have loop: "drain_loop env node inputs k seen receipts bus =
          drain_loop env node inputs (Suc k) (seen @ map record_key messages)
            (receipts @ (case a of None \<Rightarrow> [] | Some r \<Rightarrow> [r])) bus'"
        using False more by (subst drain_loop.simps) (simp add: d')
      have "length (seen @ map record_key messages) \<le> length (mb_events bus')"
        by (rule drained_length [OF more [THEN conjunct2]])
      then have "Suc k + (length (mb_events bus') - length (seen @ map record_key messages))
          \<le> k + (length (mb_events bus) - length seen)"
        using False ev by (cases messages) auto
      then show ?thesis
        using "1.IH" [OF d' [symmetric] refl refl refl False _ more [THEN conjunct2] "1.prems"(2-5)] more
        unfolding loop ev by (meson le_trans)
    qed
  qed
qed

text \<open>C34: draining an inbox until it is empty ends within as many rounds as the ledger has events, plus
  one: either a round fails and its error is the outcome, or the loop returns, having acknowledged
  distinct messages only, and nothing addressed to the node and session is left.  The loop's own
  refusal of a message presented twice never happens.\<close>

theorem drain_loop_ends:
  assumes "mail_history env S (bus, P)" "sessions_apart env S" "session_in S session"
    and "\<And>k. pi_session (inputs k) = session" "\<And>k. 1 \<le> pi_limit (inputs k)"
  shows "(\<exists>e j t u. fst (drain_loop env node inputs 0 [] [] bus) = Inl e \<and>
        j \<le> length (mb_events bus) \<and> drain env (inputs j) node t = (Inl e, u)) \<or>
    (\<exists>acked receipts bus' ch. drain_loop env node inputs 0 [] [] bus = (Inr (acked, receipts), bus') \<and>
        distinct acked \<and> set acked \<subseteq> record_key ` set (mb_events bus) \<and>
        channel_for env node session = Inr ch \<and> set acked \<subseteq> set (items_of (mb_acks bus' ch)) \<and>
        inbox_matching (mb_events bus') node session (items_of (mb_acks bus' ch)) = [])"
proof -
  have "drained env S node session [] [] bus"
    using history_sound(1) [OF assms(1,2)] by (simp add: drained_def)
  from drain_loop_outcome [where k = 0 and inputs = inputs, OF this assms(2-5)] show ?thesis
  proof (elim disjE)
    assume "\<exists>e j t u. fst (drain_loop env node inputs 0 [] [] bus) = Inl e \<and>
        j \<le> 0 + (length (mb_events bus) - length []) \<and> drain env (inputs j) node t = (Inl e, u)"
    then show ?thesis by simp
  next
    assume "\<exists>acked receipts' bus'. drain_loop env node inputs 0 [] [] bus = (Inr (acked, receipts'), bus') \<and>
        drained env S node session acked receipts' bus' \<and> mb_events bus' = mb_events bus \<and>
        (\<exists>ch. channel_for env node session = Inr ch \<and>
          inbox_matching (mb_events bus') node session (items_of (mb_acks bus' ch)) = [])"
    then show ?thesis unfolding drained_def by metis
  qed
qed

text \<open>C35: an inbox that holds a message for a worker session cannot be emptied, not even when that
  session has acknowledged it: the last check of \<open>empty_inbox\<close> only looks at the acknowledgments
  made without a session.\<close>

theorem bound_mail_blocks_emptying:
  assumes "mail_history env S (bus, P)" "sessions_apart env S"
    and "e \<in> set (envelopes (mb_events bus))" "member_of e ''recipient'' = JStr node"
    and "member_of e ''worker_session_id'' \<noteq> JNull" "record_key e \<notin> set (retracted_ids (mb_events bus))"
  shows "\<exists>err bus'. empty_inbox env node acting inputs bus = (Inl err, bus')"
proof (rule ccontr)
  assume "\<not> ?thesis"
  then obtain em u where "empty_inbox env node acting inputs bus = (Inr em, u)"
    by (metis prod.exhaust sum.exhaust)
  then obtain entry acked receipts bus' where run: "require_active (mb_nodes bus) node = Inr entry"
      "drain_loop env (re_node entry) (\<lambda>k. (inputs k)\<lparr>pi_limit := 1000, pi_session := None, di_acting := acting\<rparr>)
         0 [] [] bus = (Inr (acked, receipts), bus')"
      "unacked_ids env (re_node entry) bus' = Inr []"
    by (auto simp: empty_inbox_def bindA_Inr_iff readA_def simp del: bindA_readA split: if_splits)
  have node: "re_node entry = node" "is_identifier node"
    using run(1) latest_entry_node by (auto simp: require_active_Inr_iff)
  have "drained env S node None [] [] bus"
    using history_sound(1) [OF assms(1,2)] by (simp add: drained_def)
  from drain_loop_outcome [where k = 0 and inputs = "\<lambda>k. (inputs k)\<lparr>pi_limit := 1000, pi_session := None, di_acting := acting\<rparr>",
      OF this assms(2)]
  have after: "mail_sound env S bus'" "mb_events bus' = mb_events bus"
    using run(2) unfolding node(1) drained_def by (auto simp: session_in_def)
  have ch: "channel_for env node None = Inr (node, None)" "session_in S None"
    by (simp_all add: channel_for_def session_in_def)
  note channel = mail_soundD(3) [OF after(1) node(2) ch(2,1)]
  have "record_key e \<notin> set (items_of (mb_acks bus' (node, None)))"
  proof
    assume "record_key e \<in> set (items_of (mb_acks bus' (node, None)))"
    then have "owns_item (envelopes (mb_events bus')) node None (record_key e)"
      using channel by (auto simp: channel_sound_def receipts_for_def)
    moreover have "event_by_id (envelopes (mb_events bus')) (record_key e) = Some e"
      using event_by_id_Some [OF distinct_envelopes [OF events_inv_facts(1) [OF mail_soundD(1) [OF after(1)]]]]
        assms(3) after(2) by simp
    ultimately show False using assms(5) by (simp add: owns_item_def addressed_def session_json_def)
  qed
  moreover have "acked_ids env bus' node None = Inr (items_of (mb_acks bus' (node, None)))"
    using events_inv_read(1) [OF mail_soundD(1) [OF after(1)]] state_for_sound(2) [OF channel ch(1) node(2)]
    by (simp add: acked_ids_def)
  moreover have "re_node x = node" if "require_active (mb_nodes bus') node = Inr x" for x
    using that by (auto simp: require_active_Inr_iff latest_entry_node)
  ultimately show False
    using run(3) events_inv_read(1) [OF mail_soundD(1) [OF after(1)]] assms(3,4,6)
    by (auto simp: unacked_ids_def node(1) bindR_Inr_iff after(2) filter_empty_conv)
qed

end
