(* ===== verification/Mail_Examples.thy ===== *)
theory Mail_Examples
  imports Mail_Properties
begin

text \<open>
  The properties of the mail ledgers along one concrete history: two nodes register, one sends the
  other a message for its session \<open>w1\<close>, retries the send, the message is presented and acknowledged.
\<close>

section \<open>A message\<close>

definition ex_env :: mail_env where
  "ex_env = \<lparr>me_tenant = ''acme'', me_sha256 = (\<lambda>s. s), me_lease_text = (\<lambda>_. ''2026-02-28T12:00:00Z'')\<rparr>"

definition ex_node :: "string \<Rightarrow> registry_row" where
  "ex_node name = RegistryEntry \<lparr>re_id = ''registry-0198c0de00017000a000000000000001'', re_tenant = ''acme'',
     re_timestamp = 0, re_node = name, re_role = ''worker'', re_active = True\<rparr>"

definition ex_bus0 :: mail_bus where
  "ex_bus0 = new_bus [ex_node ''main'', ex_node ''peer'']"

definition ex_send :: "string \<Rightarrow> send_input" where
  "ex_send uuid = \<lparr>si_sender = ''main'', si_recipient = ''peer'', si_repo = ''acme/floati'',
     si_sha = replicate 40 CHR ''a'', si_doc = ''docs/plan.md'', si_note = ''ready'',
     si_reply_to = None, si_key = Some ''k1'', si_session = Some ''w1'', si_binding = JNull, si_claim = None,
     si_at = \<lparr>sp_uuid = uuid, sp_time = ''2026-02-28T10:00:00Z''\<rparr>, si_key_uuid = [],
     si_claim_at = \<lparr>sp_uuid = [], sp_time = []\<rparr>, si_denial_at = \<lparr>sp_uuid = [], sp_time = []\<rparr>,
     si_attempt_uuid = [], si_now = 0\<rparr>"

definition ex_message :: "string \<Rightarrow> json" where
  "ex_message uuid = JObj
     [(''attempt_binding'', JStr ''absent_legacy''), (''doc'', JStr ''docs/plan.md''),
      (''id'', JStr (''msg-'' @ uuid)), (''idempotency_key'', JStr ''k1''),
      (''kind'', JStr ''message_envelope''), (''note'', JStr ''ready''), (''recipient'', JStr ''peer''),
      (''repo'', JStr ''acme/floati''), (''schema_version'', JInt 0), (''sender'', JStr ''main''),
      (''sha'', JStr (replicate 40 CHR ''a'')), (''tenant_id'', JStr ''acme''),
      (''timestamp'', JStr ''2026-02-28T10:00:00Z''), (''worker_session_id'', JStr ''w1'')]"

lemma ex_envelope: "envelope_row ex_env (ex_send uuid) ''main'' ''peer'' ''k1'' = ex_message uuid"
  by (simp add: envelope_row_def ex_send_def ex_env_def row_of_def ex_message_def
      normalized_attempt_binding_def)


definition uuid1 :: string where "uuid1 = ''0198c0de00017000a000000000000001''"
definition uuid2 :: string where "uuid2 = ''0198c0de00017000a000000000000002''"

lemmas kind_evaluate =
  lawful_checks_defs message_envelope_spec_def message_envelope_body_def delivery_receipt_spec_def
  delivery_receipt_body_def ack_receipt_spec_def ack_receipt_body_def governed_lookups member_names_def
  checks.simps only_if_def require_def check_attempt_binding_def present_field_def bounded_ok_def
  terminal_unsafe_def check_safe_def check_texts_def absent_value_def member_is_def version_one_def text_of_def

lemma ex_message_valid:
  "kinds \<in> {[''message_envelope''], EVENT_KINDS} \<Longrightarrow> u \<in> {uuid1, uuid2} \<Longrightarrow>
   validate_record (mail_specs sha) ''acme'' kinds False (ex_message u) = Inr (ex_message u)"
  by (elim insertE emptyE)
    (simp_all add: ex_message_def uuid1_def uuid2_def evaluate kind_evaluate)

lemma ex_message_length: "length (frame (ex_message uuid1)) \<le> 4000"
  by (rule order_trans [OF length_frame]) (simp add: ex_message_def uuid1_def)

lemma ex_nodes:
  "require_active (mb_nodes ex_bus0) ''peer'' = Inr \<lparr>re_id = ''registry-0198c0de00017000a000000000000001'',
     re_tenant = ''acme'', re_timestamp = 0, re_node = ''peer'', re_role = ''worker'', re_active = True\<rparr>"
  "n \<in> {''main'', ''peer''} \<Longrightarrow> resolve_node_id field True code (mb_nodes ex_bus0) n = Inr n"
  "n \<in> {''main'', ''peer''} \<Longrightarrow> node_lease_state (mb_nodes ex_bus0) n now = Inr NotLeased"
  "n \<in> {''main'', ''peer''} \<Longrightarrow> require_protocol_lease (mb_nodes ex_bus0) n now = Inr NotLeased"
proof -
  show act: "require_active (mb_nodes ex_bus0) ''peer'' = Inr \<lparr>re_id = ''registry-0198c0de00017000a000000000000001'',
     re_tenant = ''acme'', re_timestamp = 0, re_node = ''peer'', re_role = ''worker'', re_active = True\<rparr>"
    by (simp add: require_active_Inr_iff ex_bus0_def new_bus_def ex_node_def latest_entry_def evaluate)
  show res: "resolve_node_id field True code (mb_nodes ex_bus0) n = Inr n" if "n \<in> {''main'', ''peer''}" for n field code
    using that
    by (auto simp: resolve_node_id_def active_node_ids_iff ex_bus0_def new_bus_def ex_node_def latest_entry_def evaluate)
  show lease: "node_lease_state (mb_nodes ex_bus0) n now = Inr NotLeased" if "n \<in> {''main'', ''peer''}" for n now
    unfolding node_lease_state_def res [OF that] by (simp add: ex_bus0_def new_bus_def ex_node_def)
  show "require_protocol_lease (mb_nodes ex_bus0) n now = Inr NotLeased" if "n \<in> {''main'', ''peer''}"
    by (simp add: require_protocol_lease_def lease [OF that])
qed

section \<open>Sent twice under one key\<close>

definition ex_plan :: "string \<Rightarrow> send_plan" where
  "ex_plan u = Proposed ''main'' ''peer'' ''k1'' (ex_message u) None NotLeased"

lemma ex_check:
  assumes "u \<in> {uuid1, uuid2}"
  shows "send_check ex_env (ex_send u) ex_bus0 = (Inr (ex_plan u), ex_bus0)"
proof -
  have read: "event_records ex_env ex_bus0 = Inr []"
    by (simp add: event_records_def ex_bus0_def new_bus_def read_known_def ledger_bytes_def validate_event_records_def)
  have rows: "propose_rows ex_env (ex_send u) ''main'' ''peer'' ''k1'' = Inr (ex_message u, None)"
    unfolding propose_rows_def Let_def ex_envelope
    using ex_message_valid [OF _ assms, of "[''message_envelope'']"] by (simp add: ex_send_def ex_env_def)
  have "send_key (ex_send u) = Inr ''k1''" by (simp add: send_key_def ex_send_def)
  moreover have "resolve_recipient (mb_nodes ex_bus0) ''peer'' = Inr ''peer''"
    by (simp add: resolve_recipient_def ex_nodes)
  moreover have "si_sender (ex_send u) = ''main''" "si_recipient (ex_send u) = ''peer''" "si_reply_to (ex_send u) = None"
    by (simp_all add: ex_send_def)
  ultimately show ?thesis
    using rows
    by (simp add: send_check_def ex_nodes read check_reply_def plan_send_def prior_send_def readA_def ex_plan_def)
qed

lemma ex_sound: "mail_history ex_env {''w1''} (bus, P) \<Longrightarrow> mail_sound ex_env {''w1''} bus"
  by (rule history_sound(1)) (simp_all add: sessions_apart_def)

lemma ex_apart: "sessions_apart ex_env {''w1''}" "session_in {''w1''} (Some ''w1'')"
  by (simp_all add: sessions_apart_def session_in_def)

definition ex_plans :: "(send_input \<times> send_plan) set" where
  "ex_plans = {(ex_send uuid1, ex_plan uuid1), (ex_send uuid2, ex_plan uuid2)}"

lemma ex_history0: "mail_history ex_env {''w1''} (ex_bus0, ex_plans)"
proof -
  have "mail_history ex_env {''w1''} (ex_bus0, {})" unfolding ex_bus0_def by (rule mail_history_new)
  from mail_history_step [OF mail_history_step [OF this step_check [OF ex_check [of uuid2]]]
      step_check [OF ex_check [of uuid1]]]
  show ?thesis by (simp add: ex_plans_def)
qed

definition ex_bus1 :: mail_bus where
  "ex_bus1 = ex_bus0\<lparr>mb_events := [ex_message uuid1]\<rparr>"

definition ex_receipt :: send_receipt where
  "ex_receipt = receipt_for (ex_message uuid1) None NotLeased ''2026-02-28T10:00:00Z''"

lemma ex_commit1: "send_commit ex_env (ex_send uuid1) (ex_plan uuid1) ex_bus0 = (Inr ex_receipt, ex_bus1)"
proof -
  have "append_batch (mail_contract ex_env EVENT_KINDS) [] [] [ex_message uuid1] = Inr [ex_message uuid1]"
    using ex_message_valid [of EVENT_KINDS uuid1] ex_message_length
    by (simp add: append_batch_Inr ex_env_def MAX_LEDGER_RECORDS_def MAX_RECORD_BYTES_def MAX_LEDGER_BYTES_def
        ledger_bytes_def mail_contract_def)
  moreover have "decide_send ''k1'' (ex_message uuid1) None [] = Inr ((ex_message uuid1, None), [ex_message uuid1])"
    by (simp add: decide_send_def validate_event_records_def prior_send_def)
  moreover have "read_known (mail_contract ex_env EVENT_KINDS) ''acme'' [] = Inr []"
    by (simp add: read_known_def ledger_bytes_def)
  ultimately have "transact_known (mail_contract ex_env EVENT_KINDS) ''acme'' [] (decide_send ''k1'' (ex_message uuid1) None) =
      Inr ((ex_message uuid1, None), [ex_message uuid1])"
    by (simp add: transact_known_def)
  then show ?thesis
    by (simp add: send_commit_def ex_plan_def ex_bus0_def ex_bus1_def new_bus_def ex_receipt_def ex_env_def ex_send_def)
qed

lemma ex_history1: "mail_history ex_env {''w1''} (ex_bus1, ex_plans - {(ex_send uuid1, ex_plan uuid1)})"
  by (rule mail_history_step [OF ex_history0 step_commit [OF _ ex_commit1]]) (simp add: ex_plans_def)

lemma ex_read1: "event_records ex_env ex_bus1 = Inr [ex_message uuid1]"
  "read_known (mail_contract ex_env EVENT_KINDS) (me_tenant ex_env) [ex_message uuid1] = Inr [ex_message uuid1]"
  using events_inv_read [OF mail_soundD(1) [OF ex_sound [OF ex_history1]]] by (simp_all add: ex_bus1_def)

lemma ex_message_members:
  "member_of (ex_message u) ''recipient'' = JStr ''peer''" "member_of (ex_message u) ''worker_session_id'' = JStr ''w1''"
  "member_of (ex_message u) ''idempotency_key'' = JStr ''k1''" "is_kind ''message_envelope'' (ex_message u)"
  "record_key (ex_message u) = ''msg-'' @ u" "member_of (ex_message u) ''id'' = JStr (''msg-'' @ u)"
  by (simp_all add: ex_message_def member_of_def get_member_def is_kind_def record_kind_def record_key_def record_id_def)

lemma ex_same:
  "same_send (ex_message uuid1) None (ex_message uuid2) None"
  "claim_on [ex_message uuid1] (ex_message uuid1) = None"
  using ex_message_members(4)
  by (simp_all add: same_send_def same_claim_def PAYLOAD_FIELDS_def binding_of_def ex_message_def member_of_def
      get_member_def member_names_def claim_on_def is_kind_def)

lemma ex_commit2: "send_commit ex_env (ex_send uuid2) (ex_plan uuid2) ex_bus1 = (Inr ex_receipt, ex_bus1)"
proof -
  have "validate_event_records [ex_message uuid1] = Inr ()"
    using ex_read1(1) by (simp add: event_records_def bindR_Inr_iff ex_read1(2) ex_bus1_def)
  then have "decide_send ''k1'' (ex_message uuid2) None [ex_message uuid1] = Inr ((ex_message uuid1, None), [])"
    by (simp add: decide_send_def prior_send_def ex_message_members ex_same)
  then have "transact_known (mail_contract ex_env EVENT_KINDS) (me_tenant ex_env) [ex_message uuid1]
      (decide_send ''k1'' (ex_message uuid2) None) = Inr ((ex_message uuid1, None), [ex_message uuid1])"
    by (simp add: transact_known_def ex_read1 append_batch_def)
  then show ?thesis
    by (simp add: send_commit_def ex_plan_def ex_bus1_def ex_receipt_def ex_send_def)
qed

text \<open>A resend after the first send has been committed finds it when it checks.\<close>

lemma ex_resend: "send_check ex_env (ex_send uuid2) ex_bus1 = (Inr (Repeated ex_receipt), ex_bus1)"
proof -
  have rows: "propose_rows ex_env (ex_send uuid2) ''main'' ''peer'' ''k1'' = Inr (ex_message uuid2, None)"
    unfolding propose_rows_def Let_def ex_envelope
    using ex_message_valid [of "[''message_envelope'']" uuid2] by (simp add: ex_send_def ex_env_def)
  have nodes: "mb_nodes ex_bus1 = mb_nodes ex_bus0" by (simp add: ex_bus1_def)
  have stamp: "text_at (ex_message uuid1) ''timestamp'' = ''2026-02-28T10:00:00Z''"
    by (simp add: text_at_def member_of_def get_member_def ex_message_def)
  have "resolve_recipient (mb_nodes ex_bus0) ''peer'' = Inr ''peer''"
    by (simp add: resolve_recipient_def ex_nodes)
  moreover have "prior_send [ex_message uuid1] ''k1'' = Some (ex_message uuid1)"
    by (simp add: prior_send_def ex_message_members)
  moreover have "send_key (ex_send uuid2) = Inr ''k1''" by (simp add: send_key_def ex_send_def)
  moreover have "si_sender (ex_send uuid2) = ''main''" "si_recipient (ex_send uuid2) = ''peer''"
      "si_reply_to (ex_send uuid2) = None"
    by (simp_all add: ex_send_def)
  ultimately show ?thesis
    using rows ex_same
    by (simp add: send_check_def nodes ex_nodes ex_read1 check_reply_def plan_send_def readA_def
        ex_receipt_def stamp)
qed

text \<open>Both ways of sending twice: checked before the first one was committed, and after.\<close>

lemma key_names_one_message_witness:
  "\<exists>first. send_commit ex_env (ex_send uuid1) (ex_plan uuid1) ex_bus0 = (Inr first, ex_bus1) \<and>
     (\<forall>plan \<in> {ex_plan uuid2, Repeated ex_receipt}. \<exists>second.
        send_commit ex_env (ex_send uuid2) plan ex_bus1 = (Inr second, ex_bus1) \<and>
        sr_message second = sr_message first \<and> sr_message first \<in> set (envelopes (mb_events ex_bus1)))"
proof -
  have pl: "(ex_send uuid1, ex_plan uuid1) \<in> ex_plans"
      "(ex_send uuid2, ex_plan uuid2) \<in> ex_plans - {(ex_send uuid1, ex_plan uuid1)}"
    by (simp_all add: ex_plans_def ex_send_def uuid1_def uuid2_def)
  have keys: "send_key (ex_send u) = Inr ''k1''" for u by (simp add: send_key_def ex_send_def)
  have again: "send_commit ex_env (ex_send uuid2) (Repeated ex_receipt) ex_bus1 = (Inr ex_receipt, ex_bus1)"
    by (simp add: send_commit_def)
  note same = key_names_one_message [OF ex_history0 ex_apart(1) pl(1) keys ex_commit1]
  note raced = same [OF rtranclp.rtrancl_refl pl(2) keys ex_commit2]
  have "mail_step ex_env {''w1''} (ex_bus1, ex_plans - {(ex_send uuid1, ex_plan uuid1)})
      (ex_bus1, insert (ex_send uuid2, Repeated ex_receipt) (ex_plans - {(ex_send uuid1, ex_plan uuid1)}))"
    by (rule step_check [OF ex_resend])
  note resent = same [OF r_into_rtranclp [where r = "mail_step ex_env {''w1''}", OF this] insertI1 keys again]
  show ?thesis using ex_commit1 ex_commit2 again raced resent by blast
qed

section \<open>Presented and acknowledged\<close>

definition ex_channel :: channel where
  "ex_channel = (''peer'', Some ''w1'')"

lemma ex_channel: "channel_for ex_env ''peer'' (Some ''w1'') = Inr ex_channel" "is_identifier ''peer''"
  by (simp_all add: channel_for_def session_component_def ex_env_def ex_channel_def evaluate encode_utf8_def
      encode_utf8_char_def)

definition ex_present :: present_input where
  "ex_present = \<lparr>pi_limit = 10, pi_session = Some ''w1'', pi_now = 0,
     pi_at = \<lparr>sp_uuid = uuid1, sp_time = ''2026-02-28T10:01:00Z''\<rparr>, pi_loadable = False, pi_refreshable = False\<rparr>"

definition ex_delivery :: json where
  "ex_delivery = JObj
     [(''id'', JStr (''delivery-'' @ uuid1)), (''item_ids'', JArr [JStr (''msg-'' @ uuid1)]),
      (''kind'', JStr ''delivery_receipt''), (''presentation_count'', JInt 1), (''recipient'', JStr ''peer''),
      (''schema_version'', JInt 0), (''tenant_id'', JStr ''acme''), (''timestamp'', JStr ''2026-02-28T10:01:00Z'')]"

lemma ex_delivery_row:
  "delivery_row ex_env (pi_at ex_present) ''peer'' [ex_message uuid1] 1 = ex_delivery"
  by (simp add: delivery_row_def ex_env_def ex_present_def row_of_def ex_delivery_def ex_message_members)

lemma ex_delivery_appended:
  "append_record (mail_contract ex_env WAKE_HOLD_KINDS) [] ex_delivery = Inr [ex_delivery]"
proof -
  have "length (frame ex_delivery) \<le> 4000"
    by (rule order_trans [OF length_frame]) (simp add: ex_delivery_def uuid1_def)
  moreover have "validate_record (mail_specs sha) ''acme'' WAKE_HOLD_KINDS False ex_delivery = Inr ex_delivery" for sha
    by (simp add: ex_delivery_def uuid1_def evaluate kind_evaluate)
  ultimately show ?thesis
    by (simp add: append_record_Inr_iff ex_env_def MAX_LEDGER_RECORDS_def MAX_RECORD_BYTES_def
        MAX_LEDGER_BYTES_def ledger_bytes_def mail_contract_def)
qed

definition ex_bus2 :: mail_bus where
  "ex_bus2 = ex_bus1\<lparr>mb_deliveries := (mb_deliveries ex_bus1)(ex_channel := [ex_delivery])\<rparr>"

lemma ex_bus_parts:
  "mb_events ex_bus1 = [ex_message uuid1]" "mb_events ex_bus2 = [ex_message uuid1]"
  "mb_deliveries ex_bus1 = (\<lambda>_. [])" "mb_acks ex_bus1 = (\<lambda>_. [])" "mb_acks ex_bus2 = (\<lambda>_. [])"
  "mb_deliveries ex_bus2 ex_channel = [ex_delivery]"
  "mb_nodes ex_bus1 = mb_nodes ex_bus0" "mb_nodes ex_bus2 = mb_nodes ex_bus0"
  by (simp_all add: ex_bus1_def ex_bus2_def ex_bus0_def new_bus_def)

lemma ex_guard: "mb_nodes bus = mb_nodes ex_bus0 \<Longrightarrow>
    guarded_node ex_env field ''peer'' (Some ''w1'') bus = (Inr ''peer'', bus)"
  by (simp add: guarded_node_def wake_guard_def ex_nodes ex_channel readA_def)

lemma ex_presented: "present ex_env ex_present ''peer'' ex_bus1 = (Inr ([ex_message uuid1], Some ex_delivery), ex_bus2)"
proof -
  obtain p where scan: "present_full_scan ex_env ex_bus1 ''peer'' 10 (Some ''w1'') = Inr ([ex_message uuid1], p)"
    using present_full_scan_sound [OF ex_sound [OF ex_history1] ex_channel(2) ex_apart(2) ex_channel(1), of 10]
    by (simp add: Let_def ex_bus_parts inbox_matching_def envelopes_def retracted_ids_def ex_message_members
        addressed_def session_json_def is_kind_unique [OF ex_message_members(4)])
  have inbox: "inbox_messages ex_env ex_present ''peer'' ex_bus1 = (Inr [ex_message uuid1], ex_bus1)"
    using scan by (simp add: inbox_messages_def ex_present_def readA_def)
  have "transact (mail_contract ex_env WAKE_HOLD_KINDS) [] (\<lambda>prior. let r = delivery_row ex_env (pi_at ex_present) ''peer''
      [ex_message uuid1] (length prior + 1) in Inr (r, Some r)) = Inr (ex_delivery, [ex_delivery])"
    using ex_delivery_appended by (simp add: transact_Inr_iff Let_def ex_delivery_row [simplified])
  then have "write_delivery_receipt ex_env (pi_at ex_present) ''peer'' ex_channel [ex_message uuid1] ex_bus1 =
      (Inr ex_delivery, ex_bus2)"
    by (simp add: write_delivery_receipt_def ex_bus_parts ex_bus2_def)
  moreover have "require_active (mb_nodes ex_bus1) ''peer'' = Inr (projr (require_active (mb_nodes ex_bus1) ''peer''))"
    by (simp add: ex_nodes ex_bus_parts)
  ultimately have "present_already_guarded ex_env ex_present ''peer'' ex_bus1 =
      (Inr ([ex_message uuid1], Some ex_delivery), ex_bus2)"
    using present_guarded_step [OF ex_channel(2), of ex_present ex_env ex_channel ex_bus1] ex_channel(1) inbox
    by (simp add: ex_present_def ex_nodes ex_bus_parts)
  then show ?thesis
    by (simp add: present_def bindA_def ex_present_def ex_guard ex_bus_parts)
qed

definition ex_plans1 :: "(send_input \<times> send_plan) set" where
  "ex_plans1 = ex_plans - {(ex_send uuid1, ex_plan uuid1)}"

lemma ex_history2: "mail_history ex_env {''w1''} (ex_bus2, ex_plans1)"
  unfolding ex_plans1_def
  by (rule mail_history_step [OF ex_history1 step_present [OF ex_presented]])
    (simp add: ex_present_def ex_apart)

definition ex_ack :: ack_input where
  "ex_ack = \<lparr>ai_items = [''msg-'' @ uuid1], ai_acting = ''seat-1'', ai_session = Some ''w1'', ai_now = 0,
     ai_at = \<lparr>sp_uuid = uuid1, sp_time = ''2026-02-28T10:02:00Z''\<rparr>\<rparr>"

definition ex_ack_row :: json where
  "ex_ack_row = JObj
     [(''acting_session_id'', JStr ''seat-1''), (''id'', JStr (''ack-'' @ uuid1)),
      (''item_ids'', JArr [JStr (''msg-'' @ uuid1)]), (''kind'', JStr ''ack_receipt''),
      (''node_lease_expires_at'', JNull), (''node_lease_id'', JNull),
      (''node_lease_state_at_ack'', JStr ''not_leased''), (''recipient'', JStr ''peer''),
      (''schema_version'', JInt 1), (''tenant_id'', JStr ''acme''), (''timestamp'', JStr ''2026-02-28T10:02:00Z'')]"

lemma ex_ack_row: "ack_row ex_env ex_ack ''peer'' NotLeased = ex_ack_row"
  by (simp add: ack_row_def ex_env_def ex_ack_def row_of_def ex_ack_row_def)

lemma ex_ack_appended:
  "append_record (mail_contract ex_env [''ack_receipt'']) [] ex_ack_row = Inr [ex_ack_row]"
proof -
  have "length (frame ex_ack_row) \<le> 4000"
    by (rule order_trans [OF length_frame]) (simp add: ex_ack_row_def uuid1_def)
  moreover have "validate_record (mail_specs sha) ''acme'' [''ack_receipt''] False ex_ack_row = Inr ex_ack_row" for sha
    by (simp add: ex_ack_row_def uuid1_def evaluate kind_evaluate)
  ultimately show ?thesis
    by (simp add: append_record_Inr_iff ex_env_def MAX_LEDGER_RECORDS_def MAX_RECORD_BYTES_def
        MAX_LEDGER_BYTES_def ledger_bytes_def mail_contract_def)
qed

definition ex_bus3 :: mail_bus where
  "ex_bus3 = ex_bus2\<lparr>mb_acks := (mb_acks ex_bus2)(ex_channel := [ex_ack_row])\<rparr>"

lemma ex_acked: "ack ex_env ex_ack ''peer'' ex_bus2 = (Inr ex_ack_row, ex_bus3)"
proof -
  note sound = mail_soundD [OF ex_sound [OF ex_history2]]
  have read: "event_records ex_env ex_bus2 = Inr [ex_message uuid1]"
    using events_inv_read(1) [OF sound(1)] by (simp add: ex_bus_parts)
  have items: "items_of [ex_delivery] = [''msg-'' @ uuid1]"
    by (simp add: items_of_def ex_delivery_def texts_at_def texts_of_def get_member_def all_texts.simps)
  have del: "validate_deliveries ex_env ex_bus2 (envelopes [ex_message uuid1]) ''peer'' (ai_session ex_ack) =
      Inr [''msg-'' @ uuid1]"
    using state_for_sound(1) [OF sound(3) [OF ex_channel(2) ex_apart(2) ex_channel(1)] ex_channel]
    by (simp only: ex_bus_parts items) (simp add: ex_ack_def)
  have check: "check_ack_items ex_env ex_bus2 ex_channel ''peer'' (ai_session ex_ack) (envelopes [ex_message uuid1])
      (retracted_ids [ex_message uuid1]) [''msg-'' @ uuid1] (ai_items ex_ack) = Inr ()"
    by (simp add: ex_ack_def check_ack_item_def event_by_id_def envelopes_def retracted_ids_def ex_message_members
        session_json_def is_kind_unique [OF ex_message_members(4)])
  have "transact (mail_contract ex_env [''ack_receipt'']) [] (decide_ack ex_ack_row ex_ack) = Inr (ex_ack_row, [ex_ack_row])"
    using ex_ack_appended by (simp add: transact_Inr_iff decide_ack_def)
  moreover have "is_session_id (ai_acting ex_ack)"
    by (simp add: ex_ack_def is_session_id_def lower_char_def evaluate)
  moreover have "channel_for ex_env ''peer'' (ai_session ex_ack) = Inr ex_channel" "ai_items ex_ack = [''msg-'' @ uuid1]"
    using ex_channel(1) by (simp_all add: ex_ack_def)
  ultimately have "ack_already_guarded ex_env ex_ack ''peer'' ex_bus2 = (Inr ex_ack_row, ex_bus3)"
    using ack_guarded_step [OF ex_channel(2), of ex_ack ex_env ex_channel ex_bus2 "[ex_message uuid1]" "[''msg-'' @ uuid1]"]
      read del check
    by (simp add: ex_nodes ex_bus_parts ex_bus3_def ex_ack_row)
  then show ?thesis
    by (simp add: ack_def bindA_def ex_ack_def ex_guard ex_bus_parts)
qed

lemma ex_history3: "mail_history ex_env {''w1''} (ex_bus3, ex_plans1)"
  by (rule mail_history_step [OF ex_history2 step_ack [OF ex_acked]]) (simp add: ex_ack_def ex_apart)

lemma ex_bus3_parts:
  "mb_events ex_bus3 = [ex_message uuid1]" "mb_acks ex_bus3 ex_channel = [ex_ack_row]"
  "mb_deliveries ex_bus3 ex_channel = [ex_delivery]" "mb_nodes ex_bus3 = mb_nodes ex_bus0"
  by (simp_all add: ex_bus3_def ex_bus_parts)

lemma ex_items: "texts_at ex_ack_row ''item_ids'' = [''msg-'' @ uuid1]" "texts_at ex_delivery ''item_ids'' = [''msg-'' @ uuid1]"
  by (simp_all add: ex_ack_row_def ex_delivery_def texts_at_def texts_of_def get_member_def all_texts.simps)

lemma ex_presented_empty: "present ex_env ex_present ''peer'' ex_bus3 = (Inr ([], None), ex_bus3)"
proof -
  obtain p where scan: "present_full_scan ex_env ex_bus3 ''peer'' 10 (Some ''w1'') = Inr ([], p)"
    using present_full_scan_sound [OF ex_sound [OF ex_history3] ex_channel(2) ex_apart(2) ex_channel(1), of 10]
    by (simp add: Let_def ex_bus3_parts ex_items inbox_matching_def envelopes_def ex_message_members
        is_kind_unique [OF ex_message_members(4)])
  have "inbox_messages ex_env ex_present ''peer'' ex_bus3 = (Inr [], ex_bus3)"
    using scan by (simp add: inbox_messages_def ex_present_def readA_def)
  then have "present_already_guarded ex_env ex_present ''peer'' ex_bus3 = (Inr ([], None), ex_bus3)"
    using present_guarded_step [OF ex_channel(2), of ex_present ex_env ex_channel ex_bus3] ex_channel(1)
    by (simp add: ex_present_def ex_nodes ex_bus3_parts)
  then show ?thesis by (simp add: present_def bindA_def ex_present_def ex_guard ex_bus3_parts)
qed

section \<open>The properties along the history\<close>

lemma mail_always_reads_witness:
  "state_for ex_env ex_bus3 (envelopes [ex_message uuid1]) ''peer'' (Some ''w1'') =
     Inr ([''msg-'' @ uuid1], [''msg-'' @ uuid1])"
  using mail_always_reads [OF ex_history3 ex_apart(1) ex_channel(2) ex_apart(2) ex_channel(1)]
  by (simp add: ex_bus3_parts ex_items)

lemma inbox_is_exact_witness:
  "fst (inbox_messages ex_env ex_present ''peer'' ex_bus2) = Inr [ex_message uuid1]"
proof -
  have "acked_ids ex_env ex_bus2 ''peer'' (Some ''w1'') = Inr []"
    using state_for_sound(2) [OF mail_soundD(3) [OF ex_sound [OF ex_history2] ex_channel(2) ex_apart(2) ex_channel(1)]
        ex_channel] events_inv_read(1) [OF mail_soundD(1) [OF ex_sound [OF ex_history2]]]
    by (simp add: acked_ids_def ex_bus_parts)
  then have "fst (inbox_messages ex_env ex_present ''peer'' ex_bus2) =
      Inr (take (nat (pi_limit ex_present)) (inbox_matching (mb_events ex_bus2) ''peer'' (pi_session ex_present) []))"
    by (intro inbox_is_exact [OF ex_history2 ex_apart(1) ex_channel(2)]) (simp_all add: ex_present_def ex_apart)
  then show ?thesis
    by (simp add: ex_present_def ex_bus_parts inbox_matching_def envelopes_def retracted_ids_def ex_message_members
        addressed_def session_json_def is_kind_unique [OF ex_message_members(4)])
qed

lemma acked_never_presented_witness:
  "\<exists>messages. present ex_env ex_present ''peer'' ex_bus3 = (Inr (messages, None), ex_bus3) \<and>
     record_key ` set messages \<inter> {''msg-'' @ uuid1} = {}"
proof -
  have "record_key ` set [] \<inter> set (ai_items ex_ack) = {}"
    by (rule acked_never_presented [OF ex_history2 ex_apart(1) _ ex_acked rtranclp.rtrancl_refl _ ex_presented_empty])
      (simp_all add: ex_ack_def ex_present_def ex_apart)
  then show ?thesis using ex_presented_empty by auto
qed

definition ex_drain :: "nat \<Rightarrow> drain_input" where
  "ex_drain k = \<lparr>pi_limit = 10, pi_session = Some ''w1'', pi_now = 0,
     pi_at = \<lparr>sp_uuid = uuid1, sp_time = ''2026-02-28T10:01:00Z''\<rparr>, pi_loadable = False, pi_refreshable = False,
     di_acting = ''seat-1'', di_ack_now = 0, di_ack_at = \<lparr>sp_uuid = uuid1, sp_time = ''2026-02-28T10:02:00Z''\<rparr>\<rparr>"

text \<open>After the acknowledgment the first round finds nothing and the loop returns.\<close>

lemma ex_drained: "drain_loop ex_env ''peer'' ex_drain 0 [] [] ex_bus3 = (Inr ([], []), ex_bus3)"
proof -
  have "present_input.truncate (ex_drain 0) = ex_present"
    by (simp add: present_input.truncate_def ex_drain_def ex_present_def)
  moreover have "present_already_guarded ex_env ex_present ''peer'' ex_bus3 = (Inr ([], None), ex_bus3)"
    by (rule present_Inr [OF ex_presented_empty])
  moreover have "validate_session_id (di_acting (ex_drain 0)) = Inr (di_acting (ex_drain 0))"
    by (simp add: validate_session_id_def is_session_id_def ex_drain_def lower_char_def evaluate)
  moreover have "wake_guard ex_env ''peer'' (pi_session (ex_drain 0)) ex_bus3 = Inr ()"
    by (simp add: wake_guard_def ex_nodes ex_bus3_parts ex_channel ex_drain_def)
  ultimately have "drain ex_env (ex_drain 0) ''peer'' ex_bus3 = (Inr ([], None, None), ex_bus3)"
    by (subst drain_step) (simp_all add: ex_nodes ex_bus3_parts)
  then show ?thesis by (subst drain_loop.simps) simp
qed

lemma drain_loop_ends_witness:
  "\<exists>acked receipts bus. drain_loop ex_env ''peer'' ex_drain 0 [] [] ex_bus3 = (Inr (acked, receipts), bus) \<and>
     inbox_matching (mb_events bus) ''peer'' (Some ''w1'') (items_of (mb_acks bus ex_channel)) = []"
proof -
  have ses: "pi_session (ex_drain k) = Some ''w1''" "1 \<le> pi_limit (ex_drain k)" for k
    by (simp_all add: ex_drain_def)
  show ?thesis
    using drain_loop_ends [where inputs = ex_drain and node = "''peer''", OF ex_history3 ex_apart(1,2) ses]
    by (auto simp: ex_drained ex_channel)
qed

text \<open>The message is acknowledged by its session, and still the inbox cannot be emptied.\<close>

lemma bound_mail_blocks_emptying_witness:
  "record_key (ex_message uuid1) \<in> set (items_of (mb_acks ex_bus3 ex_channel)) \<and>
   (\<exists>err bus. empty_inbox ex_env ''peer'' ''seat-1'' ex_drain ex_bus3 = (Inl err, bus))"
proof
  show "record_key (ex_message uuid1) \<in> set (items_of (mb_acks ex_bus3 ex_channel))"
    by (simp add: ex_bus3_parts ex_items ex_message_members)
  show "\<exists>err bus. empty_inbox ex_env ''peer'' ''seat-1'' ex_drain ex_bus3 = (Inl err, bus)"
    by (rule bound_mail_blocks_emptying [OF ex_history3 ex_apart(1), of "ex_message uuid1"])
      (simp_all add: ex_bus3_parts envelopes_def retracted_ids_def ex_message_members
        is_kind_unique [OF ex_message_members(4)])
qed

end
