(* ===== verification/Iso_Time.thy ===== *)
theory Iso_Time
  imports Record_Schema
begin

text \<open>
  Rendering an instant the way every writer of the program does,
  \<open>value.isoformat(timespec="milliseconds").replace("+00:00", "Z")\<close> on an aware UTC \<open>datetime\<close>, and
  what its reader \<open>datetime.fromisoformat\<close> (\<open>iso_instant\<close> of \<open>Json_Values\<close>) gets back: the instant
  without its microseconds.  Instants count microseconds from the first day of year 1 up to the last
  one of year 9999, which is the range of \<open>datetime\<close>.
\<close>

definition day_micros :: int where "day_micros = 86400000000"

definition last_instant :: int where "last_instant = 3652059 * 86400000000 - 1"

text \<open>\<open>aware + timedelta(...)\<close>: arithmetic outside the range of \<open>datetime\<close> raises \<open>OverflowError\<close>.\<close>

definition instant_plus :: "int \<Rightarrow> int \<Rightarrow> int res" where
  "instant_plus t micros =
     (if 0 \<le> t + micros \<and> t + micros \<le> last_instant then Inr (t + micros) else Inl (Uncaught ''OverflowError''))"

section \<open>Calendar\<close>

definition decimal_digit :: "int \<Rightarrow> char" where
  "decimal_digit d = char_of (nat (48 + d))"

fun pad :: "nat \<Rightarrow> int \<Rightarrow> string" where
  "pad 0 v = []"
| "pad (Suc n) v = pad n (v div 10) @ [decimal_digit (v mod 10)]"

fun month_at :: "int \<Rightarrow> int list \<Rightarrow> int \<Rightarrow> int \<times> int" where
  "month_at m [] r = (m, r + 1)"
| "month_at m (l # ls) r = (if r < l then (m, r + 1) else month_at (m + 1) ls (r - l))"

text \<open>Year, month and day of a day number, by cycles of 400, 100, 4 and 1 years.\<close>

definition civil_date :: "int \<Rightarrow> int \<times> int \<times> int" where
  "civil_date n =
     (let a = n div 146097; r = n mod 146097;
          b = r div 36524; s = r mod 36524;
          c = s div 1461; t = s mod 1461;
          d = t div 365; u = t mod 365;
          y = 400 * a + 100 * b + 4 * c + d
      in if b = 4 \<or> d = 4 then (y, 12, 31)
         else (y + 1, month_at 1 (month_lengths (y + 1)) u))"

definition iso_text :: "int \<Rightarrow> string" where
  "iso_text t =
     (let (y, m, d) = civil_date (t div day_micros);
          ms = t mod day_micros div 1000
      in pad 4 y @ ''-'' @ pad 2 m @ ''-'' @ pad 2 d @ ''T'' @
         pad 2 (ms div 3600000) @ '':'' @ pad 2 (ms div 60000 mod 60) @ '':'' @
         pad 2 (ms div 1000 mod 60) @ ''.'' @ pad 3 (ms mod 1000) @ ''Z'')"

section \<open>Digits\<close>

lemma digit_value_decimal:
  assumes "0 \<le> d" "d < 10"
  shows "digit_value (decimal_digit d) = d" "is_digit_char (decimal_digit d)"
proof -
  have "nat (48 + d) < 256" using assms by simp
  then have "(of_char (decimal_digit d) :: nat) = nat (48 + d)" by (simp add: decimal_digit_def)
  moreover have "(of_char (decimal_digit d) :: int) = int (of_char (decimal_digit d) :: nat)"
    by (simp only: of_nat_of_char)
  ultimately show "digit_value (decimal_digit d) = d" "is_digit_char (decimal_digit d)"
    using assms by (auto simp: digit_value_def is_digit_char_def in_range_def)
qed

lemma length_pad [simp]: "length (pad n v) = n"
  by (induction n arbitrary: v) simp_all

lemma digits_pad: "list_all is_digit_char (pad n v)"
  by (induction n arbitrary: v) (simp_all add: digit_value_decimal)

lemma digits_value_pad: "0 \<le> v \<Longrightarrow> v < 10 ^ n \<Longrightarrow> digits_value (pad n v) = v"
proof (induction n arbitrary: v)
  case (Suc n)
  have "v div 10 < 10 ^ n" using Suc.prems(2) by simp
  moreover have "0 \<le> v div 10" using Suc.prems(1) by simp
  ultimately have "digits_value (pad n (v div 10)) = v div 10" by (rule Suc.IH [rotated])
  then show ?case
    by (simp add: digits_value_def digit_value_decimal)
qed (simp add: digits_value_def)

lemma number_of_pad [simp]: "0 \<le> v \<Longrightarrow> v < 10 ^ n \<Longrightarrow> number_of_width n (pad n v) = Some v"
  by (simp add: number_of_width_def digits_pad digits_value_pad)

lemma pad_no_colon: "CHR '':'' \<notin> set (pad n v)"
  using digits_pad [of n v] by (auto simp: list_all_iff is_digit_char_def in_range_def)

section \<open>Dates\<close>

lemma month_at_bounds:
  assumes "month_at m ls r = (m', d)" "0 \<le> r" "r < sum_list ls" "\<forall>l \<in> set ls. 0 < l"
  shows "m \<le> m' \<and> m' < m + int (length ls) \<and> 1 \<le> d \<and> d \<le> ls ! nat (m' - m) \<and>
    sum_list (take (nat (m' - m)) ls) + d - 1 = r"
  using assms
proof (induction ls arbitrary: m r)
  case (Cons l ls)
  show ?case
  proof (cases "r < l")
    case True
    then show ?thesis using Cons.prems by auto
  next
    case False
    have "m + 1 \<le> m' \<and> m' < m + 1 + int (length ls) \<and> 1 \<le> d \<and> d \<le> ls ! nat (m' - (m + 1)) \<and>
        sum_list (take (nat (m' - (m + 1))) ls) + d - 1 = r - l"
      by (rule Cons.IH) (use False Cons.prems in auto)
    moreover have "nat (m' - m) = Suc (nat (m' - (m + 1)))" if "m + 1 \<le> m'" using that by simp
    ultimately show ?thesis by auto
  qed
qed simp

lemma month_lengths_facts:
  "length (month_lengths y) = 12" "\<forall>l \<in> set (month_lengths y). 0 < l"
  "sum_list (month_lengths y) = (if is_leap y then 366 else 365)"
  by (simp_all add: month_lengths_def)

lemma cycle_year:
  fixes a b c d :: int
  assumes "0 \<le> b" "b < 4" "0 \<le> c" "c < 25" "0 \<le> d" "d < 4"
  defines "z \<equiv> 400 * a + 100 * b + 4 * c + d"
  shows "z div 4 = 100 * a + 25 * b + c" "z div 100 = 4 * a + b" "z div 400 = a"
proof -
  show "z div 4 = 100 * a + 25 * b + c" by (rule int_div_pos_eq [of _ _ _ d]) (use assms in simp_all)
  show "z div 100 = 4 * a + b" by (rule int_div_pos_eq [of _ _ _ "4 * c + d"]) (use assms in simp_all)
  show "z div 400 = a" by (rule int_div_pos_eq [of _ _ _ "100 * b + 4 * c + d"]) (use assms in simp_all)
qed

lemma year_start:
  fixes a b c d :: int
  assumes "0 \<le> b" "b < 4" "0 \<le> c" "c < 25" "0 \<le> d" "d < 4"
  shows "ordinal_day (400 * a + 100 * b + 4 * c + d + 1) m k =
    146097 * a + 36524 * b + 1461 * c + 365 * d +
    (sum_list (take (nat (m - 1)) (month_lengths (400 * a + 100 * b + 4 * c + d + 1))) + k - 1)"
  using cycle_year [OF assms, of a] by (simp add: ordinal_day_def)

lemma sum_eleven_months: "sum_list (take 11 (month_lengths y)) = (if is_leap y then 335 else 334)"
  by (simp add: month_lengths_def)

text \<open>The cycles of a day number.\<close>

definition cycles :: "int \<Rightarrow> int \<Rightarrow> int \<Rightarrow> int \<Rightarrow> int \<Rightarrow> int \<Rightarrow> bool" where
  "cycles n a b c d u \<longleftrightarrow>
     n = 146097 * a + 36524 * b + 1461 * c + 365 * d + u \<and> 0 \<le> a \<and>
     (0 \<le> b \<and> b < 4 \<and> 0 \<le> c \<and> c < 25 \<and> 0 \<le> d \<and> d < 4 \<and> 0 \<le> u \<and> u < 365 \<or>
      0 \<le> b \<and> b < 4 \<and> 0 \<le> c \<and> c < 24 \<and> d = 4 \<and> u = 0 \<or>
      b = 4 \<and> c = 0 \<and> d = 0 \<and> u = 0)"

lemma cycles_of_day:
  assumes "0 \<le> n"
  shows "cycles n (n div 146097) (n mod 146097 div 36524) (n mod 146097 mod 36524 div 1461)
    (n mod 146097 mod 36524 mod 1461 div 365) (n mod 146097 mod 36524 mod 1461 mod 365)"
proof -
  define a r where "a = n div 146097" and "r = n mod 146097"
  define b s where "b = r div 36524" and "s = r mod 36524"
  define c t where "c = s div 1461" and "t = s mod 1461"
  define d u where "d = t div 365" and "u = t mod 365"
  have n: "n = 146097 * a + r" "0 \<le> r" "r < 146097" "0 \<le> a"
    using assms by (simp_all add: a_def r_def pos_imp_zdiv_nonneg_iff)
  have r: "r = 36524 * b + s" "0 \<le> s" "s < 36524" by (simp_all add: b_def s_def)
  have s: "s = 1461 * c + t" "0 \<le> t" "t < 1461" by (simp_all add: c_def t_def)
  have t: "t = 365 * d + u" "0 \<le> u" "u < 365" by (simp_all add: d_def u_def)
  have nonneg: "0 \<le> b" "0 \<le> c" "0 \<le> d" using n r s t by linarith+
  have "cycles n a b c d u"
  proof (cases "b = 4")
    case True
    with n(3) r have "s = 0" by linarith
    with s t nonneg have "c = 0" "t = 0" by linarith+
    with t nonneg have "d = 0" "u = 0" by linarith+
    with True n r s t \<open>c = 0\<close> show ?thesis by (simp add: cycles_def)
  next
    case False
    with n r have b: "b < 4" by linarith
    show ?thesis
    proof (cases "d = 4")
      case True
      with s(3) t have "u = 0" "t = 1460" by linarith+
      with s r have "c < 24" by linarith
      with True n r s t nonneg b \<open>u = 0\<close> show ?thesis by (simp add: cycles_def)
    next
      case False
      with s t have "d < 4" by linarith
      moreover have "c < 25" using r s by linarith
      ultimately show ?thesis using n r s t nonneg b by (simp add: cycles_def)
    qed
  qed
  then show ?thesis by (simp only: a_def r_def b_def s_def c_def t_def d_def u_def)
qed

lemma leap_fourth:
  fixes a b c :: int
  shows "0 \<le> c \<Longrightarrow> c < 24 \<Longrightarrow> is_leap (400 * a + 100 * b + 4 * c + 4)"
proof -
  assume c: "0 \<le> c" "c < 24"
  have four: "400 * a + 100 * b + 4 * c + 4 = 4 * (100 * a + 25 * b + c + 1)" by simp
  have "\<not> 100 dvd 4 * c + 4" using c by (auto dest: zdvd_imp_le)
  moreover have "400 * a + 100 * b + 4 * c + 4 = 100 * (4 * a + b) + (4 * c + 4)" by simp
  ultimately have "\<not> 100 dvd 400 * a + 100 * b + 4 * c + 4" by (simp only: dvd_add_right_iff dvd_triv_left simp_thms)
  then show ?thesis unfolding is_leap_def by (simp only: four dvd_triv_left simp_thms)
qed

lemma civil_date_ordinal:
  assumes "civil_date n = (y, m, k)" "0 \<le> n" "n < 3652059"
  shows "ordinal_day y m k = n \<and> 1 \<le> y \<and> y \<le> 9999 \<and> 1 \<le> m \<and> m \<le> 12 \<and> 1 \<le> k \<and>
    k \<le> month_lengths y ! nat (m - 1)"
proof -
  obtain a b c d u where cyc: "cycles n a b c d u" and date: "(y, m, k) =
      (if b = 4 \<or> d = 4 then (400 * a + 100 * b + 4 * c + d, 12, 31)
       else (400 * a + 100 * b + 4 * c + d + 1,
         month_at 1 (month_lengths (400 * a + 100 * b + 4 * c + d + 1)) u))"
    using cycles_of_day [OF assms(2)] assms(1) by (auto simp: civil_date_def Let_def)
  have n: "n = 146097 * a + 36524 * b + 1461 * c + 365 * d + u" "0 \<le> a" "a \<le> 24"
    using cyc assms(3) by (auto simp: cycles_def)
  consider (plain) "0 \<le> b" "b < 4" "0 \<le> c" "c < 25" "0 \<le> d" "d < 4" "0 \<le> u" "u < 365"
    | (fourth) "0 \<le> b" "b < 4" "0 \<le> c" "c < 24" "d = 4" "u = 0"
    | (last) "b = 4" "c = 0" "d = 0" "u = 0"
    using cyc by (auto simp: cycles_def)
  then show ?thesis
  proof cases
    case plain
    define z where "z = 400 * a + 100 * b + 4 * c + d"
    have ym: "y = z + 1" "month_at 1 (month_lengths y) u = (m, k)"
      using date plain by (auto simp: z_def)
    have mk: "1 \<le> m \<and> m < 13 \<and> 1 \<le> k \<and> k \<le> month_lengths y ! nat (m - 1) \<and>
        sum_list (take (nat (m - 1)) (month_lengths y)) + k - 1 = u"
      using month_at_bounds [OF ym(2)] plain by (simp add: month_lengths_facts)
    have "ordinal_day y m k = n"
      using year_start [OF plain(1-6), of a m k] mk by (simp add: ym(1) z_def n(1))
    moreover have "y \<le> 9999"
    proof (rule ccontr)
      assume "\<not> y \<le> 9999"
      then have "9999 \<le> 400 * a + 100 * b + 4 * c + d" by (simp add: ym(1) z_def)
      moreover from this n(3) plain have "a = 24" by linarith
      moreover from calculation plain have "b = 3" by linarith
      moreover from calculation plain have "c = 24" by linarith
      ultimately show False using n(1) assms(3) plain by linarith
    qed
    ultimately show ?thesis using mk n(2) plain by (simp add: ym(1) z_def)
  next
    case fourth
    have ym: "y = 400 * a + 100 * b + 4 * c + 3 + 1" "m = 12" "k = 31" using date fourth by auto
    have "is_leap y" using leap_fourth [OF fourth(3,4), of a b] by (simp add: ym(1) add.commute add.left_commute)
    then show ?thesis
      using year_start [of b c 3 a 12 31] fourth n(2,3)
      by (simp add: sum_eleven_months ym n(1) month_lengths_def)
  next
    case last
    have ym: "y = 400 * a + 100 * 3 + 4 * 24 + 3 + 1" "m = 12" "k = 31" using date last by auto
    have "is_leap y" by (simp add: ym(1) is_leap_def)
    moreover have "a \<noteq> 24" using n(1) assms(3) last by auto
    ultimately show ?thesis
      using year_start [of 3 24 3 a 12 31] n(2,3)
      by (simp add: sum_eleven_months ym n(1) month_lengths_def last)
  qed
qed

section \<open>Reading an instant back\<close>

lemma iso_date_fields:
  assumes "length a = 4" "length b = 2" "length c = 2"
  shows "iso_date (a @ ''-'' @ b @ ''-'' @ c) =
    (case (number_of_width 4 a, number_of_width 2 b, number_of_width 2 c) of
       (Some y, Some m, Some d) \<Rightarrow>
         if 1 \<le> y \<and> 1 \<le> m \<and> m \<le> 12 \<and> 1 \<le> d \<and> d \<le> month_lengths y ! nat (m - 1)
           then Some (ordinal_day y m d) else None
     | _ \<Rightarrow> None)"
  using assms by (simp add: iso_date_def nth_append)

lemma month_length_max:
  assumes "1 \<le> m" "m \<le> 12"
  shows "month_lengths y ! nat (m - 1) \<le> 31"
proof -
  have "nat (m - 1) < length (month_lengths y)" using assms by (simp add: month_lengths_facts nat_less_iff)
  then have "month_lengths y ! nat (m - 1) \<in> set (month_lengths y)" by (rule nth_mem)
  then show ?thesis by (auto simp: month_lengths_def)
qed

lemma iso_date_text:
  assumes "civil_date n = (y, m, d)" "0 \<le> n" "n < 3652059"
  shows "iso_date (pad 4 y @ ''-'' @ pad 2 m @ ''-'' @ pad 2 d) = Some n"
proof -
  note date = civil_date_ordinal [OF assms]
  have "d \<le> 31" using date month_length_max [of m y] by linarith
  with date have "number_of_width 4 (pad 4 y) = Some y" "number_of_width 2 (pad 2 m) = Some m"
      "number_of_width 2 (pad 2 d) = Some d"
    by simp_all
  with date show ?thesis by (simp only: iso_date_fields length_pad) simp
qed

lemma bounded_pad: "0 \<le> v \<Longrightarrow> v < limit \<Longrightarrow> v < 100 \<Longrightarrow> bounded_number limit (pad 2 v) = Some v"
  by (simp add: bounded_number_def)

lemma split_on_absent: "c \<notin> set r \<Longrightarrow> split_on c r = [r]"
  by (induction r) auto

lemma split_on_field: "c \<notin> set h \<Longrightarrow> split_on c (h @ c # rest) = h # split_on c rest"
  by (induction h) auto

lemma iso_time_fields:
  assumes "CHR '':'' \<notin> set h" "CHR '':'' \<notin> set m" "CHR '':'' \<notin> set r"
  shows "iso_time (h @ '':'' @ m @ '':'' @ r) =
    (case (bounded_number 24 h, bounded_number 60 m, iso_seconds r) of
       (Some hv, Some mv, Some u) \<Rightarrow> Some (3600000000 * hv + 60000000 * mv + u)
     | _ \<Rightarrow> None)"
  using assms by (simp add: iso_time_def split_on_field split_on_absent)

lemma iso_seconds_text:
  assumes "0 \<le> s" "s < 60" "0 \<le> f" "f < 1000"
  shows "iso_seconds (pad 2 s @ ''.'' @ pad 3 f) = Some (1000000 * s + 1000 * f)"
proof -
  have "bounded_number 60 (pad 2 s) = Some s" "number_of_width 3 (pad 3 f) = Some f"
    using assms by (simp_all add: bounded_pad)
  then show ?thesis by (simp add: iso_seconds_def iso_fraction_def nth_append)
qed

lemma iso_time_text:
  assumes "0 \<le> ms" "ms < 86400000"
  shows "iso_time (pad 2 (ms div 3600000) @ '':'' @ pad 2 (ms div 60000 mod 60) @ '':'' @
      pad 2 (ms div 1000 mod 60) @ ''.'' @ pad 3 (ms mod 1000)) = Some (1000 * ms)"
proof -
  define s1 where "s1 = ms div 1000"
  define m1 where "m1 = s1 div 60"
  have quot: "ms div 60000 = m1" "ms div 3600000 = m1 div 60"
    using zdiv_zmult2_eq [of 60 ms 1000] zdiv_zmult2_eq [of 60 s1 60] zdiv_zmult2_eq [of 3600 ms 1000]
    by (simp_all add: s1_def m1_def)
  have total: "ms = 1000 * s1 + ms mod 1000" "s1 = 60 * m1 + s1 mod 60" "m1 = 60 * (m1 div 60) + m1 mod 60"
    by (simp_all add: s1_def m1_def)
  have sum: "3600000000 * (m1 div 60) + 60000000 * (m1 mod 60) +
      (1000000 * (s1 mod 60) + 1000 * (ms mod 1000)) = 1000 * ms"
    using total by linarith
  have ranges: "0 \<le> m1 div 60" "m1 div 60 < 24"
    using assms quot by (simp_all add: pos_imp_zdiv_nonneg_iff flip: quot(2))
  have "CHR '':'' \<notin> set (pad 2 (s1 mod 60) @ ''.'' @ pad 3 (ms mod 1000))" using pad_no_colon by auto
  moreover have "bounded_number 24 (pad 2 (m1 div 60)) = Some (m1 div 60)"
    "bounded_number 60 (pad 2 (m1 mod 60)) = Some (m1 mod 60)"
    using ranges by (simp_all add: bounded_pad)
  moreover have "iso_seconds (pad 2 (s1 mod 60) @ ''.'' @ pad 3 (ms mod 1000)) =
      Some (1000000 * (s1 mod 60) + 1000 * (ms mod 1000))"
    by (rule iso_seconds_text) simp_all
  ultimately show ?thesis
    using sum by (simp only: quot iso_time_fields pad_no_colon simp_thms option.case prod.case flip: s1_def)
qed

text \<open>A reader gets the instant of a text back, in whole milliseconds.\<close>

lemma shape_of_digits:
  assumes "list_all is_digit_char [a, b, c, d, e, f, g, h, i, j, k, l, m, n, p, q, r]"
  shows "timestamp_shape ([a, b, c, d] @ ''-'' @ [e, f] @ ''-'' @ [g, h] @ ''T'' @ [i, j] @ '':'' @ [k, l] @
    '':'' @ [m, n] @ ''.'' @ [p, q, r] @ ''Z'')"
  using assms by (simp add: timestamp_shape_def)

lemma pad_digits:
  "\<exists>a b. pad 2 v = [a, b] \<and> list_all is_digit_char [a, b]"
  "\<exists>a b c. pad 3 v = [a, b, c] \<and> list_all is_digit_char [a, b, c]"
  "\<exists>a b c d. pad 4 v = [a, b, c, d] \<and> list_all is_digit_char [a, b, c, d]"
  by (simp_all add: eval_nat_numeral digit_value_decimal)

lemma iso_text_shape: "timestamp_shape (iso_text t)"
proof -
  obtain y m d where date: "civil_date (t div day_micros) = (y, m, d)" by (cases "civil_date (t div day_micros)")
  define ms where "ms = t mod day_micros div 1000"
  obtain y1 y2 y3 y4 where y: "pad 4 y = [y1, y2, y3, y4]" "list_all is_digit_char [y1, y2, y3, y4]"
    using pad_digits(3) by blast
  obtain m1 m2 where m: "pad 2 m = [m1, m2]" "list_all is_digit_char [m1, m2]" using pad_digits(1) by blast
  obtain d1 d2 where d: "pad 2 d = [d1, d2]" "list_all is_digit_char [d1, d2]" using pad_digits(1) by blast
  obtain h1 h2 where h: "pad 2 (ms div 3600000) = [h1, h2]" "list_all is_digit_char [h1, h2]"
    using pad_digits(1) by blast
  obtain i1 i2 where i: "pad 2 (ms div 60000 mod 60) = [i1, i2]" "list_all is_digit_char [i1, i2]"
    using pad_digits(1) by blast
  obtain s1 s2 where s: "pad 2 (ms div 1000 mod 60) = [s1, s2]" "list_all is_digit_char [s1, s2]"
    using pad_digits(1) by blast
  obtain f1 f2 f3 where f: "pad 3 (ms mod 1000) = [f1, f2, f3]" "list_all is_digit_char [f1, f2, f3]"
    using pad_digits(2) by blast
  have rendered: "iso_text t = [y1, y2, y3, y4] @ ''-'' @ [m1, m2] @ ''-'' @ [d1, d2] @ ''T'' @ [h1, h2] @ '':'' @
      [i1, i2] @ '':'' @ [s1, s2] @ ''.'' @ [f1, f2, f3] @ ''Z''"
    by (simp only: iso_text_def Let_def date prod.case y m d h i s f flip: ms_def)
  show ?thesis
    unfolding rendered by (rule shape_of_digits) (use y m d h i s f in simp)
qed

lemma iso_text_instant:
  assumes "0 \<le> t" "t \<le> last_instant"
  shows "iso_instant (butlast (iso_text t)) = Some (t - t mod 1000)"
proof -
  define n where "n = t div day_micros"
  define ms where "ms = t mod day_micros div 1000"
  have n: "0 \<le> n" "n < 3652059"
    using assms by (simp_all add: n_def day_micros_def last_instant_def pos_imp_zdiv_nonneg_iff)
  have ms: "0 \<le> ms" "ms < 86400000" by (simp_all add: ms_def day_micros_def pos_imp_zdiv_nonneg_iff)
  obtain y m d where date: "civil_date n = (y, m, d)" by (cases "civil_date n")
  have "t mod day_micros mod 1000 = t mod 1000"
    by (rule mod_mod_cancel) (simp add: day_micros_def)
  then have t: "t - t mod 1000 = day_micros * n + 1000 * ms"
    using mult_div_mod_eq [of day_micros t] mult_div_mod_eq [of 1000 "t mod day_micros"]
    unfolding n_def ms_def by linarith
  let ?date = "pad 4 y @ ''-'' @ pad 2 m @ ''-'' @ pad 2 d"
  let ?time = "pad 2 (ms div 3600000) @ '':'' @ pad 2 (ms div 60000 mod 60) @ '':'' @
      pad 2 (ms div 1000 mod 60) @ ''.'' @ pad 3 (ms mod 1000)"
  have "iso_text t = (?date @ ''T'' @ ?time) @ ''Z''"
    by (simp add: iso_text_def date flip: n_def ms_def)
  then have "butlast (iso_text t) = ?date @ ''T'' @ ?time" by (simp only: butlast_snoc)
  moreover have "take 10 (?date @ ''T'' @ ?time) = ?date" "drop 11 (?date @ ''T'' @ ?time) = ?time" by simp_all
  ultimately show ?thesis
    using iso_date_text [OF date n] iso_time_text [OF ms]
    by (simp only: iso_instant_def) (simp add: t day_micros_def)
qed

lemma iso_text_timestamp:
  assumes "0 \<le> t" "t \<le> last_instant"
  shows "is_timestamp (iso_text t)" "timestamp_value (iso_text t) = t - t mod 1000"
  using iso_text_shape [of t] iso_text_instant [OF assms]
  by (simp_all add: is_timestamp_def timestamp_value_def)

lemma pad_numeral [evaluate]: "pad (numeral k) v = pad (pred_numeral k) (v div 10) @ [decimal_digit (v mod 10)]"
  by (simp add: numeral_eq_Suc)

lemma decimal_chars [evaluate]:
  "char_of (48 :: nat) = CHR ''0''" "char_of (49 :: nat) = CHR ''1''" "char_of (50 :: nat) = CHR ''2''"
  "char_of (51 :: nat) = CHR ''3''" "char_of (52 :: nat) = CHR ''4''" "char_of (53 :: nat) = CHR ''5''"
  "char_of (54 :: nat) = CHR ''6''" "char_of (55 :: nat) = CHR ''7''" "char_of (56 :: nat) = CHR ''8''"
  "char_of (57 :: nat) = CHR ''9''"
  by (simp_all add: char_of_def bit_0)

lemmas [evaluate] =
  day_micros_def last_instant_def instant_plus_def decimal_digit_def civil_date_def iso_text_def

end
