(* ===== verification/Credential_Leases.thy ===== *)
theory Credential_Leases
  imports Ledger_Rows Iso_Time Planes
begin

text \<open>
  The credential leases of \<open>floati/credential_leases.py\<close>: the ledger \<open>credentials/leases.jsonl\<close> with
  its projection and operations, and the service that issues a lease from a capability snapshot and
  the alias authority and delivers its secret once.

  An instant counts microseconds from the first day of year 1 (\<open>Iso_Time\<close>), for the authority rows of
  \<open>Planes\<close> too.  Fresh UUIDs, the run records, the declared worker profiles, the helper process and
  the pipe are inputs.  \<open>deliver\<close> is an operation on the rows of the
  ledger and the trace of the helper processes it has started: it may leave a consumption or a started
  helper behind and still raise.
\<close>

section \<open>Ledger\<close>

definition CREDENTIAL_LEASE_KINDS :: "string list" where
  "CREDENTIAL_LEASE_KINDS =
    [''credential_lease_granted'', ''credential_lease_consumed'', ''credential_lease_revoked'']"

definition DELIVERY_MODES :: "string list" where
  "DELIVERY_MODES = [''inherited_fd'', ''helper_response'']"

definition MAX_HELPER_RESPONSE_BYTES :: nat where "MAX_HELPER_RESPONSE_BYTES = 8192"

definition lease_contract :: "string \<Rightarrow> json row_contract" where
  "lease_contract tenant = rows_contract (validate_record SPECS tenant CREDENTIAL_LEASE_KINDS)"

record lease_book =
  lb_grants :: "(string \<times> json) list"
  lb_consumed :: "(string \<times> json) list"
  lb_revoked :: "(string \<times> json) list"

definition empty_book :: lease_book where
  "empty_book = \<lparr>lb_grants = [], lb_consumed = [], lb_revoked = []\<rparr>"

text \<open>The loop body of \<open>_project\<close>.\<close>

definition lease_step :: "bool \<Rightarrow> lease_book \<Rightarrow> json \<Rightarrow> lease_book res" where
  "lease_step integrity book r =
     (if is_kind ''credential_lease_granted'' r
        then Inr (book\<lparr>lb_grants := AList.update (record_key r) r (lb_grants book)\<rparr>)
      else let lease = text_at r ''lease_id'' in
        guardR (map_of (lb_grants book) lease = None)
          (refusal integrity ''credential_lease_forward_reference'')
       (if is_kind ''credential_lease_consumed'' r
          then guardR (map_of (lb_consumed book) lease \<noteq> None)
                 (refusal integrity ''credential_lease_duplicate_lifecycle'')
              (Inr (book\<lparr>lb_consumed := AList.update lease r (lb_consumed book)\<rparr>))
          else guardR (map_of (lb_revoked book) lease \<noteq> None)
                 (refusal integrity ''credential_lease_duplicate_lifecycle'')
              (Inr (book\<lparr>lb_revoked := AList.update lease r (lb_revoked book)\<rparr>))))"

definition project_leases :: "bool \<Rightarrow> json list \<Rightarrow> lease_book res" where
  "project_leases integrity records = replay (lease_step integrity) empty_book records"

text \<open>\<open>_parse_time\<close> of a member the validator has accepted as a timestamp; \<open>fromisoformat\<close> also reads
  other texts, which no validated row holds.\<close>

definition lease_time :: "json \<Rightarrow> string \<Rightarrow> int res" where
  "lease_time r name =
     (if is_timestamp (text_at r name) then Inr (timestamp_value (text_at r name)) else Inl NotModelled)"

definition active_from :: "json list \<Rightarrow> string \<Rightarrow> int \<Rightarrow> json res" where
  "active_from records lease current =
     bindR (project_leases True records) (\<lambda>book.
       case map_of (lb_grants book) lease of
         None \<Rightarrow> Inl (ProtocolRefusal ''credential_lease_unknown'')
       | Some grant \<Rightarrow>
           if map_of (lb_revoked book) lease \<noteq> None
             then Inl (ProtocolRefusal ''credential_lease_revoked'')
           else if map_of (lb_consumed book) lease \<noteq> None
             then Inl (ProtocolRefusal ''credential_lease_already_consumed'')
           else bindR (lease_time grant ''expires_at'') (\<lambda>expires.
             if current \<ge> expires then Inl (ProtocolRefusal ''credential_lease_expired'')
             else Inr grant))"

section \<open>Operations of the ledger\<close>

text \<open>The arguments \<open>_binding\<close> checks; that they are texts and integers is their type here.\<close>

record lease_terms =
  lt_attempt :: string
  lt_principal :: string
  lt_capability :: string
  lt_alias :: string
  lt_ttl :: int
  lt_epoch :: int
  lt_authority_record :: string
  lt_capability_set :: string

definition binding_ok :: "lease_terms \<Rightarrow> bool" where
  "binding_ok t \<longleftrightarrow>
     is_record_id ''attempt-'' (lt_attempt t) \<and> is_identifier (lt_principal t) \<and>
     is_capability (lt_capability t) \<and> is_identifier (lt_alias t) \<and>
     1 \<le> lt_ttl t \<and> lt_ttl t \<le> MAX_TTL_SECONDS \<and>
     1 \<le> lt_epoch t \<and> lt_epoch t \<le> 2 ^ 63 - 1 \<and>
     is_record_id ''authority-'' (lt_authority_record t) \<and>
     is_record_id ''capability-set-bound-'' (lt_capability_set t)"

definition grant_row :: "string \<Rightarrow> string \<Rightarrow> lease_terms \<Rightarrow> int \<Rightarrow> int \<Rightarrow> json" where
  "grant_row tenant uuid t current expires = row_of
     [(''schema_version'', JInt 1), (''id'', JStr (''credential-lease-'' @ uuid)),
      (''tenant_id'', JStr tenant), (''timestamp'', JStr (iso_text current)),
      (''kind'', JStr ''credential_lease_granted''), (''attempt_id'', JStr (lt_attempt t)),
      (''principal'', JStr (lt_principal t)), (''capability'', JStr (lt_capability t)),
      (''secret_alias'', JStr (lt_alias t)), (''ttl_seconds'', JInt (lt_ttl t)),
      (''expires_at'', JStr (iso_text expires)), (''authority_epoch'', JInt (lt_epoch t)),
      (''authority_record_id'', JStr (lt_authority_record t)),
      (''capability_set_bound_id'', JStr (lt_capability_set t))]"

definition issue_lease ::
    "string \<Rightarrow> string \<Rightarrow> lease_terms \<Rightarrow> int \<Rightarrow> json list \<Rightarrow> (json \<times> json list) res" where
  "issue_lease tenant uuid t current rows =
     guardR (\<not> binding_ok t) (ProtocolRefusal ''credential_lease_binding_invalid'')
    (bindR (instant_plus current (seconds (lt_ttl t))) (\<lambda>expires.
       let r = grant_row tenant uuid t current expires in
       transact (lease_contract tenant) rows
         (\<lambda>records. bindR (project_leases True records) (\<lambda>_. Inr (r, Some r)))))"

definition active_lease :: "string \<Rightarrow> string \<Rightarrow> int \<Rightarrow> json list \<Rightarrow> json res" where
  "active_lease tenant lease current rows =
     bindR (decode_path_records (lease_contract tenant) rows) (\<lambda>records.
       active_from records lease current)"

definition consumed_row :: "string \<Rightarrow> string \<Rightarrow> string \<Rightarrow> string \<Rightarrow> int \<Rightarrow> json" where
  "consumed_row tenant uuid lease mode current = row_of
     [(''schema_version'', JInt 1), (''id'', JStr (''credential-lease-consumed-'' @ uuid)),
      (''tenant_id'', JStr tenant), (''timestamp'', JStr (iso_text current)),
      (''kind'', JStr ''credential_lease_consumed''), (''lease_id'', JStr lease),
      (''delivery_mode'', JStr mode), (''consumed_at_testimony'', JStr (iso_text current))]"

definition consume_lease ::
    "string \<Rightarrow> string \<Rightarrow> string \<Rightarrow> string \<Rightarrow> int \<Rightarrow> json list \<Rightarrow> (json \<times> json list) res" where
  "consume_lease tenant uuid lease mode current rows =
     guardR (mode \<notin> set DELIVERY_MODES) (ProtocolRefusal ''credential_lease_delivery_unavailable'')
    (let r = consumed_row tenant uuid lease mode current in
     transact (lease_contract tenant) rows
       (\<lambda>records. bindR (active_from records lease current) (\<lambda>_. Inr (r, Some r))))"

definition revoked_row :: "string \<Rightarrow> string \<Rightarrow> string \<Rightarrow> int \<Rightarrow> int \<Rightarrow> json" where
  "revoked_row tenant uuid lease epoch current = row_of
     [(''schema_version'', JInt 1), (''id'', JStr (''credential-lease-revoked-'' @ uuid)),
      (''tenant_id'', JStr tenant), (''timestamp'', JStr (iso_text current)),
      (''kind'', JStr ''credential_lease_revoked''), (''lease_id'', JStr lease),
      (''authority_epoch'', JInt epoch), (''revoked_at_testimony'', JStr (iso_text current))]"

definition revocable :: "string \<Rightarrow> string \<Rightarrow> int \<Rightarrow> lease_book \<Rightarrow> string \<times> json \<Rightarrow> bool" where
  "revocable alias owner epoch book = (\<lambda>(lease, grant).
     member_of grant ''secret_alias'' = JStr alias \<and> member_of grant ''principal'' = JStr owner \<and>
     member_of grant ''authority_epoch'' = JInt epoch \<and> map_of (lb_revoked book) lease = None)"

text \<open>\<open>fresh i\<close> is the UUID of the \<open>i\<close>th row of the batch.\<close>

definition revoke_alias ::
    "string \<Rightarrow> (nat \<Rightarrow> string) \<Rightarrow> string \<Rightarrow> string \<Rightarrow> int \<Rightarrow> int \<Rightarrow> json list \<Rightarrow> (json list \<times> json list) res" where
  "revoke_alias tenant fresh alias owner epoch current rows =
     guardR (\<not> is_identifier alias \<or> \<not> is_identifier owner \<or> epoch < 1)
       (ProtocolRefusal ''credential_lease_binding_invalid'')
    (transact_records (lease_contract tenant) rows (\<lambda>records.
       bindR (project_leases True records) (\<lambda>book.
         let leases = map fst (filter (revocable alias owner epoch book) (lb_grants book));
             batch = map (\<lambda>(i, lease). revoked_row tenant (fresh i) lease epoch current)
                       (enumerate 0 leases)
         in Inr (batch, batch))))"

section \<open>The service\<close>

definition lease_authority ::
    "string \<Rightarrow> (interval_row \<Rightarrow> nat) \<Rightarrow> string \<Rightarrow> string \<Rightarrow> string \<Rightarrow> int \<Rightarrow> int \<Rightarrow> interval_store \<Rightarrow>
     interval_row res" where
  "lease_authority tenant flen absent_code alias owner epoch current authorities =
     (case exact_tail tenant flen alias authorities of
        Inl e \<Rightarrow>
          if e = ProtocolRefusal ''authority_missing'' then Inl (ProtocolRefusal absent_code) else Inl e
      | Inr authority \<Rightarrow>
          if iv_holder authority \<noteq> owner \<or> iv_epoch authority \<noteq> epoch
            then Inl (ProtocolRefusal ''credential_lease_authority_mismatch'')
          else if iv_state authority \<noteq> Active \<or> current < parse_time (iv_renewed_at authority) \<or>
                  current \<ge> parse_time (iv_expires_at authority)
            then Inl (ProtocolRefusal ''credential_lease_authority_inactive'')
          else Inr authority)"

text \<open>Python equality of decoded rows ignores the order of their members.  A set of capability names
  cannot be built from unhashable ones.\<close>

definition grant_names :: "json list \<Rightarrow> json list res" where
  "grant_names effective =
     (let names = map (\<lambda>g. member_of g ''capability_name'')
                    (filter (\<lambda>g. case g of JObj _ \<Rightarrow> True | _ \<Rightarrow> False) effective)
      in if list_all hashable names then Inr names else Inl (Uncaught ''TypeError''))"

definition snapshot_check :: "json list \<Rightarrow> json \<Rightarrow> string \<Rightarrow> string \<Rightarrow> string \<Rightarrow> string res" where
  "snapshot_check run_rows snapshot attempt owner capability =
     (case record_id snapshot of
        JStr sid \<Rightarrow>
          (case List.find (\<lambda>r. record_id r = JStr sid) run_rows of
             None \<Rightarrow> Inl (ProtocolRefusal ''credential_lease_snapshot_missing'')
           | Some persisted \<Rightarrow>
               if canon persisted \<noteq> canon snapshot
                 then Inl (ProtocolRefusal ''credential_lease_snapshot_mismatch'')
               else if \<not> is_kind ''capability_set_bound'' snapshot \<or>
                       member_of snapshot ''attempt_id'' \<noteq> JStr attempt \<or>
                       member_of snapshot ''chosen_worker'' \<noteq> JStr owner
                 then Inl (ProtocolRefusal ''credential_lease_snapshot_mismatch'')
               else (case member_of snapshot ''effective_grants'' of
                       JArr effective \<Rightarrow>
                         bindR (grant_names effective) (\<lambda>names.
                           if JStr capability \<notin> set names
                             then Inl (ProtocolRefusal ''credential_lease_capability_missing'')
                           else Inr sid)
                     | _ \<Rightarrow> Inl (ProtocolRefusal ''credential_lease_capability_missing'')))
      | _ \<Rightarrow> Inl (ProtocolRefusal ''credential_lease_snapshot_missing''))"

definition service_issue ::
    "string \<Rightarrow> (interval_row \<Rightarrow> nat) \<Rightarrow> string \<Rightarrow> json list \<Rightarrow> json \<Rightarrow> lease_terms \<Rightarrow> int \<Rightarrow>
     interval_store \<Rightarrow> json list \<Rightarrow> (json \<times> json list) res" where
  "service_issue tenant flen uuid run_rows snapshot t current authorities rows =
     bindR (snapshot_check run_rows snapshot (lt_attempt t) (lt_principal t) (lt_capability t)) (\<lambda>sid.
     bindR (lease_authority tenant flen ''credential_lease_authority_missing''
              (lt_alias t) (lt_principal t) (lt_epoch t) current authorities) (\<lambda>authority.
       issue_lease tenant uuid
         (t\<lparr>lt_authority_record := iv_id authority, lt_capability_set := sid\<rparr>) current rows))"

text \<open>The helper process: it could not be run or timed out, or exits with a code and an output.\<close>

datatype helper_run = HelperFailed | HelperExit int string

definition helper_secret :: "helper_run \<Rightarrow> string res" where
  "helper_secret helper =
     (case helper of
        HelperFailed \<Rightarrow> Inl (ProtocolRefusal ''credential_lease_helper_refused'')
      | HelperExit code output \<Rightarrow>
          if code \<noteq> 0 \<or> \<not> (2 \<le> length output \<and> length output \<le> MAX_HELPER_RESPONSE_BYTES + 1) \<or>
             last output \<noteq> CHR 0x0A \<or> count_list output CHR 0x0A \<noteq> 1
            then Inl (ProtocolRefusal ''credential_lease_helper_refused'')
          else Inr (butlast output))"

definition delivery_mode :: "(string \<times> string option) list \<Rightarrow> string \<Rightarrow> string res" where
  "delivery_mode profiles name =
     (case map_of profiles name of
        None \<Rightarrow> Inl (ProtocolRefusal ''credential_lease_adapter_undeclared'')
      | Some None \<Rightarrow> Inl (ProtocolRefusal ''credential_lease_adapter_undeclared'')
      | Some (Some isolation) \<Rightarrow>
          if isolation = ''process'' then Inr ''inherited_fd''
          else if isolation = ''helper'' then Inr ''helper_response''
          else if isolation = ''none'' then Inl (ProtocolRefusal ''credential_lease_delivery_unavailable'')
          else Inl (Uncaught ''KeyError''))"

record delivery =
  dl_mode :: string
  dl_receipt :: json
  dl_secret :: string

record delivery_input =
  di_uuid :: string
  di_profiles :: "(string \<times> string option) list"
  di_profile :: string
  di_argv :: "string list"
  di_helper :: helper_run
  di_pipe_ok :: bool
  di_now :: int

text \<open>What a delivery acts on: the rows of the ledger, and every call of \<open>subprocess.run\<close> so far, with the
  lease it serves, the alias on its standard input and the rows of the ledger when it is made.\<close>

record helper_start =
  hs_lease :: string
  hs_alias :: string
  hs_rows :: "json list"

record lease_host =
  lh_rows :: "json list"
  lh_starts :: "helper_start list"

text \<open>An operation of the ledger writes only when it returns.\<close>

definition on_rows :: "(json list \<Rightarrow> ('a \<times> json list) res) \<Rightarrow> (lease_host, 'a) act" where
  "on_rows f host =
     (case f (lh_rows host) of
        Inl e \<Rightarrow> (Inl e, host)
      | Inr (x, rows) \<Rightarrow> (Inr x, host\<lparr>lh_rows := rows\<rparr>))"

text \<open>\<open>_helper_secret\<close>.\<close>

definition argv_refused :: "string list \<Rightarrow> bool" where
  "argv_refused argv \<longleftrightarrow> argv = [] \<or> list_ex (\<lambda>a. a = [] \<or> CHR 0x00 \<in> set a) argv"

definition run_helper :: "delivery_input \<Rightarrow> string \<Rightarrow> string \<Rightarrow> (lease_host, string) act" where
  "run_helper i lease alias host =
     (if argv_refused (di_argv i) then (Inl (ProtocolRefusal ''credential_lease_helper_refused''), host)
      else (helper_secret (di_helper i),
            host\<lparr>lh_starts := lh_starts host @ [\<lparr>hs_lease = lease, hs_alias = alias, hs_rows = lh_rows host\<rparr>]\<rparr>))"

text \<open>What the reader of an inherited descriptor finds is the secret, as in a helper response.\<close>

definition hand_over :: "delivery_input \<Rightarrow> string \<Rightarrow> json \<Rightarrow> string \<Rightarrow> delivery res" where
  "hand_over i mode receipt secret =
     (if mode = ''inherited_fd'' \<and> \<not> di_pipe_ok i
        then Inl (ProtocolRefusal ''credential_lease_delivery_unavailable'')
      else Inr \<lparr>dl_mode = mode, dl_receipt = receipt, dl_secret = secret\<rparr>)"

definition deliver ::
    "string \<Rightarrow> (interval_row \<Rightarrow> nat) \<Rightarrow> interval_store \<Rightarrow> delivery_input \<Rightarrow> string \<Rightarrow>
     (lease_host, delivery) act" where
  "deliver tenant flen authorities i lease =
     bindA (readA (\<lambda>_. delivery_mode (di_profiles i) (di_profile i))) (\<lambda>mode.
     bindA (readA (\<lambda>host. active_lease tenant lease (di_now i) (lh_rows host))) (\<lambda>grant.
     bindA (readA (\<lambda>_. lease_authority tenant flen ''credential_lease_authority_inactive''
                         (text_at grant ''secret_alias'') (text_at grant ''principal'')
                         (int_at grant ''authority_epoch'') (di_now i) authorities)) (\<lambda>_.
     bindA (on_rows (consume_lease tenant (di_uuid i) lease mode (di_now i))) (\<lambda>receipt.
     bindA (run_helper i lease (text_at grant ''secret_alias'')) (\<lambda>secret.
       readA (\<lambda>_. hand_over i mode receipt secret))))))"

end
