(* ===== verification/Credential_Safety.thy ===== *)
theory Credential_Safety
  imports Credential_Leases
begin

text \<open>
  The lease ledger over any history of operations.  \<open>lease_op\<close> is one call with all its inputs and
  \<open>exec_lease_op\<close> what it leaves: the rows of the ledger and the helper processes started so far.  The
  invariant is that the ledger reads and projects, and the book of a ledger is what its rows say.
\<close>

section \<open>The book of a ledger\<close>

abbreviation granted :: "json \<Rightarrow> bool" where
  "granted r \<equiv> is_kind ''credential_lease_granted'' r"

abbreviation consumed :: "json \<Rightarrow> bool" where
  "consumed r \<equiv> is_kind ''credential_lease_consumed'' r"

abbreviation revoked :: "json \<Rightarrow> bool" where
  "revoked r \<equiv> is_kind ''credential_lease_revoked'' r"

definition lease_of :: "json \<Rightarrow> string" where
  "lease_of r = text_at r ''lease_id''"

definition keyed_by :: "(json \<Rightarrow> string) \<Rightarrow> json list \<Rightarrow> (string \<times> json) list" where
  "keyed_by f rows = map (\<lambda>r. (f r, r)) rows"

definition book_of :: "json list \<Rightarrow> lease_book" where
  "book_of rows =
     \<lparr>lb_grants = keyed_by record_key (filter granted rows),
      lb_consumed = keyed_by lease_of (filter consumed rows),
      lb_revoked = keyed_by lease_of (filter revoked rows)\<rparr>"

definition single_lifecycle :: "json list \<Rightarrow> bool" where
  "single_lifecycle rows \<longleftrightarrow>
     distinct (map lease_of (filter consumed rows)) \<and> distinct (map lease_of (filter revoked rows))"

lemma keyed_by_simps [simp]:
  "keyed_by f [] = []" "keyed_by f (rows @ rows') = keyed_by f rows @ keyed_by f rows'"
  "keyed_by f [r] = [(f r, r)]" "map fst (keyed_by f rows) = map f rows"
  "fst ` set (keyed_by f rows) = f ` set rows"
  by (simp_all add: keyed_by_def image_image)

lemma map_of_keyed_by [simp]: "map_of (keyed_by f rows) k = None \<longleftrightarrow> k \<notin> f ` set rows"
  by (simp add: map_of_eq_None_iff)

lemma update_keyed_by:
  "f r \<notin> f ` set rows \<Longrightarrow> AList.update (f r) r (keyed_by f rows) = keyed_by f rows @ [(f r, r)]"
  by (rule update_fresh) simp

lemma kinds_exclusive:
  "granted r \<Longrightarrow> \<not> consumed r" "granted r \<Longrightarrow> \<not> revoked r" "consumed r \<Longrightarrow> \<not> revoked r"
  by (simp_all add: is_kind_def)

lemma lease_rows_kind:
  assumes "readable (lease_contract tenant) rows" "r \<in> set rows"
  shows "granted r \<or> consumed r \<or> revoked r"
  using record_row_kind [of SPECS tenant CREDENTIAL_LEASE_KINDS True r] assms
  by (auto simp: readable_def lease_contract_def CREDENTIAL_LEASE_KINDS_def)

lemma lease_readable_ids: "readable (lease_contract tenant) rows \<Longrightarrow> distinct (map record_key rows)"
  by (simp add: readable_def lease_contract_def)

lemma lease_step_kinds:
  "granted r \<Longrightarrow> lease_step b book r = Inr (book\<lparr>lb_grants := AList.update (record_key r) r (lb_grants book)\<rparr>)"
  "consumed r \<Longrightarrow> lease_step b book r = Inr book' \<longleftrightarrow>
     map_of (lb_grants book) (lease_of r) \<noteq> None \<and> map_of (lb_consumed book) (lease_of r) = None \<and>
     book' = book\<lparr>lb_consumed := AList.update (lease_of r) r (lb_consumed book)\<rparr>"
  "revoked r \<Longrightarrow> lease_step b book r = Inr book' \<longleftrightarrow>
     map_of (lb_grants book) (lease_of r) \<noteq> None \<and> map_of (lb_revoked book) (lease_of r) = None \<and>
     book' = book\<lparr>lb_revoked := AList.update (lease_of r) r (lb_revoked book)\<rparr>"
  by (auto simp: lease_step_def lease_of_def is_kind_def Let_def)

interpretation leases: projection "lease_step integrity" empty_book "readable (lease_contract tenant)"
    "\<lambda>rows book. book = book_of rows \<and> single_lifecycle rows" for integrity tenant
proof
  show "readable (lease_contract tenant) rows" if "readable (lease_contract tenant) (rows @ [r])" for rows r
    using that by (rule readable_snocD)
  show "empty_book = book_of [] \<and> single_lifecycle []"
    by (simp add: empty_book_def book_of_def single_lifecycle_def)
  fix rows r book book'
  assume ok: "readable (lease_contract tenant) (rows @ [r])"
    and inv: "book = book_of rows \<and> single_lifecycle rows" and step: "lease_step integrity book r = Inr book'"
  have new: "record_key r \<notin> record_key ` set rows" using lease_readable_ids [OF ok] by auto
  consider "granted r" | "consumed r" | "revoked r" using lease_rows_kind [OF ok, of r] by auto
  then show "book' = book_of (rows @ [r]) \<and> single_lifecycle (rows @ [r])"
  proof cases
    case 1
    then show ?thesis
      using inv step new kinds_exclusive [of r] update_keyed_by [of record_key r "filter granted rows"]
      by (auto simp: lease_step_kinds book_of_def single_lifecycle_def)
  next
    case 2
    then show ?thesis
      using inv step kinds_exclusive [of r] update_keyed_by [of lease_of r "filter consumed rows"]
      by (simp add: lease_step_kinds book_of_def single_lifecycle_def) blast
  next
    case 3
    then show ?thesis
      using inv step kinds_exclusive [of r] update_keyed_by [of lease_of r "filter revoked rows"]
      by (simp add: lease_step_kinds book_of_def single_lifecycle_def) blast
  qed
qed

definition lease_ledger :: "string \<Rightarrow> json list \<Rightarrow> bool" where
  "lease_ledger tenant rows \<longleftrightarrow>
     readable (lease_contract tenant) rows \<and> project_leases True rows = Inr (book_of rows)"

lemma lease_ledger_single: "lease_ledger tenant rows \<Longrightarrow> single_lifecycle rows"
  using leases.replay_invar by (auto simp: lease_ledger_def project_leases_def)

lemma lease_ledger_Nil [simp]: "lease_ledger tenant []"
  by (simp add: lease_ledger_def project_leases_def empty_book_def book_of_def)

text \<open>Every row of the batch is new of its kind; then the ledger still projects.\<close>

lemma lease_ledger_append:
  assumes "lease_ledger tenant rows" "readable (lease_contract tenant) (rows @ batch)"
    and "\<exists>book. replay (lease_step True) (book_of rows) batch = Inr book"
  shows "lease_ledger tenant (rows @ batch)"
proof -
  from assms(1,3) obtain book where "replay (lease_step True) empty_book (rows @ batch) = Inr book"
    by (auto simp: lease_ledger_def project_leases_def replay_append)
  moreover from leases.replay_invar [OF assms(2) this] have "book = book_of (rows @ batch)" by blast
  ultimately show ?thesis using assms(2) by (simp add: lease_ledger_def project_leases_def)
qed

section \<open>What the operations append\<close>

lemma lease_rows_kinds [simp]:
  "granted (grant_row tenant uuid t current expires)" "consumed (consumed_row tenant uuid lease mode current)"
  "revoked (revoked_row tenant uuid lease epoch current)"
  by (simp_all add: is_kind_def record_kind_member grant_row_def consumed_row_def revoked_row_def get_member_def)

lemma lease_of_rows [simp]:
  "lease_of (consumed_row tenant uuid lease mode current) = lease"
  "lease_of (revoked_row tenant uuid lease epoch current) = lease"
  by (simp_all add: lease_of_def text_at_def consumed_row_def revoked_row_def get_member_def)

lemma lease_rows_canonical [simp]:
  "canon (grant_row tenant uuid t current expires) = grant_row tenant uuid t current expires"
  "canon (consumed_row tenant uuid lease mode current) = consumed_row tenant uuid lease mode current"
  "canon (revoked_row tenant uuid lease epoch current) = revoked_row tenant uuid lease epoch current"
  by (simp_all add: grant_row_def consumed_row_def revoked_row_def)

lemma lease_contract_governed:
  "lease_contract tenant = rows_contract (validate_record SPECS tenant CREDENTIAL_LEASE_KINDS)"
  by (simp add: lease_contract_def)

lemma lease_append_one:
  assumes "lease_ledger tenant rows" "append_record (lease_contract tenant) rows r = Inr rows'" "canon r = r"
    and "\<exists>book. lease_step True (book_of rows) r = Inr book"
  shows "rows' = rows @ [r]" "lease_ledger tenant rows'"
proof -
  note app = governed.append_record_readable
    [OF assms(2) [unfolded lease_contract_governed] assms(3), folded lease_contract_governed]
  show "rows' = rows @ [r]" by (fact app(2))
  have "\<exists>book. replay (lease_step True) (book_of rows) [r] = Inr book"
    using assms(4) by auto
  from lease_ledger_append [OF assms(1) app(1) [unfolded app(2)] this]
  show "lease_ledger tenant rows'" by (simp only: app(2))
qed

lemma issue_lease_Inr:
  assumes "lease_ledger tenant rows" "issue_lease tenant uuid t current rows = Inr (r, rows')"
  obtains expires where "binding_ok t" "instant_plus current (seconds (lt_ttl t)) = Inr expires"
    "r = grant_row tenant uuid t current expires" "rows' = rows @ [r]" "lease_ledger tenant rows'"
proof -
  from assms(2) obtain expires where e: "binding_ok t" "instant_plus current (seconds (lt_ttl t)) = Inr expires"
      "r = grant_row tenant uuid t current expires"
      "append_record (lease_contract tenant) rows r = Inr rows'"
    by (auto simp: issue_lease_def bindR_Inr_iff transact_Inr_iff Let_def)
  have "\<exists>book. lease_step True (book_of rows) r = Inr book" by (simp add: e(3) lease_step_kinds)
  from lease_append_one [OF assms(1) e(4) _ this] e show ?thesis by (intro that) simp_all
qed

lemma active_from_book:
  assumes "lease_ledger tenant rows"
  shows "active_from rows lease current = Inr grant \<longleftrightarrow>
    map_of (lb_grants (book_of rows)) lease = Some grant \<and> lease \<notin> lease_of ` set (filter revoked rows) \<and>
    lease \<notin> lease_of ` set (filter consumed rows) \<and> is_timestamp (text_at grant ''expires_at'') \<and>
    current < timestamp_value (text_at grant ''expires_at'')"
proof -
  have "project_leases True rows = Inr (book_of rows)" using assms by (simp add: lease_ledger_def)
  moreover have "map_of (lb_revoked (book_of rows)) k = None \<longleftrightarrow> k \<notin> lease_of ` set (filter revoked rows)"
    "map_of (lb_consumed (book_of rows)) k = None \<longleftrightarrow> k \<notin> lease_of ` set (filter consumed rows)" for k
    by (simp_all add: book_of_def del: set_filter)
  ultimately show ?thesis
    by (auto simp: active_from_def bindR_Inr_iff lease_time_def simp del: set_filter split: option.splits)
qed

lemma grant_of_book:
  "map_of (lb_grants (book_of rows)) lease = Some grant \<Longrightarrow> grant \<in> set rows \<and> granted grant \<and> record_key grant = lease"
  by (auto simp: book_of_def keyed_by_def dest!: map_of_SomeD)

lemma consume_lease_Inr:
  assumes "lease_ledger tenant rows" "consume_lease tenant uuid lease mode current rows = Inr (r, rows')"
  shows "r = consumed_row tenant uuid lease mode current" "rows' = rows @ [r]" "lease_ledger tenant rows'"
    "\<exists>grant. active_from rows lease current = Inr grant"
proof -
  from assms(2) obtain grant where g: "active_from rows lease current = Inr grant"
      "r = consumed_row tenant uuid lease mode current"
      "append_record (lease_contract tenant) rows r = Inr rows'"
    by (auto simp: consume_lease_def bindR_Inr_iff transact_Inr_iff Let_def)
  note active = g(1) [unfolded active_from_book [OF assms(1)]]
  have "\<exists>book. lease_step True (book_of rows) r = Inr book"
    using active by (auto simp: g(2) lease_step_kinds book_of_def)
  from lease_append_one [OF assms(1) g(3) _ this]
  show "rows' = rows @ [r]" "lease_ledger tenant rows'" by (simp_all add: g(2))
  show "r = consumed_row tenant uuid lease mode current" "\<exists>grant. active_from rows lease current = Inr grant"
    using g by blast+
qed

text \<open>A batch of revocations of distinct leases that are granted and not yet revoked.\<close>

lemma revocations_replay:
  assumes "\<forall>r \<in> set batch. revoked r \<and> lease_of r \<in> fst ` set (lb_grants book) \<and>
      lease_of r \<notin> fst ` set (lb_revoked book)"
    and "distinct (map lease_of batch)"
  shows "\<exists>book'. replay (lease_step True) book batch = Inr book'"
  using assms
proof (induction batch arbitrary: book)
  case (Cons r batch)
  let ?book = "book\<lparr>lb_revoked := AList.update (lease_of r) r (lb_revoked book)\<rparr>"
  have "lease_step True book r = Inr ?book"
    using Cons.prems(1) by (simp add: lease_step_kinds map_of_eq_None_iff)
  moreover have "\<exists>book'. replay (lease_step True) ?book batch = Inr book'"
  proof (rule Cons.IH)
    show "\<forall>q \<in> set batch. revoked q \<and> lease_of q \<in> fst ` set (lb_grants ?book) \<and>
        lease_of q \<notin> fst ` set (lb_revoked ?book)"
    proof
      fix q
      assume q: "q \<in> set batch"
      then have "lease_of q \<noteq> lease_of r" using Cons.prems(2) by (metis distinct.simps(2) image_eqI list.set_map list.simps(9))
      then show "revoked q \<and> lease_of q \<in> fst ` set (lb_grants ?book) \<and>
          lease_of q \<notin> fst ` set (lb_revoked ?book)"
        using Cons.prems(1) q by (simp flip: dom_map_of_conv_image_fst)
    qed
  qed (use Cons.prems(2) in simp)
  ultimately show ?case by simp
qed simp

definition revocation_batch :: "string \<Rightarrow> (nat \<Rightarrow> string) \<Rightarrow> string \<Rightarrow> string \<Rightarrow> int \<Rightarrow> int \<Rightarrow> json list \<Rightarrow> json list" where
  "revocation_batch tenant fresh alias owner epoch current rows =
     map (\<lambda>(i, lease). revoked_row tenant (fresh i) lease epoch current)
       (enumerate 0 (map fst (filter (revocable alias owner epoch (book_of rows)) (lb_grants (book_of rows)))))"

lemma revocation_batch_facts:
  "map lease_of (revocation_batch tenant fresh alias owner epoch current rows) =
     map fst (filter (revocable alias owner epoch (book_of rows)) (lb_grants (book_of rows)))"
  "\<forall>r \<in> set (revocation_batch tenant fresh alias owner epoch current rows). revoked r \<and> canon r = r"
proof -
  have "lease_of (case p of (i, lease) \<Rightarrow> revoked_row tenant (fresh i) lease epoch current) = snd p" for p
    by (cases p) simp
  then show "map lease_of (revocation_batch tenant fresh alias owner epoch current rows) =
     map fst (filter (revocable alias owner epoch (book_of rows)) (lb_grants (book_of rows)))"
    by (simp add: revocation_batch_def comp_def)
  show "\<forall>r \<in> set (revocation_batch tenant fresh alias owner epoch current rows). revoked r \<and> canon r = r"
    by (auto simp: revocation_batch_def)
qed

lemma revoke_alias_Inr:
  assumes "lease_ledger tenant rows" "revoke_alias tenant fresh alias owner epoch current rows = Inr (batch, rows')"
  shows "batch = revocation_batch tenant fresh alias owner epoch current rows" "rows' = rows @ batch"
    "lease_ledger tenant rows'"
proof -
  have proj: "project_leases True rows = Inr (book_of rows)" using assms(1) by (simp add: lease_ledger_def)
  from assms(2) show b: "batch = revocation_batch tenant fresh alias owner epoch current rows"
    by (auto simp: revoke_alias_def transact_records_Inr proj revocation_batch_def Let_def)
  from assms(2) have app: "append_batch (lease_contract tenant) rows rows batch = Inr rows'"
    by (auto simp: revoke_alias_def transact_records_Inr proj revocation_batch_def Let_def)
  then show ext: "rows' = rows @ batch" by (rule append_batch_extends)
  note facts = revocation_batch_facts [of tenant fresh "alias" owner epoch current rows, folded b]
  have "readable (lease_contract tenant) rows'"
    using governed.append_batch_readable [of tenant CREDENTIAL_LEASE_KINDS rows batch rows'] app facts(2) assms(1)
    by (simp add: lease_ledger_def lease_contract_governed)
  moreover have "\<exists>book. replay (lease_step True) (book_of rows) batch = Inr book"
  proof (rule revocations_replay)
    have "distinct (map fst (lb_grants (book_of rows)))"
      using lease_readable_ids assms(1) by (auto simp: book_of_def lease_ledger_def distinct_map_filter)
    then show "distinct (map lease_of batch)" by (simp add: facts(1) distinct_map_filter)
    have "lease_of r \<in> fst ` set (lb_grants (book_of rows)) \<and> lease_of r \<notin> fst ` set (lb_revoked (book_of rows))"
      if "r \<in> set batch" for r
    proof -
      from that have "lease_of r \<in> set (map lease_of batch)" by simp
      then show ?thesis by (auto simp: facts(1) revocable_def map_of_eq_None_iff rev_image_eqI)
    qed
    then show "\<forall>r \<in> set batch. revoked r \<and> lease_of r \<in> fst ` set (lb_grants (book_of rows)) \<and>
        lease_of r \<notin> fst ` set (lb_revoked (book_of rows))"
      using facts(2) by blast
  qed
  ultimately show "lease_ledger tenant rows'"
    using lease_ledger_append [OF assms(1)] by (simp add: ext)
qed

section \<open>Histories\<close>

datatype lease_op =
    Issue string lease_terms int
  | Service_issue string "json list" json lease_terms int interval_store
  | Consume string string string int
  | Revoke "nat \<Rightarrow> string" string string int int
  | Deliver interval_store delivery_input string

fun exec_lease_op :: "string \<Rightarrow> (interval_row \<Rightarrow> nat) \<Rightarrow> lease_op \<Rightarrow> lease_host \<Rightarrow> lease_host" where
  "exec_lease_op tenant flen (Issue uuid t now) host = snd (on_rows (issue_lease tenant uuid t now) host)"
| "exec_lease_op tenant flen (Service_issue uuid runs snapshot t now authorities) host =
     snd (on_rows (service_issue tenant flen uuid runs snapshot t now authorities) host)"
| "exec_lease_op tenant flen (Consume uuid lease mode now) host =
     snd (on_rows (consume_lease tenant uuid lease mode now) host)"
| "exec_lease_op tenant flen (Revoke fresh alias owner epoch now) host =
     snd (on_rows (revoke_alias tenant fresh alias owner epoch now) host)"
| "exec_lease_op tenant flen (Deliver authorities i lease) host = snd (deliver tenant flen authorities i lease host)"

fun exec_lease_ops :: "string \<Rightarrow> (interval_row \<Rightarrow> nat) \<Rightarrow> lease_op list \<Rightarrow> lease_host \<Rightarrow> lease_host" where
  "exec_lease_ops tenant flen [] host = host"
| "exec_lease_ops tenant flen (op # ops) host = exec_lease_ops tenant flen ops (exec_lease_op tenant flen op host)"

definition new_host :: "json list \<Rightarrow> lease_host" where
  "new_host rows = \<lparr>lh_rows = rows, lh_starts = []\<rparr>"

lemma new_host_simps [simp]: "lh_rows (new_host rows) = rows" "lh_starts (new_host rows) = []"
  by (simp_all add: new_host_def)

lemma on_rows_snd [simp]:
  "lh_rows (snd (on_rows f host)) = outcome_rows (lh_rows host) (f (lh_rows host))"
  "lh_starts (snd (on_rows f host)) = lh_starts host"
  by (simp_all add: on_rows_def outcome_rows_def split: sum.split)

end
