(* ===== verification/Credential_Properties.thy ===== *)
theory Credential_Properties
  imports Credential_Safety
begin

text \<open>
  The properties of credential leases: a secret is handed out once, never after its alias is revoked
  and never after its term, and a delivery that fails after the consumption burns the lease.
\<close>

section \<open>Delivery\<close>

text \<open>A delivery either changes nothing and raises, or consumes the active lease, under the active
  authority, and then calls the helper at most once; it answers only when it has called it.\<close>

lemma deliver_cases:
  assumes "lease_ledger tenant (lh_rows host)" "deliver tenant flen authorities i lease host = (out, host')"
  shows "(host' = host \<and> (\<exists>e. out = Inl e)) \<or>
    (\<exists>grant authority mode. active_from (lh_rows host) lease (di_now i) = Inr grant \<and>
       lease_authority tenant flen ''credential_lease_authority_inactive'' (text_at grant ''secret_alias'')
         (text_at grant ''principal'') (int_at grant ''authority_epoch'') (di_now i) authorities = Inr authority \<and>
       lh_rows host' = lh_rows host @ [consumed_row tenant (di_uuid i) lease mode (di_now i)] \<and>
       lease_ledger tenant (lh_rows host') \<and>
       (lh_starts host' = lh_starts host \<and> (\<exists>e. out = Inl e) \<or>
        lh_starts host' = lh_starts host @
          [\<lparr>hs_lease = lease, hs_alias = text_at grant ''secret_alias'', hs_rows = lh_rows host'\<rparr>]))"
proof -
  have read: "active_lease tenant lease now (lh_rows host) = active_from (lh_rows host) lease now" for now
    using assms(1) by (simp add: active_lease_def lease_ledger_def)
  show ?thesis
    using assms(2) consume_lease_Inr [OF assms(1)]
    by (auto simp: deliver_def bindA_def readA_def read on_rows_def run_helper_def split: sum.splits prod.splits if_splits)
      blast+
qed

lemma exec_lease_op_ledger:
  assumes "lease_ledger tenant (lh_rows host)"
  shows "lease_ledger tenant (lh_rows (exec_lease_op tenant flen op host))"
    and "\<exists>suffix. lh_rows (exec_lease_op tenant flen op host) = lh_rows host @ suffix"
proof -
  let ?rows = "lh_rows host"
  have issue: "lease_ledger tenant rows' \<and> (\<exists>suffix. rows' = ?rows @ suffix)"
    if "issue_lease tenant uuid t now ?rows = Inr (r, rows')" for uuid t now r rows'
    using issue_lease_Inr [OF assms that] by blast
  have "lease_ledger tenant (lh_rows (exec_lease_op tenant flen op host)) \<and>
      (\<exists>suffix. lh_rows (exec_lease_op tenant flen op host) = ?rows @ suffix)"
  proof (cases op)
    case (Issue uuid t now)
    then show ?thesis using assms issue by (auto simp: outcome_rows_def split: sum.split)
  next
    case (Service_issue uuid runs snapshot t now authorities)
    then show ?thesis
      using assms issue by (auto simp: outcome_rows_def service_issue_def bindR_def split: sum.splits)
  next
    case (Consume uuid lease mode now)
    then show ?thesis
      using assms consume_lease_Inr(2,3) [OF assms] by (auto simp: outcome_rows_def split: sum.split) blast
  next
    case (Revoke fresh "alias" owner epoch now)
    then show ?thesis
      using assms revoke_alias_Inr(2,3) [OF assms] by (auto simp: outcome_rows_def split: sum.split) blast
  next
    case (Deliver authorities i lease)
    then show ?thesis
      using assms deliver_cases [OF assms surjective_pairing, of flen authorities i lease] by auto
  qed
  then show "lease_ledger tenant (lh_rows (exec_lease_op tenant flen op host))"
    "\<exists>suffix. lh_rows (exec_lease_op tenant flen op host) = lh_rows host @ suffix" by blast+
qed

lemma exec_lease_ops_ledger:
  "lease_ledger tenant (lh_rows host) \<Longrightarrow> lease_ledger tenant (lh_rows (exec_lease_ops tenant flen ops host))"
  by (induction ops arbitrary: host) (simp_all add: exec_lease_op_ledger)

lemma exec_lease_ops_append:
  "exec_lease_ops tenant flen (ops @ rest) host = exec_lease_ops tenant flen rest (exec_lease_ops tenant flen ops host)"
  by (induction ops arbitrary: host) simp_all

section \<open>Started helpers\<close>

definition spent :: "json list \<Rightarrow> string set" where
  "spent rows = lease_of ` {r \<in> set rows. consumed r}"

definition used_up :: "json list \<Rightarrow> string set" where
  "used_up rows = spent rows \<union> lease_of ` {r \<in> set rows. revoked r}"

lemma used_up_grows:
  "lease_ledger tenant (lh_rows host) \<Longrightarrow>
   used_up (lh_rows host) \<subseteq> used_up (lh_rows (exec_lease_op tenant flen op host))"
  using exec_lease_op_ledger(2) [of tenant host flen op] by (auto simp: used_up_def spent_def)

text \<open>One operation starts at most one helper, for a lease that was neither consumed nor revoked before
  it and is consumed in the rows the helper finds.\<close>

lemma exec_lease_op_starts:
  assumes "lease_ledger tenant (lh_rows host)"
  obtains (none) "lh_starts (exec_lease_op tenant flen op host) = lh_starts host"
  | (one) x where "lh_starts (exec_lease_op tenant flen op host) = lh_starts host @ [x]"
      "hs_lease x \<notin> used_up (lh_rows host)" "hs_lease x \<in> spent (hs_rows x)"
      "hs_rows x = lh_rows (exec_lease_op tenant flen op host)"
proof (cases "\<exists>authorities i lease. op = Deliver authorities i lease")
  case False
  then show ?thesis using none by (cases op) simp_all
next
  case True
  then obtain authorities i lease where op: "op = Deliver authorities i lease" by blast
  have active: "lease \<notin> used_up (lh_rows host)" if "active_from (lh_rows host) lease now = Inr grant" for now grant
    using that by (auto simp: active_from_book [OF assms] used_up_def spent_def)
  have fresh: "lease \<in> spent (rows @ [consumed_row tenant uuid lease mode now])" for rows uuid mode now
    by (auto simp: spent_def intro!: rev_image_eqI)
  from deliver_cases [OF assms surjective_pairing, of flen authorities i lease]
  show ?thesis
    using none one active fresh by (auto simp: op)
qed

lemma exec_lease_ops_starts:
  assumes "lease_ledger tenant (lh_rows host)"
  shows "\<exists>new. lh_starts (exec_lease_ops tenant flen ops host) = lh_starts host @ new \<and>
    distinct (map hs_lease new) \<and> hs_lease ` set new \<inter> used_up (lh_rows host) = {} \<and>
    list_all (\<lambda>x. hs_lease x \<in> spent (hs_rows x)) new"
  using assms
proof (induction ops arbitrary: host)
  case (Cons op ops)
  let ?host = "exec_lease_op tenant flen op host"
  obtain new where ih: "lh_starts (exec_lease_ops tenant flen ops ?host) = lh_starts ?host @ new"
      "distinct (map hs_lease new)" "hs_lease ` set new \<inter> used_up (lh_rows ?host) = {}"
      "list_all (\<lambda>x. hs_lease x \<in> spent (hs_rows x)) new"
    using Cons.IH exec_lease_op_ledger(1) [OF Cons.prems] by blast
  have grow: "used_up (lh_rows host) \<subseteq> used_up (lh_rows ?host)" by (rule used_up_grows [OF Cons.prems])
  show ?case
  proof (cases rule: exec_lease_op_starts [OF Cons.prems, of flen op])
    case 1
    then show ?thesis using ih grow by auto
  next
    case (2 x)
    then have "hs_lease x \<in> used_up (lh_rows ?host)" by (simp add: used_up_def)
    then show ?thesis using ih grow 2 by (intro exI [of _ "x # new"]) auto
  qed
qed simp

section \<open>Terms\<close>

definition op_instant :: "lease_op \<Rightarrow> int" where
  "op_instant op = (case op of
     Issue _ _ now \<Rightarrow> now | Service_issue _ _ _ _ now _ \<Rightarrow> now | Consume _ _ _ now \<Rightarrow> now
   | Revoke _ _ _ _ now \<Rightarrow> now | Deliver _ i _ \<Rightarrow> di_now i)"

definition at_instants :: "lease_op list \<Rightarrow> bool" where
  "at_instants ops \<longleftrightarrow> list_all (\<lambda>op. 0 \<le> op_instant op \<and> op_instant op \<le> last_instant) ops"

text \<open>A grant expires its time to live, at most a day, after its timestamp.\<close>

definition timed_grant :: "json \<Rightarrow> bool" where
  "timed_grant r \<longleftrightarrow>
     timestamp_value (text_at r ''expires_at'') =
       timestamp_value (text_at r ''timestamp'') + seconds (int_at r ''ttl_seconds'') \<and>
     1 \<le> int_at r ''ttl_seconds'' \<and> int_at r ''ttl_seconds'' \<le> 86400"

definition timed_grants :: "json list \<Rightarrow> bool" where
  "timed_grants rows \<longleftrightarrow> (\<forall>r \<in> set rows. granted r \<longrightarrow> timed_grant r)"

lemma timed_grant_row:
  assumes "0 \<le> now" "now \<le> last_instant" "instant_plus now (seconds (lt_ttl t)) = Inr expires" "binding_ok t"
  shows "timed_grant (grant_row tenant uuid t now expires)"
proof -
  have e: "expires = now + seconds (lt_ttl t)" "0 \<le> expires" "expires \<le> last_instant"
    using assms(3) by (auto simp: instant_plus_def split: if_splits)
  have "now + seconds (lt_ttl t) = now + (lt_ttl t * 1000) * 1000" by (simp add: seconds_def)
  then have "(now + seconds (lt_ttl t)) mod 1000 = now mod 1000" by (simp only: mod_mult_self1)
  moreover have "text_at (grant_row tenant uuid t now expires) ''expires_at'' = iso_text expires"
    "text_at (grant_row tenant uuid t now expires) ''timestamp'' = iso_text now"
    "int_at (grant_row tenant uuid t now expires) ''ttl_seconds'' = lt_ttl t"
    by (simp_all add: text_at_def int_at_def grant_row_def get_member_def)
  ultimately show ?thesis
    using iso_text_timestamp(2) [OF assms(1,2)] iso_text_timestamp(2) [OF e(2,3)] assms(4)
    by (simp add: timed_grant_def e(1) binding_ok_def MAX_TTL_SECONDS_def)
qed

lemma lifecycle_not_granted [simp]:
  "\<not> granted (consumed_row tenant uuid lease mode now)" "\<not> granted (revoked_row tenant uuid lease epoch now)"
  using kinds_exclusive lease_rows_kinds by blast+

lemma timed_grants_append:
  "timed_grants (rows @ rows') \<longleftrightarrow> timed_grants rows \<and> timed_grants rows'"
  by (auto simp: timed_grants_def)

lemma issue_timed:
  assumes "lease_ledger tenant rows" "timed_grants rows" "0 \<le> now" "now \<le> last_instant"
    and "issue_lease tenant uuid t now rows = Inr (r, rows')"
  shows "timed_grants rows'"
  using issue_lease_Inr [OF assms(1,5)] assms(2) timed_grant_row [OF assms(3,4)]
  by (metis timed_grants_append timed_grants_def empty_iff insert_iff list.set)

lemma exec_lease_op_timed:
  assumes "lease_ledger tenant (lh_rows host)" "timed_grants (lh_rows host)" "0 \<le> op_instant op" "op_instant op \<le> last_instant"
  shows "timed_grants (lh_rows (exec_lease_op tenant flen op host))"
proof (cases op)
  case (Issue uuid t now)
  then show ?thesis
    using assms issue_timed [OF assms(1,2)] by (auto simp: outcome_rows_def op_instant_def split: sum.split)
next
  case (Service_issue uuid runs snapshot t now authorities)
  then show ?thesis
    using assms issue_timed [OF assms(1,2)]
    by (auto simp: outcome_rows_def op_instant_def service_issue_def bindR_def split: sum.splits)
next
  case (Consume uuid lease mode now)
  then show ?thesis
    using assms consume_lease_Inr(1,2) [OF assms(1), of uuid lease mode now]
    by (auto simp: outcome_rows_def timed_grants_append timed_grants_def split: sum.split)
next
  case (Revoke fresh "alias" owner epoch now)
  have "timed_grants batch" if "\<forall>r \<in> set batch. revoked r \<and> canon r = r" for batch
    using that kinds_exclusive(2) by (auto simp: timed_grants_def)
  with Revoke show ?thesis
    using assms revoke_alias_Inr(1,2) [OF assms(1), of fresh "alias" owner epoch now] revocation_batch_facts(2)
    by (auto simp: outcome_rows_def timed_grants_append split: sum.split)
next
  case (Deliver authorities i lease)
  have "timed_grants [consumed_row tenant (di_uuid i) lease mode (di_now i)]" for mode
    by (simp add: timed_grants_def)
  with Deliver show ?thesis
    using assms deliver_cases [OF assms(1) surjective_pairing, of flen authorities i lease]
    by (auto simp: timed_grants_append)
qed

lemma exec_lease_ops_timed:
  assumes "at_instants ops" "lease_ledger tenant (lh_rows host)" "timed_grants (lh_rows host)"
  shows "timed_grants (lh_rows (exec_lease_ops tenant flen ops host))"
  using assms
  by (induction ops arbitrary: host) (simp_all add: at_instants_def exec_lease_op_ledger(1) exec_lease_op_timed)

lemma lease_authority_Inr:
  assumes "lease_authority tenant flen code alias owner epoch now authorities = Inr a"
  shows "\<exists>earlier. authorities alias = earlier @ [a]" "iv_state a = Active" "iv_holder a = owner"
    "iv_epoch a = epoch" "parse_time (iv_renewed_at a) \<le> now" "now < parse_time (iv_expires_at a)"
proof -
  have tail: "exact_tail tenant flen alias authorities = Inr a" and ok: "iv_state a = Active" "iv_holder a = owner"
      "iv_epoch a = epoch" "parse_time (iv_renewed_at a) \<le> now" "now < parse_time (iv_expires_at a)"
    using assms by (auto simp: lease_authority_def not_le not_less split: sum.splits if_splits)
  from ok show "iv_state a = Active" "iv_holder a = owner" "iv_epoch a = epoch"
    "parse_time (iv_renewed_at a) \<le> now" "now < parse_time (iv_expires_at a)" by blast+
  from tail have "authorities alias \<noteq> []" "last (authorities alias) = a"
    by (auto simp: exact_tail_def validate_identifier_def latest_row_def bindR_Inr_iff
        decode_path_records_Inr_iff split: if_splits)
  then show "\<exists>earlier. authorities alias = earlier @ [a]" by (metis append_butlast_last_id)
qed

section \<open>Properties\<close>

text \<open>C10: over any history of lease operations, whatever their inputs, the helper process that produces
  the secret of a lease is started at most once for each lease, and whenever it is started the
  consumption of its lease is already in the ledger, so that no failure and no other reader can
  find the lease usable again.\<close>

theorem secret_handed_out_once:
  "distinct (map hs_lease (lh_starts (exec_lease_ops tenant flen ops (new_host [])))) \<and>
   list_all (\<lambda>x. hs_lease x \<in> lease_of ` {r \<in> set (hs_rows x). is_kind ''credential_lease_consumed'' r})
     (lh_starts (exec_lease_ops tenant flen ops (new_host [])))"
  using exec_lease_ops_starts [of tenant "new_host []" flen ops] by (auto simp: spent_def)

text \<open>C36: after a successful \<open>revoke_alias\<close>, no history starts the helper of any lease that had been
  granted for that alias, principal and authority epoch before the revocation, and no delivery of
  such a lease answers.\<close>

theorem revoked_never_handed_out:
  assumes "revoke_alias tenant fresh alias owner epoch now
      (lh_rows (exec_lease_ops tenant flen ops (new_host []))) = Inr (batch, rows)"
    and "grant \<in> set rows" "is_kind ''credential_lease_granted'' grant"
    and "member_of grant ''secret_alias'' = JStr alias" "member_of grant ''principal'' = JStr owner"
    and "member_of grant ''authority_epoch'' = JInt epoch"
    and "host = exec_lease_ops tenant flen ops' (new_host rows)"
  shows "record_key grant \<notin> hs_lease ` set (lh_starts host) \<and>
    fst (deliver tenant flen authorities i (record_key grant) host) \<noteq> Inr d"
proof -
  let ?rows = "lh_rows (exec_lease_ops tenant flen ops (new_host []))" and ?lease = "record_key grant"
  have ledger: "lease_ledger tenant ?rows" by (rule exec_lease_ops_ledger) simp
  note r = revoke_alias_Inr [OF ledger assms(1)]
  note batch = revocation_batch_facts [of tenant fresh "alias" owner epoch now ?rows, folded r(1)]
  have "grant \<in> set ?rows" using assms(2,3) r(2) batch(2) kinds_exclusive(2) by auto
  then have g: "(?lease, grant) \<in> set (lb_grants (book_of ?rows))"
    using assms(3) by (auto simp: book_of_def keyed_by_def)
  have used: "?lease \<in> used_up rows"
  proof (cases "map_of (lb_revoked (book_of ?rows)) ?lease = None")
    case True
    with g assms(4-6) have "?lease \<in> set (map lease_of batch)"
      by (force simp: batch(1) revocable_def)
    then show ?thesis using batch(2) by (auto simp: used_up_def r(2))
  next
    case False
    then show ?thesis by (auto simp: book_of_def used_up_def r(2))
  qed
  have none: "?lease \<notin> hs_lease ` set (lh_starts (exec_lease_ops tenant flen new (new_host rows)))" for new
    using exec_lease_ops_starts [of tenant "new_host rows" flen new] r(3) used by auto
  have "?lease \<notin> hs_lease ` set (lh_starts (snd (deliver tenant flen authorities i ?lease host)))"
    using none [of "ops' @ [Deliver authorities i ?lease]"]
    by (simp add: assms(7) exec_lease_ops_append)
  moreover have "lease_ledger tenant (lh_rows host)"
    using exec_lease_ops_ledger r(3) by (simp add: assms(7))
  note deliver_cases [OF this surjective_pairing, of flen authorities i ?lease]
  ultimately show ?thesis using none [of ops'] by (auto simp: assms(7))
qed

text \<open>A lease whose helper was started is spent even when the delivery fails: afterwards the lease
  reads as already consumed.\<close>

theorem failed_delivery_spends_lease:
  assumes "deliver tenant flen authorities i lease (exec_lease_ops tenant flen ops (new_host [])) = (Inl e, host)"
    and "lh_rows host \<noteq> lh_rows (exec_lease_ops tenant flen ops (new_host []))"
  shows "active_lease tenant lease now (lh_rows host) = Inl (ProtocolRefusal ''credential_lease_already_consumed'')"
proof -
  let ?rows = "lh_rows (exec_lease_ops tenant flen ops (new_host []))"
  have ledger: "lease_ledger tenant ?rows" by (rule exec_lease_ops_ledger) simp
  obtain grant mode where g: "active_from ?rows lease (di_now i) = Inr grant"
      "lh_rows host = ?rows @ [consumed_row tenant (di_uuid i) lease mode (di_now i)]" "lease_ledger tenant (lh_rows host)"
    using deliver_cases [OF ledger assms(1)] assms(2) by blast
  note active = g(1) [unfolded active_from_book [OF ledger]]
  let ?r = "consumed_row tenant (di_uuid i) lease mode (di_now i)"
  have "book_of (lh_rows host) = book_of ?rows\<lparr>lb_consumed := keyed_by lease_of (filter consumed ?rows) @ [(lease, ?r)]\<rparr>"
    using kinds_exclusive [of ?r] by (simp add: book_of_def g(2))
  moreover have "map_of (lb_revoked (book_of ?rows)) lease = None" using active by (simp add: book_of_def)
  ultimately have "active_from (lh_rows host) lease now = Inl (ProtocolRefusal ''credential_lease_already_consumed'')"
    using active g(3) by (auto simp: active_from_def lease_ledger_def map_of_eq_None_iff)
  then show ?thesis using g(3) by (simp add: active_lease_def lease_ledger_def)
qed

text \<open>C37: a delivered secret belongs to a granted lease that is within its time to live (at most a day
  from its timestamp), and the tail of the authority of its alias is then active, held by the
  principal of the grant at the epoch of the grant, and not expired.\<close>

theorem delivery_within_term:
  assumes "at_instants ops"
    and "deliver tenant flen authorities i lease (exec_lease_ops tenant flen ops (new_host [])) = (Inr d, host)"
  shows "\<exists>grant \<in> set (lh_rows host). is_kind ''credential_lease_granted'' grant \<and> record_key grant = lease \<and>
    di_now i < timestamp_value (text_at grant ''timestamp'') + seconds (int_at grant ''ttl_seconds'') \<and>
    int_at grant ''ttl_seconds'' \<le> 86400 \<and>
    (\<exists>earlier a. authorities (text_at grant ''secret_alias'') = earlier @ [a] \<and> iv_state a = Active \<and>
       iv_holder a = text_at grant ''principal'' \<and> iv_epoch a = int_at grant ''authority_epoch'' \<and>
       parse_time (iv_renewed_at a) \<le> di_now i \<and> di_now i < parse_time (iv_expires_at a))"
proof -
  let ?rows = "lh_rows (exec_lease_ops tenant flen ops (new_host []))"
  have ledger: "lease_ledger tenant ?rows" by (rule exec_lease_ops_ledger) simp
  obtain grant a mode where g: "active_from ?rows lease (di_now i) = Inr grant"
      "lease_authority tenant flen ''credential_lease_authority_inactive'' (text_at grant ''secret_alias'')
         (text_at grant ''principal'') (int_at grant ''authority_epoch'') (di_now i) authorities = Inr a"
      "lh_rows host = ?rows @ [consumed_row tenant (di_uuid i) lease mode (di_now i)]"
    using deliver_cases [OF ledger assms(2)] by blast
  note active = g(1) [unfolded active_from_book [OF ledger]]
  have grant: "grant \<in> set ?rows" "granted grant" "record_key grant = lease"
    using active grant_of_book by blast+
  have "timed_grants ?rows"
    by (rule exec_lease_ops_timed [OF assms(1)]) (simp_all add: timed_grants_def)
  then have "timed_grant grant" using grant by (simp add: timed_grants_def)
  moreover note authority = lease_authority_Inr [OF g(2)]
  ultimately show ?thesis
    using grant active authority by (intro bexI [of _ grant]) (auto simp: g(3) timed_grant_def)
qed

end
