(* ===== verification/Concrete_Values.thy ===== *)
theory Concrete_Values
  imports Ledger_Rows Iso_Time
begin

text \<open>Values the concrete histories share: a fresh UUID, an instant (2026-02-28T10:00) with the texts
  of the instants after it, and the limits of a ledger as numerals.\<close>

definition ex_uuid :: string where "ex_uuid = ''0198c0de00017000a000000000000001''"

definition ex_issued :: int where "ex_issued = 86400000000 * 739674 + 36000000000"

lemma ex_texts:
  "iso_text ex_issued = ''2026-02-28T10:00:00.000Z''"
  "iso_text (ex_issued + 60000000) = ''2026-02-28T10:01:00.000Z''"
  "iso_text (ex_issued + 10000000) = ''2026-02-28T10:00:10.000Z''"
  by (simp_all add: ex_issued_def evaluate)

lemma ledger_bounds: "MAX_LEDGER_RECORDS = 100000" "MAX_RECORD_BYTES = 65536" "MAX_LEDGER_BYTES = 67108864"
  by (simp_all add: MAX_LEDGER_RECORDS_def MAX_RECORD_BYTES_def MAX_LEDGER_BYTES_def)

end
