(* ===== verification/Credential_Examples.thy ===== *)
theory Credential_Examples
  imports Credential_Properties Concrete_Values
begin

text \<open>
  The properties of credential leases at one concrete history: a lease of one minute is issued at
  2026-02-28T10:00 and delivered ten seconds later, to a helper that answers and to one that fails;
  or its alias is revoked.
\<close>

definition ex_terms :: lease_terms where
  "ex_terms = \<lparr>lt_attempt = ''attempt-'' @ ex_uuid, lt_principal = ''worker'', lt_capability = ''deploy'',
     lt_alias = ''token'', lt_ttl = 60, lt_epoch = 1, lt_authority_record = ''authority-'' @ ex_uuid,
     lt_capability_set = ''capability-set-bound-'' @ ex_uuid\<rparr>"

definition ex_grant :: json where
  "ex_grant = JObj
     [(''attempt_id'', JStr (''attempt-'' @ ex_uuid)), (''authority_epoch'', JInt 1),
      (''authority_record_id'', JStr (''authority-'' @ ex_uuid)), (''capability'', JStr ''deploy''),
      (''capability_set_bound_id'', JStr (''capability-set-bound-'' @ ex_uuid)),
      (''expires_at'', JStr ''2026-02-28T10:01:00.000Z''), (''id'', JStr (''credential-lease-'' @ ex_uuid)),
      (''kind'', JStr ''credential_lease_granted''), (''principal'', JStr ''worker''), (''schema_version'', JInt 1),
      (''secret_alias'', JStr ''token''), (''tenant_id'', JStr ''acme''),
      (''timestamp'', JStr ''2026-02-28T10:00:00.000Z''), (''ttl_seconds'', JInt 60)]"

lemma ex_grant_row: "grant_row ''acme'' ex_uuid ex_terms ex_issued (ex_issued + 60000000) = ex_grant"
  by (simp add: grant_row_def ex_terms_def ex_texts row_of_def ex_grant_def)

lemmas lease_evaluate =
  lawful_checks_defs credential_lease_granted_spec_def credential_lease_granted_body_def
  credential_lease_consumed_spec_def credential_lease_consumed_body_def
  credential_lease_revoked_spec_def credential_lease_revoked_body_def
  member_names_def checks.simps require_def text_of_def later_def time_of_def is_capability_def
  CREDENTIAL_LEASE_KINDS_def

lemma ex_grant_valid: "validate_record SPECS ''acme'' CREDENTIAL_LEASE_KINDS b ex_grant = Inr ex_grant"
  by (simp add: ex_grant_def ex_uuid_def evaluate lease_evaluate governed_lookups)

lemma ex_grant_length: "length (frame ex_grant) \<le> 20000"
  by (rule order_trans [OF length_frame]) (simp add: ex_grant_def ex_uuid_def)

definition ex_history :: "lease_op list" where
  "ex_history = [Issue ex_uuid ex_terms ex_issued]"

definition ex_lease :: string where "ex_lease = ''credential-lease-'' @ ex_uuid"

lemma ex_grant_facts:
  "record_key ex_grant = ex_lease" "is_kind ''credential_lease_granted'' ex_grant"
  "text_at ex_grant ''expires_at'' = ''2026-02-28T10:01:00.000Z''" "text_at ex_grant ''secret_alias'' = ''token''"
  "text_at ex_grant ''principal'' = ''worker''" "int_at ex_grant ''authority_epoch'' = 1"
  "member_of ex_grant ''secret_alias'' = JStr ''token''" "member_of ex_grant ''principal'' = JStr ''worker''"
  "member_of ex_grant ''authority_epoch'' = JInt 1"
  by (simp_all add: ex_grant_def ex_lease_def record_key_def record_id_def is_kind_def record_kind_def text_at_def
      int_at_def member_of_def get_member_def)

lemma ex_issue: "exec_lease_ops ''acme'' flen ex_history (new_host []) = new_host [ex_grant]"
proof -
  have plus: "instant_plus ex_issued (seconds (lt_ttl ex_terms)) = Inr (ex_issued + 60000000)"
    by (simp add: instant_plus_def seconds_def ex_terms_def ex_issued_def last_instant_def)
  have "binding_ok ex_terms"
    by (simp add: binding_ok_def ex_terms_def ex_uuid_def evaluate is_capability_def)
  moreover have "append_record (lease_contract ''acme'') [] ex_grant = Inr [ex_grant]"
    using ex_grant_valid [of False] ex_grant_length
    by (simp add: append_record_Inr_iff lease_contract_def ledger_bounds ledger_bytes_def)
  then have "transact (lease_contract ''acme'') []
      (\<lambda>records. bindR (project_leases True records) (\<lambda>_. Inr (ex_grant, Some ex_grant))) = Inr (ex_grant, [ex_grant])"
    by (simp add: transact_Inr_iff project_leases_def)
  ultimately have "issue_lease ''acme'' ex_uuid ex_terms ex_issued [] = Inr (ex_grant, [ex_grant])"
    by (simp add: issue_lease_def plus ex_grant_row)
  then show ?thesis by (simp add: ex_history_def on_rows_def new_host_def)
qed

lemma ex_ledger: "lease_ledger ''acme'' [ex_grant]"
  using exec_lease_ops_ledger [of "''acme''" "new_host []" "\<lambda>_. 0" ex_history] by (simp add: ex_issue)

lemma ex_active: "active_from [ex_grant] ex_lease (ex_issued + 10000000) = Inr ex_grant"
proof -
  have "is_timestamp ''2026-02-28T10:01:00.000Z''" "ex_issued + 10000000 < timestamp_value ''2026-02-28T10:01:00.000Z''"
    by (simp_all add: evaluate ex_issued_def)
  then show ?thesis
    using kinds_exclusive [of ex_grant] ex_grant_facts
    by (simp add: active_from_book [OF ex_ledger] book_of_def)
qed

section \<open>Delivered\<close>

definition ex_consumed :: json where
  "ex_consumed = JObj
     [(''consumed_at_testimony'', JStr ''2026-02-28T10:00:10.000Z''), (''delivery_mode'', JStr ''helper_response''),
      (''id'', JStr (''credential-lease-consumed-'' @ ex_uuid)), (''kind'', JStr ''credential_lease_consumed''),
      (''lease_id'', JStr ex_lease), (''schema_version'', JInt 1), (''tenant_id'', JStr ''acme''),
      (''timestamp'', JStr ''2026-02-28T10:00:10.000Z'')]"

lemma ex_consumed_row:
  "consumed_row ''acme'' ex_uuid ex_lease ''helper_response'' (ex_issued + 10000000) = ex_consumed"
  by (simp add: consumed_row_def ex_texts row_of_def ex_consumed_def)

lemma ex_consumed_valid: "validate_record SPECS ''acme'' CREDENTIAL_LEASE_KINDS b ex_consumed = Inr ex_consumed"
  by (simp add: ex_consumed_def ex_uuid_def ex_lease_def evaluate lease_evaluate check_enum_def governed_lookups)

lemma ex_consumed_length: "length (frame ex_consumed) \<le> 20000"
  by (rule order_trans [OF length_frame]) (simp add: ex_consumed_def ex_uuid_def ex_lease_def)

lemma ex_ids: "record_key ex_consumed = ''credential-lease-consumed-'' @ ex_uuid" "record_key ex_grant = ex_lease"
  by (simp_all add: ex_consumed_def ex_grant_def ex_lease_def record_key_def record_id_def get_member_def)

lemma ex_consume:
  "consume_lease ''acme'' ex_uuid ex_lease ''helper_response'' (ex_issued + 10000000) [ex_grant] =
     Inr (ex_consumed, [ex_grant, ex_consumed])"
proof -
  have "readable (lease_contract ''acme'') [ex_grant]" using ex_ledger by (simp add: lease_ledger_def)
  moreover from this have "append_record (lease_contract ''acme'') [ex_grant] ex_consumed = Inr [ex_grant, ex_consumed]"
    using ex_consumed_valid [of False] ex_consumed_length ex_grant_length
    by (simp add: append_record_Inr_iff lease_contract_def ledger_bounds ledger_bytes_def ex_ids ex_lease_def)
  ultimately have "transact (lease_contract ''acme'') [ex_grant]
      (\<lambda>records. bindR (active_from records ex_lease (ex_issued + 10000000)) (\<lambda>_. Inr (ex_consumed, Some ex_consumed))) =
      Inr (ex_consumed, [ex_grant, ex_consumed])"
    by (simp add: transact_Inr_iff ex_active)
  then show ?thesis by (simp add: consume_lease_def DELIVERY_MODES_def ex_consumed_row)
qed

definition ex_authority :: interval_store where
  "ex_authority = (\<lambda>_. [])(''token'' :=
     [interval_record authority_config ''acme'' ex_uuid ''token'' ''worker'' 1 ex_issued ex_issued 3600 600 Active None])"

definition ex_delivery :: "helper_run \<Rightarrow> delivery_input" where
  "ex_delivery helper = \<lparr>di_uuid = ex_uuid, di_profiles = [(''isolated'', Some ''helper'')], di_profile = ''isolated'',
     di_argv = [''/bin/helper''], di_helper = helper, di_pipe_ok = True, di_now = ex_issued + 10000000\<rparr>"

lemma ex_authority_active:
  "\<exists>a. lease_authority ''acme'' (\<lambda>_. 100) code ''token'' ''worker'' 1 (ex_issued + 10000000) ex_authority = Inr a"
  by (simp add: lease_authority_def exact_tail_def ex_authority_def evaluate ex_uuid_def ex_issued_def
      interval_contract_def validate_identifier_def)

definition ex_delivered :: lease_host where
  "ex_delivered = \<lparr>lh_rows = [ex_grant, ex_consumed],
     lh_starts = [\<lparr>hs_lease = ex_lease, hs_alias = ''token'', hs_rows = [ex_grant, ex_consumed]\<rparr>]\<rparr>"

lemma ex_deliver:
  "deliver ''acme'' (\<lambda>_. 100) ex_authority (ex_delivery helper) ex_lease (new_host [ex_grant]) =
     (bindR (helper_secret helper) (hand_over (ex_delivery helper) ''helper_response'' ex_consumed), ex_delivered)"
proof -
  have "active_lease ''acme'' ex_lease (ex_issued + 10000000) [ex_grant] = Inr ex_grant"
    using ex_active ex_ledger by (simp add: active_lease_def lease_ledger_def)
  moreover have "delivery_mode (di_profiles (ex_delivery helper)) (di_profile (ex_delivery helper)) = Inr ''helper_response''"
    by (simp add: delivery_mode_def ex_delivery_def)
  moreover have "di_now (ex_delivery helper) = ex_issued + 10000000" "di_uuid (ex_delivery helper) = ex_uuid"
    "di_helper (ex_delivery helper) = helper" "\<not> argv_refused (di_argv (ex_delivery helper))"
    by (simp_all add: ex_delivery_def argv_refused_def)
  ultimately show ?thesis
    using ex_authority_active [of "''credential_lease_authority_inactive''"]
    by (auto simp: deliver_def bindA_def readA_def on_rows_def run_helper_def ex_grant_facts ex_consume ex_delivered_def
        new_host_def split: sum.split)
qed

lemma ex_secret:
  "bindR (helper_secret (HelperExit 0 (''hunter2'' @ [CHR 0x0A])))
     (hand_over (ex_delivery (HelperExit 0 (''hunter2'' @ [CHR 0x0A]))) ''helper_response'' ex_consumed) =
     Inr \<lparr>dl_mode = ''helper_response'', dl_receipt = ex_consumed, dl_secret = ''hunter2''\<rparr>"
  "bindR (helper_secret HelperFailed) (hand_over (ex_delivery HelperFailed) ''helper_response'' ex_consumed) =
     Inl (ProtocolRefusal ''credential_lease_helper_refused'')"
  by (simp_all add: hand_over_def helper_secret_def ex_delivery_def MAX_HELPER_RESPONSE_BYTES_def)

section \<open>Revoked\<close>

definition ex_revoked :: json where
  "ex_revoked = JObj
     [(''authority_epoch'', JInt 1), (''id'', JStr (''credential-lease-revoked-'' @ ex_uuid)),
      (''kind'', JStr ''credential_lease_revoked''), (''lease_id'', JStr ex_lease),
      (''revoked_at_testimony'', JStr ''2026-02-28T10:00:10.000Z''), (''schema_version'', JInt 1),
      (''tenant_id'', JStr ''acme''), (''timestamp'', JStr ''2026-02-28T10:00:10.000Z'')]"

lemma ex_revoked_valid: "validate_record SPECS ''acme'' CREDENTIAL_LEASE_KINDS b ex_revoked = Inr ex_revoked"
  by (simp add: ex_revoked_def ex_uuid_def ex_lease_def evaluate lease_evaluate governed_lookups)

lemma ex_revoked_length: "length (frame ex_revoked) \<le> 20000"
  by (rule order_trans [OF length_frame]) (simp add: ex_revoked_def ex_uuid_def ex_lease_def)

lemma ex_revoke:
  "revoke_alias ''acme'' (\<lambda>_. ex_uuid) ''token'' ''worker'' 1 (ex_issued + 10000000) [ex_grant] =
     Inr ([ex_revoked], [ex_grant, ex_revoked])"
proof -
  have ledger: "readable (lease_contract ''acme'') [ex_grant]" "project_leases True [ex_grant] = Inr (book_of [ex_grant])"
    using ex_ledger by (simp_all add: lease_ledger_def)
  have book: "book_of [ex_grant] = \<lparr>lb_grants = [(ex_lease, ex_grant)], lb_consumed = [], lb_revoked = []\<rparr>"
    using kinds_exclusive [of ex_grant] ex_grant_facts by (simp add: book_of_def)
  have row: "revoked_row ''acme'' ex_uuid ex_lease 1 (ex_issued + 10000000) = ex_revoked"
    by (simp add: revoked_row_def ex_texts row_of_def ex_revoked_def)
  have "record_key ex_revoked = ''credential-lease-revoked-'' @ ex_uuid"
    by (simp add: ex_revoked_def record_key_def record_id_def get_member_def)
  then have "append_batch (lease_contract ''acme'') [ex_grant] [ex_grant] [ex_revoked] = Inr [ex_grant, ex_revoked]"
    using ex_revoked_valid [of False] ex_revoked_length ex_grant_length
    by (simp add: append_batch_Inr lease_contract_def ledger_bounds ledger_bytes_def ex_ids ex_lease_def)
  moreover have "is_identifier ''token''" "is_identifier ''worker''" by (simp_all add: evaluate)
  ultimately show ?thesis
    using ledger by (simp add: revoke_alias_def transact_records_def book revocable_def ex_grant_facts row Let_def)
qed

section \<open>Witnesses\<close>

text \<open>A helper that is started sees the consumption, whatever it answers.\<close>

lemma ex_started:
  "lh_starts (exec_lease_ops ''acme'' (\<lambda>_. 100) (ex_history @ [Deliver ex_authority (ex_delivery helper) ex_lease])
     (new_host [])) = [\<lparr>hs_lease = ex_lease, hs_alias = ''token'', hs_rows = [ex_grant, ex_consumed]\<rparr>]"
  by (simp add: exec_lease_ops_append ex_issue ex_deliver ex_delivered_def)

theorem revoked_never_handed_out_witness:
  "ex_lease \<notin> hs_lease ` set (lh_starts (exec_lease_ops ''acme'' (\<lambda>_. 100)
     [Deliver ex_authority (ex_delivery HelperFailed) ex_lease] (new_host [ex_grant, ex_revoked]))) \<and>
   fst (deliver ''acme'' (\<lambda>_. 100) ex_authority (ex_delivery (HelperExit 0 (''hunter2'' @ [CHR 0x0A]))) ex_lease
     (exec_lease_ops ''acme'' (\<lambda>_. 100) [Deliver ex_authority (ex_delivery HelperFailed) ex_lease]
       (new_host [ex_grant, ex_revoked]))) \<noteq>
     Inr \<lparr>dl_mode = ''helper_response'', dl_receipt = ex_consumed, dl_secret = ''hunter2''\<rparr>"
proof -
  have "revoke_alias ''acme'' (\<lambda>_. ex_uuid) ''token'' ''worker'' 1 (ex_issued + 10000000)
      (lh_rows (exec_lease_ops ''acme'' (\<lambda>_. 100) ex_history (new_host []))) = Inr ([ex_revoked], [ex_grant, ex_revoked])"
    by (simp add: ex_issue ex_revoke)
  from revoked_never_handed_out [OF this _ _ _ _ _ refl, of ex_grant] show ?thesis
    by (simp only: ex_grant_facts insert_iff list.set simp_thms)
qed

theorem failed_delivery_spends_lease_witness:
  "active_lease ''acme'' ex_lease (ex_issued + 20000000) [ex_grant, ex_consumed] =
     Inl (ProtocolRefusal ''credential_lease_already_consumed'')"
proof -
  have "deliver ''acme'' (\<lambda>_. 100) ex_authority (ex_delivery HelperFailed) ex_lease
      (exec_lease_ops ''acme'' (\<lambda>_. 100) ex_history (new_host [])) =
      (Inl (ProtocolRefusal ''credential_lease_helper_refused''), ex_delivered)"
    by (simp only: ex_issue ex_deliver ex_secret)
  from failed_delivery_spends_lease [OF this] show ?thesis by (simp add: ex_issue ex_delivered_def)
qed

theorem delivery_within_term_witness:
  "\<exists>grant \<in> {ex_grant, ex_consumed}. is_kind ''credential_lease_granted'' grant \<and> record_key grant = ex_lease \<and>
     ex_issued + 10000000 < timestamp_value (text_at grant ''timestamp'') + seconds (int_at grant ''ttl_seconds'')"
proof -
  have "deliver ''acme'' (\<lambda>_. 100) ex_authority (ex_delivery (HelperExit 0 (''hunter2'' @ [CHR 0x0A]))) ex_lease
      (exec_lease_ops ''acme'' (\<lambda>_. 100) ex_history (new_host [])) =
      (Inr \<lparr>dl_mode = ''helper_response'', dl_receipt = ex_consumed, dl_secret = ''hunter2''\<rparr>, ex_delivered)"
    by (simp only: ex_issue ex_deliver ex_secret)
  moreover have "at_instants ex_history"
    by (simp add: at_instants_def ex_history_def op_instant_def ex_issued_def last_instant_def)
  moreover have "di_now (ex_delivery (HelperExit 0 (''hunter2'' @ [CHR 0x0A]))) = ex_issued + 10000000"
    by (simp add: ex_delivery_def)
  moreover have "set (lh_rows ex_delivered) = {ex_grant, ex_consumed}" by (auto simp: ex_delivered_def)
  ultimately show ?thesis using delivery_within_term by metis
qed

end
