(* ===== verification/Approvals.thy ===== *)
theory Approvals
  imports Ledger_Rows Iso_Time Planes Registry
begin

text \<open>
  Capability declarations and authority-bound approvals (\<open>floati/approvals.py\<close>): the ledgers
  \<open>capabilities/records.jsonl\<close>, \<open>approvals/requests.jsonl\<close> and \<open>approvals/decisions.jsonl\<close>.

  An instant counts microseconds from the first day of year 1, for the authority rows of \<open>Planes\<close>
  too.  Fresh UUIDs, the rows of the registry and the authority ledgers are inputs of an operation.
\<close>

section \<open>Ledgers\<close>

definition capability_contract :: "string \<Rightarrow> json row_contract" where
  "capability_contract tenant = rows_contract (validate_record SPECS tenant [''capability''])"

definition request_contract :: "string \<Rightarrow> json row_contract" where
  "request_contract tenant = rows_contract (validate_record SPECS tenant [''approval_request''])"

definition decision_contract :: "string \<Rightarrow> json row_contract" where
  "decision_contract tenant = rows_contract (validate_record SPECS tenant [''approval_decision''])"

text \<open>\<open>_parse_time\<close> of a member that the reader has accepted as a timestamp.\<close>

definition time_at :: "json \<Rightarrow> string \<Rightarrow> int" where
  "time_at r name = timestamp_value (text_at r name)"

definition text_or_null :: "string option \<Rightarrow> json" where
  "text_or_null v = (case v of None \<Rightarrow> JNull | Some s \<Rightarrow> JStr s)"

definition int_or_null :: "int option \<Rightarrow> json" where
  "int_or_null v = (case v of None \<Rightarrow> JNull | Some i \<Rightarrow> JInt i)"

text \<open>\<open>next((row for row in rows if row["id"] == row_id), None)\<close>.\<close>

definition row_with_id :: "json \<Rightarrow> json list \<Rightarrow> json option" where
  "row_with_id i rows = List.find (\<lambda>r. record_id r = i) rows"

definition action_digest :: "json \<Rightarrow> string res" where
  "action_digest v =
     (case v of
        JStr s \<Rightarrow> if is_sha256 s then Inr s else Inl (ProtocolRefusal ''exact_action_digest_invalid'')
      | _ \<Rightarrow> Inl (ProtocolRefusal ''exact_action_digest_invalid''))"

text \<open>\<open>ApprovalLedger._authority\<close>.\<close>

definition approval_authority ::
    "string \<Rightarrow> (interval_row \<Rightarrow> nat) \<Rightarrow> string \<Rightarrow> int \<Rightarrow> int \<Rightarrow> interval_store \<Rightarrow> interval_row res" where
  "approval_authority tenant flen subject epoch current authorities =
     guardR (epoch < 1) (ProtocolRefusal ''authority_epoch_invalid'')
    (bindR (latest_row (interval_contract authority_config tenant flen) (authorities subject)) (\<lambda>latest.
       case latest of
         None \<Rightarrow> Inl (ProtocolRefusal ''authority_missing'')
       | Some grant \<Rightarrow>
           if iv_epoch grant \<noteq> epoch then Inl (ProtocolRefusal ''authority_epoch_mismatch'')
           else if iv_state grant \<noteq> Active \<or> current \<ge> parse_time (iv_expires_at grant)
             then Inl (ProtocolRefusal ''authority_inactive'')
           else Inr grant))"

section \<open>Capabilities\<close>

definition capability_row ::
    "string \<Rightarrow> string \<Rightarrow> string \<Rightarrow> string \<Rightarrow> string \<Rightarrow> string \<Rightarrow> int \<Rightarrow> int \<Rightarrow> json" where
  "capability_row tenant uuid node capability mode scope current expires = row_of
     [(''schema_version'', JInt 0), (''id'', JStr (''capability-'' @ uuid)),
      (''tenant_id'', JStr tenant), (''timestamp'', JStr (iso_text current)),
      (''kind'', JStr ''capability''), (''node_id'', JStr node), (''capability'', JStr capability),
      (''mode'', JStr mode), (''scope'', JStr scope), (''observed_at'', JStr (iso_text current)),
      (''expires_at'', JStr (iso_text expires))]"

definition declare_capability ::
    "string \<Rightarrow> string \<Rightarrow> registry_row list \<Rightarrow> string \<Rightarrow> string \<Rightarrow> string \<Rightarrow> string \<Rightarrow> int \<Rightarrow> int \<Rightarrow>
     json list \<Rightarrow> (json \<times> json list) res" where
  "declare_capability tenant uuid registry node capability mode scope ttl current rows =
     bindR (require_active registry node) (\<lambda>_.
     bindR (validate_ttl ttl) (\<lambda>_.
     bindR (instant_plus current (seconds ttl)) (\<lambda>expires.
       let r = capability_row tenant uuid node capability mode scope current expires in
       bindR (append_record (capability_contract tenant) rows r) (\<lambda>rows'. Inr (r, rows')))))"

text \<open>\<open>CapabilityLedger.current\<close>: the last declaration with its status.\<close>

definition current_capability ::
    "string \<Rightarrow> string \<Rightarrow> string \<Rightarrow> int \<Rightarrow> json list \<Rightarrow> (json \<times> string) res" where
  "current_capability tenant node capability current rows =
     bindR (decode_path_records (capability_contract tenant) rows) (\<lambda>records.
       let selected = filter (\<lambda>r. member_of r ''node_id'' = JStr node \<and>
             member_of r ''capability'' = JStr capability) records
       in if selected = [] then Inl (ProtocolRefusal ''capability_unknown'')
          else let r = last selected
               in Inr (r, if current \<ge> time_at r ''expires_at'' then ''expired'' else ''current''))"

section \<open>Requests\<close>

record approval_terms =
  at_requester :: string
  at_capability :: string
  at_scope :: string
  at_ttl :: int
  at_subject :: string
  at_epoch :: int

definition request_row ::
    "string \<Rightarrow> string \<Rightarrow> approval_terms \<Rightarrow> string option \<Rightarrow> int \<Rightarrow> int \<Rightarrow> json" where
  "request_row tenant uuid t digest current expires = row_of
     ([(''schema_version'', JInt (if digest = None then 0 else 1)),
       (''id'', JStr (''approval-request-'' @ uuid)), (''tenant_id'', JStr tenant),
       (''timestamp'', JStr (iso_text current)), (''kind'', JStr ''approval_request''),
       (''requester'', JStr (at_requester t)), (''capability'', JStr (at_capability t)),
       (''scope'', JStr (at_scope t)), (''requested_ttl_seconds'', JInt (at_ttl t)),
       (''requested_at'', JStr (iso_text current)), (''expires_at'', JStr (iso_text expires)),
       (''authority_subject'', JStr (at_subject t)), (''authority_epoch'', JInt (at_epoch t))] @
      (case digest of None \<Rightarrow> [] | Some d \<Rightarrow> [(''exact_action_digest'', JStr d)]))"

text \<open>\<open>_request\<close>; \<open>request\<close> is the call without a digest.\<close>

definition request_approval ::
    "string \<Rightarrow> (interval_row \<Rightarrow> nat) \<Rightarrow> string \<Rightarrow> registry_row list \<Rightarrow> approval_terms \<Rightarrow> string option \<Rightarrow>
     int \<Rightarrow> interval_store \<Rightarrow> json list \<Rightarrow> (json \<times> json list) res" where
  "request_approval tenant flen uuid registry t digest current authorities requests =
     bindR (require_active registry (at_requester t)) (\<lambda>_.
     bindR (validate_ttl (at_ttl t)) (\<lambda>_.
     bindR (validate_identifier ''authority_subject'' (at_subject t)) (\<lambda>subject.
     bindR (approval_authority tenant flen subject (at_epoch t) current authorities) (\<lambda>grant.
     bindR (instant_plus current (seconds (at_ttl t))) (\<lambda>expires.
       if expires > parse_time (iv_expires_at grant)
         then Inl (ProtocolRefusal ''approval_ttl_exceeds_authority'')
       else let r = request_row tenant uuid t digest current expires in
         bindR (append_record (request_contract tenant) requests r) (\<lambda>requests'.
           Inr (r, requests')))))))"

definition request_for_action ::
    "string \<Rightarrow> (interval_row \<Rightarrow> nat) \<Rightarrow> string \<Rightarrow> registry_row list \<Rightarrow> approval_terms \<Rightarrow> json \<Rightarrow>
     int \<Rightarrow> interval_store \<Rightarrow> json list \<Rightarrow> (json \<times> json list) res" where
  "request_for_action tenant flen uuid registry t exact current authorities requests =
     bindR (action_digest exact) (\<lambda>digest.
       request_approval tenant flen uuid registry t (Some digest) current authorities requests)"

section \<open>Decisions\<close>

record decision_terms =
  dt_request :: string
  dt_decider :: string
  dt_decision :: string
  dt_reason :: "string option"
  dt_scope :: "string option"
  dt_ttl :: "int option"

text \<open>The expiry of an approved decision, and none of a denied one.\<close>

definition decision_expiry :: "decision_terms \<Rightarrow> json \<Rightarrow> interval_row \<Rightarrow> int \<Rightarrow> int option res" where
  "decision_expiry t request grant current =
     (if dt_decision t = ''approved'' then
        if text_or_null (dt_scope t) \<noteq> member_of request ''scope''
          then Inl (ProtocolRefusal ''approval_scope_broadened'')
        else (case dt_ttl t of
                None \<Rightarrow> Inl (ProtocolRefusal ''approval_ttl_invalid'')
              | Some ttl \<Rightarrow>
                  bindR (validate_ttl ttl) (\<lambda>_.
                  bindR (instant_plus current (seconds ttl)) (\<lambda>expiry.
                    if ttl > int_at request ''requested_ttl_seconds'' \<or>
                       expiry > time_at request ''expires_at'' \<or> expiry > parse_time (iv_expires_at grant)
                      then Inl (ProtocolRefusal ''approval_ttl_broadened'')
                    else if dt_reason t \<noteq> None then Inl (ProtocolRefusal ''reason_code_invalid'')
                    else Inr (Some expiry))))
      else if dt_decision t = ''denied'' then
        if dt_scope t \<noteq> None \<or> dt_ttl t \<noteq> None then Inl (ProtocolRefusal ''denial_grant_invalid'')
        else Inr None
      else Inl (ProtocolRefusal ''decision_invalid''))"

definition decision_row ::
    "string \<Rightarrow> string \<Rightarrow> decision_terms \<Rightarrow> json \<Rightarrow> int \<Rightarrow> int option \<Rightarrow> json" where
  "decision_row tenant uuid t request current expiry = row_of
     ([(''schema_version'', member_of request ''schema_version''),
       (''id'', JStr (''approval-decision-'' @ uuid)), (''tenant_id'', JStr tenant),
       (''timestamp'', JStr (iso_text current)), (''kind'', JStr ''approval_decision''),
       (''request_id'', JStr (dt_request t)), (''decider'', JStr (dt_decider t)),
       (''decision'', JStr (dt_decision t)), (''granted_scope'', text_or_null (dt_scope t)),
       (''granted_ttl_seconds'', int_or_null (dt_ttl t)), (''reason_code'', text_or_null (dt_reason t)),
       (''decided_at'', JStr (iso_text current)),
       (''expires_at'', text_or_null (map_option iso_text expiry)),
       (''authority_subject'', member_of request ''authority_subject''),
       (''authority_epoch'', member_of request ''authority_epoch'')] @
      (if member_of request ''schema_version'' = JInt 1
         then [(''exact_action_digest'', member_of request ''exact_action_digest'')] else []))"

definition decide_approval ::
    "string \<Rightarrow> (interval_row \<Rightarrow> nat) \<Rightarrow> string \<Rightarrow> registry_row list \<Rightarrow> decision_terms \<Rightarrow> int \<Rightarrow>
     interval_store \<Rightarrow> json list \<Rightarrow> json list \<Rightarrow> (json \<times> json list) res" where
  "decide_approval tenant flen uuid registry t current authorities requests decisions =
     bindR (require_active registry (dt_decider t)) (\<lambda>_.
     bindR (decode_path_records (request_contract tenant) requests) (\<lambda>records.
       case row_with_id (JStr (dt_request t)) records of
         None \<Rightarrow> Inl (ProtocolRefusal ''approval_request_unknown'')
       | Some request \<Rightarrow>
           if current \<ge> time_at request ''expires_at''
             then Inl (ProtocolRefusal ''approval_request_expired'')
           else bindR (approval_authority tenant flen (text_at request ''authority_subject'')
                         (int_at request ''authority_epoch'') current authorities) (\<lambda>grant.
             if iv_holder grant \<noteq> dt_decider t
               then Inl (ProtocolRefusal ''authority_holder_mismatch'')
             else bindR (decision_expiry t request grant current) (\<lambda>expiry.
               let r = decision_row tenant uuid t request current expiry in
               bindR (validate_record SPECS tenant [''approval_decision''] False r) (\<lambda>_.
                 transact (decision_contract tenant) decisions (\<lambda>existing.
                   if list_ex (\<lambda>item. member_of item ''request_id'' = JStr (dt_request t)) existing
                     then Inl (ProtocolRefusal ''approval_already_decided'')
                   else Inr (r, Some r)))))))"

section \<open>Checking an approved action\<close>

definition same_approval :: "json \<Rightarrow> json \<Rightarrow> json \<Rightarrow> string \<Rightarrow> bool" where
  "same_approval request decision requester digest \<longleftrightarrow>
     member_of request ''schema_version'' = JInt 1 \<and>
     member_of request ''exact_action_digest'' = JStr digest \<and>
     member_of request ''requester'' = requester \<and>
     member_of decision ''schema_version'' = JInt 1 \<and>
     member_of decision ''request_id'' = record_id request \<and>
     member_of decision ''exact_action_digest'' = JStr digest \<and>
     member_of decision ''granted_scope'' = member_of request ''scope'' \<and>
     member_of decision ''authority_subject'' = member_of request ''authority_subject'' \<and>
     member_of decision ''authority_epoch'' = member_of request ''authority_epoch'' \<and>
     time_at request ''requested_at'' \<le> time_at decision ''decided_at''"

definition require_approved_action ::
    "string \<Rightarrow> json \<Rightarrow> json \<Rightarrow> json \<Rightarrow> json \<Rightarrow> int \<Rightarrow> json list \<Rightarrow> json list \<Rightarrow> (json \<times> json) res" where
  "require_approved_action tenant request_id decision_id requester exact current requests decisions =
     bindR (decode_path_records (request_contract tenant) requests) (\<lambda>request_rows.
     bindR (decode_path_records (decision_contract tenant) decisions) (\<lambda>decision_rows.
       case (row_with_id request_id request_rows, row_with_id decision_id decision_rows) of
         (Some request, Some decision) \<Rightarrow>
           bindR (action_digest exact) (\<lambda>digest.
             if \<not> same_approval request decision requester digest
               then Inl (ProtocolRefusal ''effect_approval_action_mismatch'')
             else if member_of decision ''decision'' \<noteq> JStr ''approved''
               then Inl (ProtocolRefusal ''effect_approval_not_approved'')
             else if member_of decision ''expires_at'' = JNull \<or>
                     current \<ge> time_at decision ''expires_at'' \<or>
                     time_at decision ''expires_at'' > time_at request ''expires_at''
               then Inl (ProtocolRefusal ''effect_approval_expired'')
             else Inr (request, decision))
       | _ \<Rightarrow> Inl (ProtocolRefusal ''effect_approval_missing'')))"

end
