(* ===== verification/Approval_Safety.thy ===== *)
theory Approval_Safety
  imports Approvals
begin

text \<open>
  Approvals over any history of operations: every decision of the ledger was written by a call of
  \<open>decide\<close> of the active holder of the authority its request names, and a request has at most one.
\<close>

section \<open>Histories\<close>

record approvals =
  ap_capabilities :: "json list"
  ap_requests :: "json list"
  ap_decisions :: "json list"

definition no_approvals :: approvals where
  "no_approvals = \<lparr>ap_capabilities = [], ap_requests = [], ap_decisions = []\<rparr>"

datatype approval_op =
    Declare string "registry_row list" string string string string int int
  | Request string "registry_row list" approval_terms int interval_store
  | Request_action string "registry_row list" approval_terms json int interval_store
  | Decide string "registry_row list" decision_terms int interval_store

fun exec_approval_op :: "string \<Rightarrow> (interval_row \<Rightarrow> nat) \<Rightarrow> approval_op \<Rightarrow> approvals \<Rightarrow> approvals" where
  "exec_approval_op tenant flen (Declare uuid registry node capability mode scope ttl now) s =
     (case declare_capability tenant uuid registry node capability mode scope ttl now (ap_capabilities s) of
        Inl e \<Rightarrow> s | Inr (r, rows) \<Rightarrow> s\<lparr>ap_capabilities := rows\<rparr>)"
| "exec_approval_op tenant flen (Request uuid registry t now authorities) s =
     (case request_approval tenant flen uuid registry t None now authorities (ap_requests s) of
        Inl e \<Rightarrow> s | Inr (r, rows) \<Rightarrow> s\<lparr>ap_requests := rows\<rparr>)"
| "exec_approval_op tenant flen (Request_action uuid registry t exact now authorities) s =
     (case request_for_action tenant flen uuid registry t exact now authorities (ap_requests s) of
        Inl e \<Rightarrow> s | Inr (r, rows) \<Rightarrow> s\<lparr>ap_requests := rows\<rparr>)"
| "exec_approval_op tenant flen (Decide uuid registry t now authorities) s =
     (case decide_approval tenant flen uuid registry t now authorities (ap_requests s) (ap_decisions s) of
        Inl e \<Rightarrow> s | Inr (r, rows) \<Rightarrow> s\<lparr>ap_decisions := rows\<rparr>)"

definition exec_approval_ops :: "string \<Rightarrow> (interval_row \<Rightarrow> nat) \<Rightarrow> approval_op list \<Rightarrow> approvals" where
  "exec_approval_ops tenant flen ops = fold (exec_approval_op tenant flen) ops no_approvals"

lemma exec_approval_ops_snoc:
  "exec_approval_ops tenant flen (ops @ [op]) = exec_approval_op tenant flen op (exec_approval_ops tenant flen ops)"
  by (simp add: exec_approval_ops_def)

section \<open>What an operation appends\<close>

lemma approval_rows_canonical [simp]:
  "canon (request_row tenant uuid t digest now expires) = request_row tenant uuid t digest now expires"
  "canon (decision_row tenant uuid d request now expiry) = decision_row tenant uuid d request now expiry"
  by (simp_all add: request_row_def decision_row_def)

lemma approval_authority_Inr:
  assumes "approval_authority tenant flen subject epoch now authorities = Inr grant"
  shows "\<exists>earlier. authorities subject = earlier @ [grant]" "iv_state grant = Active" "iv_epoch grant = epoch"
    "now < parse_time (iv_expires_at grant)"
proof -
  have tail: "latest_row (interval_contract authority_config tenant flen) (authorities subject) = Inr (Some grant)"
      and ok: "iv_state grant = Active" "iv_epoch grant = epoch" "now < parse_time (iv_expires_at grant)"
    using assms
    by (simp_all add: approval_authority_def bindR_def split: sum.splits option.splits if_split_asm)
  from ok show "iv_state grant = Active" "iv_epoch grant = epoch" "now < parse_time (iv_expires_at grant)"
    by blast+
  from tail have "authorities subject \<noteq> []" "last (authorities subject) = grant"
    by (auto simp: latest_row_def bindR_Inr_iff decode_path_records_Inr_iff split: if_splits)
  then show "\<exists>earlier. authorities subject = earlier @ [grant]" by (metis append_butlast_last_id)
qed

lemma request_approval_Inr:
  assumes "request_approval tenant flen uuid registry t digest now authorities rows = Inr (r, rows')"
  shows "readable (request_contract tenant) rows'" "rows' = rows @ [r]"
proof -
  from assms obtain expires where "r = request_row tenant uuid t digest now expires"
      "append_record (request_contract tenant) rows r = Inr rows'"
    by (auto simp: request_approval_def bindR_Inr_iff Let_def split: if_splits)
  then show "readable (request_contract tenant) rows'" "rows' = rows @ [r]"
    using governed.append_record_readable [of tenant "[''approval_request'']" rows r rows']
    by (simp_all add: request_contract_def)
qed

lemma request_for_action_Inr:
  assumes "request_for_action tenant flen uuid registry t exact now authorities rows = Inr (r, rows')"
  shows "readable (request_contract tenant) rows'" "rows' = rows @ [r]"
  using assms request_approval_Inr by (auto simp: request_for_action_def bindR_Inr_iff)

lemma row_with_id_Some: "row_with_id i rows = Some r \<longleftrightarrow> List.find (\<lambda>r. record_id r = i) rows = Some r"
  by (simp add: row_with_id_def)

lemma row_with_idD: "row_with_id i rows = Some r \<Longrightarrow> r \<in> set rows \<and> record_id r = i"
  by (auto simp: row_with_id_def find_Some_iff)

definition request_of :: "json \<Rightarrow> json" where
  "request_of d = member_of d ''request_id''"

lemma decide_approval_Inr:
  assumes "decide_approval tenant flen uuid registry t now authorities requests decisions = Inr (d, decisions')"
  obtains request grant expiry where
    "row_with_id (JStr (dt_request t)) requests = Some request" "now < time_at request ''expires_at''"
    "approval_authority tenant flen (text_at request ''authority_subject'')
       (int_at request ''authority_epoch'') now authorities = Inr grant"
    "iv_holder grant = dt_decider t" "decision_expiry t request grant now = Inr expiry"
    "d = decision_row tenant uuid t request now expiry"
    "decisions' = decisions @ [d]" "readable (decision_contract tenant) decisions'"
    "JStr (dt_request t) \<notin> request_of ` set decisions"
proof -
  from assms obtain request where req: "row_with_id (JStr (dt_request t)) requests = Some request"
      "now < time_at request ''expires_at''"
    by (auto simp: decide_approval_def bindR_Inr_iff decode_path_records_Inr_iff not_le split: option.splits if_splits)
  from assms req(1) obtain grant expiry where g:
      "approval_authority tenant flen (text_at request ''authority_subject'')
         (int_at request ''authority_epoch'') now authorities = Inr grant"
      "iv_holder grant = dt_decider t" "decision_expiry t request grant now = Inr expiry"
      "d = decision_row tenant uuid t request now expiry"
      "append_record (decision_contract tenant) decisions d = Inr decisions'"
      "\<not> list_ex (\<lambda>item. member_of item ''request_id'' = JStr (dt_request t)) decisions"
    by (auto simp: decide_approval_def bindR_Inr_iff decode_path_records_Inr_iff transact_Inr_iff Let_def
        split: if_splits)
  have "canon d = d" by (simp add: g(4))
  note app = governed.append_record_readable
    [OF g(5) [unfolded decision_contract_def] this, folded decision_contract_def]
  have "JStr (dt_request t) \<notin> request_of ` set decisions"
    using g(6) by (auto simp: request_of_def list_ex_iff)
  then show ?thesis using that req g(1-4) app by blast
qed

section \<open>The invariant\<close>

definition decided :: "string \<Rightarrow> approval_op list \<Rightarrow> json list \<Rightarrow> json \<Rightarrow> bool" where
  "decided tenant ops requests d \<longleftrightarrow>
     (\<exists>uuid registry t now authorities request earlier grant expiry.
        Decide uuid registry t now authorities \<in> set ops \<and>
        request \<in> set requests \<and> record_id request = JStr (dt_request t) \<and>
        d = decision_row tenant uuid t request now expiry \<and> now < time_at request ''expires_at'' \<and>
        authorities (text_at request ''authority_subject'') = earlier @ [grant] \<and>
        iv_state grant = Active \<and> iv_holder grant = dt_decider t \<and>
        iv_epoch grant = int_at request ''authority_epoch'' \<and> now < parse_time (iv_expires_at grant) \<and>
        decision_expiry t request grant now = Inr expiry)"

definition approvals_sound :: "string \<Rightarrow> approval_op list \<Rightarrow> approvals \<Rightarrow> bool" where
  "approvals_sound tenant ops s \<longleftrightarrow>
     readable (request_contract tenant) (ap_requests s) \<and> readable (decision_contract tenant) (ap_decisions s) \<and>
     distinct (map request_of (ap_decisions s)) \<and> (\<forall>d \<in> set (ap_decisions s). decided tenant ops (ap_requests s) d)"

lemma decided_mono:
  "decided tenant ops requests d \<Longrightarrow> set requests \<subseteq> set requests' \<Longrightarrow> decided tenant (ops @ [op]) requests' d"
  unfolding decided_def by (simp, blast)

lemma request_of_decision [simp]: "request_of (decision_row tenant uuid t request now expiry) = JStr (dt_request t)"
  by (simp add: request_of_def decision_row_def get_member_def)

lemma approvals_sound_step:
  assumes "approvals_sound tenant ops s"
  shows "approvals_sound tenant (ops @ [op]) (exec_approval_op tenant flen op s)"
proof -
  have stay: "approvals_sound tenant (ops @ [op]) s"
    using assms decided_mono by (auto simp: approvals_sound_def)
  have requests: "approvals_sound tenant (ops @ [op]) (s\<lparr>ap_requests := rows\<rparr>)"
    if "readable (request_contract tenant) rows" "rows = ap_requests s @ [r]" for r rows
    using assms that decided_mono [of tenant ops "ap_requests s" _ rows op] by (auto simp: approvals_sound_def)
  show ?thesis
  proof (cases op)
    case (Declare uuid registry node capability mode scope ttl now)
    then show ?thesis using stay by (auto simp: approvals_sound_def split: sum.split)
  next
    case (Request uuid registry t now authorities)
    then show ?thesis using stay requests [OF request_approval_Inr] by (auto split: sum.split)
  next
    case (Request_action uuid registry t exact now authorities)
    then show ?thesis using stay requests [OF request_for_action_Inr] by (auto split: sum.split)
  next
    case (Decide uuid registry t now authorities)
    show ?thesis
    proof (cases "decide_approval tenant flen uuid registry t now authorities (ap_requests s) (ap_decisions s)")
      case (Inl e)
      then show ?thesis using stay by (simp add: Decide)
    next
      case (Inr p)
      then obtain d rows where res: "decide_approval tenant flen uuid registry t now authorities (ap_requests s)
          (ap_decisions s) = Inr (d, rows)" by (cases p) simp
      obtain request grant expiry where d:
          "row_with_id (JStr (dt_request t)) (ap_requests s) = Some request" "now < time_at request ''expires_at''"
          "approval_authority tenant flen (text_at request ''authority_subject'')
             (int_at request ''authority_epoch'') now authorities = Inr grant"
          "iv_holder grant = dt_decider t" "decision_expiry t request grant now = Inr expiry"
          "d = decision_row tenant uuid t request now expiry"
          "rows = ap_decisions s @ [d]" "readable (decision_contract tenant) rows"
          "JStr (dt_request t) \<notin> request_of ` set (ap_decisions s)"
        by (rule decide_approval_Inr [OF res])
      note grant = approval_authority_Inr [OF d(3)]
      obtain earlier where "authorities (text_at request ''authority_subject'') = earlier @ [grant]"
        using grant(1) by blast
      then have "decided tenant (ops @ [op]) (ap_requests s) d"
        unfolding decided_def
        using row_with_idD [OF d(1)] d(2,4,5,6) grant(2-4)
        by (intro exI [of _ uuid] exI [of _ registry] exI [of _ t] exI [of _ now] exI [of _ authorities]
            exI [of _ request] exI [of _ earlier] exI [of _ grant] exI [of _ expiry]) (simp add: Decide)
      moreover have "distinct (map request_of rows)"
        using d(6,7,9) assms by (simp add: approvals_sound_def)
      ultimately show ?thesis
        using stay d(7,8) by (auto simp: Decide res approvals_sound_def)
    qed
  qed
qed

lemma approvals_sound_history: "approvals_sound tenant ops (exec_approval_ops tenant flen ops)"
proof (induction ops rule: rev_induct)
  case Nil
  then show ?case by (simp add: exec_approval_ops_def no_approvals_def approvals_sound_def)
next
  case (snoc op ops)
  then show ?case by (simp add: exec_approval_ops_snoc approvals_sound_step)
qed

section \<open>Properties\<close>




text \<open>C38: an approval request is decided at most once over any history of approval operations, and the
  ledgers of requests and decisions stay readable.\<close>

theorem requests_decided_once:
  "distinct (map (\<lambda>d. member_of d ''request_id'') (ap_decisions (exec_approval_ops tenant flen ops))) \<and>
   readable (request_contract tenant) (ap_requests (exec_approval_ops tenant flen ops)) \<and>
   readable (decision_contract tenant) (ap_decisions (exec_approval_ops tenant flen ops))"
  using approvals_sound_history [of tenant ops flen] by (simp add: approvals_sound_def request_of_def [abs_def])


end
