(* ===== verification/Approval_Examples.thy ===== *)
theory Approval_Examples
  imports Approval_Safety Concrete_Values
begin






















section \<open>The history\<close>







end
