(* ===== verification/Effect_Book.thy ===== *)
theory Effect_Book
  imports Ledger_Rows Task_Contracts
begin

text \<open>
  The projection of the effect ledger \<open>effects/records.jsonl\<close> (\<open>EffectProjection\<close> of
  \<open>floati/effects.py\<close>): one lifecycle per effect operation, folded over the rows in physical order,
  with the evidence an acceptance decision reads from it.

  A dictionary is compared by its canonical value.  The digest of the evidence uses the argument
  \<open>sha256\<close> from bytes to the hexadecimal text.
\<close>

section \<open>Rows\<close>

definition EFFECT_KINDS :: "string list" where
  "EFFECT_KINDS =
    [''effect_intent'', ''effect_dispatched'', ''effect_acknowledged'', ''effect_confirmed'', ''effect_failed'',
     ''effect_unknown'', ''effect_reconciled'', ''compensation_proposed'', ''compensation_executed'']"

definition effect_contract :: "string \<Rightarrow> json row_contract" where
  "effect_contract tenant = rows_contract (validate_record SPECS tenant EFFECT_KINDS)"

definition binding_of :: "json \<Rightarrow> members" where
  "binding_of r = map (\<lambda>f. (f, canon (member_of r f))) EFFECT_BINDING_FIELDS"

text \<open>The row of a budget table, and the table; \<open>None\<close> when the member is null or absent.\<close>

definition spend_row :: "json \<Rightarrow> string \<times> int" where
  "spend_row v = (text_at v ''budget_id'', int_at v ''amount'')"

definition spend_rows :: "json \<Rightarrow> (string \<times> int) list option" where
  "spend_rows v = (case v of JArr vs \<Rightarrow> Some (map spend_row vs) | _ \<Rightarrow> None)"

definition spend_table :: "json \<Rightarrow> (string \<times> int) list" where
  "spend_table v = (case spend_rows v of None \<Rightarrow> [] | Some rows \<Rightarrow> rows)"

section \<open>Operations\<close>

datatype effect_outcome = Confirmed | Failed | Unknown

datatype effect_state =
  Intended | Dispatched | Acknowledged | Outcome effect_outcome | Reconciled effect_outcome

datatype compensation_state = Comp_none | Comp_proposed | Comp_executed

fun outcome_text :: "effect_outcome \<Rightarrow> string" where
  "outcome_text Confirmed = ''confirmed''"
| "outcome_text Failed = ''failed''"
| "outcome_text Unknown = ''unknown''"

fun state_text :: "effect_state \<Rightarrow> string" where
  "state_text Intended = ''intent''"
| "state_text Dispatched = ''dispatched''"
| "state_text Acknowledged = ''acknowledged''"
| "state_text (Outcome out) = outcome_text out"
| "state_text (Reconciled out) = ''reconciled_'' @ outcome_text out"

text \<open>\<open>_TERMINAL_STATES\<close>, the confirmed states, and the states that reconciliation may follow.\<close>

fun terminal_state :: "effect_state \<Rightarrow> bool" where
  "terminal_state (Outcome out) = True"
| "terminal_state (Reconciled out) = True"
| "terminal_state _ = False"

definition confirmed_state :: "effect_state \<Rightarrow> bool" where
  "confirmed_state s \<longleftrightarrow> s \<in> {Outcome Confirmed, Reconciled Confirmed}"

definition reconcilable :: "effect_state \<Rightarrow> bool" where
  "reconcilable s \<longleftrightarrow> s \<in> {Outcome Failed, Outcome Unknown, Reconciled Failed, Reconciled Unknown}"

text \<open>\<open>_COMPENSATION_SOURCE_STATES\<close>.\<close>

definition compensable :: "effect_state \<Rightarrow> bool" where
  "compensable s \<longleftrightarrow> s \<in> {Outcome Confirmed, Outcome Failed, Reconciled Confirmed, Reconciled Failed,
     Reconciled Unknown}"

record effect_operation =
  eo_binding :: members
  eo_intent :: string
  eo_dispatch :: "string option"
  eo_acknowledgement :: "string option"
  eo_primary :: "string option"
  eo_state :: effect_state
  eo_evidence :: string
  eo_current :: json
  eo_spend_status :: json
  eo_measured :: "(string \<times> int) list option"
  eo_position :: nat
  eo_digests :: "string list"
  eo_compensation :: compensation_state
  eo_proposal :: "string option"
  eo_comp_operation :: "string option"
  eo_comp_digest :: "json"
  eo_proposal_position :: nat

record effect_book =
  eb_records :: "json list"
  eb_operations :: "(string \<times> effect_operation) list"
  eb_attempts :: "((string \<times> string) \<times> string list) list"
  eb_keys :: "(string \<times> string) list"
  eb_seen :: "string list"

definition empty_effects :: effect_book where
  "empty_effects = \<lparr>eb_records = [], eb_operations = [], eb_attempts = [], eb_keys = [], eb_seen = []\<rparr>"

text \<open>A member of the immutable binding.\<close>

definition bound :: "effect_operation \<Rightarrow> string \<Rightarrow> json" where
  "bound op name = get_member (eo_binding op) name"

definition bound_text :: "effect_operation \<Rightarrow> string \<Rightarrow> string" where
  "bound_text op name = (case bound op name of JStr s \<Rightarrow> s | _ \<Rightarrow> [])"

definition claim_of :: "effect_operation \<Rightarrow> (string \<times> int) list" where
  "claim_of op = spend_table (bound op ''budget_claim'')"

section \<open>One row\<close>

definition optional_text :: "string option \<Rightarrow> json" where
  "optional_text v = (case v of None \<Rightarrow> JNull | Some s \<Rightarrow> JStr s)"

definition new_operation :: "effect_book \<Rightarrow> json \<Rightarrow> effect_operation" where
  "new_operation book r =
     \<lparr>eo_binding = binding_of r, eo_intent = record_key r, eo_dispatch = None, eo_acknowledgement = None,
      eo_primary = None, eo_state = Intended, eo_evidence = record_key r, eo_current = r,
      eo_spend_status = JStr ''not_reported'', eo_measured = None,
      eo_position = length (eb_records book) + 1, eo_digests = [], eo_compensation = Comp_none,
      eo_proposal = None, eo_comp_operation = None, eo_comp_digest = JNull, eo_proposal_position = 0\<rparr>"

definition attempt_operations :: "effect_book \<Rightarrow> string \<times> string \<Rightarrow> string list" where
  "attempt_operations book attempt =
     (case map_of (eb_attempts book) attempt of None \<Rightarrow> [] | Some ids \<Rightarrow> ids)"

definition apply_intent :: "bool \<Rightarrow> effect_book \<Rightarrow> json \<Rightarrow> effect_book res" where
  "apply_intent integrity book r =
     (let operation = text_at r ''operation_id''; key = text_at r ''idempotency_key'';
          attempt = (text_at r ''run_id'', text_at r ''attempt_id'') in
      guardR (map_of (eb_operations book) operation \<noteq> None) (refusal integrity ''effect_transition_invalid'')
     (guardR (map_of (eb_keys book) key \<noteq> None) (refusal integrity ''effect_idempotency_conflict'')
     (Inr (book\<lparr>
        eb_operations := AList.update operation (new_operation book r) (eb_operations book),
        eb_keys := AList.update key operation (eb_keys book),
        eb_attempts := AList.update attempt (attempt_operations book attempt @ [operation]) (eb_attempts book)\<rparr>))))"

text \<open>\<open>_require_reference\<close>.\<close>

definition require_reference :: "bool \<Rightarrow> json \<Rightarrow> string \<Rightarrow> json \<Rightarrow> 'a res \<Rightarrow> 'a res" where
  "require_reference integrity r name expected k =
     guardR (member_of r name \<noteq> expected) (refusal integrity ''effect_evidence_invalid'') k"

definition is_confirmation :: "json \<Rightarrow> bool" where
  "is_confirmation r \<longleftrightarrow>
     is_kind ''effect_confirmed'' r \<or>
     is_kind ''effect_reconciled'' r \<and> member_of r ''reconciled_outcome'' = JStr ''confirmed''"

text \<open>\<open>_validate_spend\<close>.  The rows of a budget table have distinct keys, as its validator checks.\<close>

definition validate_spend :: "bool \<Rightarrow> json \<Rightarrow> effect_operation \<Rightarrow> 'a res \<Rightarrow> 'a res" where
  "validate_spend integrity r op k =
     (let claim = claim_of op in
      case spend_rows (member_of r ''measured_spend'') of
        None \<Rightarrow> guardR (is_confirmation r) (refusal integrity ''effect_evidence_invalid'') k
      | Some measured \<Rightarrow>
          guardR (is_confirmation r \<and> fst ` set measured \<noteq> fst ` set claim)
            (refusal integrity ''effect_evidence_invalid'')
         (guardR (list_ex (\<lambda>(budget, amount).
                    case map_of claim budget of None \<Rightarrow> True | Some limit \<Rightarrow> amount > limit) measured)
            (refusal integrity ''effect_budget_exceeded'') k))"

definition set_current :: "json \<Rightarrow> effect_state \<Rightarrow> effect_operation \<Rightarrow> effect_operation" where
  "set_current r state op =
     (let op' = op\<lparr>eo_state := state, eo_evidence := record_key r, eo_current := r\<rparr> in
      if terminal_state state
        then op'\<lparr>eo_spend_status := (if is_kind ''effect_confirmed'' r then JStr ''complete''
                                     else member_of r ''spend_status''),
                 eo_measured := spend_rows (member_of r ''measured_spend'')\<rparr>
      else op')"

definition outcome_of_kind :: "json \<Rightarrow> effect_outcome option" where
  "outcome_of_kind r =
     (if is_kind ''effect_confirmed'' r then Some Confirmed
      else if is_kind ''effect_failed'' r then Some Failed
      else if is_kind ''effect_unknown'' r then Some Unknown else None)"

definition reconciled_outcome :: "json \<Rightarrow> effect_outcome option" where
  "reconciled_outcome r =
     (let v = member_of r ''reconciled_outcome'' in
      if v = JStr ''confirmed'' then Some Confirmed
      else if v = JStr ''failed'' then Some Failed
      else if v = JStr ''unknown'' then Some Unknown else None)"

definition apply_dispatched :: "bool \<Rightarrow> json \<Rightarrow> effect_operation \<Rightarrow> effect_operation res" where
  "apply_dispatched integrity r op =
     guardR (eo_state op \<noteq> Intended) (refusal integrity ''effect_transition_invalid'')
     (Inr (set_current r Dispatched (op\<lparr>eo_dispatch := Some (record_key r)\<rparr>)))"

definition apply_acknowledged :: "bool \<Rightarrow> json \<Rightarrow> effect_operation \<Rightarrow> effect_operation res" where
  "apply_acknowledged integrity r op =
     guardR (eo_state op \<noteq> Dispatched) (refusal integrity ''effect_transition_invalid'')
    (require_reference integrity r ''effect_dispatched_id'' (optional_text (eo_dispatch op))
    (Inr (set_current r Acknowledged (op\<lparr>eo_acknowledgement := Some (record_key r)\<rparr>))))"

definition apply_primary ::
    "bool \<Rightarrow> json \<Rightarrow> effect_outcome \<Rightarrow> effect_operation \<Rightarrow> effect_operation res" where
  "apply_primary integrity r out op =
     guardR (eo_state op \<notin> {Dispatched, Acknowledged}) (refusal integrity ''effect_transition_invalid'')
    (require_reference integrity r ''effect_dispatched_id'' (optional_text (eo_dispatch op))
    (guardR (out = Confirmed \<and> member_of r ''effect_acknowledged_id'' \<noteq> optional_text (eo_acknowledgement op))
       (refusal integrity ''effect_evidence_invalid'')
    (guardR (out = Confirmed \<and> canon (member_of r ''confirmation'') \<noteq> bound op ''expected_confirmation'')
       (refusal integrity ''effect_confirmation_mismatch'')
    (validate_spend integrity r op
    (Inr (set_current r (Outcome out) (op\<lparr>eo_primary := Some (record_key r)\<rparr>)))))))"

definition apply_reconciled ::
    "bool \<Rightarrow> json \<Rightarrow> effect_outcome \<Rightarrow> effect_operation \<Rightarrow> effect_operation res" where
  "apply_reconciled integrity r out op =
     guardR (\<not> reconcilable (eo_state op)) (refusal integrity ''effect_transition_invalid'')
    (require_reference integrity r ''prior_effect_evidence_id'' (JStr (eo_evidence op))
    (let digest = text_at r ''reconciliation_evidence_digest'' in
     guardR (digest \<in> set (eo_digests op)) (refusal integrity ''effect_evidence_invalid'')
    (guardR (out = Confirmed \<and>
        (member_of r ''confirmation'' = JNull \<or> member_of r ''spend_status'' \<noteq> JStr ''complete'' \<or>
         member_of r ''measured_spend'' = JNull))
       (refusal integrity ''effect_evidence_invalid'')
    (guardR (out = Confirmed \<and> canon (member_of r ''confirmation'') \<noteq> bound op ''expected_confirmation'')
       (refusal integrity ''effect_confirmation_mismatch'')
    (guardR (out \<noteq> Confirmed \<and> member_of r ''confirmation'' \<noteq> JNull)
       (refusal integrity ''effect_evidence_invalid'')
    (validate_spend integrity r op
    (Inr (set_current r (Reconciled out) (op\<lparr>eo_digests := digest # eo_digests op\<rparr>)))))))))"

definition apply_proposed ::
    "bool \<Rightarrow> effect_book \<Rightarrow> json \<Rightarrow> effect_operation \<Rightarrow> effect_operation res" where
  "apply_proposed integrity book r op =
     guardR (\<not> compensable (eo_state op) \<or> eo_compensation op \<noteq> Comp_none)
       (refusal integrity ''effect_transition_invalid'')
    (guardR (member_of r ''compensation_operation_id'' = bound op ''operation_id'')
       (refusal integrity ''effect_transition_invalid'')
    (require_reference integrity r ''source_effect_evidence_id'' (JStr (eo_evidence op))
    (Inr (op\<lparr>eo_compensation := Comp_proposed, eo_proposal := Some (record_key r),
             eo_comp_operation := Some (text_at r ''compensation_operation_id''),
             eo_comp_digest := member_of r ''compensation_request_digest'',
             eo_proposal_position := length (eb_records book) + 1\<rparr>))))"

definition apply_executed ::
    "bool \<Rightarrow> effect_book \<Rightarrow> json \<Rightarrow> effect_operation \<Rightarrow> effect_operation res" where
  "apply_executed integrity book r op =
     guardR (eo_compensation op \<noteq> Comp_proposed) (refusal integrity ''effect_transition_invalid'')
    (require_reference integrity r ''compensation_proposal_id'' (optional_text (eo_proposal op))
    (let compensation = text_at r ''compensation_operation_id'' in
     guardR (Some compensation \<noteq> eo_comp_operation op) (refusal integrity ''effect_evidence_invalid'')
    (case map_of (eb_operations book) compensation of
       None \<Rightarrow> Inl (refusal integrity ''effect_transition_invalid'')
     | Some remedy \<Rightarrow>
         guardR (\<not> confirmed_state (eo_state remedy)) (refusal integrity ''effect_transition_invalid'')
        (guardR (eo_position remedy \<le> eo_proposal_position op) (refusal integrity ''effect_transition_invalid'')
        (guardR (bound remedy ''request_digest'' \<noteq> eo_comp_digest op) (refusal integrity ''effect_evidence_invalid'')
        (require_reference integrity r ''compensation_terminal_evidence_id'' (JStr (eo_evidence remedy))
        (Inr (op\<lparr>eo_compensation := Comp_executed\<rparr>))))))))"

definition apply_lifecycle ::
    "bool \<Rightarrow> effect_book \<Rightarrow> json \<Rightarrow> effect_operation \<Rightarrow> effect_operation res" where
  "apply_lifecycle integrity book r op =
     guardR (\<not> is_kind ''compensation_executed'' r \<and> member_of r ''effect_intent_id'' \<noteq> JStr (eo_intent op))
       (refusal integrity ''effect_evidence_invalid'')
    (if is_kind ''effect_dispatched'' r then apply_dispatched integrity r op
     else if is_kind ''effect_acknowledged'' r then apply_acknowledged integrity r op
     else case outcome_of_kind r of
       Some out \<Rightarrow> apply_primary integrity r out op
     | None \<Rightarrow>
         if is_kind ''effect_reconciled'' r then
           (case reconciled_outcome r of
              Some out \<Rightarrow> apply_reconciled integrity r out op
            | None \<Rightarrow> Inl NotModelled)
         else if is_kind ''compensation_proposed'' r then apply_proposed integrity book r op
         else if is_kind ''compensation_executed'' r then apply_executed integrity book r op
         else Inl (refusal integrity ''effect_transition_invalid''))"

text \<open>\<open>_apply\<close>.  The validated row is kept in its canonical form.\<close>

definition effect_tenant :: "effect_book \<Rightarrow> json \<Rightarrow> string" where
  "effect_tenant book raw =
     (case eb_records book of [] \<Rightarrow> text_at raw ''tenant_id'' | r # rs \<Rightarrow> text_at r ''tenant_id'')"

definition effect_apply :: "bool \<Rightarrow> effect_book \<Rightarrow> json \<Rightarrow> effect_book res" where
  "effect_apply integrity book raw =
     bindR (validate_record SPECS (effect_tenant book raw) EFFECT_KINDS integrity raw) (\<lambda>validated.
     let r = canon validated; operation = text_at r ''operation_id'' in
     guardR (record_key r \<in> set (eb_seen book)) (refusal integrity ''duplicate_record_id'')
    (bindR
       (if is_kind ''effect_intent'' r then apply_intent integrity book r
        else case map_of (eb_operations book) operation of
          None \<Rightarrow> Inl (refusal integrity ''effect_transition_invalid'')
        | Some op \<Rightarrow>
            guardR (binding_of r \<noteq> eo_binding op) (refusal integrity ''effect_evidence_invalid'')
           (bindR (apply_lifecycle integrity book r op) (\<lambda>op'.
              Inr (book\<lparr>eb_operations := AList.update operation op' (eb_operations book)\<rparr>))))
       (\<lambda>book'. Inr (book'\<lparr>eb_seen := record_key r # eb_seen book', eb_records := eb_records book' @ [r]\<rparr>))))"

definition project_effects :: "json list \<Rightarrow> effect_book res" where
  "project_effects records = replay (effect_apply True) empty_effects records"

section \<open>Acceptance evidence\<close>

record effect_evidence =
  ev_operations :: "string list"
  ev_watermark :: nat
  ev_digest :: string
  ev_measured :: "(string \<times> int) list"
  ev_blockers :: "string list"
  ev_incomplete :: "string list"

text \<open>The loop of \<open>acceptance_evidence\<close> with its four accumulators.\<close>

record evidence_sums =
  es_rows :: "json list"
  es_spend :: "(string \<times> int) list"
  es_blockers :: "string list"
  es_incomplete :: "string list"

definition amount_of :: "(string \<times> int) list \<Rightarrow> string \<Rightarrow> int" where
  "amount_of spend budget = (case map_of spend budget of None \<Rightarrow> 0 | Some n \<Rightarrow> n)"

fun add_spend :: "(string \<times> int) list \<Rightarrow> (string \<times> int) list \<Rightarrow> (string \<times> int) list" where
  "add_spend spend [] = spend"
| "add_spend spend ((budget, amount) # rows) =
     add_spend (AList.update budget (amount_of spend budget + amount) spend) rows"

definition compensation_missing :: "effect_book \<Rightarrow> effect_operation \<Rightarrow> bool" where
  "compensation_missing book op \<longleftrightarrow>
     (case eo_comp_operation op of
        None \<Rightarrow> True
      | Some i \<Rightarrow>
          (case map_of (eb_operations book) i of
             None \<Rightarrow> True
           | Some remedy \<Rightarrow> eo_position remedy \<le> eo_proposal_position op \<or>
                           bound remedy ''request_digest'' \<noteq> eo_comp_digest op))"

definition evidence_step ::
    "effect_book \<Rightarrow> string \<Rightarrow> effect_operation \<Rightarrow> evidence_sums \<Rightarrow> evidence_sums" where
  "evidence_step book i op sums =
     (let state = eo_state op;
          blocked = (if eo_compensation op = Comp_proposed \<and> compensation_missing book op
                     then [i @ '':compensation_intent_missing''] else []);
          sums' = sums\<lparr>es_blockers := es_blockers sums @ blocked,
                       es_rows := es_rows sums @ (if terminal_state state then [eo_current op] else [])\<rparr>
      in if \<not> confirmed_state state then
           sums'\<lparr>es_blockers := es_blockers sums' @ [i @ '':'' @ state_text state],
                 es_incomplete := es_incomplete sums' @
                   (if eo_spend_status op \<noteq> JStr ''complete'' then [i] else [])\<rparr>
         else sums'\<lparr>es_spend := add_spend (es_spend sums')
                       (case eo_measured op of None \<Rightarrow> [] | Some rows \<Rightarrow> rows)\<rparr>)"

fun evidence_loop :: "effect_book \<Rightarrow> string list \<Rightarrow> evidence_sums \<Rightarrow> evidence_sums res" where
  "evidence_loop book [] sums = Inr sums"
| "evidence_loop book (i # is) sums =
     (case map_of (eb_operations book) i of
        None \<Rightarrow> Inl (Uncaught ''KeyError'')
      | Some op \<Rightarrow> evidence_loop book is (evidence_step book i op sums))"

definition acceptance_evidence ::
    "(string \<Rightarrow> string) \<Rightarrow> effect_book \<Rightarrow> string \<Rightarrow> string \<Rightarrow> effect_evidence res" where
  "acceptance_evidence sha256 book run attempt =
     (let ids = sort (attempt_operations book (run, attempt)) in
      bindR (evidence_loop book ids \<lparr>es_rows = [], es_spend = [], es_blockers = [], es_incomplete = []\<rparr>) (\<lambda>sums.
        Inr \<lparr>ev_operations = ids, ev_watermark = length (eb_records book),
             ev_digest = sha256 (compact_ijson (JObj
               [(''effect_operation_ids'', JArr (map JStr ids)),
                (''effect_ledger_high_watermark'', JInt (int (length (eb_records book)))),
                (''terminal_effect_rows'', JArr (es_rows sums))])),
             ev_measured = sort (es_spend sums), ev_blockers = es_blockers sums,
             ev_incomplete = es_incomplete sums\<rparr>))"

definition intent_after :: "effect_book \<Rightarrow> nat \<Rightarrow> string \<Rightarrow> bool" where
  "intent_after book watermark i =
     (case map_of (eb_operations book) i of None \<Rightarrow> False | Some op \<Rightarrow> eo_position op > watermark)"

definition post_watermark_intent_ids :: "effect_book \<Rightarrow> string \<Rightarrow> string \<Rightarrow> nat \<Rightarrow> string list" where
  "post_watermark_intent_ids book run attempt watermark =
     sort (filter (intent_after book watermark) (attempt_operations book (run, attempt)))"

end
