(* ===== verification/Effect_Ledger.thy ===== *)
theory Effect_Ledger
  imports Effect_Book Approvals
begin

text \<open>
  Writing the effect ledger: the transaction of \<open>EffectLedger._append_controller\<close> with its retry
  rules, and the operations of \<open>EffectController\<close> (\<open>floati/effects.py\<close>).

  The arguments of a controller operation are JSON values, as the caller may pass anything.  The run
  projection's answer (\<open>effect_intent_context\<close>), the repository policy, the answer of the approval
  ledger, the result of the reconciliation observer, fresh UUIDs and the clock are inputs.  The checks
  on call frames, object identity and process ids guard the Python API and have no counterpart.
\<close>

section \<open>The transaction\<close>

text \<open>\<open>_semantic_row\<close>.\<close>

definition semantic_row :: "json \<Rightarrow> json" where
  "semantic_row r =
     (case r of
        JObj ms \<Rightarrow> canon (JObj (filter (\<lambda>(k, v). k \<notin> {''id'', ''timestamp''} \<and>
                                          \<not> ends_with ''_at_testimony'' k) ms))
      | _ \<Rightarrow> canon r)"

text \<open>A retry answers with the row that is already there.  \<open>next(...)\<close> on no match raises
  \<open>StopIteration\<close>.\<close>

definition retried_intent :: "effect_book \<Rightarrow> json list \<Rightarrow> json \<Rightarrow> json option res" where
  "retried_intent book existing r =
     (case map_of (eb_keys book) (text_at r ''idempotency_key'') of
        None \<Rightarrow> Inr None
      | Some i \<Rightarrow>
          (case map_of (eb_operations book) i of
             None \<Rightarrow> Inl (Uncaught ''KeyError'')
           | Some op \<Rightarrow>
               if eo_binding op \<noteq> binding_of r then Inl (ProtocolRefusal ''effect_idempotency_conflict'')
               else (case List.find (\<lambda>item. record_key item = eo_intent op) existing of
                       None \<Rightarrow> Inl (Uncaught ''StopIteration'')
                     | Some canonical \<Rightarrow> Inr (Some canonical))))"

definition repeats :: "effect_operation \<Rightarrow> json \<Rightarrow> json \<Rightarrow> bool" where
  "repeats op r prior \<longleftrightarrow>
     member_of prior ''operation_id'' = member_of r ''operation_id'' \<and> record_kind prior = record_kind r \<and>
     semantic_row prior = semantic_row r \<and>
     (\<not> is_kind ''effect_reconciled'' r \<or> eo_evidence op = record_key prior)"

definition retried_lifecycle :: "effect_book \<Rightarrow> json list \<Rightarrow> json \<Rightarrow> json option" where
  "retried_lifecycle book existing r =
     (case map_of (eb_operations book) (text_at r ''operation_id'') of
        None \<Rightarrow> None
      | Some op \<Rightarrow>
          if eo_binding op \<noteq> binding_of r then None else List.find (repeats op r) existing)"

definition retried_row :: "effect_book \<Rightarrow> json list \<Rightarrow> json \<Rightarrow> json option res" where
  "retried_row book existing r =
     (case List.find (\<lambda>prior. record_key prior = record_key r) existing of
        Some prior \<Rightarrow>
          if canon prior = r then Inr (Some prior) else Inl (ProtocolRefusal ''duplicate_record_id'')
      | None \<Rightarrow>
          if is_kind ''effect_intent'' r then retried_intent book existing r
          else Inr (retried_lifecycle book existing r))"

text \<open>\<open>resolve\<close> is the callback \<open>resolve_existing\<close>; without one it answers \<open>None\<close>.\<close>

type_synonym resolver = "effect_book \<Rightarrow> json \<Rightarrow> json option res"

definition no_resolver :: resolver where
  "no_resolver book r = Inr None"

definition effect_decide :: "resolver \<Rightarrow> json \<Rightarrow> json list \<Rightarrow> (json \<times> json option) res" where
  "effect_decide resolve r existing =
     bindR (project_effects existing) (\<lambda>book.
     bindR (retried_row book existing r) (\<lambda>retried.
       case retried of
         Some prior \<Rightarrow> Inr (prior, None)
       | None \<Rightarrow>
           bindR (resolve book r) (\<lambda>resolved.
             case resolved of
               Some prior \<Rightarrow> Inr (prior, None)
             | None \<Rightarrow> bindR (effect_apply False book r) (\<lambda>_. Inr (r, Some r)))))"

definition append_controller ::
    "string \<Rightarrow> resolver \<Rightarrow> json \<Rightarrow> json list \<Rightarrow> (json \<times> json list) res" where
  "append_controller tenant resolve raw rows =
     bindR (validate_record SPECS tenant EFFECT_KINDS False raw) (\<lambda>validated.
       transact (effect_contract tenant) rows (effect_decide resolve (canon validated)))"

section \<open>Identity\<close>

text \<open>The first sixteen bytes of a digest with the version and variant bits of a UUIDv7, on its
  hexadecimal text: byte 6 keeps its low half, byte 8 its low six bits.\<close>

definition hex_digit :: "nat \<Rightarrow> char" where
  "hex_digit n = (if n < 10 then char_of (48 + n) else char_of (87 + n))"

definition hex_value :: "char \<Rightarrow> nat" where
  "hex_value c = (let n = of_char c in if n < 58 then n - 48 else n - 87)"

definition uuid_of_digest :: "string \<Rightarrow> string" where
  "uuid_of_digest h =
     (let t = take 32 h in t[12 := CHR ''7'', 16 := hex_digit (8 + hex_value (t ! 16) mod 4)])"

text \<open>The domain is the retired repository name the code keeps as hexadecimal bytes.\<close>

definition EFFECT_OPERATION_DOMAIN :: string where
  "EFFECT_OPERATION_DOMAIN =
     map char_of [0x73, 0x6C, 0x69, 0x70, 0x77, 0x61, 0x79 :: nat] @ ''-effect-operation-v1''"

definition semantic_operation_id :: "(string \<Rightarrow> string) \<Rightarrow> string \<Rightarrow> json \<Rightarrow> string" where
  "semantic_operation_id sha256 tenant key =
     ''effect-op-'' @ uuid_of_digest (sha256 (compact_ijson (JObj
       [(''domain'', JStr EFFECT_OPERATION_DOMAIN), (''tenant_id'', JStr tenant),
        (''idempotency_key'', key)])))"

section \<open>Intent\<close>

text \<open>What \<open>effect_intent_context\<close> of the run projection answers.\<close>

record intent_context =
  cx_started :: string
  cx_fence :: json
  cx_policy_digest :: string
  cx_reservations :: "(string \<times> int) list"
  cx_consumption :: json
  cx_consumption_request :: json
  cx_consumption_decision :: json
  cx_consumption_digest :: json

record effect_policy =
  ep_digest :: string
  ep_approvals :: "(string \<times> bool) list"
  ep_budgets :: "(string \<times> int) list"

text \<open>\<open>RepositoryPolicy.effect_approval_required\<close> and \<open>effect_budget_limit\<close> of \<open>floati/policy.py\<close>.\<close>

definition effect_approval_required :: "effect_policy \<Rightarrow> json \<Rightarrow> bool res" where
  "effect_approval_required policy risk =
     (case risk of
        JStr s \<Rightarrow>
          (case map_of (ep_approvals policy) s of
             None \<Rightarrow> Inl (ProtocolRefusal ''effect_risk_invalid'')
           | Some required \<Rightarrow> Inr required)
      | _ \<Rightarrow> Inl (ProtocolRefusal ''effect_risk_invalid''))"

definition effect_budget_limit :: "effect_policy \<Rightarrow> string \<Rightarrow> int res" where
  "effect_budget_limit policy budget =
     (case map_of (ep_budgets policy) budget of
        None \<Rightarrow> Inl (ProtocolRefusal ''effect_budget_unknown'')
      | Some limit \<Rightarrow> Inr limit)"

text \<open>The arguments of \<open>intent\<close> that it copies into the record.\<close>

record effect_request =
  er_run :: json
  er_item :: json
  er_attempt :: json
  er_fence :: json
  er_type :: json
  er_target :: json
  er_digest :: json
  er_key :: json
  er_confirmation :: json
  er_adapter :: json
  er_risk :: json
  er_claim :: json
  er_requester :: json

record approval_refs =
  rf_request :: json
  rf_decision :: json
  rf_consumption :: json

definition intent_row ::
    "(string \<Rightarrow> string) \<Rightarrow> string \<Rightarrow> string \<Rightarrow> effect_request \<Rightarrow> json \<Rightarrow> approval_refs \<Rightarrow> string \<Rightarrow> json" where
  "intent_row sha256 tenant uuid q started refs stamp = row_of
     [(''schema_version'', JInt 1), (''id'', JStr (''effect-intent-'' @ uuid)), (''tenant_id'', JStr tenant),
      (''timestamp'', JStr stamp), (''kind'', JStr ''effect_intent''),
      (''operation_id'', JStr (semantic_operation_id sha256 tenant (er_key q))), (''run_id'', er_run q),
      (''item_id'', er_item q), (''attempt_id'', er_attempt q), (''attempt_started_id'', started),
      (''fence_token'', er_fence q), (''effect_type'', er_type q), (''target'', er_target q),
      (''request_digest'', er_digest q), (''idempotency_key'', er_key q),
      (''expected_confirmation'', er_confirmation q), (''reconciliation_adapter'', er_adapter q),
      (''risk_class'', er_risk q), (''budget_claim'', er_claim q), (''requested_by'', er_requester q),
      (''approval_request_id'', rf_request refs), (''approval_decision_id'', rf_decision refs),
      (''approval_consumption_id'', rf_consumption refs), (''intended_at_testimony'', JStr stamp)]"

text \<open>\<open>require_approved_action\<close> is called when both references are given.\<close>

definition check_approval ::
    "bool \<Rightarrow> approval_refs \<Rightarrow> (json \<times> json) res \<Rightarrow> 'a res \<Rightarrow> 'a res" where
  "check_approval required refs approved k =
     (let absent = (\<lambda>v. v = JNull) in
      guardR (required \<and> (absent (rf_request refs) \<or> absent (rf_decision refs)))
        (ProtocolRefusal ''effect_approval_required'')
     (if absent (rf_request refs) \<and> absent (rf_decision refs) then k
      else guardR (absent (rf_request refs) \<or> absent (rf_decision refs))
             (ProtocolRefusal ''effect_approval_incomplete'')
           (bindR approved (\<lambda>_. k))))"

definition consumption_mismatch :: "intent_context \<Rightarrow> approval_refs \<Rightarrow> json \<Rightarrow> bool" where
  "consumption_mismatch cx refs digest \<longleftrightarrow>
     rf_consumption refs \<noteq> cx_consumption cx \<or>
     cx_consumption cx \<noteq> JNull \<and>
       (rf_request refs \<noteq> cx_consumption_request cx \<or> rf_decision refs \<noteq> cx_consumption_decision cx \<or>
        digest \<noteq> cx_consumption_digest cx)"

definition reservation :: "intent_context \<Rightarrow> string \<Rightarrow> int" where
  "reservation cx budget = (case map_of (cx_reservations cx) budget of None \<Rightarrow> -1 | Some n \<Rightarrow> n)"

fun check_claim :: "effect_policy \<Rightarrow> intent_context \<Rightarrow> (string \<times> int) list \<Rightarrow> unit res" where
  "check_claim policy cx [] = Inr ()"
| "check_claim policy cx ((budget, amount) # rows) =
     bindR (effect_budget_limit policy budget) (\<lambda>limit.
       if amount > limit then Inl (ProtocolRefusal ''effect_policy_budget_exceeded'')
       else if amount > reservation cx budget then Inl (ProtocolRefusal ''effect_run_budget_exceeded'')
       else check_claim policy cx rows)"

definition claims_of :: "json \<Rightarrow> effect_book \<Rightarrow> (string \<times> effect_operation) list" where
  "claims_of run book = filter (\<lambda>(i, op). bound op ''run_id'' = run) (eb_operations book)"

definition aggregate_claims :: "(string \<times> effect_operation) list \<Rightarrow> (string \<times> int) list" where
  "aggregate_claims ops = foldl add_spend [] (map (\<lambda>(i, op). claim_of op) ops)"

definition over_reserved :: "intent_context \<Rightarrow> (string \<times> int) list \<Rightarrow> bool" where
  "over_reserved cx = list_ex (\<lambda>(budget, amount). amount > reservation cx budget)"

text \<open>The callback \<open>authorize_claim\<close> of \<open>intent\<close>.\<close>

definition authorize_claim :: "effect_policy \<Rightarrow> intent_context \<Rightarrow> json \<Rightarrow> resolver" where
  "authorize_claim policy cx run book r =
     (let claim = spend_table (member_of r ''budget_claim'') in
      bindR (check_claim policy cx claim) (\<lambda>_.
        if over_reserved cx (add_spend (aggregate_claims (claims_of run book)) claim)
          then Inl (ProtocolRefusal ''effect_run_budget_exceeded'')
        else Inr None))"

record intent_input =
  in_uuid :: string
  in_policy :: effect_policy
  in_context :: "intent_context res"
  in_refs :: approval_refs
  in_approved :: "(json \<times> json) res"
  in_now :: int

definition effect_intent ::
    "(string \<Rightarrow> string) \<Rightarrow> string \<Rightarrow> effect_request \<Rightarrow> intent_input \<Rightarrow> json list \<Rightarrow> (json \<times> json list) res" where
  "effect_intent sha256 tenant q i rows =
     bindR (in_context i) (\<lambda>cx.
     guardR (cx_policy_digest cx \<noteq> ep_digest (in_policy i)) (ProtocolRefusal ''effect_policy_mismatch'')
    (bindR (effect_approval_required (in_policy i) (er_risk q)) (\<lambda>required.
     check_approval required (in_refs i) (in_approved i)
    (guardR (consumption_mismatch cx (in_refs i) (er_digest q))
       (ProtocolRefusal ''effect_approval_consumption_mismatch'')
    (append_controller tenant (authorize_claim (in_policy i) cx (er_run q))
       (intent_row sha256 tenant (in_uuid i) (q\<lparr>er_fence := cx_fence cx\<rparr>) (JStr (cx_started cx)) (in_refs i)
         (iso_text (in_now i))) rows)))))"

section \<open>Lifecycle rows\<close>

text \<open>\<open>_operation_binding\<close>.\<close>

definition operation_of :: "string \<Rightarrow> json \<Rightarrow> json list \<Rightarrow> effect_operation res" where
  "operation_of tenant i rows =
     (case i of
        JStr operation \<Rightarrow>
          bindR (decode_path_records (effect_contract tenant) rows) (\<lambda>records.
          bindR (project_effects records) (\<lambda>book.
            case map_of (eb_operations book) operation of
              None \<Rightarrow> Inl (ProtocolRefusal ''effect_operation_missing'')
            | Some op \<Rightarrow> Inr op))
      | _ \<Rightarrow> Inl (ProtocolRefusal ''effect_operation_id_invalid''))"

definition lifecycle_row ::
    "string \<Rightarrow> string \<Rightarrow> string \<Rightarrow> string \<Rightarrow> effect_operation \<Rightarrow> int \<Rightarrow> members \<Rightarrow> json" where
  "lifecycle_row tenant kind row_id_prefix uuid op current rest = row_of
     ([(''schema_version'', JInt 1), (''id'', JStr (row_id_prefix @ uuid)), (''tenant_id'', JStr tenant),
       (''timestamp'', JStr (iso_text current)), (''kind'', JStr kind)] @ eo_binding op @ rest)"

definition effect_dispatched ::
    "string \<Rightarrow> string \<Rightarrow> json \<Rightarrow> json \<Rightarrow> json \<Rightarrow> int \<Rightarrow> json list \<Rightarrow> (json \<times> json list) res" where
  "effect_dispatched tenant uuid i adapter digest current rows =
     bindR (operation_of tenant i rows) (\<lambda>op.
       append_controller tenant no_resolver
         (lifecycle_row tenant ''effect_dispatched'' ''effect-dispatched-'' uuid op current
           [(''effect_intent_id'', JStr (eo_intent op)), (''dispatch_adapter'', adapter),
            (''dispatch_evidence_digest'', digest), (''dispatched_at_testimony'', JStr (iso_text current))]) rows)"

definition effect_acknowledged ::
    "string \<Rightarrow> string \<Rightarrow> json \<Rightarrow> json \<Rightarrow> int \<Rightarrow> json list \<Rightarrow> (json \<times> json list) res" where
  "effect_acknowledged tenant uuid i digest current rows =
     bindR (operation_of tenant i rows) (\<lambda>op.
       append_controller tenant no_resolver
         (lifecycle_row tenant ''effect_acknowledged'' ''effect-acknowledged-'' uuid op current
           [(''effect_intent_id'', JStr (eo_intent op)),
            (''effect_dispatched_id'', optional_text (eo_dispatch op)),
            (''acknowledgement_digest'', digest), (''acknowledged_at_testimony'', JStr (iso_text current))]) rows)"

text \<open>\<open>_negative_outcome\<close>, called by \<open>failed\<close> and \<open>unknown\<close>.\<close>

record negative_report =
  ng_reason :: json
  ng_digest :: json
  ng_status :: json
  ng_measured :: json

definition negative_outcome ::
    "string \<Rightarrow> string \<Rightarrow> bool \<Rightarrow> json \<Rightarrow> negative_report \<Rightarrow> int \<Rightarrow> json list \<Rightarrow> (json \<times> json list) res" where
  "negative_outcome tenant uuid failed i report current rows =
     bindR (operation_of tenant i rows) (\<lambda>op.
       append_controller tenant no_resolver
         (lifecycle_row tenant (if failed then ''effect_failed'' else ''effect_unknown'')
           (if failed then ''effect-failed-'' else ''effect-unknown-'') uuid op current
           [(''effect_intent_id'', JStr (eo_intent op)),
            (''effect_dispatched_id'', optional_text (eo_dispatch op)), (''reason_code'', ng_reason report),
            (if failed then ''failure_evidence_digest'' else ''unknown_evidence_digest'', ng_digest report),
            (''spend_status'', ng_status report), (''measured_spend'', ng_measured report),
            (if failed then ''failed_at_testimony'' else ''unknown_at_testimony'', JStr (iso_text current))]) rows)"

section \<open>Reconciliation\<close>

text \<open>What \<open>build_request\<close> keeps of the operation, and what a validated result of the observer holds.
  The rows of a claim are sorted and distinct, so equal tables are equal dictionaries.  Reading the
  request and appending the result are two operations: other writers may come between them.\<close>

record reconciliation_request =
  rq_operation :: string
  rq_evidence :: string
  rq_adapter :: json
  rq_target :: json
  rq_confirmation :: json
  rq_claim :: "(string \<times> int) list"

record reconciliation_result =
  rr_outcome :: effect_outcome
  rr_digest :: string
  rr_confirmation :: json
  rr_status :: string
  rr_measured :: "(string \<times> int) list option"

definition request_truth :: "effect_operation \<Rightarrow> reconciliation_request" where
  "request_truth op =
     \<lparr>rq_operation = bound_text op ''operation_id'', rq_evidence = eo_evidence op,
      rq_adapter = bound op ''reconciliation_adapter'', rq_target = bound op ''target'',
      rq_confirmation = bound op ''expected_confirmation'', rq_claim = claim_of op\<rparr>"

definition reconciliation_request :: "string \<Rightarrow> json \<Rightarrow> json list \<Rightarrow> reconciliation_request res" where
  "reconciliation_request tenant i rows =
     bindR (operation_of tenant i rows) (\<lambda>op.
     guardR (\<not> reconcilable (eo_state op)) (ProtocolRefusal ''effect_transition_invalid'')
     (Inr (request_truth op)))"

definition spend_json :: "(string \<times> int) list option \<Rightarrow> json" where
  "spend_json m =
     (case m of
        None \<Rightarrow> JNull
      | Some rows \<Rightarrow> JArr (map (\<lambda>(budget, amount).
          JObj [(''budget_id'', JStr budget), (''amount'', JInt amount)]) (sort rows)))"

definition EXACT_FIELDS :: "string list" where
  "EXACT_FIELDS =
    [''operation_id'', ''effect_intent_id'', ''prior_effect_evidence_id'', ''reconciled_outcome'',
     ''reconciliation_evidence_digest'', ''confirmation'', ''spend_status'', ''measured_spend'']"

definition same_reconciliation :: "effect_operation \<Rightarrow> json \<Rightarrow> json \<Rightarrow> bool" where
  "same_reconciliation op pending prior \<longleftrightarrow>
     is_kind ''effect_reconciled'' prior \<and>
     list_all (\<lambda>f. canon (member_of prior f) = canon (member_of pending f)) EXACT_FIELDS \<and>
     binding_of prior = eo_binding op \<and> eo_evidence op = record_key prior"

text \<open>The callback \<open>refresh_and_resolve\<close>.\<close>

definition refresh_and_resolve :: "reconciliation_request \<Rightarrow> resolver" where
  "refresh_and_resolve req book pending =
     (case map_of (eb_operations book) (rq_operation req) of
        None \<Rightarrow> Inl (ProtocolRefusal ''effect_reconciliation_stale'')
      | Some op \<Rightarrow>
          (case List.find (same_reconciliation op pending) (eb_records book) of
             Some prior \<Rightarrow> Inr (Some prior)
           | None \<Rightarrow>
               if request_truth op \<noteq> req \<or> \<not> reconcilable (eo_state op) \<or>
                  member_of pending ''effect_intent_id'' \<noteq> JStr (eo_intent op) \<or>
                  binding_of pending \<noteq> eo_binding op
                 then Inl (ProtocolRefusal ''effect_reconciliation_stale'')
               else Inr None))"

definition append_reconciliation ::
    "string \<Rightarrow> string \<Rightarrow> reconciliation_request \<Rightarrow> reconciliation_result \<Rightarrow> int \<Rightarrow> json list \<Rightarrow>
     (json \<times> json list) res" where
  "append_reconciliation tenant uuid req result current rows =
     bindR (operation_of tenant (JStr (rq_operation req)) rows) (\<lambda>op.
       append_controller tenant (refresh_and_resolve req)
         (lifecycle_row tenant ''effect_reconciled'' ''effect-reconciled-'' uuid op current
           [(''effect_intent_id'', JStr (eo_intent op)), (''prior_effect_evidence_id'', JStr (rq_evidence req)),
            (''reconciled_outcome'', JStr (outcome_text (rr_outcome result))),
            (''reconciliation_evidence_digest'', JStr (rr_digest result)),
            (''confirmation'', rr_confirmation result), (''spend_status'', JStr (rr_status result)),
            (''measured_spend'', spend_json (rr_measured result)),
            (''reconciled_at_testimony'', JStr (iso_text current))]) rows)"

section \<open>What a worker reports on\<close>

text \<open>\<open>_worker_effect_operation\<close> and \<open>_worker_uncertain_operations\<close>; the attempt of the worker is its
  run, item, attempt and fence.\<close>

definition same_attempt :: "json list \<Rightarrow> effect_operation \<Rightarrow> bool" where
  "same_attempt attempt op \<longleftrightarrow>
     map (bound op) [''run_id'', ''item_id'', ''attempt_id'', ''fence_token''] = attempt"

definition worker_effect_operation :: "string \<Rightarrow> json list \<Rightarrow> json \<Rightarrow> json list \<Rightarrow> effect_operation res" where
  "worker_effect_operation tenant attempt key rows =
     (case key of
        JStr s \<Rightarrow>
          bindR (decode_path_records (effect_contract tenant) rows) (\<lambda>records.
          bindR (project_effects records) (\<lambda>book.
            case filter (\<lambda>op. same_attempt attempt op \<and> bound op ''idempotency_key'' = key)
                   (map snd (eb_operations book)) of
              [op] \<Rightarrow> Inr op
            | _ \<Rightarrow> Inl (ProtocolRefusal ''effect_pipe_operation_invalid'')))
      | _ \<Rightarrow> Inl (ProtocolRefusal ''effect_pipe_event_invalid''))"

definition worker_uncertain_operations :: "string \<Rightarrow> json list \<Rightarrow> json list \<Rightarrow> effect_operation list res" where
  "worker_uncertain_operations tenant attempt rows =
     bindR (decode_path_records (effect_contract tenant) rows) (\<lambda>records.
     bindR (project_effects records) (\<lambda>book.
       Inr (sort_key (\<lambda>op. bound_text op ''operation_id'')
         (filter (\<lambda>op. same_attempt attempt op \<and> eo_dispatch op \<noteq> None \<and> eo_primary op = None)
           (map snd (eb_operations book))))))"

end
