(* ===== verification/Effect_Compensation.thy ===== *)
theory Effect_Compensation
  imports Effect_Ledger
begin

text \<open>
  Compensation of an effect (\<open>compensation_preview\<close>, \<open>compensation_confirm\<close> and
  \<open>compensation_executed\<close> of \<open>floati/effects.py\<close>): a plan bound by its digest to the current evidence
  of its source, then a proposal and the intent of the compensating operation, and in the end the
  testimony that it was confirmed.

  The proposal and the intent are two transactions: \<open>compensation_confirm\<close> is an operation on the
  rows that may leave a proposal behind and still raise.  No other writer comes between the two.
\<close>

definition COMPENSATION_REASONS :: "string list" where
  "COMPENSATION_REASONS = [''operator_requested'', ''effect_failed'', ''effect_superseded'', ''policy_required'']"

definition COMPENSATION_PLAN_FIELDS :: "string list" where
  "COMPENSATION_PLAN_FIELDS =
    [''plan_version'', ''source_operation_id'', ''source_effect_evidence_id'', ''reason_code'',
     ''compensation_operation_id'', ''run_id'', ''item_id'', ''attempt_id'', ''fence_token'', ''effect_type'',
     ''target'', ''request_digest'', ''idempotency_key'', ''expected_confirmation'',
     ''reconciliation_adapter'', ''risk_class'', ''budget_claim'', ''requested_by'']"

text \<open>\<open>reason in frozenset(...)\<close> hashes the value.\<close>

definition reason_check :: "json \<Rightarrow> 'a res \<Rightarrow> 'a res" where
  "reason_check reason k =
     guardR (\<not> hashable reason) (Uncaught ''TypeError'')
    (guardR (reason \<notin> JStr ` set COMPENSATION_REASONS) (ProtocolRefusal ''effect_input_invalid'') k)"

section \<open>Preview\<close>

definition compensating :: "effect_operation \<Rightarrow> effect_request \<Rightarrow> effect_request" where
  "compensating op q =
     q\<lparr>er_run := bound op ''run_id'', er_item := bound op ''item_id'', er_attempt := bound op ''attempt_id'',
       er_fence := bound op ''fence_token''\<rparr>"

definition compensation_plan ::
    "(string \<Rightarrow> string) \<Rightarrow> string \<Rightarrow> effect_operation \<Rightarrow> json \<Rightarrow> effect_request \<Rightarrow> members" where
  "compensation_plan sha256 tenant op reason q =
     [(''plan_version'', JInt 1), (''source_operation_id'', bound op ''operation_id''),
      (''source_effect_evidence_id'', JStr (eo_evidence op)), (''reason_code'', reason),
      (''compensation_operation_id'', JStr (semantic_operation_id sha256 tenant (er_key q))),
      (''run_id'', er_run q), (''item_id'', er_item q), (''attempt_id'', er_attempt q),
      (''fence_token'', er_fence q), (''effect_type'', er_type q), (''target'', er_target q),
      (''request_digest'', er_digest q), (''idempotency_key'', er_key q),
      (''expected_confirmation'', er_confirmation q), (''reconciliation_adapter'', er_adapter q),
      (''risk_class'', er_risk q), (''budget_claim'', er_claim q), (''requested_by'', er_requester q)]"

definition no_refs :: approval_refs where
  "no_refs = \<lparr>rf_request = JNull, rf_decision = JNull, rf_consumption = JNull\<rparr>"

definition compensation_preview ::
    "(string \<Rightarrow> string) \<Rightarrow> string \<Rightarrow> string \<Rightarrow> json \<Rightarrow> json \<Rightarrow> effect_request \<Rightarrow> json list \<Rightarrow>
     (members \<times> string) res" where
  "compensation_preview sha256 tenant uuid i reason q rows =
     bindR (operation_of tenant i rows) (\<lambda>op.
     guardR (\<not> compensable (eo_state op) \<or> eo_compensation op \<noteq> Comp_none)
       (ProtocolRefusal ''effect_transition_invalid'')
    (reason_check reason
    (let q' = compensating op q; plan = compensation_plan sha256 tenant op reason q' in
     bindR (validate_record SPECS tenant EFFECT_KINDS False
              (intent_row sha256 tenant uuid q' (bound op ''attempt_started_id'') no_refs
                ''2000-01-01T00:00:00.000Z'')) (\<lambda>_.
       Inr (plan, sha256 (compact_ijson (JObj plan)))))))"

section \<open>Confirmation\<close>

definition plan_request :: "members \<Rightarrow> effect_request" where
  "plan_request plan =
     \<lparr>er_run = get_member plan ''run_id'', er_item = get_member plan ''item_id'',
      er_attempt = get_member plan ''attempt_id'', er_fence = get_member plan ''fence_token'',
      er_type = get_member plan ''effect_type'', er_target = get_member plan ''target'',
      er_digest = get_member plan ''request_digest'', er_key = get_member plan ''idempotency_key'',
      er_confirmation = get_member plan ''expected_confirmation'',
      er_adapter = get_member plan ''reconciliation_adapter'', er_risk = get_member plan ''risk_class'',
      er_claim = get_member plan ''budget_claim'', er_requester = get_member plan ''requested_by''\<rparr>"

definition names_source :: "members \<Rightarrow> effect_operation \<Rightarrow> bool" where
  "names_source plan op \<longleftrightarrow>
     get_member plan ''source_operation_id'' = bound op ''operation_id'' \<and>
     get_member plan ''source_effect_evidence_id'' = JStr (eo_evidence op) \<and>
     list_all (\<lambda>f. get_member plan f = bound op f) [''run_id'', ''item_id'', ''attempt_id'', ''fence_token'']"

text \<open>A budget table that is not one is outside the model: \<open>_spend_rows\<close> would raise whatever indexing
  it raises.\<close>

definition table_shaped :: "json \<Rightarrow> bool" where
  "table_shaped v =
     (case v of
        JNull \<Rightarrow> True
      | JArr vs \<Rightarrow> list_all (\<lambda>r. member_of r ''budget_id'' = JStr (text_at r ''budget_id'') \<and>
                                 member_of r ''amount'' = JInt (int_at r ''amount'')) vs
      | _ \<Rightarrow> False)"

text \<open>\<open>dict\<close> of the rows: a budget named twice keeps the last amount.\<close>

definition spend_dict :: "(string \<times> int) list \<Rightarrow> (string \<times> int) list" where
  "spend_dict rows = foldl (\<lambda>d (k, v). AList.update k v d) [] rows"

lemma spend_dict_distinct: "distinct (map fst rows) \<Longrightarrow> spend_dict rows = rows"
proof (induction rows rule: rev_induct)
  case (snoc r rows)
  have "AList.update (fst r) (snd r) rows = rows @ [r]" using snoc.prems by (simp add: update_fresh)
  then show ?case using snoc by (simp add: spend_dict_def case_prod_beta)
qed (simp add: spend_dict_def)

record confirm_input =
  cf_uuids :: "string \<times> string"
  cf_policy :: effect_policy
  cf_context :: "intent_context res"
  cf_refs :: approval_refs
  cf_approved :: "(json \<times> json) res"
  cf_now :: int

text \<open>The callback \<open>authorize_claim\<close> of \<open>compensation_confirm\<close>.\<close>

definition authorize_compensation ::
    "intent_context \<Rightarrow> (string \<times> int) list \<Rightarrow> json \<Rightarrow> json \<Rightarrow> resolver" where
  "authorize_compensation cx table run i book r =
     (let others = filter (\<lambda>(j, op). bound op ''operation_id'' \<noteq> i) (claims_of run book) in
      if over_reserved cx (add_spend (aggregate_claims others) table)
        then Inl (ProtocolRefusal ''effect_run_budget_exceeded'')
      else Inr None)"

text \<open>The checks of \<open>compensation_confirm\<close> before it writes: the source operation, the context and the
  claim of the plan.\<close>

definition compensation_checks ::
    "(string \<Rightarrow> string) \<Rightarrow> string \<Rightarrow> json \<Rightarrow> members \<Rightarrow> json \<Rightarrow> confirm_input \<Rightarrow> json list \<Rightarrow>
     (effect_operation \<times> intent_context \<times> (string \<times> int) list) res" where
  "compensation_checks sha256 tenant i plan plan_digest inp rows =
     (let q = plan_request plan; claim = spend_dict (spend_table (er_claim q)) in
      guardR (\<not> same_names plan COMPENSATION_PLAN_FIELDS) (ProtocolRefusal ''effect_input_invalid'')
     (guardR (plan_digest \<noteq> JStr (sha256 (compact_ijson (JObj plan)))) (ProtocolRefusal ''effect_evidence_invalid'')
     (bindR (operation_of tenant i rows) (\<lambda>op.
      guardR (\<not> names_source plan op) (ProtocolRefusal ''effect_evidence_invalid'')
     (reason_check (get_member plan ''reason_code'')
     (guardR (get_member plan ''compensation_operation_id'' \<noteq> JStr (semantic_operation_id sha256 tenant (er_key q)) \<or>
              get_member plan ''compensation_operation_id'' = bound op ''operation_id'')
        (ProtocolRefusal ''effect_evidence_invalid'')
     (guardR (\<not> compensable (eo_state op)) (ProtocolRefusal ''effect_transition_invalid'')
     (bindR (effect_approval_required (cf_policy inp) (er_risk q)) (\<lambda>required.
      check_approval required (cf_refs inp) (cf_approved inp)
     (bindR (cf_context inp) (\<lambda>cx.
      guardR (cx_policy_digest cx \<noteq> ep_digest (cf_policy inp)) (ProtocolRefusal ''effect_policy_mismatch'')
     (guardR (consumption_mismatch cx (cf_refs inp) (er_digest q))
        (ProtocolRefusal ''effect_approval_consumption_mismatch'')
     (guardR (\<not> table_shaped (er_claim q)) NotModelled
     (bindR (check_claim (cf_policy inp) cx claim) (\<lambda>_.
        Inr (op, cx, claim))))))))))))))))"

definition proposal_row ::
    "string \<Rightarrow> string \<Rightarrow> effect_operation \<Rightarrow> members \<Rightarrow> json \<Rightarrow> approval_refs \<Rightarrow> int \<Rightarrow> json" where
  "proposal_row tenant uuid op plan plan_digest refs current =
     lifecycle_row tenant ''compensation_proposed'' ''compensation-proposed-'' uuid op current
       [(''effect_intent_id'', JStr (eo_intent op)), (''source_effect_evidence_id'', JStr (eo_evidence op)),
        (''reason_code'', get_member plan ''reason_code''), (''compensation_plan_digest'', plan_digest),
        (''compensation_request_digest'', get_member plan ''request_digest''),
        (''compensation_operation_id'', get_member plan ''compensation_operation_id''),
        (''compensation_risk_class'', get_member plan ''risk_class''),
        (''approval_request_id'', rf_request refs), (''approval_decision_id'', rf_decision refs),
        (''approval_consumption_id'', rf_consumption refs), (''proposed_at_testimony'', JStr (iso_text current))]"

text \<open>A retry must repeat the proposal that is there.\<close>

definition same_proposal :: "json \<Rightarrow> members \<Rightarrow> json \<Rightarrow> approval_refs \<Rightarrow> bool" where
  "same_proposal proposal plan plan_digest refs \<longleftrightarrow>
     member_of proposal ''compensation_plan_digest'' = plan_digest \<and>
     member_of proposal ''reason_code'' = get_member plan ''reason_code'' \<and>
     member_of proposal ''compensation_risk_class'' = get_member plan ''risk_class'' \<and>
     member_of proposal ''approval_request_id'' = rf_request refs \<and>
     member_of proposal ''approval_decision_id'' = rf_decision refs \<and>
     member_of proposal ''approval_consumption_id'' = rf_consumption refs"

definition compensation_propose ::
    "string \<Rightarrow> effect_operation \<Rightarrow> members \<Rightarrow> json \<Rightarrow> confirm_input \<Rightarrow> json list \<Rightarrow> (json \<times> json list) res" where
  "compensation_propose tenant op plan plan_digest inp rows =
     (if eo_compensation op = Comp_none
        then append_controller tenant no_resolver
               (proposal_row tenant (fst (cf_uuids inp)) op plan plan_digest (cf_refs inp) (cf_now inp)) rows
      else if eo_compensation op = Comp_proposed \<and>
              optional_text (eo_comp_operation op) = get_member plan ''compensation_operation_id'' \<and>
              eo_comp_digest op = get_member plan ''request_digest'' then
        (case List.find (\<lambda>r. Some (record_key r) = eo_proposal op) rows of
           None \<Rightarrow> Inl (Uncaught ''StopIteration'')
         | Some proposal \<Rightarrow>
             guardR (\<not> same_proposal proposal plan plan_digest (cf_refs inp))
               (ProtocolRefusal ''effect_evidence_invalid'') (Inr (proposal, rows)))
      else Inl (ProtocolRefusal ''effect_transition_invalid''))"

definition key_conflict :: "string \<Rightarrow> members \<Rightarrow> json list \<Rightarrow> bool res" where
  "key_conflict tenant plan rows =
     bindR (decode_path_records (effect_contract tenant) rows) (\<lambda>records.
     bindR (project_effects records) (\<lambda>book.
       case get_member plan ''idempotency_key'' of
         JStr key \<Rightarrow>
           Inr (case map_of (eb_keys book) key of
                  None \<Rightarrow> False
                | Some j \<Rightarrow> JStr j \<noteq> get_member plan ''compensation_operation_id'')
       | _ \<Rightarrow> Inl NotModelled))"

text \<open>One transaction of the ledger as an operation on its rows.\<close>

definition ledger_write :: "('r \<Rightarrow> ('a \<times> 'r) res) \<Rightarrow> ('r, 'a) act" where
  "ledger_write f rows = (case f rows of Inl e \<Rightarrow> (Inl e, rows) | Inr (a, rows') \<Rightarrow> (Inr a, rows'))"

definition compensation_confirm ::
    "(string \<Rightarrow> string) \<Rightarrow> string \<Rightarrow> json \<Rightarrow> json \<Rightarrow> json \<Rightarrow> confirm_input \<Rightarrow> (json list, json \<times> json) act" where
  "compensation_confirm sha256 tenant i plan_value plan_digest inp =
     (case plan_value of
        JObj plan \<Rightarrow>
          bindA (readA (compensation_checks sha256 tenant i plan plan_digest inp)) (\<lambda>(op, cx, claim).
          bindA (readA (key_conflict tenant plan)) (\<lambda>conflict.
            if conflict then readA (\<lambda>_. Inl (ProtocolRefusal ''effect_idempotency_conflict''))
            else bindA (ledger_write (compensation_propose tenant op plan plan_digest inp)) (\<lambda>proposal.
              bindA (ledger_write (append_controller tenant
                       (authorize_compensation cx claim (er_run (plan_request plan))
                         (get_member plan ''compensation_operation_id''))
                       (intent_row sha256 tenant (snd (cf_uuids inp))
                         ((plan_request plan)\<lparr>er_fence := cx_fence cx\<rparr>) (JStr (cx_started cx)) (cf_refs inp)
                         (iso_text (cf_now inp))))) (\<lambda>compensation.
                readA (\<lambda>_. Inr (proposal, compensation))))))
      | _ \<Rightarrow> readA (\<lambda>_. Inl (ProtocolRefusal ''effect_input_invalid'')))"

section \<open>Execution\<close>

definition compensation_executed ::
    "string \<Rightarrow> string \<Rightarrow> json \<Rightarrow> int \<Rightarrow> json list \<Rightarrow> (json \<times> json list) res" where
  "compensation_executed tenant uuid i current rows =
     bindR (operation_of tenant i rows) (\<lambda>op.
     guardR (eo_compensation op \<noteq> Comp_proposed) (ProtocolRefusal ''effect_transition_invalid'')
    (bindR (operation_of tenant (optional_text (eo_comp_operation op)) rows) (\<lambda>remedy.
     guardR (\<not> confirmed_state (eo_state remedy)) (ProtocolRefusal ''effect_transition_invalid'')
    (guardR (bound remedy ''request_digest'' \<noteq> eo_comp_digest op) (ProtocolRefusal ''effect_evidence_invalid'')
    (append_controller tenant no_resolver
       (lifecycle_row tenant ''compensation_executed'' ''compensation-executed-'' uuid op current
         [(''compensation_proposal_id'', optional_text (eo_proposal op)),
          (''compensation_operation_id'', bound remedy ''operation_id''),
          (''compensation_terminal_evidence_id'', JStr (eo_evidence remedy)),
          (''executed_at_testimony'', JStr (iso_text current))]) rows)))))"

end
