(* ===== verification/Effect_Safety.thy ===== *)
theory Effect_Safety
  imports Effect_Compensation "HOL-Library.Sublist"
begin

text \<open>
  The projection of the effect ledger: the machine its operations move through (\<open>effect_move\<close>), the
  invariant of the projected book (an interpretation of \<open>projection\<close>), and ledgers that only the
  transaction of the controller has written.
\<close>

section \<open>The machine of one operation\<close>

inductive effect_move :: "effect_state \<Rightarrow> effect_state \<Rightarrow> bool" where
  dispatch: "effect_move Intended Dispatched"
| acknowledge: "effect_move Dispatched Acknowledged"
| outcome: "s = Dispatched \<or> s = Acknowledged \<Longrightarrow> effect_move s (Outcome out)"
| reconcile: "reconcilable s \<Longrightarrow> effect_move s (Reconciled out)"

inductive_simps effect_move_simps [simp]:
  "effect_move s Intended" "effect_move s Dispatched" "effect_move s Acknowledged"
  "effect_move s (Outcome out)" "effect_move s (Reconciled out)"

lemma confirmed_is_final: "confirmed_state s \<Longrightarrow> \<not> effect_move s t"
  by (auto simp: confirmed_state_def reconcilable_def elim: effect_move.cases)

lemma state_facts [simp]:
  "confirmed_state s \<Longrightarrow> terminal_state s" "reconcilable s \<Longrightarrow> terminal_state s"
  "\<not> confirmed_state Intended" "\<not> confirmed_state Dispatched" "\<not> confirmed_state Acknowledged"
  "confirmed_state (Outcome out) \<longleftrightarrow> out = Confirmed" "confirmed_state (Reconciled out) \<longleftrightarrow> out = Confirmed"
  "\<not> reconcilable Intended" "\<not> reconcilable Dispatched" "\<not> reconcilable Acknowledged"
  by (auto simp: confirmed_state_def reconcilable_def)

section \<open>What a lifecycle row does to its operation\<close>

text \<open>Everything but the fields of compensation.\<close>

definition same_core :: "effect_operation \<Rightarrow> effect_operation \<Rightarrow> bool" where
  "same_core op op' \<longleftrightarrow>
     eo_binding op' = eo_binding op \<and> eo_intent op' = eo_intent op \<and> eo_dispatch op' = eo_dispatch op \<and>
     eo_acknowledgement op' = eo_acknowledgement op \<and> eo_primary op' = eo_primary op \<and>
     eo_state op' = eo_state op \<and> eo_evidence op' = eo_evidence op \<and> eo_current op' = eo_current op \<and>
     eo_spend_status op' = eo_spend_status op \<and> eo_measured op' = eo_measured op \<and>
     eo_position op' = eo_position op"

definition measured_kind :: "json \<Rightarrow> bool" where
  "measured_kind r \<longleftrightarrow>
     is_kind ''effect_confirmed'' r \<or> is_kind ''effect_failed'' r \<or> is_kind ''effect_unknown'' r \<or>
     is_kind ''effect_reconciled'' r"

definition moved_by :: "json \<Rightarrow> effect_operation \<Rightarrow> effect_operation \<Rightarrow> bool" where
  "moved_by r op op' \<longleftrightarrow>
     effect_move (eo_state op) (eo_state op') \<and>
     eo_binding op' = eo_binding op \<and> eo_intent op' = eo_intent op \<and> eo_position op' = eo_position op \<and>
     eo_evidence op' = record_key r \<and> eo_current op' = r \<and>
     (eo_state op = Intended \<longrightarrow> is_kind ''effect_dispatched'' r \<and> eo_dispatch op' = Some (record_key r)) \<and>
     (eo_state op \<noteq> Intended \<longrightarrow> eo_dispatch op' = eo_dispatch op) \<and>
     (terminal_state (eo_state op') \<longleftrightarrow> eo_primary op' \<noteq> None) \<and>
     (\<not> terminal_state (eo_state op') \<longrightarrow> eo_measured op' = eo_measured op) \<and>
     (terminal_state (eo_state op') \<longrightarrow>
        measured_kind r \<and> eo_measured op' = spend_rows (member_of r ''measured_spend'') \<and>
        (\<forall>m. eo_measured op' = Some m \<longrightarrow>
           list_all (\<lambda>(b, a). \<exists>limit. map_of (claim_of op) b = Some limit \<and> a \<le> limit) m)) \<and>
     (confirmed_state (eo_state op') \<longleftrightarrow> is_confirmation r) \<and>
     (is_confirmation r \<longrightarrow>
        canon (member_of r ''confirmation'') = bound op ''expected_confirmation'' \<and>
        (\<exists>m. eo_measured op' = Some m \<and> fst ` set m = fst ` set (claim_of op)) \<and>
        eo_spend_status op' = JStr ''complete'')"

lemma validate_spend_Inr:
  "validate_spend b r op k = Inr x \<longleftrightarrow>
     k = Inr x \<and>
     (case spend_rows (member_of r ''measured_spend'') of
        None \<Rightarrow> \<not> is_confirmation r
      | Some m \<Rightarrow>
          (is_confirmation r \<longrightarrow> fst ` set m = fst ` set (claim_of op)) \<and>
          list_all (\<lambda>(b, a). \<exists>limit. map_of (claim_of op) b = Some limit \<and> a \<le> limit) m)"
  by (auto simp: validate_spend_def Let_def list_ex_iff list_all_iff not_less split: option.splits; force)

lemma kind_text: "is_kind k r \<Longrightarrow> is_kind k' r \<longleftrightarrow> k = k'"
  by (auto simp: is_kind_def)

lemma outcome_measured: "outcome_of_kind r = Some out \<Longrightarrow> measured_kind r"
  by (auto simp: outcome_of_kind_def measured_kind_def split: if_splits)

lemma outcome_kind:
  "outcome_of_kind r = Some out \<Longrightarrow> is_confirmation r \<longleftrightarrow> out = Confirmed"
  "outcome_of_kind r = Some out \<Longrightarrow> out = Confirmed \<longleftrightarrow> is_kind ''effect_confirmed'' r"
  by (auto simp: outcome_of_kind_def is_confirmation_def kind_text split: if_splits)

lemma set_current_simps [simp]:
  "eo_state (set_current r s op) = s" "eo_evidence (set_current r s op) = record_key r"
  "eo_current (set_current r s op) = r" "eo_binding (set_current r s op) = eo_binding op"
  "eo_intent (set_current r s op) = eo_intent op" "eo_dispatch (set_current r s op) = eo_dispatch op"
  "eo_primary (set_current r s op) = eo_primary op" "eo_position (set_current r s op) = eo_position op"
  "eo_measured (set_current r s op) =
     (if terminal_state s then spend_rows (member_of r ''measured_spend'') else eo_measured op)"
  "terminal_state s \<Longrightarrow> eo_spend_status (set_current r s op) =
     (if is_kind ''effect_confirmed'' r then JStr ''complete'' else member_of r ''spend_status'')"
  by (simp_all add: set_current_def Let_def)

definition measured_within :: "json \<Rightarrow> effect_operation \<Rightarrow> bool" where
  "measured_within r op \<longleftrightarrow>
     (case spend_rows (member_of r ''measured_spend'') of
        None \<Rightarrow> \<not> is_confirmation r
      | Some m \<Rightarrow>
          (is_confirmation r \<longrightarrow> fst ` set m = fst ` set (claim_of op)) \<and>
          list_all (\<lambda>(b, a). \<exists>limit. map_of (claim_of op) b = Some limit \<and> a \<le> limit) m)"

lemma moved_by_terminal:
  assumes "effect_move (eo_state op) s" "terminal_state s" "eo_state op \<noteq> Intended" "eo_primary op1 \<noteq> None"
    and "eo_binding op1 = eo_binding op" "eo_intent op1 = eo_intent op" "eo_position op1 = eo_position op"
      "eo_dispatch op1 = eo_dispatch op"
    and "confirmed_state s \<longleftrightarrow> is_confirmation r" "measured_within r op"
    and "is_confirmation r \<Longrightarrow> canon (member_of r ''confirmation'') = bound op ''expected_confirmation''"
    and "is_confirmation r \<Longrightarrow> is_kind ''effect_confirmed'' r \<or> member_of r ''spend_status'' = JStr ''complete''"
    and "measured_kind r"
  shows "moved_by r op (set_current r s op1)"
  using assms by (auto simp: moved_by_def measured_within_def split: option.splits)

lemma apply_primary_Inr:
  assumes "apply_primary b r out op = Inr op'"
  shows "eo_state op = Dispatched \<or> eo_state op = Acknowledged" "measured_within r op"
    "out = Confirmed \<Longrightarrow> canon (member_of r ''confirmation'') = bound op ''expected_confirmation''"
    "op' = set_current r (Outcome out) (op\<lparr>eo_primary := Some (record_key r)\<rparr>)"
  using assms by (auto simp: apply_primary_def require_reference_def validate_spend_Inr measured_within_def)

lemma apply_reconciled_Inr:
  assumes "apply_reconciled b r out op = Inr op'"
  shows "reconcilable (eo_state op)" "measured_within r op"
    "out = Confirmed \<Longrightarrow> canon (member_of r ''confirmation'') = bound op ''expected_confirmation''"
    "out = Confirmed \<Longrightarrow> member_of r ''spend_status'' = JStr ''complete''"
    "op' = set_current r (Reconciled out)
       (op\<lparr>eo_digests := text_at r ''reconciliation_evidence_digest'' # eo_digests op\<rparr>)"
  using assms
  by (auto simp: apply_reconciled_def require_reference_def validate_spend_Inr measured_within_def Let_def)

lemma lifecycle_cases:
  assumes "apply_lifecycle b book r op = Inr op'"
    and "eo_primary op \<noteq> None \<longleftrightarrow> terminal_state (eo_state op)"
  shows "same_core op op' \<or> moved_by r op op'"
proof -
  consider (dispatched) "is_kind ''effect_dispatched'' r" "apply_dispatched b r op = Inr op'"
    | (acknowledged) "is_kind ''effect_acknowledged'' r" "apply_acknowledged b r op = Inr op'"
    | (primary) out where "outcome_of_kind r = Some out" "apply_primary b r out op = Inr op'"
    | (reconciled) out where "is_kind ''effect_reconciled'' r" "reconciled_outcome r = Some out"
        "apply_reconciled b r out op = Inr op'"
    | (proposed) "apply_proposed b book r op = Inr op'"
    | (executed) "apply_executed b book r op = Inr op'"
    using assms(1) by (auto simp: apply_lifecycle_def split: if_splits option.splits)
  then show ?thesis
  proof cases
    case dispatched
    have "\<not> is_confirmation r" using dispatched(1) by (simp add: is_confirmation_def is_kind_def)
    then show ?thesis
      using dispatched assms(2) by (auto simp: apply_dispatched_def set_current_def moved_by_def Let_def)
  next
    case acknowledged
    have "\<not> is_confirmation r" using acknowledged(1) by (simp add: is_confirmation_def is_kind_def)
    then show ?thesis
      using acknowledged assms(2)
      by (auto simp: apply_acknowledged_def require_reference_def set_current_def moved_by_def Let_def)
  next
    case primary
    note p = apply_primary_Inr [OF primary(2)]
    show ?thesis
      unfolding p(4)
      by (rule disjI2, rule moved_by_terminal)
         (use p(1-3) outcome_kind [OF primary(1)] outcome_measured [OF primary(1)] in auto)
  next
    case reconciled
    note p = apply_reconciled_Inr [OF reconciled(3)]
    have kind: "\<not> is_kind ''effect_confirmed'' r" using reconciled(1) by (simp add: is_kind_def)
    have conf: "is_confirmation r \<longleftrightarrow> out = Confirmed"
      using reconciled(1,2) kind by (auto simp: is_confirmation_def reconciled_outcome_def Let_def split: if_splits)
    have "eo_primary op \<noteq> None" "eo_state op \<noteq> Intended" using p(1) assms(2) by auto
    moreover have "measured_kind r" using reconciled(1) by (simp add: measured_kind_def)
    ultimately show ?thesis using p(1-4) kind conf
      by (subst p(5), intro disjI2) (rule moved_by_terminal; auto)
  next
    case proposed
    then show ?thesis by (auto simp: apply_proposed_def require_reference_def same_core_def)
  next
    case executed
    then show ?thesis
      by (auto simp: apply_executed_def require_reference_def same_core_def Let_def split: option.splits)
  qed
qed

end
