(* ===== verification/Effect_Invariant.thy ===== *)
theory Effect_Invariant
  imports Effect_Safety
begin

text \<open>
  The invariant of a projected effect book: budget tables are tables, measured spend stays within the
  claim, a confirmed operation has the evidence its intent asked for, and the dictionaries of the
  projection agree.  It is an interpretation of \<open>projection\<close> on \<open>effect_apply\<close>.
\<close>

section \<open>Budget tables\<close>

definition table_sound :: "(string \<times> int) list \<Rightarrow> bool" where
  "table_sound t \<longleftrightarrow> distinct (map fst t) \<and> (\<forall>(b, a) \<in> set t. 0 \<le> a)"

lemma table_sound_Nil [simp]: "table_sound []"
  by (simp add: table_sound_def)

lemma budget_keys_rows:
  "budget_keys lo vs = Some keys \<Longrightarrow> map (fst \<circ> spend_row) vs = keys \<and> (\<forall>v \<in> set vs. lo \<le> snd (spend_row v))"
proof (induction vs arbitrary: keys)
  case (Cons v vs)
  show ?case
  proof (cases v)
    case (JObj ms)
    with Cons.prems obtain rest where m: "get_member ms ''budget_id'' = JStr (text_of ms ''budget_id'')"
        "integer_in ''amount'' lo 1000000000 ms" "budget_keys lo vs = Some rest" "keys = text_of ms ''budget_id'' # rest"
      by (simp split: if_split_asm) blast
    moreover obtain a where "get_member ms ''amount'' = JInt a" "lo \<le> a"
      using m(2) by (auto simp: integer_in_def split: json.splits)
    moreover have "text_at v ''budget_id'' = text_of ms ''budget_id''"
      by (simp add: text_at_def member_of_def JObj text_of_def)
    ultimately show ?thesis using Cons.IH [OF m(3)] by (simp add: spend_row_def int_at_def member_of_def JObj)
  qed (use Cons.prems in simp_all)
qed simp

lemma budget_rows_sound:
  assumes "check_budget_rows name 0 b row = Inr ()"
  shows "\<exists>t. spend_rows (get_member row name) = Some t \<and> table_sound t"
proof -
  obtain vs keys where v: "get_member row name = JArr vs" "budget_keys 0 vs = Some keys" "distinct keys"
    using assms by (auto simp: check_budget_rows_def split: json.splits if_splits option.splits)
  show ?thesis
    using v(1,3) budget_keys_rows [OF v(2)] by (auto simp: spend_rows_def table_sound_def)
qed

lemmas effect_specs =
  effect_intent_spec_def effect_dispatched_spec_def effect_acknowledged_spec_def effect_confirmed_spec_def
  effect_failed_spec_def effect_unknown_spec_def effect_reconciled_spec_def compensation_proposed_spec_def
  compensation_executed_spec_def

lemmas effect_bodies =
  effect_intent_body_def effect_dispatched_body_def effect_acknowledged_body_def effect_confirmed_body_def
  effect_failed_body_def effect_unknown_body_def effect_reconciled_body_def compensation_proposed_body_def
  compensation_executed_body_def

lemma effect_body_binding:
  assumes "kind \<in> set EFFECT_KINDS" "ks_body (the (SPECS kind)) b row = Inr ()"
  shows "effect_binding b row = Inr ()"
  using assms
  by (auto simp: EFFECT_KINDS_def governed_lookups effect_specs effect_bodies bindR_Inr_iff)

lemma effect_body_measured:
  assumes "kind \<in> {''effect_confirmed'', ''effect_failed'', ''effect_unknown'', ''effect_reconciled''}"
    and "ks_body (the (SPECS kind)) b row = Inr ()"
  shows "get_member row ''measured_spend'' = JNull \<or> check_budget_rows ''measured_spend'' 0 b row = Inr ()"
  using assms
  by (auto simp: governed_lookups effect_specs effect_bodies bindR_Inr_iff check_nullable_def only_if_def
      absent_value_def split: if_splits)

lemma effect_binding_members:
  assumes "effect_binding b row = Inr ()"
  shows "\<exists>t. spend_rows (get_member row ''budget_claim'') = Some t \<and> table_sound t"
    "\<exists>s. get_member row ''operation_id'' = JStr s" "\<exists>s. get_member row ''run_id'' = JStr s"
    "\<exists>s. get_member row ''attempt_id'' = JStr s" "\<exists>s. get_member row ''idempotency_key'' = JStr s"
  using assms budget_rows_sound
  by (auto simp: effect_binding_def bindR_Inr_iff text_field_Inr_iff check_run_id_def check_attempt_id_def
      check_bounded_def)

text \<open>What the validator says of a row, on the row as it is stored.\<close>

lemma canon_spend_rows [simp]:
  "spend_row (canon v) = spend_row v"
  "spend_rows (canon v) = spend_rows v"
proof -
  have "text_at (canon v) n = text_at v n \<and> int_at (canon v) n = int_at v n" for v n
  proof (cases v)
    case (JObj ms)
    note c = canonical_ofD(2) [OF canonical_of_object [of ms]]
    show ?thesis
      by (simp add: JObj text_at_def int_at_def member_of_def c)
         (cases "get_member ms n"; simp)
  qed (simp_all add: text_at_def int_at_def member_of_def)
  then have row: "spend_row (canon v) = spend_row v" for v by (simp add: spend_row_def)
  then show "spend_row (canon v) = spend_row v" by blast
  show "spend_rows (canon v) = spend_rows v" by (cases v) (simp_all add: spend_rows_def row)
qed

definition effect_row :: "json \<Rightarrow> bool" where
  "effect_row r \<longleftrightarrow>
     (\<exists>kind \<in> set EFFECT_KINDS. is_kind kind r) \<and>
     member_of r ''operation_id'' = JStr (text_at r ''operation_id'') \<and>
     member_of r ''run_id'' = JStr (text_at r ''run_id'') \<and>
     member_of r ''attempt_id'' = JStr (text_at r ''attempt_id'') \<and>
     member_of r ''idempotency_key'' = JStr (text_at r ''idempotency_key'') \<and>
     table_sound (spend_table (member_of r ''budget_claim'')) \<and>
     (measured_kind r \<longrightarrow> table_sound (spend_table (member_of r ''measured_spend'')))"

lemma spend_table_simps [simp]: "spend_table JNull = []" "spend_table (canon v) = spend_table v"
  by (simp_all only: spend_table_def canon_spend_rows) (simp add: spend_rows_def)

lemma validated_effect_row:
  assumes "validate_record SPECS tenant EFFECT_KINDS b raw = Inr v"
  shows "effect_row (canon v)"
proof -
  obtain ms where ms: "raw = JObj ms" using validate_record_object [OF assms] by blast
  obtain kind row where row: "get_member ms ''kind'' = JStr kind" "kind \<in> set EFFECT_KINDS"
      "ks_body (the (SPECS kind)) b row = Inr ()"
      "\<forall>k. k \<notin> set chain_fields \<longrightarrow> get_member row k = get_member ms k"
    using validate_record_kind [OF assms [unfolded ms]] by blast
  have mem: "member_of (canon v) k = canon (get_member ms k)" for k
    using validate_record_member [OF assms, of k] by (simp add: ms member_of_def)
  have same: "get_member row k = get_member ms k" if "list_all (\<lambda>f. k \<noteq> f) chain_fields" for k
    using row(4) that by (auto simp: list_all_iff)
  note binding = effect_binding_members [OF effect_body_binding [OF row(2,3)]]
  have kinds: "is_kind k (canon v) \<longleftrightarrow> k = kind" for k
    by (auto simp: is_kind_def record_kind_member mem row(1))
  have "table_sound (spend_table (get_member ms ''measured_spend''))"
    if "kind \<in> {''effect_confirmed'', ''effect_failed'', ''effect_unknown'', ''effect_reconciled''}"
    using effect_body_measured [OF that row(3)] budget_rows_sound [of "''measured_spend''" b row]
    by (auto simp: same chain_fields_def spend_table_def spend_rows_def)
  then show ?thesis
    using binding row(2) by (auto simp: effect_row_def measured_kind_def kinds mem same chain_fields_def text_at_def spend_table_def)
qed

section \<open>The invariant\<close>

definition op_sound :: "string \<Rightarrow> effect_operation \<Rightarrow> bool" where
  "op_sound i op \<longleftrightarrow>
     bound op ''operation_id'' = JStr i \<and> table_sound (claim_of op) \<and>
     (eo_dispatch op = None \<longleftrightarrow> eo_state op = Intended) \<and>
     (eo_primary op \<noteq> None \<longleftrightarrow> terminal_state (eo_state op)) \<and>
     (\<not> terminal_state (eo_state op) \<longrightarrow> eo_measured op = None) \<and>
     (\<forall>m. eo_measured op = Some m \<longrightarrow>
        table_sound m \<and> (\<forall>(b, a) \<in> set m. \<exists>limit. map_of (claim_of op) b = Some limit \<and> a \<le> limit)) \<and>
     (confirmed_state (eo_state op) \<longrightarrow>
        is_confirmation (eo_current op) \<and> eo_spend_status op = JStr ''complete'' \<and>
        canon (member_of (eo_current op) ''confirmation'') = bound op ''expected_confirmation'' \<and>
        (\<exists>m. eo_measured op = Some m \<and> fst ` set m = fst ` set (claim_of op)))"

text \<open>The intent, the dispatch and the current evidence of an operation are rows in this order, with its
  binding.\<close>

definition op_traced :: "json list \<Rightarrow> effect_operation \<Rightarrow> bool" where
  "op_traced recs op \<longleftrightarrow>
     (\<exists>a \<in> set recs. is_kind ''effect_intent'' a \<and> record_key a = eo_intent op \<and> binding_of a = eo_binding op \<and>
        (eo_state op \<noteq> Intended \<longrightarrow>
           (\<exists>d. subseq [a, d] recs \<and> is_kind ''effect_dispatched'' d \<and> eo_dispatch op = Some (record_key d) \<and>
              binding_of d = eo_binding op \<and>
              (terminal_state (eo_state op) \<longrightarrow>
                 subseq [a, d, eo_current op] recs \<and> binding_of (eo_current op) = eo_binding op))))"

definition has_key :: "effect_operation \<Rightarrow> string \<Rightarrow> bool" where
  "has_key op key \<longleftrightarrow> bound op ''idempotency_key'' = JStr key"

definition of_attempt :: "string \<Rightarrow> string \<Rightarrow> effect_operation \<Rightarrow> bool" where
  "of_attempt run attempt op \<longleftrightarrow> bound op ''run_id'' = JStr run \<and> bound op ''attempt_id'' = JStr attempt"

definition book_sound :: "json list \<Rightarrow> effect_book \<Rightarrow> bool" where
  "book_sound rows book \<longleftrightarrow>
     map record_key (eb_records book) = map record_key rows \<and> eb_seen book = rev (map record_key rows) \<and>
     distinct (map fst (eb_operations book)) \<and>
     (\<forall>i op. map_of (eb_operations book) i = Some op \<longrightarrow>
        op_sound i op \<and> op_traced (eb_records book) op \<and> eo_position op \<le> length rows) \<and>
     (\<forall>key i. map_of (eb_keys book) key = Some i \<longleftrightarrow>
        (\<exists>op. map_of (eb_operations book) i = Some op \<and> has_key op key)) \<and>
     (\<forall>run attempt. attempt_operations book (run, attempt) =
        map fst (filter (\<lambda>(i, op). of_attempt run attempt op) (eb_operations book)))"

section \<open>One row keeps it\<close>

lemma canon_member [simp]: "canon (member_of (canon v) k) = member_of (canon v) k"
proof (cases v)
  case (JObj ms)
  show ?thesis by (simp add: JObj member_of_def canonical_ofD(2) [OF canonical_of_object [of ms]])
qed (simp_all add: member_of_def)

lemma effect_apply_Inr:
  assumes "effect_apply b book raw = Inr book'"
  obtains v where "validate_record SPECS (effect_tenant book raw) EFFECT_KINDS b raw = Inr v"
    "effect_row (canon v)" "record_key (canon v) = record_key raw" "record_key raw \<notin> set (eb_seen book)"
    "is_kind ''effect_intent'' (canon v) \<and>
       (\<exists>new. apply_intent b book (canon v) = Inr new \<and>
         book' = new\<lparr>eb_seen := record_key raw # eb_seen book, eb_records := eb_records book @ [canon v]\<rparr>) \<or>
     \<not> is_kind ''effect_intent'' (canon v) \<and>
       (\<exists>op op'. map_of (eb_operations book) (text_at (canon v) ''operation_id'') = Some op \<and>
          binding_of (canon v) = eo_binding op \<and> apply_lifecycle b book (canon v) op = Inr op' \<and>
          book' = book\<lparr>eb_operations := AList.update (text_at (canon v) ''operation_id'') op' (eb_operations book),
            eb_seen := record_key raw # eb_seen book, eb_records := eb_records book @ [canon v]\<rparr>)"
proof -
  from assms obtain v where v: "validate_record SPECS (effect_tenant book raw) EFFECT_KINDS b raw = Inr v"
    by (auto simp: effect_apply_def bindR_Inr_iff)
  have key: "record_key (canon v) = record_key raw"
    using validate_record_member [OF v, of "''id''"] validate_record_id [OF v]
    by (cases raw; cases "canon v") (auto simp: record_key_def record_id_def member_of_def)
  have row: "effect_row (canon v)" by (rule validated_effect_row [OF v])
  show ?thesis
    by (rule that [OF v row key])
       (use assms in \<open>auto simp: effect_apply_def v key apply_intent_def Let_def bindR_Inr_iff
          split: if_splits option.splits\<close>)
qed

lemma map_fst_filter_update:
  assumes "map_of xs i = Some x" "P (i, y) \<longleftrightarrow> P (i, x)" "distinct (map fst xs)"
  shows "map fst (filter P (AList.update i y xs)) = map fst (filter P xs)"
  using assms
proof (induction xs)
  case (Cons p xs)
  obtain k v where p: "p = (k, v)" by (cases p)
  show ?case
  proof (cases "k = i")
    case True
    then show ?thesis using Cons.prems p by simp
  next
    case False
    then show ?thesis using Cons p by simp
  qed
qed simp

lemma claim_bound: "eo_binding op' = eo_binding op \<Longrightarrow> bound op' = bound op \<and> claim_of op' = claim_of op"
  by (auto simp: bound_def [abs_def] claim_of_def)

lemma effect_move_open: "effect_move s t \<Longrightarrow> \<not> terminal_state t \<Longrightarrow> \<not> terminal_state s"
  by (auto elim: effect_move.cases)

lemma op_sound_unmeasured:
  assumes "moved_by r op op'" "op_sound i op" "\<not> terminal_state (eo_state op')"
  shows "eo_measured op' = None"
proof -
  have "\<not> terminal_state (eo_state op)" using assms(1,3) effect_move_open unfolding moved_by_def by blast
  then show ?thesis using assms by (simp add: moved_by_def op_sound_def)
qed

lemma op_sound_move:
  assumes "moved_by r op op'" "op_sound i op" "effect_row r"
  shows "op_sound i op'"
proof -
  have same: "bound op' = bound op" "claim_of op' = claim_of op"
    using claim_bound [of op' op] assms(1) by (simp_all add: moved_by_def)
  have "eo_state op' \<noteq> Intended" using assms(1) by (auto simp: moved_by_def)
  moreover have "eo_dispatch op' \<noteq> None"
    using assms(1,2) by (cases "eo_state op = Intended") (simp_all add: moved_by_def op_sound_def)
  ultimately have dispatch: "eo_dispatch op' = None \<longleftrightarrow> eo_state op' = Intended" by simp
  have measured: "table_sound m \<and> (\<forall>(b, a) \<in> set m. \<exists>limit. map_of (claim_of op) b = Some limit \<and> a \<le> limit)"
    if m: "eo_measured op' = Some m" for m
  proof -
    have "terminal_state (eo_state op')" using op_sound_unmeasured [OF assms(1,2)] m by auto
    then have "measured_kind r" "spend_rows (member_of r ''measured_spend'') = Some m"
        "list_all (\<lambda>(b, a). \<exists>limit. map_of (claim_of op) b = Some limit \<and> a \<le> limit) m"
      using assms(1) m by (auto simp: moved_by_def)
    then show ?thesis using assms(3) by (auto simp: effect_row_def spend_table_def list_all_iff)
  qed
  have "confirmed_state (eo_state op') \<longrightarrow>
        is_confirmation (eo_current op') \<and> eo_spend_status op' = JStr ''complete'' \<and>
        canon (member_of (eo_current op') ''confirmation'') = bound op ''expected_confirmation'' \<and>
        (\<exists>m. eo_measured op' = Some m \<and> fst ` set m = fst ` set (claim_of op))"
    using assms(1) by (simp add: moved_by_def)
  moreover have "eo_primary op' \<noteq> None \<longleftrightarrow> terminal_state (eo_state op')"
    using assms(1) by (auto simp: moved_by_def)
  moreover have "\<not> terminal_state (eo_state op') \<longrightarrow> eo_measured op' = None"
    using op_sound_unmeasured [OF assms(1,2)] by blast
  ultimately show ?thesis
    using assms(2) dispatch measured by (simp add: op_sound_def same)
qed

lemma op_sound_core:
  assumes "same_core op op'" "op_sound i op"
  shows "op_sound i op'"
proof -
  have "bound op' = bound op" "claim_of op' = claim_of op"
    using claim_bound [of op' op] assms(1) by (simp_all add: same_core_def)
  then show ?thesis using assms by (simp add: op_sound_def same_core_def)
qed

lemma subseq_snoc: "subseq xs ys \<Longrightarrow> subseq xs (ys @ [r])"
  by (rule list_emb_prefix)

lemma subseq_add: "subseq xs ys \<Longrightarrow> subseq (xs @ [r]) (ys @ [r])"
  by (rule list_emb_append_mono) simp_all

lemma op_traced_snoc: "op_traced recs op \<Longrightarrow> op_traced (recs @ [r]) op"
  unfolding op_traced_def by (auto 4 4 intro: list_emb_prefix)

lemma op_traced_core: "same_core op op' \<Longrightarrow> op_traced recs op \<Longrightarrow> op_traced recs op'"
  by (simp add: op_traced_def same_core_def)

lemma op_traced_move:
  assumes "moved_by r op op'" "op_traced recs op" "binding_of r = eo_binding op"
  shows "op_traced (recs @ [r]) op'"
proof -
  obtain a where a: "a \<in> set recs" "is_kind ''effect_intent'' a" "record_key a = eo_intent op"
      "binding_of a = eo_binding op"
    using assms(2) by (auto simp: op_traced_def)
  have m: "eo_binding op' = eo_binding op" "eo_intent op' = eo_intent op" "eo_current op' = r"
      "eo_state op = Intended \<longrightarrow> is_kind ''effect_dispatched'' r \<and> eo_dispatch op' = Some (record_key r)"
      "eo_state op \<noteq> Intended \<longrightarrow> eo_dispatch op' = eo_dispatch op" "effect_move (eo_state op) (eo_state op')"
    using assms(1) by (auto simp: moved_by_def)
  show ?thesis
  proof (cases "eo_state op = Intended")
    case True
    then have "eo_state op' = Dispatched" using m(6) by (auto simp: reconcilable_def elim: effect_move.cases)
    moreover have "subseq [a, r] (recs @ [r])"
      using subseq_add [of "[a]" recs r] a(1) by (simp add: subseq_singleton_left)
    ultimately show ?thesis
      using a True m(1-4) assms(3)
      unfolding op_traced_def by (intro bexI [of _ a]) (auto intro!: exI [of _ r])
  next
    case False
    then obtain a d where d: "a \<in> set recs" "is_kind ''effect_intent'' a" "record_key a = eo_intent op"
        "binding_of a = eo_binding op" "subseq [a, d] recs" "is_kind ''effect_dispatched'' d"
        "eo_dispatch op = Some (record_key d)" "binding_of d = eo_binding op"
      using assms(2) by (auto simp: op_traced_def)
    have "subseq [a, d] (recs @ [r])" "subseq [a, d, r] (recs @ [r])"
      using subseq_snoc [OF d(5)] subseq_add [OF d(5), of r] by simp_all
    then show ?thesis
      using d False m assms(3)
      unfolding op_traced_def by (intro bexI [of _ a]) (auto intro!: exI [of _ d])
  qed
qed

section \<open>The book\<close>

lemma bound_new:
  assumes "name \<in> set EFFECT_BINDING_FIELDS"
  shows "bound (new_operation book r) name = canon (member_of r name)"
proof -
  have "map_of (map (\<lambda>f. (f, canon (member_of r f))) fs) name = (if name \<in> set fs then Some (canon (member_of r name)) else None)"
    for fs by (induction fs) auto
  then show ?thesis using assms by (simp add: bound_def new_operation_def binding_of_def get_member_def)
qed

lemma op_sound_new:
  assumes "effect_row (canon v)"
  shows "op_sound (text_at (canon v) ''operation_id'') (new_operation book (canon v))"
    "is_kind ''effect_intent'' (canon v) \<Longrightarrow> op_traced (recs @ [canon v]) (new_operation book (canon v))"
proof -
  let ?op = "new_operation book (canon v)"
  have "claim_of ?op = spend_table (member_of (canon v) ''budget_claim'')"
    by (simp add: claim_of_def bound_new EFFECT_BINDING_FIELDS_def)
  moreover have "bound ?op ''operation_id'' = JStr (text_at (canon v) ''operation_id'')"
    using assms by (simp add: bound_new EFFECT_BINDING_FIELDS_def effect_row_def)
  ultimately show "op_sound (text_at (canon v) ''operation_id'') ?op"
    using assms by (simp add: op_sound_def effect_row_def new_operation_def)
  show "op_traced (recs @ [canon v]) ?op" if "is_kind ''effect_intent'' (canon v)"
    using that by (auto simp: op_traced_def new_operation_def)
qed

lemma attempt_operations_eb:
  "attempt_operations book a = (case map_of (eb_attempts book) a of None \<Rightarrow> [] | Some ids \<Rightarrow> ids)"
  by (simp add: attempt_operations_def)

lemma book_sound_intent:
  assumes "book_sound rows book" "apply_intent b book (canon v) = Inr new" "effect_row (canon v)"
    and "is_kind ''effect_intent'' (canon v)" "record_key (canon v) = record_key raw"
  shows "book_sound (rows @ [raw]) (new\<lparr>eb_seen := record_key raw # eb_seen book,
    eb_records := eb_records book @ [canon v]\<rparr>)"
proof -
  let ?r = "canon v"
  define i where "i = text_at ?r ''operation_id''"
  define op where "op = new_operation book ?r"
  define a where "a = (text_at ?r ''run_id'', text_at ?r ''attempt_id'')"
  note sound = assms(1) [unfolded book_sound_def]
  have fresh: "map_of (eb_operations book) i = None" "map_of (eb_keys book) (text_at ?r ''idempotency_key'') = None"
    using assms(2) by (auto simp: apply_intent_def i_def Let_def)
  have new: "new = book\<lparr>eb_operations := eb_operations book @ [(i, op)],
      eb_keys := AList.update (text_at ?r ''idempotency_key'') i (eb_keys book),
      eb_attempts := AList.update a (attempt_operations book a @ [i]) (eb_attempts book)\<rparr>"
    using assms(2) fresh
    by (auto simp: apply_intent_def Let_def i_def op_def a_def update_fresh map_of_eq_None_iff image_iff)
  have mem: "bound op n = member_of ?r n" if "n \<in> set EFFECT_BINDING_FIELDS" for n
    using that by (simp add: op_def bound_new)
  have key: "has_key op k \<longleftrightarrow> k = text_at ?r ''idempotency_key''" for k
    using assms(3) by (auto simp: has_key_def mem EFFECT_BINDING_FIELDS_def effect_row_def)
  have att: "of_attempt run attempt op \<longleftrightarrow> (run, attempt) = a" for run attempt
    using assms(3) by (auto simp: of_attempt_def mem EFFECT_BINDING_FIELDS_def effect_row_def a_def)
  have len: "length (eb_records book) = length rows" using sound by (metis length_map)
  have ops: "map_of (eb_operations book @ [(i, op)]) j = (if j = i then Some op else map_of (eb_operations book) j)" for j
    using fresh(1) by (simp add: map_add_def split: option.split)
  have "distinct (map fst (eb_operations book @ [(i, op)]))"
    using sound fresh(1) by (auto simp: map_of_eq_None_iff)
  moreover have "op_sound j p \<and> op_traced (eb_records book @ [?r]) p \<and> eo_position p \<le> length (rows @ [raw])"
    if "map_of (eb_operations book @ [(i, op)]) j = Some p" for j p
  proof (cases "j = i")
    case True
    then have "p = op" using that by (simp only: ops simp_thms if_True option.inject)
    then show ?thesis
      using True op_sound_new(1) [OF assms(3), of book] op_sound_new(2) [OF assms(3,4), of "eb_records book" book] len
      by (simp add: op_def i_def) (simp add: new_operation_def)
  next
    case False
    then have "map_of (eb_operations book) j = Some p" using that by (simp only: ops if_False)
    then have "op_sound j p" "op_traced (eb_records book) p" "eo_position p \<le> length rows" using sound by blast+
    then show ?thesis using op_traced_snoc by simp
  qed
  moreover have keys: "map_of (eb_keys book) k = Some j \<longleftrightarrow>
      (\<exists>p. map_of (eb_operations book) j = Some p \<and> has_key p k)" for k j
    using sound by blast
  have "map_of (eb_keys new) k = Some j \<longleftrightarrow>
      (\<exists>p. map_of (eb_operations book @ [(i, op)]) j = Some p \<and> has_key p k)" for k j
  proof (cases "k = text_at ?r ''idempotency_key''")
    case True
    then have "\<not> (\<exists>p. map_of (eb_operations book) j = Some p \<and> has_key p k)" using keys [of k j] fresh(2) by simp
    then show ?thesis unfolding ops using True key by (auto simp: new)
  next
    case False
    then show ?thesis unfolding ops using keys [of k j] fresh(1) key by (auto simp: new)
  qed
  moreover have "attempt_operations new (run, attempt) =
      map fst (filter (\<lambda>(i, op). of_attempt run attempt op) (eb_operations book @ [(i, op)]))" for run attempt
    using sound att by (auto simp: new attempt_operations_eb)
  ultimately show ?thesis
    using sound assms(5) unfolding book_sound_def by (simp add: new attempt_operations_eb)
qed

lemma book_sound_lifecycle:
  assumes "book_sound rows book" "apply_lifecycle b book (canon v) op = Inr op'" "effect_row (canon v)"
    and "map_of (eb_operations book) i = Some op" "binding_of (canon v) = eo_binding op"
    and "record_key (canon v) = record_key raw"
  shows "book_sound (rows @ [raw]) (book\<lparr>eb_operations := AList.update i op' (eb_operations book),
    eb_seen := record_key raw # eb_seen book, eb_records := eb_records book @ [canon v]\<rparr>)"
proof -
  let ?r = "canon v" and ?ops = "AList.update i op' (eb_operations book)"
  note sound = assms(1) [unfolded book_sound_def]
  have op: "op_sound i op" "op_traced (eb_records book) op" "eo_position op \<le> length rows"
    using sound assms(4) by blast+
  have how: "same_core op op' \<or> moved_by ?r op op'"
    by (rule lifecycle_cases [OF assms(2)]) (use op(1) in \<open>simp add: op_sound_def\<close>)
  then have same: "eo_binding op' = eo_binding op" "eo_position op' = eo_position op"
    by (auto simp: same_core_def moved_by_def)
  have bound: "bound op' = bound op" using claim_bound [OF same(1)] by blast
  have new: "op_sound i op'" "op_traced (eb_records book @ [?r]) op'"
    using how op op_sound_core op_sound_move [OF _ op(1) assms(3)] op_traced_move [OF _ op(2) assms(5)]
      op_traced_snoc [OF op_traced_core [OF _ op(2)]] by blast+
  have "op_sound j p \<and> op_traced (eb_records book @ [?r]) p \<and> eo_position p \<le> length (rows @ [raw])"
    if "map_of ?ops j = Some p" for j p
  proof (cases "j = i")
    case True
    then show ?thesis using that new op(3) same(2) by simp
  next
    case False
    then have "map_of (eb_operations book) j = Some p" using that by simp
    then have "op_sound j p" "op_traced (eb_records book) p" "eo_position p \<le> length rows" using sound by blast+
    then show ?thesis using op_traced_snoc by simp
  qed
  moreover
  have keys: "map_of (eb_keys book) k = Some j \<longleftrightarrow> (\<exists>p. map_of (eb_operations book) j = Some p \<and> has_key p k)" for k j
    using sound by blast
  have distinct: "distinct (map fst (eb_operations book))" using sound by blast
  have "map_of (eb_keys book) k = Some j \<longleftrightarrow> (\<exists>p. map_of ?ops j = Some p \<and> has_key p k)" for k j
    using keys [of k j] assms(4) by (simp add: has_key_def bound)
  moreover have "map fst (filter (\<lambda>(i, op). of_attempt run attempt op) ?ops) =
      map fst (filter (\<lambda>(i, op). of_attempt run attempt op) (eb_operations book))" for run attempt
    by (rule map_fst_filter_update [OF assms(4) _ distinct]) (simp add: of_attempt_def bound)
  moreover have "map fst ?ops = map fst (eb_operations book)"
    using map_of_key [OF assms(4)] by (simp add: keys_update)
  ultimately show ?thesis
    using sound assms(6) unfolding book_sound_def by (simp add: attempt_operations_eb)
qed

interpretation effects: projection "effect_apply integrity" empty_effects "readable (effect_contract tenant)" book_sound
  for integrity tenant
proof
  show "readable (effect_contract tenant) rows" if "readable (effect_contract tenant) (rows @ [r])" for rows r
    using that by (rule readable_snocD)
  show "book_sound [] empty_effects"
    by (simp add: book_sound_def empty_effects_def attempt_operations_def)
  fix rows raw book book'
  assume inv: "book_sound rows book" and step: "effect_apply integrity book raw = Inr book'"
  obtain v where v: "effect_row (canon v)" "record_key (canon v) = record_key raw"
    "is_kind ''effect_intent'' (canon v) \<and>
       (\<exists>new. apply_intent integrity book (canon v) = Inr new \<and>
         book' = new\<lparr>eb_seen := record_key raw # eb_seen book, eb_records := eb_records book @ [canon v]\<rparr>) \<or>
     \<not> is_kind ''effect_intent'' (canon v) \<and>
       (\<exists>op op'. map_of (eb_operations book) (text_at (canon v) ''operation_id'') = Some op \<and>
          binding_of (canon v) = eo_binding op \<and> apply_lifecycle integrity book (canon v) op = Inr op' \<and>
          book' = book\<lparr>eb_operations := AList.update (text_at (canon v) ''operation_id'') op' (eb_operations book),
            eb_seen := record_key raw # eb_seen book, eb_records := eb_records book @ [canon v]\<rparr>)"
    by (rule effect_apply_Inr [OF step]) blast
  show "book_sound (rows @ [raw]) book'"
    using v(3) book_sound_intent [OF inv _ v(1) _ v(2)] book_sound_lifecycle [OF inv _ v(1) _ _ v(2)] by blast
qed

end
