(* ===== verification/Effect_History.thy ===== *)
theory Effect_History
  imports Effect_Invariant
begin

text \<open>
  Histories of the controller.  \<open>effect_ledger\<close> is a ledger that reads and projects, with the rows as
  the transaction stores them; every operation keeps it and either leaves the rows or appends what its
  guards have let through.
\<close>

section \<open>Writer and reader agree\<close>

lemma same_reference [same_ok]:
  "same_success k l \<Longrightarrow> same_success (require_reference b r n e k) (require_reference c r n e l)"
  unfolding require_reference_def by (intro same_ok)

lemma same_spend [same_ok]:
  "same_success k l \<Longrightarrow> same_success (validate_spend b r op k) (validate_spend c r op l)"
  unfolding validate_spend_def Let_def by (intro same_ok)

lemma same_apply_intent: "same_success (apply_intent b book r) (apply_intent c book r)"
  unfolding apply_intent_def Let_def by (intro same_ok)

lemma same_lifecycle: "same_success (apply_lifecycle b book r op) (apply_lifecycle c book r op)"
  unfolding apply_lifecycle_def apply_dispatched_def apply_acknowledged_def apply_primary_def
    apply_reconciled_def apply_proposed_def apply_executed_def Let_def
  by (intro same_ok)

lemma effect_apply_reread:
  assumes "effect_apply False book r = Inr book'" "canon r = r"
  shows "effect_apply True book r = Inr book'"
proof -
  obtain v where v: "validate_record SPECS (effect_tenant book r) EFFECT_KINDS False r = Inr v"
    using assms(1) by (auto simp: effect_apply_def bindR_Inr_iff)
  have again: "validate_record SPECS (effect_tenant book r) EFFECT_KINDS True r = Inr v"
    by (rule governed.validate_canonical_reread [OF v assms(2)])
  have "same_success (effect_apply False book r) (effect_apply True book r)"
    unfolding effect_apply_def v again bindR_simps Let_def
    by (intro same_ok same_apply_intent same_lifecycle)
  then show ?thesis using assms(1) by (rule same_successD)
qed

section \<open>Ledgers\<close>

definition stored :: "json \<Rightarrow> bool" where
  "stored r \<longleftrightarrow> canon r = r \<and> unchained r"

lemma stored_canon: "stored r \<Longrightarrow> canon r = r"
  by (simp add: stored_def)

lemma stored_member: "stored r \<Longrightarrow> canon (member_of r n) = member_of r n"
  using canon_member [of r n] by (simp add: stored_canon)

definition effect_ledger :: "string \<Rightarrow> json list \<Rightarrow> bool" where
  "effect_ledger tenant rows \<longleftrightarrow>
     readable (effect_contract tenant) rows \<and> (\<forall>r \<in> set rows. stored r) \<and>
     (\<exists>book. project_effects rows = Inr book)"

lemma effect_ledger_Nil [simp]: "effect_ledger tenant []"
  by (simp add: effect_ledger_def project_effects_def)

lemma effect_apply_records:
  assumes "effect_apply b book r = Inr book'" "stored r"
  shows "eb_records book' = eb_records book @ [r]"
proof -
  obtain v where v: "validate_record SPECS (effect_tenant book r) EFFECT_KINDS b r = Inr v"
      "eb_records book' = eb_records book @ [canon v]"
    by (rule effect_apply_Inr [OF assms(1)]) auto
  then show ?thesis using validate_unchained [OF v(1)] assms(2) by (simp add: stored_def)
qed

lemma project_effects_records:
  "project_effects rows = Inr book \<Longrightarrow> \<forall>r \<in> set rows. stored r \<Longrightarrow> eb_records book = rows"
proof (induction rows arbitrary: book rule: rev_induct)
  case Nil
  then show ?case by (auto simp: project_effects_def empty_effects_def)
next
  case (snoc r rows)
  then obtain old where "project_effects rows = Inr old" "effect_apply True old r = Inr book"
    by (auto simp: project_effects_def replay_snoc bindR_Inr_iff)
  then show ?case using snoc.IH [of old] snoc.prems(2) effect_apply_records [of True old r book] by simp
qed

lemma effect_ledger_book:
  assumes "effect_ledger tenant rows"
  obtains book where "project_effects rows = Inr book" "book_sound rows book" "eb_records book = rows"
proof -
  obtain book where book: "project_effects rows = Inr book" using assms by (auto simp: effect_ledger_def)
  moreover have "book_sound rows book"
    using effects.replay_invar [of tenant rows True book] assms book by (simp add: effect_ledger_def project_effects_def)
  moreover have "eb_records book = rows"
    using project_effects_records [OF book] assms by (simp add: effect_ledger_def)
  ultimately show ?thesis by (rule that)
qed

text \<open>What a row of the ledger does to the book, by its two kinds.\<close>

lemma effect_apply_stored:
  assumes "effect_apply b book raw = Inr book'" "stored raw"
  obtains (intent) "effect_row raw" "is_kind ''effect_intent'' raw"
      "map_of (eb_operations book) (text_at raw ''operation_id'') = None"
      "map_of (eb_keys book) (text_at raw ''idempotency_key'') = None"
      "eb_operations book' = eb_operations book @ [(text_at raw ''operation_id'', new_operation book raw)]"
      "eb_keys book' = eb_keys book @ [(text_at raw ''idempotency_key'', text_at raw ''operation_id'')]"
  | (lifecycle) op op' where "\<not> is_kind ''effect_intent'' raw"
      "map_of (eb_operations book) (text_at raw ''operation_id'') = Some op" "binding_of raw = eo_binding op"
      "apply_lifecycle b book raw op = Inr op'"
      "eb_operations book' = AList.update (text_at raw ''operation_id'') op' (eb_operations book)"
      "eb_keys book' = eb_keys book"
proof -
  obtain v where v: "validate_record SPECS (effect_tenant book raw) EFFECT_KINDS b raw = Inr v" "effect_row (canon v)"
    "is_kind ''effect_intent'' (canon v) \<and>
       (\<exists>new. apply_intent b book (canon v) = Inr new \<and>
         book' = new\<lparr>eb_seen := record_key raw # eb_seen book, eb_records := eb_records book @ [canon v]\<rparr>) \<or>
     \<not> is_kind ''effect_intent'' (canon v) \<and>
       (\<exists>op op'. map_of (eb_operations book) (text_at (canon v) ''operation_id'') = Some op \<and>
          binding_of (canon v) = eo_binding op \<and> apply_lifecycle b book (canon v) op = Inr op' \<and>
          book' = book\<lparr>eb_operations := AList.update (text_at (canon v) ''operation_id'') op' (eb_operations book),
            eb_seen := record_key raw # eb_seen book, eb_records := eb_records book @ [canon v]\<rparr>)"
    by (rule effect_apply_Inr [OF assms(1)]) blast
  have raw: "canon v = raw" using validate_unchained [OF v(1)] assms(2) by (simp add: stored_def)
  show ?thesis
    using v(3) unfolding raw
  proof (elim disjE conjE exE)
    fix new
    assume kind: "is_kind ''effect_intent'' raw" and new: "apply_intent b book raw = Inr new"
      and book': "book' = new\<lparr>eb_seen := record_key raw # eb_seen book, eb_records := eb_records book @ [raw]\<rparr>"
    have fresh: "map_of (eb_operations book) (text_at raw ''operation_id'') = None"
        "map_of (eb_keys book) (text_at raw ''idempotency_key'') = None"
      using new by (auto simp: apply_intent_def Let_def)
    have row: "effect_row raw" using v(2) by (simp only: raw)
    show thesis
      by (rule intent [OF row kind fresh])
         (use new fresh in \<open>auto simp: book' apply_intent_def Let_def update_fresh map_of_eq_None_iff\<close>)
  qed (rule lifecycle, simp_all)
qed

text \<open>What the transaction does with a row that a controller operation proposes.\<close>

definition admitted :: "string \<Rightarrow> resolver \<Rightarrow> json \<Rightarrow> json list \<Rightarrow> json list \<Rightarrow> bool" where
  "admitted tenant resolve raw rows rows' \<longleftrightarrow>
     rows' = rows @ [raw] \<and> effect_ledger tenant rows' \<and>
     (\<exists>book book'. project_effects rows = Inr book \<and> retried_row book rows raw = Inr None \<and>
        resolve book raw = Inr None \<and> effect_apply True book raw = Inr book' \<and> project_effects rows' = Inr book')"

lemma effect_decide_new:
  assumes "effect_decide resolve raw rows = Inr (r, Some q)"
  shows "\<exists>book book'. project_effects rows = Inr book \<and> retried_row book rows raw = Inr None \<and>
    resolve book raw = Inr None \<and> effect_apply False book raw = Inr book' \<and> q = raw \<and> r = raw"
proof -
  obtain book retried where b: "project_effects rows = Inr book" "retried_row book rows raw = Inr retried"
      "(case retried of Some prior \<Rightarrow> Inr (prior, None)
        | None \<Rightarrow> bindR (resolve book raw) (\<lambda>resolved. case resolved of Some prior \<Rightarrow> Inr (prior, None)
            | None \<Rightarrow> bindR (effect_apply False book raw) (\<lambda>_. Inr (raw, Some raw)))) = Inr (r, Some q)"
    using assms unfolding effect_decide_def bindR_Inr_iff by blast
  then have "retried = None" by (cases retried) simp_all
  moreover obtain resolved where "resolve book raw = Inr resolved" "(case resolved of Some prior \<Rightarrow> Inr (prior, None)
            | None \<Rightarrow> bindR (effect_apply False book raw) (\<lambda>_. Inr (raw, Some raw))) = Inr (r, Some q)"
    using b(3) calculation by (auto simp: bindR_Inr_iff)
  moreover from this(2) have "resolved = None" by (cases resolved) simp_all
  ultimately show ?thesis using b by (auto simp: bindR_Inr_iff)
qed

lemma append_controller_Inr:
  assumes "effect_ledger tenant rows" "append_controller tenant resolve raw rows = Inr (r, rows')" "stored raw"
  shows "rows' = rows \<or> r = raw \<and> admitted tenant resolve raw rows rows'"
proof -
  have raw: "canon raw = raw" "unchained raw" using assms(3) by (simp_all add: stored_def)
  obtain v where v: "validate_record SPECS tenant EFFECT_KINDS False raw = Inr v"
      "transact (effect_contract tenant) rows (effect_decide resolve (canon v)) = Inr (r, rows')"
    using assms(2) by (auto simp: append_controller_def bindR_Inr_iff)
  have "canon v = raw" using validate_unchained [OF v(1) raw(2)] raw(1) by simp
  with v(2) have tx: "effect_decide resolve raw rows = Inr (r, None) \<and> rows' = rows \<or>
      (\<exists>q. effect_decide resolve raw rows = Inr (r, Some q) \<and> append_record (effect_contract tenant) rows q = Inr rows')"
    by (simp add: transact_Inr_iff)
  show ?thesis
  proof (cases "rows' = rows")
    case False
    with tx obtain q where q: "effect_decide resolve raw rows = Inr (r, Some q)"
        "append_record (effect_contract tenant) rows q = Inr rows'" by blast
    obtain book book' where d: "project_effects rows = Inr book" "retried_row book rows raw = Inr None"
        "resolve book raw = Inr None" "effect_apply False book raw = Inr book'" "q = raw" "r = raw"
      using effect_decide_new [OF q(1)] by blast
    note app = governed.append_record_readable
      [OF q(2) [unfolded d(5) effect_contract_def] raw(1), folded effect_contract_def]
    have again: "effect_apply True book raw = Inr book'" by (rule effect_apply_reread [OF d(4) raw(1)])
    then have "project_effects rows' = Inr book'"
      using d(1) by (simp add: app(2) project_effects_def replay_snoc)
    moreover have "\<forall>q \<in> set rows'. stored q" using assms(1,3) by (simp add: app(2) effect_ledger_def)
    ultimately have "effect_ledger tenant rows'" using app(1) by (simp add: effect_ledger_def)
    then have "admitted tenant resolve raw rows rows'"
      unfolding admitted_def
      using app(2) d(1-3) again \<open>project_effects rows' = Inr book'\<close> by blast
    then show ?thesis using d(6) by blast
  qed simp
qed

lemma stored_row_of:
  "list_all (\<lambda>n. n \<noteq> ''seq'' \<and> n \<noteq> ''prev'') (map fst ms) \<Longrightarrow> stored (row_of ms)"
  by (simp add: stored_def unchained_row_of)

lemma stored_intent [simp]: "stored (intent_row sha256 tenant uuid q started refs stamp)"
  unfolding intent_row_def by (rule stored_row_of) simp

section \<open>Operations\<close>

lemma operation_of_Inr:
  assumes "effect_ledger tenant rows" "operation_of tenant i rows = Inr op" "project_effects rows = Inr book"
  obtains s where "i = JStr s" "map_of (eb_operations book) s = Some op" "op_sound s op"
    "map fst (eo_binding op) = EFFECT_BINDING_FIELDS"
proof -
  obtain s where s: "i = JStr s" "map_of (eb_operations book) s = Some op"
    using assms by (auto simp: operation_of_def bindR_Inr_iff decode_path_records_Inr_iff
        split: json.splits option.splits)
  have sound: "book_sound rows book"
    using effects.replay_invar [of tenant rows True book] assms by (simp add: effect_ledger_def project_effects_def)
  then have "op_sound s op" "op_traced (eb_records book) op" using s(2) by (auto simp: book_sound_def)
  moreover from this(2) obtain a where "binding_of a = eo_binding op" by (auto simp: op_traced_def)
  then have "map fst (eo_binding op) = map fst (binding_of a)" by simp
  then have "map fst (eo_binding op) = EFFECT_BINDING_FIELDS" by (simp add: binding_of_def comp_def)
  ultimately show ?thesis using s by (intro that)
qed

lemma stored_lifecycle:
  assumes "map fst (eo_binding op) = EFFECT_BINDING_FIELDS"
    and "list_all (\<lambda>n. n \<noteq> ''seq'' \<and> n \<noteq> ''prev'') (map fst rest)"
  shows "stored (lifecycle_row tenant kind pre uuid op now rest)"
  unfolding lifecycle_row_def by (rule stored_row_of) (use assms in \<open>simp add: EFFECT_BINDING_FIELDS_def\<close>)

datatype effect_op =
    Intend effect_request intent_input
  | Dispatch string json json json int
  | Acknowledge string json json int
  | Report string bool json negative_report int
  | Reconcile string reconciliation_request reconciliation_result int
  | Compensate json json json confirm_input
  | Testify string json int

fun exec_effect_op :: "(string \<Rightarrow> string) \<Rightarrow> string \<Rightarrow> effect_op \<Rightarrow> json list \<Rightarrow> json list" where
  "exec_effect_op sha256 tenant (Intend q i) rows = outcome_rows rows (effect_intent sha256 tenant q i rows)"
| "exec_effect_op sha256 tenant (Dispatch uuid i adapter digest now) rows =
     outcome_rows rows (effect_dispatched tenant uuid i adapter digest now rows)"
| "exec_effect_op sha256 tenant (Acknowledge uuid i digest now) rows =
     outcome_rows rows (effect_acknowledged tenant uuid i digest now rows)"
| "exec_effect_op sha256 tenant (Report uuid failed i report now) rows =
     outcome_rows rows (negative_outcome tenant uuid failed i report now rows)"
| "exec_effect_op sha256 tenant (Reconcile uuid req result now) rows =
     outcome_rows rows (append_reconciliation tenant uuid req result now rows)"
| "exec_effect_op sha256 tenant (Compensate i plan plan_digest inp) rows =
     snd (compensation_confirm sha256 tenant i plan plan_digest inp rows)"
| "exec_effect_op sha256 tenant (Testify uuid i now) rows =
     outcome_rows rows (compensation_executed tenant uuid i now rows)"

fun exec_effect_ops :: "(string \<Rightarrow> string) \<Rightarrow> string \<Rightarrow> effect_op list \<Rightarrow> json list \<Rightarrow> json list" where
  "exec_effect_ops sha256 tenant [] rows = rows"
| "exec_effect_ops sha256 tenant (op # ops) rows =
     exec_effect_ops sha256 tenant ops (exec_effect_op sha256 tenant op rows)"

section \<open>Operations as writes\<close>

text \<open>A write is one admitted row; an intent has been compared with the reservations of a context that the
  run ledger gave for its run.\<close>

type_synonym run_context = "json \<Rightarrow> intent_context \<Rightarrow> bool"

definition reserved_by :: "intent_context \<Rightarrow> effect_book \<Rightarrow> json \<Rightarrow> bool" where
  "reserved_by cx book r \<longleftrightarrow>
     \<not> over_reserved cx (add_spend (aggregate_claims (claims_of (member_of r ''run_id'') book))
         (spend_table (member_of r ''budget_claim'')))"

definition effect_write :: "string \<Rightarrow> run_context \<Rightarrow> json list \<Rightarrow> json list \<Rightarrow> bool" where
  "effect_write tenant given rows rows' \<longleftrightarrow>
     (\<exists>raw book book'. rows' = rows @ [raw] \<and> effect_ledger tenant rows' \<and>
        project_effects rows = Inr book \<and> effect_apply True book raw = Inr book' \<and>
        project_effects rows' = Inr book' \<and>
        (is_kind ''effect_intent'' raw \<longrightarrow> (\<exists>cx. given (member_of raw ''run_id'') cx \<and> reserved_by cx book raw)))"

definition op_context :: "effect_op \<Rightarrow> run_context" where
  "op_context op run cx =
     (case op of
        Intend q i \<Rightarrow> run = er_run q \<and> in_context i = Inr cx
      | Compensate i plan plan_digest inp \<Rightarrow>
          (\<exists>ms. plan = JObj ms \<and> run = er_run (plan_request ms)) \<and> cf_context inp = Inr cx
      | _ \<Rightarrow> False)"

lemma admitted_write:
  assumes "admitted tenant resolve raw rows rows'"
    and "\<And>book book'. project_effects rows = Inr book \<Longrightarrow> resolve book raw = Inr None \<Longrightarrow>
      is_kind ''effect_intent'' raw \<Longrightarrow> effect_apply True book raw = Inr book' \<Longrightarrow>
      \<exists>cx. given (member_of raw ''run_id'') cx \<and> reserved_by cx book raw"
  shows "effect_write tenant given rows rows'"
  using assms unfolding admitted_def effect_write_def by fastforce

lemma write_context:
  assumes "rows' = rows \<or> effect_write tenant given rows rows'"
    and "\<And>run cx. given run cx \<Longrightarrow> given' run cx"
  shows "rows' = rows \<or> effect_write tenant given' rows rows'"
  using assms unfolding effect_write_def by blast

lemma append_write:
  assumes "effect_ledger tenant rows" "append_controller tenant resolve raw rows = Inr (r, rows')" "stored raw"
    and "\<And>book book'. project_effects rows = Inr book \<Longrightarrow> resolve book raw = Inr None \<Longrightarrow>
      is_kind ''effect_intent'' raw \<Longrightarrow> effect_apply True book raw = Inr book' \<Longrightarrow>
      \<exists>cx. given (member_of raw ''run_id'') cx \<and> reserved_by cx book raw"
  shows "rows' = rows \<or> effect_write tenant given rows rows'"
proof (cases "rows' = rows")
  case False
  then have "admitted tenant resolve raw rows rows'" using append_controller_Inr [OF assms(1-3)] by blast
  then show ?thesis using assms(4) by (intro disjI2) (rule admitted_write)
qed simp

lemma row_of_kind: "is_kind k (row_of ms) \<longleftrightarrow> get_member ms ''kind'' = JStr k"
  by (simp add: is_kind_def record_kind_member)

lemma lifecycle_row_kind [simp]:
  "is_kind k (lifecycle_row tenant kind pre uuid op now rest) \<longleftrightarrow> k = kind"
  by (auto simp: lifecycle_row_def row_of_kind get_member_def)

lemma lifecycle_write:
  assumes "effect_ledger tenant rows" "operation_of tenant i rows = Inr op"
    and "append_controller tenant resolve (lifecycle_row tenant kind pre uuid op now rest) rows = Inr (r, rows')"
    and "list_all (\<lambda>n. n \<noteq> ''seq'' \<and> n \<noteq> ''prev'') (map fst rest)" "kind \<noteq> ''effect_intent''"
  shows "rows' = rows \<or> effect_write tenant given rows rows'"
proof -
  obtain book where "project_effects rows = Inr book" using assms(1) by (auto simp: effect_ledger_def)
  then have "map fst (eo_binding op) = EFFECT_BINDING_FIELDS"
    using operation_of_Inr [OF assms(1,2)] by metis
  then show ?thesis
    by (intro append_write [OF assms(1,3)] stored_lifecycle assms(4)) (use assms(5) in auto)
qed

lemma intent_row_members [simp]:
  "member_of (intent_row sha256 tenant uuid q started refs stamp) ''run_id'' = canon (er_run q)"
  "member_of (intent_row sha256 tenant uuid q started refs stamp) ''budget_claim'' = canon (er_claim q)"
  "member_of (intent_row sha256 tenant uuid q started refs stamp) ''operation_id'' =
     JStr (semantic_operation_id sha256 tenant (er_key q))"
  by (simp_all add: intent_row_def get_member_def)

lemma new_intent:
  assumes "effect_apply b book r = Inr book'" "stored r" "is_kind ''effect_intent'' r"
  shows "effect_row r" "map_of (eb_operations book) (text_at r ''operation_id'') = None"
    "map_of (eb_keys book) (text_at r ''idempotency_key'') = None"
  using effect_apply_stored [OF assms(1,2)] assms(3) by blast+

lemma check_approval_Inr: "check_approval required refs approved k = Inr x \<Longrightarrow> k = Inr x"
  by (auto simp: check_approval_def Let_def bindR_Inr_iff split: if_splits)

lemma intent_writes:
  assumes "effect_ledger tenant rows" "effect_intent sha256 tenant q i rows = Inr (r, rows')"
  shows "rows' = rows \<or> effect_write tenant (\<lambda>run cx. run = er_run q \<and> in_context i = Inr cx) rows rows'"
proof -
  obtain cx required where c: "in_context i = Inr cx"
      "check_approval required (in_refs i) (in_approved i)
        (guardR (consumption_mismatch cx (in_refs i) (er_digest q))
          (ProtocolRefusal ''effect_approval_consumption_mismatch'')
          (append_controller tenant (authorize_claim (in_policy i) cx (er_run q))
            (intent_row sha256 tenant (in_uuid i) (q\<lparr>er_fence := cx_fence cx\<rparr>) (JStr (cx_started cx)) (in_refs i)
              (iso_text (in_now i))) rows)) = Inr (r, rows')"
    using assms(2) by (auto simp: effect_intent_def bindR_Inr_iff)
  from check_approval_Inr [OF c(2)] have "append_controller tenant (authorize_claim (in_policy i) cx (er_run q))
      (intent_row sha256 tenant (in_uuid i) (q\<lparr>er_fence := cx_fence cx\<rparr>) (JStr (cx_started cx)) (in_refs i)
        (iso_text (in_now i))) rows = Inr (r, rows')" by simp
  then show ?thesis
  proof (rule append_write [OF assms(1)])
    let ?raw = "intent_row sha256 tenant (in_uuid i) (q\<lparr>er_fence := cx_fence cx\<rparr>) (JStr (cx_started cx)) (in_refs i)
        (iso_text (in_now i))"
    show "stored ?raw" by simp
    fix book book'
    assume "authorize_claim (in_policy i) cx (er_run q) book ?raw = Inr None" "is_kind ''effect_intent'' ?raw"
      and applied: "effect_apply True book ?raw = Inr book'"
    then have "effect_row ?raw" using new_intent(1) [OF applied] stored_intent by blast
    then have "canon (er_run q) = er_run q" by (auto simp: effect_row_def)
    then have "reserved_by cx book ?raw"
      using \<open>authorize_claim (in_policy i) cx (er_run q) book ?raw = Inr None\<close>
      by (simp add: authorize_claim_def reserved_by_def bindR_Inr_iff Let_def split: if_split_asm)
    then show "\<exists>cx. (member_of ?raw ''run_id'' = er_run q \<and> in_context i = Inr cx) \<and> reserved_by cx book ?raw"
      using c(1) \<open>canon (er_run q) = er_run q\<close> by auto
  qed
qed

lemma no_other_claims:
  assumes "book_sound rows book" "map_of (eb_operations book) s = None"
  shows "filter (\<lambda>(j, op). bound op ''operation_id'' \<noteq> JStr s) (claims_of run book) = claims_of run book"
proof (rule filter_True, safe)
  fix j op
  assume "(j, op) \<in> set (claims_of run book)" and same: "bound op ''operation_id'' = JStr s"
  then have "map_of (eb_operations book) j = Some op"
    using assms(1) by (auto simp: claims_of_def book_sound_def)
  then have "op_sound j op" using assms(1) by (simp add: book_sound_def)
  with same have "j = s" by (simp add: op_sound_def)
  with \<open>map_of (eb_operations book) j = Some op\<close> assms(2) show False by simp
qed

lemma compensation_checks_Inr:
  assumes "compensation_checks sha256 tenant i plan plan_digest inp rows = Inr (op, cx, table)"
  shows "operation_of tenant i rows = Inr op" "cf_context inp = Inr cx"
    "table = spend_dict (spend_table (get_member plan ''budget_claim''))"
    "get_member plan ''compensation_operation_id'' = JStr (semantic_operation_id sha256 tenant (get_member plan ''idempotency_key''))"
  using assms
  by (auto simp: compensation_checks_def reason_check_def plan_request_def Let_def bindR_Inr_iff
      dest!: check_approval_Inr)

lemma propose_writes:
  assumes "effect_ledger tenant rows" "operation_of tenant i rows = Inr op"
    and "compensation_propose tenant op plan plan_digest inp rows = Inr (r, rows')"
  shows "rows' = rows \<or> effect_write tenant given rows rows'"
proof (cases "eo_compensation op = Comp_none")
  case True
  then have "append_controller tenant no_resolver
      (proposal_row tenant (fst (cf_uuids inp)) op plan plan_digest (cf_refs inp) (cf_now inp)) rows = Inr (r, rows')"
    using assms(3) by (simp add: compensation_propose_def)
  then show ?thesis
    unfolding proposal_row_def by (rule lifecycle_write [OF assms(1,2)]) simp_all
next
  case False
  then show ?thesis using assms(3) by (auto simp: compensation_propose_def split: if_splits option.splits)
qed

lemma compensating_intent_writes:
  assumes "effect_ledger tenant rows"
    and "append_controller tenant
        (authorize_compensation cx (spend_dict (spend_table (er_claim q))) (er_run q)
          (JStr (semantic_operation_id sha256 tenant (er_key q))))
        (intent_row sha256 tenant uuid (q\<lparr>er_fence := fence\<rparr>) started refs stamp) rows = Inr (r, rows')"
  shows "rows' = rows \<or> effect_write tenant (\<lambda>run c. run = er_run q \<and> c = cx) rows rows'"
proof (rule append_write [OF assms])
  let ?raw = "intent_row sha256 tenant uuid (q\<lparr>er_fence := fence\<rparr>) started refs stamp"
  let ?i = "semantic_operation_id sha256 tenant (er_key q)"
  show "stored ?raw" by simp
  fix book book'
  assume book: "project_effects rows = Inr book" and kind: "is_kind ''effect_intent'' ?raw"
    and checked: "authorize_compensation cx (spend_dict (spend_table (er_claim q))) (er_run q) (JStr ?i) book ?raw = Inr None"
    and applied: "effect_apply True book ?raw = Inr book'"
  have sound: "book_sound rows book"
    using effects.replay_invar [of tenant rows True book] assms(1) book
    by (simp add: effect_ledger_def project_effects_def)
  note new = new_intent [OF applied stored_intent kind]
  have "text_at ?raw ''operation_id'' = ?i" by (simp add: text_at_def)
  with new(2) have "map_of (eb_operations book) ?i = None" by simp
  moreover have "canon (er_run q) = er_run q" using new(1) by (auto simp: effect_row_def)
  moreover have "spend_dict (spend_table (er_claim q)) = spend_table (er_claim q)"
    using new(1) by (intro spend_dict_distinct) (simp add: effect_row_def table_sound_def)
  ultimately have "reserved_by cx book ?raw"
    using checked no_other_claims [OF sound, of ?i "er_run q"]
    by (auto simp: authorize_compensation_def reserved_by_def Let_def split: if_splits)
  then show "\<exists>c. (member_of ?raw ''run_id'' = er_run q \<and> c = cx) \<and> reserved_by c book ?raw"
    using \<open>canon (er_run q) = er_run q\<close> by simp
qed

abbreviation writes :: "string \<Rightarrow> run_context \<Rightarrow> json list \<Rightarrow> json list \<Rightarrow> bool" where
  "writes tenant given \<equiv> (effect_write tenant given)\<^sup>*\<^sup>*"

lemma writes_one: "rows' = rows \<or> effect_write tenant given rows rows' \<Longrightarrow> writes tenant given rows rows'"
  by auto

lemma writes_ledger: "writes tenant given rows rows' \<Longrightarrow> effect_ledger tenant rows \<Longrightarrow> effect_ledger tenant rows'"
  by (induction rule: rtranclp_induct) (auto simp: effect_write_def)

lemma confirm_writes:
  assumes "effect_ledger tenant rows"
  shows "writes tenant (op_context (Compensate i value plan_digest inp)) rows
    (snd (compensation_confirm sha256 tenant i value plan_digest inp rows))"
proof (cases "\<exists>plan op cx table. value = JObj plan \<and>
    compensation_checks sha256 tenant i plan plan_digest inp rows = Inr (op, cx, table) \<and>
    key_conflict tenant plan rows = Inr False")
  case False
  then have "snd (compensation_confirm sha256 tenant i value plan_digest inp rows) = rows"
    by (auto simp: compensation_confirm_def split: json.split sum.split)
  then show ?thesis by simp
next
  case True
  then obtain plan op cx table where c: "value = JObj plan"
      "compensation_checks sha256 tenant i plan plan_digest inp rows = Inr (op, cx, table)"
      "key_conflict tenant plan rows = Inr False" by blast
  note k = compensation_checks_Inr [OF c(2)]
  let ?given = "op_context (Compensate i value plan_digest inp)"
  let ?propose = "compensation_propose tenant op plan plan_digest inp rows"
  let ?intend = "append_controller tenant
      (authorize_compensation cx table (er_run (plan_request plan)) (get_member plan ''compensation_operation_id''))
      (intent_row sha256 tenant (snd (cf_uuids inp)) ((plan_request plan)\<lparr>er_fence := cx_fence cx\<rparr>)
        (JStr (cx_started cx)) (cf_refs inp) (iso_text (cf_now inp)))"
  have shape: "snd (compensation_confirm sha256 tenant i value plan_digest inp rows) =
      (case ?propose of Inl e \<Rightarrow> rows | Inr (proposal, rows1) \<Rightarrow> outcome_rows rows1 (?intend rows1))"
    by (simp add: c compensation_confirm_def bindA_def readA_def ledger_write_def outcome_rows_def split: sum.split prod.split)
  show ?thesis
  proof (cases ?propose)
    case (Inl e)
    then show ?thesis by (simp add: shape)
  next
    case (Inr p)
    obtain proposal rows1 where p: "p = (proposal, rows1)" by (cases p)
    have first: "writes tenant ?given rows rows1"
      by (rule writes_one, rule propose_writes [OF assms k(1)]) (use Inr p in simp)
    then have ledger: "effect_ledger tenant rows1" by (rule writes_ledger [OF _ assms])
    have "rows2 = rows1 \<or> effect_write tenant ?given rows1 rows2" if "?intend rows1 = Inr (r, rows2)" for r rows2
    proof -
      have "rows2 = rows1 \<or> effect_write tenant (\<lambda>run c. run = er_run (plan_request plan) \<and> c = cx) rows1 rows2"
        by (rule compensating_intent_writes [OF ledger, of cx "plan_request plan" sha256])
           (use that k(3,4) in \<open>simp add: plan_request_def\<close>)
      then show ?thesis by (rule write_context) (simp add: op_context_def c(1) k(2))
    qed
    then have "writes tenant ?given rows1 (outcome_rows rows1 (?intend rows1))"
      by (auto simp: outcome_rows_def split: sum.split intro: writes_one)
    with first show ?thesis by (simp add: shape Inr p)
  qed
qed

lemma negative_writes:
  assumes "effect_ledger tenant rows" "negative_outcome tenant uuid failed i report now rows = Inr (r, rows')"
  shows "rows' = rows \<or> effect_write tenant given rows rows'"
proof -
  obtain op where "operation_of tenant i rows = Inr op" "append_controller tenant no_resolver
         (lifecycle_row tenant (if failed then ''effect_failed'' else ''effect_unknown'')
           (if failed then ''effect-failed-'' else ''effect-unknown-'') uuid op now
           [(''effect_intent_id'', JStr (eo_intent op)),
            (''effect_dispatched_id'', optional_text (eo_dispatch op)), (''reason_code'', ng_reason report),
            (if failed then ''failure_evidence_digest'' else ''unknown_evidence_digest'', ng_digest report),
            (''spend_status'', ng_status report), (''measured_spend'', ng_measured report),
            (if failed then ''failed_at_testimony'' else ''unknown_at_testimony'', JStr (iso_text now))]) rows =
      Inr (r, rows')"
    using assms(2) by (auto simp: negative_outcome_def bindR_Inr_iff)
  then show ?thesis by (rule lifecycle_write [OF assms(1)]) simp_all
qed

lemma exec_effect_op_writes:
  assumes "effect_ledger tenant rows"
  shows "writes tenant (op_context op) rows (exec_effect_op sha256 tenant op rows)"
proof -
  have intend: "writes tenant (op_context (Intend q i)) rows rows'" if "effect_intent sha256 tenant q i rows = Inr (r, rows')" for q i r rows'
    by (rule writes_one, rule write_context, rule intent_writes [OF assms that]) (simp add: op_context_def)
  note one = intend writes_one [OF negative_writes [OF assms]] writes_one [OF lifecycle_write [OF assms]]
    confirm_writes [OF assms]
  show ?thesis
    by (cases op)
      (auto simp: outcome_rows_def effect_dispatched_def effect_acknowledged_def append_reconciliation_def
         compensation_executed_def bindR_Inr_iff split: sum.split intro: one)
qed

lemma exec_effect_op_ledger: "effect_ledger tenant rows \<Longrightarrow> effect_ledger tenant (exec_effect_op sha256 tenant op rows)"
  using exec_effect_op_writes writes_ledger by blast

text \<open>What every write keeps, every history keeps.\<close>

lemma exec_effect_ops_keep:
  assumes "\<And>op rows rows'. op \<in> set ops \<Longrightarrow> effect_ledger tenant rows \<Longrightarrow> P rows \<Longrightarrow>
      effect_write tenant (op_context op) rows rows' \<Longrightarrow> P rows'"
    and "effect_ledger tenant rows" "P rows"
  shows "effect_ledger tenant (exec_effect_ops sha256 tenant ops rows) \<and> P (exec_effect_ops sha256 tenant ops rows)"
  using assms
proof (induction ops arbitrary: rows)
  case (Cons op ops)
  have "effect_ledger tenant rows' \<and> P rows'" if "writes tenant (op_context op) rows rows'" for rows'
    using that
  proof (induction rule: rtranclp_induct)
    case base
    then show ?case using Cons.prems(2,3) by simp
  next
    case (step rows1 rows2)
    then show ?case using Cons.prems(1) [of op rows1 rows2] by (auto simp: effect_write_def)
  qed
  note one = this [OF exec_effect_op_writes [OF Cons.prems(2)]]
  show ?case unfolding exec_effect_ops.simps
    by (rule Cons.IH [OF Cons.prems(1) conjunct1 [OF one] conjunct2 [OF one]]) simp_all
qed simp

lemma exec_effect_ops_ledger: "effect_ledger tenant rows \<Longrightarrow> effect_ledger tenant (exec_effect_ops sha256 tenant ops rows)"
  using exec_effect_ops_keep [of ops tenant "\<lambda>_. True"] by simp

end
