(* ===== verification/Effect_Budget.thy ===== *)
theory Effect_Budget
  imports Effect_History
begin

text \<open>
  The budget of a run: sums of tables, the claims and the measured spend of the operations of a run, and
  what a write of the effect ledger adds to them.
\<close>

section \<open>Sums of tables\<close>

definition row_sum :: "string \<Rightarrow> (string \<times> int) list \<Rightarrow> int" where
  "row_sum b t = sum_list (map snd (filter (\<lambda>(c, n). c = b) t))"

lemma row_sum_simps [simp]:
  "row_sum b [] = 0" "row_sum b ((c, n) # t) = (if c = b then n else 0) + row_sum b t"
  by (simp_all add: row_sum_def)

lemma amount_update: "amount_of (AList.update c n s) b = (if b = c then n else amount_of s b)"
  by (simp add: amount_of_def)

lemma amount_add_spend [simp]: "amount_of (add_spend s t) b = amount_of s b + row_sum b t"
  by (induction s t rule: add_spend.induct) (auto simp: amount_update)

lemma amount_foldl_add: "amount_of (foldl add_spend s ts) b = amount_of s b + sum_list (map (row_sum b) ts)"
  by (induction ts arbitrary: s) simp_all

lemma amount_aggregate: "amount_of (aggregate_claims ops) b = sum_list (map (\<lambda>(i, op). row_sum b (claim_of op)) ops)"
  unfolding aggregate_claims_def amount_foldl_add by (simp add: comp_def split_def) (simp add: amount_of_def)

lemma row_sum_absent: "b \<notin> fst ` set t \<Longrightarrow> row_sum b t = 0"
  by (induction t) auto

lemma row_sum_distinct: "distinct (map fst t) \<Longrightarrow> row_sum b t = amount_of t b"
  by (induction t) (auto simp: amount_of_def row_sum_absent)

lemma row_sum_nonneg: "\<forall>(c, n) \<in> set t. 0 \<le> n \<Longrightarrow> 0 \<le> row_sum b t"
  by (induction t) auto

text \<open>Measured rows within a claim sum to no more than the claim.\<close>

lemma row_sum_within:
  assumes "table_sound m" "table_sound c" "\<forall>(b, a) \<in> set m. \<exists>limit. map_of c b = Some limit \<and> a \<le> limit"
  shows "row_sum b m \<le> row_sum b c"
proof (cases "map_of m b")
  case None
  then have "row_sum b m = 0" by (simp add: row_sum_absent map_of_eq_None_iff)
  then show ?thesis using row_sum_nonneg [of c b] assms(2) by (auto simp: table_sound_def)
next
  case (Some a)
  then obtain limit where "map_of c b = Some limit" "a \<le> limit"
    using assms(3) map_of_SomeD [OF Some] by fast
  then show ?thesis
    using Some assms(1,2) by (simp add: table_sound_def row_sum_distinct amount_of_def)
qed

text \<open>The bound of \<open>over_reserved\<close> holds for every budget of a table.\<close>

lemma not_over_reserved:
  assumes "\<not> over_reserved cx t"
  shows "amount_of t b \<le> max 0 (reservation cx b)"
proof (cases "map_of t b")
  case (Some a)
  then have "(b, a) \<in> set t" by (rule map_of_SomeD)
  then show ?thesis using assms Some by (auto simp: over_reserved_def list_ex_iff amount_of_def)
qed (simp add: amount_of_def)

section \<open>The sums of a run\<close>

definition run_claims :: "effect_book \<Rightarrow> json \<Rightarrow> string \<Rightarrow> int" where
  "run_claims book run b = amount_of (aggregate_claims (claims_of run book)) b"

definition measured_of :: "effect_operation \<Rightarrow> (string \<times> int) list" where
  "measured_of op = (case eo_measured op of None \<Rightarrow> [] | Some m \<Rightarrow> m)"

definition run_spend :: "effect_book \<Rightarrow> json \<Rightarrow> string \<Rightarrow> int" where
  "run_spend book run b = sum_list (map (\<lambda>(i, op). row_sum b (measured_of op)) (claims_of run book))"

lemma run_spend_claims:
  assumes "book_sound rows book"
  shows "run_spend book run b \<le> run_claims book run b"
  unfolding run_spend_def run_claims_def amount_aggregate
proof (rule sum_list_mono, clarify)
  fix i op
  assume "(i, op) \<in> set (claims_of run book)"
  then have "map_of (eb_operations book) i = Some op" using assms by (auto simp: claims_of_def book_sound_def)
  then have "op_sound i op" using assms by (simp add: book_sound_def)
  then show "row_sum b (measured_of op) \<le> row_sum b (claim_of op)"
    using row_sum_within [of _ "claim_of op" b] row_sum_nonneg [of "claim_of op" b]
    by (cases "eo_measured op") (auto simp: op_sound_def measured_of_def table_sound_def)
qed

text \<open>A lifecycle row leaves the claims; an intent adds its own.\<close>

lemma claims_update:
  assumes "map_of xs i = Some x" "eo_binding y = eo_binding x"
  shows "map (\<lambda>(i, op). row_sum b (claim_of op)) (filter (\<lambda>(i, op). bound op ''run_id'' = run) (AList.update i y xs)) =
    map (\<lambda>(i, op). row_sum b (claim_of op)) (filter (\<lambda>(i, op). bound op ''run_id'' = run) xs)"
proof -
  have same: "bound y n = bound x n" "claim_of y = claim_of x" for n using claim_bound [OF assms(2)] by simp_all
  show ?thesis
    using assms(1)
  proof (induction xs)
    case (Cons p xs)
    obtain j z where p: "p = (j, z)" by (cases p)
    show ?case
    proof (cases "j = i")
      case True
      then have "z = x" using Cons.prems p by simp
      then show ?thesis using True p by (simp add: same)
    next
      case False
      then show ?thesis using Cons p by simp
    qed
  qed simp
qed

lemma run_claims_write:
  assumes "effect_apply True book raw = Inr book'" "stored raw" "book_sound rows book"
  shows "run_claims book' run b = run_claims book run b +
    (if is_kind ''effect_intent'' raw \<and> member_of raw ''run_id'' = run
     then row_sum b (spend_table (member_of raw ''budget_claim'')) else 0)"
  using assms(1,2)
proof (cases rule: effect_apply_stored)
  case intent
  have "canon (member_of raw n) = member_of raw n" for n
    using assms(2) by (rule stored_member)
  then show ?thesis
    using intent by (simp add: run_claims_def amount_aggregate claims_of_def claim_of_def bound_new EFFECT_BINDING_FIELDS_def)
next
  case (lifecycle op op')
  have "op_sound (text_at raw ''operation_id'') op" using assms(3) lifecycle(2) by (auto simp: book_sound_def)
  then have "eo_binding op' = eo_binding op"
    using lifecycle_cases [OF lifecycle(4)] by (auto simp: op_sound_def same_core_def moved_by_def)
  then show ?thesis
    using lifecycle(1,5) claims_update [OF lifecycle(2)] by (simp add: run_claims_def amount_aggregate claims_of_def)
qed

end
