(* ===== verification/Effect_Properties.thy ===== *)
theory Effect_Properties
  imports Effect_Budget
begin

text \<open>
  Properties of the effect ledger over every history of controller operations: one intent per
  operation, evidence before a confirmation, budgets within the reservations of the run, final
  confirmations, retries, and the evidence that acceptance reads.
\<close>

section \<open>Intents\<close>

definition intents :: "json list \<Rightarrow> json list" where
  "intents rows = filter (is_kind ''effect_intent'') rows"

lemma book_intents:
  assumes "project_effects rows = Inr book" "\<forall>r \<in> set rows. stored r"
  shows "map fst (eb_operations book) = map (\<lambda>r. text_at r ''operation_id'') (intents rows) \<and>
    map fst (eb_keys book) = map (\<lambda>r. text_at r ''idempotency_key'') (intents rows) \<and>
    distinct (map fst (eb_operations book)) \<and> distinct (map fst (eb_keys book))"
  using assms
proof (induction rows arbitrary: book rule: rev_induct)
  case Nil
  then show ?case by (auto simp: project_effects_def empty_effects_def intents_def)
next
  case (snoc r rows)
  from snoc.prems(1) obtain old where old: "project_effects rows = Inr old" "effect_apply True old r = Inr book"
    by (auto simp: project_effects_def replay_snoc bindR_Inr_iff)
  have "stored r" "\<forall>r \<in> set rows. stored r" using snoc.prems(2) by simp_all
  note IH = snoc.IH [OF old(1) this(2)]
  from old(2) \<open>stored r\<close> show ?case
  proof (cases rule: effect_apply_stored)
    case intent
    have "distinct (map fst (eb_operations old))" "distinct (map fst (eb_keys old))" using IH by blast+
    then have "distinct (map fst (eb_operations book))" "distinct (map fst (eb_keys book))"
      using intent(3-6) by (simp_all add: map_of_eq_None_iff)
    then show ?thesis using IH intent(2,5,6) by (simp add: intents_def)
  next
    case (lifecycle op op')
    have "map fst (eb_operations book) = map fst (eb_operations old)"
      using map_of_key [OF lifecycle(2)] by (simp add: lifecycle(5) keys_update)
    then show ?thesis using IH lifecycle(1,6) by (auto simp: intents_def)
  qed
qed

text \<open>C12: an effect is intended once.  Whatever operations callers run against the effect ledger, in
  whatever order and with whatever arguments, the ledger reads and projects again, and no two of its
  intents share an idempotency key or an operation id.\<close>

theorem effects_intended_once:
  "\<exists>book. decode_path_records (effect_contract tenant) (exec_effect_ops sha256 tenant ops []) =
      Inr (exec_effect_ops sha256 tenant ops []) \<and>
    project_effects (exec_effect_ops sha256 tenant ops []) = Inr book \<and>
    distinct (map (\<lambda>r. text_at r ''idempotency_key'') (intents (exec_effect_ops sha256 tenant ops []))) \<and>
    distinct (map (\<lambda>r. text_at r ''operation_id'') (intents (exec_effect_ops sha256 tenant ops [])))"
proof -
  let ?rows = "exec_effect_ops sha256 tenant ops []"
  have ledger: "effect_ledger tenant ?rows" by (rule exec_effect_ops_ledger) simp
  then obtain book where book: "project_effects ?rows = Inr book" by (auto simp: effect_ledger_def)
  moreover have "decode_path_records (effect_contract tenant) ?rows = Inr ?rows"
    using ledger by (simp add: effect_ledger_def decode_path_records_Inr_iff)
  moreover note book_intents [OF book]
  ultimately show ?thesis using ledger by (auto simp: effect_ledger_def)
qed

section \<open>Evidence\<close>

text \<open>C5: a confirmed effect has its evidence.  In every ledger the controller operations leave, an
  operation that the projection calls confirmed has its intent, its dispatch and the confirming row in
  the ledger, in this order and with one immutable binding; the confirmation is the one the intent
  expected, and the measured spend names the budgets of the claim and stays within it.\<close>

theorem confirmed_effect_evidence:
  assumes "project_effects (exec_effect_ops sha256 tenant ops []) = Inr book"
    and "map_of (eb_operations book) i = Some op" "confirmed_state (eo_state op)"
  shows "\<exists>a d c m. subseq [a, d, c] (exec_effect_ops sha256 tenant ops []) \<and>
    is_kind ''effect_intent'' a \<and> is_kind ''effect_dispatched'' d \<and> is_confirmation c \<and>
    member_of a ''operation_id'' = JStr i \<and> binding_of d = binding_of a \<and> binding_of c = binding_of a \<and>
    canon (member_of c ''confirmation'') = member_of a ''expected_confirmation'' \<and>
    eo_measured op = Some m \<and> fst ` set m = fst ` set (spend_table (member_of a ''budget_claim'')) \<and>
    (\<forall>(b, n) \<in> set m. 0 \<le> n \<and> (\<exists>limit. map_of (spend_table (member_of a ''budget_claim'')) b = Some limit \<and> n \<le> limit))"
proof -
  let ?rows = "exec_effect_ops sha256 tenant ops []"
  have ledger: "effect_ledger tenant ?rows" by (rule exec_effect_ops_ledger) simp
  obtain book' where "project_effects ?rows = Inr book'" "book_sound ?rows book'" "eb_records book' = ?rows"
    by (rule effect_ledger_book [OF ledger])
  with assms(1) have sound: "book_sound ?rows book" "eb_records book = ?rows" by simp_all
  then have op: "op_sound i op" "op_traced ?rows op" using assms(2) by (auto simp: book_sound_def)
  have open_: "eo_state op \<noteq> Intended" "terminal_state (eo_state op)" using assms(3) by auto
  obtain a d where rows: "a \<in> set ?rows" "is_kind ''effect_intent'' a" "binding_of a = eo_binding op"
      "is_kind ''effect_dispatched'' d" "binding_of d = eo_binding op"
      "subseq [a, d, eo_current op] ?rows" "binding_of (eo_current op) = eo_binding op"
    using op(2) open_ unfolding op_traced_def by blast
  have "stored a" using ledger rows(1) by (simp add: effect_ledger_def)
  then have canonical: "canon (member_of a n) = member_of a n" for n
    by (rule stored_member)
  have mem: "bound op n = member_of a n" if "n \<in> set EFFECT_BINDING_FIELDS" for n
    using bound_new [OF that, of book a] canonical rows(3) by (simp add: bound_def new_operation_def)
  obtain m where m: "eo_measured op = Some m" "fst ` set m = fst ` set (claim_of op)"
    using op(1) assms(3) by (auto simp: op_sound_def)
  have "claim_of op = spend_table (member_of a ''budget_claim'')"
    by (simp add: claim_of_def mem EFFECT_BINDING_FIELDS_def)
  moreover have "table_sound m" "\<forall>(b, n) \<in> set m. \<exists>limit. map_of (claim_of op) b = Some limit \<and> n \<le> limit"
      "is_confirmation (eo_current op)"
      "canon (member_of (eo_current op) ''confirmation'') = bound op ''expected_confirmation''"
      "bound op ''operation_id'' = JStr i"
    using op(1) m(1) assms(3) by (auto simp: op_sound_def)
  ultimately show ?thesis
    using rows m mem [of "''operation_id''"] mem [of "''expected_confirmation''"]
    by (intro exI [of _ a] exI [of _ d] exI [of _ "eo_current op"] exI [of _ m])
       (auto simp: EFFECT_BINDING_FIELDS_def table_sound_def)
qed

section \<open>Budgets\<close>

text \<open>C2: the spend of a run stays within its reservation.  When the contexts that the run ledger gave
  for a run reserve at most \<open>limit\<close> of a budget, then in every ledger the controller operations leave the
  claims of the run's operations on this budget, compensations included, sum to at most the limit, and
  what its operations have measured sums to at most their claims.\<close>

theorem run_budget_bounded:
  assumes "\<forall>op \<in> set ops. \<forall>cx. op_context op (JStr run) cx \<longrightarrow> reservation cx b \<le> limit"
    and "project_effects (exec_effect_ops sha256 tenant ops []) = Inr book"
  shows "run_spend book (JStr run) b \<le> run_claims book (JStr run) b \<and> run_claims book (JStr run) b \<le> max 0 limit"
proof -
  let ?rows = "exec_effect_ops sha256 tenant ops []"
  let ?P = "\<lambda>rows. \<exists>book. project_effects rows = Inr book \<and> run_claims book (JStr run) b \<le> max 0 limit"
  have "effect_ledger tenant ?rows \<and> ?P ?rows"
  proof (rule exec_effect_ops_keep)
    show "?P []" by (auto simp: project_effects_def empty_effects_def run_claims_def claims_of_def amount_aggregate)
    fix op rows rows'
    assume op: "op \<in> set ops" and ledger: "effect_ledger tenant rows" and P: "?P rows"
      and wrote: "effect_write tenant (op_context op) rows rows'"
    obtain raw old new where w: "rows' = rows @ [raw]" "effect_ledger tenant rows'" "project_effects rows = Inr old"
        "effect_apply True old raw = Inr new" "project_effects rows' = Inr new"
        "is_kind ''effect_intent'' raw \<longrightarrow> (\<exists>cx. op_context op (member_of raw ''run_id'') cx \<and> reserved_by cx old raw)"
      using wrote by (auto simp: effect_write_def)
    obtain old' where "project_effects rows = Inr old'" "book_sound rows old'"
      by (rule effect_ledger_book [OF ledger]) 
    then have sound: "book_sound rows old" using w(3) by simp
    have "stored raw" using w(1,2) by (simp add: effect_ledger_def)
    note step = run_claims_write [OF w(4) this sound, of "JStr run" b]
    have "run_claims new (JStr run) b \<le> max 0 limit"
    proof (cases "is_kind ''effect_intent'' raw \<and> member_of raw ''run_id'' = JStr run")
      case True
      then obtain cx where cx: "op_context op (JStr run) cx" "reserved_by cx old raw" using w(6) by auto
      have "run_claims new (JStr run) b \<le> max 0 (reservation cx b)"
        using not_over_reserved [of cx _ b] cx(2) True step
        by (fastforce simp: reserved_by_def run_claims_def)
      moreover have "reservation cx b \<le> limit" using assms(1) op cx(1) by blast
      ultimately show ?thesis by simp
    next
      case False
      then show ?thesis using step P w(3) by auto
    qed
    then show "?P rows'" using w(5) by blast
  qed simp
  moreover from this obtain book' where "project_effects ?rows = Inr book'" "book_sound ?rows book'"
    using effect_ledger_book by blast
  ultimately show ?thesis using assms(2) run_spend_claims by auto
qed

end
