(* ===== verification/Effect_Retry.thy ===== *)
theory Effect_Retry
  imports Effect_Properties
begin

text \<open>
  Later histories: operations move through the machine of \<open>effect_move\<close>, a confirmation is final, and
  a repeated intent answers with the row of the first call.
\<close>

section \<open>Later states of an operation\<close>

definition advances :: "effect_operation \<Rightarrow> effect_operation \<Rightarrow> bool" where
  "advances op op' \<longleftrightarrow>
     eo_binding op' = eo_binding op \<and> eo_intent op' = eo_intent op \<and>
     effect_move\<^sup>*\<^sup>* (eo_state op) (eo_state op') \<and> (confirmed_state (eo_state op) \<longrightarrow> same_core op op')"

lemma advances_refl: "advances op op"
  by (simp add: advances_def same_core_def)

lemma advances_trans: "advances p q \<Longrightarrow> advances q r \<Longrightarrow> advances p r"
  by (auto simp: advances_def same_core_def)

lemma core_or_move_advances: "same_core op op' \<or> moved_by r op op' \<Longrightarrow> advances op op'"
  using confirmed_is_final by (auto simp: advances_def same_core_def moved_by_def)

definition follows :: "effect_book \<Rightarrow> effect_book \<Rightarrow> bool" where
  "follows book book' \<longleftrightarrow>
     (\<forall>i op. map_of (eb_operations book) i = Some op \<longrightarrow>
        (\<exists>op'. map_of (eb_operations book') i = Some op' \<and> advances op op'))"

lemma follows_refl: "follows book book"
  by (auto simp: follows_def advances_refl)

lemma follows_trans: "follows a b \<Longrightarrow> follows b c \<Longrightarrow> follows a c"
  unfolding follows_def using advances_trans by blast

lemma effect_apply_follows:
  assumes "effect_apply b book raw = Inr book'" "stored raw" "book_sound rows book"
  shows "follows book book'"
  using assms(1,2)
proof (cases rule: effect_apply_stored)
  case intent
  have "map_of (eb_operations book') j = Some op" if "map_of (eb_operations book) j = Some op" for j op
    using that intent(3) by (auto simp: intent(5) map_add_def split: option.split)
  then show ?thesis unfolding follows_def using advances_refl by blast
next
  case (lifecycle op op')
  have "op_sound (text_at raw ''operation_id'') op" using assms(3) lifecycle(2) by (auto simp: book_sound_def)
  then have "eo_primary op \<noteq> None \<longleftrightarrow> terminal_state (eo_state op)" by (simp add: op_sound_def)
  then have "advances op op'" by (rule core_or_move_advances [OF lifecycle_cases [OF lifecycle(4)]])
  then show ?thesis using lifecycle(2) by (auto simp: follows_def lifecycle(5) advances_refl)
qed

text \<open>C13: the ledger refines the machine of one operation.  Whatever the controller does after a history,
  the rows that are there stay, every operation keeps its binding and its intent and reaches its later
  state by steps of the abstract machine \<open>effect_move\<close>, and an operation that was confirmed keeps its
  state, its evidence and its measured spend for ever.\<close>

theorem effect_history_refines:
  assumes "project_effects (exec_effect_ops sha256 tenant ops []) = Inr book"
    and "map_of (eb_operations book) i = Some op"
  shows "\<exists>rest book' op'.
    exec_effect_ops sha256 tenant more_ops (exec_effect_ops sha256 tenant ops []) =
      exec_effect_ops sha256 tenant ops [] @ rest \<and>
    project_effects (exec_effect_ops sha256 tenant more_ops (exec_effect_ops sha256 tenant ops [])) = Inr book' \<and>
    map_of (eb_operations book') i = Some op' \<and> eo_binding op' = eo_binding op \<and> eo_intent op' = eo_intent op \<and>
    effect_move\<^sup>*\<^sup>* (eo_state op) (eo_state op') \<and>
    (confirmed_state (eo_state op) \<longrightarrow>
       eo_state op' = eo_state op \<and> eo_current op' = eo_current op \<and> eo_measured op' = eo_measured op)"
proof -
  let ?rows = "exec_effect_ops sha256 tenant ops []"
  let ?P = "\<lambda>rows. \<exists>rest book'. rows = ?rows @ rest \<and> project_effects rows = Inr book' \<and> follows book book'"
  have start: "effect_ledger tenant ?rows" by (rule exec_effect_ops_ledger) simp
  have "?P (exec_effect_ops sha256 tenant more_ops ?rows)"
  proof (rule conjunct2 [OF exec_effect_ops_keep [OF _ start]])
    show "?P ?rows" using assms(1) follows_refl by auto
    fix p rows rows'
    assume ledger: "effect_ledger tenant rows" and P: "?P rows" and wrote: "effect_write tenant (op_context p) rows rows'"
    obtain raw old new where w: "rows' = rows @ [raw]" "effect_ledger tenant rows'" "project_effects rows = Inr old"
        "effect_apply True old raw = Inr new" "project_effects rows' = Inr new"
      using wrote unfolding effect_write_def by blast
    obtain old' where "project_effects rows = Inr old'" "book_sound rows old'"
      by (rule effect_ledger_book [OF ledger])
    then have "book_sound rows old" using w(3) by simp
    moreover have "stored raw" using w(1,2) by (simp add: effect_ledger_def)
    ultimately have "follows old new" using effect_apply_follows [OF w(4)] by blast
    then show "?P rows'" using P w(1,3,5) follows_trans by (metis append_assoc Inr_inject)
  qed
  then show ?thesis using assms(2) unfolding follows_def advances_def same_core_def by blast
qed

section \<open>Retries\<close>

lemma effect_keys_distinct:
  assumes "project_effects rows = Inr book"
  shows "eb_seen book = rev (map record_key rows) \<and> distinct (map record_key rows)"
  using assms
proof (induction rows arbitrary: book rule: rev_induct)
  case (snoc r rows)
  from snoc.prems obtain old where old: "project_effects rows = Inr old" "effect_apply True old r = Inr book"
    by (auto simp: project_effects_def replay_snoc bindR_Inr_iff)
  have "record_key r \<notin> set (eb_seen old) \<and> eb_seen book = record_key r # eb_seen old"
    by (rule effect_apply_Inr [OF old(2)]) auto
  then show ?case using snoc.IH [OF old(1)] by auto
qed (auto simp: project_effects_def empty_effects_def)

lemma find_distinct_key:
  "distinct (map f xs) \<Longrightarrow> x \<in> set xs \<Longrightarrow> f x = k \<Longrightarrow> List.find (\<lambda>y. f y = k) xs = Some x"
  by (induction xs) (auto simp: image_iff)

lemma book_keys_text:
  assumes "effect_ledger tenant rows" "project_effects rows = Inr book" "r \<in> set rows" "is_kind ''effect_intent'' r"
  shows "member_of r ''idempotency_key'' = JStr (text_at r ''idempotency_key'')"
  using assms
proof (induction rows arbitrary: book rule: rev_induct)
  case (snoc q rows)
  obtain old where old: "project_effects rows = Inr old" "effect_apply True old q = Inr book"
    using snoc.prems(2) by (auto simp: project_effects_def replay_snoc bindR_Inr_iff)
  have ledger: "effect_ledger tenant rows"
    using snoc.prems(1) old(1) readable_snocD by (auto simp: effect_ledger_def)
  show ?case
  proof (cases "r = q")
    case True
    have "stored q" using snoc.prems(1) by (simp add: effect_ledger_def)
    then have "effect_row q" using new_intent(1) [OF old(2)] snoc.prems(4) True by blast
    then show ?thesis using True by (simp add: effect_row_def)
  next
    case False
    then show ?thesis using snoc.IH [OF ledger old(1)] snoc.prems(3,4) by simp
  qed
qed simp

text \<open>The intent of an operation is the row its binding and its key lead to.\<close>

lemma book_finds_intent:
  assumes "effect_ledger tenant rows" "project_effects rows = Inr book" "r \<in> set rows" "is_kind ''effect_intent'' r"
  obtains op where "map_of (eb_operations book) (text_at r ''operation_id'') = Some op"
    "map_of (eb_keys book) (text_at r ''idempotency_key'') = Some (text_at r ''operation_id'')"
    "eo_binding op = binding_of r" "List.find (\<lambda>item. record_key item = eo_intent op) rows = Some r"
proof -
  let ?i = "text_at r ''operation_id''"
  obtain book' where "project_effects rows = Inr book'" "book_sound rows book'" "eb_records book' = rows"
    by (rule effect_ledger_book [OF assms(1)])
  with assms(2) have sound: "book_sound rows book" "eb_records book = rows" by simp_all
  have stored: "\<forall>r \<in> set rows. stored r" using assms(1) by (simp add: effect_ledger_def)
  note book = book_intents [OF assms(2) stored]
  have r: "r \<in> set (intents rows)" using assms(3,4) by (simp add: intents_def)
  have ids: "map fst (eb_operations book) = map (\<lambda>r. text_at r ''operation_id'') (intents rows)"
    "distinct (map fst (eb_operations book))" using book by blast+
  have "?i \<in> set (map fst (eb_operations book))" unfolding ids(1) using r by simp
  then obtain op where op: "map_of (eb_operations book) ?i = Some op"
    by (cases "map_of (eb_operations book) ?i") (auto simp: map_of_eq_None_iff)
  then have o: "op_sound ?i op" "op_traced rows op" using sound by (auto simp: book_sound_def)
  then obtain a where a: "a \<in> set rows" "is_kind ''effect_intent'' a" "record_key a = eo_intent op" "binding_of a = eo_binding op"
    unfolding op_traced_def by blast
  have mem: "bound op n = member_of a n" if "n \<in> set EFFECT_BINDING_FIELDS" for n
  proof -
    have "canon (member_of a n) = member_of a n" using stored a(1) by (simp add: stored_member)
    then show ?thesis using bound_new [OF that, of book a] a(4) by (simp add: bound_def new_operation_def)
  qed
  have "text_at a ''operation_id'' = ?i"
    using o(1) mem [of "''operation_id''"] by (simp add: op_sound_def text_at_def EFFECT_BINDING_FIELDS_def)
  moreover have "distinct (map (\<lambda>r. text_at r ''operation_id'') (intents rows))" using ids(2) unfolding ids(1) .
  moreover have "a \<in> set (intents rows)" using a by (simp add: intents_def)
  ultimately have "a = r" using r by (auto simp: distinct_map dest: inj_onD)
  have find: "List.find (\<lambda>item. record_key item = eo_intent op) rows = Some r"
    by (rule find_distinct_key [OF conjunct2 [OF effect_keys_distinct [OF assms(2)]] assms(3)])
       (use a(3) \<open>a = r\<close> in simp)
  have "has_key op (text_at r ''idempotency_key'')"
    using mem [of "''idempotency_key''"] book_keys_text [OF assms(1-4)] \<open>a = r\<close>
    by (simp add: has_key_def EFFECT_BINDING_FIELDS_def)
  then have "map_of (eb_keys book) (text_at r ''idempotency_key'') = Some ?i"
    using sound(1) op unfolding book_sound_def by blast
  then show ?thesis using that op a(4) find \<open>a = r\<close> by simp
qed

abbreviation intended_row :: "(string \<Rightarrow> string) \<Rightarrow> string \<Rightarrow> effect_request \<Rightarrow> intent_input \<Rightarrow> intent_context \<Rightarrow> json" where
  "intended_row sha256 tenant q i cx \<equiv>
     intent_row sha256 tenant (in_uuid i) (q\<lparr>er_fence := cx_fence cx\<rparr>) (JStr (cx_started cx)) (in_refs i)
       (iso_text (in_now i))"

lemma record_id_field: "record_id r = member_of r ''id''"
  by (simp add: record_id_def member_of_def split: json.split)

lemma intent_row_facts:
  "record_key (intent_row sha256 tenant uuid q started refs stamp) = ''effect-intent-'' @ uuid"
  "is_kind k (intent_row sha256 tenant uuid q started refs stamp) \<longleftrightarrow> k = ''effect_intent''"
  "binding_of (intent_row sha256 tenant uuid q started refs stamp) =
     binding_of (intent_row sha256 tenant uuid' q started refs stamp')"
  by (auto simp: intent_row_def row_of_kind record_key_def get_member_def binding_of_def record_id_field
      EFFECT_BINDING_FIELDS_def)

lemma check_approval_passes:
  "check_approval required refs approved k = Inr x \<Longrightarrow> check_approval required refs approved k' = k'"
  by (auto simp: check_approval_def Let_def bindR_Inr_iff split: if_splits)

text \<open>An intent that returned leaves its guards open for a repeated call.\<close>

lemma effect_intent_open:
  assumes "effect_intent sha256 tenant q i rows = Inr x"
  obtains cx where "in_context i = Inr cx"
    "\<forall>uuid now' rows'. effect_intent sha256 tenant q (i\<lparr>in_uuid := uuid, in_now := now'\<rparr>) rows' =
       append_controller tenant (authorize_claim (in_policy i) cx (er_run q))
         (intended_row sha256 tenant q (i\<lparr>in_uuid := uuid, in_now := now'\<rparr>) cx) rows'"
    "append_controller tenant (authorize_claim (in_policy i) cx (er_run q)) (intended_row sha256 tenant q i cx) rows = Inr x"
proof -
  obtain cx required where cx: "in_context i = Inr cx" "cx_policy_digest cx = ep_digest (in_policy i)"
      "effect_approval_required (in_policy i) (er_risk q) = Inr required"
      "check_approval required (in_refs i) (in_approved i)
        (guardR (consumption_mismatch cx (in_refs i) (er_digest q))
          (ProtocolRefusal ''effect_approval_consumption_mismatch'')
          (append_controller tenant (authorize_claim (in_policy i) cx (er_run q)) (intended_row sha256 tenant q i cx) rows)) = Inr x"
    using assms by (auto simp: effect_intent_def bindR_Inr_iff)
  note passes = check_approval_passes [OF cx(4)]
  have "\<not> consumption_mismatch cx (in_refs i) (er_digest q)" using cx(4) unfolding passes by simp
  then show ?thesis
    using that [OF cx(1)] cx(4) by (simp add: effect_intent_def cx(1-3) passes)
qed

lemma authorize_never_resolves: "authorize_claim policy cx run book r \<noteq> Inr (Some x)"
  by (auto simp: authorize_claim_def Let_def bindR_Inr_iff)

lemma retried_row_intent:
  assumes "effect_ledger tenant rows" "project_effects rows = Inr book" "stored raw" "is_kind ''effect_intent'' raw"
    and "retried_row book rows raw = Inr (Some r)"
  shows "r \<in> set rows \<and> is_kind ''effect_intent'' r \<and> binding_of r = binding_of raw"
proof (cases "List.find (\<lambda>prior. record_key prior = record_key raw) rows")
  case (Some prior)
  then have "prior = r" "canon prior = raw" using assms(5) by (simp_all add: retried_row_def split: if_split_asm)
  moreover have "prior \<in> set rows" using Some by (auto simp: find_Some_iff)
  moreover have "canon prior = prior" using assms(1) \<open>prior \<in> set rows\<close> stored_canon by (simp add: effect_ledger_def)
  ultimately show ?thesis using assms(4) by simp
next
  case None
  obtain j op where op: "map_of (eb_operations book) j = Some op" "eo_binding op = binding_of raw"
      "List.find (\<lambda>item. record_key item = eo_intent op) rows = Some r"
    using assms(4,5) None by (auto simp: retried_row_def retried_intent_def split: option.splits if_splits)
  obtain book' where "project_effects rows = Inr book'" "book_sound rows book'" "eb_records book' = rows"
    by (rule effect_ledger_book [OF assms(1)])
  with assms(2) op(1) have "op_traced rows op" by (auto simp: book_sound_def)
  then obtain a where a: "a \<in> set rows" "is_kind ''effect_intent'' a" "record_key a = eo_intent op" "binding_of a = eo_binding op"
    unfolding op_traced_def by blast
  have "List.find (\<lambda>item. record_key item = eo_intent op) rows = Some a"
    by (rule find_distinct_key [OF conjunct2 [OF effect_keys_distinct [OF assms(2)]] a(1,3)])
  with op(2,3) a show ?thesis by simp
qed

lemma effect_intent_row:
  assumes "effect_ledger tenant rows" "stored raw" "is_kind ''effect_intent'' raw" "\<And>book x. resolve book raw \<noteq> Inr (Some x)"
    and "append_controller tenant resolve raw rows = Inr (r, rows')"
  shows "r \<in> set rows' \<and> is_kind ''effect_intent'' r \<and> binding_of r = binding_of raw"
proof (cases "rows' = rows")
  case False
  then have "r = raw" "rows' = rows @ [raw]"
    using append_controller_Inr [OF assms(1,5,2)] by (auto simp: admitted_def)
  then show ?thesis using assms(3) by simp
next
  case True
  obtain v where v: "validate_record SPECS tenant EFFECT_KINDS False raw = Inr v"
      "transact (effect_contract tenant) rows (effect_decide resolve (canon v)) = Inr (r, rows')"
    using assms(5) by (auto simp: append_controller_def bindR_Inr_iff)
  have raw: "canon v = raw" using validate_unchained [OF v(1)] assms(2) by (simp add: stored_def)
  have decided: "effect_decide resolve raw rows = Inr (r, None)"
    using v(2) True unfolding raw transact_Inr_iff append_record_Inr_iff by simp
  obtain book retried where book: "project_effects rows = Inr book" "retried_row book rows raw = Inr retried"
      "(case retried of Some prior \<Rightarrow> Inr (prior, None)
        | None \<Rightarrow> bindR (resolve book raw) (\<lambda>resolved. case resolved of Some prior \<Rightarrow> Inr (prior, None)
            | None \<Rightarrow> bindR (effect_apply False book raw) (\<lambda>_. Inr (raw, Some raw)))) = Inr (r, None)"
    using decided unfolding effect_decide_def bindR_Inr_iff by blast
  have "retried = Some r"
    using book(3) assms(4) [of book] by (cases retried) (auto simp: bindR_Inr_iff split: option.splits)
  then show ?thesis using retried_row_intent [OF assms(1) book(1) assms(2,3)] book(2) True by simp
qed

text \<open>A repeated intent finds the first one, by its key.\<close>

lemma intent_repeated:
  assumes "effect_ledger tenant rows" "r \<in> set rows" "is_kind ''effect_intent'' r"
    and "validate_record SPECS tenant EFFECT_KINDS False raw = Inr v" "stored raw" "is_kind ''effect_intent'' raw"
    and "record_key raw \<notin> record_key ` set rows" "text_at raw ''idempotency_key'' = text_at r ''idempotency_key''"
  shows "append_controller tenant resolve raw rows =
    (if binding_of raw = binding_of r then Inr (r, rows) else Inl (ProtocolRefusal ''effect_idempotency_conflict''))"
proof -
  obtain book where book: "project_effects rows = Inr book" using assms(1) by (auto simp: effect_ledger_def)
  obtain op where op: "map_of (eb_operations book) (text_at r ''operation_id'') = Some op"
    "map_of (eb_keys book) (text_at r ''idempotency_key'') = Some (text_at r ''operation_id'')"
    "eo_binding op = binding_of r" "List.find (\<lambda>item. record_key item = eo_intent op) rows = Some r"
    by (rule book_finds_intent [OF assms(1) book assms(2,3)])
  have "List.find (\<lambda>prior. record_key prior = record_key raw) rows = None"
    using assms(7) by (auto simp: find_None_iff image_iff)
  then have retried: "retried_row book rows raw =
      (if binding_of raw = binding_of r then Inr (Some r) else Inl (ProtocolRefusal ''effect_idempotency_conflict''))"
    using assms(6,8) op by (auto simp: retried_row_def retried_intent_def)
  have raw: "canon v = raw" using validate_unchained [OF assms(4)] assms(5) by (simp add: stored_def)
  have "decode_path_records (effect_contract tenant) rows = Inr rows"
    using assms(1) by (simp add: effect_ledger_def decode_path_records_Inr_iff)
  then show ?thesis
    by (simp add: append_controller_def assms(4) raw transact_def effect_decide_def book retried)
qed

lemma text_at_binding: "binding_of a = binding_of b \<Longrightarrow> n \<in> set EFFECT_BINDING_FIELDS \<Longrightarrow> canon (member_of a n) = canon (member_of b n)"
  by (simp add: binding_of_def)

lemma same_intent:
  assumes "effect_ledger tenant rows" "r \<in> set rows" "r' \<in> set rows"
    and "is_kind ''effect_intent'' r" "is_kind ''effect_intent'' r'"
    and "text_at r' ''idempotency_key'' = text_at r ''idempotency_key''"
  shows "r' = r"
proof -
  obtain book where book: "project_effects rows = Inr book" using assms(1) by (auto simp: effect_ledger_def)
  note found = book_finds_intent [OF assms(1) book]
  obtain op where op: "map_of (eb_operations book) (text_at r ''operation_id'') = Some op"
    "map_of (eb_keys book) (text_at r ''idempotency_key'') = Some (text_at r ''operation_id'')"
    "List.find (\<lambda>item. record_key item = eo_intent op) rows = Some r"
    by (rule found [OF assms(2,4)])
  obtain op' where op': "map_of (eb_operations book) (text_at r' ''operation_id'') = Some op'"
    "map_of (eb_keys book) (text_at r' ''idempotency_key'') = Some (text_at r' ''operation_id'')"
    "List.find (\<lambda>item. record_key item = eo_intent op') rows = Some r'"
    by (rule found [OF assms(3,5)])
  have "text_at r' ''operation_id'' = text_at r ''operation_id''" using op(2) op'(2) assms(6) by simp
  then have "op' = op" using op(1) op'(1) by simp
  then show ?thesis using op(3) op'(3) by simp
qed

text \<open>An intent under a key that has one is answered with it or refused.\<close>

lemma intent_same_key:
  assumes "effect_ledger tenant rows" "r \<in> set rows" "is_kind ''effect_intent'' r"
    and "stored raw" "is_kind ''effect_intent'' raw" "\<And>book x. resolve book raw \<noteq> Inr (Some x)"
    and "text_at raw ''idempotency_key'' = text_at r ''idempotency_key''"
    and "append_controller tenant resolve raw rows = Inr (r', rows')"
  shows "r' = r \<and> rows' = rows"
proof -
  have r': "r' \<in> set rows'" "is_kind ''effect_intent'' r'" "binding_of r' = binding_of raw"
    using effect_intent_row [OF assms(1,4,5,6,8)] by simp_all
  show ?thesis
  proof (cases "rows' = rows")
    case True
    have "canon (member_of r' ''idempotency_key'') = canon (member_of raw ''idempotency_key'')"
      by (rule text_at_binding [OF r'(3)]) (simp add: EFFECT_BINDING_FIELDS_def)
    then have "text_at r' ''idempotency_key'' = text_at r ''idempotency_key''"
      using assms(1,4,7) r'(1) True by (simp add: text_at_def effect_ledger_def stored_member)
    then show ?thesis using same_intent [OF assms(1,2) _ assms(3) r'(2)] r'(1) True by simp
  next
    case False
    then have new: "rows' = rows @ [raw]" "effect_ledger tenant rows'"
      using append_controller_Inr [OF assms(1,8,4)] by (auto simp: admitted_def)
    then have "raw = r" using same_intent [OF new(2) _ _ assms(3,5,7)] assms(2) by simp
    moreover obtain book where "project_effects rows' = Inr book" using new(2) by (auto simp: effect_ledger_def)
    then have "distinct (map record_key rows')" using effect_keys_distinct by blast
    ultimately show ?thesis using new(1) assms(2) by simp
  qed
qed

lemma intended_key: "member_of (intended_row sha256 tenant q i cx) ''idempotency_key'' = canon (er_key q)"
  by (simp add: intent_row_def get_member_def)

text \<open>The row an intent returned, after any further operations.\<close>

lemma intended_later:
  assumes "effect_intent sha256 tenant q i (exec_effect_ops sha256 tenant ops []) = Inr (r, rows1)"
    and "rows2 = exec_effect_ops sha256 tenant more_ops rows1" "in_context i = Inr cx"
  shows "effect_ledger tenant rows2" "r \<in> set rows2" "is_kind ''effect_intent'' r"
    and "binding_of r = binding_of (intended_row sha256 tenant q i cx)"
    and "er_key q' = er_key q \<Longrightarrow>
      text_at (intended_row sha256 tenant q' j cx') ''idempotency_key'' = text_at r ''idempotency_key''"
proof -
  let ?rows = "exec_effect_ops sha256 tenant ops []"
  have ledger: "effect_ledger tenant ?rows" by (rule exec_effect_ops_ledger) simp
  have written: "append_controller tenant (authorize_claim (in_policy i) cx (er_run q))
      (intended_row sha256 tenant q i cx) ?rows = Inr (r, rows1)"
    by (rule effect_intent_open [OF assms(1)]) (use assms(3) in simp)
  note row = effect_intent_row [OF ledger stored_intent _ authorize_never_resolves written]
  show r: "is_kind ''effect_intent'' r" "binding_of r = binding_of (intended_row sha256 tenant q i cx)"
    using row by (simp_all add: intent_row_facts(2))
  have "effect_ledger tenant rows1"
    using exec_effect_op_ledger [OF ledger, of sha256 "Intend q i"] assms(1) by (simp add: outcome_rows_def)
  then have "effect_ledger tenant rows2 \<and> r \<in> set rows2"
    unfolding assms(2)
    by (rule exec_effect_ops_keep [rotated]) (use row in \<open>auto simp: effect_write_def intent_row_facts(2)\<close>)
  then show later: "effect_ledger tenant rows2" "r \<in> set rows2" by simp_all
  have "canon (member_of r ''idempotency_key'') = canon (member_of (intended_row sha256 tenant q i cx) ''idempotency_key'')"
    by (rule text_at_binding [OF r(2)]) (simp add: EFFECT_BINDING_FIELDS_def)
  then have "member_of r ''idempotency_key'' = canon (er_key q)"
    using later by (simp add: effect_ledger_def stored_member intended_key)
  then show "text_at (intended_row sha256 tenant q' j cx') ''idempotency_key'' = text_at r ''idempotency_key''"
    if "er_key q' = er_key q"
    using that by (simp add: text_at_def intended_key)
qed

text \<open>C39: a retried intent never becomes a second one.  When a call of \<open>intent\<close> has returned a row, then
  after any further operations every call under the same key, with whatever request, run facts, policy,
  approval, clock and UUID, is refused or returns that row, and leaves the ledger as it is.  It returns
  it when the same request is made on the same run facts, policy and approval, with a UUID that is new
  and a clock that gives a valid row; that a run which has moved on refuses is part of the run facts.\<close>

theorem intent_retry_returns_first:
  assumes "effect_intent sha256 tenant q i (exec_effect_ops sha256 tenant ops []) = Inr (r, rows1)"
    and "rows2 = exec_effect_ops sha256 tenant more_ops rows1" "in_context i = Inr cx"
  shows "(er_key p = er_key q \<longrightarrow>
      (\<exists>e. effect_intent sha256 tenant p j rows2 = Inl e) \<or> effect_intent sha256 tenant p j rows2 = Inr (r, rows2)) \<and>
    (''effect-intent-'' @ uuid \<notin> record_key ` set rows2 \<and>
     validate_record SPECS tenant EFFECT_KINDS False
       (intent_row sha256 tenant uuid (q\<lparr>er_fence := cx_fence cx\<rparr>) (JStr (cx_started cx)) (in_refs i)
         (iso_text now')) = Inr v \<longrightarrow>
     effect_intent sha256 tenant q (i\<lparr>in_uuid := uuid, in_now := now'\<rparr>) rows2 = Inr (r, rows2))"
proof (intro conjI impI)
  note later = intended_later [OF assms]
  show "(\<exists>e. effect_intent sha256 tenant p j rows2 = Inl e) \<or> effect_intent sha256 tenant p j rows2 = Inr (r, rows2)"
    if "er_key p = er_key q"
  proof (cases "effect_intent sha256 tenant p j rows2")
    case (Inr x)
    obtain r' rows' where x: "x = (r', rows')" by (cases x)
    obtain c where "append_controller tenant (authorize_claim (in_policy j) c (er_run p))
        (intended_row sha256 tenant p j c) rows2 = Inr (r', rows')"
      by (rule effect_intent_open [OF Inr [unfolded x]])
    then have "r' = r \<and> rows' = rows2"
      by (rule intent_same_key [OF later(1-3) stored_intent _ authorize_never_resolves, rotated 2])
        (simp_all add: later(5) that intent_row_facts(2))
    then show ?thesis using Inr x by simp
  qed simp
  assume new: "''effect-intent-'' @ uuid \<notin> record_key ` set rows2 \<and>
     validate_record SPECS tenant EFFECT_KINDS False
       (intent_row sha256 tenant uuid (q\<lparr>er_fence := cx_fence cx\<rparr>) (JStr (cx_started cx)) (in_refs i)
         (iso_text now')) = Inr v"
  let ?j = "i\<lparr>in_uuid := uuid, in_now := now'\<rparr>"
  have "binding_of (intended_row sha256 tenant q ?j cx) = binding_of r"
    unfolding later(4) by (simp add: intent_row_facts(3) [of _ _ uuid])
  moreover have "text_at (intended_row sha256 tenant q ?j cx) ''idempotency_key'' = text_at r ''idempotency_key''"
    by (rule later(5)) (rule refl)
  ultimately have "append_controller tenant (authorize_claim (in_policy i) cx (er_run q))
      (intended_row sha256 tenant q ?j cx) rows2 = Inr (r, rows2)"
    using intent_repeated [OF later(1-3) _ stored_intent] new by (simp add: intent_row_facts)
  moreover have "effect_intent sha256 tenant q ?j rows2 =
      append_controller tenant (authorize_claim (in_policy i) cx (er_run q)) (intended_row sha256 tenant q ?j cx) rows2"
    by (rule effect_intent_open [OF assms(1)]) (use assms(3) in \<open>metis Inr_inject\<close>)
  ultimately show "effect_intent sha256 tenant q ?j rows2 = Inr (r, rows2)" by simp
qed

end
