(* ===== verification/Effect_Evidence.thy ===== *)
theory Effect_Evidence
  imports Effect_Budget
begin

text \<open>
  What \<open>acceptance_evidence\<close> tells of the operations of an attempt: it never raises on a projected
  ledger, it is clear of blockers exactly when every operation is confirmed and no compensation is
  missing, and its totals are the measured spend of the confirmed operations.
\<close>

lemma row_sum_sort [simp]: "row_sum b (sort t) = row_sum b t"
proof -
  have "row_sum b xs = row_sum b ys" if "mset xs = mset ys" for xs ys :: "(string \<times> int) list"
  proof -
    have "mset (map snd (filter (\<lambda>(c, n). c = b) xs)) = mset (map snd (filter (\<lambda>(c, n). c = b) ys))"
      unfolding mset_map mset_filter that ..
    then show ?thesis unfolding row_sum_def by (metis sum_mset_sum_list)
  qed
  then show ?thesis by (metis mset_sort)
qed

lemma sum_list_sort: "sum_list (map f (sort xs)) = sum_list (map (f :: string \<Rightarrow> int) xs)"
proof -
  have "sum_mset (mset (map f (sort xs))) = sum_mset (mset (map f xs))" unfolding mset_map mset_sort ..
  then show ?thesis unfolding sum_mset_sum_list .
qed

lemma distinct_add_spend [simp]: "distinct (map fst s) \<Longrightarrow> distinct (map fst (add_spend s t))"
  by (induction s t rule: add_spend.induct) (simp_all add: distinct_update)

definition pending_remedy :: "effect_book \<Rightarrow> effect_operation \<Rightarrow> bool" where
  "pending_remedy book op \<longleftrightarrow> eo_compensation op = Comp_proposed \<and> compensation_missing book op"

definition confirmed_sum :: "string \<Rightarrow> effect_operation \<Rightarrow> int" where
  "confirmed_sum b op = (if confirmed_state (eo_state op) then row_sum b (measured_of op) else 0)"

lemma evidence_step_sums:
  "es_blockers (evidence_step book i op sums) = [] \<longleftrightarrow>
     es_blockers sums = [] \<and> confirmed_state (eo_state op) \<and> \<not> pending_remedy book op"
  "amount_of (es_spend (evidence_step book i op sums)) b = amount_of (es_spend sums) b + confirmed_sum b op"
  "distinct (map fst (es_spend sums)) \<Longrightarrow> distinct (map fst (es_spend (evidence_step book i op sums)))"
  "set (es_incomplete (evidence_step book i op sums)) = set (es_incomplete sums) \<union>
     (if \<not> confirmed_state (eo_state op) \<and> eo_spend_status op \<noteq> JStr ''complete'' then {i} else {})"
  by (auto simp: evidence_step_def Let_def pending_remedy_def confirmed_sum_def measured_of_def)

lemma evidence_loop_sums:
  assumes "list_all (\<lambda>i. map_of (eb_operations book) i \<noteq> None) is" "distinct (map fst (es_spend sums))"
  shows "\<exists>sums'. evidence_loop book is sums = Inr sums' \<and> distinct (map fst (es_spend sums')) \<and>
    (es_blockers sums' = [] \<longleftrightarrow> es_blockers sums = [] \<and>
       list_all (\<lambda>i. \<forall>op. map_of (eb_operations book) i = Some op \<longrightarrow>
          confirmed_state (eo_state op) \<and> \<not> pending_remedy book op) is) \<and>
    (\<forall>b. amount_of (es_spend sums') b =
       amount_of (es_spend sums) b + sum_list (map (\<lambda>i. confirmed_sum b (the (map_of (eb_operations book) i))) is)) \<and>
    set (es_incomplete sums') = set (es_incomplete sums) \<union>
       {i \<in> set is. \<exists>op. map_of (eb_operations book) i = Some op \<and>
          \<not> confirmed_state (eo_state op) \<and> eo_spend_status op \<noteq> JStr ''complete''}"
  using assms
proof (induction "is" arbitrary: sums)
  case (Cons i "is")
  then obtain op where op: "map_of (eb_operations book) i = Some op" by auto
  have rest: "list_all (\<lambda>i. map_of (eb_operations book) i \<noteq> None) is" using Cons.prems(1) by simp
  note d = evidence_step_sums(3) [OF Cons.prems(2), of book i op]
  obtain sums' where s: "evidence_loop book is (evidence_step book i op sums) = Inr sums'"
    "distinct (map fst (es_spend sums'))"
    "es_blockers sums' = [] \<longleftrightarrow> es_blockers (evidence_step book i op sums) = [] \<and>
       list_all (\<lambda>i. \<forall>op. map_of (eb_operations book) i = Some op \<longrightarrow>
          confirmed_state (eo_state op) \<and> \<not> pending_remedy book op) is"
    "\<forall>b. amount_of (es_spend sums') b = amount_of (es_spend (evidence_step book i op sums)) b +
       sum_list (map (\<lambda>i. confirmed_sum b (the (map_of (eb_operations book) i))) is)"
    "set (es_incomplete sums') = set (es_incomplete (evidence_step book i op sums)) \<union>
       {i \<in> set is. \<exists>op. map_of (eb_operations book) i = Some op \<and>
          \<not> confirmed_state (eo_state op) \<and> eo_spend_status op \<noteq> JStr ''complete''}"
    using Cons.IH [OF rest d] by blast
  show ?case
    by (rule exI [of _ sums'])
       (use s op in \<open>auto simp: evidence_step_sums\<close>)
qed simp

lemma attempt_of_book:
  fixes run attempt i
  assumes "book_sound rows book"
  shows "attempt_operations book (run, attempt) =
      map fst (filter (\<lambda>(i, op). of_attempt run attempt op) (eb_operations book))"
    "i \<in> set (attempt_operations book (run, attempt)) \<longleftrightarrow>
       (\<exists>op. map_of (eb_operations book) i = Some op \<and> of_attempt run attempt op)"
proof -
  show attempt: "attempt_operations book (run, attempt) =
      map fst (filter (\<lambda>(i, op). of_attempt run attempt op) (eb_operations book))"
    using assms by (simp add: book_sound_def)
  have "distinct (map fst (eb_operations book))" using assms by (simp add: book_sound_def)
  then have "map_of (eb_operations book) i = Some op \<longleftrightarrow> (i, op) \<in> set (eb_operations book)" for op
    by (rule map_of_eq_Some_iff)
  then show "i \<in> set (attempt_operations book (run, attempt)) \<longleftrightarrow>
       (\<exists>op. map_of (eb_operations book) i = Some op \<and> of_attempt run attempt op)"
    unfolding attempt by force
qed

text \<open>C40: acceptance reads the effects of an attempt exactly.  On every ledger the controller operations
  leave, \<open>acceptance_evidence\<close> returns: its operations are those of the attempt in order, it is clear of
  blockers exactly when each of them is confirmed and none waits for the intent of a proposed
  compensation, and its total for a budget is what the confirmed operations of the attempt measured.\<close>

theorem acceptance_evidence_exact:
  assumes "project_effects (exec_effect_ops sha256 tenant ops []) = Inr book"
  shows "\<exists>ev. acceptance_evidence sha256 book run attempt = Inr ev \<and>
    sorted (ev_operations ev) \<and> distinct (ev_operations ev) \<and>
    set (ev_operations ev) = {i. \<exists>op. map_of (eb_operations book) i = Some op \<and> of_attempt run attempt op} \<and>
    (ev_blockers ev = [] \<longleftrightarrow>
       (\<forall>i op. map_of (eb_operations book) i = Some op \<and> of_attempt run attempt op \<longrightarrow>
          confirmed_state (eo_state op) \<and> \<not> pending_remedy book op)) \<and>
    (\<forall>b. amount_of (ev_measured ev) b =
       sum_list (map (\<lambda>(i, op). confirmed_sum b op)
         (filter (\<lambda>(i, op). of_attempt run attempt op) (eb_operations book))))"
proof -
  let ?rows = "exec_effect_ops sha256 tenant ops []" and ?ids = "attempt_operations book (run, attempt)"
  have ledger: "effect_ledger tenant ?rows" by (rule exec_effect_ops_ledger) simp
  obtain book' where "project_effects ?rows = Inr book'" "book_sound ?rows book'"
    by (rule effect_ledger_book [OF ledger])
  with assms have sound: "book_sound ?rows book" by simp
  note ids = attempt_of_book(1) [OF sound, of run attempt] attempt_of_book(2) [OF sound, of _ run attempt]
  have distinct: "distinct (map fst (eb_operations book))" using sound by (simp add: book_sound_def)
  then have "distinct ?ids" by (simp add: ids(1) distinct_map_filter)
  have all: "list_all (\<lambda>i. map_of (eb_operations book) i \<noteq> None) (sort ?ids)"
    using ids(2) by (auto simp: list_all_iff)
  obtain sums where s: "evidence_loop book (sort ?ids) \<lparr>es_rows = [], es_spend = [], es_blockers = [], es_incomplete = []\<rparr> = Inr sums"
    "distinct (map fst (es_spend sums))"
    "es_blockers sums = [] \<longleftrightarrow> list_all (\<lambda>i. \<forall>op. map_of (eb_operations book) i = Some op \<longrightarrow>
          confirmed_state (eo_state op) \<and> \<not> pending_remedy book op) (sort ?ids)"
    "\<forall>b. amount_of (es_spend sums) b = sum_list (map (\<lambda>i. confirmed_sum b (the (map_of (eb_operations book) i))) (sort ?ids))"
    using evidence_loop_sums [OF all, of "\<lparr>es_rows = [], es_spend = [], es_blockers = [], es_incomplete = []\<rparr>"]
    by (auto simp: amount_of_def)
  have total: "amount_of (sort (es_spend sums)) b =
      sum_list (map (\<lambda>(i, op). confirmed_sum b op) (filter (\<lambda>(i, op). of_attempt run attempt op) (eb_operations book)))" for b
  proof -
    have "amount_of (sort (es_spend sums)) b = amount_of (es_spend sums) b"
      using s(2) by (simp add: row_sum_distinct [symmetric] distinct_map)
    also have "\<dots> = sum_list (map (\<lambda>i. confirmed_sum b (the (map_of (eb_operations book) i))) ?ids)"
      using s(4) by (simp only: sum_list_sort)
    also have "\<dots> = sum_list (map (\<lambda>(i, op). confirmed_sum b op)
        (filter (\<lambda>(i, op). of_attempt run attempt op) (eb_operations book)))"
      unfolding ids(1) map_map
      by (intro arg_cong [of _ _ sum_list] map_cong refl) (use distinct in \<open>auto simp: map_of_is_SomeI\<close>)
    finally show ?thesis .
  qed
  have "es_blockers sums = [] \<longleftrightarrow> (\<forall>i op. map_of (eb_operations book) i = Some op \<and> of_attempt run attempt op \<longrightarrow>
      confirmed_state (eo_state op) \<and> \<not> pending_remedy book op)"
    unfolding s(3) list_all_iff set_sort by (auto simp: ids(2))
  then show ?thesis
    using s(1) ids(2) \<open>distinct ?ids\<close> total
    by (simp add: acceptance_evidence_def set_eq_iff Let_def)
qed

end
