(* ===== verification/Effect_Values.thy ===== *)
theory Effect_Values
  imports Effect_Retry Effect_Evidence Concrete_Values
begin

text \<open>
  The rows of a concrete effect, the update of a git reference: intended with a claim of five,
  dispatched, lost (\<open>effect_unknown\<close>) and reconciled as confirmed with a measured spend of three; that
  they are valid, and what each does to the projected book.
\<close>

definition ef_sha :: string where "ef_sha = replicate 64 (CHR ''a'')"

definition ef_hash :: "string \<Rightarrow> string" where "ef_hash bytes = ef_sha"

definition ef_operation :: string where "ef_operation = ''effect-op-aaaaaaaaaaaa7aaaaaaaaaaaaaaaaaaa''"

definition ef_target :: json where
  "ef_target = JObj [(''coordinate'', JStr ''refs/heads/main''), (''identity_digest'', JStr ef_sha), (''kind'', JStr ''git_ref'')]"

definition ef_confirmation :: json where
  "ef_confirmation = JObj [(''expected_digest'', JStr ef_sha), (''kind'', JStr ''git_ref_equals''), (''locator'', JStr ''refs/heads/main'')]"

definition ef_spend :: "int \<Rightarrow> json" where
  "ef_spend n = JArr [JObj [(''amount'', JInt n), (''budget_id'', JStr ''usd'')]]"

definition ef_binding :: members where
  "ef_binding =
    [(''operation_id'', JStr ef_operation),
     (''run_id'', JStr (''run-'' @ ex_uuid)),
     (''item_id'', JStr (''work-'' @ ex_uuid)),
     (''attempt_id'', JStr (''attempt-'' @ ex_uuid)),
     (''attempt_started_id'', JStr (''attempt-started-'' @ ex_uuid)),
     (''fence_token'', JStr ef_sha),
     (''effect_type'', JStr ''git_ref_update''),
     (''target'', ef_target),
     (''request_digest'', JStr ef_sha),
     (''idempotency_key'', JStr ''key''),
     (''expected_confirmation'', ef_confirmation),
     (''reconciliation_adapter'', JStr ''git_local''),
     (''risk_class'', JStr ''low''),
     (''budget_claim'', ef_spend 5)]"

definition ef_intent :: json where
  "ef_intent = JObj
     [(''approval_consumption_id'', JNull),
      (''approval_decision_id'', JNull),
      (''approval_request_id'', JNull),
      (''attempt_id'', JStr (''attempt-'' @ ex_uuid)),
      (''attempt_started_id'', JStr (''attempt-started-'' @ ex_uuid)),
      (''budget_claim'', ef_spend 5),
      (''effect_type'', JStr ''git_ref_update''),
      (''expected_confirmation'', ef_confirmation),
      (''fence_token'', JStr ef_sha),
      (''id'', JStr (''effect-intent-'' @ ex_uuid)),
      (''idempotency_key'', JStr ''key''),
      (''intended_at_testimony'', JStr ''2026-02-28T10:00:00.000Z''),
      (''item_id'', JStr (''work-'' @ ex_uuid)),
      (''kind'', JStr ''effect_intent''),
      (''operation_id'', JStr ef_operation),
      (''reconciliation_adapter'', JStr ''git_local''),
      (''request_digest'', JStr ef_sha),
      (''requested_by'', JStr ''worker''),
      (''risk_class'', JStr ''low''),
      (''run_id'', JStr (''run-'' @ ex_uuid)),
      (''schema_version'', JInt 1),
      (''target'', ef_target),
      (''tenant_id'', JStr ''acme''),
      (''timestamp'', JStr ''2026-02-28T10:00:00.000Z'')]"

definition ef_dispatched :: json where
  "ef_dispatched = JObj
     [(''attempt_id'', JStr (''attempt-'' @ ex_uuid)),
      (''attempt_started_id'', JStr (''attempt-started-'' @ ex_uuid)),
      (''budget_claim'', ef_spend 5),
      (''dispatch_adapter'', JStr ''git_local''),
      (''dispatch_evidence_digest'', JStr ef_sha),
      (''dispatched_at_testimony'', JStr ''2026-02-28T10:00:00.000Z''),
      (''effect_intent_id'', JStr (''effect-intent-'' @ ex_uuid)),
      (''effect_type'', JStr ''git_ref_update''),
      (''expected_confirmation'', ef_confirmation),
      (''fence_token'', JStr ef_sha),
      (''id'', JStr (''effect-dispatched-'' @ ex_uuid)),
      (''idempotency_key'', JStr ''key''),
      (''item_id'', JStr (''work-'' @ ex_uuid)),
      (''kind'', JStr ''effect_dispatched''),
      (''operation_id'', JStr ef_operation),
      (''reconciliation_adapter'', JStr ''git_local''),
      (''request_digest'', JStr ef_sha),
      (''risk_class'', JStr ''low''),
      (''run_id'', JStr (''run-'' @ ex_uuid)),
      (''schema_version'', JInt 1),
      (''target'', ef_target),
      (''tenant_id'', JStr ''acme''),
      (''timestamp'', JStr ''2026-02-28T10:00:00.000Z'')]"

definition ef_unknown :: json where
  "ef_unknown = JObj
     [(''attempt_id'', JStr (''attempt-'' @ ex_uuid)),
      (''attempt_started_id'', JStr (''attempt-started-'' @ ex_uuid)),
      (''budget_claim'', ef_spend 5),
      (''effect_dispatched_id'', JStr (''effect-dispatched-'' @ ex_uuid)),
      (''effect_intent_id'', JStr (''effect-intent-'' @ ex_uuid)),
      (''effect_type'', JStr ''git_ref_update''),
      (''expected_confirmation'', ef_confirmation),
      (''fence_token'', JStr ef_sha),
      (''id'', JStr (''effect-unknown-'' @ ex_uuid)),
      (''idempotency_key'', JStr ''key''),
      (''item_id'', JStr (''work-'' @ ex_uuid)),
      (''kind'', JStr ''effect_unknown''),
      (''measured_spend'', JNull),
      (''operation_id'', JStr ef_operation),
      (''reason_code'', JStr ''process_lost''),
      (''reconciliation_adapter'', JStr ''git_local''),
      (''request_digest'', JStr ef_sha),
      (''risk_class'', JStr ''low''),
      (''run_id'', JStr (''run-'' @ ex_uuid)),
      (''schema_version'', JInt 1),
      (''spend_status'', JStr ''unknown''),
      (''target'', ef_target),
      (''tenant_id'', JStr ''acme''),
      (''timestamp'', JStr ''2026-02-28T10:00:00.000Z''),
      (''unknown_at_testimony'', JStr ''2026-02-28T10:00:00.000Z''),
      (''unknown_evidence_digest'', JStr ef_sha)]"

definition ef_reconciled :: json where
  "ef_reconciled = JObj
     [(''attempt_id'', JStr (''attempt-'' @ ex_uuid)),
      (''attempt_started_id'', JStr (''attempt-started-'' @ ex_uuid)),
      (''budget_claim'', ef_spend 5),
      (''confirmation'', ef_confirmation),
      (''effect_intent_id'', JStr (''effect-intent-'' @ ex_uuid)),
      (''effect_type'', JStr ''git_ref_update''),
      (''expected_confirmation'', ef_confirmation),
      (''fence_token'', JStr ef_sha),
      (''id'', JStr (''effect-reconciled-'' @ ex_uuid)),
      (''idempotency_key'', JStr ''key''),
      (''item_id'', JStr (''work-'' @ ex_uuid)),
      (''kind'', JStr ''effect_reconciled''),
      (''measured_spend'', ef_spend 3),
      (''operation_id'', JStr ef_operation),
      (''prior_effect_evidence_id'', JStr (''effect-unknown-'' @ ex_uuid)),
      (''reconciled_at_testimony'', JStr ''2026-02-28T10:00:00.000Z''),
      (''reconciled_outcome'', JStr ''confirmed''),
      (''reconciliation_adapter'', JStr ''git_local''),
      (''reconciliation_evidence_digest'', JStr ef_sha),
      (''request_digest'', JStr ef_sha),
      (''risk_class'', JStr ''low''),
      (''run_id'', JStr (''run-'' @ ex_uuid)),
      (''schema_version'', JInt 1),
      (''spend_status'', JStr ''complete''),
      (''target'', ef_target),
      (''tenant_id'', JStr ''acme''),
      (''timestamp'', JStr ''2026-02-28T10:00:00.000Z'')]"
lemma ef_sha_ok: "is_sha256 ef_sha"
  by (simp add: ef_sha_def evaluate)

lemma ef_references:
  "is_record_id ''effect-op-'' ef_operation" "is_record_id ''run-'' (''run-'' @ ex_uuid)"
  "is_record_id ''work-'' (''work-'' @ ex_uuid)" "is_record_id ''attempt-'' (''attempt-'' @ ex_uuid)"
  "is_record_id ''attempt-started-'' (''attempt-started-'' @ ex_uuid)"
  "is_record_id ''effect-intent-'' (''effect-intent-'' @ ex_uuid)"
  "is_record_id ''effect-dispatched-'' (''effect-dispatched-'' @ ex_uuid)"
  "is_record_id ''effect-unknown-'' (''effect-unknown-'' @ ex_uuid)"
  "is_record_id ''effect-reconciled-'' (''effect-reconciled-'' @ ex_uuid)"
  by (simp_all add: ef_operation_def ex_uuid_def evaluate)

lemma ef_timestamp: "is_timestamp ''2026-02-28T10:00:00.000Z''"
  by (simp add: evaluate)

lemmas ef_facts = ef_sha_ok ef_timestamp ef_references [simplified]

lemmas effect_evaluate =
  lawful_checks_defs effect_specs effect_bodies effect_binding_def effect_target_def effect_confirmation_def
  check_object_def EFFECT_TARGET_BY_TYPE_def EFFECT_BINDING_FIELDS_def check_budget_rows_def integer_in_def bounded_ok_def member_names_def
  checks.simps require_def text_of_def member_text_def check_nullable_def check_evidence_ref_def only_if_def
  absent_value_def EFFECT_KINDS_def ef_target_def ef_confirmation_def ef_spend_def

lemmas ef_evaluate = evaluate ef_facts effect_evaluate governed_lookups

lemma ef_intent_valid: "validate_record SPECS ''acme'' EFFECT_KINDS b ef_intent = Inr ef_intent"
  unfolding ef_intent_def by (simp add: ef_evaluate del: is_sha256_def is_record_id_def is_timestamp_def)

lemma ef_dispatched_valid: "validate_record SPECS ''acme'' EFFECT_KINDS b ef_dispatched = Inr ef_dispatched"
  unfolding ef_dispatched_def by (simp add: ef_evaluate del: is_sha256_def is_record_id_def is_timestamp_def)

lemma ef_unknown_valid: "validate_record SPECS ''acme'' EFFECT_KINDS b ef_unknown = Inr ef_unknown"
  unfolding ef_unknown_def by (simp add: ef_evaluate del: is_sha256_def is_record_id_def is_timestamp_def)

lemma ef_reconciled_valid: "validate_record SPECS ''acme'' EFFECT_KINDS b ef_reconciled = Inr ef_reconciled"
  unfolding ef_reconciled_def by (simp add: ef_evaluate del: is_sha256_def is_record_id_def is_timestamp_def)

lemmas ef_rows_valid = ef_intent_valid ef_dispatched_valid ef_unknown_valid ef_reconciled_valid

definition ef_request :: effect_request where
  "ef_request = \<lparr>er_run = JStr (''run-'' @ ex_uuid), er_item = JStr (''work-'' @ ex_uuid),
     er_attempt = JStr (''attempt-'' @ ex_uuid), er_fence = JNull, er_type = JStr ''git_ref_update'',
     er_target = ef_target, er_digest = JStr ef_sha, er_key = JStr ''key'', er_confirmation = ef_confirmation,
     er_adapter = JStr ''git_local'', er_risk = JStr ''low'', er_claim = ef_spend 5, er_requester = JStr ''worker''\<rparr>"

definition ef_context :: intent_context where
  "ef_context = \<lparr>cx_started = ''attempt-started-'' @ ex_uuid, cx_fence = JStr ef_sha, cx_policy_digest = ef_sha,
     cx_reservations = [(''usd'', 7)], cx_consumption = JNull, cx_consumption_request = JNull,
     cx_consumption_decision = JNull, cx_consumption_digest = JNull\<rparr>"

definition ef_input :: intent_input where
  "ef_input = \<lparr>in_uuid = ex_uuid,
     in_policy = \<lparr>ep_digest = ef_sha, ep_approvals = [(''low'', False)], ep_budgets = [(''usd'', 10)]\<rparr>,
     in_context = Inr ef_context, in_refs = \<lparr>rf_request = JNull, rf_decision = JNull, rf_consumption = JNull\<rparr>,
     in_approved = Inl NotModelled, in_now = ex_issued\<rparr>"

lemma ef_uuid: "uuid_of_digest ef_sha = ''aaaaaaaaaaaa7aaaaaaaaaaaaaaaaaaa''"
  unfolding uuid_of_digest_def ef_sha_def by code_simp

lemma ef_operation_of: "semantic_operation_id ef_hash ''acme'' (JStr ''key'') = ef_operation"
  unfolding semantic_operation_id_def ef_hash_def ef_uuid by (simp add: ef_operation_def)

lemma ef_intent_row: "intended_row ef_hash ''acme'' ef_request ef_input ef_context = ef_intent"
  by (simp add: intent_row_def ef_request_def ef_input_def ef_context_def ef_operation_of ex_texts row_of_def
      ef_intent_def ef_target_def ef_confirmation_def ef_spend_def)

section \<open>Facts of the rows\<close>

lemmas ef_row_defs = ef_intent_def ef_dispatched_def ef_unknown_def ef_reconciled_def

lemma ef_keys [simp]:
  "record_key ef_intent = ''effect-intent-'' @ ex_uuid" "record_key ef_dispatched = ''effect-dispatched-'' @ ex_uuid"
  "record_key ef_unknown = ''effect-unknown-'' @ ex_uuid" "record_key ef_reconciled = ''effect-reconciled-'' @ ex_uuid"
  by (simp_all add: ef_row_defs record_key_def record_id_def get_member_def)

lemma ef_kinds [simp]:
  "is_kind k ef_intent \<longleftrightarrow> k = ''effect_intent''" "is_kind k ef_dispatched \<longleftrightarrow> k = ''effect_dispatched''"
  "is_kind k ef_unknown \<longleftrightarrow> k = ''effect_unknown''" "is_kind k ef_reconciled \<longleftrightarrow> k = ''effect_reconciled''"
  by (auto simp: ef_row_defs is_kind_def record_kind_def get_member_def)

lemma ef_values [simp]: "ef_confirmation \<noteq> JNull" "ef_spend n \<noteq> JNull" "canon ef_target = ef_target" "canon ef_confirmation = ef_confirmation" "canon (ef_spend n) = ef_spend n"
  "spend_table (ef_spend n) = [(''usd'', n)]" "spend_rows (ef_spend n) = Some [(''usd'', n)]"
  by (simp_all add: ef_target_def ef_confirmation_def ef_spend_def spend_table_def spend_rows_def spend_row_def text_at_def
      int_at_def member_of_def get_member_def)

lemma ef_bindings [simp]:
  "binding_of ef_intent = ef_binding" "binding_of ef_dispatched = ef_binding" "binding_of ef_unknown = ef_binding"
  "binding_of ef_reconciled = ef_binding"
  by (simp_all add: ef_row_defs binding_of_def EFFECT_BINDING_FIELDS_def member_of_def get_member_def ef_binding_def)

lemma ef_operation_ids [simp]:
  "text_at ef_intent ''operation_id'' = ef_operation" "text_at ef_dispatched ''operation_id'' = ef_operation"
  "text_at ef_unknown ''operation_id'' = ef_operation" "text_at ef_reconciled ''operation_id'' = ef_operation"
  "text_at ef_intent ''idempotency_key'' = ''key''" "text_at ef_intent ''run_id'' = ''run-'' @ ex_uuid"
  "text_at ef_intent ''attempt_id'' = ''attempt-'' @ ex_uuid" "text_at ef_intent ''tenant_id'' = ''acme''"
  "text_at ef_dispatched ''tenant_id'' = ''acme''" "text_at ef_unknown ''tenant_id'' = ''acme''"
  "text_at ef_reconciled ''tenant_id'' = ''acme''" "member_of ef_intent ''budget_claim'' = ef_spend 5"
  by (simp_all add: ef_row_defs text_at_def member_of_def get_member_def)

lemma ef_links [simp]:
  "member_of ef_dispatched ''effect_intent_id'' = JStr (''effect-intent-'' @ ex_uuid)"
  "member_of ef_unknown ''effect_intent_id'' = JStr (''effect-intent-'' @ ex_uuid)"
  "member_of ef_reconciled ''effect_intent_id'' = JStr (''effect-intent-'' @ ex_uuid)"
  "member_of ef_unknown ''effect_dispatched_id'' = JStr (''effect-dispatched-'' @ ex_uuid)"
  "member_of ef_unknown ''spend_status'' = JStr ''unknown''" "member_of ef_unknown ''measured_spend'' = JNull"
  "member_of ef_reconciled ''prior_effect_evidence_id'' = JStr (''effect-unknown-'' @ ex_uuid)"
  "member_of ef_reconciled ''reconciled_outcome'' = JStr ''confirmed''"
  "text_at ef_reconciled ''reconciliation_evidence_digest'' = ef_sha"
  "member_of ef_reconciled ''confirmation'' = ef_confirmation" "member_of ef_reconciled ''spend_status'' = JStr ''complete''"
  "member_of ef_reconciled ''measured_spend'' = ef_spend 3"
  by (simp_all add: ef_row_defs text_at_def member_of_def get_member_def)

lemma ef_bound [simp]: "get_member ef_binding ''expected_confirmation'' = ef_confirmation"
  "get_member ef_binding ''budget_claim'' = ef_spend 5" "get_member ef_binding ''operation_id'' = JStr ef_operation"
  "get_member ef_binding ''run_id'' = JStr (''run-'' @ ex_uuid)" "get_member ef_binding ''attempt_id'' = JStr (''attempt-'' @ ex_uuid)"
  by (simp_all add: ef_binding_def get_member_def)

lemma ef_stored [simp]: "stored ef_intent" "stored ef_dispatched" "stored ef_unknown" "stored ef_reconciled"
  by (simp_all add: stored_def unchained_def ef_row_defs ef_target_def ef_confirmation_def ef_spend_def)

lemma ef_lengths:
  "length (frame ef_intent) \<le> 20000" "length (frame ef_dispatched) \<le> 20000" "length (frame ef_unknown) \<le> 20000"
  "length (frame ef_reconciled) \<le> 20000"
  by (rule order_trans [OF length_frame],
      simp add: ef_row_defs ex_uuid_def ef_sha_def ef_operation_def ef_target_def ef_confirmation_def ef_spend_def)+

section \<open>Steps\<close>

lemma ef_append:
  assumes "effect_ledger ''acme'' rows" "project_effects rows = Inr book" "stored raw"
    and "\<And>b. validate_record SPECS ''acme'' EFFECT_KINDS b raw = Inr raw"
    and "list_all (\<lambda>r. length (frame r) \<le> 20000) (raw # rows)" "length rows \<le> 3" "record_key raw \<notin> record_key ` set rows"
    and "retried_row book rows raw = Inr None" "resolve book raw = Inr None" "effect_apply False book raw = Inr book'"
  shows "append_controller ''acme'' resolve raw rows = Inr (raw, rows @ [raw])"
    "effect_ledger ''acme'' (rows @ [raw])" "project_effects (rows @ [raw]) = Inr book'"
proof -
  have "sum_list (map (length \<circ> frame) rows) \<le> 20000 * length rows"
    using assms(5) by (induction rows) auto
  then have "ledger_bytes (effect_contract ''acme'') rows \<le> 60000"
    using assms(6) by (simp add: ledger_bytes_def effect_contract_def rows_contract_def comp_def)
  then have "append_record (effect_contract ''acme'') rows raw = Inr (rows @ [raw])"
    using assms(1,4-7) by (auto simp: append_record_Inr_iff effect_contract_def rows_contract_def effect_ledger_def ledger_bounds)
  moreover have decided: "effect_decide resolve raw rows = Inr (raw, Some raw)"
    by (simp add: effect_decide_def assms(2,8-10))
  moreover have "readable (effect_contract ''acme'') rows" using assms(1) by (simp add: effect_ledger_def)
  ultimately have "transact (effect_contract ''acme'') rows (effect_decide resolve raw) = Inr (raw, rows @ [raw])"
    unfolding transact_Inr_iff by blast
  then show appended: "append_controller ''acme'' resolve raw rows = Inr (raw, rows @ [raw])"
    by (simp add: append_controller_def assms(4) stored_canon [OF assms(3)])
  from append_controller_Inr [OF assms(1) this assms(3)] show "effect_ledger ''acme'' (rows @ [raw])"
    by (simp add: admitted_def)
  have "effect_apply True book raw = Inr book'" by (rule effect_apply_reread [OF assms(10) stored_canon [OF assms(3)]])
  then show "project_effects (rows @ [raw]) = Inr book'"
    using assms(2) by (simp add: project_effects_def replay_snoc)
qed

definition ef_stage :: "effect_operation \<Rightarrow> json list \<Rightarrow> effect_book" where
  "ef_stage op rows = \<lparr>eb_records = rows, eb_operations = [(ef_operation, op)],
     eb_attempts = [((''run-'' @ ex_uuid, ''attempt-'' @ ex_uuid), [ef_operation])], eb_keys = [(''key'', ef_operation)],
     eb_seen = rev (map record_key rows)\<rparr>"

definition ef_op1 :: effect_operation where "ef_op1 = new_operation empty_effects ef_intent"
definition ef_op2 :: effect_operation where
  "ef_op2 = set_current ef_dispatched Dispatched (ef_op1\<lparr>eo_dispatch := Some (''effect-dispatched-'' @ ex_uuid)\<rparr>)"
definition ef_op3 :: effect_operation where
  "ef_op3 = set_current ef_unknown (Outcome Unknown) (ef_op2\<lparr>eo_primary := Some (''effect-unknown-'' @ ex_uuid)\<rparr>)"
definition ef_op4 :: effect_operation where
  "ef_op4 = set_current ef_reconciled (Reconciled Confirmed) (ef_op3\<lparr>eo_digests := [ef_sha]\<rparr>)"

lemmas ef_op_defs = ef_op1_def ef_op2_def ef_op3_def ef_op4_def new_operation_def set_current_def

lemma ef_ops [simp]:
  "eo_binding ef_op1 = ef_binding" "eo_binding ef_op2 = ef_binding" "eo_binding ef_op3 = ef_binding" "eo_binding ef_op4 = ef_binding"
  "eo_intent ef_op1 = ''effect-intent-'' @ ex_uuid" "eo_intent ef_op2 = ''effect-intent-'' @ ex_uuid"
  "eo_intent ef_op3 = ''effect-intent-'' @ ex_uuid" "eo_state ef_op1 = Intended" "eo_state ef_op2 = Dispatched"
  "eo_state ef_op3 = Outcome Unknown" "eo_state ef_op4 = Reconciled Confirmed"
  "eo_dispatch ef_op2 = Some (''effect-dispatched-'' @ ex_uuid)" "eo_evidence ef_op3 = ''effect-unknown-'' @ ex_uuid"
  "eo_digests ef_op3 = []" "eo_measured ef_op4 = Some [(''usd'', 3)]"
  by (simp_all add: ef_op_defs empty_effects_def Let_def)

lemmas ef_steps = effect_apply_def effect_tenant_def ef_stage_def ef_rows_valid Let_def stored_canon

lemma ef_empty [simp]: "eb_records empty_effects = []" "eb_operations empty_effects = []" "eb_attempts empty_effects = []"
  "eb_keys empty_effects = []" "eb_seen empty_effects = []"
  by (simp_all add: empty_effects_def)

lemma ef_apply1: "effect_apply False empty_effects ef_intent = Inr (ef_stage ef_op1 [ef_intent])"
  by (simp add: ef_steps apply_intent_def attempt_operations_def ef_op1_def)

lemma ef_lifecycles:
  "apply_lifecycle False book ef_dispatched ef_op1 = Inr ef_op2"
  "apply_lifecycle False book ef_unknown ef_op2 = Inr ef_op3"
  "apply_lifecycle False book ef_reconciled ef_op3 = Inr ef_op4"
  subgoal by (simp add: apply_lifecycle_def apply_dispatched_def ef_op2_def)
  subgoal by (simp add: apply_lifecycle_def outcome_of_kind_def apply_primary_def require_reference_def validate_spend_def
      is_confirmation_def spend_rows_def optional_text_def ef_op3_def)
  subgoal by (simp add: apply_lifecycle_def outcome_of_kind_def apply_reconciled_def require_reference_def validate_spend_def
      is_confirmation_def reconciled_outcome_def reconcilable_def bound_def claim_of_def Let_def ef_op4_def)
  done

lemma ef_apply2:
  "effect_apply False (ef_stage ef_op1 [ef_intent]) ef_dispatched = Inr (ef_stage ef_op2 [ef_intent, ef_dispatched])"
  "effect_apply False (ef_stage ef_op2 [ef_intent, ef_dispatched]) ef_unknown =
     Inr (ef_stage ef_op3 [ef_intent, ef_dispatched, ef_unknown])"
  "effect_apply False (ef_stage ef_op3 [ef_intent, ef_dispatched, ef_unknown]) ef_reconciled =
     Inr (ef_stage ef_op4 [ef_intent, ef_dispatched, ef_unknown, ef_reconciled])"
  by (simp_all add: ef_steps ef_lifecycles)

end
