(* ===== verification/Effect_Examples.thy ===== *)
theory Effect_Examples
  imports Effect_Values
begin

text \<open>
  The effect of \<open>Effect_Values\<close> as a history of controller operations, and the witnesses of the
  properties of the effect ledger.
\<close>

section \<open>The history\<close>

definition ef_report :: negative_report where
  "ef_report = \<lparr>ng_reason = JStr ''process_lost'', ng_digest = JStr ef_sha, ng_status = JStr ''unknown'', ng_measured = JNull\<rparr>"

definition ef_result :: reconciliation_result where
  "ef_result = \<lparr>rr_outcome = Confirmed, rr_digest = ef_sha, rr_confirmation = ef_confirmation, rr_status = ''complete'',
     rr_measured = Some [(''usd'', 3)]\<rparr>"

definition ef_history :: "effect_op list" where
  "ef_history =
     [Intend ef_request ef_input, Dispatch ex_uuid (JStr ef_operation) (JStr ''git_local'') (JStr ef_sha) ex_issued,
      Report ex_uuid False (JStr ef_operation) ef_report ex_issued,
      Reconcile ex_uuid (request_truth ef_op3) ef_result ex_issued]"

lemma ef_lifecycle_rows:
  "lifecycle_row ''acme'' ''effect_dispatched'' ''effect-dispatched-'' ex_uuid ef_op1 ex_issued
     [(''effect_intent_id'', JStr (eo_intent ef_op1)), (''dispatch_adapter'', JStr ''git_local''),
      (''dispatch_evidence_digest'', JStr ef_sha), (''dispatched_at_testimony'', JStr (iso_text ex_issued))] = ef_dispatched"
  "lifecycle_row ''acme'' ''effect_unknown'' ''effect-unknown-'' ex_uuid ef_op2 ex_issued
     [(''effect_intent_id'', JStr (eo_intent ef_op2)), (''effect_dispatched_id'', optional_text (eo_dispatch ef_op2)),
      (''reason_code'', JStr ''process_lost''), (''unknown_evidence_digest'', JStr ef_sha),
      (''spend_status'', JStr ''unknown''), (''measured_spend'', JNull),
      (''unknown_at_testimony'', JStr (iso_text ex_issued))] = ef_unknown"
  by (simp_all add: lifecycle_row_def ef_binding_def ex_texts row_of_def ef_row_defs optional_text_def ef_target_def
      ef_confirmation_def ef_spend_def)

lemma ef_step1:
  "effect_intent ef_hash ''acme'' ef_request ef_input [] = Inr (ef_intent, [ef_intent])"
  "effect_ledger ''acme'' [ef_intent]" "project_effects [ef_intent] = Inr (ef_stage ef_op1 [ef_intent])"
proof -
  let ?resolve = "authorize_claim (in_policy ef_input) ef_context (er_run ef_request)"
  have "?resolve empty_effects ef_intent = Inr None"
    by (simp add: authorize_claim_def ef_input_def ef_context_def effect_budget_limit_def reservation_def claims_of_def
        aggregate_claims_def over_reserved_def amount_of_def)
  moreover have "project_effects [] = Inr empty_effects" by (simp add: project_effects_def)
  moreover have "retried_row empty_effects [] ef_intent = Inr None" by (simp add: retried_row_def retried_intent_def)
  ultimately have append: "append_controller ''acme'' ?resolve ef_intent [] = Inr (ef_intent, [] @ [ef_intent])"
      and rest: "effect_ledger ''acme'' ([] @ [ef_intent])" "project_effects ([] @ [ef_intent]) = Inr (ef_stage ef_op1 [ef_intent])"
    using ef_append [OF effect_ledger_Nil, of empty_effects ef_intent ?resolve] ef_lengths(1)
    by (simp_all add: ef_rows_valid ef_apply1)
  from rest show "effect_ledger ''acme'' [ef_intent]" "project_effects [ef_intent] = Inr (ef_stage ef_op1 [ef_intent])"
    by simp_all
  have "in_context ef_input = Inr ef_context" "cx_policy_digest ef_context = ep_digest (in_policy ef_input)"
      "effect_approval_required (in_policy ef_input) (er_risk ef_request) = Inr False"
      "\<not> consumption_mismatch ef_context (in_refs ef_input) (er_digest ef_request)"
      "check_approval False (in_refs ef_input) (in_approved ef_input) k = (k :: (json \<times> json list) res)" for k
    by (simp_all add: ef_input_def ef_context_def ef_request_def effect_approval_required_def consumption_mismatch_def
        check_approval_def)
  then show "effect_intent ef_hash ''acme'' ef_request ef_input [] = Inr (ef_intent, [ef_intent])"
    using append by (simp add: effect_intent_def ef_intent_row)
qed

lemma ef_operation_found:
  assumes "effect_ledger ''acme'' rows" "project_effects rows = Inr (ef_stage op rows')"
  shows "operation_of ''acme'' (JStr ef_operation) rows = Inr op"
  using assms by (simp add: operation_of_def effect_ledger_def decode_path_records_Inr_iff [THEN iffD2] ef_stage_def
      bindR_Inr_iff decode_path_records_Inr_iff)

lemma ef_fresh:
  "\<not> repeats op ef_dispatched ef_intent" "\<not> repeats op ef_unknown ef_intent" "\<not> repeats op ef_unknown ef_dispatched"
  "\<not> repeats op ef_reconciled ef_intent" "\<not> repeats op ef_reconciled ef_dispatched" "\<not> repeats op ef_reconciled ef_unknown"
  by (simp_all add: repeats_def ef_row_defs record_kind_def get_member_def)

lemma ef_step2:
  "effect_dispatched ''acme'' ex_uuid (JStr ef_operation) (JStr ''git_local'') (JStr ef_sha) ex_issued [ef_intent] =
     Inr (ef_dispatched, [ef_intent, ef_dispatched])"
  "effect_ledger ''acme'' [ef_intent, ef_dispatched]"
  "project_effects [ef_intent, ef_dispatched] = Inr (ef_stage ef_op2 [ef_intent, ef_dispatched])"
proof -
  have "retried_row (ef_stage ef_op1 [ef_intent]) [ef_intent] ef_dispatched = Inr None"
    by (simp add: retried_row_def retried_lifecycle_def ef_stage_def ef_fresh)
  then have "append_controller ''acme'' no_resolver ef_dispatched [ef_intent] = Inr (ef_dispatched, [ef_intent] @ [ef_dispatched])"
      and rest: "effect_ledger ''acme'' ([ef_intent] @ [ef_dispatched])"
        "project_effects ([ef_intent] @ [ef_dispatched]) = Inr (ef_stage ef_op2 [ef_intent, ef_dispatched])"
    using ef_append [OF ef_step1(2,3), of ef_dispatched no_resolver] ef_lengths
    by (simp_all add: ef_rows_valid ef_apply2 no_resolver_def)
  then show "effect_dispatched ''acme'' ex_uuid (JStr ef_operation) (JStr ''git_local'') (JStr ef_sha) ex_issued [ef_intent] =
     Inr (ef_dispatched, [ef_intent, ef_dispatched])"
    using ef_operation_found [OF ef_step1(2,3)] ef_lifecycle_rows(1) by (simp add: effect_dispatched_def)
  from rest show "effect_ledger ''acme'' [ef_intent, ef_dispatched]"
    "project_effects [ef_intent, ef_dispatched] = Inr (ef_stage ef_op2 [ef_intent, ef_dispatched])" by simp_all
qed

lemma ef_step3:
  "negative_outcome ''acme'' ex_uuid False (JStr ef_operation) ef_report ex_issued [ef_intent, ef_dispatched] =
     Inr (ef_unknown, [ef_intent, ef_dispatched, ef_unknown])"
  "effect_ledger ''acme'' [ef_intent, ef_dispatched, ef_unknown]"
  "project_effects [ef_intent, ef_dispatched, ef_unknown] = Inr (ef_stage ef_op3 [ef_intent, ef_dispatched, ef_unknown])"
proof -
  let ?rows = "[ef_intent, ef_dispatched]"
  have "retried_row (ef_stage ef_op2 ?rows) ?rows ef_unknown = Inr None"
    by (simp add: retried_row_def retried_lifecycle_def ef_stage_def ef_fresh)
  then have "append_controller ''acme'' no_resolver ef_unknown ?rows = Inr (ef_unknown, ?rows @ [ef_unknown])"
      and rest: "effect_ledger ''acme'' (?rows @ [ef_unknown])"
        "project_effects (?rows @ [ef_unknown]) = Inr (ef_stage ef_op3 (?rows @ [ef_unknown]))"
    using ef_append [OF ef_step2(2,3), of ef_unknown no_resolver] ef_lengths
    by (simp_all add: ef_rows_valid ef_apply2 no_resolver_def)
  then show "negative_outcome ''acme'' ex_uuid False (JStr ef_operation) ef_report ex_issued ?rows =
     Inr (ef_unknown, [ef_intent, ef_dispatched, ef_unknown])"
    using ef_operation_found [OF ef_step2(2,3)] ef_lifecycle_rows(2) by (simp add: negative_outcome_def ef_report_def)
  from rest show "effect_ledger ''acme'' [ef_intent, ef_dispatched, ef_unknown]"
    "project_effects [ef_intent, ef_dispatched, ef_unknown] = Inr (ef_stage ef_op3 [ef_intent, ef_dispatched, ef_unknown])"
    by simp_all
qed

lemma ef_reconciled_row:
  "lifecycle_row ''acme'' ''effect_reconciled'' ''effect-reconciled-'' ex_uuid ef_op3 ex_issued
     [(''effect_intent_id'', JStr (eo_intent ef_op3)), (''prior_effect_evidence_id'', JStr (''effect-unknown-'' @ ex_uuid)),
      (''reconciled_outcome'', JStr (outcome_text (rr_outcome ef_result))),
      (''reconciliation_evidence_digest'', JStr (rr_digest ef_result)),
      (''confirmation'', rr_confirmation ef_result), (''spend_status'', JStr (rr_status ef_result)),
      (''measured_spend'', spend_json (rr_measured ef_result)),
      (''reconciled_at_testimony'', JStr (iso_text ex_issued))] = ef_reconciled"
  by (simp add: lifecycle_row_def ef_binding_def ex_texts row_of_def ef_row_defs ef_target_def ef_confirmation_def
      ef_spend_def ef_result_def spend_json_def)

lemma ef_step4:
  "append_reconciliation ''acme'' ex_uuid (request_truth ef_op3) ef_result ex_issued [ef_intent, ef_dispatched, ef_unknown] =
     Inr (ef_reconciled, [ef_intent, ef_dispatched, ef_unknown, ef_reconciled])"
  "project_effects [ef_intent, ef_dispatched, ef_unknown, ef_reconciled] =
     Inr (ef_stage ef_op4 [ef_intent, ef_dispatched, ef_unknown, ef_reconciled])"
proof -
  let ?rows = "[ef_intent, ef_dispatched, ef_unknown]" and ?resolve = "refresh_and_resolve (request_truth ef_op3)"
  have operation: "rq_operation (request_truth ef_op3) = ef_operation"
    by (simp add: request_truth_def bound_text_def bound_def)
  have evidence: "rq_evidence (request_truth ef_op3) = ''effect-unknown-'' @ ex_uuid" by (simp add: request_truth_def)
  have "retried_row (ef_stage ef_op3 ?rows) ?rows ef_reconciled = Inr None"
    by (simp add: retried_row_def retried_lifecycle_def ef_stage_def ef_fresh)
  moreover have "?resolve (ef_stage ef_op3 ?rows) ef_reconciled = Inr None"
    by (simp add: refresh_and_resolve_def operation ef_stage_def same_reconciliation_def reconcilable_def)
  ultimately have append: "append_controller ''acme'' ?resolve ef_reconciled ?rows = Inr (ef_reconciled, ?rows @ [ef_reconciled])"
      and rest: "project_effects (?rows @ [ef_reconciled]) = Inr (ef_stage ef_op4 (?rows @ [ef_reconciled]))"
    using ef_append [OF ef_step3(2,3), of ef_reconciled ?resolve] ef_lengths
    by (simp_all add: ef_rows_valid ef_apply2)
  from append show "append_reconciliation ''acme'' ex_uuid (request_truth ef_op3) ef_result ex_issued ?rows =
     Inr (ef_reconciled, [ef_intent, ef_dispatched, ef_unknown, ef_reconciled])"
    using ef_operation_found [OF ef_step3(2,3)] ef_reconciled_row operation evidence by (simp add: append_reconciliation_def)
  from rest show "project_effects [ef_intent, ef_dispatched, ef_unknown, ef_reconciled] =
     Inr (ef_stage ef_op4 [ef_intent, ef_dispatched, ef_unknown, ef_reconciled])" by simp
qed

lemma ef_exec:
  "exec_effect_ops ef_hash ''acme'' ef_history [] = [ef_intent, ef_dispatched, ef_unknown, ef_reconciled]"
  by (simp add: ef_history_def outcome_rows_def ef_step1 ef_step2 ef_step3 ef_step4)

section \<open>Witnesses\<close>

definition ef_book :: effect_book where
  "ef_book = ef_stage ef_op4 [ef_intent, ef_dispatched, ef_unknown, ef_reconciled]"

lemma ef_projected: "project_effects (exec_effect_ops ef_hash ''acme'' ef_history []) = Inr ef_book"
  by (simp add: ef_exec ef_step4 ef_book_def)

lemma ef_found: "map_of (eb_operations ef_book) ef_operation = Some ef_op4"
  by (simp add: ef_book_def ef_stage_def)

theorem confirmed_effect_evidence_witness:
  "\<exists>a d c. subseq [a, d, c] [ef_intent, ef_dispatched, ef_unknown, ef_reconciled] \<and> is_kind ''effect_dispatched'' d \<and>
    is_confirmation c \<and> binding_of c = binding_of a"
proof -
  have "confirmed_state (eo_state ef_op4)" by simp
  from confirmed_effect_evidence [OF ef_projected ef_found this] show ?thesis unfolding ef_exec by blast
qed

lemma ef_contexts: "op \<in> set ef_history \<Longrightarrow> op_context op run cx \<Longrightarrow> cx = ef_context"
  by (auto simp: ef_history_def op_context_def ef_input_def)

theorem run_budget_bounded_witness:
  "run_spend ef_book (JStr (''run-'' @ ex_uuid)) ''usd'' \<le> run_claims ef_book (JStr (''run-'' @ ex_uuid)) ''usd'' \<and>
   run_claims ef_book (JStr (''run-'' @ ex_uuid)) ''usd'' \<le> 7"
proof -
  have "reservation ef_context ''usd'' = 7" by (simp add: reservation_def ef_context_def)
  then have "\<forall>op \<in> set ef_history. \<forall>cx. op_context op (JStr (''run-'' @ ex_uuid)) cx \<longrightarrow> reservation cx ''usd'' \<le> 7"
    using ef_contexts by (metis order_refl)
  from run_budget_bounded [OF this ef_projected] show ?thesis by simp
qed

theorem acceptance_evidence_exact_witness:
  "\<exists>ev. acceptance_evidence ef_hash ef_book (''run-'' @ ex_uuid) (''attempt-'' @ ex_uuid) = Inr ev \<and>
    ev_operations ev = [ef_operation] \<and> ev_blockers ev = [] \<and> amount_of (ev_measured ev) ''usd'' = 3"
proof -
  let ?run = "''run-'' @ ex_uuid" and ?attempt = "''attempt-'' @ ex_uuid"
  have op: "of_attempt ?run ?attempt ef_op4" "confirmed_state (eo_state ef_op4)" "\<not> pending_remedy ef_book ef_op4"
      "confirmed_sum ''usd'' ef_op4 = 3"
    by (simp_all add: of_attempt_def bound_def pending_remedy_def ef_op_defs confirmed_sum_def measured_of_def)
  have operations: "eb_operations ef_book = [(ef_operation, ef_op4)]" by (simp add: ef_book_def ef_stage_def)
  then have only: "map_of (eb_operations ef_book) i = Some op \<longleftrightarrow> i = ef_operation \<and> op = ef_op4" for i op by auto
  obtain ev where ev: "acceptance_evidence ef_hash ef_book ?run ?attempt = Inr ev" "distinct (ev_operations ev)"
      "set (ev_operations ev) = {i. \<exists>op. map_of (eb_operations ef_book) i = Some op \<and> of_attempt ?run ?attempt op}"
      "ev_blockers ev = [] \<longleftrightarrow> (\<forall>i op. map_of (eb_operations ef_book) i = Some op \<and> of_attempt ?run ?attempt op \<longrightarrow>
          confirmed_state (eo_state op) \<and> \<not> pending_remedy ef_book op)"
      "\<forall>b. amount_of (ev_measured ev) b = sum_list (map (\<lambda>(i, op). confirmed_sum b op)
         (filter (\<lambda>(i, op). of_attempt ?run ?attempt op) (eb_operations ef_book)))"
    using acceptance_evidence_exact [OF ef_projected, of ?run ?attempt] by blast
  have "set (ev_operations ev) = {ef_operation}" using ev(3) op(1) by (simp add: only)
  then have "ev_operations ev = [ef_operation]"
    using ev(2) by (cases "ev_operations ev"; cases "tl (ev_operations ev)") auto
  moreover have "ev_blockers ev = []" using ev(4) op(2,3) by (simp only: only) blast
  moreover have "amount_of (ev_measured ev) ''usd'' = 3" using ev(5) op(1,4) by (simp only: operations) simp
  ultimately show ?thesis using ev(1) by blast
qed

text \<open>A report of failure after the confirmation changes nothing.\<close>

theorem effect_history_refines_witness:
  "\<exists>book' op'. project_effects (exec_effect_ops ef_hash ''acme'' [Report ex_uuid True (JStr ef_operation) ef_report ex_issued]
      (exec_effect_ops ef_hash ''acme'' ef_history [])) = Inr book' \<and>
    map_of (eb_operations book') ef_operation = Some op' \<and> eo_state op' = Reconciled Confirmed"
  using effect_history_refines [OF ef_projected ef_found,
      where more_ops = "[Report ex_uuid True (JStr ef_operation) ef_report ex_issued]"]
  by (simp only: ef_ops state_facts simp_thms) blast

definition ef_uuid2 :: string where "ef_uuid2 = ''0198c0de00017000a000000000000002''"

definition ef_retry :: json where
  "ef_retry = JObj
     [(''approval_consumption_id'', JNull),
      (''approval_decision_id'', JNull),
      (''approval_request_id'', JNull),
      (''attempt_id'', JStr (''attempt-'' @ ex_uuid)),
      (''attempt_started_id'', JStr (''attempt-started-'' @ ex_uuid)),
      (''budget_claim'', ef_spend 5),
      (''effect_type'', JStr ''git_ref_update''),
      (''expected_confirmation'', ef_confirmation),
      (''fence_token'', JStr ef_sha),
      (''id'', JStr (''effect-intent-'' @ ef_uuid2)),
      (''idempotency_key'', JStr ''key''),
      (''intended_at_testimony'', JStr ''2026-02-28T10:00:10.000Z''),
      (''item_id'', JStr (''work-'' @ ex_uuid)),
      (''kind'', JStr ''effect_intent''),
      (''operation_id'', JStr ef_operation),
      (''reconciliation_adapter'', JStr ''git_local''),
      (''request_digest'', JStr ef_sha),
      (''requested_by'', JStr ''worker''),
      (''risk_class'', JStr ''low''),
      (''run_id'', JStr (''run-'' @ ex_uuid)),
      (''schema_version'', JInt 1),
      (''target'', ef_target),
      (''tenant_id'', JStr ''acme''),
      (''timestamp'', JStr ''2026-02-28T10:00:10.000Z'')]"

lemma ef_retry_row:
  "intent_row ef_hash ''acme'' ef_uuid2 (ef_request\<lparr>er_fence := cx_fence ef_context\<rparr>) (JStr (cx_started ef_context))
     (in_refs ef_input) (iso_text (ex_issued + 10000000)) = ef_retry"
  by (simp add: intent_row_def ef_request_def ef_input_def ef_context_def ef_operation_of ex_texts row_of_def
      ef_retry_def ef_target_def ef_confirmation_def ef_spend_def)

lemma ef_retry_valid: "validate_record SPECS ''acme'' EFFECT_KINDS b ef_retry = Inr ef_retry"
proof -
  have "is_record_id ''effect-intent-'' (''effect-intent-'' @ ef_uuid2)" "is_timestamp ''2026-02-28T10:00:10.000Z''"
    by (simp_all add: ef_uuid2_def evaluate)
  then show ?thesis
    unfolding ef_retry_def by (simp add: ef_evaluate del: is_sha256_def is_record_id_def is_timestamp_def)
qed

text \<open>The repeated call returns the first row and leaves the ledger as it is.\<close>

theorem intent_retry_returns_first_witness:
  "effect_intent ef_hash ''acme'' ef_request (ef_input\<lparr>in_uuid := ef_uuid2, in_now := ex_issued + 10000000\<rparr>)
     [ef_intent, ef_dispatched, ef_unknown, ef_reconciled] =
   Inr (ef_intent, [ef_intent, ef_dispatched, ef_unknown, ef_reconciled])"
proof -
  let ?rows = "[ef_intent, ef_dispatched, ef_unknown, ef_reconciled]"
  have "effect_intent ef_hash ''acme'' ef_request ef_input (exec_effect_ops ef_hash ''acme'' [] []) = Inr (ef_intent, [ef_intent])"
    by (simp add: ef_step1)
  moreover have "?rows = exec_effect_ops ef_hash ''acme'' (tl ef_history) [ef_intent]"
    by (simp add: ef_history_def outcome_rows_def ef_step2 ef_step3 ef_step4)
  moreover have "in_context ef_input = Inr ef_context" by (simp add: ef_input_def)
  moreover have "''effect-intent-'' @ ef_uuid2 \<notin> record_key ` set ?rows"
    by (simp add: ef_uuid2_def ex_uuid_def)
  moreover have "validate_record SPECS ''acme'' EFFECT_KINDS False
      (intent_row ef_hash ''acme'' ef_uuid2 (ef_request\<lparr>er_fence := cx_fence ef_context\<rparr>) (JStr (cx_started ef_context))
        (in_refs ef_input) (iso_text (ex_issued + 10000000))) = Inr ef_retry"
    by (simp only: ef_retry_row ef_retry_valid)
  ultimately show ?thesis using intent_retry_returns_first by blast
qed

end
