(* ===== verification/Spec2Isabelle.thy ===== *)
theory Spec2Isabelle
  imports Work_Properties Lock_Examples Contract_Properties Kind_Properties Journal_Examples Mail_Examples Credential_Examples Approval_Examples Effect_Examples
begin

text \<open>
  floati coordinates coding agents ("nodes") of one tenant.  Everything the nodes agree on is
  written to append-only ledgers, files of one JSON record per line below the tenant's root; every
  operation reads a ledger, decides, and appends under the lock of the file.  This development
  models the record formats, the ledgers and the components that decide on them, and proves what
  they promise.  Paths below are relative to \<open>src/\<close>.

  \<^bold>\<open>Foundations.\<close>  \<open>Floati_Prelude\<close>: exceptions of \<open>floati/errors.py\<close> as values (\<open>res\<close>), operations
  on a state that may have written before they raise (\<open>act\<close>), the loop that folds a ledger
  (\<open>replay\<close>, locale \<open>projection\<close>), dictionaries.  \<open>Identifiers\<close>: \<open>floati/root.py\<close>, \<open>floati/ids.py\<close> and
  the lexical validators of \<open>floati/records.py\<close>; a generated UUIDv7 meets its own pattern and orders
  by time.  \<open>Json_Values\<close>, \<open>Json_Text\<close>, \<open>Utf8\<close>, \<open>Framing\<close>: decoded JSON, \<open>json.dumps\<close> and \<open>json.loads\<close>
  with the duplicate-key hook, UTF-8, and the frames of \<open>floati/framing.py\<close>; what is written is read
  back, and a torn or extended file is detected.

  \<^bold>\<open>Records.\<close>  \<open>Record_Schema\<close> is the envelope of \<open>validate_record\<close> (\<open>floati/records.py\<close>), \<open>Record_Kinds\<close>
  its field validators, \<open>Fleet_Kinds\<close>, \<open>Run_Kinds\<close> and \<open>Mail_Kinds\<close> the branches of the kinds, and
  \<open>Governed_Kinds\<close> the table \<open>SPECS\<close> with the interpretations of the locales \<open>kind_table\<close>,
  \<open>record_reader\<close> and \<open>journal_records\<close>.  \<open>Kind_Properties\<close>: a record that a writer may append is
  read back; accepted intervals and attempt terminals are consistent.

  \<^bold>\<open>Ledgers.\<close>  \<open>Ledger_Store\<close> is \<open>floati/jsonl.py\<close> on the list of rows, \<open>Ledger_Bytes\<close> on the bytes of
  the file with short writes and failed syncs; the bytes refine the rows.  \<open>Ledger_Rows\<close>: members of
  rows, batches, and that what a validator of governed kinds lets append is read back.  \<open>Journal_Chain\<close>,
  \<open>Journal_Properties\<close>, \<open>Journal_Examples\<close>: the hash chain, checkpoints and rollback testimony of
  \<open>floati/journal_chain.py\<close>.

  \<^bold>\<open>Authority and work.\<close>  \<open>Planes\<close>, \<open>Planes_Safety\<close>: presence, acting authority and exclusion holds
  of \<open>floati/planes.py\<close>, whose tenures are disjoint and fenced by epochs.  \<open>Registry\<close>: nodes and their
  leases (\<open>floati/registry.py\<close>).  \<open>Work_Ledger\<close>, \<open>Work_Safety\<close>, \<open>Work_Properties\<close>: the work log of
  \<open>floati/work.py\<close> and \<open>floati/consumption.py\<close>, an authority-gated state machine over work items.

  \<^bold>\<open>Mail.\<close>  \<open>Mail_Ledger\<close>: the event ledger of \<open>floati/events.py\<close>, the reader that skips well-formed
  rows of newer kinds, and the replay check of event prefixes.  \<open>Mail_Bus\<close>: sending, retracting,
  presenting, acknowledging and draining (\<open>EventLog\<close>, and \<open>SparseCursor\<close> of \<open>floati/cursor.py\<close>) on a
  state of all ledgers and inbox snapshots.  \<open>Mail_Drain\<close>: \<open>empty_inbox\<close>, whose loop ends because every
  round acknowledges new events.  \<open>Mail_Safety\<close>, \<open>Mail_Inbox\<close>: the invariant of the ledgers, and the
  two computations of an inbox.  \<open>Mail_Writes\<close>: the elementary writes, each of which keeps the
  invariant; \<open>Mail_Steps\<close>, \<open>Mail_Operations\<close>: every operation is a sequence of them.  \<open>Mail_History\<close>:
  interleaved histories, where a send is a check and a later commit; \<open>Mail_Properties\<close>,
  \<open>Mail_Examples\<close>: the properties and a concrete history.

  \<^bold>\<open>Credentials.\<close>  \<open>Credential_Leases\<close>: the lease ledger and the delivery service of
  \<open>floati/credential_leases.py\<close>, over the authority rows of \<open>Planes\<close>.  \<open>Credential_Safety\<close>: the book of a
  ledger (an interpretation of \<open>projection\<close>) and histories of operations; \<open>Credential_Properties\<close>,
  \<open>Credential_Examples\<close>: on a host that records every start of the helper process with the rows of
  the ledger at that moment, a helper is started once for a lease and only after its consumption is in
  the ledger, within the term of the lease, and never for a lease granted before a revocation.
  \<open>Iso_Time\<close>: the timestamps the writers render and what a reader gets back from them.

  \<^bold>\<open>Approvals and effects.\<close>  \<open>Approvals\<close>: capability declarations, approval requests and decisions of
  \<open>floati/approvals.py\<close>; \<open>Approval_Safety\<close>, \<open>Approval_Examples\<close>: a request is decided once, and an
  action that passes the check was decided under an authority that is still active.  \<open>Effect_Book\<close>:
  the projection of the effect ledger (\<open>EffectProjection\<close> of \<open>floati/effects.py\<close>) and the evidence that
  acceptance reads; \<open>Effect_Ledger\<close>: the transaction with its retry rules and the operations of
  \<open>EffectController\<close>; \<open>Effect_Compensation\<close>: plans, proposals and executions of compensations.
  \<open>Effect_Safety\<close>: the machine of one operation (\<open>effect_move\<close>) that every lifecycle row follows;
  \<open>Effect_Invariant\<close>: the invariant of the book, an interpretation of \<open>projection\<close>; \<open>Effect_History\<close>:
  every operation is a sequence of admitted rows, and what each row keeps every history keeps;
  \<open>Effect_Budget\<close>: sums of claims and spend.  \<open>Effect_Properties\<close>, \<open>Effect_Retry\<close>, \<open>Effect_Evidence\<close>:
  one intent per key, evidence before confirmation, claims within the reservation, final
  confirmations, retries, and exact acceptance evidence.  \<open>Effect_Values\<close>, \<open>Effect_Examples\<close>: an
  effect that is lost and reconciled.  The answer of the run projection (\<open>effect_intent_context\<close> of
  \<open>floati/runtruth.py\<close>), the policy and the answer of the reconciliation observer are inputs.  The
  operations of the acceptance lock are atomic steps: \<open>compensation_confirm\<close> checks against the ledger
  it writes to.

  \<^bold>\<open>Locks.\<close>  \<open>Lock_Contracts\<close>, \<open>Lock_Projection\<close>, \<open>Lock_Ledger\<close>, \<open>Lock_Queue\<close> translate
  \<open>floati/locks/\<close>: the row contract, the replay of announcements, locks, handoffs and cars, the
  append operations, and the patch queue over the observations of a Git process.  \<open>Lock_Safety\<close>,
  \<open>Lock_Properties\<close>, \<open>Lock_Examples\<close>: the invariant of the projection and its consequences.

  \<^bold>\<open>Contracts.\<close>  \<open>Task_Contracts\<close>, \<open>Contract_Properties\<close>: the digest-bound task contracts and
  amendments of \<open>floati/contracts.py\<close>.

  \<^bold>\<open>Conventions.\<close>  A character is a code point below 256; text beyond it, floating point numbers,
  Python's recursion limit and its limit on decimal literals are outside the model, and where the code
  could meet them the model answers \<open>NotModelled\<close> or \<open>OutsideModel\<close>.  SHA-256, the Git process and
  fresh UUIDs and clock readings are arguments.  No installed reader older than a ledger is assumed.
  The limits of \<open>floati/jsonl.py\<close> (65536 bytes a record, 64 MiB and 100000 records a ledger) are the
  code's.  Recursions are structural or have a measure, but for the JSON parser:
  \<open>parse_value\<close> takes twice the length of its text as fuel (a step or two for each character), and
  \<open>loads_text\<close> proves that enough for every text the writers produce.

  \<^bold>\<open>Not modelled.\<close>  The file system below the ledgers (path resolution, symbolic links, lock
  acquisition and time-outs, epoch archives, quarantine and trash), processes and service units
  (workers, adapters, observers, wake daemons, the sequencer's socket), terminal and command-line surfaces,
  installation and updates, and diagnostics.  Of the record kinds, those whose branch needs
  floating point numbers, tables of policies, thread testimony, fleet updates and capability
  digests.

  The replay of a run (\<open>floati/runtruth.py\<close>) and the controllers that decide on it (scheduler,
  cancellation, suspension, spawn groups, admission) are not modelled either; their records are, with
  the record contracts.
\<close>

end
